(* ===== verification/Prelude.thy ===== *)
theory Prelude
  imports Main "HOL-Library.Sublist" "HOL-Library.AList" "HOL-Library.Char_ord"
    "HOL-Library.List_Lexorder"
begin

text \<open>
  Shared ground of the development: the named theorem collections, Go results as sums,
  the functions of Go's \<^verbatim>\<open>strings\<close>, \<^verbatim>\<open>strconv\<close> and \<^verbatim>\<open>path\<close> packages that the sources call, and
  the generic lemmas on lists and association lists that the component theories rest on.

  A Go string is a sequence of bytes, which is what \<^typ>\<open>string\<close> is in HOL (\<^typ>\<open>char\<close> has eight
  bits).  A Go map is an association list with distinct keys: its order is the iteration
  order of one run of the program, which Go leaves open, so a statement about every such
  list is a statement about every iteration order.
\<close>

section \<open>Theorem collections\<close>

named_theorems res_simps "computation rules of fallible operations"
named_theorems tbl_simps "effect of the table operations on lookups"
named_theorems inv_intros "preservation of component invariants, one fact per operation"
named_theorems eff_simps "which parts of the world an operation leaves alone"

section \<open>Results: an error on the left, a value on the right\<close>

definition bind_r :: "'e + 'a \<Rightarrow> ('a \<Rightarrow> 'e + 'b) \<Rightarrow> 'e + 'b" where
  "bind_r m f = (case m of Inl e \<Rightarrow> Inl e | Inr v \<Rightarrow> f v)"

definition guard_r :: "bool \<Rightarrow> 'e \<Rightarrow> 'e + unit" where
  "guard_r bad e = (if bad then Inl e else Inr ())"

definition is_ok :: "'e + 'a \<Rightarrow> bool" where
  "is_ok r = (case r of Inl _ \<Rightarrow> False | Inr _ \<Rightarrow> True)"

lemma bind_r_simps [simp, res_simps]:
  "bind_r (Inl e) f = Inl e" "bind_r (Inr v) f = f v"
  by (simp_all add: bind_r_def)

lemma bind_r_Inr_iff: "bind_r m f = Inr y \<longleftrightarrow> (\<exists>x. m = Inr x \<and> f x = Inr y)"
  by (cases m) auto

lemma bind_r_Inl_iff: "bind_r m f = Inl e \<longleftrightarrow> m = Inl e \<or> (\<exists>x. m = Inr x \<and> f x = Inl e)"
  by (cases m) auto

lemma guard_r_simps [simp]:
  "guard_r b e = Inr u \<longleftrightarrow> \<not> b" "guard_r b e = Inl e' \<longleftrightarrow> b \<and> e = e'"
  "guard_r False e = Inr ()" "guard_r True e = Inl e"
  by (auto simp: guard_r_def)

lemma is_ok_simps [simp, res_simps]: "is_ok (Inr v)" "\<not> is_ok (Inl e)"
  by (simp_all add: is_ok_def)

lemma is_ok_bind [simp]: "is_ok (bind_r m f) \<longleftrightarrow> (\<exists>x. m = Inr x \<and> is_ok (f x))"
  by (cases m) auto

lemma is_ok_guard [simp]: "is_ok (guard_r b e) \<longleftrightarrow> \<not> b"
  by (simp add: guard_r_def)

lemma is_ok_iff: "is_ok r \<longleftrightarrow> (\<exists>v. r = Inr v)"
  by (cases r) auto

lemma not_ok_iff: "\<not> is_ok r \<longleftrightarrow> (\<exists>e. r = Inl e)"
  by (cases r) auto

text \<open>A Go loop that stops at the first error: over a list for its results, and over a list
  for its checks only.\<close>

fun map_r :: "('a \<Rightarrow> 'e + 'b) \<Rightarrow> 'a list \<Rightarrow> 'e + 'b list" where
  "map_r f [] = Inr []"
| "map_r f (x # xs) =
     (case f x of
        Inl e \<Rightarrow> Inl e
      | Inr y \<Rightarrow> (case map_r f xs of Inl e \<Rightarrow> Inl e | Inr ys \<Rightarrow> Inr (y # ys)))"

fun check_r :: "('a \<Rightarrow> 'e + unit) \<Rightarrow> 'a list \<Rightarrow> 'e + unit" where
  "check_r f [] = Inr ()"
| "check_r f (x # xs) = (case f x of Inl e \<Rightarrow> Inl e | Inr _ \<Rightarrow> check_r f xs)"

lemma map_r_ok_iff: "map_r f xs = Inr ys \<longleftrightarrow> list_all2 (\<lambda>x y. f x = Inr y) xs ys"
proof (induction xs arbitrary: ys)
  case (Cons x xs)
  show ?case
    by (cases ys) (auto simp: Cons.IH [symmetric] split: sum.splits)
qed auto

lemma is_ok_map_r [simp]: "is_ok (map_r f xs) \<longleftrightarrow> list_all (\<lambda>x. is_ok (f x)) xs"
  by (induction xs) (auto split: sum.splits)

lemma is_ok_check_r [simp]: "is_ok (check_r f xs) \<longleftrightarrow> list_all (\<lambda>x. is_ok (f x)) xs"
  by (induction xs) (auto split: sum.splits)

lemma check_r_Inr [simp]: "check_r f xs = Inr u \<longleftrightarrow> list_all (\<lambda>x. f x = Inr ()) xs"
  by (induction xs) (auto split: sum.splits)

lemma check_r_InlD: "check_r f xs = Inl e \<Longrightarrow> \<exists>x\<in>set xs. f x = Inl e"
  by (induction xs) (auto split: sum.splits)

lemma map_r_InlD: "map_r f xs = Inl e \<Longrightarrow> \<exists>x\<in>set xs. f x = Inl e"
  by (induction xs) (auto split: sum.splits)

lemma map_r_length: "map_r f xs = Inr ys \<Longrightarrow> length ys = length xs"
  by (auto simp: map_r_ok_iff dest: list_all2_lengthD)

lemma map_r_total: "(\<And>x. x \<in> set xs \<Longrightarrow> f x = Inr (g x)) \<Longrightarrow> map_r f xs = Inr (map g xs)"
  by (induction xs) auto

lemma map_r_elem:
  assumes "map_r f xs = Inr ys" "y \<in> set ys"
  obtains x where "x \<in> set xs" "f x = Inr y"
proof -
  obtain i where "i < length ys" "y = ys ! i"
    using assms(2) by (auto simp: in_set_conv_nth)
  then show thesis
    using assms(1) that [of "xs ! i"] by (auto simp: map_r_ok_iff list_all2_conv_all_nth)
qed

lemma map_r_cong [fundef_cong]:
  "xs = ys \<Longrightarrow> (\<And>x. x \<in> set ys \<Longrightarrow> f x = g x) \<Longrightarrow> map_r f xs = map_r g ys"
proof (induction ys arbitrary: xs)
  case (Cons y ys)
  have y: "f y = g y" and ys: "map_r f ys = map_r g ys"
    using Cons by auto
  show ?case using Cons.prems(1) by (simp add: y ys split: sum.splits)
qed simp

section \<open>Association lists as Go maps\<close>

definition gmap_wf :: "('k \<times> 'v) list \<Rightarrow> bool" where
  "gmap_wf m \<longleftrightarrow> distinct (map fst m)"

lemma map_of_update [simp]: "map_of (AList.update k v m) = (map_of m)(k \<mapsto> v)"
  by (rule update_conv')

lemma gmap_wf_update [simp, intro]: "gmap_wf m \<Longrightarrow> gmap_wf (AList.update k v m)"
  by (simp add: gmap_wf_def distinct_update)

lemma gmap_wf_Nil [simp]: "gmap_wf []"
  by (simp add: gmap_wf_def)

lemma gmap_lookup_iff: "gmap_wf m \<Longrightarrow> map_of m k = Some v \<longleftrightarrow> (k, v) \<in> set m"
  by (simp add: gmap_wf_def)

end
