(* ===== verification/Go_Strings.thy ===== *)
theory Go_Strings
  imports Prelude
begin

text \<open>
  The functions of Go's standard library on strings that the sources call: the
  \<^verbatim>\<open>strings\<close> package (Contains, HasPrefix, Cut, Split, Join, ReplaceAll, TrimSpace, ...),
  \<^verbatim>\<open>path.Base\<close>, and the decimal conversions of \<^verbatim>\<open>strconv\<close> and \<^verbatim>\<open>fmt\<close>.
\<close>

section \<open>Characters and classes\<close>

named_theorems char_classes "definitions of the character classes"

definition is_lower :: "char \<Rightarrow> bool" where
  "is_lower c \<longleftrightarrow> CHR ''a'' \<le> c \<and> c \<le> CHR ''z''"

definition is_upper :: "char \<Rightarrow> bool" where
  "is_upper c \<longleftrightarrow> CHR ''A'' \<le> c \<and> c \<le> CHR ''Z''"

definition is_digit :: "char \<Rightarrow> bool" where
  "is_digit c \<longleftrightarrow> CHR ''0'' \<le> c \<and> c \<le> CHR ''9''"

definition is_alpha :: "char \<Rightarrow> bool" where
  "is_alpha c \<longleftrightarrow> is_lower c \<or> is_upper c"

definition is_alnum :: "char \<Rightarrow> bool" where
  "is_alnum c \<longleftrightarrow> is_alpha c \<or> is_digit c"

lemmas [char_classes] = is_lower_def is_upper_def is_digit_def is_alpha_def is_alnum_def

definition to_lower :: "char \<Rightarrow> char" where
  "to_lower c = (if is_upper c then char_of (of_char c + 32 :: nat) else c)"

text \<open>\<^verbatim>\<open>strings.EqualFold\<close> with an argument whose letters fold to ASCII letters only.\<close>

definition equal_fold :: "string \<Rightarrow> string \<Rightarrow> bool" where
  "equal_fold s t \<longleftrightarrow> map to_lower s = map to_lower t"

section \<open>Searching and cutting\<close>

definition has_prefix :: "string \<Rightarrow> string \<Rightarrow> bool" where
  "has_prefix s p = prefix p s"

definition has_suffix :: "string \<Rightarrow> string \<Rightarrow> bool" where
  "has_suffix s p = suffix p s"

definition trim_prefix :: "string \<Rightarrow> string \<Rightarrow> string" where
  "trim_prefix s p = (if has_prefix s p then drop (length p) s else s)"

definition trim_suffix :: "string \<Rightarrow> string \<Rightarrow> string" where
  "trim_suffix s p = (if has_suffix s p then take (length s - length p) s else s)"

text \<open>\<^verbatim>\<open>strings.Cut\<close> at a one-byte separator: the parts around its first occurrence.\<close>

definition cut_at :: "char \<Rightarrow> string \<Rightarrow> (string \<times> string) option" where
  "cut_at c s =
     (case dropWhile (\<lambda>d. d \<noteq> c) s of
        [] \<Rightarrow> None
      | _ # rest \<Rightarrow> Some (takeWhile (\<lambda>d. d \<noteq> c) s, rest))"

text \<open>\<^verbatim>\<open>strings.Contains\<close>.\<close>

definition contains_str :: "string \<Rightarrow> string \<Rightarrow> bool" where
  "contains_str s sub = list_ex (\<lambda>t. prefix sub t) (suffixes s)"

definition contains_any :: "string \<Rightarrow> string \<Rightarrow> bool" where
  "contains_any s chars = list_ex (\<lambda>c. c \<in> set chars) s"

text \<open>\<^verbatim>\<open>strings.Split\<close> at a one-byte separator and \<^verbatim>\<open>strings.Join\<close>.\<close>

fun split_at :: "char \<Rightarrow> string \<Rightarrow> string list" where
  "split_at c [] = [[]]"
| "split_at c (x # xs) =
     (if x = c then [] # split_at c xs
      else (case split_at c xs of [] \<Rightarrow> [[x]] | y # ys \<Rightarrow> (x # y) # ys))"

fun join_with :: "string \<Rightarrow> string list \<Rightarrow> string" where
  "join_with sep [] = []"
| "join_with sep [x] = x"
| "join_with sep (x # y # xs) = x @ sep @ join_with sep (y # xs)"

text \<open>\<^verbatim>\<open>strings.ReplaceAll\<close> with a non-empty pattern: left to right, without overlaps.\<close>

function replace_all :: "string \<Rightarrow> string \<Rightarrow> string \<Rightarrow> string" where
  "replace_all old new [] = []"
| "replace_all old new (x # xs) =
     (if old \<noteq> [] \<and> prefix old (x # xs)
      then new @ replace_all old new (drop (length old) (x # xs))
      else x # replace_all old new xs)"
  by pat_completeness auto
termination
  by (relation "measure (\<lambda>(_, _, s). length s)") (auto simp: neq_Nil_conv)

section \<open>White space\<close>

text \<open>The UTF-8 encodings of the runes of \<^verbatim>\<open>unicode.IsSpace\<close>.\<close>

definition space_encodings :: "string list" where
  "space_encodings =
     [[CHR 0x09], [CHR 0x0A], [CHR 0x0B], [CHR 0x0C], [CHR 0x0D], [CHR 0x20],
      [CHR 0xC2, CHR 0x85], [CHR 0xC2, CHR 0xA0], [CHR 0xE1, CHR 0x9A, CHR 0x80],
      [CHR 0xE2, CHR 0x80, CHR 0x80], [CHR 0xE2, CHR 0x80, CHR 0x81],
      [CHR 0xE2, CHR 0x80, CHR 0x82], [CHR 0xE2, CHR 0x80, CHR 0x83],
      [CHR 0xE2, CHR 0x80, CHR 0x84], [CHR 0xE2, CHR 0x80, CHR 0x85],
      [CHR 0xE2, CHR 0x80, CHR 0x86], [CHR 0xE2, CHR 0x80, CHR 0x87],
      [CHR 0xE2, CHR 0x80, CHR 0x88], [CHR 0xE2, CHR 0x80, CHR 0x89],
      [CHR 0xE2, CHR 0x80, CHR 0x8A], [CHR 0xE2, CHR 0x80, CHR 0xA8],
      [CHR 0xE2, CHR 0x80, CHR 0xA9], [CHR 0xE2, CHR 0x80, CHR 0xAF],
      [CHR 0xE2, CHR 0x81, CHR 0x9F], [CHR 0xE3, CHR 0x80, CHR 0x80]]"

definition strip_first :: "string list \<Rightarrow> string \<Rightarrow> string option" where
  "strip_first ps s =
     (case find (\<lambda>p. prefix p s) ps of
        None \<Rightarrow> None
      | Some p \<Rightarrow> if p = [] then None else Some (drop (length p) s))"

lemma strip_first_shorter: "strip_first ps s = Some t \<Longrightarrow> length t < length s"
  by (auto simp: strip_first_def find_Some_iff prefix_def split: option.splits if_splits)

function trim_left :: "string list \<Rightarrow> string \<Rightarrow> string" where
  "trim_left ps s = (case strip_first ps s of None \<Rightarrow> s | Some t \<Rightarrow> trim_left ps t)"
  by pat_completeness auto
termination
  by (relation "measure (\<lambda>(_, s). length s)") (auto dest: strip_first_shorter)

declare trim_left.simps [simp del]

definition trim_space :: "string \<Rightarrow> string" where
  "trim_space s =
     rev (trim_left (map rev space_encodings) (rev (trim_left space_encodings s)))"

section \<open>Decimal numbers\<close>

definition digit_char :: "nat \<Rightarrow> char" where
  "digit_char d = char_of (48 + d)"

fun nat_str :: "nat \<Rightarrow> string" where
  "nat_str n = (if n < 10 then [digit_char n] else nat_str (n div 10) @ [digit_char (n mod 10)])"

declare nat_str.simps [simp del]

definition itoa :: "int \<Rightarrow> string" where
  "itoa i = (if i < 0 then CHR ''-'' # nat_str (nat (- i)) else nat_str (nat i))"

definition digits_val :: "string \<Rightarrow> nat" where
  "digits_val s = foldl (\<lambda>n c. 10 * n + (of_char c - 48)) 0 s"

text \<open>\<^verbatim>\<open>strconv.ParseInt(s, 10, 64)\<close>: an optional sign, at least one digit, and the range of
  int64.\<close>

definition parse_int64 :: "string \<Rightarrow> int option" where
  "parse_int64 s =
     (let (neg, ds) = (case s of
             [] \<Rightarrow> (False, [])
           | c # r \<Rightarrow> if c = CHR ''-'' then (True, r) else if c = CHR ''+'' then (False, r)
                      else (False, s));
          v = (if neg then - int (digits_val ds) else int (digits_val ds))
      in if ds \<noteq> [] \<and> list_all is_digit ds \<and> - (2 ^ 63) \<le> v \<and> v < 2 ^ 63 then Some v
         else None)"

section \<open>Paths\<close>

text \<open>\<^verbatim>\<open>path.Base\<close>: the last element of a slash-separated path.\<close>

definition strip_slashes :: "string \<Rightarrow> string" where
  "strip_slashes s = rev (dropWhile (\<lambda>c. c = CHR ''/'') (rev s))"

definition path_base :: "string \<Rightarrow> string" where
  "path_base s =
     (if s = [] then ''.''
      else let t = rev (takeWhile (\<lambda>c. c \<noteq> CHR ''/'') (rev (strip_slashes s)))
           in if t = [] then ''/'' else t)"

section \<open>Facts\<close>

lemma cut_at_Some_iff:
  "cut_at c s = Some (a, b) \<longleftrightarrow> s = a @ c # b \<and> c \<notin> set a"
proof
  assume "cut_at c s = Some (a, b)"
  then obtain d where d': "dropWhile (\<lambda>d. d \<noteq> c) s = d # b" and a: "a = takeWhile (\<lambda>d. d \<noteq> c) s"
    by (auto simp: cut_at_def split: list.splits)
  have d: "dropWhile (\<lambda>d. d \<noteq> c) s = c # b"
    using hd_dropWhile [of "\<lambda>d. d \<noteq> c" s] d' by simp
  from a d show "s = a @ c # b \<and> c \<notin> set a"
    using takeWhile_dropWhile_id [of "\<lambda>d. d \<noteq> c" s] by (auto dest: set_takeWhileD)
next
  assume "s = a @ c # b \<and> c \<notin> set a"
  then show "cut_at c s = Some (a, b)"
    by (auto simp: cut_at_def dropWhile_append takeWhile_append)
qed

lemma cut_at_None_iff: "cut_at c s = None \<longleftrightarrow> c \<notin> set s"
proof
  assume "cut_at c s = None"
  then show "c \<notin> set s"
    using cut_at_Some_iff [of c s] by (metis option.distinct(1) split_list_first)
next
  assume "c \<notin> set s"
  then show "cut_at c s = None"
    by (cases "cut_at c s") (auto simp: cut_at_Some_iff)
qed

lemma contains_str_iff: "contains_str s sub \<longleftrightarrow> (\<exists>a b. s = a @ sub @ b)"
  by (fastforce simp: contains_str_def list_ex_iff prefix_def suffix_def)

lemma contains_any_iff: "contains_any s cs \<longleftrightarrow> set s \<inter> set cs \<noteq> {}"
  by (auto simp: contains_any_def list_ex_iff)

lemma split_at_not_Nil [simp]: "split_at c s \<noteq> []"
  by (induction s) (auto split: list.splits)

lemma split_at_no_sep: "t \<in> set (split_at c s) \<Longrightarrow> c \<notin> set t"
  by (induction s arbitrary: t) (auto split: if_splits list.splits)

lemma join_split: "join_with [c] (split_at c s) = s"
proof (induction s)
  case (Cons x xs)
  obtain y ys where y: "split_at c xs = y # ys"
    by (cases "split_at c xs") auto
  show ?case
    using Cons.IH by (cases ys) (auto simp: y)
qed simp

lemma split_at_no: "c \<notin> set s \<Longrightarrow> split_at c s = [s]"
  by (induction s) auto

lemma split_at_append: "c \<notin> set s \<Longrightarrow> split_at c (s @ c # t) = s # split_at c t"
  by (induction s) auto

lemma split_join:
  assumes "xs \<noteq> []" "\<And>x. x \<in> set xs \<Longrightarrow> c \<notin> set x"
  shows "split_at c (join_with [c] xs) = xs"
  using assms
proof (induction "[c]" xs rule: join_with.induct)
  case (3 x y xs)
  then show ?case by (simp add: split_at_append)
qed (auto simp: split_at_no)

lemma replace_all_absent:
  assumes "old \<noteq> []" "\<And>t. suffix t s \<Longrightarrow> \<not> prefix old t"
  shows "replace_all old new s = s"
  using assms
proof (induction s)
  case (Cons x xs)
  have "\<not> prefix old (x # xs)" using Cons.prems(2) by blast
  moreover have "replace_all old new xs = xs"
    by (rule Cons.IH [OF Cons.prems(1)]) (use Cons.prems(2) in \<open>auto simp: suffix_Cons\<close>)
  ultimately show ?case by simp
qed simp

lemma replace_all_char: "replace_all [c] new s = concat (map (\<lambda>x. if x = c then new else [x]) s)"
  by (induction s) auto

lemma take_drop_while: "dropWhile P s = c # t \<Longrightarrow> s = takeWhile P s @ c # t"
  by (metis takeWhile_dropWhile_id)

lemma takeWhile_all_append: "list_all P a \<Longrightarrow> takeWhile P (a @ b) = a @ takeWhile P b"
  by (simp add: list_all_iff)

lemma dropWhile_all_append: "list_all P a \<Longrightarrow> dropWhile P (a @ b) = dropWhile P b"
  by (simp add: list_all_iff)

lemma trim_left_id: "strip_first ps s = None \<Longrightarrow> trim_left ps s = s"
  by (simp add: trim_left.simps)

lemma digit_char_is_digit: "d < 10 \<Longrightarrow> is_digit (digit_char d)"
  by (auto simp: digit_char_def is_digit_def less_eq_char_def)

lemma digit_char_val: "d < 10 \<Longrightarrow> of_char (digit_char d) = 48 + d"
  by (simp add: digit_char_def)

lemma nat_str_digits: "list_all is_digit (nat_str n)"
proof (induction n rule: nat_str.induct)
  case (1 n)
  then show ?case
    by (subst nat_str.simps) (auto simp: digit_char_is_digit)
qed

lemma nat_str_not_Nil [simp]: "nat_str n \<noteq> []"
  by (subst nat_str.simps) auto

lemma digits_val_snoc: "digits_val (s @ [c]) = 10 * digits_val s + (of_char c - 48)"
  by (simp add: digits_val_def)

lemma digits_val_nat_str: "digits_val (nat_str n) = n"
proof (induction n rule: nat_str.induct)
  case (1 n)
  show ?case
  proof (cases "n < 10")
    case True
    then have "nat_str n = [digit_char n]" by (subst nat_str.simps) simp
    then show ?thesis using True by (simp add: digits_val_def digit_char_val)
  next
    case False
    then have "nat_str n = nat_str (n div 10) @ [digit_char (n mod 10)]"
      by (subst nat_str.simps) simp
    then show ?thesis using False 1 by (simp add: digits_val_snoc digit_char_val)
  qed
qed

lemma nat_str_inject [simp]: "nat_str m = nat_str n \<longleftrightarrow> m = n"
  by (metis digits_val_nat_str)

lemma parse_int64_nat_str: "int n < 2 ^ 63 \<Longrightarrow> parse_int64 (nat_str n) = Some (int n)"
proof -
  assume n: "int n < 2 ^ 63"
  obtain c r where cr: "nat_str n = c # r" by (cases "nat_str n") auto
  have "is_digit c" using nat_str_digits [of n] cr by simp
  then have "c \<noteq> CHR ''-''" "c \<noteq> CHR ''+''"
    by (auto simp: is_digit_def less_eq_char_def)
  then show ?thesis
    using n nat_str_digits [of n] digits_val_nat_str [of n] cr
    by (simp add: parse_int64_def)
qed

lemma nat_str_0 [simp]: "nat_str 0 = ''0''"
  by code_simp

lemma path_base_no_slash: "CHR ''/'' \<notin> set (path_base s) \<or> path_base s = ''/''"
  by (auto simp: path_base_def Let_def dest: set_takeWhileD)

end
