(* ===== verification/Auth.thy ===== *)
theory Auth
  imports Go_Strings
begin

text \<open>
  Bearer tokens (\<^verbatim>\<open>internal/auth\<close>): generation, splitting, hashing and verification
  (\<^verbatim>\<open>token.go\<close>) and the HTTP middleware (\<^verbatim>\<open>middleware.go\<close>).  A byte slice is a string; the
  random source is an argument that holds the bytes it returned, or None when it failed; the
  argon2id key derivation (golang.org/x/crypto) is the parameter \<^verbatim>\<open>argon\<close> of password and
  salt.  Hexadecimal and base64url are those of the Go library.
\<close>

section \<open>Hexadecimal and base64url\<close>

definition hex_digit :: "nat \<Rightarrow> char" where
  "hex_digit n = ''0123456789abcdef'' ! n"

fun hex_encode :: "string \<Rightarrow> string" where
  "hex_encode [] = []"
| "hex_encode (c # cs) = hex_digit (of_char c div 16) # hex_digit (of_char c mod 16) # hex_encode cs"

definition hex_val :: "char \<Rightarrow> nat option" where
  "hex_val c =
     (let n = of_char c :: nat in
      if 48 \<le> n \<and> n \<le> 57 then Some (n - 48)
      else if 97 \<le> n \<and> n \<le> 102 then Some (n - 87)
      else if 65 \<le> n \<and> n \<le> 70 then Some (n - 55) else None)"

fun hex_decode :: "string \<Rightarrow> string option" where
  "hex_decode [] = Some []"
| "hex_decode [c] = None"
| "hex_decode (a # b # cs) =
     (case (hex_val a, hex_val b, hex_decode cs) of
        (Some x, Some y, Some r) \<Rightarrow> Some (char_of (16 * x + y) # r)
      | _ \<Rightarrow> None)"

definition b64_char :: "nat \<Rightarrow> char" where
  "b64_char n =
     ''ABCDEFGHIJKLMNOPQRSTUVWXYZabcdefghijklmnopqrstuvwxyz0123456789-_'' ! (n mod 64)"

fun b64url_encode :: "string \<Rightarrow> string" where
  "b64url_encode [] = []"
| "b64url_encode [a] =
     (let n = of_char a * 65536 in [b64_char (n div 262144), b64_char (n div 4096)])"
| "b64url_encode [a, b] =
     (let n = of_char a * 65536 + of_char b * 256
      in [b64_char (n div 262144), b64_char (n div 4096), b64_char (n div 64)])"
| "b64url_encode (a # b # c # r) =
     (let n = of_char a * 65536 + of_char b * 256 + of_char c
      in b64_char (n div 262144) # b64_char (n div 4096) # b64_char (n div 64) # b64_char n #
         b64url_encode r)"

section \<open>Tokens\<close>

datatype auth_err = Rand_Failed | ErrInvalidToken | ErrInvalidHash

definition v2TokenPrefix :: string where "v2TokenPrefix = ''pmc_''"
definition hashPrefix :: string where "hashPrefix = ''argon2id$v1$''"

definition GenerateToken :: "string option \<Rightarrow> string option \<Rightarrow> auth_err + string" where
  "GenerateToken idBytes secretBytes =
     (case idBytes of
        None \<Rightarrow> Inl Rand_Failed
      | Some ib \<Rightarrow>
         (case secretBytes of
            None \<Rightarrow> Inl Rand_Failed
          | Some sb \<Rightarrow> Inr (v2TokenPrefix @ hex_encode ib @ ''_'' @ b64url_encode sb)))"

definition SplitToken :: "string \<Rightarrow> string \<times> string" where
  "SplitToken token =
     (if \<not> has_prefix token v2TokenPrefix then ([], token)
      else (case cut_at (CHR ''_'') (trim_prefix token v2TokenPrefix) of
              None \<Rightarrow> ([], token)
            | Some (tid, secret) \<Rightarrow> (tid, secret)))"

definition HashToken ::
  "(string \<Rightarrow> string \<Rightarrow> string) \<Rightarrow> string option \<Rightarrow> string \<Rightarrow> auth_err + string" where
  "HashToken argon saltBytes token =
     (if token = [] then Inl ErrInvalidToken
      else (case saltBytes of
              None \<Rightarrow> Inl Rand_Failed
            | Some salt \<Rightarrow>
                Inr (hashPrefix @ hex_encode salt @ ''$'' @ hex_encode (argon token salt))))"

definition VerifyToken ::
  "(string \<Rightarrow> string \<Rightarrow> string) \<Rightarrow> string \<Rightarrow> string \<Rightarrow> auth_err + bool" where
  "VerifyToken argon token stored =
     (if \<not> has_prefix stored hashPrefix then Inl ErrInvalidHash
      else (case split_at (CHR ''$'') (trim_prefix stored hashPrefix) of
              [p0, p1] \<Rightarrow>
                (case hex_decode p0 of
                   None \<Rightarrow> Inl ErrInvalidHash
                 | Some salt \<Rightarrow>
                    if length salt \<noteq> 16 then Inl ErrInvalidHash
                    else (case hex_decode p1 of
                            None \<Rightarrow> Inl ErrInvalidHash
                          | Some want \<Rightarrow>
                              if length want \<noteq> 32 then Inl ErrInvalidHash
                              else Inr (want = argon token salt)))
            | _ \<Rightarrow> Inl ErrInvalidHash))"

section \<open>The middleware\<close>

definition extractBearer :: "string \<Rightarrow> string option" where
  "extractBearer header0 =
     (let header = trim_space header0 in
      if header = [] then None
      else if length header < 7 \<or> \<not> equal_fold (take 7 header) ''bearer '' then None
      else (let token = trim_space (drop 7 header) in if token = [] then None else Some token))"

datatype 'u auth_result = Unauthorized | Pass 'u

text \<open>\<^verbatim>\<open>Bearer\<close>: the lookup may change the state it runs on (it records the use of a token).\<close>

definition Bearer ::
  "(string \<Rightarrow> 'st \<Rightarrow> ('e + 'u option) \<times> 'st) \<Rightarrow> string \<Rightarrow> 'st \<Rightarrow> 'u auth_result \<times> 'st" where
  "Bearer lookup header st =
     (case extractBearer header of
        None \<Rightarrow> (Unauthorized, st)
      | Some token \<Rightarrow>
         (case lookup token st of
            (Inl e, st') \<Rightarrow> (Unauthorized, st')
          | (Inr None, st') \<Rightarrow> (Unauthorized, st')
          | (Inr (Some u), st') \<Rightarrow> (Pass u, st')))"

text \<open>What the middleware relies on: a lookup that returns a user has checked the token.\<close>

locale token_lookup =
  fixes lookup :: "string \<Rightarrow> 'st \<Rightarrow> ('e + 'u option) \<times> 'st"
    and accepts :: "'st \<Rightarrow> string \<Rightarrow> 'u \<Rightarrow> bool"
  assumes lookup_sound: "fst (lookup t s) = Inr (Some u) \<Longrightarrow> accepts s t u"
    and lookup_complete: "accepts s t u \<Longrightarrow> \<exists>u'. fst (lookup t s) = Inr (Some u')"
begin

lemma bearer_pass:
  "fst (Bearer lookup h s) = Pass u \<Longrightarrow> \<exists>t. extractBearer h = Some t \<and> accepts s t u"
  using lookup_sound
  by (fastforce simp: Bearer_def split: option.splits prod.splits sum.splits)

lemma bearer_iff:
  "fst (Bearer lookup h s) \<noteq> Unauthorized \<longleftrightarrow> (\<exists>t u. extractBearer h = Some t \<and> accepts s t u)"
proof
  assume "fst (Bearer lookup h s) \<noteq> Unauthorized"
  then obtain u where "fst (Bearer lookup h s) = Pass u" by (cases "fst (Bearer lookup h s)") auto
  then show "\<exists>t u. extractBearer h = Some t \<and> accepts s t u" using bearer_pass by blast
next
  assume "\<exists>t u. extractBearer h = Some t \<and> accepts s t u"
  then obtain t u' where "extractBearer h = Some t" "fst (lookup t s) = Inr (Some u')"
    using lookup_complete by blast
  then show "fst (Bearer lookup h s) \<noteq> Unauthorized"
    by (cases "lookup t s") (simp add: Bearer_def)
qed

end

section \<open>Facts\<close>

lemma hex_digit_val: "n < 16 \<Longrightarrow> hex_val (hex_digit n) = Some n"
  and hex_digit_chars: "n < 16 \<Longrightarrow> hex_digit n \<noteq> CHR ''$'' \<and> hex_digit n \<noteq> CHR ''_''"
proof -
  assume "n < 16"
  then have "n \<in> set [0..<16]" by simp
  moreover have "list_all (\<lambda>n. hex_val (hex_digit n) = Some n \<and> hex_digit n \<noteq> CHR ''$'' \<and>
      hex_digit n \<noteq> CHR ''_'') [0..<16]"
    by code_simp
  ultimately have "hex_val (hex_digit n) = Some n \<and> hex_digit n \<noteq> CHR ''$'' \<and> hex_digit n \<noteq> CHR ''_''"
    unfolding list_all_iff by blast
  then show "hex_val (hex_digit n) = Some n" "hex_digit n \<noteq> CHR ''$'' \<and> hex_digit n \<noteq> CHR ''_''"
    by simp_all
qed

lemma of_char_div: "(of_char c :: nat) div 16 < 16" "(of_char c :: nat) mod 16 < 16"
  using nat_of_char_less_256 [of c] by (simp_all only: less_mult_imp_div_less)

lemma hex_decode_encode [simp]: "hex_decode (hex_encode s) = Some s"
proof (induction s)
  case (Cons c s)
  have "char_of (16 * (of_char c div 16) + of_char c mod 16 :: nat) = c" by simp
  then show ?case using Cons by (simp add: hex_digit_val of_char_div)
qed simp

lemma hex_encode_chars: "CHR ''$'' \<notin> set (hex_encode s) \<and> CHR ''_'' \<notin> set (hex_encode s)"
proof (induction s)
  case (Cons c s)
  have "hex_digit (of_char c div 16) \<notin> {CHR ''$'', CHR ''_''}"
    "hex_digit (of_char c mod 16) \<notin> {CHR ''$'', CHR ''_''}"
    using hex_digit_chars of_char_div [of c] by blast+
  then show ?case using Cons by auto
qed simp

lemma hex_encode_inject [simp]: "hex_encode s = hex_encode t \<longleftrightarrow> s = t"
  by (metis hex_decode_encode option.inject)

lemma length_hex_encode [simp]: "length (hex_encode s) = 2 * length s"
  by (induction s) auto

lemma split_two: "c \<notin> set a \<Longrightarrow> c \<notin> set b \<Longrightarrow> split_at c (a @ c # b) = [a, b]"
  by (simp add: split_at_append split_at_no)

lemma verify_hashed:
  assumes "HashToken argon (Some salt) token = Inr stored"
    and "length salt = 16" "length (argon token salt) = 32"
  shows "VerifyToken argon t stored = Inr (argon t salt = argon token salt)"
proof -
  have st: "stored = hashPrefix @ hex_encode salt @ ''$'' @ hex_encode (argon token salt)"
    using assms(1) by (auto simp: HashToken_def split: if_splits)
  have "split_at (CHR ''$'') (hex_encode salt @ CHR ''$'' # hex_encode (argon token salt))
      = [hex_encode salt, hex_encode (argon token salt)]"
    using hex_encode_chars by (intro split_two) blast+
  then show ?thesis
    using assms(2,3) by (auto simp: VerifyToken_def st has_prefix_def trim_prefix_def)
qed

lemma SplitToken_parts:
  "CHR ''_'' \<notin> set i \<Longrightarrow> SplitToken (v2TokenPrefix @ i @ ''_'' @ sec) = (i, sec)"
proof -
  assume "CHR ''_'' \<notin> set i"
  then have "cut_at (CHR ''_'') (i @ CHR ''_'' # sec) = Some (i, sec)" by (simp add: cut_at_Some_iff)
  then show ?thesis by (simp add: SplitToken_def has_prefix_def trim_prefix_def)
qed

lemma split_generated:
  "GenerateToken (Some ib) (Some sb) = Inr token \<Longrightarrow>
     SplitToken token = (hex_encode ib, b64url_encode sb)"
  using SplitToken_parts [of "hex_encode ib" "b64url_encode sb"] hex_encode_chars
  by (simp add: GenerateToken_def)

section \<open>Properties\<close>

text \<open>A generated token is split into exactly the parts it was built from: the
  hexadecimal id (eight characters for four bytes) and the base64url secret, whatever
  underscores the secret holds.\<close>

theorem split_generated_token:
  assumes "GenerateToken (Some ib) (Some sb) = Inr token"
  shows "SplitToken token = (hex_encode ib, b64url_encode sb) \<and>
    hex_decode (fst (SplitToken token)) = Some ib \<and>
    length (fst (SplitToken token)) = 2 * length ib"
  using split_generated [OF assms] by simp

theorem split_generated_token_witness:
  "GenerateToken (Some ''ab'') (Some [CHR 0xFF]) = Inr ''pmc_6162__w'' \<and>
   SplitToken ''pmc_6162__w'' = (''6162'', ''_w'')"
proof -
  have g: "GenerateToken (Some ''ab'') (Some [CHR 0xFF]) = Inr ''pmc_6162__w''"
    by (simp add: GenerateToken_def v2TokenPrefix_def hex_digit_def b64_char_def Let_def)
  have "hex_encode ''ab'' = ''6162'' \<and> b64url_encode [CHR 0xFF] = ''_w''"
    by (simp add: hex_digit_def b64_char_def Let_def)
  then show ?thesis using g split_generated_token [OF g] by simp
qed

text \<open>Verification against a stored hash succeeds for a token if and only if the
  key derivation maps it, under the stored salt, to what it mapped the hashed token to; in
  particular the hashed token itself always verifies and the hash is never reported as
  corrupt.\<close>

theorem verify_hashed_token:
  assumes "HashToken argon (Some salt) token = Inr stored"
    and "length salt = 16" "length (argon token salt) = 32"
  shows "VerifyToken argon t stored = Inr (argon t salt = argon token salt)"
  by (rule verify_hashed [OF assms])

definition toy_kdf :: "string \<Rightarrow> string \<Rightarrow> string" where
  "toy_kdf t salt = take 32 (t @ salt @ replicate 32 (CHR ''.''))"

theorem verify_hashed_token_witness:
  "\<exists>stored. HashToken toy_kdf (Some (replicate 16 (CHR ''s''))) ''pw'' = Inr stored \<and>
     VerifyToken toy_kdf ''pw'' stored = Inr True \<and> VerifyToken toy_kdf ''px'' stored = Inr False"
proof -
  let ?salt = "replicate 16 (CHR ''s'')"
  obtain stored where st: "HashToken toy_kdf (Some ?salt) ''pw'' = Inr stored"
    by (simp add: HashToken_def)
  have l: "length ?salt = 16" "length (toy_kdf ''pw'' ?salt) = 32" by (simp_all add: toy_kdf_def)
  have "toy_kdf ''px'' ?salt \<noteq> toy_kdf ''pw'' ?salt" by (simp add: toy_kdf_def)
  then show ?thesis
    using verify_hashed_token [OF st l, of "''pw''"] verify_hashed_token [OF st l, of "''px''"] st
    by simp
qed

end
