(* ===== verification/Tables.thy ===== *)
theory Tables
  imports Go_Strings "HOL-Library.Product_Lexorder"
begin

text \<open>
  Rows of an SQL table as a list in insertion order, the statements the store uses on one
  key column (select, insert, update, delete), and the contract of a table of named rows as a
  locale: what a lookup returns after a create and after a delete, and that a failed statement
  changes nothing.  Every store theory interprets the locale on its own operations.
\<close>

section \<open>Statements on a key column\<close>

definition row_find :: "('r \<Rightarrow> 'k) \<Rightarrow> 'k \<Rightarrow> 'r list \<Rightarrow> 'r option" where
  "row_find key k rows = find (\<lambda>r. key r = k) rows"

definition row_update :: "('r \<Rightarrow> 'k) \<Rightarrow> 'k \<Rightarrow> ('r \<Rightarrow> 'r) \<Rightarrow> 'r list \<Rightarrow> 'r list" where
  "row_update key k f rows = map (\<lambda>r. if key r = k then f r else r) rows"

definition row_delete :: "('r \<Rightarrow> 'k) \<Rightarrow> 'k \<Rightarrow> 'r list \<Rightarrow> 'r list" where
  "row_delete key k rows = filter (\<lambda>r. key r \<noteq> k) rows"

definition unique_key :: "('r \<Rightarrow> 'k) \<Rightarrow> 'r list \<Rightarrow> bool" where
  "unique_key key rows = distinct (map key rows)"

text \<open>The row id SQLite picks for an \<^verbatim>\<open>INTEGER PRIMARY KEY\<close>: one more than the largest.\<close>

definition next_rowid :: "int list \<Rightarrow> int" where
  "next_rowid ids = fold max ids 0 + 1"

lemma row_find_None: "row_find key k rows = None \<longleftrightarrow> k \<notin> key ` set rows"
  by (auto simp: row_find_def find_None_iff)

lemma row_find_SomeD: "row_find key k rows = Some r \<Longrightarrow> r \<in> set rows \<and> key r = k"
  by (auto simp: row_find_def find_Some_iff)

lemma row_find_unique:
  "unique_key key rows \<Longrightarrow> row_find key k rows = Some r \<longleftrightarrow> r \<in> set rows \<and> key r = k"
proof
  assume u: "unique_key key rows" and r: "r \<in> set rows \<and> key r = k"
  then obtain r' where r': "row_find key k rows = Some r'"
    by (cases "row_find key k rows") (auto simp: row_find_None)
  then have "r' \<in> set rows" "key r' = key r" using r by (auto dest: row_find_SomeD)
  then have "r' = r" using u r by (auto simp: unique_key_def distinct_map dest: inj_onD)
  then show "row_find key k rows = Some r" using r' by simp
qed (auto dest: row_find_SomeD)

lemma row_find_append [tbl_simps]:
  "row_find key k (rows @ [r]) =
     (case row_find key k rows of Some x \<Rightarrow> Some x | None \<Rightarrow> if key r = k then Some r else None)"
  by (induction rows) (auto simp: row_find_def)

lemma row_find_update [tbl_simps]:
  "(\<And>r. key (f r) = key r) \<Longrightarrow>
     row_find key k' (row_update key k f rows) =
       map_option (\<lambda>r. if k' = k then f r else r) (row_find key k' rows)"
  by (induction rows) (auto simp: row_find_def row_update_def)

lemma row_find_delete [tbl_simps]:
  "row_find key k' (row_delete key k rows) = (if k' = k then None else row_find key k' rows)"
  by (induction rows) (auto simp: row_find_def row_delete_def)

lemma unique_key_append [tbl_simps]:
  "unique_key key (rows @ [r]) \<longleftrightarrow> unique_key key rows \<and> row_find key (key r) rows = None"
  by (auto simp: unique_key_def row_find_None)

lemma unique_key_update [tbl_simps]:
  "(\<And>r. key' (f r) = key' r) \<Longrightarrow> unique_key key' (row_update key k f rows) = unique_key key' rows"
proof -
  assume "\<And>r. key' (f r) = key' r"
  then have "map key' (row_update key k f rows) = map key' rows"
    by (simp add: row_update_def)
  then show ?thesis by (simp add: unique_key_def)
qed

lemma unique_key_delete [tbl_simps]: "unique_key key rows \<Longrightarrow> unique_key key (row_delete key' k rows)"
  by (simp add: unique_key_def row_delete_def distinct_map_filter)

lemma unique_key_filter [tbl_simps]: "unique_key key rows \<Longrightarrow> unique_key key (filter P rows)"
  by (simp add: unique_key_def distinct_map_filter)

lemma unique_key_Nil [tbl_simps, simp]: "unique_key key []"
  by (simp add: unique_key_def)

lemma set_row_update: "set (row_update key k f rows) = (\<lambda>r. if key r = k then f r else r) ` set rows"
  by (simp add: row_update_def)

lemma set_row_delete [simp]: "set (row_delete key k rows) = {r \<in> set rows. key r \<noteq> k}"
  by (simp add: row_delete_def)

lemma row_update_id: "row_find key k rows = None \<Longrightarrow> row_update key k f rows = rows"
  by (auto simp: row_find_None row_update_def intro!: map_idI)

lemma row_delete_id: "row_find key k rows = None \<Longrightarrow> row_delete key k rows = rows"
  by (auto simp: row_find_None row_delete_def filter_id_conv)

lemma fold_max_ge: "x \<in> set xs \<Longrightarrow> x \<le> fold max xs (a::int)"
  by (metis List.finite_set Max_ge Max.set_eq_fold finite_insert insertI2 list.simps(15) insert_iff)

lemma next_rowid_fresh: "next_rowid ids \<notin> set ids"
  using fold_max_ge [of "next_rowid ids" ids 0] by (auto simp: next_rowid_def)

lemma row_find_next_rowid [tbl_simps]: "row_find f (next_rowid (map f rows)) rows = None"
  using next_rowid_fresh [of "map f rows"] by (simp add: row_find_None)

lemma keys_row_update [tbl_simps]:
  "(\<And>r. key' (f r) = key' r) \<Longrightarrow> key' ` set (row_update key k f rows) = key' ` set rows"
  by (induction rows) (simp_all add: row_update_def)

lemma all_row_update:
  "(\<And>r. P r \<Longrightarrow> P (f r)) \<Longrightarrow> list_all P rows \<Longrightarrow> list_all P (row_update key k f rows)"
  by (induction rows) (simp_all add: row_update_def)

lemma all_filter: "list_all P rows \<Longrightarrow> list_all P (filter Q rows)"
  by (induction rows) simp_all

lemma all_filter_imp:
  "list_all P rows \<Longrightarrow> (\<And>r. P r \<Longrightarrow> Q r \<Longrightarrow> R r) \<Longrightarrow> list_all R (filter Q rows)"
  by (induction rows) simp_all

lemma key_filter_out:
  "x \<in> key ` set rows \<Longrightarrow> x \<notin> key ` set (filter P rows) \<Longrightarrow> x \<in> key ` set (filter (\<lambda>r. \<not> P r) rows)"
  by auto

section \<open>The contract of a table of named rows\<close>

locale named_rows =
  fixes lookup :: "'st \<Rightarrow> 'k \<Rightarrow> 'r option"
    and create :: "'k \<Rightarrow> 'v \<Rightarrow> 'st \<Rightarrow> ('e + 'a) \<times> 'st"
    and delete :: "'k \<Rightarrow> 'st \<Rightarrow> ('e + unit) \<times> 'st"
    and inv :: "'st \<Rightarrow> bool"
    and holds :: "'v \<Rightarrow> 'r \<Rightarrow> bool"
  assumes create_ok: "create k v s = (Inr a, s') \<Longrightarrow>
      lookup s k = None \<and> (\<exists>r. lookup s' k = Some r \<and> holds v r)"
    and create_other: "create k v s = (x, s') \<Longrightarrow> k' \<noteq> k \<Longrightarrow> lookup s' k' = lookup s k'"
    and create_err: "create k v s = (Inl e, s') \<Longrightarrow> s' = s"
    and create_inv: "inv s \<Longrightarrow> inv (snd (create k v s))"
    and delete_lookup: "lookup (snd (delete k s)) k' = (if k' = k then None else lookup s k')"
    and delete_fst: "is_ok (fst (delete k s)) \<longleftrightarrow> lookup s k \<noteq> None"
    and delete_err: "delete k s = (Inl e, s') \<Longrightarrow> s' = s"
    and delete_inv: "inv s \<Longrightarrow> inv (snd (delete k s))"
begin

lemma create_taken: "lookup s k \<noteq> None \<Longrightarrow> \<exists>e. create k v s = (Inl e, s)"
  using create_ok [of k v s] create_err [of k v s] by (cases "create k v s"; cases "fst (create k v s)") auto

text \<open>A created row can be read back, cannot be created again, and deleting it takes every
  lookup back to what it was before.\<close>

lemma create_delete:
  assumes "create k v s = (Inr a, s1)"
  shows "(\<exists>r. lookup s1 k = Some r \<and> holds v r) \<and> (\<exists>e. create k w s1 = (Inl e, s1)) \<and>
    is_ok (fst (delete k s1)) \<and> lookup (snd (delete k s1)) = lookup s"
proof -
  obtain r where r: "lookup s1 k = Some r" "holds v r" and none: "lookup s k = None"
    using create_ok [OF assms] by blast
  have "\<exists>e. create k w s1 = (Inl e, s1)" by (rule create_taken) (simp add: r)
  moreover have "is_ok (fst (delete k s1))" by (simp add: delete_fst r)
  moreover have "lookup (snd (delete k s1)) = lookup s"
    using create_other [OF assms] none by (auto simp: delete_lookup)
  ultimately show ?thesis using r by blast
qed

lemma delete_twice: "\<not> is_ok (fst (delete k (snd (delete k s))))"
  by (simp add: delete_fst delete_lookup)

end

end
