(* ===== verification/Store_Schema.thy ===== *)
theory Store_Schema
  imports Tables
begin

text \<open>
  The rows of the SQLite database (\<^verbatim>\<open>internal/store\<close>, with the constraints of \<^verbatim>\<open>migrations/*.sql\<close>)
  and the database as one record of tables.  A nullable column is an option; a \<^verbatim>\<open>time.Time\<close> is
  its unix seconds.  The sha256 fingerprint is the parameter \<^verbatim>\<open>hash\<close> of the operations that use
  it and the clock is their argument \<^verbatim>\<open>now\<close>.  The connection pool has one connection, so the
  operations are atomic; failures of the driver itself (disk, locks) are left out, the
  constraint violations that the code tells apart are in.
\<close>

section \<open>Rows\<close>

record ConfigRow =
  cfgID :: int
  cfgScope :: string
  cfgStack :: string
  cfgName :: string
  cfgKind :: string
  cfgContent :: string
  cfgVersion :: string
  cfgHash :: string
  cfgCreatedAt :: int
  cfgUpdatedAt :: int
  cfgRenderedContent :: string
  cfgRenderedAt :: int
  cfgRenderedHash :: string

record ConfigVersionRow =
  cvrID :: int
  cvrConfigID :: int
  cvrContent :: string
  cvrHash :: string
  cvrCreatedAt :: int

record SecretRow =
  secID :: int
  secScope :: string
  secStack :: string
  secName :: string
  secPayload :: string
  secHash :: string
  secCreatedAt :: int

record Stack =
  stName :: string
  stCurrentRevision :: int
  stRepoURL :: "string option"
  stSourceFile :: string
  stCreatedAt :: int
  stUpdatedAt :: int

record StackRevision =
  srStackName :: string
  srRevision :: int
  srSourceYAML :: string
  srRenderedYAML :: string
  srRenderedHash :: string
  srSourceFile :: string
  srPayloadJSON :: "string option"
  srCreatedAt :: int

record User =
  usID :: int
  usName :: string
  usTokenID :: "string option"
  usTokenHash :: string
  usCreatedAt :: int
  usLastUsedAt :: int

record UserRow =
  urID :: int
  urName :: string
  urCreatedAt :: int
  urLastUsedAt :: int

record WebhookSource =
  whSource :: string
  whSecretCiphertext :: string
  whDescription :: "string option"
  whCreatedAt :: int
  whLastUsedAt :: "int option"

record WebhookDelivery =
  wdID :: int
  wdSource :: string
  wdStatus :: string
  wdStackName :: string
  wdRevision :: int
  wdRepoURL :: string
  wdFile :: string
  wdError :: string
  wdCreatedAt :: int

record Registry =
  rgHost :: string
  rgUsername :: string
  rgPasswordCiphertext :: string
  rgCreatedAt :: int

record Backup =
  bkID :: int
  bkStackName :: "string option"
  bkRevision :: "int option"
  bkStatus :: string
  bkArchivePaths :: string
  bkErrorMessage :: string
  bkStartedAt :: int
  bkFinishedAt :: "int option"
  bkFilename :: string

record SiteCertRow =
  scDomain :: string
  scCertSecret :: string
  scKeySecret :: string
  scNotBefore :: int
  scNotAfter :: int
  scSANs :: "string list"
  scCertHash :: string
  scKeyHash :: string
  scCreatedAt :: int
  scUpdatedAt :: int

text \<open>A site certificate as stored: the SAN list is one comma-separated column.\<close>

record SiteCertDB =
  sdDomain :: string
  sdCertSecret :: string
  sdKeySecret :: string
  sdNotBefore :: int
  sdNotAfter :: int
  sdSANs :: string
  sdCertHash :: string
  sdKeyHash :: string
  sdCreatedAt :: int
  sdUpdatedAt :: int

record ManagedCredential =
  mcName :: string
  mcKind :: string
  mcUsername :: string
  mcPasswordCiphertext :: string
  mcSwarmSecretName :: string
  mcCreatedAt :: int
  mcRotatedAt :: "int option"

section \<open>The database\<close>

record Store =
  dbConfigs :: "ConfigRow list"
  dbConfigVersions :: "ConfigVersionRow list"
  dbSecrets :: "SecretRow list"
  dbStacks :: "Stack list"
  dbRevisions :: "StackRevision list"
  dbUsers :: "User list"
  dbUserSeq :: int
  dbSettings :: "(string \<times> string) list"
  dbWebhooks :: "WebhookSource list"
  dbDeliveries :: "WebhookDelivery list"
  dbDeliverySeq :: int
  dbRegistries :: "Registry list"
  dbBackups :: "Backup list"
  dbBackupSeq :: int
  dbSiteCerts :: "SiteCertDB list"
  dbCredentials :: "ManagedCredential list"

definition empty_store :: Store where
  "empty_store = \<lparr> dbConfigs = [], dbConfigVersions = [], dbSecrets = [], dbStacks = [],
     dbRevisions = [], dbUsers = [], dbUserSeq = 0, dbSettings = [], dbWebhooks = [],
     dbDeliveries = [], dbDeliverySeq = 0, dbRegistries = [], dbBackups = [], dbBackupSeq = 0,
     dbSiteCerts = [], dbCredentials = [] \<rparr>"

datatype store_err =
    ErrConfigNotFound | ErrConfigExists | ErrConfigVersionNotFound
  | ErrSecretNotFound | ErrSecretExists
  | ErrStackNotFound | ErrRevisionNotFound | No_Free_Revision
  | ErrUserExists | ErrUserNotFound | ErrNoRows
  | ErrWebhookSourceNotFound | ErrWebhookSourceExists
  | ErrRegistryNotFound | ErrRegistryExists
  | ErrBackupNotFound | ErrSiteCertNotFound | ErrSettingNotFound
  | ErrCredentialNotFound
  | Constraint_Failed string

text \<open>\<^verbatim>\<open>nullableString\<close>: an empty string is stored as NULL when the caller says so.\<close>

definition nullableString :: "string \<Rightarrow> bool \<Rightarrow> string option" where
  "nullableString s valid = (if valid then Some s else None)"

text \<open>The filter of the two list statements, where an empty argument is a wildcard, and \<^verbatim>\<open>LIMIT\<close>,
  where a non-positive argument means all rows.\<close>

definition wild :: "string \<Rightarrow> string \<Rightarrow> bool" where
  "wild pat v \<longleftrightarrow> pat = [] \<or> v = pat"

definition limit_rows :: "int \<Rightarrow> 'r list \<Rightarrow> 'r list" where
  "limit_rows n rows = (if 0 < n then take (nat n) rows else rows)"

end
