(* ===== verification/Store_Users.thy ===== *)
theory Store_Users
  imports Auth Store_Schema
begin

text \<open>
  Users and their bearer tokens (\<^verbatim>\<open>internal/store/users.go\<close>).  \<^verbatim>\<open>UserByToken\<close> is the lookup the
  authentication middleware runs on; the store is shown to keep the contract
  \<^verbatim>\<open>token_lookup\<close> of that middleware.
\<close>

section \<open>Operations\<close>

record auth_user =
  auID :: int
  auName :: string

definition auth_user_of :: "User \<Rightarrow> auth_user" where
  "auth_user_of u = \<lparr> auID = usID u, auName = usName u \<rparr>"

definition user_row_of :: "User \<Rightarrow> UserRow" where
  "user_row_of u = \<lparr> urID = usID u, urName = usName u, urCreatedAt = usCreatedAt u,
     urLastUsedAt = usLastUsedAt u \<rparr>"

definition CreateUser ::
  "int \<Rightarrow> string \<Rightarrow> string \<Rightarrow> string \<Rightarrow> Store \<Rightarrow> (store_err + int) \<times> Store" where
  "CreateUser now name tokenID tokenHash db =
     (let tid = (if tokenID \<noteq> [] then Some tokenID else None) in
      if row_find usName name (dbUsers db) \<noteq> None \<or>
         tid \<noteq> None \<and> row_find usTokenID tid (dbUsers db) \<noteq> None
      then (Inl ErrUserExists, db)
      else let uid = dbUserSeq db + 1 in
        (Inr uid, db\<lparr> dbUserSeq := uid, dbUsers := dbUsers db @
           [\<lparr> usID = uid, usName = name, usTokenID = tid, usTokenHash = tokenHash,
              usCreatedAt = now, usLastUsedAt = 0 \<rparr>] \<rparr>))"

definition ListUsers :: "Store \<Rightarrow> UserRow list" where
  "ListUsers db = map user_row_of (sort_key usName (dbUsers db))"

definition CountUsers :: "Store \<Rightarrow> int" where
  "CountUsers db = int (length (dbUsers db))"

definition userByTokenID ::
  "(string \<Rightarrow> string \<Rightarrow> string) \<Rightarrow> string \<Rightarrow> string \<Rightarrow> Store \<Rightarrow> auth_user option" where
  "userByTokenID argon tokenID secret db =
     (case row_find usTokenID (Some tokenID) (dbUsers db) of
        None \<Rightarrow> None
      | Some u \<Rightarrow>
         (case VerifyToken argon secret (usTokenHash u) of
            Inl _ \<Rightarrow> None
          | Inr ok \<Rightarrow> if ok then Some (auth_user_of u) else None))"

fun legacy_scan ::
  "(string \<Rightarrow> string \<Rightarrow> string) \<Rightarrow> string \<Rightarrow> User list \<Rightarrow> auth_user option" where
  "legacy_scan argon token [] = None"
| "legacy_scan argon token (u # us) =
     (case VerifyToken argon token (usTokenHash u) of
        Inl _ \<Rightarrow> legacy_scan argon token us
      | Inr ok \<Rightarrow> if ok then Some (auth_user_of u) else legacy_scan argon token us)"

definition userByTokenLegacy ::
  "(string \<Rightarrow> string \<Rightarrow> string) \<Rightarrow> string \<Rightarrow> Store \<Rightarrow> auth_user option" where
  "userByTokenLegacy argon token db = legacy_scan argon token (dbUsers db)"

definition TouchUser :: "int \<Rightarrow> int \<Rightarrow> Store \<Rightarrow> Store" where
  "TouchUser now uid db =
     db\<lparr> dbUsers := row_update usID uid (\<lambda>u. u\<lparr> usLastUsedAt := now \<rparr>) (dbUsers db) \<rparr>"

definition UserByToken ::
  "(string \<Rightarrow> string \<Rightarrow> string) \<Rightarrow> int \<Rightarrow> string \<Rightarrow> Store \<Rightarrow> (store_err + auth_user option) \<times> Store" where
  "UserByToken argon now token db =
     (let (tokenID, secret) = SplitToken token;
          u = (if tokenID \<noteq> [] then userByTokenID argon tokenID secret db
               else userByTokenLegacy argon token db)
      in (Inr u, (case u of Some a \<Rightarrow> TouchUser now (auID a) db | None \<Rightarrow> db)))"

definition UserByID :: "int \<Rightarrow> Store \<Rightarrow> store_err + auth_user" where
  "UserByID uid db =
     (case row_find usID uid (dbUsers db) of
        None \<Rightarrow> Inl ErrNoRows
      | Some u \<Rightarrow> Inr (auth_user_of u))"

definition UserByName :: "string \<Rightarrow> Store \<Rightarrow> store_err + UserRow" where
  "UserByName name db =
     (case row_find usName name (dbUsers db) of
        None \<Rightarrow> Inl ErrUserNotFound
      | Some u \<Rightarrow> Inr (user_row_of u))"

definition DeleteUser :: "int \<Rightarrow> Store \<Rightarrow> (store_err + unit) \<times> Store" where
  "DeleteUser uid db =
     (if row_find usID uid (dbUsers db) = None then (Inl ErrUserNotFound, db)
      else (Inr (), db\<lparr> dbUsers := row_delete usID uid (dbUsers db) \<rparr>))"

section \<open>Invariant\<close>

text \<open>Names and ids are unique, ids stay below the AUTOINCREMENT counter, and so are the token
  ids of the users that have one.\<close>

definition users_inv :: "Store \<Rightarrow> bool" where
  "users_inv db \<longleftrightarrow>
     unique_key usName (dbUsers db) \<and> unique_key usID (dbUsers db) \<and>
     unique_key usTokenID (filter (\<lambda>u. usTokenID u \<noteq> None) (dbUsers db)) \<and>
     list_all (\<lambda>u. usID u \<le> dbUserSeq db) (dbUsers db)"

lemma row_find_token:
  "t \<noteq> None \<Longrightarrow> row_find usTokenID t (filter (\<lambda>u. usTokenID u \<noteq> None) us) = row_find usTokenID t us"
  by (induction us) (auto simp: row_find_def)

lemma CreateUser_inv [inv_intros]:
  assumes "users_inv db"
  shows "users_inv (snd (CreateUser now n tid h db))"
proof -
  have "row_find usID (dbUserSeq db + 1) (dbUsers db) = None"
    using assms by (auto simp: users_inv_def row_find_None list_all_iff)
  moreover have "list_all (\<lambda>u. usID u \<le> dbUserSeq db + 1) (dbUsers db)"
    using assms by (auto simp: users_inv_def list_all_iff)
  ultimately show ?thesis
    using assms
    by (simp add: users_inv_def CreateUser_def Let_def tbl_simps row_find_token del: not_None_eq)
qed

lemma filter_row_update:
  "(\<And>r. P (f r) = P r) \<Longrightarrow> filter P (row_update key k f rows) = row_update key k f (filter P rows)"
  by (induction rows) (auto simp: row_update_def)

lemma TouchUser_inv [inv_intros]: "users_inv db \<Longrightarrow> users_inv (TouchUser now i db)"
  by (auto simp: users_inv_def TouchUser_def tbl_simps filter_row_update intro!: all_row_update)

lemma filter_row_delete: "filter P (row_delete key k rows) = row_delete key k (filter P rows)"
  by (induction rows) (auto simp: row_delete_def)

lemma DeleteUser_inv [inv_intros]: "users_inv db \<Longrightarrow> users_inv (snd (DeleteUser i db))"
  by (simp add: users_inv_def DeleteUser_def filter_row_delete tbl_simps del: not_None_eq)
    (auto simp: row_delete_def all_filter)

lemma UserByToken_inv [inv_intros]: "users_inv db \<Longrightarrow> users_inv (snd (UserByToken argon now t db))"
  by (auto simp: UserByToken_def Let_def TouchUser_inv split: prod.splits option.splits)

section \<open>The life of a user row\<close>

text \<open>What can happen to the users between two moments: users are created, but none under the token
  id \<^verbatim>\<open>reserved\<close>; tokens are looked up, which writes the time of last use; users are deleted, but not
  those of \<^verbatim>\<open>kept\<close>; and the other tables change in any way.\<close>

inductive users_run ::
  "(string \<Rightarrow> string \<Rightarrow> string) \<Rightarrow> int set \<Rightarrow> string set \<Rightarrow> Store \<Rightarrow> Store \<Rightarrow> bool"
  for argon kept reserved where
  start: "users_run argon kept reserved db db"
| created: "users_run argon kept reserved db db1 \<Longrightarrow> tid \<notin> reserved \<Longrightarrow>
     users_run argon kept reserved db (snd (CreateUser now name tid tokenHash db1))"
| lookup: "users_run argon kept reserved db db1 \<Longrightarrow>
     users_run argon kept reserved db (snd (UserByToken argon now token db1))"
| deleted: "users_run argon kept reserved db db1 \<Longrightarrow> uid \<notin> kept \<Longrightarrow>
     users_run argon kept reserved db (snd (DeleteUser uid db1))"
| other: "users_run argon kept reserved db db1 \<Longrightarrow> dbUsers db2 = dbUsers db1 \<Longrightarrow> dbUserSeq db2 = dbUserSeq db1 \<Longrightarrow>
     users_run argon kept reserved db db2"

lemma users_run_inv: "users_run argon kept reserved db db' \<Longrightarrow> users_inv db \<Longrightarrow> users_inv db'"
proof (induction rule: users_run.induct)
  case (other db db1 db2)
  then show ?case by (simp add: users_inv_def)
qed (simp_all add: inv_intros)

definition holds_token :: "int \<Rightarrow> string \<Rightarrow> string \<Rightarrow> string \<Rightarrow> Store \<Rightarrow> bool" where
  "holds_token uid name tid stored db \<longleftrightarrow>
     (\<exists>u\<in>set (dbUsers db). usID u = uid \<and> usName u = name \<and> usTokenID u = Some tid \<and> usTokenHash u = stored)"

lemma holds_touched: "holds_token uid name tid stored db \<Longrightarrow> holds_token uid name tid stored (TouchUser now i db)"
proof -
  assume "holds_token uid name tid stored db"
  then obtain u where "u \<in> set (dbUsers db)" "usID u = uid" "usName u = name" "usTokenID u = Some tid" "usTokenHash u = stored"
    by (auto simp: holds_token_def)
  moreover have "(if usID u = i then u\<lparr> usLastUsedAt := now \<rparr> else u) \<in> set (dbUsers (TouchUser now i db))"
    using \<open>u \<in> set (dbUsers db)\<close> unfolding TouchUser_def row_update_def by simp
  ultimately show ?thesis
    unfolding holds_token_def by (intro bexI [of _ "if usID u = i then u\<lparr> usLastUsedAt := now \<rparr> else u"]) auto
qed

lemma users_run_holds:
  "users_run argon kept reserved db db' \<Longrightarrow> uid \<in> kept \<Longrightarrow> holds_token uid name tid stored db \<Longrightarrow>
     holds_token uid name tid stored db'"
proof (induction rule: users_run.induct)
  case (lookup db db1 now token)
  then show ?case
    using holds_touched by (auto simp: UserByToken_def Let_def split: prod.splits option.splits)
next
  case (deleted db db1 i)
  then show ?case by (auto simp: holds_token_def DeleteUser_def row_delete_def)
qed (auto simp: holds_token_def CreateUser_def Let_def)

lemma users_run_absent:
  "users_run argon kept reserved db db' \<Longrightarrow> tid \<in> reserved \<Longrightarrow> tid \<noteq> [] \<Longrightarrow>
     \<forall>u\<in>set (dbUsers db). usTokenID u \<noteq> Some tid \<Longrightarrow> \<forall>u\<in>set (dbUsers db'). usTokenID u \<noteq> Some tid"
proof (induction rule: users_run.induct)
  case (lookup db db1 now token)
  then show ?case
    by (auto simp: UserByToken_def TouchUser_def row_update_def Let_def split: prod.splits option.splits)
qed (auto simp: CreateUser_def DeleteUser_def row_delete_def Let_def)

lemma holds_found:
  assumes "users_inv db" "holds_token uid name tid stored db"
  shows "\<exists>u. row_find usTokenID (Some tid) (dbUsers db) = Some u \<and> usID u = uid \<and> usName u = name \<and> usTokenHash u = stored"
    and "row_find usID uid (dbUsers db) \<noteq> None"
    and "\<forall>u\<in>set (row_delete usID uid (dbUsers db)). usTokenID u \<noteq> Some tid"
proof -
  from assms(2) obtain u where u: "u \<in> set (dbUsers db)" "usID u = uid" "usName u = name" "usTokenID u = Some tid" "usTokenHash u = stored"
    by (auto simp: holds_token_def)
  let ?us = "filter (\<lambda>u. usTokenID u \<noteq> None) (dbUsers db)"
  have d: "distinct (map usTokenID ?us)" using assms(1) by (simp add: users_inv_def unique_key_def)
  have same: "v = u" if "v \<in> set (dbUsers db)" "usTokenID v = Some tid" for v
    using inj_onD [OF conjunct2 [OF d [unfolded distinct_map]], of v u] that u by simp
  obtain v where v: "row_find usTokenID (Some tid) (dbUsers db) = Some v"
    using u by (cases "row_find usTokenID (Some tid) (dbUsers db)") (auto simp: row_find_None image_iff)
  then have "v \<in> set (dbUsers db)" "usTokenID v = Some tid" by (auto simp: row_find_def find_Some_iff)
  then have "v = u" by (rule same)
  with v u show "\<exists>u. row_find usTokenID (Some tid) (dbUsers db) = Some u \<and> usID u = uid \<and> usName u = name \<and> usTokenHash u = stored"
    by blast
  show "row_find usID uid (dbUsers db) \<noteq> None" using u by (auto simp: row_find_None)
  show "\<forall>u\<in>set (row_delete usID uid (dbUsers db)). usTokenID u \<noteq> Some tid"
    using same u(2) by (auto simp: row_delete_def)
qed

section \<open>What a lookup accepts\<close>

definition row_accepts :: "(string \<Rightarrow> string \<Rightarrow> string) \<Rightarrow> string \<Rightarrow> User \<Rightarrow> bool" where
  "row_accepts argon secret u \<longleftrightarrow> VerifyToken argon secret (usTokenHash u) = Inr True"

text \<open>A token is accepted for a user when the row that its id names (any row, for a token without
  an id) verifies its secret.\<close>

definition accepts :: "(string \<Rightarrow> string \<Rightarrow> string) \<Rightarrow> Store \<Rightarrow> string \<Rightarrow> auth_user \<Rightarrow> bool" where
  "accepts argon db token a \<longleftrightarrow>
     (if fst (SplitToken token) \<noteq> []
      then (\<exists>u. row_find usTokenID (Some (fst (SplitToken token))) (dbUsers db) = Some u \<and>
              a = auth_user_of u \<and> row_accepts argon (snd (SplitToken token)) u)
      else (\<exists>u\<in>set (dbUsers db). a = auth_user_of u \<and> row_accepts argon token u))"

lemma legacy_scan_Some:
  "legacy_scan argon t us = Some a \<Longrightarrow> \<exists>u\<in>set us. a = auth_user_of u \<and> row_accepts argon t u"
  by (induction us) (auto simp: row_accepts_def split: sum.splits if_splits)

lemma legacy_scan_None: "legacy_scan argon t us = None \<Longrightarrow> u \<in> set us \<Longrightarrow> \<not> row_accepts argon t u"
  by (induction us) (auto simp: row_accepts_def split: sum.splits if_splits)

interpretation users: token_lookup "UserByToken argon now" "accepts argon" for argon now
proof (unfold_locales, goal_cases)
  case (1 t s u)
  then show ?case
    by (auto simp: UserByToken_def accepts_def userByTokenID_def userByTokenLegacy_def row_accepts_def
        Let_def split: prod.splits option.splits sum.splits if_splits
        dest: legacy_scan_Some [unfolded row_accepts_def])
next
  case (2 s t u)
  then show ?case
    using legacy_scan_None [of argon t "dbUsers s"]
    by (cases "legacy_scan argon t (dbUsers s)")
      (auto simp: UserByToken_def accepts_def userByTokenID_def userByTokenLegacy_def row_accepts_def
        Let_def split: prod.splits if_splits)
qed

section \<open>Properties\<close>

text \<open>Property C6.  The middleware lets a request through if and only if its Authorization header
  holds a bearer token that some stored hash verifies, under the token's own id when it has
  one; every other request gets the same 401.\<close>

theorem bearer_requires_verified_token:
  "(fst (Bearer (UserByToken argon now) header db) \<noteq> Unauthorized) =
     (\<exists>t a. extractBearer header = Some t \<and> accepts argon db t a)"
  by (rule users.bearer_iff)

text \<open>Property C16.  A token that was issued authenticates the user it was issued to from the creation
  of the user until the deletion, and nobody after it, whatever happens in between and afterwards:
  other users are created and deleted, tokens are looked up, other tables change.  Only the user
  itself is not deleted before, and after the deletion its token id is not drawn again.\<close>

theorem issued_token_lifecycle:
  assumes inv: "users_inv db" and ne: "ib \<noteq> []"
    and tok: "GenerateToken (Some ib) (Some sb) = Inr token"
    and hash: "HashToken argon (Some salt) (b64url_encode sb) = Inr stored"
    and len: "length salt = 16" "length (argon (b64url_encode sb) salt) = 32"
    and cr: "CreateUser t0 name (hex_encode ib) stored db = (Inr uid, db1)"
    and run: "users_run argon {uid} {} db1 db2"
  shows "fst (UserByToken argon t1 token db2) = Inr (Some \<lparr> auID = uid, auName = name \<rparr>) \<and>
    (\<exists>db3. DeleteUser uid db2 = (Inr (), db3) \<and>
      (\<forall>db4 t2. users_run argon {} {hex_encode ib} db3 db4 \<longrightarrow> fst (UserByToken argon t2 token db4) = Inr None))"
proof -
  let ?tid = "hex_encode ib"
  have sp: "SplitToken token = (?tid, b64url_encode sb)" by (rule split_generated [OF tok])
  have tid: "?tid \<noteq> []" using ne by (cases ib) auto
  have ok: "VerifyToken argon (b64url_encode sb) stored = Inr True" using verify_hashed [OF hash len] by simp
  have "users_inv db1" using CreateUser_inv [OF inv, of t0 name ?tid stored] by (simp add: cr)
  then have inv2: "users_inv db2" by (rule users_run_inv [OF run])
  have "holds_token uid name ?tid stored db1"
    using cr tid by (auto simp: holds_token_def CreateUser_def Let_def split: if_splits)
  then have "holds_token uid name ?tid stored db2" by (intro users_run_holds [OF run]) simp
  note found = holds_found [OF inv2 this]
  have "fst (UserByToken argon t1 token db2) = Inr (Some \<lparr> auID = uid, auName = name \<rparr>)"
    using found(1) tid ok by (auto simp: UserByToken_def sp userByTokenID_def auth_user_of_def)
  moreover have "fst (UserByToken argon t2 token db4) = Inr None"
    if "users_run argon {} {?tid} (db2\<lparr> dbUsers := row_delete usID uid (dbUsers db2) \<rparr>) db4" for db4 t2
  proof -
    have "\<forall>u\<in>set (dbUsers db4). usTokenID u \<noteq> Some ?tid"
      by (rule users_run_absent [OF that]) (use tid found(3) in simp_all)
    then have "row_find usTokenID (Some ?tid) (dbUsers db4) = None" by (force simp: row_find_None)
    then show ?thesis using tid by (simp add: UserByToken_def sp userByTokenID_def)
  qed
  ultimately show ?thesis using found(2) by (simp add: DeleteUser_def)
qed

theorem issued_token_lifecycle_witness:
  "\<exists>token stored db1 uid. GenerateToken (Some ''ab'') (Some ''xyz'') = Inr token \<and>
     HashToken toy_kdf (Some (replicate 16 (CHR ''s''))) (b64url_encode ''xyz'') = Inr stored \<and>
     CreateUser 1 ''ci'' (hex_encode ''ab'') stored empty_store = (Inr uid, db1) \<and>
     fst (UserByToken toy_kdf 2 token (snd (CreateUser 2 ''op'' [] stored db1))) = Inr (Some \<lparr> auID = uid, auName = ''ci'' \<rparr>)"
proof -
  obtain token where t: "GenerateToken (Some ''ab'') (Some ''xyz'') = Inr token"
    by (simp add: GenerateToken_def)
  obtain stored where h: "HashToken toy_kdf (Some (replicate 16 (CHR ''s''))) (b64url_encode ''xyz'') = Inr stored"
    by (simp add: HashToken_def Let_def)
  obtain uid db1 where c: "CreateUser 1 ''ci'' (hex_encode ''ab'') stored empty_store = (Inr uid, db1)"
    by (simp add: CreateUser_def Let_def empty_store_def row_find_def)
  have "users_inv empty_store" by (simp add: users_inv_def empty_store_def)
  moreover have "users_run toy_kdf {uid} {} db1 (snd (CreateUser 2 ''op'' [] stored db1))"
    by (rule users_run.created [OF users_run.start]) simp
  ultimately show ?thesis
    using issued_token_lifecycle [OF _ _ t h _ _ c, of "snd (CreateUser 2 ''op'' [] stored db1)" 2] t h c
    by (simp add: toy_kdf_def)
qed

text \<open>The secret part of a token authenticates on its own: a bearer token without
  the prefix is tried against the hash of every user, those with a token id included.\<close>

theorem bare_secret_authenticates:
  assumes "u \<in> set (dbUsers db)" "row_accepts argon secret u" "\<not> has_prefix secret v2TokenPrefix"
  shows "\<exists>a. fst (UserByToken argon now secret db) = Inr (Some a) \<and> accepts argon db secret a"
proof -
  have "SplitToken secret = ([], secret)" using assms(3) by (simp add: SplitToken_def)
  then have acc: "accepts argon db secret (auth_user_of u)" using assms(1,2) by (auto simp: accepts_def)
  from users.lookup_complete [OF this, of now] obtain a
    where "fst (UserByToken argon now secret db) = Inr (Some a)" by blast
  with users.lookup_sound [OF this] show ?thesis by blast
qed

theorem bare_secret_authenticates_witness:
  "\<exists>a stored. HashToken toy_kdf (Some (replicate 16 (CHR ''s''))) ''secret'' = Inr stored \<and>
    fst (UserByToken toy_kdf 2 ''secret'' (empty_store\<lparr> dbUsers := [\<lparr> usID = 1, usName = ''ci'',
      usTokenID = Some ''6162'', usTokenHash = stored, usCreatedAt = 1, usLastUsedAt = 0 \<rparr>] \<rparr>)) = Inr (Some a)"
proof -
  obtain stored where h: "HashToken toy_kdf (Some (replicate 16 (CHR ''s''))) ''secret'' = Inr stored"
    by (simp add: HashToken_def)
  have "VerifyToken toy_kdf ''secret'' stored = Inr True"
    using verify_hashed [OF h, of "''secret''"] by (simp add: toy_kdf_def)
  then have acc: "row_accepts toy_kdf ''secret'' \<lparr> usID = 1, usName = ''ci'',
      usTokenID = Some ''6162'', usTokenHash = stored, usCreatedAt = 1, usLastUsedAt = 0 \<rparr>"
    by (simp add: row_accepts_def)
  from bare_secret_authenticates [OF _ acc, of "empty_store\<lparr> dbUsers := [\<lparr> usID = 1, usName = ''ci'',
      usTokenID = Some ''6162'', usTokenHash = stored, usCreatedAt = 1, usLastUsedAt = 0 \<rparr>] \<rparr>" 2] h
  show ?thesis by (auto simp: has_prefix_def v2TokenPrefix_def)
qed

end
