(* ===== verification/Refs.thy ===== *)
theory Refs
  imports Go_Strings
begin

text \<open>
  The \<^verbatim>\<open>config()\<close>/\<^verbatim>\<open>secrets()\<close> reference language (\<^verbatim>\<open>internal/refs\<close>): whole-value references in
  env entries (\<^verbatim>\<open>envref.go\<close>) and references embedded in compose text (\<^verbatim>\<open>refs.go\<close>).  The regular
  expressions become the recogniser \<^verbatim>\<open>match_ref\<close>, which matches one reference at the head of a
  text; the resolver interface is a pair of functions.
\<close>

section \<open>Recognising one reference\<close>

definition ref_kind_at :: "string \<Rightarrow> (string \<times> string) option" where
  "ref_kind_at s =
     (if has_prefix s ''config('' then Some (''config'', drop 7 s)
      else if has_prefix s ''secrets('' then Some (''secrets'', drop 8 s)
      else None)"

definition match_ref :: "string \<Rightarrow> (string \<times> string \<times> string) option" where
  "match_ref s =
     (case ref_kind_at s of
        None \<Rightarrow> None
      | Some (k, r) \<Rightarrow>
          (case cut_at (CHR '')'') r of
             None \<Rightarrow> None
           | Some (body, rest) \<Rightarrow> if body = [] then None else Some (k, body, rest)))"

definition ref_text :: "string \<Rightarrow> string \<Rightarrow> string" where
  "ref_text k body = k @ ''('' @ body @ '')''"

section \<open>Whole-value references\<close>

record EnvRef =
  refKind :: string
  refName :: string

definition ParseEnvRef :: "string \<Rightarrow> EnvRef option" where
  "ParseEnvRef v =
     (case match_ref v of
        Some (k, body, []) \<Rightarrow> Some \<lparr> refKind = k, refName = trim_space body \<rparr>
      | _ \<Rightarrow> None)"

definition MalformedEnvRef :: "string \<Rightarrow> bool" where
  "MalformedEnvRef v =
     (if \<not> has_prefix v ''config('' \<and> \<not> has_prefix v ''secrets('' then False
      else ParseEnvRef v = None)"

definition SecretMountPath :: "string \<Rightarrow> string" where
  "SecretMountPath name = ''/run/secrets/'' @ name"

section \<open>References inside a text\<close>

lemma match_ref_Some_iff:
  "match_ref s = Some (k, body, rest) \<longleftrightarrow>
     (k = ''config'' \<or> k = ''secrets'') \<and> body \<noteq> [] \<and> CHR '')'' \<notin> set body \<and>
     s = ref_text k body @ rest"
proof -
  have *: "ref_kind_at s = Some (k, r) \<longleftrightarrow>
      (k = ''config'' \<or> k = ''secrets'') \<and> s = k @ ''('' @ r" for r
    by (auto simp: ref_kind_at_def has_prefix_def prefix_def split: if_splits)
  have "match_ref s = Some (k, body, rest) \<longleftrightarrow>
      (\<exists>t. ref_kind_at s = Some (k, t) \<and> cut_at (CHR '')'') t = Some (body, rest) \<and> body \<noteq> [])"
    by (auto simp: match_ref_def split: option.splits prod.splits if_splits)
  then show ?thesis
    by (auto simp: * cut_at_Some_iff ref_text_def)
qed

lemma match_ref_shorter: "match_ref s = Some (k, body, rest) \<Longrightarrow> length rest < length s"
  by (auto simp: match_ref_Some_iff ref_text_def)

text \<open>\<^verbatim>\<open>ReplaceRefs\<close>: the leftmost references, one after the other, each replaced by what the
  resolver of its kind returns; the first error of a resolver stops everything.  (The two
  other error returns of the source need a match without its groups, which the regular
  expression excludes.)\<close>

function ReplaceRefs ::
  "(string \<Rightarrow> 'e + string) \<Rightarrow> (string \<Rightarrow> 'e + string) \<Rightarrow> string \<Rightarrow> 'e + string" where
  "ReplaceRefs resolveConfig resolveSecret [] = Inr []"
| "ReplaceRefs resolveConfig resolveSecret (c # cs) =
     (case match_ref (c # cs) of
        None \<Rightarrow> bind_r (ReplaceRefs resolveConfig resolveSecret cs) (\<lambda>out. Inr (c # out))
      | Some (k, body, rest) \<Rightarrow>
          bind_r (if k = ''config'' then resolveConfig (trim_space body)
                  else resolveSecret (trim_space body))
            (\<lambda>v. bind_r (ReplaceRefs resolveConfig resolveSecret rest) (\<lambda>out. Inr (v @ out))))"
  by pat_completeness auto
termination
  by (relation "measure (\<lambda>(_, _, s). length s)") (auto dest: match_ref_shorter)

declare ReplaceRefs.simps(2) [simp del]

text \<open>A reference lexer to compare with: the text as literal bytes and references.\<close>

datatype piece = Lit char | Ref string string

fun piece_text :: "piece \<Rightarrow> string" where
  "piece_text (Lit c) = [c]"
| "piece_text (Ref k body) = ref_text k body"

function pieces :: "string \<Rightarrow> piece list" where
  "pieces [] = []"
| "pieces (c # cs) =
     (case match_ref (c # cs) of
        None \<Rightarrow> Lit c # pieces cs
      | Some (k, body, rest) \<Rightarrow> Ref k body # pieces rest)"
  by pat_completeness auto
termination
  by (relation "measure length") (auto dest: match_ref_shorter)

declare pieces.simps(2) [simp del]

fun resolve_piece ::
  "(string \<Rightarrow> 'e + string) \<Rightarrow> (string \<Rightarrow> 'e + string) \<Rightarrow> piece \<Rightarrow> 'e + string" where
  "resolve_piece rc rs (Lit c) = Inr [c]"
| "resolve_piece rc rs (Ref k body) =
     (if k = ''config'' then rc (trim_space body) else rs (trim_space body))"

lemma pieces_text: "concat (map piece_text (pieces s)) = s"
proof (induction s rule: pieces.induct)
  case (2 c cs)
  show ?case
  proof (cases "match_ref (c # cs)")
    case None
    then show ?thesis using 2(1) by (simp add: pieces.simps(2))
  next
    case (Some t)
    obtain k body rest where t: "t = (k, body, rest)" by (cases t)
    have "concat (map piece_text (pieces rest)) = rest"
      using 2(2) [OF Some [unfolded t]] t by simp
    moreover have "pieces (c # cs) = Ref k body # pieces rest"
      using Some t by (simp add: pieces.simps(2))
    moreover have "c # cs = ref_text k body @ rest"
      using Some t match_ref_Some_iff [of "c # cs" k body rest] by blast
    ultimately show ?thesis by (metis concat.simps(2) list.simps(9) piece_text.simps(2))
  qed
qed simp

lemma ReplaceRefs_pieces:
  "ReplaceRefs rc rs s = bind_r (map_r (resolve_piece rc rs) (pieces s)) (\<lambda>vs. Inr (concat vs))"
proof (induction rc rs s rule: ReplaceRefs.induct)
  case (2 rc rs c cs)
  show ?case
  proof (cases "match_ref (c # cs)")
    case None
    then show ?thesis
      using 2(1) by (auto simp: ReplaceRefs.simps(2) pieces.simps(2) split: sum.splits)
  next
    case (Some t)
    obtain k body rest where t: "t = (k, body, rest)" by (cases t)
    have "ReplaceRefs rc rs rest
        = bind_r (map_r (resolve_piece rc rs) (pieces rest)) (\<lambda>vs. Inr (concat vs))"
      using 2(2) [OF Some [unfolded t]] t by simp
    then show ?thesis
      using Some t
      by (auto simp: ReplaceRefs.simps(2) pieces.simps(2) bind_r_def split: sum.splits)
  qed
qed simp

lemma pieces_refs:
  "Ref k body \<in> set (pieces s) \<Longrightarrow>
     (k = ''config'' \<or> k = ''secrets'') \<and> body \<noteq> [] \<and> CHR '')'' \<notin> set body"
proof (induction s rule: pieces.induct)
  case (2 c cs)
  show ?case
  proof (cases "match_ref (c # cs)")
    case None
    then show ?thesis using 2 by (simp add: pieces.simps(2))
  next
    case (Some t)
    obtain k' body' rest where t: "t = (k', body', rest)" by (cases t)
    have "pieces (c # cs) = Ref k' body' # pieces rest"
      using Some t by (simp add: pieces.simps(2))
    then consider "k = k' \<and> body = body'" | "Ref k body \<in> set (pieces rest)"
      using 2(3) by auto
    then show ?thesis
      using Some t 2(2) [OF Some [unfolded t] refl refl] match_ref_Some_iff [of "c # cs" k' body' rest]
      by cases blast+
  qed
qed simp

lemma ParseEnvRef_iff:
  "ParseEnvRef v = Some r \<longleftrightarrow>
     (\<exists>k body. (k = ''config'' \<or> k = ''secrets'') \<and> body \<noteq> [] \<and> CHR '')'' \<notin> set body \<and>
        v = ref_text k body \<and> r = \<lparr> refKind = k, refName = trim_space body \<rparr>)"
proof -
  have "ParseEnvRef v = Some r \<longleftrightarrow>
      (\<exists>k body. match_ref v = Some (k, body, []) \<and> r = \<lparr> refKind = k, refName = trim_space body \<rparr>)"
    by (auto simp: ParseEnvRef_def split: option.splits list.splits)
  then show ?thesis by (auto simp: match_ref_Some_iff)
qed

lemma ParseEnvRef_kind: "ParseEnvRef v = Some r \<Longrightarrow> refKind r = ''config'' \<or> refKind r = ''secrets''"
  by (auto simp: ParseEnvRef_iff)

end
