(* ===== verification/Dsl.thy ===== *)
theory Dsl
  imports Go_Strings
begin

text \<open>
  The public manifest schema (\<^verbatim>\<open>pkg/dsl/types.go\<close>) as records.  A Go pointer is an option:
  \<^verbatim>\<open>*int\<close> for an absent replica count, and the values of the services map too, since a YAML
  \<^verbatim>\<open>null\<close> there decodes to a nil \<^verbatim>\<open>*Service\<close>.
\<close>

record Expose =
  exPort :: int
  exHost :: string
  exAliases :: "string list"
  exCORSDisabled :: bool

record Healthcheck =
  hcType :: string
  hcPath :: string
  hcTest :: "string list"
  hcInterval :: string
  hcTimeout :: string
  hcRetries :: int

record Update =
  upParallelism :: int
  upDelay :: string
  upOrder :: string

record Service =
  svImage :: string
  svReplicas :: "int option"
  svRunOnce :: bool
  svSkipFilelog :: bool
  svPlacement :: string
  svCommand :: "string list"
  svEntrypoint :: "string list"
  svEnv :: "(string \<times> string) list"
  svVolumes :: "string list"
  svSecrets :: "string list"
  svExpose :: "Expose option"
  svHealthcheck :: "Healthcheck option"
  svUpdate :: "Update option"

record App =
  apName :: string
  apEnv :: string
  apDomain :: string
  apVersion :: string
  apRegistry :: string
  apRepoURL :: string
  apEnvFile :: string
  apSecrets :: "string list"
  apServices :: "(string \<times> Service option) list"
  apBackupBeforeDeploy :: bool
  apStrictBackup :: bool

text \<open>What the manifest pipeline can answer with: an error of the code, or the panic of a nil
  dereference (which Go raises where the code reads a field of a nil service).\<close>

datatype manifest_err =
    Nil_Deref
  | Unresolved_Env "string list"
  | In_Field string string manifest_err
  | In_Service string manifest_err
  | Invalid string string
  | Marshal_Error
  | Config_Unavailable string string
  | Config_Error string string
  | Config_Newline string string
  | Secret_Name_Empty string
  | Unknown_Ref_Kind string string

text \<open>The path of a list entry in an error, \<^verbatim>\<open>field[i]\<close>.\<close>

definition index_field :: "string \<Rightarrow> nat \<Rightarrow> string" where
  "index_field f i = f @ ''['' @ nat_str i @ '']''"

end
