(* ===== verification/Validate.thy ===== *)
theory Validate
  imports Refs Dsl
begin

text \<open>
  Semantic checks on an interpolated manifest (\<^verbatim>\<open>internal/manifest/validate.go\<close>).  Each check of
  the source is one guard, in its order; the first that fails gives the error, whose path is
  the one the source prints.  The regular expressions are recognisers.  The lists of
  environment entries and of services stand in the order in which Go ranges over the maps.
\<close>

section \<open>Names and hostnames\<close>

text \<open>\<^verbatim>\<open>^[a-z][a-z0-9_-]{0,62}$\<close>\<close>

definition nameRe :: "string \<Rightarrow> bool" where
  "nameRe s =
     (case s of
        [] \<Rightarrow> False
      | c # r \<Rightarrow> is_lower c \<and> length r \<le> 62 \<and>
          list_all (\<lambda>d. is_lower d \<or> is_digit d \<or> d = CHR ''_'' \<or> d = CHR ''-'') r)"

text \<open>\<^verbatim>\<open>^[a-zA-Z0-9*]([a-zA-Z0-9.-]*\.[a-zA-Z]{2,})?$\<close>: the last dot separates the top-level
  domain.\<close>

definition host_char :: "char \<Rightarrow> bool" where
  "host_char c \<longleftrightarrow> is_alnum c \<or> c = CHR ''.'' \<or> c = CHR ''-''"

definition hostnameRe :: "string \<Rightarrow> bool" where
  "hostnameRe s =
     (case s of
        [] \<Rightarrow> False
      | c # r \<Rightarrow> (is_alnum c \<or> c = CHR ''*'') \<and>
          (r = [] \<or>
           (let tld = takeWhile (\<lambda>d. d \<noteq> CHR ''.'') (rev r);
                body = dropWhile (\<lambda>d. d \<noteq> CHR ''.'') (rev r)
            in body \<noteq> [] \<and> 2 \<le> length tld \<and> list_all is_alpha tld \<and>
               list_all host_char (tl body))))"

section \<open>The checks\<close>

definition first_err :: "('e + unit) list \<Rightarrow> 'e + unit" where
  "first_err cs = check_r (\<lambda>c. c) cs"

definition validateHealthcheck :: "string \<Rightarrow> Healthcheck \<Rightarrow> manifest_err + unit" where
  "validateHealthcheck pre h =
     (if hcType h = '''' then
        guard_r (hcTest h = [] \<and> (hcInterval h \<noteq> [] \<or> hcTimeout h \<noteq> [] \<or> hcRetries h \<noteq> 0))
          (Invalid (pre @ ''.healthcheck'') ''full-form requires test'')
      else if hcType h = ''pg_isready'' \<or> hcType h = ''http'' then
        guard_r (hcTest h \<noteq> []) (Invalid (pre @ ''.healthcheck'') ''shorthand with explicit test'')
      else Inl (Invalid (pre @ ''.healthcheck.type'') ''must be pg_isready, http, or empty''))"

definition validateEnvEntry ::
  "string \<Rightarrow> string list \<Rightarrow> string \<times> string \<Rightarrow> manifest_err + unit" where
  "validateEnvEntry pre mounted kv =
     (let path = pre @ ''.env.'' @ fst kv; v = snd kv in
      first_err
        [guard_r (MalformedEnvRef v) (Invalid path ''malformed reference''),
         guard_r (case ParseEnvRef v of Some r \<Rightarrow> refName r = [] | None \<Rightarrow> False)
           (Invalid path ''empty name in reference''),
         guard_r (case ParseEnvRef v of
                    Some r \<Rightarrow> refKind r = ''secrets'' \<and> refName r \<notin> set mounted
                  | None \<Rightarrow> False)
           (Invalid path ''secret is not mounted'')])"

definition validateExpose :: "string \<Rightarrow> Expose \<Rightarrow> manifest_err + unit" where
  "validateExpose pre e =
     first_err
       [guard_r (exPort e < 1 \<or> 65535 < exPort e) (Invalid (pre @ ''.expose.port'') ''must be 1..65535''),
        guard_r (exHost e = []) (Invalid (pre @ ''.expose.host'') ''required when expose is set''),
        guard_r (\<not> hostnameRe (exHost e)) (Invalid (pre @ ''.expose.host'') ''invalid hostname''),
        check_r (\<lambda>(i, alias).
            first_err
              [guard_r (alias = []) (Invalid (index_field (pre @ ''.expose.aliases'') i) ''empty alias''),
               guard_r (\<not> hostnameRe alias)
                 (Invalid (index_field (pre @ ''.expose.aliases'') i) ''invalid hostname'')])
          (enumerate 0 (exAliases e))]"

definition validateUpdate :: "string \<Rightarrow> Update \<Rightarrow> manifest_err + unit" where
  "validateUpdate pre u =
     first_err
       [guard_r (upOrder u \<noteq> [] \<and> upOrder u \<noteq> ''start-first'' \<and> upOrder u \<noteq> ''stop-first'')
          (Invalid (pre @ ''.update.order'') ''must be start-first or stop-first''),
        guard_r (upParallelism u < 0) (Invalid (pre @ ''.update.parallelism'') ''must be >= 0'')]"

definition validateService :: "string \<Rightarrow> Service option \<Rightarrow> manifest_err + unit" where
  "validateService name sp =
     (case sp of
        None \<Rightarrow> Inl Nil_Deref
      | Some s \<Rightarrow>
         (let pre = ''services.'' @ name in
          first_err
            [guard_r (svImage s = []) (Invalid (pre @ ''.image'') ''required''),
             guard_r (case svReplicas s of Some n \<Rightarrow> n < 0 | None \<Rightarrow> False)
               (Invalid (pre @ ''.replicas'') ''must be >= 0''),
             guard_r (svRunOnce s \<and> svReplicas s \<noteq> None)
               (Invalid pre ''replicas and run_once are mutually exclusive''),
             guard_r (svPlacement s \<noteq> [] \<and> svPlacement s \<noteq> ''manager'' \<and> svPlacement s \<noteq> ''worker'')
               (Invalid (pre @ ''.placement'') ''must be manager, worker, or empty''),
             check_r (\<lambda>(i, v). guard_r (\<not> contains_str v '':'')
                 (Invalid (index_field (pre @ ''.volumes'') i) ''must be name:path or /host:/container''))
               (enumerate 0 (svVolumes s)),
             check_r (validateEnvEntry pre (svSecrets s)) (svEnv s),
             (case svExpose s of None \<Rightarrow> Inr () | Some e \<Rightarrow> validateExpose pre e),
             (case svHealthcheck s of None \<Rightarrow> Inr () | Some h \<Rightarrow> validateHealthcheck pre h),
             (case svUpdate s of None \<Rightarrow> Inr () | Some u \<Rightarrow> validateUpdate pre u)]))"

definition Validate :: "App \<Rightarrow> manifest_err + unit" where
  "Validate app =
     first_err
       [guard_r (\<not> nameRe (apName app)) (Invalid ''app'' ''invalid name''),
        guard_r (apEnv app = []) (Invalid ''env'' ''required''),
        guard_r (apDomain app = []) (Invalid ''domain'' ''required''),
        guard_r (apServices app = []) (Invalid ''services'' ''at least one service is required''),
        check_r (\<lambda>(name, svc).
            bind_r (guard_r (\<not> nameRe name) (Invalid (''services.'' @ name) ''invalid service name''))
              (\<lambda>_. validateService name svc))
          (apServices app),
        check_r (\<lambda>(i, name). guard_r (name = []) (Invalid (index_field ''secrets'' i) ''empty name''))
          (enumerate 0 (apSecrets app))]"

section \<open>What acceptance means, without any order\<close>

lemma first_err_ok [simp]: "first_err cs = Inr u \<longleftrightarrow> (\<forall>c\<in>set cs. c = Inr ())"
  by (simp add: first_err_def list_all_iff)

definition env_entry_ok :: "string list \<Rightarrow> string \<Rightarrow> bool" where
  "env_entry_ok mounted v \<longleftrightarrow>
     (case ParseEnvRef v of
        None \<Rightarrow> \<not> has_prefix v ''config('' \<and> \<not> has_prefix v ''secrets(''
      | Some r \<Rightarrow> refName r \<noteq> [] \<and> (refKind r = ''secrets'' \<longrightarrow> refName r \<in> set mounted))"

definition expose_ok :: "Expose \<Rightarrow> bool" where
  "expose_ok e \<longleftrightarrow> 1 \<le> exPort e \<and> exPort e \<le> 65535 \<and> hostnameRe (exHost e) \<and>
     (\<forall>a\<in>set (exAliases e). hostnameRe a)"

definition healthcheck_ok :: "Healthcheck \<Rightarrow> bool" where
  "healthcheck_ok h \<longleftrightarrow>
     (if hcTest h = [] then
        hcType h \<in> {''pg_isready'', ''http''} \<or>
        hcType h = [] \<and> hcInterval h = [] \<and> hcTimeout h = [] \<and> hcRetries h = 0
      else hcType h = [])"

definition service_ok :: "Service \<Rightarrow> bool" where
  "service_ok s \<longleftrightarrow>
     svImage s \<noteq> [] \<and>
     (\<forall>n. svReplicas s = Some n \<longrightarrow> 0 \<le> n \<and> \<not> svRunOnce s) \<and>
     svPlacement s \<in> {[], ''manager'', ''worker''} \<and>
     (\<forall>v\<in>set (svVolumes s). CHR '':'' \<in> set v) \<and>
     (\<forall>(k, v)\<in>set (svEnv s). env_entry_ok (svSecrets s) v) \<and>
     (\<forall>e. svExpose s = Some e \<longrightarrow> expose_ok e) \<and>
     (\<forall>h. svHealthcheck s = Some h \<longrightarrow> healthcheck_ok h) \<and>
     (\<forall>u. svUpdate s = Some u \<longrightarrow>
        upOrder u \<in> {[], ''start-first'', ''stop-first''} \<and> 0 \<le> upParallelism u)"

definition app_ok :: "App \<Rightarrow> bool" where
  "app_ok app \<longleftrightarrow>
     nameRe (apName app) \<and> apEnv app \<noteq> [] \<and> apDomain app \<noteq> [] \<and> apServices app \<noteq> [] \<and>
     (\<forall>(n, sp)\<in>set (apServices app). nameRe n \<and> (\<exists>s. sp = Some s \<and> service_ok s)) \<and>
     [] \<notin> set (apSecrets app)"

lemma hostnameRe_Nil [simp]: "\<not> hostnameRe []"
  by (simp add: hostnameRe_def)

lemma nameRe_Nil [simp]: "\<not> nameRe []"
  by (simp add: nameRe_def)

lemma check_enumerate:
  "list_all (\<lambda>x. (case x of (i, v) \<Rightarrow> f i v) = Inr ()) (enumerate n xs) \<longleftrightarrow>
     (\<forall>i<length xs. f (n + i) (xs ! i) = Inr ())"
  by (auto simp: list_all_length nth_enumerate_eq)

lemma validateEnvEntry_iff:
  "validateEnvEntry pre mounted kv = Inr () \<longleftrightarrow> env_entry_ok mounted (snd kv)"
  by (auto simp: validateEnvEntry_def env_entry_ok_def MalformedEnvRef_def Let_def
      split: option.splits)

lemma validateExpose_iff: "validateExpose pre e = Inr () \<longleftrightarrow> expose_ok e"
  by (auto simp: validateExpose_def expose_ok_def check_enumerate all_set_conv_all_nth
      simp del: list_all_iff)

lemma validateHealthcheck_iff: "validateHealthcheck pre h = Inr () \<longleftrightarrow> healthcheck_ok h"
  by (auto simp: validateHealthcheck_def healthcheck_ok_def)

lemma validateUpdate_iff:
  "validateUpdate pre u = Inr () \<longleftrightarrow>
     upOrder u \<in> {[], ''start-first'', ''stop-first''} \<and> 0 \<le> upParallelism u"
  by (auto simp: validateUpdate_def)

lemma contains_colon: "contains_str v '':'' \<longleftrightarrow> CHR '':'' \<in> set v"
  by (auto simp: contains_str_iff in_set_conv_decomp)

lemma validateService_iff:
  "validateService name sp = Inr () \<longleftrightarrow> (\<exists>s. sp = Some s \<and> service_ok s)"
proof (cases sp)
  case (Some s)
  have vols: "check_r (\<lambda>(i, v). guard_r (\<not> contains_str v '':'') (g i))
        (enumerate 0 (svVolumes s)) = Inr () \<longleftrightarrow> (\<forall>v\<in>set (svVolumes s). CHR '':'' \<in> set v)" for g
    by (auto simp: check_enumerate contains_colon all_set_conv_all_nth)
  have env: "check_r (validateEnvEntry p m) (svEnv s) = Inr () \<longleftrightarrow>
      (\<forall>(k, v)\<in>set (svEnv s). env_entry_ok m v)" for p m
    by (auto simp: list_all_iff validateEnvEntry_iff)
  show ?thesis
    by (simp add: validateService_def Let_def Some vols env service_ok_def del: check_r_Inr)
      (auto simp: validateExpose_iff validateHealthcheck_iff validateUpdate_iff
        split: option.splits)
qed (simp add: validateService_def)

lemma Validate_iff: "Validate app = Inr () \<longleftrightarrow> app_ok app"
proof -
  have svcs: "check_r (\<lambda>(name, svc). bind_r (guard_r (\<not> nameRe name) (g name))
        (\<lambda>_. validateService name svc)) xs = Inr () \<longleftrightarrow>
      (\<forall>(n, sp)\<in>set xs. nameRe n \<and> (\<exists>s. sp = Some s \<and> service_ok s))" for g xs
    by (auto simp: list_all_iff bind_r_Inr_iff validateService_iff)
  have secs: "check_r (\<lambda>(i, name). guard_r (name = []) (h i)) (enumerate 0 xs) = Inr () \<longleftrightarrow>
      [] \<notin> set xs" for h and xs :: "string list"
    by (auto simp: check_enumerate in_set_conv_nth)
  show ?thesis
    by (simp add: Validate_def app_ok_def svcs secs del: check_r_Inr)
qed

end
