(* ===== verification/Translate.thy ===== *)
theory Translate
  imports Validate
begin

text \<open>
  The neutral intermediate representation (\<^verbatim>\<open>internal/manifest/ir.go\<close>) and its construction from
  a manifest (\<^verbatim>\<open>translate.go\<close>).  The config resolver is an optional function: \<^verbatim>\<open>nil\<close> rejects
  config references.  A writer is a function from the representation to an artifact.
\<close>

section \<open>The representation\<close>

record IRExpose =
  irPort :: int
  irHost :: string
  irAliases :: "string list"
  irCORSDisabled :: bool

record IRHealthcheck =
  irhType :: string
  irhPath :: string
  irhTest :: "string list"
  irhInterval :: string
  irhTimeout :: string
  irhRetries :: int

record IRUpdate =
  iruParallelism :: int
  iruDelay :: string
  iruOrder :: string

record IRService =
  irsName :: string
  irsImage :: string
  irsCommand :: "string list"
  irsEntrypoint :: "string list"
  irsEnv :: "(string \<times> string) list"
  irsVolumes :: "string list"
  irsSecrets :: "string list"
  irsExpose :: "IRExpose option"
  irsHealthcheck :: "IRHealthcheck option"
  irsRunOnce :: bool
  irsReplicas :: int
  irsPlacement :: string
  irsUpdate :: "IRUpdate option"
  irsSkipFilelog :: bool

record IR =
  irName :: string
  irEnv :: string
  irVersion :: string
  irServices :: "IRService list"
  irVolumes :: "string list"
  irSecrets :: "string list"

type_synonym config_resolver = "(string \<Rightarrow> string + string) option"

section \<open>Translation of one service\<close>

definition resolveEnvEntry ::
  "config_resolver \<Rightarrow> string \<times> string \<Rightarrow> manifest_err + (string \<times> string)" where
  "resolveEnvEntry res kv =
     (let k = fst kv; v = snd kv in
      case ParseEnvRef v of
        None \<Rightarrow> Inr (k, v)
      | Some ref \<Rightarrow>
          if refKind ref = ''secrets'' then
            (if refName ref = [] then Inl (Secret_Name_Empty k)
             else Inr (k, SecretMountPath (refName ref)))
          else if refKind ref = ''config'' then
            (case res of
               None \<Rightarrow> Inl (Config_Unavailable k (refName ref))
             | Some resolve \<Rightarrow>
                 (case resolve (refName ref) of
                    Inl _ \<Rightarrow> Inl (Config_Error k (refName ref))
                  | Inr content \<Rightarrow>
                      if contains_any content [CHR 0x0D, CHR 0x0A]
                      then Inl (Config_Newline k (refName ref))
                      else Inr (k, content)))
          else Inl (Unknown_Ref_Kind k (refKind ref)))"

definition resolveServiceEnv ::
  "config_resolver \<Rightarrow> (string \<times> string) list \<Rightarrow> manifest_err + (string \<times> string) list" where
  "resolveServiceEnv res env = map_r (resolveEnvEntry res) env"

definition translateHealthcheck :: "Service \<Rightarrow> IRHealthcheck option" where
  "translateHealthcheck s =
     (case svHealthcheck s of
        None \<Rightarrow> None
      | Some h \<Rightarrow>
          if hcType h = ''pg_isready'' then
            Some \<lparr> irhType = ''pg_isready'', irhPath = [], irhTest = [], irhInterval = ''10s'',
                   irhTimeout = ''5s'', irhRetries = 5 \<rparr>
          else if hcType h = ''http'' then
            Some \<lparr> irhType = ''http'', irhPath = (if hcPath h = [] then ''/'' else hcPath h),
                   irhTest = [], irhInterval = ''10s'', irhTimeout = ''5s'', irhRetries = 5 \<rparr>
          else
            Some \<lparr> irhType = [], irhPath = [], irhTest = hcTest h, irhInterval = hcInterval h,
                   irhTimeout = hcTimeout h, irhRetries = hcRetries h \<rparr>)"

definition irUpdate_of :: "Update \<Rightarrow> IRUpdate" where
  "irUpdate_of u =
     \<lparr> iruParallelism = (if upParallelism u \<noteq> 0 then upParallelism u else 1),
       iruDelay = (if upDelay u \<noteq> [] then upDelay u else ''10s''),
       iruOrder = (if upOrder u \<noteq> [] then upOrder u else ''start-first'') \<rparr>"

definition irExpose_of :: "Expose \<Rightarrow> IRExpose" where
  "irExpose_of e =
     \<lparr> irPort = exPort e, irHost = exHost e, irAliases = exAliases e,
       irCORSDisabled = exCORSDisabled e \<rparr>"

definition translateService ::
  "config_resolver \<Rightarrow> string \<Rightarrow> Service option \<Rightarrow> manifest_err + IRService" where
  "translateService res name sp =
     (case sp of
        None \<Rightarrow> Inl Nil_Deref
      | Some s \<Rightarrow>
         (case resolveServiceEnv res (svEnv s) of
            Inl e \<Rightarrow> Inl (In_Service name e)
          | Inr env \<Rightarrow> Inr
              \<lparr> irsName = name, irsImage = svImage s, irsCommand = svCommand s,
                irsEntrypoint = svEntrypoint s, irsEnv = env, irsVolumes = svVolumes s,
                irsSecrets = svSecrets s,
                irsExpose = map_option irExpose_of (svExpose s),
                irsHealthcheck = translateHealthcheck s,
                irsRunOnce = svRunOnce s,
                irsReplicas =
                  (if svRunOnce s then 0
                   else (case svReplicas s of Some n \<Rightarrow> n | None \<Rightarrow> 1)),
                irsPlacement = svPlacement s,
                irsUpdate = (if svRunOnce s then None else map_option irUpdate_of (svUpdate s)),
                irsSkipFilelog = svSkipFilelog s \<rparr>))"

section \<open>The whole manifest\<close>

definition volume_source :: "string \<Rightarrow> string" where
  "volume_source v = (case cut_at (CHR '':'') v of Some (src, _) \<Rightarrow> src | None \<Rightarrow> v)"

definition is_named_volume :: "string \<Rightarrow> bool" where
  "is_named_volume src \<longleftrightarrow> src \<noteq> [] \<and> \<not> has_prefix src ''/''"

text \<open>\<^verbatim>\<open>BuildIR\<close>.  The sets of volume and secret names become lists in some order (here that of
  the last occurrences); every writer treats them as sets.\<close>

definition BuildIR :: "config_resolver \<Rightarrow> App \<Rightarrow> manifest_err + IR" where
  "BuildIR res app =
     bind_r (map_r (\<lambda>(name, svc). translateService res name svc) (apServices app)) (\<lambda>services.
     (let svcs = List.map_filter snd (apServices app) in
      Inr \<lparr> irName = apName app, irEnv = apEnv app, irVersion = apVersion app,
            irServices = services,
            irVolumes = remdups (filter is_named_volume
              (map volume_source (concat (map svVolumes svcs)))),
            irSecrets = remdups (concat (map svSecrets svcs) @ apSecrets app) \<rparr>))"

definition TranslateIR ::
  "(IR \<Rightarrow> manifest_err + 'out) \<Rightarrow> config_resolver \<Rightarrow> App \<Rightarrow>
     (IR \<Rightarrow> manifest_err + 'out) option \<Rightarrow> manifest_err + 'out" where
  "TranslateIR defaultWriter res app w =
     bind_r (BuildIR res app) (\<lambda>ir.
       (case w of None \<Rightarrow> defaultWriter ir | Some write \<Rightarrow> write ir))"

section \<open>Facts\<close>

definition is_config_err :: "manifest_err \<Rightarrow> bool" where
  "is_config_err e \<longleftrightarrow>
     (\<exists>k n. e = Config_Unavailable k n \<or> e = Config_Error k n \<or> e = Config_Newline k n)"

lemma resolveEnvEntry_validated:
  assumes "env_entry_ok mounted v" "resolveEnvEntry res (k, v) = Inl e"
  shows "is_config_err e"
  using assms ParseEnvRef_kind [of v]
  by (auto simp: resolveEnvEntry_def env_entry_ok_def Let_def is_config_err_def
      split: option.splits if_splits sum.splits)

lemma resolveEnvEntry_secret:
  assumes "ParseEnvRef v = Some r" "refKind r = ''secrets''" "resolveEnvEntry res (k, v) = Inr kv"
  shows "kv = (k, SecretMountPath (refName r))"
  using assms by (auto simp: resolveEnvEntry_def split: if_splits)

lemma resolveEnvEntry_key: "resolveEnvEntry res kv = Inr kv' \<Longrightarrow> fst kv' = fst kv"
  by (auto simp: resolveEnvEntry_def Let_def split: option.splits if_splits sum.splits)

lemma translateService_Inr:
  assumes "translateService res name sp = Inr is"
  obtains s env where "sp = Some s" "resolveServiceEnv res (svEnv s) = Inr env"
    "irsName is = name" "irsEnv is = env" "irsVolumes is = svVolumes s" "irsSecrets is = svSecrets s"
    "irsExpose is = map_option irExpose_of (svExpose s)"
  using assms by (auto simp: translateService_def split: option.splits sum.splits)

lemma in_map_filter_snd:
  "s \<in> set (List.map_filter snd xs) \<longleftrightarrow> (\<exists>n. (n, Some s) \<in> set xs)"
  by (induction xs) (auto simp: map_filter_simps split: option.splits)

lemma BuildIR_Inr:
  assumes "BuildIR res app = Inr ir"
  shows "map_r (\<lambda>(name, svc). translateService res name svc) (apServices app) = Inr (irServices ir)"
    and "irName ir = apName app"
    and "v \<in> set (irVolumes ir) \<longleftrightarrow>
      is_named_volume v \<and> (\<exists>n s. (n, Some s) \<in> set (apServices app) \<and>
         v \<in> volume_source ` set (svVolumes s))"
    and "x \<in> set (irSecrets ir) \<longleftrightarrow>
      (\<exists>n s. (n, Some s) \<in> set (apServices app) \<and> x \<in> set (svSecrets s)) \<or>
      x \<in> set (apSecrets app)"
proof -
  have ex: "(\<exists>s\<in>set (List.map_filter snd xs). P s) \<longleftrightarrow> (\<exists>n s. (n, Some s) \<in> set xs \<and> P s)"
    for P and xs :: "(string \<times> Service option) list"
    using in_map_filter_snd [where xs = xs] by blast
  obtain services where
    "map_r (\<lambda>(name, svc). translateService res name svc) (apServices app) = Inr services"
    and ir: "ir = \<lparr> irName = apName app, irEnv = apEnv app, irVersion = apVersion app,
            irServices = services,
            irVolumes = remdups (filter is_named_volume
              (map volume_source (concat (map svVolumes (List.map_filter snd (apServices app)))))),
            irSecrets = remdups (concat (map svSecrets (List.map_filter snd (apServices app)))
              @ apSecrets app) \<rparr>"
    using assms by (auto simp: BuildIR_def bind_r_Inr_iff Let_def)
  then show "map_r (\<lambda>(name, svc). translateService res name svc) (apServices app) = Inr (irServices ir)"
    and "irName ir = apName app"
    by simp_all
  have "v \<in> set (irVolumes ir) \<longleftrightarrow> is_named_volume v \<and>
      (\<exists>s\<in>set (List.map_filter snd (apServices app)). v \<in> volume_source ` set (svVolumes s))"
    by (auto simp: ir)
  then show "v \<in> set (irVolumes ir) \<longleftrightarrow> is_named_volume v \<and>
      (\<exists>n s. (n, Some s) \<in> set (apServices app) \<and> v \<in> volume_source ` set (svVolumes s))"
    by (simp only: ex)
  have "x \<in> set (irSecrets ir) \<longleftrightarrow>
      (\<exists>s\<in>set (List.map_filter snd (apServices app)). x \<in> set (svSecrets s)) \<or>
      x \<in> set (apSecrets app)"
    by (auto simp: ir)
  then show "x \<in> set (irSecrets ir) \<longleftrightarrow>
      (\<exists>n s. (n, Some s) \<in> set (apServices app) \<and> x \<in> set (svSecrets s)) \<or>
      x \<in> set (apSecrets app)"
    by (simp only: ex)
qed

lemma irService_of_BuildIR:
  assumes "BuildIR res app = Inr ir" "is \<in> set (irServices ir)"
  obtains name s where "(name, Some s) \<in> set (apServices app)"
    "translateService res name (Some s) = Inr is"
proof -
  from map_r_elem [OF BuildIR_Inr(1) [OF assms(1)] assms(2)]
  obtain name sp where "(name, sp) \<in> set (apServices app)" "translateService res name sp = Inr is"
    by auto
  then show thesis using that [of name] by (cases sp) (auto simp: translateService_def)
qed

section \<open>Properties\<close>

lemma list_all2_in_set1:
  "list_all2 P xs ys \<Longrightarrow> x \<in> set xs \<Longrightarrow> \<exists>y\<in>set ys. P x y"
  by (metis in_set_conv_nth list_all2_conv_all_nth)

lemma translateService_validated:
  assumes "service_ok s" "translateService res name (Some s) = Inl e"
  shows "\<exists>e'. e = In_Service name e' \<and> is_config_err e'"
proof -
  obtain e' where e: "resolveServiceEnv res (svEnv s) = Inl e'" "e = In_Service name e'"
    using assms(2) by (auto simp: translateService_def split: sum.splits)
  then obtain kv where "kv \<in> set (svEnv s)" "resolveEnvEntry res kv = Inl e'"
    using map_r_InlD by (fastforce simp: resolveServiceEnv_def)
  then have "is_config_err e'"
    using assms(1) resolveEnvEntry_validated [of "svSecrets s" "snd kv" res "fst kv"]
    by (auto simp: service_ok_def)
  then show ?thesis using e by simp
qed

text \<open>Property C11.  A manifest that passes validation can fail to translate in one way only:
  the content of a config reference could not be had (no resolver, a resolver error, or
  several lines).  Nil services, empty secret names and unknown reference kinds are all
  excluded by validation.\<close>

theorem validated_translation_errors:
  assumes "Validate app = Inr ()" "BuildIR res app = Inl e"
  shows "\<exists>name e'. e = In_Service name e' \<and> is_config_err e'"
proof -
  have "map_r (\<lambda>(name, svc). translateService res name svc) (apServices app) = Inl e"
    using assms(2) by (auto simp: BuildIR_def bind_r_Inl_iff Let_def)
  then obtain name sp where sp: "(name, sp) \<in> set (apServices app)" "translateService res name sp = Inl e"
    using map_r_InlD by fastforce
  then obtain s where "sp = Some s" "service_ok s"
    using assms(1) by (auto simp: Validate_iff app_ok_def)
  then show ?thesis using sp translateService_validated by blast
qed

definition demo_svc :: Service where
  "demo_svc = \<lparr> svImage = ''nginx'', svReplicas = None, svRunOnce = False, svSkipFilelog = False,
     svPlacement = [], svCommand = [], svEntrypoint = [],
     svEnv = [(''MODE'', ''config(mode)''), (''PW_FILE'', ''secrets(db)'')],
     svVolumes = [''data:/var/lib'', ''/etc/app:/etc/app:ro''], svSecrets = [''db''],
     svExpose = None, svHealthcheck = None, svUpdate = None \<rparr>"

definition demo_app :: App where
  "demo_app = \<lparr> apName = ''web'', apEnv = ''prod'', apDomain = ''x.io'', apVersion = ''7'',
     apRegistry = [], apRepoURL = [], apEnvFile = [], apSecrets = [],
     apServices = [(''api'', Some demo_svc)], apBackupBeforeDeploy = False, apStrictBackup = False \<rparr>"

lemma demo_app_refs:
  "ParseEnvRef ''config(mode)'' = Some \<lparr> refKind = ''config'', refName = ''mode'' \<rparr>"
  "ParseEnvRef ''secrets(db)'' = Some \<lparr> refKind = ''secrets'', refName = ''db'' \<rparr>"
  by code_simp+

lemma demo_app_valid: "Validate demo_app = Inr ()"
  by (simp add: Validate_iff app_ok_def demo_app_def demo_svc_def service_ok_def nameRe_def char_classes
      less_eq_char_def env_entry_ok_def demo_app_refs)

lemma demo_app_builds: "is_ok (BuildIR (Some (\<lambda>_. Inr ''fast'')) demo_app)"
  by (simp add: demo_app_def demo_svc_def BuildIR_def is_ok_iff [symmetric] translateService_def
      resolveServiceEnv_def resolveEnvEntry_def demo_app_refs contains_any_def Let_def)

theorem validated_translation_errors_witness:
  "BuildIR None demo_app = Inl (In_Service ''api'' (Config_Unavailable ''MODE'' ''mode'')) \<and>
   (\<exists>name e'. In_Service ''api'' (Config_Unavailable ''MODE'' ''mode'') = In_Service name e' \<and>
      is_config_err e')"
proof -
  have b: "BuildIR None demo_app = Inl (In_Service ''api'' (Config_Unavailable ''MODE'' ''mode''))"
    by (simp add: demo_app_def demo_svc_def BuildIR_def translateService_def
      resolveServiceEnv_def resolveEnvEntry_def demo_app_refs)
  show ?thesis using b validated_translation_errors [OF demo_app_valid b] by blast
qed

text \<open>Property C12.  In the representation of a validated manifest, an environment entry that
  referred to a secret holds the path of a file that is there: the secret is mounted by the
  same service and declared for the stack.\<close>

theorem secret_refs_are_mounted:
  assumes "Validate app = Inr ()" "BuildIR res app = Inr ir"
    and "(name, Some s) \<in> set (apServices app)" "(k, v) \<in> set (svEnv s)"
    and "ParseEnvRef v = Some r" "refKind r = ''secrets''"
  shows "\<exists>is\<in>set (irServices ir). irsName is = name \<and>
    (k, SecretMountPath (refName r)) \<in> set (irsEnv is) \<and>
    refName r \<in> set (irsSecrets is) \<and> refName r \<in> set (irSecrets ir)"
proof -
  have ok: "service_ok s" using assms(1,3) by (auto simp: Validate_iff app_ok_def)
  then have "env_entry_ok (svSecrets s) v" using assms(4) by (auto simp: service_ok_def)
  then have mounted: "refName r \<in> set (svSecrets s)"
    using assms(5,6) by (simp add: env_entry_ok_def)
  then have declared: "refName r \<in> set (irSecrets ir)"
    using assms(3) BuildIR_Inr(4) [OF assms(2), of "refName r"] by blast
  obtain "is" where "is": "is \<in> set (irServices ir)" "translateService res name (Some s) = Inr is"
    using list_all2_in_set1 [OF BuildIR_Inr(1) [OF assms(2), unfolded map_r_ok_iff] assms(3)] by auto
  from "is"(2) show ?thesis
  proof (rule translateService_Inr)
    fix s' env
    assume s': "Some s = Some s'" and env: "resolveServiceEnv res (svEnv s') = Inr env"
      and f: "irsName is = name" "irsEnv is = env" "irsSecrets is = svSecrets s'"
    have "(k, v) \<in> set (svEnv s')" using assms(4) s' by simp
    then obtain kv' where kv': "kv' \<in> set env" "resolveEnvEntry res (k, v) = Inr kv'"
      using list_all2_in_set1 [OF env [unfolded resolveServiceEnv_def map_r_ok_iff]] by blast
    then have "kv' = (k, SecretMountPath (refName r))"
      using resolveEnvEntry_secret [OF assms(5,6)] by simp
    then show ?thesis
      using "is"(1) f kv'(1) mounted s' declared by auto
  qed
qed

theorem secret_refs_are_mounted_witness:
  "\<exists>is\<in>set (case BuildIR (Some (\<lambda>_. Inr ''fast'')) demo_app of Inr ir \<Rightarrow> irServices ir | _ \<Rightarrow> []).
     irsName is = ''api'' \<and> (''PW_FILE'', ''/run/secrets/db'') \<in> set (irsEnv is) \<and>
     ''db'' \<in> set (irsSecrets is)"
proof -
  obtain ir where ir: "BuildIR (Some (\<lambda>_. Inr ''fast'')) demo_app = Inr ir"
    using demo_app_builds by (auto simp: is_ok_iff)
  have "(''api'', Some demo_svc) \<in> set (apServices demo_app)" "(''PW_FILE'', ''secrets(db)'') \<in> set (svEnv demo_svc)"
    by (simp_all add: demo_app_def demo_svc_def)
  from secret_refs_are_mounted [OF demo_app_valid ir this demo_app_refs(2)] show ?thesis
    by (auto simp: ir SecretMountPath_def)
qed

end
