(* ===== verification/Compose.thy ===== *)
theory Compose
  imports Translate
begin

text \<open>
  The compose document (\<^verbatim>\<open>internal/manifest/compose.go\<close>) and its writer (\<^verbatim>\<open>compose_writer.go\<close>).
  The writer's out parameters \<^verbatim>\<open>usesTraefikNet\<close> and \<^verbatim>\<open>usesMonitoringNet\<close> become a returned pair
  of flags; the YAML library is the parameter \<^verbatim>\<open>marshal\<close>.  Go maps built by the writer are
  association lists updated key by key, so a later write to a key wins.
\<close>

section \<open>The document\<close>

record composeHealthcheck =
  chTest :: "string list"
  chInterval :: string
  chTimeout :: string
  chRetries :: int

record composePlacement =
  cpConstraints :: "string list"

record composeRestartPolicy =
  crCondition :: string

record composeUpdateConfig =
  cuParallelism :: int
  cuDelay :: string
  cuOrder :: string

record composeDeploy =
  cdMode :: string
  cdReplicas :: "int option"
  cdLabels :: "(string \<times> string) list"
  cdPlacement :: "composePlacement option"
  cdRestartPolicy :: "composeRestartPolicy option"
  cdUpdateConfig :: "composeUpdateConfig option"

record composeService =
  csImage :: string
  csCommand :: "string list"
  csEntrypoint :: "string list"
  csEnvironment :: "(string \<times> string) list"
  csVolumes :: "string list"
  csNetworks :: "string list"
  csSecrets :: "string list"
  csHealthcheck :: "composeHealthcheck option"
  csDeploy :: "composeDeploy option"

record composeVolume =
  cvDriver :: string
  cvExternal :: bool
  cvDriverOpts :: "(string \<times> string) list"

record composeNetwork =
  cnDriver :: string
  cnExternal :: bool

record composeSecret =
  csecExternal :: bool

record composeFile =
  cfVersion :: string
  cfServices :: "(string \<times> composeService) list"
  cfVolumes :: "(string \<times> composeVolume) list"
  cfNetworks :: "(string \<times> composeNetwork) list"
  cfSecrets :: "(string \<times> composeSecret) list"

record irApp =
  iaName :: string
  iaEnv :: string
  iaVersion :: string

section \<open>The pieces of a service\<close>

definition DefaultVolumeRoot :: string where
  "DefaultVolumeRoot = ''/var/stack/data''"

definition traefikNet :: string where "traefikNet = ''traefik-net''"
definition monitoringNet :: string where "monitoringNet = ''monitoring-net''"
definition privateNetSuffix :: string where "privateNetSuffix = ''-net''"

definition relocateVolume :: "string \<Rightarrow> string \<Rightarrow> string \<Rightarrow> string" where
  "relocateVolume root app v =
     (case cut_at (CHR '':'') v of
        Some (src, rest) \<Rightarrow>
          if has_prefix src ''/'' then root @ ''/'' @ app @ ''/'' @ path_base src @ '':'' @ rest
          else v
      | None \<Rightarrow> v)"

definition relocateVolumes :: "string \<Rightarrow> string \<Rightarrow> string list \<Rightarrow> string list" where
  "relocateVolumes root app volumes = map (relocateVolume root app) volumes"

definition composeHealthcheckFromIR :: "IRService \<Rightarrow> composeHealthcheck option" where
  "composeHealthcheckFromIR s =
     (case irsHealthcheck s of
        None \<Rightarrow> None
      | Some h \<Rightarrow>
          if irhType h = ''pg_isready'' then
            Some \<lparr> chTest = [''CMD-SHELL'', ''pg_isready -U $$POSTGRES_USER -d $$POSTGRES_DB''],
                   chInterval = ''10s'', chTimeout = ''5s'', chRetries = 5 \<rparr>
          else if irhType h = ''http'' then
            (let port = (case irsExpose s of Some e \<Rightarrow> irPort e | None \<Rightarrow> 0);
                 path = (if irhPath h = [] then ''/'' else irhPath h)
             in Some \<lparr> chTest = [''CMD-SHELL'',
                         ''wget -q --spider http://127.0.0.1:'' @ itoa port @ path],
                       chInterval = ''10s'', chTimeout = ''5s'', chRetries = 5 \<rparr>)
          else
            Some \<lparr> chTest = irhTest h, chInterval = irhInterval h, chTimeout = irhTimeout h,
                   chRetries = irhRetries h \<rparr>)"

definition translateUpdate :: "IRUpdate option \<Rightarrow> composeUpdateConfig" where
  "translateUpdate u =
     (case u of
        None \<Rightarrow> \<lparr> cuParallelism = 1, cuDelay = ''10s'', cuOrder = ''start-first'' \<rparr>
      | Some u \<Rightarrow>
          \<lparr> cuParallelism = (if iruParallelism u \<noteq> 0 then iruParallelism u else 1),
            cuDelay = (if iruDelay u \<noteq> [] then iruDelay u else ''10s''),
            cuOrder = (if iruOrder u \<noteq> [] then iruOrder u else ''start-first'') \<rparr>)"

definition standardLabels :: "irApp \<Rightarrow> string \<Rightarrow> (string \<times> string) list" where
  "standardLabels app serviceName =
     [(''service'', serviceName), (''application'', iaName app),
      (''environment'', iaEnv app), (''version'', iaVersion app)]"

definition escapeCompose :: "string \<Rightarrow> string" where
  "escapeCompose s = replace_all ''$'' ''$$'' s"

definition buildOriginRegex :: "IRExpose \<Rightarrow> string" where
  "buildOriginRegex e =
     ''^('' @
     join_with ''|'' (map (\<lambda>h. ''https://'' @ replace_all ''.'' [CHR 0x5C, CHR ''.''] h)
       (irHost e # irAliases e)) @
     '')$''"

definition put_labels :: "(string \<times> string) list \<Rightarrow> (string \<times> string) list \<Rightarrow> (string \<times> string) list" where
  "put_labels kvs m = foldl (\<lambda>m (k, v). AList.update k v m) m kvs"

definition host_rule :: "string \<Rightarrow> string" where
  "host_rule h = ''Host('' @ [CHR 0x60] @ h @ [CHR 0x60] @ '')''"

definition router_key :: "string \<Rightarrow> string \<Rightarrow> string" where
  "router_key scope field = ''traefik.http.routers.'' @ scope @ ''.'' @ field"

definition router_labels ::
  "string \<Rightarrow> string \<Rightarrow> bool \<Rightarrow> string \<Rightarrow> (string \<times> string) list" where
  "router_labels scope host corsDisabled middleware =
     [(router_key scope ''rule'', host_rule host),
      (router_key scope ''entrypoints'', ''websecure''),
      (router_key scope ''tls'', ''true'')] @
     (if corsDisabled then [] else [(router_key scope ''middlewares'', middleware)])"

definition cors_labels :: "string \<Rightarrow> IRExpose \<Rightarrow> (string \<times> string) list" where
  "cors_labels corsName e =
     (let pre = ''traefik.http.middlewares.'' @ corsName @ ''.headers.'' in
      [(pre @ ''accesscontrolalloworiginlistregex'', escapeCompose (buildOriginRegex e)),
       (pre @ ''accesscontrolallowcredentials'', ''true''),
       (pre @ ''accesscontrolallowmethods'', ''GET,POST,PUT,PATCH,DELETE,OPTIONS''),
       (pre @ ''accesscontrolallowheaders'',
          ''Content-Type,Authorization,X-Pmcluster-Signature,X-Request-Id''),
       (pre @ ''accesscontrolmaxage'', ''600''),
       (pre @ ''addvaryheader'', ''true'')])"

text \<open>The labels of an exposed service, in the order in which the source writes them.\<close>

definition traefik_entries :: "irApp \<Rightarrow> string \<Rightarrow> IRExpose \<Rightarrow> (string \<times> string) list" where
  "traefik_entries app serviceName e =
     (let scope = iaName app @ ''-'' @ serviceName;
          aliasCORS = (irAliases e \<noteq> [] \<and> \<not> irCORSDisabled e);
          corsName = scope @ ''-cors'';
          middleware = (if aliasCORS then corsName @ ''@swarm'' else ''cors-default@file'')
      in [(''traefik.enable'', ''true''),
          (''traefik.http.services.'' @ scope @ ''.loadbalancer.server.port'', itoa (irPort e)),
          (''traefik.docker.network'', traefikNet)] @
         (if aliasCORS then cors_labels corsName e else []) @
         router_labels scope (irHost e) (irCORSDisabled e) middleware @
         concat (map (\<lambda>(i, alias).
             router_labels (scope @ ''-alias'' @ nat_str i) alias (irCORSDisabled e) middleware)
           (enumerate 0 (irAliases e))))"

definition addTraefikLabels ::
  "(string \<times> string) list \<Rightarrow> irApp \<Rightarrow> string \<Rightarrow> IRExpose \<Rightarrow> (string \<times> string) list" where
  "addTraefikLabels labels app serviceName e = put_labels (traefik_entries app serviceName e) labels"

definition composeDeployFromIR :: "irApp \<Rightarrow> IRService \<Rightarrow> composeDeploy" where
  "composeDeployFromIR app s =
     (let labels0 = standardLabels app (irsName s);
          labels1 = (case irsExpose s of
                       Some e \<Rightarrow> addTraefikLabels labels0 app (irsName s) e
                     | None \<Rightarrow> labels0);
          labels2 = (if irsSkipFilelog s
                     then AList.update ''io.pmcluster.skip_filelog'' ''true'' labels1 else labels1)
      in \<lparr> cdMode = [],
           cdReplicas = (if irsRunOnce s then None
                         else Some (if irsReplicas s = 0 then 1 else irsReplicas s)),
           cdLabels = labels2,
           cdPlacement =
             (if irsPlacement s = ''manager'' then Some \<lparr> cpConstraints = [''node.role == manager''] \<rparr>
              else if irsPlacement s = ''worker'' then Some \<lparr> cpConstraints = [''node.role == worker''] \<rparr>
              else None),
           cdRestartPolicy =
             Some \<lparr> crCondition = (if irsRunOnce s then ''none'' else ''on-failure'') \<rparr>,
           cdUpdateConfig = (if irsRunOnce s then None else Some (translateUpdate (irsUpdate s))) \<rparr>)"

definition composeServiceFromIR ::
  "IRService \<Rightarrow> irApp \<Rightarrow> string \<Rightarrow> string \<Rightarrow> bool \<times> bool \<Rightarrow> composeService \<times> bool \<times> bool" where
  "composeServiceFromIR s app privateNet volumeRoot uses =
     (let exposed = irsExpose s \<noteq> None in
      (\<lparr> csImage = irsImage s, csCommand = irsCommand s, csEntrypoint = irsEntrypoint s,
         csEnvironment = irsEnv s,
         csVolumes = relocateVolumes volumeRoot (iaName app) (irsVolumes s),
         csNetworks = (if exposed then [privateNet, traefikNet, monitoringNet] else [privateNet]),
         csSecrets = irsSecrets s,
         csHealthcheck = composeHealthcheckFromIR s,
         csDeploy = Some (composeDeployFromIR app s) \<rparr>,
       (if exposed then (True, True) else uses)))"

section \<open>The whole document\<close>

fun write_services ::
  "irApp \<Rightarrow> string \<Rightarrow> string \<Rightarrow> IRService list \<Rightarrow>
     (string \<times> composeService) list \<times> bool \<times> bool \<Rightarrow>
     (string \<times> composeService) list \<times> bool \<times> bool" where
  "write_services app privateNet root [] acc = acc"
| "write_services app privateNet root (s # ss) (m, uses) =
     (let (cs, uses') = composeServiceFromIR s app privateNet root uses in
      write_services app privateNet root ss (AList.update (irsName s) cs m, uses'))"

definition bind_volume :: "string \<Rightarrow> string \<Rightarrow> string \<Rightarrow> composeVolume" where
  "bind_volume root app v =
     \<lparr> cvDriver = ''local'', cvExternal = False,
       cvDriverOpts = [(''type'', ''none''), (''o'', ''bind''),
                       (''device'', root @ ''/'' @ app @ ''/'' @ v)] \<rparr>"

definition compose_document :: "string \<Rightarrow> IR \<Rightarrow> composeFile" where
  "compose_document volumeRoot ir =
     (let root = (if volumeRoot = [] then DefaultVolumeRoot else volumeRoot);
          privateNet = irName ir @ privateNetSuffix;
          app = \<lparr> iaName = irName ir, iaEnv = irEnv ir, iaVersion = irVersion ir \<rparr>;
          (services, usesTraefik, usesMonitoring) =
            write_services app privateNet root (irServices ir) ([], False, False);
          volumes = foldl (\<lambda>m v. AList.update v (bind_volume root (irName ir) v) m) [] (irVolumes ir);
          nets0 = [(privateNet, \<lparr> cnDriver = ''overlay'', cnExternal = False \<rparr>)];
          nets1 = (if usesTraefik
                   then AList.update traefikNet \<lparr> cnDriver = [], cnExternal = True \<rparr> nets0 else nets0);
          nets2 = (if usesMonitoring
                   then AList.update monitoringNet \<lparr> cnDriver = [], cnExternal = True \<rparr> nets1 else nets1);
          secrets = foldl (\<lambda>m s. AList.update s \<lparr> csecExternal = True \<rparr> m) [] (irSecrets ir)
      in \<lparr> cfVersion = ''3.9'', cfServices = services, cfVolumes = volumes, cfNetworks = nets2,
           cfSecrets = secrets \<rparr>)"

definition Write ::
  "(composeFile \<Rightarrow> manifest_err + 'out) \<Rightarrow> string \<Rightarrow> IR \<Rightarrow> manifest_err + 'out" where
  "Write marshal volumeRoot ir = marshal (compose_document volumeRoot ir)"

definition Translate_with ::
  "(composeFile \<Rightarrow> manifest_err + 'out) \<Rightarrow> config_resolver \<Rightarrow> App \<Rightarrow> manifest_err + 'out" where
  "Translate_with marshal res app = TranslateIR (Write marshal []) res app None"

section \<open>Facts\<close>

lemma set_update_subset: "set (AList.update k v m) \<subseteq> insert (k, v) (set m)"
  by (induction m) auto

lemma keys_update: "fst ` set (AList.update k v m) = insert k (fst ` set m)"
  by (metis dom_map_of_conv_image_fst dom_fun_upd map_of_update option.distinct(1))

lemma fold_update_keys:
  "fst ` set (foldl (\<lambda>m x. AList.update (f x) (g x) m) m xs) = fst ` set m \<union> f ` set xs"
  by (induction xs arbitrary: m) (auto simp: keys_update)

lemma fold_update_subset:
  "set (foldl (\<lambda>m x. AList.update (f x) (g x) m) m xs) \<subseteq> set m \<union> (\<lambda>x. (f x, g x)) ` set xs"
proof (induction xs arbitrary: m)
  case (Cons x xs)
  show ?case
    using Cons.IH [of "AList.update (f x) (g x) m"] set_update_subset [of "f x" "g x" m] by auto
qed simp

definition service_block :: "irApp \<Rightarrow> string \<Rightarrow> string \<Rightarrow> IRService \<Rightarrow> composeService" where
  "service_block app net root s = fst (composeServiceFromIR s app net root (False, False))"

lemma composeServiceFromIR_split:
  "composeServiceFromIR s app net root uses =
     (service_block app net root s, if irsExpose s \<noteq> None then (True, True) else uses)"
  by (simp add: composeServiceFromIR_def service_block_def Let_def)

lemma write_services_fold:
  "write_services app net root ss (m, uses) =
     (foldl (\<lambda>m s. AList.update (irsName s) (service_block app net root s) m) m ss,
      if \<exists>s\<in>set ss. irsExpose s \<noteq> None then (True, True) else uses)"
proof (induction ss arbitrary: m uses)
  case (Cons s ss)
  show ?case
    by (simp only: write_services.simps composeServiceFromIR_split Let_def prod.case Cons.IH)
      (auto split: prod.splits)
qed simp

lemma service_block_simps:
  "csVolumes (service_block app net root s) = map (relocateVolume root (iaName app)) (irsVolumes s)"
  "csSecrets (service_block app net root s) = irsSecrets s"
  "csNetworks (service_block app net root s) =
     (if irsExpose s \<noteq> None then [net, traefikNet, monitoringNet] else [net])"
  "csDeploy (service_block app net root s) = Some (composeDeployFromIR app s)"
  by (simp_all add: service_block_def composeServiceFromIR_def Let_def relocateVolumes_def)

definition root_of :: "string \<Rightarrow> string" where
  "root_of r = (if r = [] then DefaultVolumeRoot else r)"

definition app_of :: "IR \<Rightarrow> irApp" where
  "app_of ir = \<lparr> iaName = irName ir, iaEnv = irEnv ir, iaVersion = irVersion ir \<rparr>"

lemma compose_document_parts:
  fixes r ir defines "doc \<equiv> compose_document r ir"
  shows "cfServices doc = foldl (\<lambda>m s. AList.update (irsName s)
      (service_block (app_of ir) (irName ir @ privateNetSuffix) (root_of r) s) m) [] (irServices ir)"
    and "cfVolumes doc = foldl (\<lambda>m v. AList.update v (bind_volume (root_of r) (irName ir) v) m) []
      (irVolumes ir)"
    and "cfSecrets doc = foldl (\<lambda>m s. AList.update s \<lparr> csecExternal = True \<rparr> m) [] (irSecrets ir)"
    and "fst ` set (cfNetworks doc) = insert (irName ir @ privateNetSuffix)
      (if \<exists>s\<in>set (irServices ir). irsExpose s \<noteq> None then {traefikNet, monitoringNet} else {})"
proof -
  let ?S = "write_services (app_of ir) (irName ir @ privateNetSuffix) (root_of r) (irServices ir)
    ([], False, False)"
  have S: "?S = (fst ?S, if \<exists>s\<in>set (irServices ir). irsExpose s \<noteq> None then (True, True)
      else (False, False))"
    by (simp only: write_services_fold fst_conv)
  show "cfServices doc = foldl (\<lambda>m s. AList.update (irsName s)
      (service_block (app_of ir) (irName ir @ privateNetSuffix) (root_of r) s) m) [] (irServices ir)"
    unfolding doc_def compose_document_def Let_def app_of_def [symmetric] root_of_def [symmetric]
    by (subst write_services_fold) simp
  show "cfVolumes doc = foldl (\<lambda>m v. AList.update v (bind_volume (root_of r) (irName ir) v) m) []
      (irVolumes ir)"
    unfolding doc_def compose_document_def Let_def app_of_def [symmetric] root_of_def [symmetric]
    by (subst S) simp
  show "cfSecrets doc = foldl (\<lambda>m s. AList.update s \<lparr> csecExternal = True \<rparr> m) [] (irSecrets ir)"
    unfolding doc_def compose_document_def Let_def app_of_def [symmetric] root_of_def [symmetric]
    by (subst S) simp
  show "fst ` set (cfNetworks doc) = insert (irName ir @ privateNetSuffix)
      (if \<exists>s\<in>set (irServices ir). irsExpose s \<noteq> None then {traefikNet, monitoringNet} else {})"
    unfolding doc_def compose_document_def Let_def app_of_def [symmetric] root_of_def [symmetric]
    by (subst S) (auto simp: keys_update)
qed

lemma relocateVolume_cases:
  obtains (bind) src rest where "v = src @ CHR '':'' # rest" "CHR '':'' \<notin> set src"
      "has_prefix src ''/''"
      "relocateVolume root app v = root @ ''/'' @ app @ ''/'' @ path_base src @ '':'' @ rest"
      "volume_source v = src"
  | (kept) "relocateVolume root app v = v"
proof (cases "cut_at (CHR '':'') v")
  case (Some p)
  obtain src rest where "p = (src, rest)" by (cases p)
  with Some have cut: "cut_at (CHR '':'') v = Some (src, rest)" by simp
  have vs: "volume_source v = src" by (simp add: volume_source_def cut)
  have v: "v = src @ CHR '':'' # rest" "CHR '':'' \<notin> set src"
    using cut by (simp_all add: cut_at_Some_iff)
  show thesis
  proof (cases "has_prefix src ''/''")
    case True
    show thesis by (rule bind [OF v True _ vs]) (simp add: relocateVolume_def cut True)
  next
    case False
    show thesis by (rule kept) (simp add: relocateVolume_def cut False)
  qed
qed (use kept in \<open>simp add: relocateVolume_def\<close>)

lemma volume_source_slash: "has_prefix v ''/'' \<Longrightarrow> has_prefix (volume_source v) ''/''"
  by (cases v) (auto simp: volume_source_def cut_at_def has_prefix_def split: list.splits)

lemma relocated_named:
  assumes "has_prefix root ''/''" "is_named_volume (volume_source (relocateVolume root app v))"
  shows "relocateVolume root app v = v"
proof (cases rule: relocateVolume_cases [of v root app])
  case (bind src rest)
  then have "has_prefix (relocateVolume root app v) ''/''"
    using assms(1) by (auto simp: has_prefix_def prefix_def)
  then show ?thesis
    using assms(2) volume_source_slash by (auto simp: is_named_volume_def)
qed

lemma put_labels_lookup:
  "map_of (put_labels kvs m) k = (case map_of (rev kvs) k of Some v \<Rightarrow> Some v | None \<Rightarrow> map_of m k)"
  by (induction kvs arbitrary: m)
    (auto simp: put_labels_def map_of_append map_add_def split: option.splits)

lemma put_labels_unique:
  assumes "(k, v) \<in> set kvs" "\<And>v'. (k, v') \<in> set kvs \<Longrightarrow> v' = v"
  shows "map_of (put_labels kvs m) k = Some v"
proof -
  have "map_of (rev kvs) k \<noteq> None" using assms(1) by (simp add: map_of_eq_None_iff) force
  then obtain v' where "map_of (rev kvs) k = Some v'" by blast
  then show ?thesis using assms(2) map_of_SomeD by (fastforce simp: put_labels_lookup)
qed

lemma put_labels_keys: "fst ` set (put_labels kvs m) = fst ` set m \<union> fst ` set kvs"
proof (induction kvs arbitrary: m)
  case (Cons kv kvs)
  obtain k v where "kv = (k, v)" by (cases kv)
  then show ?case
    using Cons.IH [of "AList.update k v m"] by (simp add: put_labels_def keys_update)
qed (simp add: put_labels_def)

section \<open>Properties\<close>

text \<open>Property C13.  The compose document of a manifest is closed: each of its services comes from
  a service of the manifest, and every network, secret and named volume the service uses is
  declared at the top level of the same document.\<close>

theorem compose_document_closed:
  assumes "BuildIR res app = Inr ir" "has_prefix (root_of r) ''/''"
    and "(n, cs) \<in> set (cfServices (compose_document r ir))"
  shows "(\<exists>s. (n, Some s) \<in> set (apServices app)) \<and>
    set (csNetworks cs) \<subseteq> fst ` set (cfNetworks (compose_document r ir)) \<and>
    set (csSecrets cs) \<subseteq> fst ` set (cfSecrets (compose_document r ir)) \<and>
    {volume_source v | v. v \<in> set (csVolumes cs) \<and> is_named_volume (volume_source v)}
      \<subseteq> fst ` set (cfVolumes (compose_document r ir))"
proof -
  obtain "is" where "is": "is \<in> set (irServices ir)" and n: "n = irsName is" and
    cs: "cs = service_block (app_of ir) (irName ir @ privateNetSuffix) (root_of r) is"
    using assms(3) fold_update_subset by (fastforce simp: compose_document_parts(1))
  obtain name s where s: "(name, Some s) \<in> set (apServices app)"
      and tr: "translateService res name (Some s) = Inr is"
    using irService_of_BuildIR [OF assms(1) "is"] by blast
  then have nm: "irsName is = name" "irsVolumes is = svVolumes s" "irsSecrets is = svSecrets s"
    by (auto elim!: translateService_Inr)
  have "volume_source v \<in> fst ` set (cfVolumes (compose_document r ir))"
    if v: "v \<in> set (csVolumes cs)" "is_named_volume (volume_source v)" for v
  proof -
    obtain w where w: "w \<in> set (svVolumes s)" "v = relocateVolume (root_of r) (iaName (app_of ir)) w"
      using v(1) nm by (auto simp: cs service_block_simps)
    then have "v = w" using relocated_named [OF assms(2)] v(2) by blast
    then have "volume_source v \<in> set (irVolumes ir)"
      using BuildIR_Inr(3) [OF assms(1)] v(2) w(1) s by blast
    then show ?thesis by (simp add: compose_document_parts(2) fold_update_keys)
  qed
  moreover have "set (csSecrets cs) \<subseteq> set (irSecrets ir)"
    using BuildIR_Inr(4) [OF assms(1)] s nm by (auto simp: cs service_block_simps)
  then have "set (csSecrets cs) \<subseteq> fst ` set (cfSecrets (compose_document r ir))"
    by (simp add: compose_document_parts(3) fold_update_keys)
  moreover have "set (csNetworks cs) \<subseteq> fst ` set (cfNetworks (compose_document r ir))"
    using "is" by (auto simp: cs service_block_simps compose_document_parts(4))
  ultimately show ?thesis using s nm n by blast
qed

lemma demo_app_document:
  "\<exists>ir cs. BuildIR (Some (\<lambda>_. Inr ''fast'')) demo_app = Inr ir \<and>
     cfServices (compose_document [] ir) = [(''api'', cs)] \<and>
     csVolumes cs = [''data:/var/lib'', ''/var/stack/data/web/app:/etc/app:ro'']"
  by (simp add: demo_app_def demo_svc_def BuildIR_def translateService_def resolveServiceEnv_def
      resolveEnvEntry_def demo_app_refs contains_any_def Let_def compose_document_def
      composeServiceFromIR_def relocateVolumes_def relocateVolume_def cut_at_def has_prefix_def
      path_base_def strip_slashes_def DefaultVolumeRoot_def)

theorem compose_document_closed_witness:
  "\<exists>ir cs. BuildIR (Some (\<lambda>_. Inr ''fast'')) demo_app = Inr ir \<and>
     (''api'', cs) \<in> set (cfServices (compose_document [] ir)) \<and>
     set (csSecrets cs) \<subseteq> fst ` set (cfSecrets (compose_document [] ir))"
proof -
  obtain ir cs where ir: "BuildIR (Some (\<lambda>_. Inr ''fast'')) demo_app = Inr ir"
      and cs: "(''api'', cs) \<in> set (cfServices (compose_document [] ir))"
    using demo_app_document by auto
  have "has_prefix (root_of []) ''/''" by (simp add: root_of_def DefaultVolumeRoot_def has_prefix_def)
  from compose_document_closed [OF ir this cs] ir cs show ?thesis by blast
qed

text \<open>A host path never reaches a container: a bind mount is moved to one entry
  right under the volume root's directory for the app (or that directory itself, for the host
  root), and the part after the colon is kept.\<close>

theorem bind_mounts_are_relocated:
  assumes "CHR '':'' \<notin> set (root @ app)" "cut_at (CHR '':'') v = Some (src, rest)" "has_prefix src ''/''"
  shows "\<exists>b. cut_at (CHR '':'') (relocateVolume root app v) = Some (root @ ''/'' @ app @ ''/'' @ b, rest) \<and>
    b \<noteq> [] \<and> (CHR ''/'' \<notin> set b \<or> b = ''/'')"
proof -
  have src: "CHR '':'' \<notin> set src" using assms(2) by (simp add: cut_at_Some_iff)
  then have "CHR '':'' \<notin> set (path_base src)"
    by (auto simp: path_base_def Let_def strip_slashes_def dest!: set_takeWhileD set_dropWhileD)
  then have "cut_at (CHR '':'') (relocateVolume root app v)
      = Some (root @ ''/'' @ app @ ''/'' @ path_base src, rest)"
    using assms(1) by (simp add: relocateVolume_def assms(2,3)) (simp add: cut_at_Some_iff)
  moreover have "path_base src \<noteq> []" by (simp add: path_base_def Let_def)
  ultimately show ?thesis using path_base_no_slash by blast
qed

theorem bind_mounts_are_relocated_witness:
  "\<exists>b. cut_at (CHR '':'') (relocateVolume ''/srv'' ''web'' ''/etc/../shadow:/x:ro'')
      = Some (''/srv/web/'' @ b, ''/x:ro'') \<and> b \<noteq> [] \<and> (CHR ''/'' \<notin> set b \<or> b = ''/'')"
  using bind_mounts_are_relocated [of "''/srv''" "''web''" "''/etc/../shadow:/x:ro''"]
  by (simp add: cut_at_def has_prefix_def)

definition escape_app :: App where
  "escape_app = demo_app\<lparr> apServices := [(''api'', Some (demo_svc\<lparr> svEnv := [],
     svVolumes := [''/..:/all-apps'', ''../../../../etc:/host-etc''] \<rparr>))] \<rparr>"

text \<open>Validation does not keep volumes inside the directory of their app: a bind
  mount of the parent directory ends at the parent of the app's directory, and the device of
  a relative named volume climbs out of the volume root.\<close>

theorem volumes_escape_their_root:
  "Validate escape_app = Inr () \<and>
   relocateVolumes ''/srv'' ''web'' [''/..:/all-apps''] = [''/srv/web/..:/all-apps''] \<and>
   (\<exists>ir. BuildIR None escape_app = Inr ir \<and>
      map_of (cfVolumes (compose_document ''/srv'' ir)) ''../../../../etc'' =
        Some (bind_volume ''/srv'' ''web'' ''../../../../etc'')) \<and>
   map_of (cvDriverOpts (bind_volume ''/srv'' ''web'' ''../../../../etc'')) ''device'' =
     Some ''/srv/web/../../../../etc''"
proof (intro conjI)
  show "Validate escape_app = Inr ()"
    by (simp add: Validate_iff app_ok_def escape_app_def demo_app_def demo_svc_def service_ok_def nameRe_def
        char_classes less_eq_char_def)
  show "\<exists>ir. BuildIR None escape_app = Inr ir \<and>
      map_of (cfVolumes (compose_document ''/srv'' ir)) ''../../../../etc'' =
        Some (bind_volume ''/srv'' ''web'' ''../../../../etc'')"
    by (simp add: compose_document_parts(2) escape_app_def demo_app_def demo_svc_def BuildIR_def
        translateService_def resolveServiceEnv_def Let_def volume_source_def is_named_volume_def
        cut_at_def has_prefix_def root_of_def map_filter_simps)
qed (simp_all add: relocateVolumes_def relocateVolume_def cut_at_def has_prefix_def path_base_def
    strip_slashes_def bind_volume_def)

text \<open>The deploy block of a validated service: a run-once service has no replica
  count, no update policy and restart condition none; any other service has a positive
  replica count (the one it asks for, unless it asks for zero), restart on failure and a
  complete update policy.\<close>

theorem deploy_block_modes:
  assumes "service_ok s" "translateService res name (Some s) = Inr is"
  shows "cdRestartPolicy (composeDeployFromIR app is) =
      Some \<lparr> crCondition = (if svRunOnce s then ''none'' else ''on-failure'') \<rparr> \<and>
    cdReplicas (composeDeployFromIR app is) =
      (if svRunOnce s then None
       else case svReplicas s of None \<Rightarrow> Some 1 | Some n \<Rightarrow> Some (max 1 n)) \<and>
    (case cdUpdateConfig (composeDeployFromIR app is) of
       None \<Rightarrow> svRunOnce s
     | Some u \<Rightarrow> \<not> svRunOnce s \<and> 1 \<le> cuParallelism u \<and> cuDelay u \<noteq> [] \<and>
         (cuOrder u = ''start-first'' \<or> cuOrder u = ''stop-first''))"
proof -
  obtain env where "is = \<lparr> irsName = name, irsImage = svImage s, irsCommand = svCommand s,
                irsEntrypoint = svEntrypoint s, irsEnv = env, irsVolumes = svVolumes s,
                irsSecrets = svSecrets s,
                irsExpose = map_option irExpose_of (svExpose s),
                irsHealthcheck = translateHealthcheck s,
                irsRunOnce = svRunOnce s,
                irsReplicas =
                  (if svRunOnce s then 0
                   else (case svReplicas s of Some n \<Rightarrow> n | None \<Rightarrow> 1)),
                irsPlacement = svPlacement s,
                irsUpdate = (if svRunOnce s then None else map_option irUpdate_of (svUpdate s)),
                irsSkipFilelog = svSkipFilelog s \<rparr>"
    using assms(2) by (auto simp: translateService_def split: sum.splits)
  then have d: "cdRestartPolicy (composeDeployFromIR app is) =
        Some \<lparr> crCondition = (if svRunOnce s then ''none'' else ''on-failure'') \<rparr>"
      "cdReplicas (composeDeployFromIR app is) = (if svRunOnce s then None
        else Some (let n = (case svReplicas s of Some n \<Rightarrow> n | None \<Rightarrow> 1) in if n = 0 then 1 else n))"
      "cdUpdateConfig (composeDeployFromIR app is) = (if svRunOnce s then None
        else Some (translateUpdate (map_option irUpdate_of (svUpdate s))))"
    by (simp_all add: composeDeployFromIR_def Let_def)
  have "0 \<le> n" if "svReplicas s = Some n" for n
    using assms(1) that by (simp add: service_ok_def)
  moreover have "upOrder u \<in> {[], ''start-first'', ''stop-first''} \<and> 0 \<le> upParallelism u"
    if "svUpdate s = Some u" for u
    using assms(1) that by (simp add: service_ok_def)
  ultimately show ?thesis
    by (simp add: d Let_def) (auto simp: translateUpdate_def irUpdate_of_def split: option.splits)
qed

theorem deploy_block_modes_witness:
  "\<exists>is. translateService None ''job'' (Some (demo_svc\<lparr> svEnv := [], svReplicas := Some 3 \<rparr>)) = Inr is \<and>
     cdReplicas (composeDeployFromIR \<lparr> iaName = ''shop'', iaEnv = ''prod'', iaVersion = ''1'' \<rparr> is) = Some 3"
proof -
  have ok: "service_ok (demo_svc\<lparr> svEnv := [], svReplicas := Some 3 \<rparr>)"
    by (simp add: demo_svc_def service_ok_def)
  obtain "is" where "is": "translateService None ''job'' (Some (demo_svc\<lparr> svEnv := [], svReplicas := Some 3 \<rparr>)) = Inr is"
    by (simp add: demo_svc_def translateService_def resolveServiceEnv_def)
  then show ?thesis
    using deploy_block_modes [OF ok "is", of "\<lparr> iaName = ''shop'', iaEnv = ''prod'', iaVersion = ''1'' \<rparr>"] by (simp add: demo_svc_def)
qed

lemma last_dot_unique:
  assumes "x @ CHR ''.'' # a = y @ CHR ''.'' # b" "CHR ''.'' \<notin> set a" "CHR ''.'' \<notin> set b"
  shows "x = y \<and> a = b"
proof -
  have "rev a @ CHR ''.'' # rev x = rev b @ CHR ''.'' # rev y"
    using arg_cong [OF assms(1), of rev] by simp
  then show ?thesis
    using assms(2,3) cut_at_Some_iff [of "CHR ''.''" "rev a @ CHR ''.'' # rev x"]
    by (metis option.inject prod.inject rev_is_rev_conv set_rev)
qed

lemma router_key_eq:
  assumes "CHR ''.'' \<notin> set f" "CHR ''.'' \<notin> set g"
  shows "router_key sc f = router_key sc' g \<longleftrightarrow> sc = sc' \<and> f = g"
  using last_dot_unique [of sc f sc' g] assms by (auto simp: router_key_def)

lemma router_labels_rule:
  "(router_key sc ''rule'', v) \<in> set (router_labels sc' h cd mw) \<longleftrightarrow> sc = sc' \<and> v = host_rule h"
  by (auto simp: router_labels_def router_key_eq)

lemma router_key_neq:
  "router_key sc f \<noteq> ''traefik.enable''" "router_key sc f \<noteq> ''traefik.docker.network''"
  "router_key sc f \<noteq> ''traefik.http.services.'' @ x" "router_key sc f \<noteq> ''traefik.http.middlewares.'' @ x"
  by (simp_all add: router_key_def)

lemma set_concat_enumerate:
  "set (concat (map (\<lambda>(i, a). f i a) (enumerate 0 xs))) = (\<Union>i\<in>{..<length xs}. set (f i (xs ! i)))"
  by (force simp: in_set_enumerate_eq)

lemma cors_labels_no_router: "(router_key sc f, v) \<notin> set (cors_labels c e)"
  unfolding cors_labels_def Let_def append_assoc by (simp only: list.set insert_iff prod.inject router_key_neq) simp

definition alias_scope :: "string \<Rightarrow> nat \<Rightarrow> string" where
  "alias_scope scope i = scope @ ''-alias'' @ nat_str i"

lemma alias_scope_sep:
  "alias_scope scope i \<noteq> scope" "alias_scope scope i = alias_scope scope j \<longleftrightarrow> i = j"
  by (auto simp: alias_scope_def)

text \<open>The router rules among the labels of an exposed service.\<close>

lemma traefik_entries_rule:
  fixes app name defines "scope \<equiv> iaName app @ ''-'' @ name"
  shows "(router_key sc ''rule'', v) \<in> set (traefik_entries app name e) \<longleftrightarrow>
    sc = scope \<and> v = host_rule (irHost e) \<or>
    (\<exists>i<length (irAliases e). sc = alias_scope scope i \<and> v = host_rule (irAliases e ! i))"
proof -
  have pre: "(router_key sc ''rule'', v) \<in> set [(''traefik.enable'', ''true''),
      (''traefik.http.services.'' @ scope @ ''.loadbalancer.server.port'', itoa (irPort e)),
      (''traefik.docker.network'', traefikNet)] \<longleftrightarrow> False"
    by (simp only: list.set insert_iff prod.inject router_key_neq) simp
  show ?thesis
    unfolding traefik_entries_def Let_def scope_def [symmetric] alias_scope_def [symmetric]
      set_append Un_iff set_concat_enumerate pre
    by (auto simp: router_labels_rule cors_labels_no_router)
qed

lemma map_of_Some_key: "map_of m k = Some v \<Longrightarrow> k \<in> set (map fst m)"
  by (induction m) (auto split: if_splits)

lemma map_of_unique:
  assumes "(k, v) \<in> set kvs" "\<And>v'. (k, v') \<in> set kvs \<Longrightarrow> v' = v"
  shows "map_of kvs k = Some v"
  using assms by (metis map_of_SomeD option.exhaust map_of_eq_None_iff image_eqI fst_conv)

text \<open>An exposed service gets one Traefik router for its host and one for each
  alias, whose rule is that hostname, and no later label overwrites a router rule.\<close>

theorem every_hostname_has_a_router:
  fixes app name e labels
  defines "L \<equiv> addTraefikLabels labels app name e" and "scope \<equiv> iaName app @ ''-'' @ name"
  shows "map_of L (router_key scope ''rule'') = Some (host_rule (irHost e)) \<and>
    (\<forall>i. i < length (irAliases e) \<longrightarrow>
       map_of L (router_key (alias_scope scope i) ''rule'') =
         Some (host_rule (irAliases e ! i)))"
  unfolding L_def addTraefikLabels_def scope_def
  by (intro conjI allI impI put_labels_unique; simp only: traefik_entries_rule alias_scope_sep)
    (auto simp: alias_scope_sep(1) [symmetric])

theorem every_hostname_has_a_router_witness:
  "map_of (addTraefikLabels [] \<lparr> iaName = ''shop'', iaEnv = ''prod'', iaVersion = ''1'' \<rparr> ''web''
     \<lparr> irPort = 80, irHost = ''a.io'', irAliases = [''b.io''], irCORSDisabled = False \<rparr>)
     (router_key ''shop-web-alias0'' ''rule'') = Some (host_rule ''b.io'')"
  using every_hostname_has_a_router [of "[]" "\<lparr> iaName = ''shop'', iaEnv = ''prod'', iaVersion = ''1'' \<rparr>"
      "''web''" "\<lparr> irPort = 80, irHost = ''a.io'', irAliases = [''b.io''], irCORSDisabled = False \<rparr>"]
  by (simp add: alias_scope_def nat_str_0)

lemma traefik_entries_keys:
  "k \<in> fst ` set (traefik_entries app name e) \<Longrightarrow> has_prefix k ''traefik.''"
  by (auto simp: traefik_entries_def Let_def cors_labels_def router_labels_def router_key_def
      has_prefix_def split: if_splits)

lemma put_labels_other: "k \<notin> fst ` set kvs \<Longrightarrow> map_of (put_labels kvs m) k = map_of m k"
  by (simp add: put_labels_lookup split: option.splits) (metis map_of_SomeD image_eqI fst_conv set_rev)

lemma traefik_enable: "map_of (addTraefikLabels m app name e) ''traefik.enable'' = Some ''true''"
  unfolding addTraefikLabels_def
proof (rule put_labels_unique)
  show "(''traefik.enable'', ''true'') \<in> set (traefik_entries app name e)"
    by (simp add: traefik_entries_def Let_def)
qed (auto simp: traefik_entries_def Let_def cors_labels_def router_labels_def router_key_def
      split: if_splits)

text \<open>Traefik sees exactly the exposed services: a service carries a Traefik label
  if and only if it is exposed, and the four standard labels are never overwritten.\<close>

theorem traefik_labels_iff_exposed:
  fixes app s defines "L \<equiv> cdLabels (composeDeployFromIR app s)"
  shows "(filter (\<lambda>k. has_prefix k ''traefik.'') (map fst L) = []) = (irsExpose s = None) \<and>
    (map_of L ''traefik.enable'' = Some ''true'') = (irsExpose s \<noteq> None) \<and>
    map_of L ''service'' = Some (irsName s) \<and> map_of L ''application'' = Some (iaName app) \<and>
    map_of L ''environment'' = Some (iaEnv app) \<and> map_of L ''version'' = Some (iaVersion app)"
proof (cases "irsExpose s")
  case None
  then show ?thesis
    by (auto simp: L_def composeDeployFromIR_def Let_def standardLabels_def has_prefix_def)
next
  case (Some e)
  define A where "A = addTraefikLabels (standardLabels app (irsName s)) app (irsName s) e"
  have L: "map_of L k = map_of A k" if "k \<noteq> ''io.pmcluster.skip_filelog''" for k
    using that by (simp add: L_def composeDeployFromIR_def Some A_def Let_def)
  have std: "map_of L k = map_of (standardLabels app (irsName s)) k"
    if "\<not> has_prefix k ''traefik.''" "k \<noteq> ''io.pmcluster.skip_filelog''" for k
  proof -
    have "k \<notin> fst ` set (traefik_entries app (irsName s) e)"
      using traefik_entries_keys that(1) by blast
    then show ?thesis
      using that(2) by (simp add: L A_def addTraefikLabels_def put_labels_other)
  qed
  have en: "map_of L ''traefik.enable'' = Some ''true''"
    by (subst L) (simp_all add: A_def traefik_enable)
  then have "''traefik.enable'' \<in> set (map fst L)"
    by (rule map_of_Some_key)
  moreover have "has_prefix ''traefik.enable'' ''traefik.''" by (simp add: has_prefix_def)
  ultimately have "filter (\<lambda>k. has_prefix k ''traefik.'') (map fst L) \<noteq> []"
    unfolding filter_empty_conv by blast
  then show ?thesis
    using Some en by (simp add: std has_prefix_def) (simp add: standardLabels_def)
qed

text \<open>Router names are not unique across apps: the scope is the app and the service
  joined by a dash, which both may contain.\<close>

theorem router_scopes_collide:
  "nameRe ''shop'' \<and> nameRe ''web-api'' \<and> nameRe ''shop-web'' \<and> nameRe ''api'' \<and>
   map_of (traefik_entries \<lparr> iaName = ''shop'', iaEnv = ''p'', iaVersion = ''1'' \<rparr> ''web-api'' e)
     (router_key ''shop-web-api'' ''rule'') = Some (host_rule (irHost e)) \<and>
   map_of (traefik_entries \<lparr> iaName = ''shop-web'', iaEnv = ''p'', iaVersion = ''1'' \<rparr> ''api'' e')
     (router_key ''shop-web-api'' ''rule'') = Some (host_rule (irHost e'))"
proof -
  have "map_of (traefik_entries app name e) (router_key (iaName app @ ''-'' @ name) ''rule'')
      = Some (host_rule (irHost e))" for app name e
    by (rule map_of_unique; simp only: traefik_entries_rule) (auto simp: alias_scope_sep(1) [symmetric])
  from this [of "\<lparr> iaName = ''shop'', iaEnv = ''p'', iaVersion = ''1'' \<rparr>" "''web-api''" e]
    this [of "\<lparr> iaName = ''shop-web'', iaEnv = ''p'', iaVersion = ''1'' \<rparr>" "''api''" e']
  show ?thesis by (simp add: nameRe_def char_classes less_eq_char_def)
qed

end
