(* ===== verification/Interpolate.thy ===== *)
theory Interpolate
  imports Dsl
begin

text \<open>
  Placeholder substitution in a manifest (\<^verbatim>\<open>internal/manifest/interpolate.go\<close>).  The process
  environment is the function \<^verbatim>\<open>getenv\<close> (\<^verbatim>\<open>os.LookupEnv\<close>).  Go ranges over the \<^verbatim>\<open>builtins\<close> map in an
  order it does not fix: \<^verbatim>\<open>ord\<close> is the order one call uses.  In-place mutation becomes the
  returned manifest; a caller that gets an error drops the manifest.
\<close>

section \<open>Environment placeholders\<close>

definition ident_start :: "char \<Rightarrow> bool" where
  "ident_start c \<longleftrightarrow> is_alpha c \<or> c = CHR ''_''"

definition ident_char :: "char \<Rightarrow> bool" where
  "ident_char c \<longleftrightarrow> is_alnum c \<or> c = CHR ''_''"

definition env_text :: "string \<Rightarrow> string" where
  "env_text v = ''${env:'' @ v @ ''}''"

definition match_env :: "string \<Rightarrow> (string \<times> string) option" where
  "match_env s =
     (if has_prefix s ''${env:'' then
        let r = drop 6 s; v = takeWhile ident_char r in
        (case dropWhile ident_char r of
           [] \<Rightarrow> None
         | c # rest \<Rightarrow>
             if c = CHR ''}'' \<and> v \<noteq> [] \<and> ident_start (hd v) then Some (v, rest) else None)
      else None)"

definition env_name_ok :: "string \<Rightarrow> bool" where
  "env_name_ok v \<longleftrightarrow> v \<noteq> [] \<and> ident_start (hd v) \<and> list_all ident_char v"

lemma not_ident_brace: "\<not> ident_char (CHR ''}'')"
  by (simp add: ident_char_def char_classes less_eq_char_def)

lemma match_env_Some_iff:
  "match_env s = Some (v, rest) \<longleftrightarrow> s = env_text v @ rest \<and> env_name_ok v"
proof
  assume m: "match_env s = Some (v, rest)"
  then obtain r where s: "s = ''${env:'' @ r"
    by (auto simp: match_env_def has_prefix_def prefix_def split: if_splits)
  have v: "v = takeWhile ident_char r \<and> dropWhile ident_char r = CHR ''}'' # rest \<and>
      v \<noteq> [] \<and> ident_start (hd v)"
    using m by (auto simp: s match_env_def Let_def split: if_splits list.splits)
  then have "r = v @ CHR ''}'' # rest" "list_all ident_char v"
    using take_drop_while [of ident_char r] by (simp, metis list_all_iff set_takeWhileD)
  with v show "s = env_text v @ rest \<and> env_name_ok v"
    by (simp add: s env_text_def env_name_ok_def)
next
  assume "s = env_text v @ rest \<and> env_name_ok v"
  then show "match_env s = Some (v, rest)"
    by (auto simp: match_env_def env_text_def env_name_ok_def has_prefix_def not_ident_brace
        takeWhile_all_append dropWhile_all_append)
qed

lemma match_env_shorter: "match_env s = Some (v, rest) \<Longrightarrow> length rest < length s"
  by (auto simp: match_env_Some_iff env_text_def)

text \<open>\<^verbatim>\<open>envVarRe.ReplaceAllStringFunc\<close>: the variables that are unset, in order, and the text.\<close>

function env_subst :: "(string \<Rightarrow> string option) \<Rightarrow> string \<Rightarrow> string list \<times> string" where
  "env_subst getenv [] = ([], [])"
| "env_subst getenv (c # cs) =
     (case match_env (c # cs) of
        None \<Rightarrow> (let (u, out) = env_subst getenv cs in (u, c # out))
      | Some (v, rest) \<Rightarrow>
          (let (u, out) = env_subst getenv rest in
           case getenv v of
             None \<Rightarrow> (v # u, env_text v @ out)
           | Some x \<Rightarrow> (u, x @ out)))"
  by pat_completeness auto
termination
  by (relation "measure (\<lambda>(_, s). length s)") (auto dest: match_env_shorter)

declare env_subst.simps(2) [simp del]

section \<open>One string\<close>

definition replace_builtins :: "(string \<times> string) list \<Rightarrow> string \<Rightarrow> string" where
  "replace_builtins bs s = foldl (\<lambda>s (placeholder, val). replace_all placeholder val s) s bs"

definition substitute ::
  "(string \<Rightarrow> string option) \<Rightarrow> (string \<times> string) list \<Rightarrow> string \<Rightarrow> manifest_err + string" where
  "substitute getenv bs s =
     (let (unresolved, out) = env_subst getenv (replace_builtins bs s) in
      if unresolved \<noteq> [] then Inl (Unresolved_Env unresolved) else Inr out)"

section \<open>The whole manifest\<close>

definition wrap_field :: "string \<Rightarrow> string \<Rightarrow> manifest_err + 'a \<Rightarrow> manifest_err + 'a" where
  "wrap_field svc field r = (case r of Inl e \<Rightarrow> Inl (In_Field svc field e) | Inr v \<Rightarrow> Inr v)"

definition subst_list ::
  "(string \<Rightarrow> manifest_err + string) \<Rightarrow> string \<Rightarrow> string \<Rightarrow> string list \<Rightarrow>
     manifest_err + string list" where
  "subst_list subst svc field xs =
     map_r (\<lambda>(i, x). wrap_field svc (index_field field i) (subst x)) (enumerate 0 xs)"

definition subst_env ::
  "(string \<Rightarrow> manifest_err + string) \<Rightarrow> string \<Rightarrow> (string \<times> string) list \<Rightarrow>
     manifest_err + (string \<times> string) list" where
  "subst_env subst svc env =
     map_r (\<lambda>(k, v). bind_r (wrap_field svc (''env.'' @ k) (subst v)) (\<lambda>v'. Inr (k, v'))) env"

definition subst_expose ::
  "(string \<Rightarrow> manifest_err + string) \<Rightarrow> string \<Rightarrow> Expose option \<Rightarrow> manifest_err + Expose option" where
  "subst_expose subst svc ex =
     (case ex of
        None \<Rightarrow> Inr None
      | Some e \<Rightarrow>
          bind_r (wrap_field svc ''expose.host'' (subst (exHost e))) (\<lambda>h.
          bind_r (subst_list subst svc ''expose.aliases'' (exAliases e)) (\<lambda>al.
          Inr (Some (e\<lparr> exHost := h, exAliases := al \<rparr>)))))"

definition interpolateService ::
  "(string \<Rightarrow> manifest_err + string) \<Rightarrow> string \<Rightarrow> Service option \<Rightarrow> manifest_err + Service" where
  "interpolateService subst name sp =
     (case sp of
        None \<Rightarrow> Inl Nil_Deref
      | Some s \<Rightarrow>
          bind_r (wrap_field name ''image'' (subst (svImage s))) (\<lambda>image.
          bind_r (subst_list subst name ''command'' (svCommand s)) (\<lambda>command.
          bind_r (subst_list subst name ''entrypoint'' (svEntrypoint s)) (\<lambda>entrypoint.
          bind_r (subst_env subst name (svEnv s)) (\<lambda>env.
          bind_r (subst_list subst name ''volumes'' (svVolumes s)) (\<lambda>volumes.
          bind_r (subst_expose subst name (svExpose s)) (\<lambda>expose.
          Inr (s\<lparr> svImage := image, svCommand := command, svEntrypoint := entrypoint,
                  svEnv := env, svVolumes := volumes, svExpose := expose \<rparr>))))))))"

definition builtins :: "App \<Rightarrow> (string \<times> string) list" where
  "builtins app =
     [(''${app}'', apName app), (''${env}'', apEnv app), (''${version}'', apVersion app),
      (''${registry}'', apRegistry app), (''${domain}'', apDomain app)]"

definition Interpolate ::
  "(string \<Rightarrow> string option) \<Rightarrow> (string \<Rightarrow> (string \<times> string) list \<Rightarrow> (string \<times> string) list) \<Rightarrow>
     App \<Rightarrow> manifest_err + App" where
  "Interpolate getenv ord app0 =
     (let app = (if apVersion app0 = [] then app0\<lparr> apVersion := ''latest'' \<rparr> else app0);
          bs = builtins app;
          subst = (\<lambda>s. substitute getenv (ord s bs) s)
      in
      bind_r (subst (apDomain app)) (\<lambda>domain.
      bind_r (subst (apRegistry app)) (\<lambda>registry.
      bind_r (subst (apVersion app)) (\<lambda>version.
      bind_r (subst (apRepoURL app)) (\<lambda>repo.
      bind_r (subst (apEnvFile app)) (\<lambda>envfile.
      bind_r (map_r subst (apSecrets app)) (\<lambda>secrets.
      bind_r (map_r (\<lambda>(name, svc). bind_r (interpolateService subst name svc)
                (\<lambda>s. Inr (name, Some s))) (apServices app)) (\<lambda>services.
      Inr (app\<lparr> apDomain := domain, apRegistry := registry, apVersion := version,
                apRepoURL := repo, apEnvFile := envfile, apSecrets := secrets,
                apServices := services \<rparr>)))))))))"

section \<open>Texts in placeholder form\<close>

text \<open>A text an operator writes: bytes other than \<^verbatim>\<open>$\<close>, builtin placeholders and environment
  placeholders.  Its meaning does not mention any order.\<close>

datatype token = Byte char | Builtin string | EnvVar string

fun token_text :: "token \<Rightarrow> string" where
  "token_text (Byte c) = [c]"
| "token_text (Builtin p) = p"
| "token_text (EnvVar v) = env_text v"

definition token_ok :: "string set \<Rightarrow> token \<Rightarrow> bool" where
  "token_ok ps t =
     (case t of
        Byte c \<Rightarrow> c \<noteq> CHR ''$''
      | Builtin p \<Rightarrow> p \<in> ps
      | EnvVar v \<Rightarrow> env_name_ok v)"

lemma token_ok_simps [simp]:
  "token_ok ps (Byte c) \<longleftrightarrow> c \<noteq> CHR ''$''"
  "token_ok ps (Builtin p) \<longleftrightarrow> p \<in> ps"
  "token_ok ps (EnvVar v) \<longleftrightarrow> env_name_ok v"
  by (simp_all add: token_ok_def)

text \<open>What a list of placeholders must satisfy: a placeholder is \<^verbatim>\<open>$\<close> followed by bytes that are
  neither \<^verbatim>\<open>$\<close> nor the one that closes it before the end; it is no environment placeholder.\<close>

definition placeholder_ok :: "string \<Rightarrow> bool" where
  "placeholder_ok p \<longleftrightarrow>
     (\<exists>body. p = ''${'' @ body @ ''}'' \<and> CHR ''$'' \<notin> set body \<and> CHR ''}'' \<notin> set body \<and>
        CHR '':'' \<notin> set body)"

fun token_value :: "(string \<Rightarrow> string option) \<Rightarrow> (string \<times> string) list \<Rightarrow> token \<Rightarrow> string" where
  "token_value getenv bs (Byte c) = [c]"
| "token_value getenv bs (Builtin p) = the (map_of bs p)"
| "token_value getenv bs (EnvVar v) = (case getenv v of Some x \<Rightarrow> x | None \<Rightarrow> env_text v)"

definition tokens_text :: "token list \<Rightarrow> string" where
  "tokens_text ts = concat (map token_text ts)"

definition expand :: "string \<Rightarrow> string \<Rightarrow> token list \<Rightarrow> token list" where
  "expand p v ts = concat (map (\<lambda>t. if t = Builtin p then map Byte v else [t]) ts)"

definition expand_all :: "(string \<times> string) list \<Rightarrow> token list \<Rightarrow> token list" where
  "expand_all bs ts =
     concat (map (\<lambda>t. case t of Builtin p \<Rightarrow> map Byte (the (map_of bs p)) | _ \<Rightarrow> [t]) ts)"

lemma tokens_text_simps [simp]:
  "tokens_text [] = []" "tokens_text (t # ts) = token_text t @ tokens_text ts"
  "tokens_text (ts @ us) = tokens_text ts @ tokens_text us"
  "tokens_text (map Byte v) = v"
  by (simp_all add: tokens_text_def comp_def)

lemma replace_all_skip:
  assumes "placeholder_ok p" "CHR ''$'' \<notin> set xs"
  shows "replace_all p v (xs @ r) = xs @ replace_all p v r"
  using assms(2)
proof (induction xs)
  case (Cons x xs)
  then have "\<not> prefix p (x # xs @ r)"
    using assms(1) by (auto simp: placeholder_ok_def)
  with Cons show ?case by simp
qed simp

lemma placeholder_prefix:
  assumes "placeholder_ok p" "prefix p (''${'' @ b @ ''}'' @ r)" "CHR ''}'' \<notin> set b"
  shows "p = ''${'' @ b @ ''}''"
proof -
  obtain a where a: "p = ''${'' @ a @ ''}''" "CHR ''}'' \<notin> set a"
    using assms(1) by (auto simp: placeholder_ok_def)
  then obtain t where "a @ CHR ''}'' # t = b @ CHR ''}'' # r"
    using assms(2) by (auto simp: prefix_def)
  then have "a = b"
    using a(2) assms(3) cut_at_Some_iff [of "CHR ''}''"] by (metis option.inject prod.inject)
  then show ?thesis using a by simp
qed

lemma replace_all_other:
  assumes p: "placeholder_ok p" and ne: "p \<noteq> ''${'' @ b @ ''}''"
    and b: "CHR ''}'' \<notin> set b" "CHR ''$'' \<notin> set b"
  shows "replace_all p v ((''${'' @ b @ ''}'') @ r) = (''${'' @ b @ ''}'') @ replace_all p v r"
proof -
  have "\<not> prefix p (''${'' @ b @ ''}'' @ r)"
    using placeholder_prefix [OF p _ b(1)] ne by blast
  moreover have "replace_all p v ((''{'' @ b @ ''}'') @ r) = (''{'' @ b @ ''}'') @ replace_all p v r"
    by (rule replace_all_skip [OF p]) (use b in auto)
  ultimately show ?thesis by simp
qed

lemma replace_all_match: "p \<noteq> [] \<Longrightarrow> replace_all p v (p @ r) = v @ replace_all p v r"
  by (cases p) auto

lemma env_name_chars:
  assumes "env_name_ok v"
  shows "CHR ''}'' \<notin> set v" "CHR ''$'' \<notin> set v"
  using assms by (auto simp: env_name_ok_def list_all_iff ident_char_def char_classes
      less_eq_char_def dest!: bspec)

lemma replace_all_tokens:
  assumes p: "placeholder_ok p" and ps: "\<And>q. q \<in> ps \<Longrightarrow> placeholder_ok q"
    and ts: "list_all (token_ok ps) ts"
  shows "replace_all p v (tokens_text ts) = tokens_text (expand p v ts)"
  using ts
proof (induction ts)
  case (Cons t ts)
  then have IH: "replace_all p v (tokens_text ts) = tokens_text (expand p v ts)"
    and t: "token_ok ps t" by auto
  have "replace_all p v (token_text t @ tokens_text ts)
      = (if t = Builtin p then v else token_text t) @ replace_all p v (tokens_text ts)"
  proof (cases t)
    case (Byte c)
    then show ?thesis using t replace_all_skip [OF p, of "[c]" v] by simp
  next
    case (Builtin q)
    obtain b where b: "q = ''${'' @ b @ ''}''" "CHR ''$'' \<notin> set b" "CHR ''}'' \<notin> set b"
      using ps [of q] t Builtin by (auto simp: placeholder_ok_def)
    show ?thesis
    proof (cases "q = p")
      case True
      then have "p \<noteq> []" using b by auto
      then show ?thesis using True by (simp add: Builtin replace_all_match)
    next
      case False
      then show ?thesis
        using Builtin b replace_all_other [OF p _ b(3) b(2), of v "tokens_text ts"]
        by (simp del: replace_all.simps)
    qed
  next
    case (EnvVar w)
    have "p \<noteq> ''${'' @ (''env:'' @ w) @ ''}''"
      using p by (auto simp: placeholder_ok_def)
    moreover have "CHR ''}'' \<notin> set (''env:'' @ w)" "CHR ''$'' \<notin> set (''env:'' @ w)"
      using env_name_chars [of w] t EnvVar by auto
    ultimately show ?thesis
      using EnvVar replace_all_other [OF p, of "''env:'' @ w" v "tokens_text ts"]
      by (simp add: env_text_def del: replace_all.simps)
  qed
  then show ?case by (simp add: IH expand_def)
qed (simp add: expand_def)

lemma expand_ok:
  "list_all (token_ok ps) ts \<Longrightarrow> CHR ''$'' \<notin> set v \<Longrightarrow>
     list_all (token_ok (ps - {p})) (expand p v ts)"
  by (induction ts) (auto simp: expand_def token_ok_def list_all_iff split: token.splits)

lemma expand_all_Cons: "expand_all ((p, v) # bs) ts = expand_all bs (expand p v ts)"
  by (induction ts) (auto simp: expand_def expand_all_def comp_def split: token.splits)

lemma expand_all_Nil:
  assumes "list_all (token_ok {}) ts"
  shows "expand_all [] ts = ts"
  using assms by (induction ts) (auto simp: expand_all_def split: token.splits)

lemma replace_builtins_tokens:
  assumes "list_all (token_ok (fst ` set bs)) ts"
    and "\<And>p v. (p, v) \<in> set bs \<Longrightarrow> placeholder_ok p \<and> CHR ''$'' \<notin> set v"
  shows "replace_builtins bs (tokens_text ts) = tokens_text (expand_all bs ts) \<and>
    list_all (token_ok {}) (expand_all bs ts)"
  using assms
proof (induction bs arbitrary: ts)
  case Nil
  then show ?case by (simp add: replace_builtins_def expand_all_Nil)
next
  case (Cons b bs)
  obtain p v where b: "b = (p, v)" by (cases b)
  have ok: "placeholder_ok p" "CHR ''$'' \<notin> set v" using Cons.prems(2) b by auto
  have "list_all (token_ok (fst ` set (b # bs) - {p})) (expand p v ts)"
    by (rule expand_ok [OF Cons.prems(1) ok(2)])
  then have ts': "list_all (token_ok (fst ` set bs)) (expand p v ts)"
    by (auto simp: b list_all_iff token_ok_def split: token.splits)
  have "replace_all p v (tokens_text ts) = tokens_text (expand p v ts)"
    by (rule replace_all_tokens [OF ok(1) _ Cons.prems(1)])
      (metis Cons.prems(2) image_iff prod.collapse)
  moreover have "replace_builtins bs (tokens_text (expand p v ts))
      = tokens_text (expand_all bs (expand p v ts)) \<and>
    list_all (token_ok {}) (expand_all bs (expand p v ts))"
    by (rule Cons.IH [OF ts']) (use Cons.prems(2) in auto)
  ultimately show ?case
    by (simp add: replace_builtins_def b expand_all_Cons)
qed

definition unset_vars :: "(string \<Rightarrow> string option) \<Rightarrow> token list \<Rightarrow> string list" where
  "unset_vars getenv ts =
     concat (map (\<lambda>t. case t of EnvVar v \<Rightarrow> if getenv v = None then [v] else [] | _ \<Rightarrow> []) ts)"

lemma env_subst_tokens:
  assumes "list_all (token_ok {}) ts"
  shows "env_subst getenv (tokens_text ts) =
    (unset_vars getenv ts, concat (map (token_value getenv []) ts))"
  using assms
proof (induction ts)
  case (Cons t ts)
  then have IH: "env_subst getenv (tokens_text ts) =
      (unset_vars getenv ts, concat (map (token_value getenv []) ts))" and t: "token_ok {} t"
    by auto
  show ?case
  proof (cases t)
    case (Byte c)
    then have "match_env (c # tokens_text ts) = None"
      using t by (auto simp: match_env_def has_prefix_def)
    then show ?thesis using IH Byte by (simp add: env_subst.simps(2) unset_vars_def)
  next
    case (EnvVar v)
    obtain c cs where c: "env_text v @ tokens_text ts = c # cs"
      by (cases "env_text v @ tokens_text ts") (auto simp: env_text_def)
    have "match_env (c # cs) = Some (v, tokens_text ts)"
      using t EnvVar c match_env_Some_iff by auto
    then show ?thesis
      using IH EnvVar c by (simp add: env_subst.simps(2) unset_vars_def split: option.splits)
  qed (use t in auto)
qed (simp add: unset_vars_def)

lemma expand_all_value:
  "concat (map (token_value getenv []) (expand_all bs ts)) =
     concat (map (token_value getenv bs) ts)"
  by (induction ts) (auto simp: expand_all_def comp_def split: token.splits)

lemma expand_all_unset: "unset_vars getenv (expand_all bs ts) = unset_vars getenv ts"
  by (induction ts) (auto simp: expand_all_def unset_vars_def comp_def split: token.splits)

lemma substitute_tokens_eq:
  assumes "list_all (token_ok (fst ` set bs)) ts"
    and "\<And>p v. (p, v) \<in> set bs \<Longrightarrow> placeholder_ok p \<and> CHR ''$'' \<notin> set v"
  shows "substitute getenv bs (tokens_text ts) =
    (if unset_vars getenv ts \<noteq> [] then Inl (Unresolved_Env (unset_vars getenv ts))
     else Inr (concat (map (token_value getenv bs) ts)))"
  using replace_builtins_tokens [OF assms]
  by (simp add: substitute_def env_subst_tokens expand_all_value expand_all_unset)

section \<open>Properties\<close>

lemma placeholder_okI:
  "CHR ''$'' \<notin> set b \<Longrightarrow> CHR ''}'' \<notin> set b \<Longrightarrow> CHR '':'' \<notin> set b \<Longrightarrow>
     placeholder_ok (''${'' @ b @ ''}'')"
  by (auto simp: placeholder_ok_def)

lemma builtin_names_ok:
  "placeholder_ok ''${app}''" "placeholder_ok ''${env}''" "placeholder_ok ''${version}''"
  "placeholder_ok ''${registry}''" "placeholder_ok ''${domain}''"
  using placeholder_okI [of "''app''"] placeholder_okI [of "''env''"]
    placeholder_okI [of "''version''"] placeholder_okI [of "''registry''"]
    placeholder_okI [of "''domain''"]
  by simp_all

lemma builtins_placeholders:
  assumes "p \<in> fst ` set (builtins app)"
  shows "placeholder_ok p"
proof -
  have "p \<in> {''${app}'', ''${env}'', ''${version}'', ''${registry}'', ''${domain}''}"
    using assms by (simp add: builtins_def)
  then show ?thesis using builtin_names_ok by blast
qed

lemma builtins_distinct: "distinct (map fst (builtins app))"
  by (simp add: builtins_def)

lemma map_of_reordered:
  assumes "set bs = set cs" "distinct (map fst bs)" "distinct (map fst cs)"
  shows "map_of bs = map_of cs"
  using assms map_of_inject_set [of bs cs] by simp

text \<open>Whatever order Go ranges over the builtin placeholders in, a text made of
  bytes other than the dollar sign, builtin placeholders and environment placeholders is
  substituted placeholder by placeholder, provided no builtin value holds a dollar sign
  itself; if some environment variable is unset, the answer is the error that lists exactly
  the unset ones, in their order.\<close>

theorem substitute_placeholders:
  assumes "set bs = set (builtins app)" "distinct (map fst bs)"
    and "list_all (\<lambda>b. CHR ''$'' \<notin> set (snd b)) (builtins app)"
    and "list_all (token_ok (fst ` set (builtins app))) ts"
  shows "substitute getenv bs (tokens_text ts) =
    (if unset_vars getenv ts \<noteq> [] then Inl (Unresolved_Env (unset_vars getenv ts))
     else Inr (concat (map (token_value getenv (builtins app)) ts)))"
proof -
  have eq: "map_of bs = map_of (builtins app)"
    by (rule map_of_reordered [OF assms(1,2) builtins_distinct])
  have "token_value getenv bs t = token_value getenv (builtins app) t" for t
    by (cases t) (simp_all add: eq)
  then have "token_value getenv bs = token_value getenv (builtins app)" by blast
  moreover have "placeholder_ok p \<and> CHR ''$'' \<notin> set v" if "(p, v) \<in> set bs" for p v
  proof -
    have "p \<in> fst ` set (builtins app)" using that assms(1) by force
    moreover have "CHR ''$'' \<notin> set v" using that assms(1,3) by (auto simp: list_all_iff)
    ultimately show ?thesis using builtins_placeholders by blast
  qed
  ultimately show ?thesis
    using substitute_tokens_eq [of bs ts getenv] assms(1,4) by simp
qed

definition sample_app :: App where
  "sample_app = \<lparr> apName = ''web'', apEnv = ''prod'', apDomain = ''x.io'', apVersion = ''7'',
     apRegistry = ''r.io'', apRepoURL = [], apEnvFile = [], apSecrets = [], apServices = [],
     apBackupBeforeDeploy = False, apStrictBackup = False \<rparr>"

theorem substitute_placeholders_witness:
  "substitute (\<lambda>v. if v = ''T'' then Some ''$x'' else None) (rev (builtins sample_app))
     (tokens_text [Builtin ''${registry}'', Byte (CHR ''/''), Builtin ''${app}'', EnvVar ''T''])
   = Inr ''r.io/web$x''"
proof (subst substitute_placeholders [where app = sample_app])
  show "distinct (map fst (rev (builtins sample_app)))"
    by (simp add: builtins_def)
qed (simp_all only: set_rev, simp_all add: builtins_def sample_app_def unset_vars_def
      env_name_ok_def ident_start_def ident_char_def char_classes less_eq_char_def)

definition nested_app :: App where
  "nested_app = sample_app\<lparr> apRegistry := ''reg.${domain}'' \<rparr>"

text \<open>The result of a substitution is not determined by the manifest when a builtin
  value names another builtin: for a registry that mentions the domain, two orders of the
  same map give two different images, one of them with a placeholder left in it.\<close>

theorem substitute_depends_on_map_order:
  "set (rev (builtins nested_app)) = set (builtins nested_app) \<and>
   substitute getenv (builtins nested_app) ''${registry}/web'' = Inr ''reg.x.io/web'' \<and>
   substitute getenv (rev (builtins nested_app)) ''${registry}/web'' = Inr ''reg.${domain}/web''"
  by (intro conjI, simp only: set_rev)
    (simp_all add: nested_app_def sample_app_def builtins_def substitute_def replace_builtins_def
      env_subst.simps match_env_def has_prefix_def)

end
