(* ===== verification/Store_Configs.thy ===== *)
theory Store_Configs
  imports Store_Schema
begin

text \<open>
  Configs, their edit history and their rendered snapshots (\<^verbatim>\<open>internal/store/configs.go\<close>), and
  secrets (\<^verbatim>\<open>secrets.go\<close>).  An operation returns its result and the new database; the two
  transactions leave the database as it was on every error.
\<close>

section \<open>Configs\<close>

definition scope_ok :: "string \<Rightarrow> bool" where
  "scope_ok s \<longleftrightarrow> s = ''cluster'' \<or> s = ''service''"

definition kind_ok :: "string \<Rightarrow> bool" where
  "kind_ok k \<longleftrightarrow> k = ''template'' \<or> k = ''file'' \<or> k = ''env''"

definition GetConfig :: "string \<Rightarrow> Store \<Rightarrow> store_err + ConfigRow" where
  "GetConfig name db =
     (case row_find cfgName name (dbConfigs db) of
        None \<Rightarrow> Inl ErrConfigNotFound
      | Some c \<Rightarrow> Inr c)"

definition CreateConfig ::
  "(string \<Rightarrow> string) \<Rightarrow> int \<Rightarrow> string \<Rightarrow> string \<Rightarrow> string \<Rightarrow> string \<Rightarrow> string \<Rightarrow> string \<Rightarrow>
     Store \<Rightarrow> (store_err + int) \<times> Store" where
  "CreateConfig hash now scope stack name kind content version db =
     (if \<not> scope_ok scope then (Inl (Constraint_Failed ''scope''), db)
      else if \<not> kind_ok kind then (Inl (Constraint_Failed ''kind''), db)
      else if row_find cfgName name (dbConfigs db) \<noteq> None then (Inl ErrConfigExists, db)
      else let cid = next_rowid (map cfgID (dbConfigs db)) in
        (Inr cid, db\<lparr> dbConfigs := dbConfigs db @
           [\<lparr> cfgID = cid, cfgScope = scope, cfgStack = stack, cfgName = name, cfgKind = kind,
              cfgContent = content, cfgVersion = version, cfgHash = hash content,
              cfgCreatedAt = now, cfgUpdatedAt = now, cfgRenderedContent = [],
              cfgRenderedAt = 0, cfgRenderedHash = [] \<rparr>] \<rparr>))"

definition ListConfigs :: "string \<Rightarrow> string \<Rightarrow> Store \<Rightarrow> ConfigRow list" where
  "ListConfigs scope stack db =
     sort_key (\<lambda>c. (cfgScope c, cfgStack c, cfgName c))
       (filter (\<lambda>c. wild scope (cfgScope c) \<and> wild stack (cfgStack c)) (dbConfigs db))"

text \<open>Pushing the current value of a config into its history.\<close>

definition push_version :: "int \<Rightarrow> ConfigRow \<Rightarrow> Store \<Rightarrow> Store" where
  "push_version now c db =
     db\<lparr> dbConfigVersions := dbConfigVersions db @
       [\<lparr> cvrID = next_rowid (map cvrID (dbConfigVersions db)), cvrConfigID = cfgID c,
          cvrContent = cfgContent c, cvrHash = cfgHash c, cvrCreatedAt = now \<rparr>] \<rparr>"

definition UpdateConfig ::
  "(string \<Rightarrow> string) \<Rightarrow> int \<Rightarrow> string \<Rightarrow> string \<Rightarrow> string \<Rightarrow> Store \<Rightarrow> (store_err + string) \<times> Store" where
  "UpdateConfig hash now name newContent version db =
     (case row_find cfgName name (dbConfigs db) of
        None \<Rightarrow> (Inl ErrConfigNotFound, db)
      | Some c \<Rightarrow>
         (let newHash = hash newContent in
          if newHash = cfgHash c then (Inr (cfgHash c), db)
          else
            (Inr newHash,
             (push_version now c db)\<lparr> dbConfigs :=
               row_update cfgID (cfgID c)
                 (\<lambda>r. r\<lparr> cfgContent := newContent, cfgVersion := version, cfgHash := newHash,
                         cfgUpdatedAt := now \<rparr>)
                 (dbConfigs db) \<rparr>)))"

definition ListConfigVersions :: "string \<Rightarrow> Store \<Rightarrow> store_err + ConfigVersionRow list" where
  "ListConfigVersions name db =
     (case row_find cfgName name (dbConfigs db) of
        None \<Rightarrow> Inl ErrConfigNotFound
      | Some c \<Rightarrow>
          Inr (rev (sort_key cvrID
            (filter (\<lambda>v. cvrConfigID v = cfgID c) (dbConfigVersions db)))))"

definition RollbackConfig ::
  "int \<Rightarrow> string \<Rightarrow> int \<Rightarrow> Store \<Rightarrow> (store_err + string) \<times> Store" where
  "RollbackConfig now name versionID db =
     (case row_find cfgName name (dbConfigs db) of
        None \<Rightarrow> (Inl ErrConfigNotFound, db)
      | Some c \<Rightarrow>
         (case find (\<lambda>v. cvrID v = versionID \<and> cvrConfigID v = cfgID c) (dbConfigVersions db) of
            None \<Rightarrow> (Inl ErrConfigVersionNotFound, db)
          | Some v \<Rightarrow>
              (Inr (cvrHash v),
               (push_version now c db)\<lparr> dbConfigs :=
                 row_update cfgID (cfgID c)
                   (\<lambda>r. r\<lparr> cfgContent := cvrContent v, cfgHash := cvrHash v, cfgUpdatedAt := now \<rparr>)
                   (dbConfigs db) \<rparr>)))"

text \<open>Deleting a set of configs deletes their history (\<^verbatim>\<open>ON DELETE CASCADE\<close>).\<close>

definition delete_configs :: "(ConfigRow \<Rightarrow> bool) \<Rightarrow> Store \<Rightarrow> Store" where
  "delete_configs P db =
     (let gone = map cfgID (filter P (dbConfigs db)) in
      db\<lparr> dbConfigs := filter (\<lambda>c. \<not> P c) (dbConfigs db),
         dbConfigVersions := filter (\<lambda>v. cvrConfigID v \<notin> set gone) (dbConfigVersions db) \<rparr>)"

definition DeleteConfig :: "string \<Rightarrow> Store \<Rightarrow> (store_err + unit) \<times> Store" where
  "DeleteConfig name db =
     (if row_find cfgName name (dbConfigs db) = None then (Inl ErrConfigNotFound, db)
      else (Inr (), delete_configs (\<lambda>c. cfgName c = name) db))"

definition SetRendered ::
  "(string \<Rightarrow> string) \<Rightarrow> int \<Rightarrow> string \<Rightarrow> string \<Rightarrow> Store \<Rightarrow> (store_err + unit) \<times> Store" where
  "SetRendered hash now name content db =
     (if row_find cfgName name (dbConfigs db) = None then (Inl ErrConfigNotFound, db)
      else (Inr (), db\<lparr> dbConfigs := row_update cfgName name
        (\<lambda>c. c\<lparr> cfgRenderedContent := content, cfgRenderedHash := hash content,
                cfgRenderedAt := now \<rparr>) (dbConfigs db) \<rparr>))"

definition ListRenderedConfigs :: "Store \<Rightarrow> ConfigRow list" where
  "ListRenderedConfigs db =
     sort_key cfgName (filter (\<lambda>c. cfgRenderedContent c \<noteq> []) (dbConfigs db))"

section \<open>Secrets\<close>

definition GetSecret :: "string \<Rightarrow> Store \<Rightarrow> store_err + SecretRow" where
  "GetSecret name db =
     (case row_find secName name (dbSecrets db) of
        None \<Rightarrow> Inl ErrSecretNotFound
      | Some r \<Rightarrow> Inr r)"

definition CreateSecret ::
  "int \<Rightarrow> string \<Rightarrow> string \<Rightarrow> string \<Rightarrow> string \<Rightarrow> string \<Rightarrow> Store \<Rightarrow> (store_err + int) \<times> Store" where
  "CreateSecret now scope stack name payload h db =
     (if \<not> scope_ok scope then (Inl (Constraint_Failed ''scope''), db)
      else if row_find secName name (dbSecrets db) \<noteq> None then (Inl ErrSecretExists, db)
      else let sid = next_rowid (map secID (dbSecrets db)) in
        (Inr sid, db\<lparr> dbSecrets := dbSecrets db @
           [\<lparr> secID = sid, secScope = scope, secStack = stack, secName = name,
              secPayload = payload, secHash = h, secCreatedAt = now \<rparr>] \<rparr>))"

text \<open>The list statement leaves the payload column out.\<close>

definition ListSecrets :: "string \<Rightarrow> string \<Rightarrow> Store \<Rightarrow> SecretRow list" where
  "ListSecrets scope stack db =
     map (\<lambda>r. r\<lparr> secPayload := [] \<rparr>)
       (sort_key (\<lambda>r. (secScope r, secStack r, secName r))
         (filter (\<lambda>r. wild scope (secScope r) \<and> wild stack (secStack r)) (dbSecrets db)))"

definition UpdateSecret ::
  "string \<Rightarrow> string \<Rightarrow> string \<Rightarrow> Store \<Rightarrow> (store_err + unit) \<times> Store" where
  "UpdateSecret name payload h db =
     (if row_find secName name (dbSecrets db) = None then (Inl ErrSecretNotFound, db)
      else (Inr (), db\<lparr> dbSecrets := row_update secName name
        (\<lambda>r. r\<lparr> secPayload := payload, secHash := h \<rparr>) (dbSecrets db) \<rparr>))"

definition DeleteSecret :: "string \<Rightarrow> Store \<Rightarrow> (store_err + unit) \<times> Store" where
  "DeleteSecret name db =
     (if row_find secName name (dbSecrets db) = None then (Inl ErrSecretNotFound, db)
      else (Inr (), db\<lparr> dbSecrets := row_delete secName name (dbSecrets db) \<rparr>))"

section \<open>Invariant\<close>

text \<open>Names and ids are unique, the history belongs to existing configs, every stored hash is
  the hash of its content, and a rendered snapshot carries the hash of what was rendered.\<close>

definition config_row_ok :: "(string \<Rightarrow> string) \<Rightarrow> ConfigRow \<Rightarrow> bool" where
  "config_row_ok hash c \<longleftrightarrow> cfgHash c = hash (cfgContent c) \<and>
     (cfgRenderedHash c = hash (cfgRenderedContent c) \<or>
      cfgRenderedContent c = [] \<and> cfgRenderedHash c = [])"

definition version_row_ok :: "(string \<Rightarrow> string) \<Rightarrow> int set \<Rightarrow> ConfigVersionRow \<Rightarrow> bool" where
  "version_row_ok hash ids v \<longleftrightarrow> cvrHash v = hash (cvrContent v) \<and> cvrConfigID v \<in> ids"

definition configs_inv :: "(string \<Rightarrow> string) \<Rightarrow> Store \<Rightarrow> bool" where
  "configs_inv hash db \<longleftrightarrow>
     unique_key cfgName (dbConfigs db) \<and> unique_key cfgID (dbConfigs db) \<and>
     unique_key cvrID (dbConfigVersions db) \<and>
     list_all (config_row_ok hash) (dbConfigs db) \<and>
     list_all (version_row_ok hash (cfgID ` set (dbConfigs db))) (dbConfigVersions db)"

definition secrets_inv :: "Store \<Rightarrow> bool" where
  "secrets_inv db \<longleftrightarrow> unique_key secName (dbSecrets db) \<and> unique_key secID (dbSecrets db)"

lemma CreateConfig_inv [inv_intros]:
  assumes "configs_inv hash db"
  shows "configs_inv hash (snd (CreateConfig hash now sc st n k c v db))"
proof -
  have "list_all (version_row_ok hash (insert i (cfgID ` set (dbConfigs db)))) (dbConfigVersions db)" for i
    using assms by (simp add: configs_inv_def version_row_ok_def list_all_iff)
  then show ?thesis
    using assms by (simp add: CreateConfig_def configs_inv_def Let_def tbl_simps config_row_ok_def)
qed

lemma configs_inv_edit:
  assumes inv: "configs_inv hash db" and c: "row_find cfgName name (dbConfigs db) = Some c"
    and f: "\<And>r. cfgName (f r) = cfgName r" "\<And>r. cfgID (f r) = cfgID r"
      "\<And>r. config_row_ok hash r \<Longrightarrow> config_row_ok hash (f r)"
  shows "configs_inv hash ((push_version now c db)\<lparr> dbConfigs := row_update cfgID i f (dbConfigs db) \<rparr>)"
proof -
  have "c \<in> set (dbConfigs db)" using c by (auto dest: row_find_SomeD)
  then have "cfgHash c = hash (cfgContent c)"
    using inv by (auto simp: configs_inv_def list_all_iff config_row_ok_def)
  then show ?thesis
    using inv f \<open>c \<in> set _\<close>
    by (simp add: configs_inv_def push_version_def tbl_simps all_row_update version_row_ok_def)
qed

lemma UpdateConfig_inv [inv_intros]:
  "configs_inv hash db \<Longrightarrow> configs_inv hash (snd (UpdateConfig hash now n c v db))"
  by (auto simp: UpdateConfig_def Let_def config_row_ok_def intro!: configs_inv_edit split: option.splits)

lemma RollbackConfig_inv [inv_intros]:
  assumes "configs_inv hash db"
  shows "configs_inv hash (snd (RollbackConfig now n i db))"
proof -
  have "cvrHash v = hash (cvrContent v)"
    if "find (\<lambda>v. cvrID v = i \<and> cvrConfigID v = j) (dbConfigVersions db) = Some v" for v j
    using assms that by (auto simp: configs_inv_def list_all_length version_row_ok_def find_Some_iff)
  then show ?thesis
    using assms
    by (auto simp: RollbackConfig_def config_row_ok_def intro!: configs_inv_edit split: option.splits)
qed

lemma delete_configs_inv [inv_intros]:
  assumes "configs_inv hash db" shows "configs_inv hash (delete_configs P db)"
proof -
  have "list_all (version_row_ok hash (cfgID ` set (dbConfigs db))) (dbConfigVersions db)"
    using assms by (simp add: configs_inv_def)
  then have "list_all (version_row_ok hash (cfgID ` set (filter (\<lambda>c. \<not> P c) (dbConfigs db))))
      (filter (\<lambda>v. cvrConfigID v \<notin> cfgID ` set (filter P (dbConfigs db))) (dbConfigVersions db))"
    by (rule all_filter_imp) (auto simp: version_row_ok_def simp del: set_filter intro: key_filter_out)
  then show ?thesis
    using assms
    by (simp add: configs_inv_def delete_configs_def Let_def tbl_simps all_filter del: set_filter)
qed

lemma DeleteConfig_inv [inv_intros]: "configs_inv hash db \<Longrightarrow> configs_inv hash (snd (DeleteConfig n db))"
  by (simp add: DeleteConfig_def delete_configs_inv)

lemma SetRendered_inv [inv_intros]:
  "configs_inv hash db \<Longrightarrow> configs_inv hash (snd (SetRendered hash now n c db))"
  by (auto simp: SetRendered_def configs_inv_def tbl_simps config_row_ok_def intro!: all_row_update)

lemma empty_configs_inv [inv_intros]: "configs_inv hash empty_store"
  by (simp add: configs_inv_def empty_store_def)

lemma CreateSecret_inv [inv_intros]:
  "secrets_inv db \<Longrightarrow> secrets_inv (snd (CreateSecret now sc st n p h db))"
  by (simp add: CreateSecret_def secrets_inv_def Let_def tbl_simps)

lemma UpdateSecret_inv [inv_intros]: "secrets_inv db \<Longrightarrow> secrets_inv (snd (UpdateSecret n p h db))"
  by (simp add: UpdateSecret_def secrets_inv_def tbl_simps)

lemma DeleteSecret_inv [inv_intros]: "secrets_inv db \<Longrightarrow> secrets_inv (snd (DeleteSecret n db))"
  by (simp add: DeleteSecret_def secrets_inv_def tbl_simps)

section \<open>Interpretations\<close>

text \<open>The configs and the secrets tables as tables of named rows.  The value of a create is what
  the caller passes beside the name.\<close>

definition find_config :: "Store \<Rightarrow> string \<Rightarrow> ConfigRow option" where
  "find_config db name = row_find cfgName name (dbConfigs db)"

definition find_secret :: "Store \<Rightarrow> string \<Rightarrow> SecretRow option" where
  "find_secret db name = row_find secName name (dbSecrets db)"

definition config_holds ::
  "(string \<Rightarrow> string) \<Rightarrow> string \<times> string \<times> string \<times> string \<times> string \<Rightarrow> ConfigRow \<Rightarrow> bool" where
  "config_holds hash v c \<longleftrightarrow>
     (cfgScope c, cfgStack c, cfgKind c, cfgContent c, cfgVersion c) = v \<and>
     cfgHash c = hash (cfgContent c)"

definition create_config where
  "create_config hash now name v db =
     (case v of (scope, stack, kind, content, version) \<Rightarrow>
        CreateConfig hash now scope stack name kind content version db)"

definition create_secret where
  "create_secret now name v db =
     (case v of (scope, stack, payload, h) \<Rightarrow> CreateSecret now scope stack name payload h db)"

definition secret_holds :: "string \<times> string \<times> string \<times> string \<Rightarrow> SecretRow \<Rightarrow> bool" where
  "secret_holds v r \<longleftrightarrow> (secScope r, secStack r, secPayload r, secHash r) = v"

lemma find_delete_configs:
  "find_config (delete_configs (\<lambda>c. cfgName c = k) db) k' = (if k' = k then None else find_config db k')"
  by (simp add: find_config_def delete_configs_def Let_def row_find_delete [unfolded row_delete_def])

interpretation configs: named_rows find_config "create_config hash now" DeleteConfig
  "configs_inv hash" "config_holds hash" for hash now
proof (unfold_locales, goal_cases)
  case (1 k v s a s')
  then show ?case
    by (auto simp: create_config_def CreateConfig_def find_config_def config_holds_def Let_def
        tbl_simps split: prod.splits if_splits)
next
  case (2 k v s x s' k')
  then show ?case
    by (auto simp: create_config_def CreateConfig_def find_config_def Let_def tbl_simps
        split: prod.splits if_splits option.splits)
next
  case (3 k v s e s')
  then show ?case
    by (auto simp: create_config_def CreateConfig_def Let_def split: prod.splits if_splits)
next
  case (4 s k v)
  then show ?case by (simp add: create_config_def CreateConfig_inv split: prod.splits)
next
  case (5 k s k')
  then show ?case
    by (auto simp: DeleteConfig_def find_delete_configs) (simp_all add: find_config_def)
next
  case (6 k s)
  then show ?case by (simp add: DeleteConfig_def find_config_def)
next
  case (7 k s e s')
  then show ?case by (auto simp: DeleteConfig_def split: if_splits)
next
  case (8 s k)
  then show ?case by (rule DeleteConfig_inv)
qed

interpretation secrets: named_rows find_secret "create_secret now" DeleteSecret
  secrets_inv secret_holds for now
proof (unfold_locales, goal_cases)
  case (1 k v s a s')
  then show ?case
    by (auto simp: create_secret_def CreateSecret_def find_secret_def secret_holds_def Let_def
        tbl_simps split: prod.splits if_splits)
next
  case (2 k v s x s' k')
  then show ?case
    by (auto simp: create_secret_def CreateSecret_def find_secret_def Let_def tbl_simps
        split: prod.splits if_splits option.splits)
next
  case (3 k v s e s')
  then show ?case
    by (auto simp: create_secret_def CreateSecret_def Let_def split: prod.splits if_splits)
next
  case (4 s k v)
  then show ?case by (simp add: create_secret_def CreateSecret_inv split: prod.splits)
next
  case (5 k s k')
  then show ?case by (auto simp: DeleteSecret_def find_secret_def tbl_simps)
next
  case (6 k s)
  then show ?case by (simp add: DeleteSecret_def find_secret_def)
next
  case (7 k s e s')
  then show ?case by (auto simp: DeleteSecret_def split: if_splits)
next
  case (8 s k)
  then show ?case by (rule DeleteSecret_inv)
qed

section \<open>Properties\<close>

datatype config_op =
    Op_Create string string string string string string
  | Op_Update string string string
  | Op_Rollback string int
  | Op_Delete string
  | Op_Rendered string string

fun config_step :: "(string \<Rightarrow> string) \<Rightarrow> int \<Rightarrow> config_op \<Rightarrow> Store \<Rightarrow> Store" where
  "config_step hash now (Op_Create sc st n k c v) db = snd (CreateConfig hash now sc st n k c v db)"
| "config_step hash now (Op_Update n c v) db = snd (UpdateConfig hash now n c v db)"
| "config_step hash now (Op_Rollback n i) db = snd (RollbackConfig now n i db)"
| "config_step hash now (Op_Delete n) db = snd (DeleteConfig n db)"
| "config_step hash now (Op_Rendered n c) db = snd (SetRendered hash now n c db)"

fun run_configs :: "(string \<Rightarrow> string) \<Rightarrow> (int \<times> config_op) list \<Rightarrow> Store \<Rightarrow> Store" where
  "run_configs hash [] db = db"
| "run_configs hash ((now, op) # ops) db = run_configs hash ops (config_step hash now op db)"

lemma config_step_inv [inv_intros]: "configs_inv hash db \<Longrightarrow> configs_inv hash (config_step hash now op db)"
  by (cases op) (simp_all add: inv_intros)

lemma run_configs_inv: "configs_inv hash db \<Longrightarrow> configs_inv hash (run_configs hash ops db)"
  by (induction hash ops db rule: run_configs.induct) (simp_all add: inv_intros)

text \<open>Property C15.  Whatever sequence of creates, updates, rollbacks, deletes and renders the store
  has gone through, config names and ids are unique, the history has no orphans, and every
  stored hash is the hash of the content beside it (in the rows, in their history and in the
  rendered snapshots).\<close>

theorem config_store_invariant:
  "configs_inv hash (run_configs hash ops empty_store)"
  by (rule run_configs_inv [OF empty_configs_inv])

lemma find_push: "cfgName c = name \<Longrightarrow> find_config ((push_version now c db)\<lparr> dbConfigs := rows \<rparr>) name
    = row_find cfgName name rows"
  by (simp add: find_config_def push_version_def)

text \<open>An edit by id reaches exactly the config that was found by name.\<close>

lemma find_row_update_id:
  assumes "configs_inv hash db" "row_find cfgName name (dbConfigs db) = Some c"
    and "\<And>r. cfgName (f r) = cfgName r"
  shows "row_find cfgName n (row_update cfgID (cfgID c) f (dbConfigs db)) =
    (if n = name then Some (f c) else row_find cfgName n (dbConfigs db))"
proof -
  have c: "c \<in> set (dbConfigs db)" "cfgName c = name" using assms(2) by (auto dest: row_find_SomeD)
  have only: "r = c" if "r \<in> set (dbConfigs db)" "cfgID r = cfgID c \<or> cfgName r = cfgName c" for r
    using assms(1) c(1) that by (auto simp: configs_inv_def unique_key_def distinct_map dest: inj_onD)
  have "row_update cfgID (cfgID c) f (dbConfigs db) = row_update cfgName name f (dbConfigs db)"
    using only c by (auto simp: row_update_def intro!: map_cong)
  moreover have "row_find cfgName n (row_update cfgName name f (dbConfigs db)) =
      map_option (\<lambda>r. if n = name then f r else r) (row_find cfgName n (dbConfigs db))"
    by (rule row_find_update) (rule assms(3))
  ultimately show ?thesis
    using assms(2) by (cases "n = name") (simp_all add: option.map_ident)
qed

text \<open>An update that changes a config can be undone: rolling back to the history row
  it wrote restores the earlier content and hash, and leaves a history row with which the
  rollback can be rolled back in turn.  Every other config is untouched by both.\<close>

theorem rollback_undoes_update:
  assumes inv: "configs_inv hash db" and c: "find_config db name = Some c"
    and upd: "UpdateConfig hash t1 name content version db = (Inr h, db1)"
    and ch: "hash content \<noteq> cfgHash c"
    and rb: "RollbackConfig t2 name (next_rowid (map cvrID (dbConfigVersions db))) db1 = (r, db2)"
  shows "r = Inr (cfgHash c) \<and>
    (\<exists>c2. find_config db2 name = Some c2 \<and> cfgContent c2 = cfgContent c \<and> cfgHash c2 = cfgHash c) \<and>
    (\<exists>v\<in>set (dbConfigVersions db2). cvrConfigID v = cfgID c \<and> cvrContent v = content \<and>
       cvrHash v = hash content) \<and>
    (\<forall>n. n \<noteq> name \<longrightarrow> find_config db2 n = find_config db n)"
proof -
  let ?i = "next_rowid (map cvrID (dbConfigVersions db))"
  let ?f = "\<lambda>r. r\<lparr> cfgContent := content, cfgVersion := version, cfgHash := hash content,
      cfgUpdatedAt := t1 \<rparr>"
  have row: "row_find cfgName name (dbConfigs db) = Some c" using c by (simp add: find_config_def)
  have db1: "db1 = (push_version t1 c db)\<lparr> dbConfigs := row_update cfgID (cfgID c) ?f (dbConfigs db) \<rparr>"
    using upd row ch by (auto simp: UpdateConfig_def Let_def)
  have inv1: "configs_inv hash db1" using UpdateConfig_inv [OF inv, of t1 name content version] upd by simp
  have f1: "row_find cfgName n (dbConfigs db1) = (if n = name then Some (?f c) else row_find cfgName n (dbConfigs db))" for n
    unfolding db1 by (simp add: find_row_update_id [OF inv row])
  have "cvrID v \<noteq> ?i" if "v \<in> set (dbConfigVersions db)" for v
    using that next_rowid_fresh [of "map cvrID (dbConfigVersions db)"] by force
  then have "find (\<lambda>v. cvrID v = ?i \<and> cvrConfigID v = cfgID c) (dbConfigVersions db1) =
      Some \<lparr> cvrID = ?i, cvrConfigID = cfgID c, cvrContent = cfgContent c, cvrHash = cfgHash c,
             cvrCreatedAt = t1 \<rparr>" (is "_ = Some ?v")
    unfolding db1 push_version_def by (subst find_Some_iff) (auto simp: nth_append intro!: exI [of _ "length (dbConfigVersions db)"])
  then have db2: "r = Inr (cfgHash c) \<and> db2 = (push_version t2 (?f c) db1)\<lparr> dbConfigs :=
      row_update cfgID (cfgID c) (\<lambda>r. r\<lparr> cfgContent := cfgContent c, cfgHash := cfgHash c,
        cfgUpdatedAt := t2 \<rparr>) (dbConfigs db1) \<rparr>"
    using rb by (simp add: RollbackConfig_def f1)
  have row1: "row_find cfgName name (dbConfigs db1) = Some (?f c)" using f1 by simp
  note f2 = find_row_update_id [OF inv1 row1, where f = "\<lambda>r. r\<lparr> cfgContent := cfgContent c,
      cfgHash := cfgHash c, cfgUpdatedAt := t2 \<rparr>", simplified]
  show ?thesis
    using db2 by (simp add: find_config_def f2 f1) (simp add: push_version_def)
qed

definition demo_hash :: "string \<Rightarrow> string" where
  "demo_hash c = ''h'' @ c"

definition demo_config :: "string \<Rightarrow> string \<Rightarrow> ConfigRow" where
  "demo_config content version = \<lparr> cfgID = 1, cfgScope = ''service'', cfgStack = ''web'', cfgName = ''mode'',
     cfgKind = ''env'', cfgContent = content, cfgVersion = version, cfgHash = demo_hash content,
     cfgCreatedAt = 5, cfgUpdatedAt = 5, cfgRenderedContent = [], cfgRenderedAt = 0,
     cfgRenderedHash = [] \<rparr>"

definition demo_store :: Store where
  "demo_store = empty_store\<lparr> dbConfigs := [demo_config ''old'' ''v1''] \<rparr>"

theorem rollback_undoes_update_witness:
  "\<exists>db1 db2. UpdateConfig demo_hash 6 ''mode'' ''new'' ''v2'' demo_store = (Inr ''hnew'', db1) \<and>
     RollbackConfig 7 ''mode'' 1 db1 = (Inr ''hold'', db2) \<and>
     (\<exists>c2. find_config db2 ''mode'' = Some c2 \<and> cfgContent c2 = ''old'')"
proof -
  have c: "find_config demo_store ''mode'' = Some (demo_config ''old'' ''v1'')"
    by (simp add: find_config_def demo_store_def demo_config_def empty_store_def row_find_def)
  have inv: "configs_inv demo_hash demo_store"
    by (simp add: configs_inv_def demo_store_def demo_config_def empty_store_def unique_key_def
        config_row_ok_def)
  obtain db1 where db1: "UpdateConfig demo_hash 6 ''mode'' ''new'' ''v2'' demo_store = (Inr ''hnew'', db1)"
    by (simp add: UpdateConfig_def demo_store_def demo_config_def empty_store_def row_find_def
        demo_hash_def Let_def)
  obtain r db2 where db2: "RollbackConfig 7 ''mode'' 1 db1 = (r, db2)" by fastforce
  have one: "next_rowid (map cvrID (dbConfigVersions demo_store)) = 1"
    by (simp add: next_rowid_def demo_store_def empty_store_def)
  have "demo_hash ''new'' \<noteq> cfgHash (demo_config ''old'' ''v1'')"
    by (simp add: demo_hash_def demo_config_def)
  from rollback_undoes_update [OF inv c db1 this, unfolded one, OF db2] db1 db2
  show ?thesis by (auto simp: demo_config_def demo_hash_def)
qed

text \<open>A secret lives under one name: once created it can be read back with the
  scope, stack, ciphertext and hash it was created with, a second create under the name is
  refused and changes nothing, and deleting it brings every lookup back to what it was.\<close>

theorem secret_lifecycle:
  assumes "CreateSecret now scope stack name payload h db = (Inr i, db1)"
  shows "(\<exists>r. GetSecret name db1 = Inr r \<and>
      (secScope r, secStack r, secPayload r, secHash r) = (scope, stack, payload, h)) \<and>
    (\<exists>e. CreateSecret now scope' stack' name payload' h' db1 = (Inl e, db1)) \<and>
    (\<exists>db2. DeleteSecret name db1 = (Inr (), db2) \<and> (\<forall>n. GetSecret n db2 = GetSecret n db))"
proof -
  have "create_secret now name (scope, stack, payload, h) db = (Inr i, db1)"
    using assms by (simp add: create_secret_def)
  from secrets.create_delete [OF this, of "(scope', stack', payload', h')"]
  obtain r e where r: "find_secret db1 name = Some r" "secret_holds (scope, stack, payload, h) r"
    and e: "CreateSecret now scope' stack' name payload' h' db1 = (Inl e, db1)"
    and d: "is_ok (fst (DeleteSecret name db1))"
      "find_secret (snd (DeleteSecret name db1)) = find_secret db"
    by (auto simp: create_secret_def)
  have get: "GetSecret n db = (case find_secret db n of None \<Rightarrow> Inl ErrSecretNotFound | Some r \<Rightarrow> Inr r)"
    for n db by (simp add: GetSecret_def find_secret_def)
  have "DeleteSecret name db1 = (Inr (), snd (DeleteSecret name db1))"
    using d(1) by (auto simp: DeleteSecret_def split: if_splits)
  then show ?thesis using r e d(2) by (auto simp: get secret_holds_def)
qed

theorem secret_lifecycle_witness:
  "\<exists>i db1. CreateSecret 1 ''service'' ''web'' ''db'' ''sealed'' ''hash'' empty_store = (Inr i, db1) \<and>
     (\<exists>db2. DeleteSecret ''db'' db1 = (Inr (), db2) \<and> (\<forall>n. GetSecret n db2 = GetSecret n empty_store))"
proof -
  obtain i db1 where c: "CreateSecret 1 ''service'' ''web'' ''db'' ''sealed'' ''hash'' empty_store = (Inr i, db1)"
    by (simp add: CreateSecret_def scope_ok_def row_find_def empty_store_def Let_def)
  from secret_lifecycle [OF c] c show ?thesis by blast
qed

end
