(* ===== verification/Store_Stacks.thy ===== *)
theory Store_Stacks
  imports Store_Configs
begin

text \<open>
  Stacks and their revisions (\<^verbatim>\<open>internal/store/stacks.go\<close>).  \<^verbatim>\<open>RecordDeploy\<close> is the transaction of the
  source: it tries to insert the revision, creates the stack when the foreign key is missing,
  and otherwise moves the stack's current revision.
\<close>

section \<open>Operations\<close>

abbreviation rev_key :: "StackRevision \<Rightarrow> string \<times> int" where
  "rev_key r \<equiv> (srStackName r, srRevision r)"

definition has_revision :: "Store \<Rightarrow> string \<Rightarrow> int \<Rightarrow> bool" where
  "has_revision db name r \<longleftrightarrow> row_find rev_key (name, r) (dbRevisions db) \<noteq> None"

definition insert_revision :: "int \<Rightarrow> StackRevision \<Rightarrow> Store \<Rightarrow> Store" where
  "insert_revision now rv db =
     db\<lparr> dbRevisions := dbRevisions db @ [rv\<lparr> srCreatedAt := now \<rparr>] \<rparr>"

definition insert_stack :: "int \<Rightarrow> StackRevision \<Rightarrow> string \<Rightarrow> Store \<Rightarrow> Store" where
  "insert_stack now rv repoURL db =
     db\<lparr> dbStacks := dbStacks db @
       [\<lparr> stName = srStackName rv, stCurrentRevision = srRevision rv,
          stRepoURL = nullableString repoURL (repoURL \<noteq> []), stSourceFile = srSourceFile rv,
          stCreatedAt = now, stUpdatedAt = now \<rparr>] \<rparr>"

definition move_stack :: "int \<Rightarrow> StackRevision \<Rightarrow> string \<Rightarrow> Stack \<Rightarrow> Stack" where
  "move_stack now rv repoURL st =
     st\<lparr> stCurrentRevision := srRevision rv, stUpdatedAt := now,
         stRepoURL := (if repoURL = [] then stRepoURL st else Some repoURL),
         stSourceFile := (if srSourceFile rv = [] then stSourceFile st else srSourceFile rv) \<rparr>"

definition RecordDeploy ::
  "int \<Rightarrow> StackRevision \<Rightarrow> string \<Rightarrow> Store \<Rightarrow> (store_err + unit) \<times> Store" where
  "RecordDeploy now rv repoURL db =
     (if has_revision db (srStackName rv) (srRevision rv)
      then (Inl (Constraint_Failed ''stack_revisions''), db)
      else if row_find stName (srStackName rv) (dbStacks db) = None
      then (Inr (), insert_revision now rv (insert_stack now rv repoURL db))
      else (Inr (), (insert_revision now rv db)\<lparr> dbStacks :=
             row_update stName (srStackName rv) (move_stack now rv repoURL) (dbStacks db) \<rparr>))"

definition GetStack :: "string \<Rightarrow> Store \<Rightarrow> store_err + Stack" where
  "GetStack name db =
     (case row_find stName name (dbStacks db) of
        None \<Rightarrow> Inl ErrStackNotFound
      | Some st \<Rightarrow> Inr st)"

definition ListStacks :: "Store \<Rightarrow> Stack list" where
  "ListStacks db = sort_key stName (dbStacks db)"

definition DeleteStack :: "string \<Rightarrow> Store \<Rightarrow> (store_err + unit) \<times> Store" where
  "DeleteStack name db =
     (let db1 = delete_configs (\<lambda>c. cfgStack c = name) db;
          db2 = db1\<lparr> dbSecrets := filter (\<lambda>r. secStack r \<noteq> name) (dbSecrets db1) \<rparr>
      in if row_find stName name (dbStacks db2) = None then (Inl ErrStackNotFound, db2)
         else (Inr (), db2\<lparr> dbStacks := row_delete stName name (dbStacks db2),
                           dbRevisions := filter (\<lambda>r. srStackName r \<noteq> name) (dbRevisions db2) \<rparr>))"

fun free_from :: "(int \<Rightarrow> bool) \<Rightarrow> int \<Rightarrow> nat \<Rightarrow> int option" where
  "free_from used r 0 = None"
| "free_from used r (Suc n) = (if used r then free_from used (r + 1) n else Some r)"

definition NextFreeRevision :: "string \<Rightarrow> int \<Rightarrow> Store \<Rightarrow> store_err + int" where
  "NextFreeRevision name candidate db =
     (case free_from (has_revision db name) candidate 10000 of
        None \<Rightarrow> Inl No_Free_Revision
      | Some r \<Rightarrow> Inr r)"

definition GetRevision :: "string \<Rightarrow> int \<Rightarrow> Store \<Rightarrow> store_err + StackRevision" where
  "GetRevision name r db =
     (case row_find rev_key (name, r) (dbRevisions db) of
        None \<Rightarrow> Inl ErrRevisionNotFound
      | Some rv \<Rightarrow> Inr rv)"

definition ListRevisions :: "string \<Rightarrow> int \<Rightarrow> Store \<Rightarrow> StackRevision list" where
  "ListRevisions name limit db =
     limit_rows limit (rev (sort_key srRevision (filter (\<lambda>r. srStackName r = name) (dbRevisions db))))"

section \<open>Invariant\<close>

text \<open>Stacks and revisions are unique; a revision has its stack (the foreign key); the current
  revision of a stack is one of its revisions.\<close>

definition stacks_inv :: "Store \<Rightarrow> bool" where
  "stacks_inv db \<longleftrightarrow>
     unique_key stName (dbStacks db) \<and> unique_key rev_key (dbRevisions db) \<and>
     list_all (\<lambda>r. srStackName r \<in> stName ` set (dbStacks db)) (dbRevisions db) \<and>
     list_all (\<lambda>st. (stName st, stCurrentRevision st) \<in> rev_key ` set (dbRevisions db)) (dbStacks db)"

lemma move_stack_simps [simp]:
  "stName (move_stack now rv repo st) = stName st"
  "stCurrentRevision (move_stack now rv repo st) = srRevision rv"
  by (simp_all add: move_stack_def)

lemma has_revision_iff: "has_revision db name r \<longleftrightarrow> (name, r) \<in> rev_key ` set (dbRevisions db)"
  by (simp add: has_revision_def row_find_None)

lemma RecordDeploy_inv [inv_intros]:
  assumes "stacks_inv db"
  shows "stacks_inv (snd (RecordDeploy now rv repo db))"
proof -
  consider (dup) "has_revision db (srStackName rv) (srRevision rv)"
    | (new) "\<not> has_revision db (srStackName rv) (srRevision rv)" "row_find stName (srStackName rv) (dbStacks db) = None"
    | (old) "\<not> has_revision db (srStackName rv) (srRevision rv)" "row_find stName (srStackName rv) (dbStacks db) \<noteq> None"
    by blast
  then show ?thesis
  proof cases
    case dup
    then show ?thesis using assms by (simp add: RecordDeploy_def)
  next
    case new
    have f: "row_find rev_key (rev_key rv) (dbRevisions db) = None" using new(1) by (simp add: has_revision_def)
    have a: "list_all (\<lambda>r. srStackName r = srStackName rv \<or> srStackName r \<in> stName ` set (dbStacks db))
        (dbRevisions db)"
      using assms by (simp add: stacks_inv_def list_all_iff)
    have b: "list_all (\<lambda>st. stName st = srStackName rv \<and> stCurrentRevision st = srRevision rv \<or>
        (stName st, stCurrentRevision st) \<in> rev_key ` set (dbRevisions db)) (dbStacks db)"
      using assms by (simp add: stacks_inv_def list_all_iff)
    have "snd (RecordDeploy now rv repo db) = insert_revision now rv (insert_stack now rv repo db)"
      using new by (simp add: RecordDeploy_def)
    then show ?thesis
      using assms f new(2) a b
      by (simp add: stacks_inv_def insert_revision_def insert_stack_def tbl_simps)
  next
    case old
    then have f: "row_find rev_key (rev_key rv) (dbRevisions db) = None" by (simp add: has_revision_def)
    let ?S = "row_update stName (srStackName rv) (move_stack now rv repo) (dbStacks db)"
    have names: "stName ` set ?S = stName ` set (dbStacks db)"
      by (rule keys_row_update) simp
    have parent: "srStackName rv \<in> stName ` set (dbStacks db)"
      using old(2) by (simp only: row_find_None not_not)
    have a: "list_all (\<lambda>st. stName st = srStackName rv \<and> stCurrentRevision st = srRevision rv \<or>
        (stName st, stCurrentRevision st) \<in> rev_key ` set (dbRevisions db)) ?S"
      using assms by (auto simp: stacks_inv_def list_all_iff set_row_update)
    have "snd (RecordDeploy now rv repo db) = (insert_revision now rv db)\<lparr> dbStacks := ?S \<rparr>"
      using old by (auto simp: RecordDeploy_def)
    then show ?thesis
      using assms f parent a
      by (simp add: stacks_inv_def insert_revision_def tbl_simps names)
  qed
qed

lemma delete_configs_eff [eff_simps]:
  "dbSecrets (delete_configs P db) = dbSecrets db" "dbStacks (delete_configs P db) = dbStacks db"
  "dbRevisions (delete_configs P db) = dbRevisions db"
  "dbConfigs (delete_configs P db) = filter (\<lambda>c. \<not> P c) (dbConfigs db)"
  by (simp_all add: delete_configs_def Let_def)

lemma DeleteStack_inv [inv_intros]:
  assumes "stacks_inv db"
  shows "stacks_inv (snd (DeleteStack name db))"
proof -
  have a: "list_all (\<lambda>r. srStackName r \<in> stName ` {st \<in> set (dbStacks db). stName st \<noteq> name})
      (filter (\<lambda>r. srStackName r \<noteq> name) (dbRevisions db))"
    using assms by (auto simp: stacks_inv_def list_all_iff)
  have b: "list_all (\<lambda>st. (stName st, stCurrentRevision st) \<in> rev_key ` {r \<in> set (dbRevisions db). srStackName r \<noteq> name})
      (row_delete stName name (dbStacks db))"
    using assms by (fastforce simp: stacks_inv_def list_all_iff)
  show ?thesis
    using assms a b by (simp add: DeleteStack_def Let_def stacks_inv_def eff_simps tbl_simps)
qed

lemma empty_stacks_inv [inv_intros]: "stacks_inv empty_store"
  by (simp add: stacks_inv_def empty_store_def)

lemma stacks_inv_current:
  assumes "stacks_inv db" "GetStack name db = Inr st"
  shows "\<exists>rv. GetRevision name (stCurrentRevision st) db = Inr rv"
proof -
  have "st \<in> set (dbStacks db)" "stName st = name"
    using assms(2) by (auto simp: GetStack_def split: option.splits dest: row_find_SomeD)
  then have "(name, stCurrentRevision st) \<in> rev_key ` set (dbRevisions db)"
    using assms(1) by (auto simp: stacks_inv_def list_all_iff)
  then show ?thesis by (auto simp: GetRevision_def row_find_None split: option.splits)
qed

section \<open>Free revisions\<close>

lemma free_from_Some:
  "free_from used c n = Some r \<Longrightarrow> c \<le> r \<and> r < c + int n \<and> \<not> used r \<and> (\<forall>i. c \<le> i \<and> i < r \<longrightarrow> used i)"
proof (induction used c n rule: free_from.induct)
  case (2 used c n)
  then show ?case
    by (cases "used c") (auto, metis add.commute le_imp_less_or_eq zle_add1_eq_le not_le)
qed simp

lemma free_from_None: "free_from used c n = None \<Longrightarrow> c \<le> i \<Longrightarrow> i < c + int n \<Longrightarrow> used i"
proof (induction used c n rule: free_from.induct)
  case (2 used c n)
  then show ?case by (cases "i = c"; cases "used c") auto
qed simp

section \<open>Properties\<close>

datatype stack_op =
    Op_Record StackRevision string
  | Op_Delete_Stack string

fun stack_step :: "int \<Rightarrow> stack_op \<Rightarrow> Store \<Rightarrow> Store" where
  "stack_step now (Op_Record rv repo) db = snd (RecordDeploy now rv repo db)"
| "stack_step now (Op_Delete_Stack n) db = snd (DeleteStack n db)"

fun run_stacks :: "(int \<times> stack_op) list \<Rightarrow> Store \<Rightarrow> Store" where
  "run_stacks [] db = db"
| "run_stacks ((now, op) # ops) db = run_stacks ops (stack_step now op db)"

lemma run_stacks_inv: "stacks_inv db \<Longrightarrow> stacks_inv (run_stacks ops db)"
proof (induction ops db rule: run_stacks.induct)
  case (2 now op ops db)
  then show ?case by (cases op) (simp_all add: inv_intros)
qed simp

text \<open>Property C14.  After any sequence of recorded deploys and stack deletions, every revision
  belongs to a stack, no two revisions of a stack share their number, and a stack that can be
  read has its current revision in the table.\<close>

theorem stack_store_invariant:
  fixes ops defines "db \<equiv> run_stacks ops empty_store"
  shows "stacks_inv db \<and>
    list_all (\<lambda>st. is_ok (GetRevision (stName st) (stCurrentRevision st) db)) (dbStacks db)"
proof -
  have inv: "stacks_inv db" unfolding db_def by (rule run_stacks_inv [OF empty_stacks_inv])
  have "is_ok (GetRevision (stName st) (stCurrentRevision st) db)" if "st \<in> set (dbStacks db)" for st
  proof -
    have "row_find stName (stName st) (dbStacks db) = Some st"
      using inv that by (subst row_find_unique) (simp_all add: stacks_inv_def)
    then have "GetStack (stName st) db = Inr st" by (simp add: GetStack_def)
    then show ?thesis using stacks_inv_current [OF inv] by (auto simp: is_ok_iff)
  qed
  then show ?thesis using inv by (simp add: list_all_iff)
qed

lemma RecordDeploy_reads:
  assumes "\<not> has_revision db (srStackName rv) (srRevision rv)"
  shows "fst (RecordDeploy now rv repo db) = Inr ()"
    and "GetRevision n r (snd (RecordDeploy now rv repo db)) =
      (if (n, r) = rev_key rv then Inr (rv\<lparr> srCreatedAt := now \<rparr>) else GetRevision n r db)"
    and "n \<noteq> srStackName rv \<Longrightarrow> GetStack n (snd (RecordDeploy now rv repo db)) = GetStack n db"
    and "\<exists>st. GetStack (srStackName rv) (snd (RecordDeploy now rv repo db)) = Inr st \<and>
      stCurrentRevision st = srRevision rv \<and>
      (case GetStack (srStackName rv) db of
         Inl _ \<Rightarrow> stRepoURL st = nullableString repo (repo \<noteq> [])
       | Inr old \<Rightarrow> stRepoURL st = (if repo = [] then stRepoURL old else Some repo))"
    and "has_revision (snd (RecordDeploy now rv repo db)) (srStackName rv) (srRevision rv)"
proof -
  have free: "row_find rev_key (rev_key rv) (dbRevisions db) = None"
    using assms by (simp add: has_revision_def)
  show "fst (RecordDeploy now rv repo db) = Inr ()" using assms by (simp add: RecordDeploy_def)
  let ?db = "snd (RecordDeploy now rv repo db)"
  have revs: "dbRevisions ?db = dbRevisions db @ [rv\<lparr> srCreatedAt := now \<rparr>]"
    using assms by (auto simp: RecordDeploy_def insert_revision_def insert_stack_def)
  have stacks: "row_find stName n (dbStacks ?db) =
      (if n = srStackName rv
       then Some (case row_find stName n (dbStacks db) of
            None \<Rightarrow> \<lparr> stName = srStackName rv, stCurrentRevision = srRevision rv,
               stRepoURL = nullableString repo (repo \<noteq> []), stSourceFile = srSourceFile rv,
               stCreatedAt = now, stUpdatedAt = now \<rparr>
          | Some st \<Rightarrow> move_stack now rv repo st)
       else row_find stName n (dbStacks db))" for n
    using assms
    by (auto simp: RecordDeploy_def insert_revision_def insert_stack_def tbl_simps option.map_ident
        split: if_splits option.splits)
  show "GetRevision n r ?db = (if (n, r) = rev_key rv then Inr (rv\<lparr> srCreatedAt := now \<rparr>)
      else GetRevision n r db)"
    using free by (auto simp: GetRevision_def revs tbl_simps split: option.splits)
  show "n \<noteq> srStackName rv \<Longrightarrow> GetStack n ?db = GetStack n db" by (simp add: GetStack_def stacks)
  show "\<exists>st. GetStack (srStackName rv) ?db = Inr st \<and> stCurrentRevision st = srRevision rv \<and>
       (case GetStack (srStackName rv) db of
          Inl _ \<Rightarrow> stRepoURL st = nullableString repo (repo \<noteq> [])
        | Inr old \<Rightarrow> stRepoURL st = (if repo = [] then stRepoURL old else Some repo))"
    by (simp add: GetStack_def stacks move_stack_def split: option.splits)
  show "has_revision ?db (srStackName rv) (srRevision rv)" by (auto simp: has_revision_iff revs)
qed

text \<open>A recorded deploy becomes the stack's current revision and can be read back
  with its sources; every other revision and every other stack stays as it was, and a deploy
  without a repository keeps the repository on record.  Recording a revision twice fails and
  changes nothing.\<close>

theorem record_deploy_effect:
  assumes "\<not> has_revision db (srStackName rv) (srRevision rv)"
    and "RecordDeploy now rv repo db = (x, db')"
  shows "x = Inr () \<and>
    GetRevision (srStackName rv) (srRevision rv) db' = Inr (rv\<lparr> srCreatedAt := now \<rparr>) \<and>
    (\<exists>st. GetStack (srStackName rv) db' = Inr st \<and> stCurrentRevision st = srRevision rv \<and>
       (case GetStack (srStackName rv) db of
          Inl _ \<Rightarrow> stRepoURL st = nullableString repo (repo \<noteq> [])
        | Inr old \<Rightarrow> stRepoURL st = (if repo = [] then stRepoURL old else Some repo))) \<and>
    (\<forall>n r. (n, r) \<noteq> rev_key rv \<longrightarrow> GetRevision n r db' = GetRevision n r db) \<and>
    (\<forall>n. n \<noteq> srStackName rv \<longrightarrow> GetStack n db' = GetStack n db) \<and>
    (\<exists>e. RecordDeploy now' rv repo' db' = (Inl e, db'))"
proof -
  note reads = RecordDeploy_reads [OF assms(1), where now = now and repo = repo]
  have db': "db' = snd (RecordDeploy now rv repo db)" and x: "x = Inr ()"
    using assms(2) reads(1) by simp_all
  have "RecordDeploy now' rv repo' db' = (Inl (Constraint_Failed ''stack_revisions''), db')"
    using reads(5) by (simp add: RecordDeploy_def [of now'] db')
  then show ?thesis
    using reads(2-4) x by (simp add: db')
qed

definition demo_rev :: "int \<Rightarrow> StackRevision" where
  "demo_rev r = \<lparr> srStackName = ''web'', srRevision = r, srSourceYAML = ''app: web'',
     srRenderedYAML = ''version: 3.9'', srRenderedHash = ''h'', srSourceFile = ''web.yaml'',
     srPayloadJSON = None, srCreatedAt = 0 \<rparr>"

theorem record_deploy_effect_witness:
  "\<exists>db'. RecordDeploy 8 (demo_rev 100) ''git'' empty_store = (Inr (), db') \<and>
     GetRevision ''web'' 100 db' = Inr ((demo_rev 100)\<lparr> srCreatedAt := 8 \<rparr>)"
proof -
  have n: "\<not> has_revision empty_store (srStackName (demo_rev 100)) (srRevision (demo_rev 100))"
    by (simp add: has_revision_iff empty_store_def)
  obtain x db' where r: "RecordDeploy 8 (demo_rev 100) ''git'' empty_store = (x, db')" by fastforce
  from record_deploy_effect [OF n r] r show ?thesis by (simp add: demo_rev_def)
qed

text \<open>The revision number handed to a deploy is the smallest unused one from the
  candidate on, and there is one as long as the stack has fewer revisions than the 10000
  numbers that are tried.\<close>

theorem next_free_revision_least:
  "(case NextFreeRevision name c db of
      Inr r \<Rightarrow> c \<le> r \<and> r < c + 10000 \<and> \<not> has_revision db name r \<and>
        Min {i. c \<le> i \<and> \<not> has_revision db name i \<and> i < c + 10000} = r
    | Inl _ \<Rightarrow> 10000 \<le> length (filter (\<lambda>rv. srStackName rv = name) (dbRevisions db)))"
proof (cases "free_from (has_revision db name) c 10000")
  case (Some r)
  note f = free_from_Some [OF Some]
  have "finite {i. c \<le> i \<and> \<not> has_revision db name i \<and> i < c + 10000}"
    by (rule finite_subset [of _ "{c..<c + 10000}"]) auto
  moreover have "r \<le> i" if "c \<le> i" "\<not> has_revision db name i" for i
    using f that by (metis not_le)
  ultimately have "Min {i. c \<le> i \<and> \<not> has_revision db name i \<and> i < c + 10000} = r"
    using f by (intro Min_eqI) auto
  then show ?thesis using Some f by (simp add: NextFreeRevision_def)
next
  case None
  let ?L = "filter (\<lambda>rv. srStackName rv = name) (dbRevisions db)"
  have "{c..<c + 10000} \<subseteq> srRevision ` set ?L"
  proof
    fix i assume "i \<in> {c..<c + 10000}"
    then have "has_revision db name i" using free_from_None [OF None, of i] by simp
    then show "i \<in> srRevision ` set ?L" by (force simp: has_revision_iff)
  qed
  then have "card {c..<c + 10000} \<le> card (srRevision ` set ?L)"
    by (rule card_mono [OF finite_imageI [OF finite_set]])
  also have "\<dots> \<le> card (set ?L)" by (rule card_image_le) simp
  also have "\<dots> \<le> length ?L" by (rule card_length)
  finally show ?thesis by (simp add: NextFreeRevision_def None)
qed

text \<open>Deleting a stack removes exactly what it owns, by its name: the stack, its
  revisions, its configs with their history and its secrets; everything of another name is
  left as it was.\<close>

theorem delete_stack_cascade:
  assumes "DeleteStack name db = (x, db')" "stacks_inv db"
  shows "dbConfigs db' = filter (\<lambda>c. cfgStack c \<noteq> name) (dbConfigs db) \<and>
    dbSecrets db' = filter (\<lambda>r. secStack r \<noteq> name) (dbSecrets db) \<and>
    dbStacks db' = filter (\<lambda>st. stName st \<noteq> name) (dbStacks db) \<and>
    dbRevisions db' = filter (\<lambda>r. srStackName r \<noteq> name) (dbRevisions db) \<and>
    (x = Inr () \<or> x = Inl ErrStackNotFound \<and> GetStack name db = Inl ErrStackNotFound)"
proof -
  have orphan: "filter (\<lambda>st. stName st \<noteq> name) (dbStacks db) = dbStacks db \<and>
      filter (\<lambda>r. srStackName r \<noteq> name) (dbRevisions db) = dbRevisions db"
    if "row_find stName name (dbStacks db) = None"
    using that assms(2) by (auto simp: row_find_None stacks_inv_def list_all_iff filter_id_conv)
  show ?thesis
    using assms(1) orphan
    by (auto simp: DeleteStack_def Let_def eff_simps row_delete_def GetStack_def split: if_splits)
qed

theorem delete_stack_cascade_witness:
  "\<exists>db1 db2. RecordDeploy 8 (demo_rev 100) ''git'' demo_store = (Inr (), db1) \<and>
     DeleteStack ''web'' db1 = (Inr (), db2) \<and> dbConfigs db2 = [] \<and> dbRevisions db2 = []"
proof -
  obtain db1 where r: "RecordDeploy 8 (demo_rev 100) ''git'' demo_store = (Inr (), db1)"
    by (simp add: RecordDeploy_def has_revision_iff demo_store_def empty_store_def row_find_def)
  have db1: "dbStacks db1 \<noteq> [] \<and> dbRevisions db1 = [(demo_rev 100)\<lparr> srCreatedAt := 8 \<rparr>] \<and>
      dbConfigs db1 = [demo_config ''old'' ''v1''] \<and> row_find stName ''web'' (dbStacks db1) \<noteq> None"
    using r by (auto simp: RecordDeploy_def has_revision_iff demo_store_def empty_store_def
        row_find_def insert_revision_def insert_stack_def demo_rev_def)
  have "stacks_inv demo_store" by (simp add: stacks_inv_def demo_store_def empty_store_def)
  then have inv: "stacks_inv db1" using RecordDeploy_inv [of demo_store 8 "demo_rev 100" "''git''"] r by simp
  obtain x db2 where d: "DeleteStack ''web'' db1 = (x, db2)" by fastforce
  from delete_stack_cascade [OF d inv] r d db1 show ?thesis
    by (auto simp: demo_config_def demo_rev_def GetStack_def split: option.splits)
qed

end
