(* ===== verification/Store_Misc.thy ===== *)
theory Store_Misc
  imports Store_Schema
begin

text \<open>
  The remaining tables of the store: cluster settings (\<^verbatim>\<open>settings.go\<close>), container registries
  (\<^verbatim>\<open>registries.go\<close>), webhook sources and deliveries (\<^verbatim>\<open>webhooks.go\<close>), managed credentials
  (\<^verbatim>\<open>credentials.go\<close>), site certificates (\<^verbatim>\<open>sitecerts.go\<close>) and the backup audit table
  (\<^verbatim>\<open>backups.go\<close>).
\<close>

section \<open>Settings\<close>

definition GetSetting :: "string \<Rightarrow> Store \<Rightarrow> store_err + string" where
  "GetSetting key db =
     (case row_find fst key (dbSettings db) of
        None \<Rightarrow> Inl ErrSettingNotFound
      | Some kv \<Rightarrow> Inr (snd kv))"

definition SetSetting :: "string \<Rightarrow> string \<Rightarrow> Store \<Rightarrow> Store" where
  "SetSetting key val db =
     db\<lparr> dbSettings :=
       (if row_find fst key (dbSettings db) = None then dbSettings db @ [(key, val)]
        else row_update fst key (\<lambda>kv. (fst kv, val)) (dbSettings db)) \<rparr>"

definition GetSettingDefault :: "string \<Rightarrow> string \<Rightarrow> Store \<Rightarrow> string" where
  "GetSettingDefault key fallback db =
     (case GetSetting key db of Inl _ \<Rightarrow> fallback | Inr v \<Rightarrow> v)"

lemma GetSetting_SetSetting [tbl_simps]:
  "GetSetting k' (SetSetting k v db) = (if k' = k then Inr v else GetSetting k' db)"
  by (auto simp: GetSetting_def SetSetting_def tbl_simps row_find_None split: option.splits
      dest: row_find_SomeD)

lemma GetSettingDefault_SetSetting [tbl_simps]:
  "GetSettingDefault k' d (SetSetting k v db) = (if k' = k then v else GetSettingDefault k' d db)"
  by (simp add: GetSettingDefault_def tbl_simps)

section \<open>Registries\<close>

definition CreateRegistry ::
  "int \<Rightarrow> string \<Rightarrow> string \<times> string \<Rightarrow> Store \<Rightarrow> (store_err + unit) \<times> Store" where
  "CreateRegistry now host creds db =
     (if row_find rgHost host (dbRegistries db) \<noteq> None then (Inl ErrRegistryExists, db)
      else (Inr (), db\<lparr> dbRegistries := dbRegistries db @
        [\<lparr> rgHost = host, rgUsername = fst creds, rgPasswordCiphertext = snd creds,
           rgCreatedAt = now \<rparr>] \<rparr>))"

definition UpdateRegistry ::
  "string \<Rightarrow> string \<times> string \<Rightarrow> Store \<Rightarrow> (store_err + unit) \<times> Store" where
  "UpdateRegistry host creds db =
     (if row_find rgHost host (dbRegistries db) = None then (Inl ErrRegistryNotFound, db)
      else (Inr (), db\<lparr> dbRegistries := row_update rgHost host
        (\<lambda>r. r\<lparr> rgUsername := fst creds, rgPasswordCiphertext := snd creds \<rparr>) (dbRegistries db) \<rparr>))"

definition GetRegistry :: "string \<Rightarrow> Store \<Rightarrow> store_err + Registry" where
  "GetRegistry host db =
     (case row_find rgHost host (dbRegistries db) of
        None \<Rightarrow> Inl ErrRegistryNotFound
      | Some r \<Rightarrow> Inr r)"

definition ListRegistries :: "Store \<Rightarrow> Registry list" where
  "ListRegistries db = sort_key rgHost (dbRegistries db)"

definition DeleteRegistry :: "string \<Rightarrow> Store \<Rightarrow> (store_err + unit) \<times> Store" where
  "DeleteRegistry host db =
     (if row_find rgHost host (dbRegistries db) = None then (Inl ErrRegistryNotFound, db)
      else (Inr (), db\<lparr> dbRegistries := row_delete rgHost host (dbRegistries db) \<rparr>))"

definition find_registry :: "Store \<Rightarrow> string \<Rightarrow> Registry option" where
  "find_registry db host = row_find rgHost host (dbRegistries db)"

interpretation registries: named_rows find_registry "CreateRegistry now" DeleteRegistry
  "\<lambda>db. unique_key rgHost (dbRegistries db)"
  "\<lambda>v r. (rgUsername r, rgPasswordCiphertext r) = v" for now
  by unfold_locales
    (auto simp: find_registry_def CreateRegistry_def DeleteRegistry_def tbl_simps
      split: if_splits option.splits prod.splits)

section \<open>Webhook sources and deliveries\<close>

definition CreateWebhookSource ::
  "int \<Rightarrow> string \<Rightarrow> string \<times> string \<Rightarrow> Store \<Rightarrow> (store_err + unit) \<times> Store" where
  "CreateWebhookSource now source v db =
     (case v of (description, secretCiphertext) \<Rightarrow>
       if row_find whSource source (dbWebhooks db) \<noteq> None then (Inl ErrWebhookSourceExists, db)
       else (Inr (), db\<lparr> dbWebhooks := dbWebhooks db @
         [\<lparr> whSource = source, whSecretCiphertext = secretCiphertext,
            whDescription = nullableString description (description \<noteq> []),
            whCreatedAt = now, whLastUsedAt = None \<rparr>] \<rparr>))"

definition GetWebhookSource :: "string \<Rightarrow> Store \<Rightarrow> store_err + WebhookSource" where
  "GetWebhookSource source db =
     (case row_find whSource source (dbWebhooks db) of
        None \<Rightarrow> Inl ErrWebhookSourceNotFound
      | Some w \<Rightarrow> Inr w)"

definition ListWebhookSources :: "Store \<Rightarrow> WebhookSource list" where
  "ListWebhookSources db = sort_key whSource (dbWebhooks db)"

definition DeleteWebhookSource :: "string \<Rightarrow> Store \<Rightarrow> (store_err + unit) \<times> Store" where
  "DeleteWebhookSource source db =
     (if row_find whSource source (dbWebhooks db) = None then (Inl ErrWebhookSourceNotFound, db)
      else (Inr (), db\<lparr> dbWebhooks := row_delete whSource source (dbWebhooks db) \<rparr>))"

definition MarkWebhookSourceUsed :: "int \<Rightarrow> string \<Rightarrow> Store \<Rightarrow> Store" where
  "MarkWebhookSourceUsed now source db =
     db\<lparr> dbWebhooks := row_update whSource source (\<lambda>w. w\<lparr> whLastUsedAt := Some now \<rparr>) (dbWebhooks db) \<rparr>"

definition RecordWebhookDelivery :: "int \<Rightarrow> WebhookDelivery \<Rightarrow> Store \<Rightarrow> Store" where
  "RecordWebhookDelivery now d db =
     db\<lparr> dbDeliverySeq := dbDeliverySeq db + 1,
        dbDeliveries := dbDeliveries db @ [d\<lparr> wdID := dbDeliverySeq db + 1, wdCreatedAt := now \<rparr>] \<rparr>"

definition ListWebhookDeliveries :: "string \<Rightarrow> int \<Rightarrow> Store \<Rightarrow> WebhookDelivery list" where
  "ListWebhookDeliveries source limit db =
     limit_rows limit
       (rev (sort_key (\<lambda>d. (wdCreatedAt d, wdID d)) (filter (\<lambda>d. wdSource d = source) (dbDeliveries db))))"

definition find_webhook :: "Store \<Rightarrow> string \<Rightarrow> WebhookSource option" where
  "find_webhook db source = row_find whSource source (dbWebhooks db)"

interpretation webhooks: named_rows find_webhook "CreateWebhookSource now" DeleteWebhookSource
  "\<lambda>db. unique_key whSource (dbWebhooks db)"
  "\<lambda>v w. whSecretCiphertext w = snd v \<and> whDescription w = nullableString (fst v) (fst v \<noteq> [])" for now
  by unfold_locales
    (auto simp: find_webhook_def CreateWebhookSource_def DeleteWebhookSource_def tbl_simps
      split: if_splits option.splits prod.splits)

section \<open>Managed credentials\<close>

definition GetCredential :: "string \<Rightarrow> Store \<Rightarrow> store_err + ManagedCredential" where
  "GetCredential name db =
     (case row_find mcName name (dbCredentials db) of
        None \<Rightarrow> Inl ErrCredentialNotFound
      | Some c \<Rightarrow> Inr c)"

definition InsertCredential :: "int \<Rightarrow> ManagedCredential \<Rightarrow> Store \<Rightarrow> (store_err + unit) \<times> Store" where
  "InsertCredential now c db =
     (if row_find mcName (mcName c) (dbCredentials db) \<noteq> None
      then (Inl (Constraint_Failed ''managed_credentials.name''), db)
      else (Inr (), db\<lparr> dbCredentials := dbCredentials db @
             [c\<lparr> mcCreatedAt := now, mcRotatedAt := None \<rparr>] \<rparr>))"

definition RotateCredential ::
  "int \<Rightarrow> string \<Rightarrow> string \<Rightarrow> Store \<Rightarrow> (store_err + unit) \<times> Store" where
  "RotateCredential now name newCiphertext db =
     (if row_find mcName name (dbCredentials db) = None then (Inl ErrCredentialNotFound, db)
      else (Inr (), db\<lparr> dbCredentials := row_update mcName name
        (\<lambda>c. c\<lparr> mcPasswordCiphertext := newCiphertext, mcRotatedAt := Some now \<rparr>) (dbCredentials db) \<rparr>))"

definition UpdateCredentialUsername ::
  "string \<Rightarrow> string \<Rightarrow> Store \<Rightarrow> (store_err + unit) \<times> Store" where
  "UpdateCredentialUsername name newUsername db =
     (if row_find mcName name (dbCredentials db) = None then (Inl ErrCredentialNotFound, db)
      else (Inr (), db\<lparr> dbCredentials := row_update mcName name
        (\<lambda>c. c\<lparr> mcUsername := newUsername \<rparr>) (dbCredentials db) \<rparr>))"

definition ListCredentials :: "Store \<Rightarrow> ManagedCredential list" where
  "ListCredentials db = sort_key mcName (dbCredentials db)"

section \<open>Site certificates\<close>

text \<open>The SAN list as one comma-separated column.  (\<^verbatim>\<open>splitCSV\<close> ranges over runes, so on bytes that
  are not UTF-8 it would substitute them; names in certificates are ASCII.)\<close>

fun joinCSV_from :: "string \<Rightarrow> bool \<Rightarrow> string list \<Rightarrow> string" where
  "joinCSV_from out first [] = out"
| "joinCSV_from out first (p # ps) = joinCSV_from ((if first then out else out @ '','') @ p) False ps"

definition joinCSV :: "string list \<Rightarrow> string" where
  "joinCSV parts = joinCSV_from [] True parts"

fun splitCSV_from :: "string list \<Rightarrow> string \<Rightarrow> string \<Rightarrow> string list" where
  "splitCSV_from out cur [] = out @ [cur]"
| "splitCSV_from out cur (c # cs) =
     (if c = CHR '','' then splitCSV_from (out @ [cur]) [] cs else splitCSV_from out (cur @ [c]) cs)"

definition splitCSV :: "string \<Rightarrow> string list" where
  "splitCSV s = (if s = [] then [] else splitCSV_from [] [] s)"

definition site_cert_row :: "SiteCertDB \<Rightarrow> SiteCertRow" where
  "site_cert_row d =
     \<lparr> scDomain = sdDomain d, scCertSecret = sdCertSecret d, scKeySecret = sdKeySecret d,
       scNotBefore = sdNotBefore d, scNotAfter = sdNotAfter d, scSANs = splitCSV (sdSANs d),
       scCertHash = sdCertHash d, scKeyHash = sdKeyHash d, scCreatedAt = sdCreatedAt d,
       scUpdatedAt = sdUpdatedAt d \<rparr>"

definition GetSiteCert :: "string \<Rightarrow> Store \<Rightarrow> store_err + SiteCertRow" where
  "GetSiteCert domain db =
     (case row_find sdDomain domain (dbSiteCerts db) of
        None \<Rightarrow> Inl ErrSiteCertNotFound
      | Some d \<Rightarrow> Inr (site_cert_row d))"

definition ListSiteCerts :: "Store \<Rightarrow> SiteCertRow list" where
  "ListSiteCerts db = map site_cert_row (sort_key sdDomain (dbSiteCerts db))"

definition PutSiteCert :: "SiteCertRow \<Rightarrow> Store \<Rightarrow> Store" where
  "PutSiteCert r db =
     db\<lparr> dbSiteCerts :=
       (if row_find sdDomain (scDomain r) (dbSiteCerts db) = None
        then dbSiteCerts db @
          [\<lparr> sdDomain = scDomain r, sdCertSecret = scCertSecret r, sdKeySecret = scKeySecret r,
             sdNotBefore = scNotBefore r, sdNotAfter = scNotAfter r, sdSANs = joinCSV (scSANs r),
             sdCertHash = scCertHash r, sdKeyHash = scKeyHash r, sdCreatedAt = scCreatedAt r,
             sdUpdatedAt = scUpdatedAt r \<rparr>]
        else row_update sdDomain (scDomain r)
          (\<lambda>d. d\<lparr> sdCertSecret := scCertSecret r, sdKeySecret := scKeySecret r,
                  sdNotBefore := scNotBefore r, sdNotAfter := scNotAfter r,
                  sdSANs := joinCSV (scSANs r), sdCertHash := scCertHash r,
                  sdKeyHash := scKeyHash r, sdUpdatedAt := scUpdatedAt r \<rparr>)
          (dbSiteCerts db)) \<rparr>"

definition DeleteSiteCert :: "string \<Rightarrow> Store \<Rightarrow> Store" where
  "DeleteSiteCert domain db = db\<lparr> dbSiteCerts := row_delete sdDomain domain (dbSiteCerts db) \<rparr>"

section \<open>Backups\<close>

definition CreateBackup :: "int \<Rightarrow> string \<Rightarrow> int \<Rightarrow> Store \<Rightarrow> int \<times> Store" where
  "CreateBackup now stackName revision db =
     (let bid = dbBackupSeq db + 1 in
      (bid, db\<lparr> dbBackupSeq := bid, dbBackups := dbBackups db @
         [\<lparr> bkID = bid, bkStackName = nullableString stackName (stackName \<noteq> []),
            bkRevision = (if revision \<noteq> 0 then Some revision else None), bkStatus = ''pending'',
            bkArchivePaths = [], bkErrorMessage = [], bkStartedAt = now, bkFinishedAt = None,
            bkFilename = [] \<rparr>] \<rparr>))"

definition FinishBackup :: "int \<Rightarrow> int \<Rightarrow> string \<Rightarrow> string \<Rightarrow> string \<Rightarrow> Store \<Rightarrow> Store" where
  "FinishBackup now bid status archivePaths errorMessage db =
     db\<lparr> dbBackups := row_update bkID bid
       (\<lambda>b. b\<lparr> bkStatus := status, bkArchivePaths := archivePaths, bkErrorMessage := errorMessage,
               bkFinishedAt := Some now \<rparr>) (dbBackups db) \<rparr>"

text \<open>\<^verbatim>\<open>INSERT OR IGNORE\<close> against the unique index on non-empty filenames.\<close>

definition RecordDiscoveredBackup :: "string \<Rightarrow> string \<Rightarrow> int \<Rightarrow> Store \<Rightarrow> Store" where
  "RecordDiscoveredBackup filename archivePath at db =
     (if filename \<noteq> [] \<and> row_find bkFilename filename (dbBackups db) \<noteq> None then db
      else (let bid = dbBackupSeq db + 1 in
        db\<lparr> dbBackupSeq := bid, dbBackups := dbBackups db @
          [\<lparr> bkID = bid, bkStackName = None, bkRevision = None, bkStatus = ''succeeded'',
             bkArchivePaths = archivePath, bkErrorMessage = [], bkStartedAt = at,
             bkFinishedAt = Some at, bkFilename = filename \<rparr>] \<rparr>))"

text \<open>SQL \<^verbatim>\<open>LIKE\<close>: case-insensitive on ASCII letters, \<^verbatim>\<open>%\<close> for any text and \<^verbatim>\<open>_\<close> for one character.\<close>

function sql_like :: "string \<Rightarrow> string \<Rightarrow> bool" where
  "sql_like [] s \<longleftrightarrow> s = []"
| "sql_like (p # ps) s \<longleftrightarrow>
     (if p = CHR ''%'' then sql_like ps s \<or> (case s of [] \<Rightarrow> False | _ # t \<Rightarrow> sql_like (p # ps) t)
      else (case s of [] \<Rightarrow> False
            | c # t \<Rightarrow> (p = CHR ''_'' \<or> to_lower p = to_lower c) \<and> sql_like ps t))"
  by pat_completeness auto
termination
  by (relation "measures [\<lambda>(p, s). length p, \<lambda>(p, s). length s]") auto

declare sql_like.simps(2) [simp del]

definition BackupExistsByPath :: "string \<Rightarrow> Store \<Rightarrow> bool" where
  "BackupExistsByPath archivePath db =
     list_ex (\<lambda>b. sql_like (''%'' @ archivePath @ ''%'') (bkArchivePaths b)) (dbBackups db)"

definition GetBackup :: "int \<Rightarrow> Store \<Rightarrow> store_err + Backup" where
  "GetBackup bid db =
     (case row_find bkID bid (dbBackups db) of
        None \<Rightarrow> Inl ErrBackupNotFound
      | Some b \<Rightarrow> Inr b)"

definition ListBackupsOlderThan :: "int \<Rightarrow> Store \<Rightarrow> Backup list" where
  "ListBackupsOlderThan before db =
     sort_key (\<lambda>b. (bkStartedAt b, bkID b)) (filter (\<lambda>b. bkStartedAt b < before) (dbBackups db))"

definition DeleteBackup :: "int \<Rightarrow> Store \<Rightarrow> (store_err + unit) \<times> Store" where
  "DeleteBackup bid db =
     (if row_find bkID bid (dbBackups db) = None then (Inl ErrBackupNotFound, db)
      else (Inr (), db\<lparr> dbBackups := row_delete bkID bid (dbBackups db) \<rparr>))"

definition ListBackups :: "int \<Rightarrow> Store \<Rightarrow> Backup list" where
  "ListBackups limit db =
     limit_rows limit (rev (sort_key (\<lambda>b. (bkStartedAt b, bkID b)) (dbBackups db)))"

definition ListBackupsForStack :: "string \<Rightarrow> Store \<Rightarrow> Backup list" where
  "ListBackupsForStack stackName db =
     rev (sort_key (\<lambda>b. (bkStartedAt b, bkID b))
       (filter (\<lambda>b. bkStackName b = Some stackName \<or> bkStackName b = None) (dbBackups db)))"

section \<open>Facts\<close>

lemma joinCSV_from_eq:
  "joinCSV_from out first ps =
     (if ps = [] then out else (if first then out else out @ '','') @ join_with '','' ps)"
proof (induction ps arbitrary: out first)
  case (Cons p ps)
  show ?case
    by (simp only: joinCSV_from.simps Cons.IH) (cases ps; simp)
qed simp

lemma joinCSV_eq: "joinCSV parts = join_with '','' parts"
  by (simp add: joinCSV_def joinCSV_from_eq)

lemma splitCSV_from_eq:
  "splitCSV_from out cur s =
     out @ (case split_at (CHR '','') s of [] \<Rightarrow> [] | t # ts \<Rightarrow> (cur @ t) # ts)"
proof (induction s arbitrary: out cur)
  case (Cons c s)
  obtain t ts where "split_at (CHR '','') s = t # ts" by (cases "split_at (CHR '','') s") auto
  then show ?case using Cons by simp
qed simp

lemma splitCSV_eq: "splitCSV s = (if s = [] then [] else split_at (CHR '','') s)"
  by (auto simp: splitCSV_def splitCSV_from_eq split: list.splits)

lemma join_with_Nil_iff: "join_with [c] xs = [] \<longleftrightarrow> xs = [] \<or> xs = [[]]"
  by (induction "[c]" xs rule: join_with.induct) auto

lemma split_joinCSV:
  assumes "list_all (\<lambda>p. CHR '','' \<notin> set p) parts" "parts \<noteq> [[]]"
  shows "splitCSV (joinCSV parts) = parts"
proof (cases "parts = []")
  case True
  then show ?thesis by (simp add: joinCSV_eq splitCSV_eq)
next
  case False
  then show ?thesis
    using assms split_join [of parts "CHR '',''"]
    by (auto simp: joinCSV_eq splitCSV_eq join_with_Nil_iff list_all_iff)
qed

section \<open>Properties\<close>

text \<open>The SAN column loses nothing: splitting what was joined gives the list back
  for any list of names without commas, except the list of one empty name.\<close>

theorem san_column_roundtrip:
  assumes "list_all (\<lambda>p. CHR '','' \<notin> set p) parts" "parts \<noteq> [[]]"
  shows "splitCSV (joinCSV parts) = parts"
  by (rule split_joinCSV [OF assms])

theorem san_column_roundtrip_witness:
  "splitCSV (joinCSV [''x.io'', ''*.x.io'']) = [''x.io'', ''*.x.io'']"
  by (rule san_column_roundtrip) auto

text \<open>Storing a site certificate makes it readable under its domain, keeps the
  creation time of the row it replaces, and leaves the other domains alone.\<close>

theorem put_site_cert_effect:
  assumes "list_all (\<lambda>p. CHR '','' \<notin> set p) (scSANs r)" "scSANs r \<noteq> [[]]"
  shows "GetSiteCert d (PutSiteCert r db) =
    (if d = scDomain r
     then Inr (r\<lparr> scCreatedAt := (case GetSiteCert d db of Inl _ \<Rightarrow> scCreatedAt r
                                   | Inr old \<Rightarrow> scCreatedAt old) \<rparr>)
     else GetSiteCert d db)"
proof -
  have sans: "splitCSV (joinCSV (scSANs r)) = scSANs r"
    by (rule split_joinCSV [OF assms])
  show ?thesis
    by (auto simp: GetSiteCert_def PutSiteCert_def tbl_simps site_cert_row_def sans
        split: option.splits dest: row_find_SomeD)
qed

theorem put_site_cert_effect_witness:
  "GetSiteCert ''x.io'' (PutSiteCert \<lparr> scDomain = ''x.io'', scCertSecret = ''c2'', scKeySecret = ''k2'',
      scNotBefore = 0, scNotAfter = 9, scSANs = [''x.io'', ''*.x.io''], scCertHash = ''a'',
      scKeyHash = ''b'', scCreatedAt = 4, scUpdatedAt = 4 \<rparr> empty_store) =
    Inr \<lparr> scDomain = ''x.io'', scCertSecret = ''c2'', scKeySecret = ''k2'',
      scNotBefore = 0, scNotAfter = 9, scSANs = [''x.io'', ''*.x.io''], scCertHash = ''a'',
      scKeyHash = ''b'', scCreatedAt = 4, scUpdatedAt = 4 \<rparr>"
  by (subst put_site_cert_effect) (simp_all add: GetSiteCert_def empty_store_def row_find_def)

end
