(* ===== verification/Workflow.thy ===== *)
theory Workflow
  imports Prelude
begin

text \<open>
  The shared engine of named steps (\<^verbatim>\<open>internal/workflow/workflow.go\<close>).  A step changes the state
  \<^verbatim>\<open>'s\<close> it runs on and may fail; \<^verbatim>\<open>Run\<close> also returns the progress lines it printed, which are the
  names of the steps it started.
\<close>

type_synonym ('e, 's) step_fun = "'s \<Rightarrow> ('e + unit) \<times> 's"

record ('e, 's) Step =
  stepName :: string
  stepRun :: "('e, 's) step_fun"

type_synonym ('e, 's) Workflow = "('e, 's) Step list"

definition NewWorkflow :: "('e, 's) Workflow" where
  "NewWorkflow = []"

definition Add :: "string \<Rightarrow> ('e, 's) step_fun \<Rightarrow> ('e, 's) Workflow \<Rightarrow> ('e, 's) Workflow" where
  "Add name run w = w @ [\<lparr> stepName = name, stepRun = run \<rparr>]"

definition Steps :: "('e, 's) Workflow \<Rightarrow> string list" where
  "Steps w = map stepName w"

fun Run :: "('e, 's) Workflow \<Rightarrow> 's \<Rightarrow> (string \<times> 'e + unit) \<times> string list \<times> 's" where
  "Run [] s = (Inr (), [], s)"
| "Run (st # w) s =
     (case stepRun st s of
        (Inl e, s') \<Rightarrow> (Inl (stepName st, e), [stepName st], s')
      | (Inr _, s') \<Rightarrow>
          (let (r, out, s'') = Run w s' in (r, stepName st # out, s'')))"

section \<open>Facts\<close>

lemma Steps_Add [simp]: "Steps (Add n f w) = Steps w @ [n]" "Steps NewWorkflow = []"
  by (simp_all add: Steps_def Add_def NewWorkflow_def)

lemma Run_append:
  "Run (v @ w) s =
     (case Run v s of
        (Inl e, out, s') \<Rightarrow> (Inl e, out, s')
      | (Inr _, out, s') \<Rightarrow> (let (r, out', s'') = Run w s' in (r, out @ out', s'')))"
proof (induction v s rule: Run.induct)
  case (2 st v s)
  obtain r s' where st: "stepRun st s = (r, s')" by (cases "stepRun st s")
  show ?case
  proof (cases r)
    case (Inr u)
    then show ?thesis
      using 2 [OF st [symmetric] Inr] st
      by (simp split: prod.splits sum.splits)
  qed (simp add: st)
qed (auto split: prod.splits)

lemma Run_Add:
  "Run (Add n f w) s =
     (case Run w s of
        (Inl e, out, s') \<Rightarrow> (Inl e, out, s')
      | (Inr _, out, s') \<Rightarrow>
          (case f s' of
             (Inl e, s'') \<Rightarrow> (Inl (n, e), out @ [n], s'')
           | (Inr _, s'') \<Rightarrow> (Inr (), out @ [n], s'')))"
  by (auto simp: Add_def Run_append split: prod.splits sum.splits)

lemma Run_NewWorkflow [simp]: "Run NewWorkflow s = (Inr (), [], s)"
  by (simp add: NewWorkflow_def)

text \<open>What holds of the state before a run and is kept by every step holds after it, however it
  ends.\<close>

lemma Run_invariant:
  assumes "P s" "\<And>st t. st \<in> set w \<Longrightarrow> P t \<Longrightarrow> P (snd (stepRun st t))"
  shows "P (snd (snd (Run w s)))"
  using assms
proof (induction w s rule: Run.induct)
  case (2 st w s)
  obtain r s' where st: "stepRun st s = (r, s')" by (cases "stepRun st s")
  have s': "P s'" using 2(3) [of st s] 2(2) st by simp
  show ?case
  proof (cases r)
    case (Inr u)
    then have "P (snd (snd (Run w s')))"
      using 2(1) [OF st [symmetric] Inr s'] 2(3) by simp
    then show ?thesis using st Inr by (cases "Run w s'") simp
  qed (simp add: st s')
qed simp

section \<open>Properties\<close>

text \<open>The state after a list of steps, each of which is expected to succeed.\<close>

definition steps_state :: "('e, 's) Workflow \<Rightarrow> 's \<Rightarrow> 's" where
  "steps_state w s = foldl (\<lambda>s st. snd (stepRun st s)) s w"

definition all_succeed :: "('e, 's) Workflow \<Rightarrow> 's \<Rightarrow> bool" where
  "all_succeed w s \<longleftrightarrow>
     (\<forall>i<length w. is_ok (fst (stepRun (w ! i) (steps_state (take i w) s))))"

lemma all_succeed_Cons:
  "all_succeed (st # w) s \<longleftrightarrow> is_ok (fst (stepRun st s)) \<and> all_succeed w (snd (stepRun st s))"
  by (auto simp: all_succeed_def steps_state_def less_Suc_eq_0_disj nth_Cons split: nat.splits)

text \<open>A run executes the steps in order up to the first failure and nothing after
  it: it succeeds exactly when every step does, having printed every name; otherwise the
  steps before some position succeeded, the step there failed with the reported name and
  error, and the state and the progress lines are those of the steps up to it.\<close>

theorem workflow_run_first_failure:
  "(case Run w s of
      (Inr _, out, s') \<Rightarrow> all_succeed w s \<and> out = Steps w \<and> s' = steps_state w s
    | (Inl (n, e), out, s') \<Rightarrow>
        (\<exists>i<length w. all_succeed (take i w) s \<and> n = stepName (w ! i) \<and>
           stepRun (w ! i) (steps_state (take i w) s) = (Inl e, s') \<and>
           out = take (Suc i) (Steps w)))"
proof (induction w s rule: Run.induct)
  case (1 s)
  then show ?case by (simp add: all_succeed_def Steps_def steps_state_def)
next
  case (2 st w s)
  obtain r s' where st: "stepRun st s = (r, s')" by (cases "stepRun st s")
  obtain q out s'' where w: "Run w s' = (q, out, s'')" by (cases "Run w s'")
  show ?case
  proof (cases r)
    case (Inl e)
    then show ?thesis
      by (simp add: st) (intro exI [of _ 0], simp add: st all_succeed_def Steps_def steps_state_def)
  next
    case (Inr u)
    note IH = 2 [OF st [symmetric] Inr]
    show ?thesis
    proof (cases q)
      case (Inr v)
      then show ?thesis
        using IH w st \<open>r = Inr u\<close> by (simp add: all_succeed_Cons Steps_def steps_state_def)
    next
      case (Inl ne)
      obtain n e where ne: "ne = (n, e)" by (cases ne)
      obtain i where i: "i < length w" "all_succeed (take i w) s'" "n = stepName (w ! i)"
        "stepRun (w ! i) (steps_state (take i w) s') = (Inl e, s'')" "out = take (Suc i) (Steps w)"
        using IH w Inl ne by auto
      have "all_succeed (take (Suc i) (st # w)) s"
        using i(2) st \<open>r = Inr u\<close> by (simp add: all_succeed_Cons)
      moreover have "stepRun ((st # w) ! Suc i) (steps_state (take (Suc i) (st # w)) s) = (Inl e, s'')"
        using i(4) st by (simp add: steps_state_def)
      moreover have "Run (st # w) s = (Inl (n, e), stepName st # out, s'')"
        using w st Inl ne \<open>r = Inr u\<close> by simp
      ultimately show ?thesis
        using i(1,3,5) by (simp del: Run.simps) (rule exI [of _ "Suc i"], simp add: Steps_def)
    qed
  qed
qed

definition demo_workflow :: "(string, int) Workflow" where
  "demo_workflow = [\<lparr> stepName = ''a'', stepRun = \<lambda>n. (Inr (), n + 1) \<rparr>,
     \<lparr> stepName = ''b'', stepRun = \<lambda>n. (Inl ''boom'', n + 10) \<rparr>,
     \<lparr> stepName = ''c'', stepRun = \<lambda>n. (Inr (), n + 100) \<rparr>]"

theorem workflow_run_first_failure_witness:
  "Run demo_workflow 0 = (Inl (''b'', ''boom''), [''a'', ''b''], 11) \<and>
   (\<exists>i<length demo_workflow. [''a'', ''b''] = take (Suc i) (Steps demo_workflow))"
proof -
  have "Run demo_workflow 0 = (Inl (''b'', ''boom''), [''a'', ''b''], 11)"
    by (simp add: demo_workflow_def)
  with workflow_run_first_failure [of demo_workflow 0] show ?thesis by auto
qed

end
