(* ===== verification/Stacks_Deploy.thy ===== *)
theory Stacks_Deploy
  imports Compose Interpolate Store_Stacks Store_Misc Workflow
begin

text \<open>
  The deploy engine (\<^verbatim>\<open>internal/stacks\<close>): the payload and result types (\<^verbatim>\<open>stacks.go\<close>), the
  config resolver on the store (\<^verbatim>\<open>resolver.go\<close>), and the operations Deploy, Sync, Rollback and
  Undeploy with the pre-deploy backup (\<^verbatim>\<open>deploy.go\<close>), each as the workflow of named steps the
  source runs.

  The world is the store and the swarm \<^verbatim>\<open>'sw\<close>.  What is not in the repository is a field of the
  record \<^verbatim>\<open>engine\<close>: the YAML and JSON libraries, the environment, the fingerprint, the Docker
  side and the backup trigger.  Go ranges over the placeholder map in a new order each time:
  \<^verbatim>\<open>egMapOrder\<close> is the order of a deploy, \<^verbatim>\<open>egSyncOrder\<close> that of the re-translation before a
  sync, and two calls are compared under engines that differ in both.  Telemetry and the console
  output are left out.
\<close>

section \<open>Types\<close>

record Payload =
  plAppName :: string
  plRepoURL :: string
  plFile :: string
  plVersion :: string
  plManifest :: string

record Result =
  rsStackName :: string
  rsRevision :: int
  rsRenderedYAML :: string
  rsChanged :: bool

record 'sw World =
  wStore :: Store
  wSwarm :: 'sw

record 'sw engine =
  egParse :: "string \<Rightarrow> string + App"
  egGetenv :: "string \<Rightarrow> string option"
  egMapOrder :: "string \<Rightarrow> (string \<times> string) list \<Rightarrow> (string \<times> string) list"
  egSyncOrder :: "string \<Rightarrow> (string \<times> string) list \<Rightarrow> (string \<times> string) list"
  egMarshal :: "composeFile \<Rightarrow> manifest_err + string"
  egHash :: "string \<Rightarrow> string"
  egEnvelope :: "Payload \<Rightarrow> string list \<Rightarrow> string"
  egRollbackMarker :: "int \<Rightarrow> Payload \<Rightarrow> string"
  egUnmarshalEnvelope :: "string \<Rightarrow> (Payload \<times> string list) option"
  egUnmarshalPayload :: "string \<Rightarrow> Payload option"
  egHasPayloadKey :: "string \<Rightarrow> bool"
  egDeployStack :: "string \<Rightarrow> string \<Rightarrow> 'sw \<Rightarrow> (string + unit) \<times> 'sw"
  egPrune :: "string \<Rightarrow> string \<Rightarrow> 'sw \<Rightarrow> 'sw"
  egRemoveStack :: "string \<Rightarrow> 'sw \<Rightarrow> (string + unit) \<times> 'sw"
  egDocker :: bool
  egStackSecretNames :: "string \<Rightarrow> 'sw \<Rightarrow> string + string list"
  egVolumeList :: "string \<Rightarrow> 'sw \<Rightarrow> string + string list"
  egVolumeRemove :: "string \<Rightarrow> 'sw \<Rightarrow> 'sw"
  egSecretRemove :: "string \<Rightarrow> 'sw \<Rightarrow> 'sw"
  egBackup :: "('sw \<Rightarrow> string list \<times> string option \<times> 'sw) option"
  egResolver :: bool
  egVolumeRoot :: string

datatype deploy_err =
    Manifest_Required
  | Parse_Error string
  | Interpolate_Error manifest_err
  | Validate_Error manifest_err
  | Translate_Error manifest_err
  | Assign_Revision store_err
  | Record_Deploy store_err
  | Strict_Backup string
  | Docker_Deploy string
  | No_Revisions
  | Store_Error store_err
  | Collect_Secrets string
  | Collect_Volumes string
  | Docker_Remove string
  | In_Step string deploy_err

definition zero_payload :: Payload where
  "zero_payload = \<lparr> plAppName = [], plRepoURL = [], plFile = [], plVersion = [], plManifest = [] \<rparr>"

section \<open>Resolving configs\<close>

definition ResolveConfig :: "Store \<Rightarrow> string \<Rightarrow> string + string" where
  "ResolveConfig db name =
     (case GetConfig name db of
        Inl _ \<Rightarrow> Inl (''config not found: '' @ name)
      | Inr c \<Rightarrow> Inr (cfgContent c))"

definition resolver_of :: "'sw engine \<Rightarrow> Store \<Rightarrow> config_resolver" where
  "resolver_of eg db = (if egResolver eg then Some (ResolveConfig db) else None)"

section \<open>The manifest pipeline\<close>

definition parse_step :: "'sw engine \<Rightarrow> Payload \<Rightarrow> deploy_err + App" where
  "parse_step eg p =
     (case egParse eg (plManifest p) of
        Inl e \<Rightarrow> Inl (Parse_Error e)
      | Inr app0 \<Rightarrow>
          (let app1 = (if plAppName p \<noteq> [] then app0\<lparr> apName := plAppName p \<rparr> else app0)
           in Inr (if plVersion p \<noteq> [] then app1\<lparr> apVersion := plVersion p \<rparr> else app1)))"

definition prepare_under ::
  "(string \<Rightarrow> (string \<times> string) list \<Rightarrow> (string \<times> string) list) \<Rightarrow> 'sw engine \<Rightarrow> App \<Rightarrow> deploy_err + App" where
  "prepare_under ord eg app =
     (case Interpolate (egGetenv eg) ord app of
        Inl e \<Rightarrow> Inl (Interpolate_Error e)
      | Inr app' \<Rightarrow>
         (case Validate app' of
            Inl e \<Rightarrow> Inl (Validate_Error e)
          | Inr _ \<Rightarrow> Inr app'))"

definition prepare_step :: "'sw engine \<Rightarrow> App \<Rightarrow> deploy_err + App" where
  "prepare_step eg = prepare_under (egMapOrder eg) eg"

definition translate_step :: "'sw engine \<Rightarrow> Store \<Rightarrow> App \<Rightarrow> deploy_err + string" where
  "translate_step eg db app =
     (case TranslateIR (Write (egMarshal eg) []) (resolver_of eg db) app
             (Some (Write (egMarshal eg) (egVolumeRoot eg))) of
        Inl e \<Rightarrow> Inl (Translate_Error e)
      | Inr y \<Rightarrow> Inr y)"

section \<open>The pre-deploy backup\<close>

definition runPreDeployBackup ::
  "'sw engine \<Rightarrow> int \<Rightarrow> string \<Rightarrow> int \<Rightarrow> 'sw World \<Rightarrow> (string + unit) \<times> 'sw World" where
  "runPreDeployBackup eg now stackName revision w =
     (let (bid, db1) = CreateBackup now stackName revision (wStore w) in
      case egBackup eg of
        None \<Rightarrow>
          (Inl ''no backup trigger configured'',
           w\<lparr> wStore := FinishBackup now bid ''failed'' [] ''no BackupTrigger configured'' db1 \<rparr>)
      | Some trigger \<Rightarrow>
         (let (paths, err, sw') = trigger (wSwarm w) in
          case err of
            Some e \<Rightarrow>
              (Inl e, \<lparr> wStore = FinishBackup now bid ''failed'' (join_with '','' paths) e db1,
                        wSwarm = sw' \<rparr>)
          | None \<Rightarrow>
              (Inr (), \<lparr> wStore = FinishBackup now bid ''succeeded'' (join_with '','' paths) [] db1,
                         wSwarm = sw' \<rparr>)))"

section \<open>Deploy\<close>

text \<open>The variables the steps of a deploy share.\<close>

record 'sw pipe =
  pWorld :: "'sw World"
  pApp :: "App option"
  pRendered :: string
  pRevision :: int

definition set_world :: "'sw World \<Rightarrow> 'sw pipe \<Rightarrow> 'sw pipe" where
  "set_world w st = st\<lparr> pWorld := w \<rparr>"

abbreviation the_app :: "'sw pipe \<Rightarrow> App" where
  "the_app st \<equiv> the (pApp st)"

definition step_parse :: "'sw engine \<Rightarrow> Payload \<Rightarrow> (deploy_err, 'sw pipe) step_fun" where
  "step_parse eg p st =
     (case parse_step eg p of
        Inl e \<Rightarrow> (Inl e, st)
      | Inr app \<Rightarrow> (Inr (), st\<lparr> pApp := Some app \<rparr>))"

definition step_prepare :: "'sw engine \<Rightarrow> (deploy_err, 'sw pipe) step_fun" where
  "step_prepare eg st =
     (case prepare_step eg (the_app st) of
        Inl e \<Rightarrow> (Inl e, st)
      | Inr app \<Rightarrow> (Inr (), st\<lparr> pApp := Some app \<rparr>))"

definition step_translate :: "'sw engine \<Rightarrow> (deploy_err, 'sw pipe) step_fun" where
  "step_translate eg st =
     (case translate_step eg (wStore (pWorld st)) (the_app st) of
        Inl e \<Rightarrow> (Inl e, st)
      | Inr y \<Rightarrow> (Inr (), st\<lparr> pRendered := y \<rparr>))"

definition new_revision ::
  "'sw engine \<Rightarrow> string list \<Rightarrow> Payload \<Rightarrow> string \<Rightarrow> int \<Rightarrow> string \<Rightarrow> StackRevision" where
  "new_revision eg steps p name r rendered =
     \<lparr> srStackName = name, srRevision = r, srSourceYAML = plManifest p, srRenderedYAML = rendered,
       srRenderedHash = egHash eg rendered, srSourceFile = plFile p,
       srPayloadJSON = Some (egEnvelope eg p steps), srCreatedAt = 0 \<rparr>"

definition step_record ::
  "'sw engine \<Rightarrow> int \<Rightarrow> string list \<Rightarrow> Payload \<Rightarrow> (deploy_err, 'sw pipe) step_fun" where
  "step_record eg now steps p st =
     (let db = wStore (pWorld st); name = apName (the_app st) in
      case NextFreeRevision name now db of
        Inl e \<Rightarrow> (Inl (Assign_Revision e), st)
      | Inr r \<Rightarrow>
         (case RecordDeploy now (new_revision eg steps p name r (pRendered st)) (plRepoURL p) db of
            (Inl e, db') \<Rightarrow>
              (Inl (Record_Deploy e),
               st\<lparr> pRevision := r, pWorld := (pWorld st)\<lparr> wStore := db' \<rparr> \<rparr>)
          | (Inr _, db') \<Rightarrow>
              (Inr (), st\<lparr> pRevision := r, pWorld := (pWorld st)\<lparr> wStore := db' \<rparr> \<rparr>)))"

definition deploy_to_swarm ::
  "'sw engine \<Rightarrow> string \<Rightarrow> string \<Rightarrow> 'sw World \<Rightarrow> (deploy_err + unit) \<times> 'sw World" where
  "deploy_to_swarm eg name rendered w =
     (case egDeployStack eg name rendered (wSwarm w) of
        (Inl e, sw') \<Rightarrow> (Inl (Docker_Deploy e), w\<lparr> wSwarm := sw' \<rparr>)
      | (Inr _, sw') \<Rightarrow> (Inr (), w\<lparr> wSwarm := egPrune eg name ''10m'' sw' \<rparr>))"

definition step_deploy :: "'sw engine \<Rightarrow> int \<Rightarrow> (deploy_err, 'sw pipe) step_fun" where
  "step_deploy eg now st =
     (let app = the_app st;
          (berr, w1) = (if apBackupBeforeDeploy app
                        then runPreDeployBackup eg now (apName app) (pRevision st) (pWorld st)
                        else (Inr (), pWorld st))
      in case berr of
           Inl e \<Rightarrow>
             if apStrictBackup app then (Inl (Strict_Backup e), set_world w1 st)
             else (let (r, w2) = deploy_to_swarm eg (apName app) (pRendered st) w1
                   in (r, set_world w2 st))
         | Inr _ \<Rightarrow>
             (let (r, w2) = deploy_to_swarm eg (apName app) (pRendered st) w1
              in (r, set_world w2 st)))"

definition deploy_steps :: "string list" where
  "deploy_steps =
     [''Parsing manifest (DSL)'', ''Interpolating and validating manifest'',
      ''Translating to Compose (resolving configs/secrets)'', ''Recording revision'',
      ''Deploying stack to the swarm'']"

definition deploy_workflow ::
  "'sw engine \<Rightarrow> int \<Rightarrow> Payload \<Rightarrow> (deploy_err, 'sw pipe) Workflow" where
  "deploy_workflow eg now p =
     Add (deploy_steps ! 4) (step_deploy eg now)
      (Add (deploy_steps ! 3) (step_record eg now deploy_steps p)
        (Add (deploy_steps ! 2) (step_translate eg)
          (Add (deploy_steps ! 1) (step_prepare eg)
            (Add (deploy_steps ! 0) (step_parse eg p) NewWorkflow))))"

definition Deploy ::
  "'sw engine \<Rightarrow> int \<Rightarrow> Payload \<Rightarrow> 'sw World \<Rightarrow> (deploy_err + Result) \<times> 'sw World" where
  "Deploy eg now p w =
     (if plManifest p = [] then (Inl Manifest_Required, w)
      else
        (let (r, out, st) = Run (deploy_workflow eg now p)
               \<lparr> pWorld = w, pApp = None, pRendered = [], pRevision = 0 \<rparr>
         in case r of
              Inl (name, e) \<Rightarrow> (Inl (In_Step name e), pWorld st)
            | Inr _ \<Rightarrow>
                (Inr \<lparr> rsStackName = apName (the_app st), rsRevision = pRevision st,
                       rsRenderedYAML = pRendered st, rsChanged = True \<rparr>, pWorld st)))"

section \<open>Sync\<close>

text \<open>The re-translation of a stored manifest: the name is overridden, the version is not.\<close>

definition retranslate :: "'sw engine \<Rightarrow> Store \<Rightarrow> string \<Rightarrow> string \<Rightarrow> deploy_err + string" where
  "retranslate eg db stackName source =
     (case egParse eg source of
        Inl e \<Rightarrow> Inl (Parse_Error e)
      | Inr app \<Rightarrow>
          bind_r (prepare_under (egSyncOrder eg) eg (app\<lparr> apName := stackName \<rparr>)) (translate_step eg db))"

definition Sync ::
  "'sw engine \<Rightarrow> int \<Rightarrow> string \<Rightarrow> 'sw World \<Rightarrow> (deploy_err + Result) \<times> 'sw World" where
  "Sync eg now stackName w =
     (case ListRevisions stackName 1 (wStore w) of
        [] \<Rightarrow> (Inl No_Revisions, w)
      | latest # _ \<Rightarrow>
         (let redeploy = Deploy eg now
                (zero_payload\<lparr> plAppName := stackName, plManifest := srSourceYAML latest \<rparr>) w
          in case retranslate eg (wStore w) stackName (srSourceYAML latest) of
               Inl _ \<Rightarrow> redeploy
             | Inr rendered \<Rightarrow>
                 if egHash eg rendered = srRenderedHash latest \<and> srRenderedHash latest \<noteq> []
                 then (Inr \<lparr> rsStackName = stackName, rsRevision = srRevision latest,
                             rsRenderedYAML = rendered, rsChanged = False \<rparr>, w)
                 else redeploy))"

section \<open>Rollback\<close>

definition decodeStoredPayload :: "'sw engine \<Rightarrow> string \<Rightarrow> Payload \<times> string list" where
  "decodeStoredPayload eg raw =
     (if raw = [] then (zero_payload, [])
      else (case egUnmarshalEnvelope eg raw of
              Some (p, steps) \<Rightarrow>
                if egHasPayloadKey eg raw then (p, steps)
                else (case egUnmarshalPayload eg raw of Some p \<Rightarrow> (p, []) | None \<Rightarrow> (zero_payload, []))
            | None \<Rightarrow>
                (case egUnmarshalPayload eg raw of Some p \<Rightarrow> (p, []) | None \<Rightarrow> (zero_payload, []))))"

record 'sw rb_state =
  rbWorld :: "'sw World"
  rbRow :: "StackRevision option"
  rbRevision :: int

definition rb_load :: "string \<Rightarrow> int \<Rightarrow> (deploy_err, 'sw rb_state) step_fun" where
  "rb_load stackName sourceRevision st =
     (case GetRevision stackName sourceRevision (wStore (rbWorld st)) of
        Inl e \<Rightarrow> (Inl (Store_Error e), st)
      | Inr row \<Rightarrow> (Inr (), st\<lparr> rbRow := Some row \<rparr>))"

definition rollback_revision :: "'sw engine \<Rightarrow> string \<Rightarrow> int \<Rightarrow> int \<Rightarrow> StackRevision \<Rightarrow> StackRevision" where
  "rollback_revision eg stackName sourceRevision r row =
     \<lparr> srStackName = stackName, srRevision = r, srSourceYAML = srSourceYAML row,
       srRenderedYAML = srRenderedYAML row, srRenderedHash = srRenderedHash row,
       srSourceFile = [],
       srPayloadJSON = Some (egRollbackMarker eg sourceRevision
         (fst (decodeStoredPayload eg (case srPayloadJSON row of Some j \<Rightarrow> j | None \<Rightarrow> [])))),
       srCreatedAt = 0 \<rparr>"

definition rb_record ::
  "'sw engine \<Rightarrow> int \<Rightarrow> string \<Rightarrow> int \<Rightarrow> (deploy_err, 'sw rb_state) step_fun" where
  "rb_record eg now stackName sourceRevision st =
     (let db = wStore (rbWorld st); row = the (rbRow st) in
      case NextFreeRevision stackName now db of
        Inl e \<Rightarrow> (Inl (Assign_Revision e), st)
      | Inr r \<Rightarrow>
         (case RecordDeploy now (rollback_revision eg stackName sourceRevision r row) [] db of
            (Inl e, db') \<Rightarrow>
              (Inl (Record_Deploy e),
               st\<lparr> rbRevision := r, rbWorld := (rbWorld st)\<lparr> wStore := db' \<rparr> \<rparr>)
          | (Inr _, db') \<Rightarrow>
              (Inr (), st\<lparr> rbRevision := r, rbWorld := (rbWorld st)\<lparr> wStore := db' \<rparr> \<rparr>)))"

definition rb_deploy :: "'sw engine \<Rightarrow> string \<Rightarrow> (deploy_err, 'sw rb_state) step_fun" where
  "rb_deploy eg stackName st =
     (case egDeployStack eg stackName (srRenderedYAML (the (rbRow st))) (wSwarm (rbWorld st)) of
        (Inl e, sw') \<Rightarrow> (Inl (Docker_Deploy e), st\<lparr> rbWorld := (rbWorld st)\<lparr> wSwarm := sw' \<rparr> \<rparr>)
      | (Inr _, sw') \<Rightarrow> (Inr (), st\<lparr> rbWorld := (rbWorld st)\<lparr> wSwarm := sw' \<rparr> \<rparr>))"

definition Rollback ::
  "'sw engine \<Rightarrow> int \<Rightarrow> string \<Rightarrow> int \<Rightarrow> 'sw World \<Rightarrow> (deploy_err + Result) \<times> 'sw World" where
  "Rollback eg now stackName sourceRevision w =
     (let wf = Add ''Re-deploying stack from stored YAML'' (rb_deploy eg stackName)
                (Add ''Recording rollback revision'' (rb_record eg now stackName sourceRevision)
                  (Add ''Loading source revision'' (rb_load stackName sourceRevision) NewWorkflow));
          (r, out, st) = Run wf \<lparr> rbWorld = w, rbRow = None, rbRevision = 0 \<rparr>
      in case r of
           Inl (name, e) \<Rightarrow> (Inl (In_Step name e), rbWorld st)
         | Inr _ \<Rightarrow>
             (Inr \<lparr> rsStackName = stackName, rsRevision = rbRevision st,
                    rsRenderedYAML = srRenderedYAML (the (rbRow st)), rsChanged = True \<rparr>, rbWorld st))"

section \<open>Undeploy\<close>

record 'sw ud_state =
  udWorld :: "'sw World"
  udVolumes :: "string list"
  udSecretNames :: "string list"

definition ud_collect :: "'sw engine \<Rightarrow> string \<Rightarrow> (deploy_err, 'sw ud_state) step_fun" where
  "ud_collect eg stackName st =
     (if \<not> egDocker eg then (Inr (), st)
      else (case egStackSecretNames eg stackName (wSwarm (udWorld st)) of
              Inl e \<Rightarrow> (Inl (Collect_Secrets e), st)
            | Inr names \<Rightarrow>
               (case egVolumeList eg stackName (wSwarm (udWorld st)) of
                  Inl e \<Rightarrow> (Inl (Collect_Volumes e), st)
                | Inr vs \<Rightarrow> (Inr (), st\<lparr> udSecretNames := names, udVolumes := vs \<rparr>))))"

definition ud_remove :: "'sw engine \<Rightarrow> string \<Rightarrow> (deploy_err, 'sw ud_state) step_fun" where
  "ud_remove eg stackName st =
     (case egRemoveStack eg stackName (wSwarm (udWorld st)) of
        (Inl e, sw') \<Rightarrow> (Inl (Docker_Remove e), st\<lparr> udWorld := (udWorld st)\<lparr> wSwarm := sw' \<rparr> \<rparr>)
      | (Inr _, sw') \<Rightarrow>
         (let sw2 = (if egDocker eg
                     then fold (egSecretRemove eg) (udSecretNames st) (fold (egVolumeRemove eg) (udVolumes st) sw')
                     else sw')
          in (Inr (), st\<lparr> udWorld := (udWorld st)\<lparr> wSwarm := sw2 \<rparr> \<rparr>)))"

definition ud_delete :: "string \<Rightarrow> (deploy_err, 'sw ud_state) step_fun" where
  "ud_delete stackName st =
     (case DeleteStack stackName (wStore (udWorld st)) of
        (Inl e, db') \<Rightarrow> (Inl (Store_Error e), st\<lparr> udWorld := (udWorld st)\<lparr> wStore := db' \<rparr> \<rparr>)
      | (Inr _, db') \<Rightarrow> (Inr (), st\<lparr> udWorld := (udWorld st)\<lparr> wStore := db' \<rparr> \<rparr>))"

definition Undeploy ::
  "'sw engine \<Rightarrow> string \<Rightarrow> 'sw World \<Rightarrow> (deploy_err + unit) \<times> 'sw World" where
  "Undeploy eg stackName w =
     (case GetStack stackName (wStore w) of
        Inl e \<Rightarrow> (Inl (Store_Error e), w)
      | Inr _ \<Rightarrow>
         (let wf = Add ''Deleting stack record'' (ud_delete stackName)
                    (Add ''Removing stack services and swarm assets'' (ud_remove eg stackName)
                      (Add ''Collecting stack secrets and volumes'' (ud_collect eg stackName) NewWorkflow));
              (r, out, st) = Run wf \<lparr> udWorld = w, udVolumes = [], udSecretNames = [] \<rparr>
          in case r of
               Inl (name, e) \<Rightarrow> (Inl (In_Step name e), udWorld st)
             | Inr _ \<Rightarrow> (Inr (), udWorld st)))"

end
