(* ===== verification/Cipher.thy ===== *)
theory Cipher
  imports Go_Strings
begin

text \<open>
  Encryption at rest (\<^verbatim>\<open>internal/credentials/cipher.go\<close>).  AES-GCM of Go's crypto library is a
  pair of parameters: \<^verbatim>\<open>seal nonce plain\<close> and \<^verbatim>\<open>unseal nonce sealed\<close>, which fails on
  tampered input.  The key file is a state: missing, present with its bytes, or unreadable;
  what the operating system answers to a create, a write and a close are arguments.
\<close>

section \<open>Encrypt and decrypt\<close>

datatype cipher_err = Nonce_Failed | ErrInvalidCiphertext | Key_Error string

definition nonceBytes :: nat where "nonceBytes = 12"
definition keyBytes :: nat where "keyBytes = 32"

definition Encrypt ::
  "(string \<Rightarrow> string \<Rightarrow> string) \<Rightarrow> string option \<Rightarrow> string \<Rightarrow> cipher_err + string" where
  "Encrypt seal nonceRead plaintext =
     (case nonceRead of
        None \<Rightarrow> Inl Nonce_Failed
      | Some nonce \<Rightarrow> Inr (nonce @ seal nonce plaintext))"

definition Decrypt ::
  "(string \<Rightarrow> string \<Rightarrow> string option) \<Rightarrow> string \<Rightarrow> cipher_err + string" where
  "Decrypt unseal ciphertext =
     (if length ciphertext < nonceBytes then Inl ErrInvalidCiphertext
      else (case unseal (take nonceBytes ciphertext) (drop nonceBytes ciphertext) of
              None \<Rightarrow> Inl ErrInvalidCiphertext
            | Some plain \<Rightarrow> Inr plain))"

text \<open>The documented behaviour of GCM: opening under a nonce of the right size
  gives a plaintext exactly when the input is that plaintext sealed under the nonce.\<close>

definition gcm_ok :: "(string \<Rightarrow> string \<Rightarrow> string) \<Rightarrow> (string \<Rightarrow> string \<Rightarrow> string option) \<Rightarrow> bool" where
  "gcm_ok seal unseal \<longleftrightarrow>
     (\<forall>n s p. length n = nonceBytes \<longrightarrow> (unseal n s = Some p \<longleftrightarrow> s = seal n p))"

section \<open>The key file\<close>

datatype key_file = Missing | Present string | Unreadable

record key_io =
  kioRandom :: "string option"
  kioCreateOk :: bool
  kioWritten :: nat
  kioCloseOk :: bool

definition loadOrCreateKey :: "key_io \<Rightarrow> key_file \<Rightarrow> (cipher_err + string) \<times> key_file" where
  "loadOrCreateKey io f =
     (case f of
        Present data \<Rightarrow>
          (if length data \<noteq> keyBytes then Inl (Key_Error ''wrong length'') else Inr data, f)
      | Unreadable \<Rightarrow> (Inl (Key_Error ''read key file''), f)
      | Missing \<Rightarrow>
         (case kioRandom io of
            None \<Rightarrow> (Inl (Key_Error ''generate key''), f)
          | Some key \<Rightarrow>
              if \<not> kioCreateOk io then (Inl (Key_Error ''create key file''), f)
              else if kioWritten io < length key
              then (Inl (Key_Error ''write key file''), Present (take (kioWritten io) key))
              else if \<not> kioCloseOk io then (Inl (Key_Error ''close key file''), Present key)
              else (Inr key, Present key)))"

section \<open>Facts\<close>

lemma decrypt_encrypt:
  assumes "gcm_ok seal unseal" "length nonce = nonceBytes" "Encrypt seal (Some nonce) p = Inr c"
  shows "Decrypt unseal c = Inr p"
proof -
  have "unseal nonce (seal nonce p) = Some p" using assms(1,2) by (simp add: gcm_ok_def)
  then show ?thesis using assms(2,3) by (auto simp: Encrypt_def Decrypt_def)
qed

section \<open>Properties\<close>

text \<open>Decryption inverts encryption, and it accepts nothing else: whatever decrypts
  to a plaintext is an encryption of that plaintext under the nonce it starts with.\<close>

theorem cipher_roundtrip:
  assumes "gcm_ok seal unseal"
  shows "(Decrypt unseal c = Inr p) =
    (nonceBytes \<le> length c \<and> Encrypt seal (Some (take nonceBytes c)) p = Inr c)"
proof (cases "nonceBytes \<le> length c")
  case True
  then have "length (take nonceBytes c) = nonceBytes" by simp
  then have "unseal (take nonceBytes c) (drop nonceBytes c) = Some p \<longleftrightarrow>
      drop nonceBytes c = seal (take nonceBytes c) p"
    using assms by (simp add: gcm_ok_def)
  moreover have "drop nonceBytes c = seal (take nonceBytes c) p \<longleftrightarrow>
      take nonceBytes c @ seal (take nonceBytes c) p = c"
    by (metis append_take_drop_id same_append_eq)
  ultimately show ?thesis
    using True by (auto simp: Decrypt_def Encrypt_def split: option.splits)
qed (simp add: Decrypt_def)

definition toy_seal :: "string \<Rightarrow> string \<Rightarrow> string" where
  "toy_seal n p = n @ rev p"

definition toy_unseal :: "string \<Rightarrow> string \<Rightarrow> string option" where
  "toy_unseal n s = (if prefix n s then Some (rev (drop (length n) s)) else None)"

lemma toy_gcm_ok: "gcm_ok toy_seal toy_unseal"
  by (auto simp: gcm_ok_def toy_seal_def toy_unseal_def prefix_def)

theorem cipher_roundtrip_witness:
  "Decrypt toy_unseal (replicate 12 (CHR ''n'') @ replicate 12 (CHR ''n'') @ ''wp'') = Inr ''pw''"
  by (subst cipher_roundtrip [OF toy_gcm_ok])
    (simp add: nonceBytes_def Encrypt_def toy_seal_def)

text \<open>The key file is created once and then only read: a key that was returned is
  returned by every later call, whatever the random source says, and a file that exists is
  never rewritten.  A write cut short, however, leaves a file that every later call refuses.\<close>

theorem key_file_stable:
  "(case loadOrCreateKey io f of
      (Inr key, f') \<Rightarrow> f' = Present key \<and> (f = Missing \<or> f' = f) \<and>
        (length key = keyBytes \<longrightarrow> loadOrCreateKey io' f' = (Inr key, f'))
    | (Inl e, f') \<Rightarrow> f \<noteq> Missing \<longrightarrow> f' = f) \<and>
   (\<not> is_ok (fst (loadOrCreateKey (io\<lparr> kioRandom := Some (replicate 32 c), kioCreateOk := True,
        kioWritten := 7 \<rparr>) Missing)) \<and>
    loadOrCreateKey io' (snd (loadOrCreateKey (io\<lparr> kioRandom := Some (replicate 32 c),
        kioCreateOk := True, kioWritten := 7 \<rparr>) Missing))
      = (Inl (Key_Error ''wrong length''), Present (replicate 7 c)))"
  by (auto simp: loadOrCreateKey_def keyBytes_def split: key_file.splits option.splits)

definition demo_io :: key_io where
  "demo_io = \<lparr> kioRandom = Some (replicate 32 (CHR ''k'')), kioCreateOk = True, kioWritten = 32,
     kioCloseOk = True \<rparr>"

theorem key_file_stable_witness:
  "loadOrCreateKey demo_io Missing = (Inr (replicate 32 (CHR ''k'')), Present (replicate 32 (CHR ''k''))) \<and>
   loadOrCreateKey (demo_io\<lparr> kioRandom := None \<rparr>) (Present (replicate 32 (CHR ''k'')))
     = (Inr (replicate 32 (CHR ''k'')), Present (replicate 32 (CHR ''k'')))"
proof -
  have "loadOrCreateKey demo_io Missing
      = (Inr (replicate 32 (CHR ''k'')), Present (replicate 32 (CHR ''k'')))"
    by (simp add: loadOrCreateKey_def demo_io_def)
  then show ?thesis
    using key_file_stable [where io = demo_io and f = Missing and io' = "demo_io\<lparr> kioRandom := None \<rparr>"] by (simp add: keyBytes_def)
qed

end
