(* ===== verification/Webhook_Receiver.thy ===== *)
theory Webhook_Receiver
  imports Stacks_Deploy Auth Cipher
begin

text \<open>
  The deploy webhook: source management on the store (\<^verbatim>\<open>internal/webhooks/local.go\<close>), the REST
  handlers (\<^verbatim>\<open>http.go\<close>) and the HMAC-verified receiver (\<^verbatim>\<open>receiver.go\<close>).  HMAC-SHA256 is the
  parameter \<^verbatim>\<open>mac secret message\<close>, the JSON library a decoder, and an HTTP answer the pair of its
  status and either an error text or the answer's content.  Where the code appends the text of an
  internal error to a 500 answer, the answer here is the fixed prefix.
\<close>

type_synonym 'b reply = "int \<times> (string + 'b)"

section \<open>Sources\<close>

datatype webhook_err =
    Random_Failed
  | Cipher_Err cipher_err
  | Webhook_Store store_err

record Source =
  soSource :: string
  soDescription :: string
  soCreatedAt :: int
  soLastUsedAt :: int

definition Create ::
  "(string \<Rightarrow> string \<Rightarrow> string) \<Rightarrow> string option \<Rightarrow> string option \<Rightarrow> int \<Rightarrow> string \<Rightarrow> string \<Rightarrow>
     Store \<Rightarrow> (webhook_err + string) \<times> Store" where
  "Create seal secretRead nonceRead now source description db =
     (case secretRead of
        None \<Rightarrow> (Inl Random_Failed, db)
      | Some secretBytes \<Rightarrow>
         (let secretHex = hex_encode secretBytes in
          case Encrypt seal nonceRead secretHex of
            Inl e \<Rightarrow> (Inl (Cipher_Err e), db)
          | Inr ciphertext \<Rightarrow>
             (case CreateWebhookSource now source (description, ciphertext) db of
                (Inl e, db') \<Rightarrow> (Inl (Webhook_Store e), db')
              | (Inr _, db') \<Rightarrow> (Inr secretHex, db'))))"

definition source_of_row :: "WebhookSource \<Rightarrow> Source" where
  "source_of_row r =
     \<lparr> soSource = whSource r,
       soDescription = (case whDescription r of Some d \<Rightarrow> d | None \<Rightarrow> []),
       soCreatedAt = whCreatedAt r,
       soLastUsedAt = (case whLastUsedAt r of Some t \<Rightarrow> t | None \<Rightarrow> 0) \<rparr>"

definition List_sources :: "Store \<Rightarrow> Source list" where
  "List_sources db = map source_of_row (ListWebhookSources db)"

definition Secret :: "(string \<Rightarrow> string \<Rightarrow> string option) \<Rightarrow> Store \<Rightarrow> string \<Rightarrow> webhook_err + string" where
  "Secret unseal db source =
     (case GetWebhookSource source db of
        Inl e \<Rightarrow> Inl (Webhook_Store e)
      | Inr src \<Rightarrow>
         (case Decrypt unseal (whSecretCiphertext src) of
            Inl e \<Rightarrow> Inl (Cipher_Err e)
          | Inr secret \<Rightarrow> Inr secret))"

section \<open>The receiver\<close>

definition MaxClockSkew :: int where "MaxClockSkew = 300"
definition MaxBodyBytes :: nat where "MaxBodyBytes = 1048576"

definition parseTimestamp :: "string \<Rightarrow> int option" where
  "parseTimestamp header =
     (if header = [] then None
      else (case parse_int64 header of
              None \<Rightarrow> None
            | Some v \<Rightarrow> if v \<le> 0 then None else Some v))"

datatype hmac_err =
    Bad_Timestamp | Skew_Too_Large int | Missing_Signature | Bad_Prefix | Bad_Hex
  | No_Secret webhook_err | Signature_Mismatch

record 'sw receiver =
  rcEngine :: "'sw engine"
  rcMac :: "string \<Rightarrow> string \<Rightarrow> string"
  rcUnseal :: "string \<Rightarrow> string \<Rightarrow> string option"
  rcUnmarshal :: "string \<Rightarrow> string + Payload"
  rcErrText :: "deploy_err \<Rightarrow> string"
  rcRecord :: bool

definition verifyHMAC ::
  "'sw receiver \<Rightarrow> int \<Rightarrow> Store \<Rightarrow> string \<Rightarrow> int option \<Rightarrow> string \<Rightarrow> string \<Rightarrow> hmac_err + unit" where
  "verifyHMAC rc now db source timestamp body sigHeader =
     (case timestamp of
        None \<Rightarrow> Inl Bad_Timestamp
      | Some ts \<Rightarrow>
         (let delta = (if now - ts < 0 then - (now - ts) else now - ts) in
          if MaxClockSkew < delta then Inl (Skew_Too_Large delta)
          else if sigHeader = [] then Inl Missing_Signature
          else if \<not> has_prefix sigHeader ''sha256='' then Inl Bad_Prefix
          else (case hex_decode (trim_prefix sigHeader ''sha256='') of
                  None \<Rightarrow> Inl Bad_Hex
                | Some want \<Rightarrow>
                    if length want \<noteq> 32 then Inl Bad_Hex
                    else (case Secret (rcUnseal rc) db source of
                            Inl e \<Rightarrow> Inl (No_Secret e)
                          | Inr secret \<Rightarrow>
                              if want = rcMac rc secret (itoa ts @ body) then Inr ()
                              else Inl Signature_Mismatch))))"

record hook_request =
  hqSource :: string
  hqRead :: "string + string"
  hqTimestamp :: string
  hqSignature :: string

definition delivery ::
  "string \<Rightarrow> string \<Rightarrow> Payload option \<Rightarrow> string \<Rightarrow> Result option \<Rightarrow> WebhookDelivery" where
  "delivery source status p err res =
     \<lparr> wdID = 0, wdSource = source, wdStatus = status,
       wdStackName = (case res of Some r \<Rightarrow> rsStackName r
          | None \<Rightarrow> (case p of Some q \<Rightarrow> plAppName q | None \<Rightarrow> [])),
       wdRevision = (case res of Some r \<Rightarrow> rsRevision r | None \<Rightarrow> 0),
       wdRepoURL = (case p of Some q \<Rightarrow> plRepoURL q | None \<Rightarrow> []),
       wdFile = (case p of Some q \<Rightarrow> plFile q | None \<Rightarrow> []),
       wdError = err, wdCreatedAt = 0 \<rparr>"

definition recordDelivery :: "bool \<Rightarrow> int \<Rightarrow> WebhookDelivery \<Rightarrow> 'sw World \<Rightarrow> 'sw World" where
  "recordDelivery on now d w =
     (if on then w\<lparr> wStore := RecordWebhookDelivery now d (wStore w) \<rparr> else w)"

definition provenance_error :: string where
  "provenance_error = ''deploy provenance required: 'repo_url' and 'file' must identify the source repository and manifest path''"

definition receive ::
  "'sw receiver \<Rightarrow> int \<Rightarrow> hook_request \<Rightarrow> 'sw World \<Rightarrow> (string \<times> int) reply \<times> 'sw World" where
  "receive rc now rq w =
     (let source = hqSource rq;
          record = (\<lambda>status p err res w. recordDelivery (rcRecord rc) now (delivery source status p err res) w)
      in
      if source = [] then ((400, Inl ''source required''), record ''bad_request'' None [] None w)
      else (case hqRead rq of
        Inl e \<Rightarrow> ((400, Inl (''read body: '' @ e)), record ''bad_request'' None [] None w)
      | Inr sent \<Rightarrow>
         (let body = take (MaxBodyBytes + 1) sent in
          if MaxBodyBytes < length body
          then ((413, Inl ''body too large''), record ''bad_request'' None [] None w)
          else (case verifyHMAC rc now (wStore w) source (parseTimestamp (hqTimestamp rq)) body (hqSignature rq) of
            Inl _ \<Rightarrow> ((401, Inl ''unauthorized''), record ''unauthorized'' None [] None w)
          | Inr _ \<Rightarrow>
             (let w1 = w\<lparr> wStore := MarkWebhookSourceUsed now source (wStore w) \<rparr> in
              case rcUnmarshal rc body of
                Inl e \<Rightarrow> ((400, Inl (''invalid JSON: '' @ e)), record ''bad_request'' None [] None w1)
              | Inr p \<Rightarrow>
                  if plRepoURL p = [] \<or> plFile p = []
                  then ((400, Inl provenance_error), record ''bad_request'' (Some p) provenance_error None w1)
                  else (case Deploy (rcEngine rc) now p w1 of
                    (Inl e, w2) \<Rightarrow>
                      ((502, Inl (rcErrText rc e)),
                       record ''server_error'' (Some p) (rcErrText rc e) None w2)
                  | (Inr res, w2) \<Rightarrow>
                      ((200, Inr (rsStackName res, rsRevision res)),
                       record ''accepted'' (Some p) [] (Some res) w2)))))))"

section \<open>REST handlers\<close>

definition hook_list :: "Store \<Rightarrow> Source list reply" where
  "hook_list db = (200, Inr (List_sources db))"

definition hook_create ::
  "(string \<Rightarrow> string \<Rightarrow> string) \<Rightarrow> string option \<Rightarrow> string option \<Rightarrow> int \<Rightarrow> string + string \<times> string \<Rightarrow>
     Store \<Rightarrow> (string \<times> string) reply \<times> Store" where
  "hook_create seal secretRead nonceRead now decoded db =
     (case decoded of
        Inl e \<Rightarrow> ((400, Inl (''invalid JSON body: '' @ e)), db)
      | Inr (src, description) \<Rightarrow>
         (let source = trim_space src in
          if source = [] then ((400, Inl ''source is required''), db)
          else (case Create seal secretRead nonceRead now source description db of
            (Inl e, db') \<Rightarrow>
              (if e = Webhook_Store ErrWebhookSourceExists
               then (409, Inl (''webhook source already exists: '' @ source))
               else (500, Inl ''create webhook source''), db')
          | (Inr secret, db') \<Rightarrow> ((201, Inr (source, secret)), db'))))"

definition hook_remove :: "string \<Rightarrow> Store \<Rightarrow> unit reply \<times> Store" where
  "hook_remove source db =
     (if source = [] then ((400, Inl ''source is required''), db)
      else (case DeleteWebhookSource source db of
              (Inl e, db') \<Rightarrow>
                (if e = ErrWebhookSourceNotFound then (404, Inl (''webhook source not found: '' @ source))
                 else (500, Inl ''delete webhook source''), db')
            | (Inr _, db') \<Rightarrow> ((204, Inr ()), db')))"

definition hook_deliveries :: "string \<Rightarrow> string \<Rightarrow> Store \<Rightarrow> WebhookDelivery list reply" where
  "hook_deliveries source limit db =
     (if source = [] then (400, Inl ''source is required'')
      else (let n = (case parse_int64 limit of
                       Some n \<Rightarrow> if 0 < n \<and> n \<le> 500 then n else 50
                     | None \<Rightarrow> 50)
            in (200, Inr (ListWebhookDeliveries source n db))))"

section \<open>Facts\<close>

text \<open>What makes a request genuine.\<close>

definition authentic ::
  "'sw receiver \<Rightarrow> int \<Rightarrow> Store \<Rightarrow> string \<Rightarrow> string \<Rightarrow> string \<Rightarrow> string \<Rightarrow> bool" where
  "authentic rc now db source tsHeader body sig \<longleftrightarrow>
     (case (parseTimestamp tsHeader, Secret (rcUnseal rc) db source) of
        (Some ts, Inr secret) \<Rightarrow>
          \<bar>now - ts\<bar> \<le> 300 \<and> length (rcMac rc secret (itoa ts @ body)) = 32 \<and>
          has_prefix sig ''sha256='' \<and>
          hex_decode (trim_prefix sig ''sha256='') = Some (rcMac rc secret (itoa ts @ body))
      | _ \<Rightarrow> False)"

lemma verifyHMAC_iff:
  "is_ok (verifyHMAC rc now db source (parseTimestamp ts) body sig) = authentic rc now db source ts body sig"
  by (auto simp: verifyHMAC_def authentic_def MaxClockSkew_def is_ok_iff Let_def has_prefix_def
      split: option.splits sum.splits if_splits)

lemma verifyHMAC_fails:
  "\<not> authentic rc now db source ts body sig \<Longrightarrow>
     \<exists>e. verifyHMAC rc now db source (parseTimestamp ts) body sig = Inl e"
  using verifyHMAC_iff [of rc now db source ts body sig]
  by (cases "verifyHMAC rc now db source (parseTimestamp ts) body sig") (auto simp: is_ok_iff)

lemma verifyHMAC_passes:
  "authentic rc now db source ts body sig \<Longrightarrow>
     verifyHMAC rc now db source (parseTimestamp ts) body sig = Inr ()"
  using verifyHMAC_iff [of rc now db source ts body sig]
  by (auto simp: is_ok_iff)

lemma recordDelivery_keeps [simp]:
  "wSwarm (recordDelivery on now d w) = wSwarm w"
  "dbStacks (wStore (recordDelivery on now d w)) = dbStacks (wStore w)"
  "dbRevisions (wStore (recordDelivery on now d w)) = dbRevisions (wStore w)"
  "dbWebhooks (wStore (recordDelivery on now d w)) = dbWebhooks (wStore w)"
  by (simp_all add: recordDelivery_def RecordWebhookDelivery_def)

lemma MarkUsed_keeps [simp]:
  "dbStacks (MarkWebhookSourceUsed now s db) = dbStacks db"
  "dbRevisions (MarkWebhookSourceUsed now s db) = dbRevisions db"
  by (simp_all add: MarkWebhookSourceUsed_def)

lemma Create_Secret:
  assumes "gcm_ok seal unseal" "length nonce = nonceBytes"
    and "Create seal (Some bytes) (Some nonce) now source description db = (Inr secret, db')"
  shows "secret = hex_encode bytes \<and> Secret unseal db' source = Inr secret"
proof -
  obtain c where c: "Encrypt seal (Some nonce) (hex_encode bytes) = Inr c"
    and w: "CreateWebhookSource now source (description, c) db = (Inr (), db')"
    and s: "secret = hex_encode bytes"
    using assms(3) by (auto simp: Create_def Let_def split: sum.splits prod.splits)
  obtain r where "find_webhook db' source = Some r" "whSecretCiphertext r = c"
    using webhooks.create_ok [OF w] by auto
  then show ?thesis
    using decrypt_encrypt [OF assms(1,2) c] s by (simp add: Secret_def GetWebhookSource_def find_webhook_def)
qed

text \<open>The payload of a request that is to be deployed: it comes from a named source in a body of
  at most \<^verbatim>\<open>MaxBodyBytes\<close>, is authentic, decodes, and names its repository and file.\<close>

definition genuine_payload ::
  "'sw receiver \<Rightarrow> int \<Rightarrow> hook_request \<Rightarrow> string \<Rightarrow> Store \<Rightarrow> Payload option" where
  "genuine_payload rc now rq body db =
     (if hqSource rq \<noteq> [] \<and> length body \<le> MaxBodyBytes \<and>
         authentic rc now db (hqSource rq) (hqTimestamp rq) body (hqSignature rq)
      then (case rcUnmarshal rc body of
              Inr p \<Rightarrow> if plRepoURL p \<noteq> [] \<and> plFile p \<noteq> [] then Some p else None
            | Inl _ \<Rightarrow> None)
      else None)"

section \<open>Properties\<close>

text \<open>Property C1.  Only genuine requests are deployed: the ones whose signature verifies under the
  source's secret for a timestamp within five minutes, and whose payload decodes and names its
  repository and file.  These are answered 200 or 502 and leave what the deploy leaves, with the
  delivery recorded.  Any other request leaves the swarm, the stacks and the revisions alone: one
  that is not authentic changes nothing but the delivery log, and one that is authentic but has no
  usable payload also marks its source as used.  All ways of not being authentic get the same 401,
  which authentic requests never get.\<close>

theorem webhook_deploys_only_genuine_requests:
  fixes rq :: hook_request and sent :: string and rc :: "'sw receiver" and w w' :: "'sw World" and now :: int
  defines "body \<equiv> take (MaxBodyBytes + 1) sent"
  defines "ok \<equiv> authentic rc now (wStore w) (hqSource rq) (hqTimestamp rq) body (hqSignature rq)"
  defines "used \<equiv> w\<lparr> wStore := MarkWebhookSourceUsed now (hqSource rq) (wStore w) \<rparr>"
  assumes "receive rc now rq w = ((status, answer), w')" "hqRead rq = Inr sent"
  shows "(\<not> ok \<longrightarrow> (\<exists>s. w' = recordDelivery (rcRecord rc) now (delivery (hqSource rq) s None [] None) w)) \<and>
    (status = 401 \<longleftrightarrow> hqSource rq \<noteq> [] \<and> length sent \<le> MaxBodyBytes \<and> \<not> ok) \<and>
    (status = 401 \<longrightarrow> answer = Inl ''unauthorized'') \<and>
    (case genuine_payload rc now rq body (wStore w) of
       Some p \<Rightarrow> status = (if is_ok (fst (Deploy (rcEngine rc) now p used)) then 200 else 502) \<and>
         (\<exists>d. w' = recordDelivery (rcRecord rc) now d (snd (Deploy (rcEngine rc) now p used)))
     | None \<Rightarrow> status \<in> {400, 401, 413} \<and>
         wSwarm w' = wSwarm w \<and> dbStacks (wStore w') = dbStacks (wStore w) \<and>
         dbRevisions (wStore w') = dbRevisions (wStore w) \<and>
         (\<exists>d. w' = recordDelivery (rcRecord rc) now d
             (if hqSource rq \<noteq> [] \<and> length sent \<le> MaxBodyBytes \<and> ok then used else w)))"
proof (cases "hqSource rq = [] \<or> MaxBodyBytes < length sent")
  case True
  then have g: "genuine_payload rc now rq body (wStore w) = None" by (auto simp: genuine_payload_def body_def)
  show ?thesis
  proof (cases "hqSource rq = []")
    case src: True
    then have "status = 400" "w' = recordDelivery (rcRecord rc) now (delivery (hqSource rq) ''bad_request'' None [] None) w"
      using assms(4) by (simp_all add: receive_def)
    then show ?thesis using src g by auto
  next
    case False
    then have "MaxBodyBytes < length (take (MaxBodyBytes + 1) sent)" "MaxBodyBytes < length sent"
      using True by auto
    then have "status = 413" "w' = recordDelivery (rcRecord rc) now (delivery (hqSource rq) ''bad_request'' None [] None) w"
      "\<not> length sent \<le> MaxBodyBytes"
      using assms(4,5) False by (simp_all add: receive_def Let_def)
    then show ?thesis using g by auto
  qed
next
  case False
  then have n: "hqSource rq \<noteq> []" "\<not> MaxBodyBytes < length body" "length sent \<le> MaxBodyBytes" by (auto simp: body_def)
  then have body: "body = sent" by (simp add: body_def)
  show ?thesis
  proof (cases ok)
    case no: False
    then have "\<exists>e. verifyHMAC rc now (wStore w) (hqSource rq) (parseTimestamp (hqTimestamp rq)) body (hqSignature rq) = Inl e"
      by (intro verifyHMAC_fails) (simp add: ok_def)
    then obtain e where "verifyHMAC rc now (wStore w) (hqSource rq) (parseTimestamp (hqTimestamp rq)) body (hqSignature rq) = Inl e"
      by (rule exE)
    moreover have "genuine_payload rc now rq body (wStore w) = None" using no by (simp add: genuine_payload_def ok_def)
    ultimately show ?thesis
      using assms(4,5) n no by (auto simp: receive_def Let_def body)
  next
    case True
    then have v: "verifyHMAC rc now (wStore w) (hqSource rq) (parseTimestamp (hqTimestamp rq)) body (hqSignature rq) = Inr ()"
      by (intro verifyHMAC_passes) (simp add: ok_def)
    have g: "genuine_payload rc now rq body (wStore w) = (case rcUnmarshal rc body of
        Inr p \<Rightarrow> if plRepoURL p \<noteq> [] \<and> plFile p \<noteq> [] then Some p else None | Inl _ \<Rightarrow> None)"
      using True n by (simp add: genuine_payload_def ok_def split: sum.split)
    show ?thesis
      using assms(4,5) n True v
      by (cases "rcUnmarshal rc body")
        (auto simp: receive_def Let_def body g [unfolded body] used_def is_ok_iff split: if_splits prod.splits sum.splits)
  qed
qed

text \<open>The secret that creating a source returns is the one its requests are checked
  against: a request signed with it is accepted for as long as the clock is within five minutes
  of its timestamp, however often it is sent, and refused before and after.\<close>

theorem created_source_accepts_signed_requests:
  assumes "gcm_ok seal (rcUnseal rc)" "length nonce = nonceBytes"
    and "Create seal (Some bytes) (Some nonce) t source description db = (Inr secret, db')"
    and "0 < ts" "ts < 2 ^ 63" "length (rcMac rc secret (itoa ts @ body)) = 32"
  shows "is_ok (verifyHMAC rc now db' source (parseTimestamp (itoa ts)) body
      (''sha256='' @ hex_encode (rcMac rc secret (itoa ts @ body)))) = (\<bar>now - ts\<bar> \<le> 300)"
proof -
  have "parse_int64 (itoa ts) = Some ts"
    using assms(4,5) parse_int64_nat_str [of "nat ts"] by (simp add: itoa_def)
  moreover have "itoa ts \<noteq> []" using assms(4) by (simp add: itoa_def)
  ultimately have "parseTimestamp (itoa ts) = Some ts" using assms(4) by (simp add: parseTimestamp_def)
  then show ?thesis
    using Create_Secret [OF assms(1-3)] assms(6)
    by (subst verifyHMAC_iff) (simp add: authentic_def has_prefix_def trim_prefix_def)
qed

section \<open>A receiver to try it on\<close>

text \<open>A toy MAC of the right length, and the request that the witnesses send.\<close>

definition toy_receiver :: "'sw engine \<Rightarrow> 'sw receiver" where
  "toy_receiver eg = \<lparr> rcEngine = eg, rcMac = (\<lambda>k m. take 32 (m @ k @ replicate 32 (CHR ''0''))),
     rcUnseal = toy_unseal, rcUnmarshal = (\<lambda>b. Inr zero_payload), rcErrText = (\<lambda>_. []), rcRecord = True \<rparr>"

theorem webhook_deploys_only_genuine_requests_witness:
  "\<forall>(eg :: nat engine) sw. fst (receive (toy_receiver eg) 1000 \<lparr> hqSource = ''ci'', hqRead = Inr ''{}'', hqTimestamp = ''noon'',
       hqSignature = ''sha256=00'' \<rparr> \<lparr> wStore = empty_store, wSwarm = sw \<rparr>) = (401, Inl ''unauthorized'')"
proof (intro allI)
  fix eg :: "nat engine" and sw :: nat
  let ?rq = "\<lparr> hqSource = ''ci'', hqRead = Inr ''{}'', hqTimestamp = ''noon'', hqSignature = ''sha256=00'' \<rparr>"
  let ?w = "\<lparr> wStore = empty_store, wSwarm = sw \<rparr>"
  obtain status answer w' where r: "receive (toy_receiver eg) 1000 ?rq ?w = ((status, answer), w')"
    by (metis surj_pair)
  have b: "hqRead ?rq = Inr ''{}''" by simp
  have "\<not> authentic (toy_receiver eg) 1000 (wStore ?w) (hqSource ?rq) (hqTimestamp ?rq)
      (take (MaxBodyBytes + 1) ''{}'') (hqSignature ?rq)"
    by (simp add: authentic_def Secret_def GetWebhookSource_def empty_store_def row_find_def
        split: option.splits)
  then have "status = 401 \<and> answer = Inl ''unauthorized''"
    using webhook_deploys_only_genuine_requests [OF r b] by (simp add: MaxBodyBytes_def)
  then show "fst (receive (toy_receiver eg) 1000 \<lparr> hqSource = ''ci'', hqRead = Inr ''{}'', hqTimestamp = ''noon'',
       hqSignature = ''sha256=00'' \<rparr> \<lparr> wStore = empty_store, wSwarm = sw \<rparr>) = (401, Inl ''unauthorized'')"
    using r by simp
qed

theorem created_source_accepts_signed_requests_witness:
  "\<forall>(eg :: nat engine). \<exists>secret db'. Create toy_seal (Some ''secret'') (Some (replicate 12 (CHR ''n''))) 7 ''ci'' [] empty_store
       = (Inr secret, db') \<and>
     is_ok (verifyHMAC (toy_receiver eg) 1300 db' ''ci'' (parseTimestamp (itoa 1000)) ''{}''
       (''sha256='' @ hex_encode (rcMac (toy_receiver eg) secret (itoa 1000 @ ''{}''))))"
proof (intro allI)
  fix eg :: "nat engine"
  obtain secret db' where c: "Create toy_seal (Some ''secret'') (Some (replicate 12 (CHR ''n''))) 7 ''ci'' [] empty_store
      = (Inr secret, db')"
    by (simp add: Create_def Encrypt_def CreateWebhookSource_def empty_store_def row_find_def Let_def)
  have g: "gcm_ok toy_seal (rcUnseal (toy_receiver eg))" by (simp add: toy_receiver_def toy_gcm_ok)
  have "length (rcMac (toy_receiver eg) secret (itoa 1000 @ ''{}'')) = 32" by (simp add: toy_receiver_def)
  from created_source_accepts_signed_requests [OF g _ c _ _ this, of 1300] c show "\<exists>secret db'. Create toy_seal (Some ''secret'') (Some (replicate 12 (CHR ''n''))) 7 ''ci'' [] empty_store
       = (Inr secret, db') \<and>
     is_ok (verifyHMAC (toy_receiver eg) 1300 db' ''ci'' (parseTimestamp (itoa 1000)) ''{}''
       (''sha256='' @ hex_encode (rcMac (toy_receiver eg) secret (itoa 1000 @ ''{}''))))"
    by (simp add: nonceBytes_def)
qed

end
