(* ===== verification/Stacks_Properties.thy ===== *)
theory Stacks_Properties
  imports Stacks_Deploy
begin

text \<open>
  What the deploy engine guarantees: which failures leave the world alone, what a success
  records and hands to the swarm, what a sync after a failed deploy does, and the effect of a
  rollback and an undeploy.
\<close>

section \<open>What the audit tables do not touch\<close>

lemma backup_eff [eff_simps]:
  "dbRevisions (snd (CreateBackup now n r db)) = dbRevisions db"
  "dbStacks (snd (CreateBackup now n r db)) = dbStacks db"
  "dbConfigs (snd (CreateBackup now n r db)) = dbConfigs db"
  "dbRevisions (FinishBackup now i st ps e db) = dbRevisions db"
  "dbStacks (FinishBackup now i st ps e db) = dbStacks db"
  "dbConfigs (FinishBackup now i st ps e db) = dbConfigs db"
  by (simp_all add: CreateBackup_def FinishBackup_def Let_def)

text \<open>The three tables the deploy engine reads.\<close>

definition same_stacks :: "Store \<Rightarrow> Store \<Rightarrow> bool" where
  "same_stacks db db' \<longleftrightarrow>
     dbRevisions db' = dbRevisions db \<and> dbStacks db' = dbStacks db \<and> dbConfigs db' = dbConfigs db"

lemma same_stacks_refl [simp]: "same_stacks db db"
  by (simp add: same_stacks_def)

lemma same_stacks_reads:
  assumes "same_stacks db db'"
  shows "GetRevision n r db' = GetRevision n r db" "GetStack n db' = GetStack n db"
    "ListRevisions n k db' = ListRevisions n k db" "ResolveConfig db' = ResolveConfig db"
  using assms
  by (auto simp: same_stacks_def GetRevision_def GetStack_def ListRevisions_def ResolveConfig_def
      GetConfig_def fun_eq_iff)

lemma runPreDeployBackup_same:
  "runPreDeployBackup eg now n r w = (x, w') \<Longrightarrow> same_stacks (wStore w) (wStore w')"
  by (auto simp: runPreDeployBackup_def CreateBackup_def FinishBackup_def same_stacks_def Let_def
      split: option.splits prod.splits)

lemma deploy_to_swarm_store: "deploy_to_swarm eg n y w = (x, w') \<Longrightarrow> wStore w' = wStore w"
  by (auto simp: deploy_to_swarm_def split: prod.splits sum.splits)

section \<open>Deploy, case by case\<close>

lemma new_revision_simps [simp]:
  "srStackName (new_revision eg ss p n r y) = n" "srRevision (new_revision eg ss p n r y) = r"
  "srSourceYAML (new_revision eg ss p n r y) = plManifest p"
  "srRenderedYAML (new_revision eg ss p n r y) = y"
  "srRenderedHash (new_revision eg ss p n r y) = egHash eg y"
  by (simp_all add: new_revision_def)

lemma NextFreeRevision_free: "NextFreeRevision n c db = Inr r \<Longrightarrow> \<not> has_revision db n r"
  using free_from_Some by (fastforce simp: NextFreeRevision_def split: option.splits)

lemma step_record_ok:
  assumes "NextFreeRevision n now db = Inr r"
  shows "\<exists>db'. RecordDeploy now (new_revision eg ss p n r y) repo db = (Inr (), db')"
  using NextFreeRevision_free [OF assms] by (simp add: RecordDeploy_def)

text \<open>The part of a deploy after the revision is recorded.\<close>

definition finish_deploy ::
  "'sw engine \<Rightarrow> int \<Rightarrow> App \<Rightarrow> string \<Rightarrow> int \<Rightarrow> 'sw World \<Rightarrow> (deploy_err + unit) \<times> 'sw World" where
  "finish_deploy eg now app y r w =
     (let (x, st) = step_deploy eg now \<lparr> pWorld = w, pApp = Some app, pRendered = y, pRevision = r \<rparr>
      in (x, pWorld st))"

lemma step_deploy_keeps:
  "step_deploy eg now st = (x, st') \<Longrightarrow>
     pApp st' = pApp st \<and> pRendered st' = pRendered st \<and> pRevision st' = pRevision st"
  by (auto simp: step_deploy_def set_world_def Let_def split: prod.splits sum.splits if_splits)

lemma Deploy_eq:
  assumes "plManifest p \<noteq> []"
  shows "Deploy eg now p w =
    (case parse_step eg p of
       Inl e \<Rightarrow> (Inl (In_Step (deploy_steps ! 0) e), w)
     | Inr app1 \<Rightarrow>
        (case prepare_step eg app1 of
           Inl e \<Rightarrow> (Inl (In_Step (deploy_steps ! 1) e), w)
         | Inr app \<Rightarrow>
            (case translate_step eg (wStore w) app of
               Inl e \<Rightarrow> (Inl (In_Step (deploy_steps ! 2) e), w)
             | Inr y \<Rightarrow>
                (case NextFreeRevision (apName app) now (wStore w) of
                   Inl e \<Rightarrow> (Inl (In_Step (deploy_steps ! 3) (Assign_Revision e)), w)
                 | Inr r \<Rightarrow>
                    (let db = snd (RecordDeploy now (new_revision eg deploy_steps p (apName app) r y)
                                (plRepoURL p) (wStore w));
                         (x, w') = finish_deploy eg now app y r (w\<lparr> wStore := db \<rparr>)
                     in case x of
                          Inl e \<Rightarrow> (Inl (In_Step (deploy_steps ! 4) e), w')
                        | Inr _ \<Rightarrow>
                            (Inr \<lparr> rsStackName = apName app, rsRevision = r, rsRenderedYAML = y,
                                   rsChanged = True \<rparr>, w'))))))"
proof -
  let ?s0 = "\<lparr> pWorld = w, pApp = None, pRendered = [], pRevision = 0 \<rparr>"
  show ?thesis
  proof (cases "parse_step eg p")
    case (Inl e)
    then show ?thesis
      using assms by (simp add: Deploy_def deploy_workflow_def Run_Add step_parse_def)
  next
    case p: (Inr app1)
    show ?thesis
    proof (cases "prepare_step eg app1")
      case (Inl e)
      then show ?thesis
        using assms p by (simp add: Deploy_def deploy_workflow_def Run_Add step_parse_def step_prepare_def)
    next
      case q: (Inr app)
      show ?thesis
      proof (cases "translate_step eg (wStore w) app")
        case (Inl e)
        then show ?thesis
          using assms p q
          by (simp add: Deploy_def deploy_workflow_def Run_Add step_parse_def step_prepare_def step_translate_def)
      next
        case t: (Inr y)
        show ?thesis
        proof (cases "NextFreeRevision (apName app) now (wStore w)")
          case (Inl e)
          then show ?thesis
            using assms p q t
            by (simp add: Deploy_def deploy_workflow_def Run_Add step_parse_def step_prepare_def
                step_translate_def step_record_def Let_def)
        next
          case (Inr r)
          obtain db where db: "RecordDeploy now (new_revision eg deploy_steps p (apName app) r y)
              (plRepoURL p) (wStore w) = (Inr (), db)"
            using step_record_ok [OF Inr] by blast
          obtain x st where st: "step_deploy eg now
              \<lparr> pWorld = w\<lparr> wStore := db \<rparr>, pApp = Some app, pRendered = y, pRevision = r \<rparr> = (x, st)"
            by (cases "step_deploy eg now
              \<lparr> pWorld = w\<lparr> wStore := db \<rparr>, pApp = Some app, pRendered = y, pRevision = r \<rparr>")
          then show ?thesis
            using assms p q t Inr db step_deploy_keeps [OF st]
            by (simp add: Deploy_def deploy_workflow_def Run_Add step_parse_def step_prepare_def
                step_translate_def step_record_def finish_deploy_def Let_def split: sum.splits)
        qed
      qed
    qed
  qed
qed

lemma finish_deploy_same:
  "finish_deploy eg now app y r w = (x, w') \<Longrightarrow> same_stacks (wStore w) (wStore w')"
  by (auto simp: finish_deploy_def step_deploy_def set_world_def Let_def same_stacks_def
      split: prod.splits sum.splits if_splits
      dest!: runPreDeployBackup_same deploy_to_swarm_store)

lemma finish_deploy_ok:
  assumes "finish_deploy eg now app y r w = (Inr (), w')"
  shows "\<exists>sw sw'. egDeployStack eg (apName app) y sw = (Inr (), sw') \<and>
    wSwarm w' = egPrune eg (apName app) ''10m'' sw'"
  using assms
  by (auto simp: finish_deploy_def step_deploy_def set_world_def deploy_to_swarm_def Let_def
      split: prod.splits sum.splits if_splits; (blast | force))

lemma Deploy_Inr:
  assumes "Deploy eg now p w = (Inr res, w')"
  obtains app1 app where "parse_step eg p = Inr app1" "prepare_step eg app1 = Inr app"
    "translate_step eg (wStore w) app = Inr (rsRenderedYAML res)"
    "NextFreeRevision (apName app) now (wStore w) = Inr (rsRevision res)"
    "rsStackName res = apName app" "rsChanged res"
    "finish_deploy eg now app (rsRenderedYAML res) (rsRevision res)
       (w\<lparr> wStore := snd (RecordDeploy now (new_revision eg deploy_steps p (apName app) (rsRevision res)
            (rsRenderedYAML res)) (plRepoURL p) (wStore w)) \<rparr>) = (Inr (), w')"
proof -
  have "plManifest p \<noteq> []" using assms by (auto simp: Deploy_def)
  from assms [unfolded Deploy_eq [OF this]] that show thesis
    by (auto simp: Let_def split: sum.splits prod.splits)
qed

section \<open>What a deploy reads back\<close>

lemma insort_key_snoc:
  "f a < f x \<Longrightarrow>
     insort_key f a (ys @ [x]) = insort_key f a ys @ [x]"
  by (induction ys) auto

lemma sort_key_snoc:
  "(\<forall>y\<in>set ys. f y < f x) \<Longrightarrow> sort_key f (ys @ [x]) = sort_key f ys @ [x]"
  by (induction ys) (auto simp: insort_key_snoc)

lemma RecordDeploy_revisions:
  "\<not> has_revision db (srStackName rv) (srRevision rv) \<Longrightarrow>
     dbRevisions (snd (RecordDeploy now rv repo db)) = dbRevisions db @ [rv\<lparr> srCreatedAt := now \<rparr>]"
  by (simp add: RecordDeploy_def insert_revision_def insert_stack_def)

lemma RecordDeploy_configs: "dbConfigs (snd (RecordDeploy now rv repo db)) = dbConfigs db"
  by (simp add: RecordDeploy_def insert_revision_def insert_stack_def)

lemma ListRevisions_latest:
  assumes "dbRevisions db' = dbRevisions db @ [rv]" "srStackName rv = n"
    and "\<forall>r\<in>set (dbRevisions db). srStackName r = n \<longrightarrow> srRevision r < srRevision rv"
  shows "ListRevisions n 1 db' = [rv]"
  using assms by (simp add: ListRevisions_def limit_rows_def sort_key_snoc)

lemma retranslate_deployed:
  assumes "parse_step eg p = Inr app1" "prepare_step eg app1 = Inr app"
    and "translate_step eg db app = Inr y" "plAppName p \<noteq> []" "plVersion p = []"
    and "dbConfigs db' = dbConfigs db"
    and "Interpolate (egGetenv eg) so app1 = Interpolate (egGetenv eg) (egMapOrder eg) app1"
  shows "retranslate (eg\<lparr> egMapOrder := mo, egSyncOrder := so \<rparr>) db' (plAppName p) (plManifest p) = Inr y"
proof -
  obtain a where a: "egParse eg (plManifest p) = Inr a" "app1 = a\<lparr> apName := plAppName p \<rparr>"
    using assms(1,4,5) by (auto simp: parse_step_def split: sum.splits)
  have "ResolveConfig db' = ResolveConfig db"
    using assms(6) by (simp add: ResolveConfig_def GetConfig_def fun_eq_iff)
  then have "translate_step (eg\<lparr> egMapOrder := mo, egSyncOrder := so \<rparr>) db' app = translate_step eg db app"
    by (simp add: translate_step_def resolver_of_def)
  moreover have "prepare_under so (eg\<lparr> egMapOrder := mo, egSyncOrder := so \<rparr>) app1 = prepare_step eg app1"
    using assms(7) by (simp add: prepare_step_def prepare_under_def)
  ultimately show ?thesis using a assms by (simp add: retranslate_def)
qed

lemma Interpolate_name: "Interpolate ge ord app = Inr app' \<Longrightarrow> apName app' = apName app"
  by (auto simp: Interpolate_def bind_r_def Let_def split: sum.splits)

lemma prepare_step_name: "prepare_step eg app1 = Inr app \<Longrightarrow> apName app = apName app1"
  by (auto simp: prepare_step_def prepare_under_def split: sum.splits dest: Interpolate_name)

lemma parse_step_name:
  "parse_step eg p = Inr app1 \<Longrightarrow> plAppName p \<noteq> [] \<Longrightarrow> apName app1 = plAppName p"
  by (auto simp: parse_step_def Let_def split: sum.splits if_splits)


text \<open>The store after the recording step.\<close>

definition recorded ::
  "'sw engine \<Rightarrow> int \<Rightarrow> Payload \<Rightarrow> string \<Rightarrow> int \<Rightarrow> string \<Rightarrow> Store \<Rightarrow> Store" where
  "recorded eg now p name r y db =
     snd (RecordDeploy now (new_revision eg deploy_steps p name r y) (plRepoURL p) db)"

lemma recorded_reads:
  assumes "\<not> has_revision db n r"
  shows "GetRevision n r (recorded eg now p n r y db) = Inr ((new_revision eg deploy_steps p n r y)\<lparr> srCreatedAt := now \<rparr>)"
    and "\<exists>st. GetStack n (recorded eg now p n r y db) = Inr st \<and> stCurrentRevision st = r"
    and "(n', r') \<noteq> (n, r) \<Longrightarrow> GetRevision n' r' (recorded eg now p n r y db) = GetRevision n' r' db"
    and "n' \<noteq> n \<Longrightarrow> GetStack n' (recorded eg now p n r y db) = GetStack n' db"
proof -
  let ?rv = "new_revision eg deploy_steps p n r y"
  have f: "\<not> has_revision db (srStackName ?rv) (srRevision ?rv)" using assms by simp
  show "GetRevision n r (recorded eg now p n r y db) = Inr (?rv\<lparr> srCreatedAt := now \<rparr>)"
    "\<exists>st. GetStack n (recorded eg now p n r y db) = Inr st \<and> stCurrentRevision st = r"
    "(n', r') \<noteq> (n, r) \<Longrightarrow> GetRevision n' r' (recorded eg now p n r y db) = GetRevision n' r' db"
    "n' \<noteq> n \<Longrightarrow> GetStack n' (recorded eg now p n r y db) = GetStack n' db"
    using RecordDeploy_reads [OF f, where now = now and repo = "plRepoURL p"] by (auto simp: recorded_def)
qed

lemma prepare_step_valid: "prepare_step eg app1 = Inr app \<Longrightarrow> Validate app = Inr ()"
  by (auto simp: prepare_step_def prepare_under_def split: sum.splits)

lemma finish_deploy_error:
  assumes "finish_deploy eg now app y r w = (Inl e, w')"
  shows "(\<exists>d. e = Docker_Deploy d) \<or> apStrictBackup app \<and> apBackupBeforeDeploy app \<and>
    (\<exists>d. e = Strict_Backup d) \<and> (egBackup eg = None \<longrightarrow> wSwarm w' = wSwarm w)"
  using assms
  by (auto simp: finish_deploy_def step_deploy_def set_world_def deploy_to_swarm_def Let_def
      runPreDeployBackup_def split: prod.splits sum.splits if_splits option.splits)

lemma Deploy_Inl:
  assumes "Deploy eg now p w = (Inl e, w')" "w' \<noteq> w"
  obtains app1 app y r e' where "parse_step eg p = Inr app1" "prepare_step eg app1 = Inr app"
    "translate_step eg (wStore w) app = Inr y"
    "NextFreeRevision (apName app) now (wStore w) = Inr r" "e = In_Step (deploy_steps ! 4) e'"
    "finish_deploy eg now app y r (w\<lparr> wStore := recorded eg now p (apName app) r y (wStore w) \<rparr>)
       = (Inl e', w')"
proof -
  have "plManifest p \<noteq> []" using assms by (auto simp: Deploy_def)
  from assms [unfolded Deploy_eq [OF this]] that show thesis
    by (auto simp: Let_def recorded_def split: sum.splits prod.splits)
qed

section \<open>A small deployment\<close>

definition tiny_svc :: Service where
  "tiny_svc = \<lparr> svImage = ''i'', svReplicas = None, svRunOnce = False, svSkipFilelog = False,
     svPlacement = [], svCommand = [], svEntrypoint = [], svEnv = [], svVolumes = [], svSecrets = [],
     svExpose = None, svHealthcheck = None, svUpdate = None \<rparr>"

definition tiny_app :: App where
  "tiny_app = \<lparr> apName = ''web'', apEnv = ''p'', apDomain = ''d'', apVersion = ''1'',
     apRegistry = [], apRepoURL = [], apEnvFile = [], apSecrets = [],
     apServices = [(''api'', Some tiny_svc)], apBackupBeforeDeploy = False, apStrictBackup = False \<rparr>"

text \<open>A swarm that records the stacks it is given and refuses the first one.\<close>

definition tiny_engine :: "(string \<times> string) list option engine" where
  "tiny_engine = \<lparr> egParse = (\<lambda>_. Inr tiny_app), egGetenv = (\<lambda>_. None), egMapOrder = (\<lambda>_ bs. bs), egSyncOrder = (\<lambda>_. rev),
     egMarshal = (\<lambda>_. Inr ''3.9''), egHash = (\<lambda>y. CHR ''h'' # y), egEnvelope = (\<lambda>_ _. []),
     egRollbackMarker = (\<lambda>_ _. []), egUnmarshalEnvelope = (\<lambda>_. None),
     egUnmarshalPayload = (\<lambda>_. None), egHasPayloadKey = (\<lambda>_. False),
     egDeployStack = (\<lambda>n y sw. case sw of None \<Rightarrow> (Inl ''refused'', Some [])
        | Some ds \<Rightarrow> (Inr (), Some (ds @ [(n, y)]))),
     egPrune = (\<lambda>_ _ sw. sw), egRemoveStack = (\<lambda>_ _. (Inr (), Some [])), egDocker = False,
     egStackSecretNames = (\<lambda>_ _. Inr []), egVolumeList = (\<lambda>_ _. Inr []),
     egVolumeRemove = (\<lambda>_ sw. sw), egSecretRemove = (\<lambda>_ sw. sw), egBackup = None,
     egResolver = False, egVolumeRoot = [] \<rparr>"

definition tiny_world :: "(string \<times> string) list option \<Rightarrow> (string \<times> string) list option World" where
  "tiny_world sw = \<lparr> wStore = empty_store, wSwarm = sw \<rparr>"

definition tiny_payload :: Payload where
  "tiny_payload = zero_payload\<lparr> plAppName := ''web'', plManifest := ''m'' \<rparr>"

lemma free_from_first: "\<not> used c \<Longrightarrow> 0 < n \<Longrightarrow> free_from used c n = Some c"
  by (cases n) auto

lemma tiny_prepare: "prepare_step tiny_engine tiny_app = Inr tiny_app"
  by code_simp

lemma tiny_translate: "translate_step tiny_engine db tiny_app = Inr ''3.9''"
  by (simp add: translate_step_def tiny_engine_def tiny_app_def tiny_svc_def TranslateIR_def BuildIR_def
      translateService_def resolveServiceEnv_def resolver_of_def Write_def compose_document_def)


lemma tiny_next: "NextFreeRevision n 5 empty_store = Inr 5"
  by (simp add: NextFreeRevision_def free_from_first has_revision_iff empty_store_def)

lemma tiny_parse: "parse_step tiny_engine tiny_payload = Inr tiny_app"
  by (simp add: parse_step_def tiny_engine_def tiny_payload_def zero_payload_def tiny_app_def)

lemma tiny_flags [simp]: "apName tiny_app = ''web''" "\<not> apBackupBeforeDeploy tiny_app" "plManifest tiny_payload = ''m''"
  by (simp_all add: tiny_app_def tiny_payload_def zero_payload_def)

lemma tiny_swarm:
  "egDeployStack tiny_engine n y None = (Inl ''refused'', Some [])"
  "egDeployStack tiny_engine n y (Some ds) = (Inr (), Some (ds @ [(n, y)]))"
  "egPrune tiny_engine n t sw = sw"
  "wStore (tiny_world sw) = empty_store" "wSwarm (tiny_world sw) = sw"
  "(tiny_world sw)\<lparr> wStore := db \<rparr> = \<lparr> wStore = db, wSwarm = sw \<rparr>"
  by (simp_all add: tiny_engine_def tiny_world_def)

lemma deploy_step_4: "deploy_steps ! 4 = ''Deploying stack to the swarm''"
  by (simp add: deploy_steps_def)

lemma tiny_deploy:
  "Deploy tiny_engine 5 tiny_payload (tiny_world sw) =
     (case sw of
        None \<Rightarrow> (Inl (In_Step ''Deploying stack to the swarm'' (Docker_Deploy ''refused'')),
          \<lparr> wStore = recorded tiny_engine 5 tiny_payload ''web'' 5 ''3.9'' empty_store, wSwarm = Some [] \<rparr>)
      | Some ds \<Rightarrow> (Inr \<lparr> rsStackName = ''web'', rsRevision = 5, rsRenderedYAML = ''3.9'', rsChanged = True \<rparr>,
          \<lparr> wStore = recorded tiny_engine 5 tiny_payload ''web'' 5 ''3.9'' empty_store,
            wSwarm = Some (ds @ [(''web'', ''3.9'')]) \<rparr>))"
  by (simp add: Deploy_eq tiny_parse tiny_prepare tiny_translate tiny_next finish_deploy_def step_deploy_def
      deploy_to_swarm_def set_world_def Let_def recorded_def tiny_swarm deploy_step_4
      split: option.splits)

lemma tiny_hash: "egHash tiny_engine y = CHR ''h'' # y"
  by (simp add: tiny_engine_def)

lemma tiny_free: "\<not> has_revision empty_store n r"
  by (simp add: has_revision_iff empty_store_def)

lemmas tiny_reads = recorded_reads [OF tiny_free [of "''web''" 5], where eg = tiny_engine and
    p = tiny_payload and now = 5 and y = "''3.9''"]

lemma tiny_stored:
  "GetRevision ''web'' 5 (wStore (snd (Deploy tiny_engine 5 tiny_payload (tiny_world (Some []))))) =
     Inr ((new_revision tiny_engine deploy_steps tiny_payload ''web'' 5 ''3.9'')\<lparr> srCreatedAt := 5 \<rparr>)"
  by (simp add: tiny_deploy tiny_reads)

lemma tiny_next_6: "NextFreeRevision ''web'' 6 (recorded tiny_engine 5 tiny_payload ''web'' 5 ''3.9'' empty_store) = Inr 6"
proof -
  have "GetRevision ''web'' 6 (recorded tiny_engine 5 tiny_payload ''web'' 5 ''3.9'' empty_store) = Inl ErrRevisionNotFound"
    by (simp add: tiny_reads) (simp add: GetRevision_def empty_store_def row_find_def)
  then have "\<not> has_revision (recorded tiny_engine 5 tiny_payload ''web'' 5 ''3.9'' empty_store) ''web'' 6"
    by (auto simp: has_revision_def GetRevision_def split: option.splits)
  then show ?thesis by (simp add: NextFreeRevision_def free_from_first)
qed

lemma tiny_rollback:
  "fst (Rollback tiny_engine 6 ''web'' 5 (snd (Deploy tiny_engine 5 tiny_payload (tiny_world (Some []))))) =
     Inr \<lparr> rsStackName = ''web'', rsRevision = 6, rsRenderedYAML = ''3.9'', rsChanged = True \<rparr>"
proof -
  let ?w = "snd (Deploy tiny_engine 5 tiny_payload (tiny_world (Some [])))"
  have next6: "NextFreeRevision ''web'' 6 (wStore ?w) = Inr 6" by (simp add: tiny_deploy tiny_next_6)
  have "\<exists>db'. RecordDeploy 6 (rollback_revision tiny_engine ''web'' 5 6 row) [] (wStore ?w) = (Inr (), db')" for row
    using NextFreeRevision_free [OF next6] by (simp add: RecordDeploy_def rollback_revision_def)
  then obtain db' where "RecordDeploy 6 (rollback_revision tiny_engine ''web'' 5 6
      ((new_revision tiny_engine deploy_steps tiny_payload ''web'' 5 ''3.9'')\<lparr> srCreatedAt := 5 \<rparr>)) [] (wStore ?w) = (Inr (), db')"
    by blast
  moreover have "wSwarm ?w = Some [(''web'', ''3.9'')]" by (simp add: tiny_deploy)
  moreover have "egDeployStack tiny_engine n y (Some ds) = (Inr (), Some (ds @ [(n, y)]))" for n y ds
    by (simp add: tiny_engine_def)
  ultimately show ?thesis
    by (simp add: Rollback_def Run_Add rb_load_def rb_record_def rb_deploy_def tiny_stored next6 Let_def)
qed

lemma tiny_undeploy:
  "fst (Undeploy tiny_engine ''web'' (snd (Deploy tiny_engine 5 tiny_payload (tiny_world (Some []))))) = Inr ()"
proof -
  let ?w = "snd (Deploy tiny_engine 5 tiny_payload (tiny_world (Some [])))"
  obtain st where st: "GetStack ''web'' (wStore ?w) = Inr st" using tiny_reads(2) by (auto simp: tiny_deploy)
  then have "fst (DeleteStack ''web'' (wStore ?w)) = Inr ()"
    by (auto simp: GetStack_def DeleteStack_def Let_def eff_simps split: option.splits)
  then obtain db where "DeleteStack ''web'' (wStore ?w) = (Inr (), db)"
    by (cases "DeleteStack ''web'' (wStore ?w)") auto
  moreover have "egDocker tiny_engine = False" "egRemoveStack tiny_engine n sw = (Inr (), Some [])" for n sw
    by (simp_all add: tiny_engine_def)
  ultimately show ?thesis
    by (simp add: Undeploy_def st Run_Add ud_collect_def ud_remove_def ud_delete_def)
qed

section \<open>Properties\<close>

text \<open>Property C3.  A deploy that fails before the swarm step leaves the store and the swarm as
  they were.  If it changed anything, the failure is that of the swarm step: the manifest had
  been parsed, interpolated, validated and translated, its revision is in the store as the
  stack's current one, and the error is Docker's or, with a strict backup, the backup's.\<close>

theorem failed_deploy_effect:
  assumes "Deploy eg now p w = (Inl e, w')"
  shows "w' = w \<or>
    (\<exists>app r e' st. e = In_Step ''Deploying stack to the swarm'' e' \<and> Validate app = Inr () \<and>
       ((\<exists>d. e' = Docker_Deploy d) \<or> apStrictBackup app \<and> apBackupBeforeDeploy app \<and> (\<exists>d. e' = Strict_Backup d)) \<and>
       NextFreeRevision (apName app) now (wStore w) = Inr r \<and>
       GetStack (apName app) (wStore w') = Inr st \<and> stCurrentRevision st = r \<and>
       (\<exists>rv. GetRevision (apName app) r (wStore w') = Inr rv \<and> srSourceYAML rv = plManifest p))"
proof (cases "w' = w")
  case False
  from assms this show ?thesis
  proof (rule Deploy_Inl)
    fix app1 app y r e'
    assume d: "prepare_step eg app1 = Inr app" "NextFreeRevision (apName app) now (wStore w) = Inr r"
      "e = In_Step (deploy_steps ! 4) e'"
      and f: "finish_deploy eg now app y r
        (w\<lparr> wStore := recorded eg now p (apName app) r y (wStore w) \<rparr>) = (Inl e', w')"
    show ?thesis
      using d finish_deploy_error [OF f]
        recorded_reads [OF NextFreeRevision_free [OF d(2)], where eg = eg and p = p and y = y and now = now]
        same_stacks_reads [OF finish_deploy_same [OF f]] prepare_step_valid [OF d(1)]
      by (auto simp: deploy_steps_def)
  qed
qed simp

theorem failed_deploy_effect_witness:
  "\<exists>n st. GetStack n (wStore (snd (Deploy tiny_engine 5 tiny_payload (tiny_world None)))) = Inr st \<and>
     stCurrentRevision st = 5"
proof -
  obtain e w' where d: "Deploy tiny_engine 5 tiny_payload (tiny_world None) = (Inl e, w')" "w' \<noteq> tiny_world None"
    using tiny_deploy [of None] by (auto simp: tiny_world_def)
  from failed_deploy_effect [OF d(1)] d show ?thesis by (auto simp: tiny_next tiny_swarm)
qed

text \<open>Property C2.  A deploy that succeeds recorded a revision number the stack had not used, made
  it current with the manifest, the rendered document and its hash, and handed exactly that
  document to the swarm; the manifest passed validation, and no other stack or revision was
  touched.\<close>

theorem successful_deploy_effect:
  assumes "Deploy eg now p w = (Inr res, w')"
  defines "n \<equiv> rsStackName res" and "r \<equiv> rsRevision res"
  shows "now \<le> r \<and> \<not> has_revision (wStore w) n r \<and>
    (\<exists>app. apName app = n \<and> Validate app = Inr () \<and>
       translate_step eg (wStore w) app = Inr (rsRenderedYAML res)) \<and>
    (\<exists>rv. GetRevision n r (wStore w') = Inr rv \<and> srSourceYAML rv = plManifest p \<and>
       srRenderedYAML rv = rsRenderedYAML res \<and> srRenderedHash rv = egHash eg (rsRenderedYAML res)) \<and>
    (\<exists>st. GetStack n (wStore w') = Inr st \<and> stCurrentRevision st = r) \<and>
    (\<exists>sw sw'. egDeployStack eg n (rsRenderedYAML res) sw = (Inr (), sw') \<and>
       wSwarm w' = egPrune eg n ''10m'' sw') \<and>
    (\<forall>n' r'. (n', r') \<noteq> (n, r) \<longrightarrow> GetRevision n' r' (wStore w') = GetRevision n' r' (wStore w)) \<and>
    (\<forall>n'. n' \<noteq> n \<longrightarrow> GetStack n' (wStore w') = GetStack n' (wStore w))"
  using assms(1)
proof (rule Deploy_Inr)
  fix app1 app
  assume d: "prepare_step eg app1 = Inr app" "rsStackName res = apName app"
    "translate_step eg (wStore w) app = Inr (rsRenderedYAML res)"
    and next_r: "NextFreeRevision (apName app) now (wStore w) = Inr (rsRevision res)"
    and f: "finish_deploy eg now app (rsRenderedYAML res) (rsRevision res)
       (w\<lparr> wStore := snd (RecordDeploy now (new_revision eg deploy_steps p (apName app) (rsRevision res)
            (rsRenderedYAML res)) (plRepoURL p) (wStore w)) \<rparr>) = (Inr (), w')"
  have free: "\<not> has_revision (wStore w) n r"
    using NextFreeRevision_free [OF next_r] by (simp add: n_def r_def d)
  note reads = recorded_reads [OF free, where eg = eg and p = p and y = "rsRenderedYAML res" and now = now]
  note same = same_stacks_reads [OF finish_deploy_same [OF f]]
  have "now \<le> r"
    using next_r by (auto simp: NextFreeRevision_def r_def dest: free_from_Some split: option.splits)
  moreover have "\<exists>app. apName app = n \<and> Validate app = Inr () \<and>
       translate_step eg (wStore w) app = Inr (rsRenderedYAML res)"
    using d prepare_step_valid by (auto simp: n_def)
  moreover have "\<exists>sw sw'. egDeployStack eg n (rsRenderedYAML res) sw = (Inr (), sw') \<and>
       wSwarm w' = egPrune eg n ''10m'' sw'"
    using finish_deploy_ok [OF f] by (simp add: n_def d)
  moreover have rec: "GetRevision n' r' (wStore w') = GetRevision n' r' (recorded eg now p n r (rsRenderedYAML res) (wStore w))"
      "GetStack n' (wStore w') = GetStack n' (recorded eg now p n r (rsRenderedYAML res) (wStore w))" for n' r'
    using same by (simp_all add: recorded_def n_def r_def d)
  ultimately show ?thesis
    using free reads by (simp add: rec)
qed

theorem successful_deploy_effect_witness:
  "\<exists>rv. GetRevision ''web'' 5 (wStore (snd (Deploy tiny_engine 5 tiny_payload (tiny_world (Some []))))) = Inr rv \<and>
     srSourceYAML rv = ''m'' \<and> srRenderedHash rv = ''h3.9''"
proof -
  let ?res = "\<lparr> rsStackName = ''web'', rsRevision = 5, rsRenderedYAML = ''3.9'', rsChanged = True \<rparr>"
  obtain w' where d: "Deploy tiny_engine 5 tiny_payload (tiny_world (Some [])) = (Inr ?res, w')"
    by (simp add: tiny_deploy)
  from successful_deploy_effect [OF d] show ?thesis by (auto simp: d tiny_hash)
qed

text \<open>Property C4.  A swarm failure is not retried by a sync: the revision is recorded before
  the stack is handed to Docker, so a sync after the failed deploy finds its own rendered
  document on record, reports success with nothing changed and does not call Docker.  The deploy
  is one that names the application and overrides no version, at a time later than the numbers of
  the earlier revisions.  Go ranges over the placeholder map in a new order in each call; the sync
  runs under orders of its own, which are only asked to interpolate this manifest like that of the
  deploy.\<close>

theorem failed_deploy_blocks_sync:
  assumes "Deploy eg now p w = (Inl (In_Step ''Deploying stack to the swarm'' (Docker_Deploy e)), w')"
    and "plAppName p \<noteq> []" "plVersion p = []" "\<forall>y. egHash eg y \<noteq> []"
    and "\<forall>rv\<in>set (dbRevisions (wStore w)). srRevision rv < now"
    and "\<And>app1. parse_step eg p = Inr app1 \<Longrightarrow>
      Interpolate (egGetenv eg) syncOrder app1 = Interpolate (egGetenv eg) (egMapOrder eg) app1"
  shows "\<exists>res. Sync (eg\<lparr> egMapOrder := mapOrder, egSyncOrder := syncOrder \<rparr>) now' (plAppName p) w' = (Inr res, w') \<and>
    \<not> rsChanged res"
proof -
  have "plManifest p \<noteq> []" using assms(1) by (auto simp: Deploy_def)
  from assms(1) [unfolded Deploy_eq [OF this]] obtain app1 app y r
    where d: "parse_step eg p = Inr app1" "prepare_step eg app1 = Inr app"
      "translate_step eg (wStore w) app = Inr y"
      and next_r: "NextFreeRevision (apName app) now (wStore w) = Inr r"
      and f: "finish_deploy eg now app y r (w\<lparr> wStore := recorded eg now p (apName app) r y (wStore w) \<rparr>)
        = (Inl (Docker_Deploy e), w')"
    by (auto simp: Let_def recorded_def deploy_steps_def split: sum.splits prod.splits)
  have name: "apName app = plAppName p"
    using d(1,2) assms(2) parse_step_name prepare_step_name by metis
  note same = finish_deploy_same [OF f]
  let ?rv = "new_revision eg deploy_steps p (apName app) r y"
  have free: "\<not> has_revision (wStore w) (srStackName ?rv) (srRevision ?rv)"
    using NextFreeRevision_free [OF next_r] by simp
  have "now \<le> r"
    using next_r by (auto simp: NextFreeRevision_def dest: free_from_Some split: option.splits)
  then have "ListRevisions (plAppName p) 1 (wStore w') = [?rv\<lparr> srCreatedAt := now \<rparr>]"
    using assms(5) same RecordDeploy_revisions [OF free, of now "plRepoURL p"]
    by (intro ListRevisions_latest [of _ "wStore w"]) (auto simp: same_stacks_def recorded_def name)
  moreover have "retranslate (eg\<lparr> egMapOrder := mapOrder, egSyncOrder := syncOrder \<rparr>)
      (wStore w') (plAppName p) (plManifest p) = Inr y"
    using same by (intro retranslate_deployed [OF d assms(2,3) _ assms(6) [OF d(1)]])
      (simp add: same_stacks_def recorded_def RecordDeploy_configs)
  ultimately show ?thesis
    using assms(4) by (simp add: Sync_def)
qed

theorem failed_deploy_blocks_sync_witness:
  "\<exists>w' res. Deploy tiny_engine 5 tiny_payload (tiny_world None) =
       (Inl (In_Step ''Deploying stack to the swarm'' (Docker_Deploy ''refused'')), w') \<and>
     Sync (tiny_engine\<lparr> egMapOrder := \<lambda>_. rev, egSyncOrder := \<lambda>_. rev \<rparr>) 9 ''web'' w' = (Inr res, w') \<and>
     \<not> rsChanged res \<and> wSwarm w' = Some []"
proof -
  obtain w' where d: "Deploy tiny_engine 5 tiny_payload (tiny_world None) =
      (Inl (In_Step ''Deploying stack to the swarm'' (Docker_Deploy ''refused'')), w')" "wSwarm w' = Some []"
    by (simp add: tiny_deploy)
  have h: "plAppName tiny_payload \<noteq> []" "plVersion tiny_payload = []" "\<forall>y. egHash tiny_engine y \<noteq> []"
    "\<forall>rv\<in>set (dbRevisions (wStore (tiny_world None))). srRevision rv < 5"
    by (simp_all add: tiny_payload_def zero_payload_def tiny_hash tiny_world_def empty_store_def)
  have "Interpolate (egGetenv tiny_engine) (\<lambda>_. rev) tiny_app = Interpolate (egGetenv tiny_engine) (egMapOrder tiny_engine) tiny_app"
    by code_simp
  then have "Interpolate (egGetenv tiny_engine) (\<lambda>_. rev) app1 = Interpolate (egGetenv tiny_engine) (egMapOrder tiny_engine) app1"
    if "parse_step tiny_engine tiny_payload = Inr app1" for app1
    using that by (simp add: tiny_parse)
  from failed_deploy_blocks_sync [OF d(1) h this, of "\<lambda>_. rev" 9] d show ?thesis
    by (auto simp: tiny_payload_def zero_payload_def)
qed


text \<open>Property C9.  A rollback to an unknown revision changes nothing.  One that succeeds hands the
  stored document of the source revision to the swarm, unchanged, and records it under a new
  number that becomes current; the source revision stays in the history.\<close>

theorem rollback_effect:
  assumes "Rollback eg now n src w = (x, w')"
  shows "(\<not> has_revision (wStore w) n src \<longrightarrow> w' = w \<and> \<not> is_ok x) \<and>
    (\<forall>res. x = Inr res \<longrightarrow>
      (\<exists>row rv st. GetRevision n src (wStore w) = Inr row \<and>
         egDeployStack eg n (srRenderedYAML row) (wSwarm w) = (Inr (), wSwarm w') \<and>
         \<not> has_revision (wStore w) n (rsRevision res) \<and>
         GetRevision n (rsRevision res) (wStore w') = Inr rv \<and>
         srSourceYAML rv = srSourceYAML row \<and> srRenderedYAML rv = srRenderedYAML row \<and>
         srRenderedHash rv = srRenderedHash row \<and>
         GetRevision n src (wStore w') = Inr row \<and>
         GetStack n (wStore w') = Inr st \<and> stCurrentRevision st = rsRevision res))"
proof (cases "GetRevision n src (wStore w)")
  case (Inl err)
  then have "\<not> has_revision (wStore w) n src"
    by (auto simp: GetRevision_def has_revision_def split: option.splits)
  then show ?thesis
    using assms Inl by (auto simp: Rollback_def Run_Add rb_load_def)
next
  case (Inr row)
  then have has: "has_revision (wStore w) n src"
    by (auto simp: GetRevision_def has_revision_def split: option.splits)
  show ?thesis
  proof (cases "NextFreeRevision n now (wStore w)")
    case (Inl err)
    then show ?thesis using assms Inr has by (auto simp: Rollback_def Run_Add rb_load_def rb_record_def)
  next
    case (Inr r)
    let ?rv = "rollback_revision eg n src r row"
    have rv: "srStackName ?rv = n" "srRevision ?rv = r" by (simp_all add: rollback_revision_def)
    have free: "\<not> has_revision (wStore w) (srStackName ?rv) (srRevision ?rv)"
      using NextFreeRevision_free [OF Inr] by (simp add: rv)
    note reads = RecordDeploy_reads [OF free, where now = now and repo = "[]"]
    obtain db where db: "RecordDeploy now ?rv [] (wStore w) = (Inr (), db)"
      using reads(1) by (cases "RecordDeploy now ?rv [] (wStore w)") auto
    have ne: "src \<noteq> r" using has free rv by auto
    have run: "(x, w') = (case egDeployStack eg n (srRenderedYAML row) (wSwarm w) of
        (Inl e, sw') \<Rightarrow> (Inl (In_Step ''Re-deploying stack from stored YAML'' (Docker_Deploy e)),
            w\<lparr> wStore := db, wSwarm := sw' \<rparr>)
      | (Inr _, sw') \<Rightarrow> (Inr \<lparr> rsStackName = n, rsRevision = r, rsRenderedYAML = srRenderedYAML row,
            rsChanged = True \<rparr>, w\<lparr> wStore := db, wSwarm := sw' \<rparr>))"
      using assms \<open>GetRevision n src (wStore w) = Inr row\<close> Inr db
      by (auto simp: Rollback_def Run_Add rb_load_def rb_record_def rb_deploy_def Let_def
          split: prod.splits sum.splits)
    have "GetRevision n r db = Inr (?rv\<lparr> srCreatedAt := now \<rparr>)" "GetRevision n src db = Inr row"
      "\<exists>st. GetStack n db = Inr st \<and> stCurrentRevision st = r"
      using reads(2) [of n r] reads(2) [of n src] reads(4) db rv ne \<open>GetRevision n src (wStore w) = Inr row\<close>
      by auto
    then show ?thesis
      using run has free rv \<open>GetRevision n src (wStore w) = Inr row\<close>
      by (auto simp: rollback_revision_def split: prod.splits sum.splits)
  qed
qed

theorem rollback_effect_witness:
  "\<exists>rv. GetRevision ''web'' 6 (wStore (snd (Rollback tiny_engine 6 ''web'' 5
       (snd (Deploy tiny_engine 5 tiny_payload (tiny_world (Some []))))))) = Inr rv \<and>
     srRenderedYAML rv = ''3.9''"
proof -
  let ?w = "snd (Deploy tiny_engine 5 tiny_payload (tiny_world (Some [])))"
  obtain x w' where r: "Rollback tiny_engine 6 ''web'' 5 ?w = (x, w')" by fastforce
  have x: "x = Inr \<lparr> rsStackName = ''web'', rsRevision = 6, rsRenderedYAML = ''3.9'', rsChanged = True \<rparr>"
    using r tiny_rollback by (metis fst_conv)
  from rollback_effect [OF r] x show ?thesis by (auto simp: r tiny_stored)
qed

lemma ud_collect_world: "ud_collect eg n st = (r, st') \<Longrightarrow> udWorld st' = udWorld st"
  by (auto simp: ud_collect_def split: if_splits sum.splits)

lemma ud_remove_world:
  "ud_remove eg n st = (r, st') \<Longrightarrow> wStore (udWorld st') = wStore (udWorld st) \<and>
     (is_ok r \<longrightarrow> (\<exists>sw. egRemoveStack eg n (wSwarm (udWorld st)) = (Inr (), sw)))"
  by (auto simp: ud_remove_def Let_def is_ok_iff split: prod.splits sum.splits)

text \<open>Property C10.  An undeploy is all or nothing on the store: an unknown stack is refused before
  anything is touched, any failure leaves the store as it was, and a success leaves no row of
  the stack behind, after Docker removed it; rows of other stacks are kept.\<close>

theorem undeploy_effect:
  assumes "Undeploy eg n w = (x, w')" "stacks_inv (wStore w)"
  shows "(\<not> is_ok (GetStack n (wStore w)) \<longrightarrow> w' = w \<and> \<not> is_ok x) \<and>
    (\<not> is_ok x \<longrightarrow> wStore w' = wStore w) \<and>
    (is_ok x \<longrightarrow>
       (\<exists>sw. egRemoveStack eg n (wSwarm w) = (Inr (), sw)) \<and>
       wStore w' = snd (DeleteStack n (wStore w)) \<and> \<not> is_ok (GetStack n (wStore w')) \<and>
       (\<forall>r. \<not> has_revision (wStore w') n r) \<and>
       (\<forall>m. m \<noteq> n \<longrightarrow> GetStack m (wStore w') = GetStack m (wStore w)))"
proof (cases "GetStack n (wStore w)")
  case (Inl err)
  then show ?thesis using assms by (auto simp: Undeploy_def is_ok_iff)
next
  case (Inr st)
  then have "fst (DeleteStack n (wStore w)) = Inr ()"
    by (auto simp: GetStack_def DeleteStack_def Let_def eff_simps split: option.splits)
  then obtain db where del: "DeleteStack n (wStore w) = (Inr (), db)"
    by (cases "DeleteStack n (wStore w)") auto
  have gone: "\<not> is_ok (GetStack n (snd (DeleteStack n (wStore w))))"
    "\<not> has_revision (snd (DeleteStack n (wStore w))) n r"
    "m \<noteq> n \<Longrightarrow> GetStack m (snd (DeleteStack n (wStore w))) = GetStack m (wStore w)" for r m
    using Inr
    by (auto simp: DeleteStack_def Let_def eff_simps GetStack_def tbl_simps has_revision_iff is_ok_iff
        split: option.splits)
  let ?s0 = "\<lparr> udWorld = w, udVolumes = [], udSecretNames = [] \<rparr>"
  obtain r1 s1 where s1: "ud_collect eg n ?s0 = (r1, s1)" by fastforce
  obtain r2 s2 where s2: "ud_remove eg n s1 = (r2, s2)" by fastforce
  note same = ud_collect_world [OF s1] ud_remove_world [OF s2]
  have "(\<exists>e. x = Inl e) \<and> wStore w' = wStore w \<or>
      x = Inr () \<and> (\<exists>sw. egRemoveStack eg n (wSwarm w) = (Inr (), sw)) \<and>
      wStore w' = snd (DeleteStack n (wStore w))"
    using assms(1) Inr same
    by (simp add: Undeploy_def Run_Add s1 s2 ud_delete_def del split: sum.splits)
      (auto simp: is_ok_iff)
  then show ?thesis using gone Inr by (auto simp: is_ok_iff)
qed

theorem undeploy_effect_witness:
  "GetStack ''web'' (wStore (snd (Undeploy tiny_engine ''web''
      (snd (Deploy tiny_engine 5 tiny_payload (tiny_world (Some []))))))) = Inl ErrStackNotFound"
proof -
  let ?w = "snd (Deploy tiny_engine 5 tiny_payload (tiny_world (Some [])))"
  obtain x w' where u: "Undeploy tiny_engine ''web'' ?w = (x, w')" by fastforce
  have x: "x = Inr ()" using u tiny_undeploy by (metis fst_conv)
  have "stacks_inv (wStore ?w)"
    using RecordDeploy_inv [OF empty_stacks_inv] by (simp add: tiny_deploy recorded_def)
  from undeploy_effect [OF u this] x show ?thesis
    by (auto simp: u is_ok_iff GetStack_def split: option.splits)
qed

end
