(* ===== verification/Stacks_Http.thy ===== *)
theory Stacks_Http
  imports Webhook_Receiver Stacks_Properties
begin

text \<open>
  The stacks bounded context towards its clients: the read adapter that maps store rows to the
  domain's models (\<^verbatim>\<open>internal/stacks/local.go\<close>) and the REST handlers (\<^verbatim>\<open>http.go\<close>), which turn the
  errors of the engine into statuses.  A request body is the decoder's answer.
\<close>

section \<open>The read side\<close>

record StackInfo =
  siName :: string
  siCurrentRevision :: int
  siRepoURL :: string
  siSourceFile :: string
  siCreatedAt :: int
  siUpdatedAt :: int

record Revision =
  rvStackName :: string
  rvRevision :: int
  rvSourceYAML :: string
  rvRenderedYAML :: string
  rvPayloadJSON :: string
  rvCreatedAt :: int

definition stackFromRow :: "Stack \<Rightarrow> StackInfo" where
  "stackFromRow row =
     \<lparr> siName = stName row, siCurrentRevision = stCurrentRevision row,
       siRepoURL = (case stRepoURL row of Some u \<Rightarrow> u | None \<Rightarrow> []),
       siSourceFile = stSourceFile row, siCreatedAt = stCreatedAt row, siUpdatedAt = stUpdatedAt row \<rparr>"

definition revisionFromRow :: "StackRevision \<Rightarrow> Revision" where
  "revisionFromRow row =
     \<lparr> rvStackName = srStackName row, rvRevision = srRevision row, rvSourceYAML = srSourceYAML row,
       rvRenderedYAML = srRenderedYAML row,
       rvPayloadJSON = (case srPayloadJSON row of Some j \<Rightarrow> j | None \<Rightarrow> []),
       rvCreatedAt = srCreatedAt row \<rparr>"

definition Local_Get :: "string \<Rightarrow> Store \<Rightarrow> store_err + StackInfo" where
  "Local_Get name db =
     (case GetStack name db of Inl e \<Rightarrow> Inl e | Inr row \<Rightarrow> Inr (stackFromRow row))"

definition Local_List :: "Store \<Rightarrow> StackInfo list" where
  "Local_List db = map stackFromRow (ListStacks db)"

definition Local_Revisions :: "string \<Rightarrow> int \<Rightarrow> Store \<Rightarrow> Revision list" where
  "Local_Revisions name limit db = map revisionFromRow (ListRevisions name limit db)"

section \<open>Errors\<close>

text \<open>\<^verbatim>\<open>errors.Is\<close> for a sentinel of the store: the layers of the engine wrap with \<^verbatim>\<open>%w\<close>.\<close>

fun err_is :: "deploy_err \<Rightarrow> store_err \<Rightarrow> bool" where
  "err_is (In_Step name e) sentinel = err_is e sentinel"
| "err_is (Store_Error e) sentinel = (e = sentinel)"
| "err_is (Assign_Revision e) sentinel = (e = sentinel)"
| "err_is (Record_Deploy e) sentinel = (e = sentinel)"
| "err_is _ sentinel = False"

section \<open>Handlers\<close>

record last_backup =
  lbStatus :: string
  lbStartedAt :: int
  lbFinishedAt :: "int option"
  lbRevision :: "int option"
  lbErrorMessage :: "string option"

text \<open>The runs of the stack as the backup service lists them (None when there is no service or it
  fails), newest first; a zero field is left out of the answer.\<close>

definition lastBackupJSON :: "Backup list option \<Rightarrow> last_backup option" where
  "lastBackupJSON runs =
     (case runs of
        Some (b # _) \<Rightarrow>
          Some \<lparr> lbStatus = bkStatus b, lbStartedAt = bkStartedAt b,
                 lbFinishedAt = (if bkFinishedAt b = Some 0 then None else bkFinishedAt b),
                 lbRevision = (if bkRevision b = Some 0 then None else bkRevision b),
                 lbErrorMessage = (if bkErrorMessage b = [] then None else Some (bkErrorMessage b)) \<rparr>
      | _ \<Rightarrow> None)"

definition http_deploy ::
  "(deploy_err \<Rightarrow> string) \<Rightarrow> 'sw engine \<Rightarrow> int \<Rightarrow> string + Payload \<Rightarrow> 'sw World \<Rightarrow>
     (string \<times> int) reply \<times> 'sw World" where
  "http_deploy txt eg now body w =
     (case body of
        Inl e \<Rightarrow> ((400, Inl (''invalid JSON: '' @ e)), w)
      | Inr p \<Rightarrow>
         (case Deploy eg now p w of
            (Inl e, w') \<Rightarrow> ((400, Inl (txt e)), w')
          | (Inr res, w') \<Rightarrow> ((200, Inr (rsStackName res, rsRevision res)), w')))"

definition http_list :: "Store \<Rightarrow> StackInfo list reply" where
  "http_list db = (200, Inr (Local_List db))"

definition http_remove ::
  "(deploy_err \<Rightarrow> string) \<Rightarrow> 'sw engine \<Rightarrow> string \<Rightarrow> 'sw World \<Rightarrow> string reply \<times> 'sw World" where
  "http_remove txt eg name w =
     (case Undeploy eg name w of
        (Inl e, w') \<Rightarrow>
          (if err_is e ErrStackNotFound then (404, Inl ''stack not found'') else (400, Inl (txt e)), w')
      | (Inr _, w') \<Rightarrow> ((200, Inr name), w'))"

definition http_show ::
  "(store_err \<Rightarrow> string) \<Rightarrow> (string \<Rightarrow> Backup list option) \<Rightarrow> string \<Rightarrow> Store \<Rightarrow>
     (StackInfo \<times> (int \<times> int) list \<times> last_backup option) reply" where
  "http_show txt backups name db =
     (case Local_Get name db of
        Inl e \<Rightarrow> if e = ErrStackNotFound then (404, Inl ''stack not found'') else (500, Inl (txt e))
      | Inr st \<Rightarrow>
          (200, Inr (st, map (\<lambda>rv. (rvRevision rv, rvCreatedAt rv)) (Local_Revisions name 20 db),
                     lastBackupJSON (backups name))))"

definition http_showRevision :: "string \<Rightarrow> string \<Rightarrow> Store \<Rightarrow> Revision reply" where
  "http_showRevision name revParam db =
     (case parse_int64 revParam of
        None \<Rightarrow> (400, Inl ''revision must be an integer'')
      | Some r \<Rightarrow>
         (case find (\<lambda>rv. rvRevision rv = r) (Local_Revisions name 0 db) of
            None \<Rightarrow> (404, Inl ''revision not found'')
          | Some rv \<Rightarrow> (200, Inr rv)))"

definition http_sync ::
  "(deploy_err \<Rightarrow> string) \<Rightarrow> 'sw engine \<Rightarrow> int \<Rightarrow> string \<Rightarrow> 'sw World \<Rightarrow>
     (string \<times> int \<times> bool) reply \<times> 'sw World" where
  "http_sync txt eg now name w =
     (case Sync eg now name w of
        (Inl e, w') \<Rightarrow>
          (if err_is e ErrStackNotFound then (404, Inl ''stack not found'') else (400, Inl (txt e)), w')
      | (Inr res, w') \<Rightarrow> ((200, Inr (rsStackName res, rsRevision res, rsChanged res)), w'))"

definition http_rollback ::
  "(deploy_err \<Rightarrow> string) \<Rightarrow> 'sw engine \<Rightarrow> int \<Rightarrow> string \<Rightarrow> string + int \<Rightarrow> 'sw World \<Rightarrow>
     (string \<times> int \<times> int) reply \<times> 'sw World" where
  "http_rollback txt eg now name body w =
     (case body of
        Inl e \<Rightarrow> ((400, Inl (''invalid JSON: '' @ e)), w)
      | Inr r \<Rightarrow>
          if r = 0 then ((400, Inl ''revision: required''), w)
          else (case Rollback eg now name r w of
                  (Inl e, w') \<Rightarrow>
                    (if err_is e ErrRevisionNotFound then (404, Inl ''revision not found'')
                     else (400, Inl (txt e)), w')
                | (Inr res, w') \<Rightarrow> ((200, Inr (rsStackName res, rsRevision res, r)), w')))"

section \<open>Facts\<close>

lemma Deploy_error_not_found:
  assumes "Deploy eg now p w = (Inl e, w')"
  shows "\<not> err_is e ErrStackNotFound"
proof (cases "plManifest p = []")
  case True
  then show ?thesis using assms by (auto simp: Deploy_def)
next
  case False
  have parse: "\<not> err_is d ErrStackNotFound" if "parse_step eg p = Inl d" for d
    using that by (auto simp: parse_step_def Let_def split: sum.splits)
  have prep: "\<not> err_is d ErrStackNotFound" if "prepare_step eg a = Inl d" for a d
    using that by (auto simp: prepare_step_def prepare_under_def split: sum.splits)
  have trans: "\<not> err_is d ErrStackNotFound" if "translate_step eg db a = Inl d" for db a d
    using that by (auto simp: translate_step_def split: sum.splits)
  have rev: "d = No_Free_Revision" if "NextFreeRevision n now db = Inl d" for n db d
    using that by (auto simp: NextFreeRevision_def split: option.splits)
  have fin: "\<not> err_is d ErrStackNotFound" if "finish_deploy eg now app y r v = (Inl d, v')" for app y r v d v'
    using finish_deploy_error [OF that] by auto
  show ?thesis
    using assms [unfolded Deploy_eq [OF False]]
    by (auto simp: Let_def dest: parse prep trans rev fin split: sum.splits prod.splits)
qed

lemma Sync_error_not_found:
  "Sync eg now n w = (Inl e, w') \<Longrightarrow> \<not> err_is e ErrStackNotFound"
  by (auto simp: Sync_def Let_def dest: Deploy_error_not_found split: list.splits sum.splits if_splits)

lemma Undeploy_not_found:
  "(\<exists>e w'. Undeploy eg n w = (Inl e, w') \<and> err_is e ErrStackNotFound) = (\<not> is_ok (GetStack n (wStore w)))"
proof (cases "GetStack n (wStore w)")
  case (Inl e)
  then have "e = ErrStackNotFound" by (auto simp: GetStack_def split: option.splits)
  then show ?thesis using Inl by (simp add: Undeploy_def is_ok_iff)
next
  case (Inr st)
  let ?s0 = "\<lparr> udWorld = w, udVolumes = [], udSecretNames = [] \<rparr>"
  have collect: "\<not> err_is e ErrStackNotFound" if "ud_collect eg n st = (Inl e, st')" for e st st'
    using that by (auto simp: ud_collect_def split: if_splits sum.splits)
  have remove: "\<not> err_is e ErrStackNotFound" if "ud_remove eg n st = (Inl e, st')" for e st st'
    using that by (auto simp: ud_remove_def Let_def split: prod.splits sum.splits)
  obtain r1 s1 where s1: "ud_collect eg n ?s0 = (r1, s1)" by fastforce
  obtain r2 s2 where s2: "ud_remove eg n s1 = (r2, s2)" by fastforce
  have "wStore (udWorld s2) = wStore w"
    using ud_collect_world [OF s1] ud_remove_world [OF s2] by simp
  then have "fst (ud_delete n s2) = Inr ()"
    using Inr by (auto simp: ud_delete_def GetStack_def DeleteStack_def Let_def eff_simps split: option.splits)
  then obtain s3 where s3: "ud_delete n s2 = (Inr (), s3)" by (cases "ud_delete n s2") auto
  show ?thesis
    using Inr collect [of ?s0] remove [of s1] s1 s2
    by (auto simp: Undeploy_def Run_Add s3 is_ok_iff split: sum.splits)
qed

lemma Rollback_not_found:
  "(\<exists>e w'. Rollback eg now n r w = (Inl e, w') \<and> err_is e ErrRevisionNotFound) = (\<not> has_revision (wStore w) n r)"
proof (cases "GetRevision n r (wStore w)")
  case (Inl e)
  then have "e = ErrRevisionNotFound" "\<not> has_revision (wStore w) n r"
    by (auto simp: GetRevision_def has_revision_def split: option.splits)
  then show ?thesis using Inl by (simp add: Rollback_def Run_Add rb_load_def)
next
  case (Inr row)
  then have has: "has_revision (wStore w) n r"
    by (auto simp: GetRevision_def has_revision_def split: option.splits)
  have rec: "\<not> err_is e ErrRevisionNotFound" if "rb_record eg now n r st = (Inl e, st')" for e st st'
    using that by (auto simp: rb_record_def Let_def NextFreeRevision_def RecordDeploy_def
        split: sum.splits option.splits if_splits prod.splits)
  have dep: "\<not> err_is e ErrRevisionNotFound" if "rb_deploy eg n st = (Inl e, st')" for e st st'
    using that by (auto simp: rb_deploy_def split: sum.splits prod.splits)
  show ?thesis
    using Inr has
    by (auto simp: Rollback_def Run_Add rb_load_def dest: rec dep split: sum.splits prod.splits)
qed

section \<open>Properties\<close>

text \<open>The API answers 404 to a removal exactly when the stack is not on record and to a
  rollback exactly when the revision is not; to a sync it never does, although the handler has
  a branch for it: the engine reports an unknown stack as a stack without revisions.\<close>

theorem stack_api_not_found:
  "(fst (fst (http_remove txt eg n w)) = 404) = (\<not> is_ok (GetStack n (wStore w))) \<and>
   (fst (fst (http_rollback txt eg now n (Inr r) w)) = 404) = (r \<noteq> 0 \<and> \<not> has_revision (wStore w) n r) \<and>
   fst (fst (http_sync txt eg now n w)) \<noteq> 404"
proof -
  have "(fst (fst (http_remove txt eg n w)) = 404) = (\<not> is_ok (GetStack n (wStore w)))"
    by (subst Undeploy_not_found [of eg, symmetric])
      (auto simp: http_remove_def split: prod.splits sum.splits)
  moreover have "(fst (fst (http_rollback txt eg now n (Inr r) w)) = 404) = (r \<noteq> 0 \<and> \<not> has_revision (wStore w) n r)"
    by (subst Rollback_not_found [of eg now, symmetric])
      (auto simp: http_rollback_def split: prod.splits sum.splits)
  moreover have "fst (fst (http_sync txt eg now n w)) \<noteq> 404"
    by (auto simp: http_sync_def dest: Sync_error_not_found split: prod.splits sum.splits)
  ultimately show ?thesis by blast
qed

end
