(* ===== verification/Backups.thy ===== *)
theory Backups
  imports Store_Misc
begin

text \<open>
  Volume backups (\<^verbatim>\<open>internal/backups\<close>): the on-demand run, the reconciliation of the audit table with
  the archive directory and the retention of old runs (\<^verbatim>\<open>local.go\<close>), and browsing and restoring
  archives (\<^verbatim>\<open>browse.go\<close>, \<^verbatim>\<open>trigger.go\<close>).  Go's lexical path functions are written out.  The disk is
  the list of directory entries that \<^verbatim>\<open>os.ReadDir\<close> gives; a tar archive is its list of headers and
  the error the reader ends with, if any.
\<close>

section \<open>Paths\<close>

fun clean_comps :: "bool \<Rightarrow> string list \<Rightarrow> string list \<Rightarrow> string list" where
  "clean_comps rooted stack [] = rev stack"
| "clean_comps rooted stack (c # cs) =
     (if c = [] \<or> c = ''.'' then clean_comps rooted stack cs
      else if c = ''..''
      then (case stack of
              [] \<Rightarrow> clean_comps rooted (if rooted then [] else [c]) cs
            | t # ts \<Rightarrow> clean_comps rooted (if t = ''..'' then c # stack else ts) cs)
      else clean_comps rooted (c # stack) cs)"

definition path_clean :: "string \<Rightarrow> string" where
  "path_clean s =
     (let rooted = has_prefix s ''/''; cs = clean_comps rooted [] (split_at (CHR ''/'') s) in
      if rooted then CHR ''/'' # join_with ''/'' cs
      else if cs = [] then ''.'' else join_with ''/'' cs)"

definition path_join :: "string \<Rightarrow> string \<Rightarrow> string" where
  "path_join a b =
     (if a = [] \<and> b = [] then []
      else if a = [] then path_clean b
      else if b = [] then path_clean a
      else path_clean (a @ ''/'' @ b))"

section \<open>The disk\<close>

record dir_entry =
  deName :: string
  deIsDir :: bool
  deMtime :: "int option"

text \<open>One directory, the archive directory, None when it cannot be read.  Removing a path removes
  the file of that path in it.\<close>

type_synonym disk = "dir_entry list option"

definition os_remove :: "string \<Rightarrow> string \<Rightarrow> disk \<Rightarrow> disk" where
  "os_remove dir p d =
     map_option (filter (\<lambda>e. deIsDir e \<or> path_join dir (deName e) \<noteq> p)) d"

section \<open>Runs and reconciliation\<close>

record backup_service =
  bsArchiveDir :: string
  bsRetentionDays :: int
  bsRun :: "(disk \<Rightarrow> (string list \<times> string option) \<times> disk) option"

definition is_tarball :: "dir_entry \<Rightarrow> bool" where
  "is_tarball e \<longleftrightarrow> \<not> deIsDir e \<and> has_suffix (deName e) ''.tar.gz''"

definition discover_entry :: "string \<Rightarrow> dir_entry \<Rightarrow> Store \<Rightarrow> Store" where
  "discover_entry dir e db =
     (if \<not> is_tarball e then db
      else (case deMtime e of
              None \<Rightarrow> db
            | Some m \<Rightarrow>
               (let archivePath = path_join dir (deName e) in
                if BackupExistsByPath archivePath db then db
                else RecordDiscoveredBackup (deName e) archivePath m db)))"

definition discover :: "backup_service \<Rightarrow> disk \<Rightarrow> Store \<Rightarrow> Store" where
  "discover l d db =
     (if bsArchiveDir l = [] then db
      else (case d of None \<Rightarrow> db | Some entries \<Rightarrow> fold (discover_entry (bsArchiveDir l)) entries db))"

definition joinArchivePaths :: "string list \<Rightarrow> string" where
  "joinArchivePaths paths = join_with '','' paths"

definition splitArchivePaths :: "string \<Rightarrow> string list" where
  "splitArchivePaths s = (if s = [] then [] else split_at (CHR '','') s)"

definition newest_step :: "int \<Rightarrow> dir_entry \<Rightarrow> string \<times> int \<Rightarrow> string \<times> int" where
  "newest_step at e best =
     (case deMtime e of
        Some m \<Rightarrow> if is_tarball e \<and> at \<le> m \<and> snd best \<le> m then (deName e, m) else best
      | None \<Rightarrow> best)"

definition archiveCreatedAfter :: "backup_service \<Rightarrow> int \<Rightarrow> disk \<Rightarrow> string" where
  "archiveCreatedAfter l at d =
     (case d of
        None \<Rightarrow> []
      | Some entries \<Rightarrow>
         (let newest = fst (fold (newest_step at) entries ([], 0)) in
          if newest = [] then [] else path_join (bsArchiveDir l) newest))"

definition Trigger ::
  "backup_service \<Rightarrow> int \<Rightarrow> string \<Rightarrow> int \<Rightarrow> disk \<times> Store \<Rightarrow>
     (int \<times> string list \<times> string option) \<times> disk \<times> Store" where
  "Trigger l now stackName revision st =
     (let (d, db) = st; (bid, db1) = CreateBackup now stackName revision db in
      case bsRun l of
        None \<Rightarrow> ((bid, [], Some ''backup trigger not configured''), d, db1)
      | Some run \<Rightarrow>
         (let ((paths, err), d1) = run d in
          case err of
            Some e \<Rightarrow>
              ((bid, paths, Some e), d1, FinishBackup now bid ''failed'' (joinArchivePaths paths) e db1)
          | None \<Rightarrow>
             (let p = (if paths = [] \<and> bsArchiveDir l \<noteq> [] then archiveCreatedAfter l now d1 else []);
                  paths' = (if p \<noteq> [] then [p] else paths)
              in ((bid, paths', None), d1,
                  FinishBackup now bid ''succeeded'' (joinArchivePaths paths') [] db1))))"

definition prune_row :: "string \<Rightarrow> Backup \<Rightarrow> disk \<times> Store \<Rightarrow> disk \<times> Store" where
  "prune_row dir b st =
     (let (d, db) = st in
      (fold (\<lambda>p d. if p = [] then d else os_remove dir p d) (splitArchivePaths (bkArchivePaths b)) d,
       snd (DeleteBackup (bkID b) db)))"

definition prune :: "backup_service \<Rightarrow> int \<Rightarrow> disk \<times> Store \<Rightarrow> disk \<times> Store" where
  "prune l now st =
     (if bsRetentionDays l \<le> 0 then st
      else fold (prune_row (bsArchiveDir l))
             (ListBackupsOlderThan (now - bsRetentionDays l * 86400) (snd st)) st)"

record Run =
  runID :: int
  runStatus :: string
  runStackName :: string
  runRevision :: int
  runArchivePaths :: "string list"
  runErrorMessage :: string
  runStartedAt :: int
  runFinishedAt :: int

definition run_of_row :: "Backup \<Rightarrow> Run" where
  "run_of_row b =
     \<lparr> runID = bkID b, runStatus = bkStatus b,
       runStackName = (case bkStackName b of Some n \<Rightarrow> n | None \<Rightarrow> []),
       runRevision = (case bkRevision b of Some r \<Rightarrow> r | None \<Rightarrow> 0),
       runArchivePaths = splitArchivePaths (bkArchivePaths b), runErrorMessage = bkErrorMessage b,
       runStartedAt = bkStartedAt b,
       runFinishedAt = (case bkFinishedAt b of Some t \<Rightarrow> t | None \<Rightarrow> 0) \<rparr>"

definition runRows :: "Backup list \<Rightarrow> Run list" where
  "runRows rows = map run_of_row rows"

definition List_runs :: "backup_service \<Rightarrow> int \<Rightarrow> int \<Rightarrow> disk \<times> Store \<Rightarrow> Run list \<times> disk \<times> Store" where
  "List_runs l now limit st =
     (let (d, db) = prune l now (fst st, discover l (fst st) (snd st)) in
      (runRows (ListBackups limit db), d, db))"

definition ListForStack ::
  "backup_service \<Rightarrow> int \<Rightarrow> string \<Rightarrow> disk \<times> Store \<Rightarrow> Run list \<times> disk \<times> Store" where
  "ListForStack l now stackName st =
     (let (d, db) = prune l now (fst st, discover l (fst st) (snd st)) in
      (runRows (ListBackupsForStack stackName db), d, db))"

text \<open>\<^verbatim>\<open>parseArchivePaths\<close>: the archive paths the agent prints, which are paths of its container.\<close>

definition trim_right_set :: "string \<Rightarrow> string \<Rightarrow> string" where
  "trim_right_set cutset s = rev (dropWhile (\<lambda>c. c \<in> set cutset) (rev s))"

definition parseArchivePaths :: "string list \<Rightarrow> string list" where
  "parseArchivePaths toks =
     filter (\<lambda>tok. has_prefix tok ''/archive/'' \<and> has_suffix tok ''.tar.gz'')
       (map (trim_right_set ''.,;:'') toks)"

section \<open>Restoring\<close>

datatype tar_type = TypeDir | TypeReg | TypeOther

record tar_header =
  thName :: string
  thSize :: int
  thType :: tar_type

text \<open>The calls a restore makes to the file system.  \<^verbatim>\<open>OpenFile\<close> creates a file or truncates the one
  that is there; \<^verbatim>\<open>CopyTo\<close> fills it; \<^verbatim>\<open>ReadFile\<close> opens a file of the tree that is copied.\<close>

datatype fs_op = MkdirAll string | OpenFile string | CopyTo string | ReadFile string

text \<open>What is at a path: nothing that can be opened, a directory tree as \<^verbatim>\<open>filepath.Walk\<close> visits it, or
  an archive.\<close>

record tree_item =
  tiRel :: string
  tiSize :: int
  tiIsDir :: bool
  tiRegular :: bool

datatype archive =
    No_Archive string
  | Raw_Dir "tree_item list"
  | Tar "tar_header list" "string option"

datatype restore_err =
    Open_Failed string | Tar_Failed string | Escapes string | Op_Failed fs_op
  | Not_Succeeded int string | Control_Plane string | Backup_Missing store_err

definition rel_under :: "string \<Rightarrow> string \<Rightarrow> string" where
  "rel_under prefix_dir name =
     (let clean = trim_prefix (path_clean name) ''/'' in
      if clean = prefix_dir then ''.''
      else if has_prefix clean (prefix_dir @ ''/'') then trim_prefix clean (prefix_dir @ ''/'')
      else clean)"

definition archiveRelPath :: "string \<Rightarrow> string" where
  "archiveRelPath name = rel_under ''backup/data'' name"

definition ctlplaneRelPath :: "string \<Rightarrow> string" where
  "ctlplaneRelPath name = rel_under ''backup/pmcluster'' name"

text \<open>\<^verbatim>\<open>filepath.Dir\<close> of a clean rooted path.\<close>

definition path_dir :: "string \<Rightarrow> string" where
  "path_dir p = path_clean (rev (dropWhile (\<lambda>c. c \<noteq> CHR ''/'') (rev p)))"

text \<open>Calls are made until one fails; \<^verbatim>\<open>ok\<close> tells which ones the operating system lets succeed.  The
  log holds every call that was made.  The last one may have failed and left part of its work: a
  copy that fails leaves the file it goes to truncated or half written.\<close>

fun run_ops :: "(fs_op \<Rightarrow> bool) \<Rightarrow> fs_op list \<Rightarrow> restore_err option \<times> fs_op list" where
  "run_ops ok [] = (None, [])"
| "run_ops ok (q # qs) =
     (if \<not> ok q then (Some (Op_Failed q), [q])
      else (let (err, log) = run_ops ok qs in (err, q # log)))"

fun restore_entries ::
  "(fs_op \<Rightarrow> bool) \<Rightarrow> (string \<Rightarrow> string) \<Rightarrow> string \<Rightarrow> string option \<Rightarrow> tar_header list \<Rightarrow>
     nat \<times> restore_err option \<times> fs_op list" where
  "restore_entries ok rel target final [] = (0, map_option Tar_Failed final, [])"
| "restore_entries ok rel target final (h # hs) =
     (let name = path_join target (rel (thName h)) in
      if name \<noteq> target \<and> \<not> has_prefix name (target @ ''/'') then (0, Some (Escapes (thName h)), [])
      else (let (err, log) = run_ops ok (case thType h of
                    TypeDir \<Rightarrow> [MkdirAll name]
                  | TypeReg \<Rightarrow> [MkdirAll (path_dir name), OpenFile name, CopyTo name]
                  | TypeOther \<Rightarrow> [])
            in case err of
                 Some e \<Rightarrow> (0, Some e, log)
               | None \<Rightarrow>
                  (let (n, err', log') = restore_entries ok rel target final hs
                   in ((if thType h = TypeReg then n + 1 else n), err', log @ log'))))"

fun copyTree ::
  "(fs_op \<Rightarrow> bool) \<Rightarrow> string \<Rightarrow> tree_item list \<Rightarrow> nat \<times> restore_err option \<times> fs_op list" where
  "copyTree ok dst [] = (0, None, [])"
| "copyTree ok dst (i # items) =
     (if tiRel i = ''.'' then copyTree ok dst items
      else (let out = path_join dst (tiRel i);
                (err, log) = run_ops ok
                  (if tiIsDir i then [MkdirAll out]
                   else if \<not> tiRegular i then []
                   else [ReadFile (tiRel i), MkdirAll (path_dir out), OpenFile out, CopyTo out])
            in case err of
                 Some e \<Rightarrow> (0, Some e, log)
               | None \<Rightarrow>
                  (let (n, err', log') = copyTree ok dst items
                   in ((if \<not> tiIsDir i \<and> tiRegular i then n + 1 else n), err', log @ log'))))"

definition restoreArchiveRel ::
  "(fs_op \<Rightarrow> bool) \<Rightarrow> (string \<Rightarrow> string) \<Rightarrow> string \<Rightarrow> archive \<Rightarrow> nat \<times> restore_err option \<times> fs_op list" where
  "restoreArchiveRel ok rel target a =
     (case a of
        No_Archive e \<Rightarrow> (0, Some (Open_Failed e), [])
      | Raw_Dir items \<Rightarrow> copyTree ok target items
      | Tar hs final \<Rightarrow> restore_entries ok rel target final hs)"

fun refuse_headers :: "string \<Rightarrow> string option \<Rightarrow> tar_header list \<Rightarrow> restore_err option" where
  "refuse_headers p final [] = map_option Tar_Failed final"
| "refuse_headers p final (h # hs) =
     (let name = trim_prefix (thName h) ''/'' in
      if has_prefix name ''backup/pmcluster'' then Some (Control_Plane p)
      else if has_prefix name ''backup/data'' then None
      else refuse_headers p final hs)"

text \<open>Opening a directory succeeds and reading it as an archive does not.\<close>

definition refuseControlPlaneArchive :: "string \<Rightarrow> archive \<Rightarrow> restore_err option" where
  "refuseControlPlaneArchive p a =
     (case a of
        No_Archive e \<Rightarrow> Some (Open_Failed e)
      | Raw_Dir _ \<Rightarrow> Some (Tar_Failed ''is a directory'')
      | Tar hs final \<Rightarrow> refuse_headers p final hs)"

fun restore_all ::
  "(fs_op \<Rightarrow> bool) \<Rightarrow> (string \<Rightarrow> archive) \<Rightarrow> string \<Rightarrow> string list \<Rightarrow> nat \<times> restore_err option \<times> fs_op list" where
  "restore_all ok open_archive target [] = (0, None, [])"
| "restore_all ok open_archive target (p # ps) =
     (case refuseControlPlaneArchive p (open_archive p) of
        Some e \<Rightarrow> (0, Some e, [])
      | None \<Rightarrow>
         (let (n, err, log) = restoreArchiveRel ok archiveRelPath target (open_archive p) in
          case err of
            Some e \<Rightarrow> (0, Some e, log)
          | None \<Rightarrow>
             (let (m, err', log') = restore_all ok open_archive target ps in (n + m, err', log @ log'))))"

definition Restore ::
  "(fs_op \<Rightarrow> bool) \<Rightarrow> (string \<Rightarrow> archive) \<Rightarrow> int \<Rightarrow> string \<Rightarrow> Store \<Rightarrow>
     nat \<times> restore_err option \<times> fs_op list" where
  "Restore ok open_archive bid destRoot db =
     (case GetBackup bid db of
        Inl e \<Rightarrow> (0, Some (Backup_Missing e), [])
      | Inr row \<Rightarrow>
          if bkStatus row \<noteq> ''succeeded'' then (0, Some (Not_Succeeded bid (bkStatus row)), [])
          else if \<not> ok (MkdirAll destRoot) then (0, Some (Op_Failed (MkdirAll destRoot)), [MkdirAll destRoot])
          else (let (n, err, log) = restore_all ok open_archive destRoot (splitArchivePaths (bkArchivePaths row))
                in (n, err, MkdirAll destRoot # log)))"

definition RestoreControlPlane ::
  "(fs_op \<Rightarrow> bool) \<Rightarrow> archive \<Rightarrow> string \<Rightarrow> nat \<times> restore_err option \<times> fs_op list" where
  "RestoreControlPlane ok a dataDir =
     (if \<not> ok (MkdirAll dataDir) then (0, Some (Op_Failed (MkdirAll dataDir)), [MkdirAll dataDir])
      else (let (n, err, log) = restoreArchiveRel ok ctlplaneRelPath dataDir a
            in (n, err, MkdirAll dataDir # log)))"

definition newest_ctl_step :: "dir_entry \<Rightarrow> string \<times> int \<Rightarrow> string \<times> int" where
  "newest_ctl_step e best =
     (case deMtime e of
        Some m \<Rightarrow>
          if is_tarball e \<and> has_prefix (deName e) ''pmcluster-ctlplane-'' \<and> snd best < m
          then (deName e, m) else best
      | None \<Rightarrow> best)"

definition NewestControlPlaneArchive :: "string \<Rightarrow> disk \<Rightarrow> string" where
  "NewestControlPlaneArchive dir d =
     (case d of
        None \<Rightarrow> []
      | Some entries \<Rightarrow>
         (let newest = fst (fold newest_ctl_step entries ([], 0)) in
          if newest = [] then [] else path_join dir newest))"

text \<open>Browsing: the files of a run, with a marker for an archive that cannot be read.\<close>

record FileEntry =
  fePath :: string
  feSize :: int
  feIsDir :: bool

definition listArchive :: "archive \<Rightarrow> FileEntry list option" where
  "listArchive a =
     (case a of
        No_Archive _ \<Rightarrow> None
      | Raw_Dir items \<Rightarrow>
          Some (map (\<lambda>i. \<lparr> fePath = tiRel i, feSize = tiSize i, feIsDir = tiIsDir i \<rparr>)
            (filter (\<lambda>i. tiRel i \<noteq> ''.'') items))
      | Tar hs final \<Rightarrow>
          (if final \<noteq> None then None
           else Some (map (\<lambda>h. \<lparr> fePath = thName h, feSize = thSize h, feIsDir = (thType h = TypeDir) \<rparr>) hs)))"

definition Browse ::
  "(string \<Rightarrow> archive) \<Rightarrow> int \<Rightarrow> Store \<Rightarrow> store_err + Run \<times> FileEntry list" where
  "Browse open_archive bid db =
     (case GetBackup bid db of
        Inl e \<Rightarrow> Inl e
      | Inr row \<Rightarrow>
         (let run = run_of_row row in
          if runStatus run = ''pending'' then Inr (run, [])
          else Inr (run, concat (map (\<lambda>p.
             case listArchive (open_archive p) of
               None \<Rightarrow> [\<lparr> fePath = p, feSize = - 1, feIsDir = False \<rparr>]
             | Some entries \<Rightarrow> entries) (runArchivePaths run)))))"

section \<open>Facts about paths\<close>

lemma clean_comps_no_dotdot:
  "''..'' \<notin> set stack \<Longrightarrow> ''..'' \<notin> set (clean_comps True stack cs)"
  by (induction True stack cs rule: clean_comps.induct) (auto split: list.splits)

lemma clean_comps_subset: "set (clean_comps r stack cs) \<subseteq> set stack \<union> set cs"
proof (induction r stack cs rule: clean_comps.induct)
  case (2 r stack c cs)
  then show ?case by (auto split: if_splits list.splits)
qed simp

lemma path_clean_rooted:
  assumes "has_prefix s ''/''"
  shows "path_clean s = ''/'' \<or>
    (\<exists>cs. cs \<noteq> [] \<and> ''..'' \<notin> set cs \<and> (\<forall>c\<in>set cs. CHR ''/'' \<notin> set c) \<and> path_clean s = CHR ''/'' # join_with ''/'' cs)"
proof -
  let ?cs = "clean_comps True [] (split_at (CHR ''/'') s)"
  have "\<forall>c\<in>set ?cs. CHR ''/'' \<notin> set c"
    using clean_comps_subset [of True "[]" "split_at (CHR ''/'') s"] split_at_no_sep by fastforce
  moreover have "''..'' \<notin> set ?cs" by (rule clean_comps_no_dotdot) simp
  moreover have "path_clean s = CHR ''/'' # join_with ''/'' ?cs" using assms by (simp add: path_clean_def)
  ultimately show ?thesis by (cases "?cs = []") auto
qed

lemma path_clean_no_dotdot:
  assumes "has_prefix s ''/''"
  shows "''..'' \<notin> set (split_at (CHR ''/'') (path_clean s))"
  using path_clean_rooted [OF assms]
proof
  assume "path_clean s = ''/''"
  then show ?thesis by simp
next
  assume "\<exists>cs. cs \<noteq> [] \<and> ''..'' \<notin> set cs \<and> (\<forall>c\<in>set cs. CHR ''/'' \<notin> set c) \<and>
    path_clean s = CHR ''/'' # join_with ''/'' cs"
  then obtain cs where cs: "cs \<noteq> []" "''..'' \<notin> set cs" "\<forall>c\<in>set cs. CHR ''/'' \<notin> set c"
    "path_clean s = CHR ''/'' # join_with ''/'' cs" by blast
  then show ?thesis
    using split_join [of cs "CHR ''/''"] split_at_append [of "CHR ''/''" "[]" "join_with ''/'' cs"] by simp
qed

text \<open>Ordinary path components, and the absolute and relative paths made of them.\<close>

definition plain_comp :: "string \<Rightarrow> bool" where
  "plain_comp c \<longleftrightarrow> c \<noteq> [] \<and> c \<noteq> ''.'' \<and> c \<noteq> ''..'' \<and> CHR ''/'' \<notin> set c"

definition abs_path :: "string list \<Rightarrow> string" where
  "abs_path cs = CHR ''/'' # join_with ''/'' cs"

lemma clean_plain: "list_all plain_comp cs \<Longrightarrow> clean_comps r stack cs = rev stack @ cs"
  by (induction cs arbitrary: stack) (auto simp: plain_comp_def)

lemma join_with_append:
  "xs \<noteq> [] \<Longrightarrow> ys \<noteq> [] \<Longrightarrow> join_with sep (xs @ ys) = join_with sep xs @ sep @ join_with sep ys"
proof (induction sep xs rule: join_with.induct)
  case (2 sep x)
  then show ?case by (cases ys) auto
qed auto

lemma split_abs:
  "cs \<noteq> [] \<Longrightarrow> list_all plain_comp cs \<Longrightarrow> split_at (CHR ''/'') (abs_path cs) = [] # cs"
  using split_join [of cs "CHR ''/''"] split_at_append [of "CHR ''/''" "[]" "join_with ''/'' cs"]
  by (simp add: abs_path_def plain_comp_def list_all_iff)

lemma clean_abs: "cs \<noteq> [] \<Longrightarrow> list_all plain_comp cs \<Longrightarrow> path_clean (abs_path cs) = abs_path cs"
  using clean_plain [of cs True "[]"] split_abs [of cs]
  by (simp add: path_clean_def has_prefix_def abs_path_def)

lemma plain_backup: "list_all plain_comp [''backup'', ''data'']"
  by (simp add: plain_comp_def)

lemma archiveRelPath_volume:
  assumes "cs \<noteq> []" "list_all plain_comp cs"
  shows "archiveRelPath (abs_path ([''backup'', ''data''] @ cs)) = join_with ''/'' cs"
proof -
  let ?cs = "[''backup'', ''data''] @ cs"
  have "path_clean (abs_path ?cs) = abs_path ?cs"
    by (rule clean_abs) (use assms plain_backup in auto)
  moreover have "join_with ''/'' ?cs = ''backup/data/'' @ join_with ''/'' cs"
    using assms(1) by (subst join_with_append) simp_all
  ultimately show ?thesis
    by (simp add: archiveRelPath_def rel_under_def trim_prefix_def has_prefix_def abs_path_def)
qed

lemma join_with_not_Nil: "cs \<noteq> [] \<Longrightarrow> list_all plain_comp cs \<Longrightarrow> join_with ''/'' cs \<noteq> []"
  by (cases cs; cases "tl cs") (auto simp: plain_comp_def)

lemma path_join_plain:
  assumes "rs \<noteq> []" "cs \<noteq> []" "list_all plain_comp (rs @ cs)"
  shows "path_join (abs_path rs) (join_with ''/'' cs) = abs_path (rs @ cs)"
proof -
  have "abs_path rs @ ''/'' @ join_with ''/'' cs = abs_path (rs @ cs)"
    using assms by (simp add: abs_path_def join_with_append)
  moreover have "abs_path rs \<noteq> []" by (simp add: abs_path_def)
  moreover have "join_with ''/'' cs \<noteq> []" using assms by (intro join_with_not_Nil) auto
  ultimately show ?thesis using clean_abs [of "rs @ cs"] assms by (simp add: path_join_def)
qed

lemma path_join_no_dotdot:
  assumes "has_prefix a ''/''"
  shows "''..'' \<notin> set (split_at (CHR ''/'') (path_join a b))"
proof -
  have "has_prefix (a @ ''/'' @ b) ''/''" using assms by (auto simp: has_prefix_def)
  then show ?thesis
    using assms path_clean_no_dotdot by (auto simp: path_join_def has_prefix_def)
qed

section \<open>Facts about restoring\<close>

definition inside :: "string \<Rightarrow> string \<Rightarrow> bool" where
  "inside root p \<longleftrightarrow> (p = root \<or> has_prefix p (root @ ''/'')) \<and> ''..'' \<notin> set (split_at (CHR ''/'') p)"

lemma run_ops_log: "run_ops ok qs = (err, log) \<Longrightarrow> set log \<subseteq> set qs"
  by (induction qs arbitrary: err log) (auto split: if_splits prod.splits)

text \<open>The files a call opens for writing.\<close>

fun written :: "fs_op \<Rightarrow> string option" where
  "written (OpenFile p) = Some p"
| "written (CopyTo p) = Some p"
| "written _ = None"

lemma restore_entries_inside:
  assumes "has_prefix target ''/''"
  shows "restore_entries ok rel target final hs = (n, err, log) \<Longrightarrow> q \<in> set log \<Longrightarrow> written q = Some p \<Longrightarrow>
    inside target p"
proof (induction hs arbitrary: n err log)
  case (Cons h hs)
  let ?name = "path_join target (rel (thName h))"
  let ?ops = "case thType h of TypeDir \<Rightarrow> [MkdirAll ?name]
      | TypeReg \<Rightarrow> [MkdirAll (path_dir ?name), OpenFile ?name, CopyTo ?name] | TypeOther \<Rightarrow> []"
  obtain e1 l1 where r1: "run_ops ok ?ops = (e1, l1)" by fastforce
  obtain m e2 l2 where r2: "restore_entries ok rel target final hs = (m, e2, l2)" by (metis surj_pair)
  have "q \<in> set l1 \<Longrightarrow> p = ?name"
    using run_ops_log [OF r1] Cons.prems(3) by (auto split: tar_type.splits)
  moreover have "?name = target \<or> has_prefix ?name (target @ ''/'') \<Longrightarrow> inside target ?name"
    using path_join_no_dotdot [OF assms] by (simp add: inside_def)
  moreover have "(?name = target \<or> has_prefix ?name (target @ ''/'')) \<and> (q \<in> set l1 \<or> q \<in> set l2)"
    using Cons.prems r1 r2 by (auto simp: Let_def split: if_splits option.splits)
  ultimately show ?case using Cons.IH [OF r2] Cons.prems(3) by blast
qed simp

lemma restore_all_inside:
  assumes "has_prefix target ''/''"
  shows "restore_all ok arch target ps = (n, err, log) \<Longrightarrow> q \<in> set log \<Longrightarrow> written q = Some p \<Longrightarrow> inside target p"
proof (induction ps arbitrary: n err log)
  case (Cons a ps)
  show ?case
  proof (cases "arch a")
    case (Tar hs final)
    obtain m e l where r: "restore_entries ok archiveRelPath target final hs = (m, e, l)" by (metis surj_pair)
    obtain m' e' l' where r': "restore_all ok arch target ps = (m', e', l')" by (metis surj_pair)
    have "q \<in> set l \<or> q \<in> set l'"
      using Cons.prems Tar r r' by (auto simp: restoreArchiveRel_def split: option.splits)
    then show ?thesis using restore_entries_inside [OF assms r] Cons.IH [OF r'] Cons.prems(3) by blast
  qed (use Cons.prems in \<open>auto simp: refuseControlPlaneArchive_def\<close>)
qed simp

lemma Restore_log:
  assumes "Restore ok arch bid root db = (n, err, log)" "q \<in> set log" "written q = Some p"
  obtains row m e l where "GetBackup bid db = Inr row" "bkStatus row = ''succeeded''"
    "restore_all ok arch root (splitArchivePaths (bkArchivePaths row)) = (m, e, l)" "q \<in> set l"
  using assms by (auto simp: Restore_def split: sum.splits if_splits prod.splits)

text \<open>How the operating system walks the components of a name: a symbolic link is replaced by its
  absolute target, and None is a walk that follows too many.\<close>

type_synonym links = "string list \<Rightarrow> string list option"

fun walk_links :: "nat \<Rightarrow> links \<Rightarrow> string list \<Rightarrow> string list \<Rightarrow> string list option" where
  "walk_links 0 links at [] = Some at"
| "walk_links 0 links at (c # cs) = None"
| "walk_links (Suc k) links at [] = Some at"
| "walk_links (Suc k) links at (c # cs) =
     (case links (at @ [c]) of
        None \<Rightarrow> walk_links k links (at @ [c]) cs
      | Some target \<Rightarrow> walk_links k links [] (target @ cs))"

definition path_comps :: "string \<Rightarrow> string list" where
  "path_comps p = filter (\<lambda>c. c \<noteq> []) (split_at (CHR ''/'') p)"

lemma resolve_plain:
  "(\<And>q. q \<noteq> [] \<Longrightarrow> links (at @ q) = None) \<Longrightarrow> length cs \<le> k \<Longrightarrow> walk_links k links at cs = Some (at @ cs)"
proof (induction cs arbitrary: k "at")
  case (Cons c cs)
  from Cons.prems(2) obtain j where "k = Suc j" "length cs \<le> j" by (cases k) auto
  moreover have "links (at @ [c]) = None" "\<And>q. q \<noteq> [] \<Longrightarrow> links ((at @ [c]) @ q) = None"
    using Cons.prems(1) by simp_all
  ultimately show ?case using Cons.IH [of "at @ [c]" j] by simp
next
  case Nil
  then show ?case by (cases k) auto
qed

lemma resolve_below:
  "walk_links k links at rs = Some real \<Longrightarrow> (\<And>q. q \<noteq> [] \<Longrightarrow> links (real @ q) = None) \<Longrightarrow>
     walk_links (k + length q) links at (rs @ q) = Some (real @ q)"
proof (induction k links "at" rs rule: walk_links.induct)
  case (1 links "at")
  then show ?case using resolve_plain [of links "at" q "length q"] by simp
next
  case (3 k links "at")
  then show ?case using resolve_plain [of links "at" q "Suc k + length q"] by simp
next
  case (4 k links "at" c cs)
  then show ?case by (auto split: option.splits)
qed simp

lemma split_at_both: "split_at c (s @ c # t) = split_at c s @ split_at c t"
proof (induction s)
  case (Cons x s)
  then show ?case by (cases "split_at c s") auto
qed simp

lemma inside_comps:
  assumes "inside root p"
  obtains q where "path_comps p = path_comps root @ q"
  using assms by (auto simp: inside_def has_prefix_def prefix_def path_comps_def split_at_both)

section \<open>Facts about reconciliation\<close>

lemma exists_append:
  "BackupExistsByPath p db \<Longrightarrow> dbBackups db' = dbBackups db @ bs \<Longrightarrow> BackupExistsByPath p db'"
  by (simp add: BackupExistsByPath_def)

lemma RecordDiscovered_grows: "\<exists>bs. dbBackups (RecordDiscoveredBackup f p m db) = dbBackups db @ bs"
  by (simp add: RecordDiscoveredBackup_def Let_def)

lemma discover_entry_grows: "\<exists>bs. dbBackups (discover_entry dir e db) = dbBackups db @ bs"
  using RecordDiscovered_grows by (auto simp: discover_entry_def Let_def split: option.splits)

definition settled :: "string \<Rightarrow> dir_entry \<Rightarrow> Store \<Rightarrow> bool" where
  "settled dir e db \<longleftrightarrow>
     is_tarball e \<longrightarrow> deMtime e = None \<or> BackupExistsByPath (path_join dir (deName e)) db \<or>
       row_find bkFilename (deName e) (dbBackups db) \<noteq> None"

lemma settled_noop: "settled dir e db \<Longrightarrow> discover_entry dir e db = db"
proof -
  assume s: "settled dir e db"
  have "deName e \<noteq> []" if "is_tarball e"
    using that by (auto simp: is_tarball_def has_suffix_def)
  then show ?thesis
    using s by (auto simp: settled_def discover_entry_def RecordDiscoveredBackup_def Let_def
        split: option.splits)
qed

lemma settled_after: "settled dir e (discover_entry dir e db)"
  by (auto simp: settled_def discover_entry_def RecordDiscoveredBackup_def Let_def row_find_None
      split: option.splits)

lemma settled_grows:
  assumes "settled dir e db" "dbBackups db' = dbBackups db @ bs"
  shows "settled dir e db'"
  using assms exists_append [OF _ assms(2)] by (auto simp: settled_def row_find_None)

lemma discover_settles:
  "e \<in> set es \<or> settled dir e db \<Longrightarrow> settled dir e (fold (discover_entry dir) es db)"
proof (induction es arbitrary: db)
  case (Cons x es)
  have "settled dir e (discover_entry dir x db)" if "settled dir e db"
    using discover_entry_grows settled_grows [OF that] by blast
  then have "e \<in> set es \<or> settled dir e (discover_entry dir x db)"
    using Cons.prems settled_after by auto
  then show ?case using Cons.IH by simp
qed simp

lemma fold_settled: "\<forall>e\<in>set es. settled dir e db \<Longrightarrow> fold (discover_entry dir) es db = db"
  by (induction es) (auto simp: settled_noop)

section \<open>Properties\<close>

text \<open>Property C5.  A restore to an absolute directory writes no file outside it: whatever the headers
  of the archives say, every file that is opened for writing, also one whose copy then fails, is
  named by a path under that directory without parent components, and only a run that succeeded is
  restored.  The operating system follows the links that are there: if no link lies below the
  directory the destination really is, the file really is below that directory too.\<close>

theorem restore_stays_inside:
  assumes "Restore ok arch bid root db = (n, err, log)" "has_prefix root ''/''" "q \<in> set log" "written q = Some p"
  shows "(p = root \<or> has_prefix p (root @ ''/'')) \<and> ''..'' \<notin> set (split_at (CHR ''/'') p) \<and>
    (\<exists>row. GetBackup bid db = Inr row \<and> bkStatus row = ''succeeded'') \<and>
    (\<forall>k links real. walk_links k links [] (path_comps root) = Some real \<and> (\<forall>below. below \<noteq> [] \<longrightarrow> links (real @ below) = None) \<longrightarrow>
       (\<exists>below. path_comps p = path_comps root @ below \<and>
          walk_links (k + length below) links [] (path_comps p) = Some (real @ below)))"
  using assms(1,3,4)
proof (rule Restore_log)
  fix row m e l
  assume r: "GetBackup bid db = Inr row" "bkStatus row = ''succeeded''"
    "restore_all ok arch root (splitArchivePaths (bkArchivePaths row)) = (m, e, l)" "q \<in> set l"
  have i: "inside root p" by (rule restore_all_inside [OF assms(2) r(3,4) assms(4)])
  then obtain below where b: "path_comps p = path_comps root @ below" by (rule inside_comps)
  have "walk_links (k + length below) links [] (path_comps p) = Some (real @ below)"
    if "walk_links k links [] (path_comps root) = Some real" "\<forall>below. below \<noteq> [] \<longrightarrow> links (real @ below) = None" for k links real
    using resolve_below [OF that(1), of below] that(2) by (simp add: b)
  then show ?thesis using i r b by (auto simp: inside_def)
qed

definition demo_run :: Backup where
  "demo_run = \<lparr> bkID = 1, bkStackName = None, bkRevision = None, bkStatus = ''succeeded'',
     bkArchivePaths = ''/a.tar'', bkErrorMessage = [], bkStartedAt = 5, bkFinishedAt = Some 6,
     bkFilename = [] \<rparr>"

definition demo_archive :: archive where
  "demo_archive = Tar [\<lparr> thName = ''/backup/data/web/x'', thSize = 3, thType = TypeReg \<rparr>,
     \<lparr> thName = ''../../etc/passwd'', thSize = 3, thType = TypeReg \<rparr>] None"

lemma demo_restore:
  "Restore (\<lambda>_. True) (\<lambda>_. demo_archive) 1 ''/srv'' (empty_store\<lparr> dbBackups := [demo_run] \<rparr>) =
     (0, Some (Escapes ''../../etc/passwd''),
      [MkdirAll ''/srv'', MkdirAll ''/srv/web'', OpenFile ''/srv/web/x'', CopyTo ''/srv/web/x''])"
  by code_simp

theorem restore_stays_inside_witness:
  "OpenFile ''/srv/web/x'' \<in> set (snd (snd (Restore (\<lambda>_. True) (\<lambda>_. demo_archive) 1 ''/srv''
      (empty_store\<lparr> dbBackups := [demo_run] \<rparr>)))) \<and> has_prefix ''/srv/web/x'' (''/srv'' @ ''/'')"
  using restore_stays_inside [OF demo_restore, of "OpenFile ''/srv/web/x''" "''/srv/web/x''"] demo_restore
  by (simp add: has_prefix_def)

text \<open>The check is one of names only: a link that is already below the destination takes the restore
  out of it.  Here \<^verbatim>\<open>/srv/web\<close> is a link to \<^verbatim>\<open>/etc\<close>.\<close>

lemma restore_follows_links:
  "CopyTo ''/srv/web/x'' \<in> set (snd (snd (Restore (\<lambda>_. True) (\<lambda>_. demo_archive) 1 ''/srv''
      (empty_store\<lparr> dbBackups := [demo_run] \<rparr>)))) \<and>
   walk_links 9 (\<lambda>q. if q = [''srv'', ''web''] then Some [''etc''] else None) [] (path_comps ''/srv/web/x'') = Some [''etc'', ''x'']"
  unfolding demo_restore by code_simp

text \<open>A copy that fails is in the log, although the restore counts no file.\<close>

lemma failed_copy_truncates:
  "Restore (\<lambda>q. q \<noteq> CopyTo ''/srv/web/x'') (\<lambda>_. demo_archive) 1 ''/srv'' (empty_store\<lparr> dbBackups := [demo_run] \<rparr>) =
     (0, Some (Op_Failed (CopyTo ''/srv/web/x'')),
      [MkdirAll ''/srv'', MkdirAll ''/srv/web'', OpenFile ''/srv/web/x'', CopyTo ''/srv/web/x''])"
  by code_simp

text \<open>A file of the volume root is restored to where it was: the entry the backup
  agent makes of it, under its mount point, is mapped to the same place under the destination.\<close>

theorem restored_file_goes_back:
  assumes "rs \<noteq> []" "cs \<noteq> []" "list_all plain_comp (rs @ cs)"
  shows "path_join (abs_path rs) (archiveRelPath (abs_path ([''backup'', ''data''] @ cs))) = abs_path (rs @ cs)"
proof -
  have "archiveRelPath (abs_path ([''backup'', ''data''] @ cs)) = join_with ''/'' cs"
    using assms by (intro archiveRelPath_volume) auto
  then show ?thesis using path_join_plain [OF assms] by simp
qed

theorem restored_file_goes_back_witness:
  "path_join (abs_path [''var'', ''data'']) (archiveRelPath (abs_path ([''backup'', ''data''] @ [''web'', ''db''])))
     = ''/var/data/web/db''"
  by (subst restored_file_goes_back) (simp_all add: plain_comp_def abs_path_def)

text \<open>Reconciling the audit table with the archive directory is idempotent: once the
  archives of a directory have been discovered, discovering them again records nothing.  It does
  not recognise the archive of an on-demand run, which is recorded by its path inside the
  agent's container: the same archive is then listed twice.\<close>

theorem discovery_is_idempotent:
  "discover l d (discover l d db) = discover l d db \<and>
   (let dir = ''/var/stack/backup'';
        svc = \<lparr> bsArchiveDir = dir, bsRetentionDays = 0,
          bsRun = Some (\<lambda>_. ((parseArchivePaths [''/archive/b.tar.gz''], None),
            Some [\<lparr> deName = ''b.tar.gz'', deIsDir = False, deMtime = Some 5 \<rparr>])) \<rparr>
    in map runArchivePaths (fst (List_runs svc 9 0 (snd (Trigger svc 5 [] 0 (Some [], empty_store)))))
       = [[dir @ ''/b.tar.gz''], [''/archive/b.tar.gz'']])"
proof -
  have "discover l d (discover l d db) = discover l d db"
  proof (cases d)
    case (Some es)
    have "\<forall>e\<in>set es. settled (bsArchiveDir l) e (fold (discover_entry (bsArchiveDir l)) es db)"
      using discover_settles by blast
    then show ?thesis using Some fold_settled by (simp add: discover_def)
  qed (simp add: discover_def)
  moreover have "map runArchivePaths (fst (List_runs svc 9 0 (snd (Trigger svc 5 [] 0 (Some [], empty_store)))))
       = [[''/var/stack/backup/b.tar.gz''], [''/archive/b.tar.gz'']]"
    if "svc = \<lparr> bsArchiveDir = ''/var/stack/backup'', bsRetentionDays = 0,
          bsRun = Some (\<lambda>_. ((parseArchivePaths [''/archive/b.tar.gz''], None),
            Some [\<lparr> deName = ''b.tar.gz'', deIsDir = False, deMtime = Some 5 \<rparr>])) \<rparr>" for svc :: backup_service
    unfolding that by code_simp
  ultimately show ?thesis by (simp add: Let_def)
qed

end
