(* ===== verification/Edge_Net.thy ===== *)
theory Edge_Net
  imports Go_Strings "HOL-Library.Word"
begin

text \<open>
  What the edge proxy and the daemon use of Go's \<^verbatim>\<open>net\<close> package, and how each finds the client of a
  request: \<^verbatim>\<open>internal/edgeproxy/realip.go\<close>, the header rewriting of \<^verbatim>\<open>internal/edgeproxy/proxy.go\<close> and
  \<^verbatim>\<open>realIPFromTrusted\<close> of \<^verbatim>\<open>internal/server/server.go\<close>.  IPv4 is written out; the text syntax of
  IPv6 addresses is the parameter \<^verbatim>\<open>v6\<close> (networks of IPv4-mapped IPv6 addresses are left out).
\<close>

section \<open>Addresses and networks\<close>

datatype ip_addr = V4 "32 word" | V6 "128 word"

definition octet :: "string \<Rightarrow> nat option" where
  "octet s =
     (if s \<noteq> [] \<and> list_all is_digit s \<and> length s \<le> 3 \<and> (length s = 1 \<or> hd s \<noteq> CHR ''0'') \<and>
         digits_val s \<le> 255
      then Some (digits_val s) else None)"

definition parse_ip4 :: "string \<Rightarrow> 32 word option" where
  "parse_ip4 s =
     (case map octet (split_at (CHR ''.'') s) of
        [Some a, Some b, Some c, Some d] \<Rightarrow> Some (of_nat (((a * 256 + b) * 256 + c) * 256 + d))
      | _ \<Rightarrow> None)"

text \<open>The first dot or colon decides the family.\<close>

definition ParseIP :: "(string \<Rightarrow> 128 word option) \<Rightarrow> string \<Rightarrow> ip_addr option" where
  "ParseIP v6 s =
     (case find (\<lambda>c. c = CHR ''.'' \<or> c = CHR '':'' \<or> c = CHR ''%'') s of
        Some c \<Rightarrow>
          if c = CHR ''.'' then map_option V4 (parse_ip4 s)
          else if c = CHR '':'' then map_option V6 (v6 s)
          else None
      | None \<Rightarrow> None)"

type_synonym ip_net = "ip_addr \<times> nat"

definition ParseCIDR :: "(string \<Rightarrow> 128 word option) \<Rightarrow> string \<Rightarrow> ip_net option" where
  "ParseCIDR v6 s =
     (case cut_at (CHR ''/'') s of
        None \<Rightarrow> None
      | Some (addr, len) \<Rightarrow>
          if len = [] \<or> \<not> list_all is_digit len then None
          else (case ParseIP v6 addr of
                  Some (V4 a) \<Rightarrow> if digits_val len \<le> 32 then Some (V4 a, digits_val len) else None
                | Some (V6 a) \<Rightarrow> if digits_val len \<le> 128 then Some (V6 a, digits_val len) else None
                | None \<Rightarrow> None))"

fun net_contains :: "ip_net \<Rightarrow> ip_addr \<Rightarrow> bool" where
  "net_contains (V4 n, bits) (V4 a) = (drop_bit (32 - bits) n = drop_bit (32 - bits) a)"
| "net_contains (V6 n, bits) (V6 a) = (drop_bit (128 - bits) n = drop_bit (128 - bits) a)"
| "net_contains _ _ = False"

definition parseNets :: "(string \<Rightarrow> 128 word option) \<Rightarrow> string list \<Rightarrow> ip_net list" where
  "parseNets v6 cidrs = List.map_filter (ParseCIDR v6) cidrs"

definition SplitHostPort :: "string \<Rightarrow> (string \<times> string) option" where
  "SplitHostPort s =
     (if has_prefix s ''['' then
        (case cut_at (CHR '']'') s of
           None \<Rightarrow> None
         | Some (a, rest) \<Rightarrow>
            (case rest of
               [] \<Rightarrow> None
             | c # port \<Rightarrow>
                 if c = CHR '':'' \<and> CHR '':'' \<notin> set port \<and> CHR ''['' \<notin> set (tl s) \<and> CHR '']'' \<notin> set rest
                 then Some (tl a, port) else None))
      else (case cut_at (CHR '':'') (rev s) of
              None \<Rightarrow> None
            | Some (port, host) \<Rightarrow>
                if CHR '':'' \<in> set host \<or> CHR ''['' \<in> set s \<or> CHR '']'' \<in> set s then None
                else Some (rev host, rev port)))"

definition hostOnly :: "string \<Rightarrow> string" where
  "hostOnly hostport =
     (case SplitHostPort hostport of Some (h, _) \<Rightarrow> h | None \<Rightarrow> trim_space hostport)"

section \<open>The client of a request at the edge\<close>

definition xff :: "string \<Rightarrow> string list" where
  "xff header = filter (\<lambda>p. p \<noteq> []) (map trim_space (split_at (CHR '','') header))"

definition is_trusted :: "(string \<Rightarrow> 128 word option) \<Rightarrow> ip_net list \<Rightarrow> string \<Rightarrow> bool" where
  "is_trusted v6 nets ip =
     (case ParseIP v6 ip of None \<Rightarrow> False | Some a \<Rightarrow> list_ex (\<lambda>n. net_contains n a) nets)"

fun walk_hops :: "(string \<Rightarrow> bool) \<Rightarrow> string \<Rightarrow> string list \<Rightarrow> string" where
  "walk_hops trusted client [] = client"
| "walk_hops trusted client (hop # hops) =
     (if trusted client then walk_hops trusted hop hops else client)"

definition RealIP ::
  "(string \<Rightarrow> 128 word option) \<Rightarrow> string list \<Rightarrow> string \<Rightarrow> string \<Rightarrow> string" where
  "RealIP v6 trusted remoteAddr xffHeader =
     (let client = walk_hops (is_trusted v6 (parseNets v6 trusted)) (hostOnly remoteAddr) (rev (xff xffHeader))
      in if client = [] then hostOnly remoteAddr else client)"

section \<open>What the proxy sends on\<close>

text \<open>The headers of a request by canonical name; an absent header is the empty text.\<close>

type_synonym headers = "string \<Rightarrow> string"

definition hopByHopHeaders :: "string list" where
  "hopByHopHeaders = [''Connection'', ''Proxy-Connection'', ''Keep-Alive'', ''Proxy-Authenticate'',
     ''Proxy-Authorization'', ''Te'', ''Trailer'', ''Transfer-Encoding'', ''Upgrade'']"

text \<open>\<^verbatim>\<open>httputil.ReverseProxy\<close> drops the forwarding headers of the client before it calls the
  rewrite function.\<close>

definition forwardingHeaders :: "string list" where
  "forwardingHeaders = [''Forwarded'', ''X-Forwarded-For'', ''X-Forwarded-Host'', ''X-Forwarded-Proto'']"

definition rewrite_headers :: "string \<Rightarrow> headers \<Rightarrow> headers" where
  "rewrite_headers ip h0 =
     (let h = (\<lambda>k. if k \<in> set (forwardingHeaders @ hopByHopHeaders) then [] else h0 k) in
      if ip = [] then h
      else h(''X-Real-IP'' := ip, ''X-Forwarded-For'' := ip, ''X-Forwarded-Proto'' := ''https''))"

section \<open>The client of a request at the daemon\<close>

definition first_forwarded :: "string \<Rightarrow> string" where
  "first_forwarded v = (case cut_at (CHR '','') v of Some (a, _) \<Rightarrow> a | None \<Rightarrow> v)"

definition header_client :: "(string \<Rightarrow> 128 word option) \<Rightarrow> headers \<Rightarrow> string \<Rightarrow> string option" where
  "header_client v6 h hdr =
     (if h hdr = [] then None
      else (let v = trim_space (if hdr = ''X-Forwarded-For'' then first_forwarded (h hdr) else h hdr)
            in if ParseIP v6 v \<noteq> None then Some v else None))"

definition realIPFromTrusted ::
  "(string \<Rightarrow> 128 word option) \<Rightarrow> ip_net list \<Rightarrow> string \<Rightarrow> headers \<Rightarrow> string" where
  "realIPFromTrusted v6 nets remoteAddr h =
     (let remoteIP = (case SplitHostPort remoteAddr of Some (a, _) \<Rightarrow> a | None \<Rightarrow> remoteAddr) in
      if \<not> is_trusted v6 nets remoteIP then []
      else (case List.map_filter (header_client v6 h) [''True-Client-IP'', ''X-Real-IP'', ''X-Forwarded-For''] of
              [] \<Rightarrow> []
            | v # _ \<Rightarrow> v))"

definition trustedProxyCIDRs :: "string list" where
  "trustedProxyCIDRs = [''127.0.0.1/8'', ''::1/128'', ''10.0.0.0/8'', ''172.16.0.0/12'', ''192.168.0.0/16'']"

definition trustedRealIP :: "(string \<Rightarrow> 128 word option) \<Rightarrow> string \<Rightarrow> headers \<Rightarrow> string" where
  "trustedRealIP v6 remoteAddr h =
     (let rip = realIPFromTrusted v6 (parseNets v6 trustedProxyCIDRs) remoteAddr h
      in if rip = [] then remoteAddr else rip)"

section \<open>Facts\<close>

lemma walk_hops_append:
  "walk_hops t c (xs @ ys) = (if list_all t (butlast (c # xs)) then walk_hops t (last (c # xs)) ys else walk_hops t c xs)"
  by (induction xs arbitrary: c) auto

lemma walk_hops_trusted:
  "t c \<Longrightarrow> list_all t xs \<Longrightarrow> \<not> t u \<Longrightarrow> walk_hops t c (xs @ u # ys) = u"
  by (induction xs arbitrary: c) (simp_all, cases ys, simp_all)

lemma RealIP_walk:
  assumes "xff h = ys @ u # ts" "\<not> is_trusted v6 (parseNets v6 trusted) u"
    and "is_trusted v6 (parseNets v6 trusted) (hostOnly remote)"
    and "list_all (is_trusted v6 (parseNets v6 trusted)) ts"
  shows "RealIP v6 trusted remote h = u"
proof -
  have "u \<in> set (xff h)" using assms(1) by simp
  then have "u \<noteq> []" by (simp add: xff_def)
  then show ?thesis
    using assms walk_hops_trusted [of "is_trusted v6 (parseNets v6 trusted)" "hostOnly remote" "rev ts" u "rev ys"]
    by (simp add: RealIP_def)
qed

lemma split_at_append_any: "split_at c (s @ c # t) = split_at c s @ split_at c t"
  by (induction s) (auto split: list.splits)

lemma xff_append: "xff (p @ '','' @ h) = xff p @ xff h"
  by (simp add: xff_def split_at_append_any)

lemma walk_hops_untrusted: "\<not> t c \<Longrightarrow> walk_hops t c hops = c"
  by (cases hops) simp_all

text \<open>An address of Docker's default pool and one from outside.\<close>

lemma demo_addresses:
  "ParseIP v6 ''10.0.1.5'' = Some (V4 0x0A000105)" "ParseIP v6 ''203.0.113.9'' = Some (V4 0xCB007109)"
  "ParseIP v6 ''8.8.8.8'' = Some (V4 0x08080808)" "ParseCIDR v6 ''10.0.0.0/8'' = Some (V4 0x0A000000, 8)"
  "SplitHostPort ''10.0.1.5:4000'' = Some (''10.0.1.5'', ''4000'')"
  by (simp_all add: ParseIP_def ParseCIDR_def parse_ip4_def octet_def SplitHostPort_def has_prefix_def cut_at_def
      digits_val_def char_classes less_eq_char_def)

lemma demo_trim: "trim_space ''203.0.113.9'' = ''203.0.113.9''" "trim_space ''8.8.8.8'' = ''8.8.8.8''"
  "trim_space ''10.0.1.5'' = ''10.0.1.5''"
  by code_simp+

lemma demo_trusted: "is_trusted v6 (parseNets v6 [''10.0.0.0/8'']) ''10.0.1.5''"
    "\<not> is_trusted v6 (parseNets v6 [''10.0.0.0/8'']) ''203.0.113.9''"
  by (simp_all add: is_trusted_def parseNets_def demo_addresses List.map_filter_def)

lemma trusted_default: "is_trusted v6 (parseNets v6 trustedProxyCIDRs) ''10.0.1.5''"
proof -
  have "(V4 0x0A000000, 8) \<in> set (parseNets v6 trustedProxyCIDRs)"
    using demo_addresses(4) [of v6]
    by (auto simp: parseNets_def List.map_filter_def trustedProxyCIDRs_def image_iff)
  then show ?thesis by (force simp: is_trusted_def demo_addresses list_ex_iff)
qed

section \<open>Properties\<close>

text \<open>A client cannot choose the address the edge takes it for: whatever it puts in
  the forwarding header, the answer is the peer's own address when the peer is not a trusted
  proxy, and otherwise the rightmost hop that is not one, which the proxies themselves added.\<close>

theorem realip_ignores_forged_hops:
  fixes v6 trusted
  defines "T \<equiv> is_trusted v6 (parseNets v6 trusted)"
  assumes "xff h = u # ts" "\<not> T u" "list_all T ts"
  shows "RealIP v6 trusted remote (forged @ '','' @ h) = (if T (hostOnly remote) then u else hostOnly remote)"
proof (cases "T (hostOnly remote)")
  case True
  have "xff (forged @ '','' @ h) = xff forged @ u # ts" by (simp only: xff_append assms(2))
  then show ?thesis using RealIP_walk assms True by (auto simp: T_def)
next
  case False
  then show ?thesis by (simp add: RealIP_def walk_hops_untrusted T_def [symmetric])
qed

theorem realip_ignores_forged_hops_witness:
  "RealIP (\<lambda>_. None) [''10.0.0.0/8''] ''10.0.1.5:4000'' (''8.8.8.8'' @ '','' @ ''203.0.113.9'') = ''203.0.113.9''"
proof -
  have "xff ''203.0.113.9'' = [''203.0.113.9'']"
    by (simp add: xff_def split_at_no demo_trim(1))
  then show ?thesis
    using realip_ignores_forged_hops [of "''203.0.113.9''" "''203.0.113.9''" "[]" "(\<lambda>_. None)" "[''10.0.0.0/8'']"
        "''10.0.1.5:4000''" "''8.8.8.8''"] demo_trusted [of "(\<lambda>_. None)"]
    by (simp add: hostOnly_def demo_addresses)
qed

text \<open>The daemon behind the edge takes the client's word all the same: the proxy
  overwrites two of the three headers the daemon reads, but not the one it reads first, so a
  request with a \<^verbatim>\<open>True-Client-IP\<close> header arrives under the address the client wrote there.\<close>

theorem daemon_trusts_client_header:
  assumes "is_trusted v6 (parseNets v6 trustedProxyCIDRs)
      (case SplitHostPort peer of Some (a, _) \<Rightarrow> a | None \<Rightarrow> peer)"
    and "ParseIP v6 client \<noteq> None" "trim_space client = client" "client \<noteq> []"
  shows "trustedRealIP v6 peer (rewrite_headers client h) =
    (if h ''True-Client-IP'' = [] \<or> ParseIP v6 (trim_space (h ''True-Client-IP'')) = None then client
     else trim_space (h ''True-Client-IP''))"
proof -
  have t: "rewrite_headers client h ''True-Client-IP'' = h ''True-Client-IP''"
    "rewrite_headers client h ''X-Real-IP'' = client"
    using assms(4) by (simp_all add: rewrite_headers_def Let_def hopByHopHeaders_def forwardingHeaders_def)
  have "ParseIP v6 [] = None" by (simp add: ParseIP_def)
  then show ?thesis
    using assms t by (auto simp: trustedRealIP_def realIPFromTrusted_def header_client_def Let_def
        List.map_filter_def)
qed

theorem daemon_trusts_client_header_witness:
  "trustedRealIP (\<lambda>_. None) ''10.0.1.5:4000'' (rewrite_headers ''203.0.113.9'' ((\<lambda>_. [])(''True-Client-IP'' := ''8.8.8.8'')))
     = ''8.8.8.8''"
  using daemon_trusts_client_header [of "(\<lambda>_. None)" "''10.0.1.5:4000''" "''203.0.113.9''" "(\<lambda>_. [])(''True-Client-IP'' := ''8.8.8.8'')"]
  by (simp add: demo_addresses trusted_default demo_trim)

end
