(* ===== verification/Edge_Proxy.thy ===== *)
theory Edge_Proxy
  imports Edge_Net
begin

text \<open>
  The protection stack of the edge proxy (\<^verbatim>\<open>internal/edgeproxy\<close>): the per-address rate limiter
  (\<^verbatim>\<open>ratelimit.go\<close>), the blocklist and the automatic bans (\<^verbatim>\<open>blocklist.go\<close>), the connection shield
  (\<^verbatim>\<open>shield.go\<close>) and the order in which \<^verbatim>\<open>New\<close> (\<^verbatim>\<open>proxy.go\<close>) chains them.  The token bucket of
  \<^verbatim>\<open>golang.org/x/time/rate\<close> is a pair of parameters: a fresh bucket and \<^verbatim>\<open>allow\<close>, which takes the
  time.  Requests interleave between any two critical sections, so the state machine has a step for
  each: the lookup of the ban, the slot of the shield, the limiter, the answer of the daemon, the
  count of a failure, the ban, the deletion of the counter, the release of the slot.  Times are
  nanoseconds.
\<close>

section \<open>Configuration and state\<close>

record edge_config =
  ecTrusted :: "string list"
  ecAllowed :: "string list"
  ecBanned :: "string list"
  ecMaxConcurrent :: int
  ecBanThreshold :: int
  ecBanDuration :: int

record 'l limiter_lib =
  llAPI :: 'l
  llWebhook :: 'l
  llAllow :: "int \<Rightarrow> 'l \<Rightarrow> bool \<times> 'l"

type_synonym 'l perIPLimiter = "string \<Rightarrow> ('l \<times> int) option"

text \<open>A request that got past the blocklist waits for a slot; with a slot it goes through these
  phases, and other requests can take a step between any two of them.\<close>

datatype edge_phase =
    Limiting string
  | Proxied
  | Answered int
  | Banning
  | Clearing
  | Leaving

record 'l edge =
  edUntil :: "string \<Rightarrow> int option"
  edFails :: "string \<Rightarrow> int"
  edAPI :: "'l perIPLimiter"
  edWebhook :: "'l perIPLimiter"
  edChecked :: "(nat \<times> string \<times> string) list"
  edInflight :: "(nat \<times> string \<times> edge_phase) list"

definition new_edge :: "'l edge" where
  "new_edge = \<lparr> edUntil = (\<lambda>_. None), edFails = (\<lambda>_. 0), edAPI = (\<lambda>_. None), edWebhook = (\<lambda>_. None),
     edChecked = [], edInflight = [] \<rparr>"

section \<open>Rate limits\<close>

definition limiter_allow ::
  "'l \<Rightarrow> (int \<Rightarrow> 'l \<Rightarrow> bool \<times> 'l) \<Rightarrow> int \<Rightarrow> int \<Rightarrow> string \<Rightarrow> 'l perIPLimiter \<Rightarrow> bool \<times> 'l perIPLimiter" where
  "limiter_allow fresh allow idleTTL now ip m =
     (let (lim, m1) = (case m ip of
             Some (lim, _) \<Rightarrow> (lim, m)
           | None \<Rightarrow>
              (fresh, (if 0 < idleTTL
                       then (\<lambda>k. case m k of
                                   Some (l, seen) \<Rightarrow> if idleTTL < now - seen then None else Some (l, seen)
                                 | None \<Rightarrow> None)
                       else m)));
          (ok, lim') = allow now lim
      in (ok, m1(ip \<mapsto> (lim', now))))"

definition pathHasPrefix :: "string \<Rightarrow> string \<Rightarrow> bool" where
  "pathHasPrefix p pre =
     (if pre = [] then False
      else if p = pre then True
      else length pre < length p \<and> take (length pre) p = pre \<and> p ! length pre = CHR ''/'')"

text \<open>Ten minutes.\<close>

definition limiter_ttl :: int where "limiter_ttl = 600 * 10 ^ 9"

definition rate_limit ::
  "'l limiter_lib \<Rightarrow> int \<Rightarrow> string \<Rightarrow> string \<Rightarrow> 'l edge \<Rightarrow> bool \<times> 'l edge" where
  "rate_limit lib now ip path st =
     (if pathHasPrefix path ''/health'' then (True, st)
      else if ip = [] then (True, st)
      else if pathHasPrefix path ''/webhook''
      then (let (ok, m) = limiter_allow (llWebhook lib) (llAllow lib) limiter_ttl now ip (edWebhook st)
            in (ok, st\<lparr> edWebhook := m \<rparr>))
      else (let (ok, m) = limiter_allow (llAPI lib) (llAllow lib) limiter_ttl now ip (edAPI st)
            in (ok, st\<lparr> edAPI := m \<rparr>)))"

section \<open>Bans\<close>

definition ban_banned :: "int \<Rightarrow> string \<Rightarrow> (string \<Rightarrow> int option) \<Rightarrow> bool \<times> (string \<Rightarrow> int option)" where
  "ban_banned now ip until =
     (case until ip of
        None \<Rightarrow> (False, until)
      | Some exp \<Rightarrow> if exp < now then (False, until(ip := None)) else (True, until))"

definition isBlocked ::
  "(string \<Rightarrow> 128 word option) \<Rightarrow> edge_config \<Rightarrow> int \<Rightarrow> string \<Rightarrow> (string \<Rightarrow> int option) \<Rightarrow>
     bool \<times> (string \<Rightarrow> int option)" where
  "isBlocked v6 cfg now ip until =
     (let (banned, until') = ban_banned now ip until in
      (if banned then True
       else (case ParseIP v6 ip of
               None \<Rightarrow> True
             | Some a \<Rightarrow>
                 if list_ex (\<lambda>d. net_contains d a) (parseNets v6 (ecBanned cfg)) then True
                 else if parseNets v6 (ecAllowed cfg) \<noteq> []
                 then \<not> list_ex (\<lambda>n. net_contains n a) (parseNets v6 (ecAllowed cfg))
                 else False),
       until'))"

definition ban :: "int \<Rightarrow> string \<Rightarrow> int \<Rightarrow> (string \<Rightarrow> int option) \<Rightarrow> (string \<Rightarrow> int option)" where
  "ban now ip d until = until(ip \<mapsto> now + d)"

text \<open>\<^verbatim>\<open>recordFailure\<close> is three critical sections: it counts under one lock, bans under the
  lock of the ban store, and takes the first lock again to delete the counter.\<close>

definition count_failure :: "string \<Rightarrow> 'l edge \<Rightarrow> int \<times> 'l edge" where
  "count_failure ip st = (let fails = (edFails st)(ip := edFails st ip + 1) in (fails ip, st\<lparr> edFails := fails \<rparr>))"

definition store_ban :: "edge_config \<Rightarrow> int \<Rightarrow> string \<Rightarrow> 'l edge \<Rightarrow> 'l edge" where
  "store_ban cfg now ip st = st\<lparr> edUntil := ban now ip (ecBanDuration cfg) (edUntil st) \<rparr>"

definition clear_failures :: "string \<Rightarrow> 'l edge \<Rightarrow> 'l edge" where
  "clear_failures ip st = st\<lparr> edFails := (edFails st)(ip := 0) \<rparr>"

text \<open>The three run one after the other, as in a request that is alone at the edge.\<close>

definition recordFailure :: "edge_config \<Rightarrow> int \<Rightarrow> string \<Rightarrow> 'l edge \<Rightarrow> 'l edge" where
  "recordFailure cfg now ip st =
     (if ecBanThreshold cfg \<le> 0 then st
      else (let (n, st1) = count_failure ip st in
            if ecBanThreshold cfg \<le> n then clear_failures ip (store_ban cfg now ip st1) else st1))"

definition isFailureStatus :: "int \<Rightarrow> bool" where
  "isFailureStatus status \<longleftrightarrow> status = 429 \<or> status = 401 \<or> status = 403"

definition autoban_after :: "edge_config \<Rightarrow> int \<Rightarrow> string \<Rightarrow> int \<Rightarrow> 'l edge \<Rightarrow> 'l edge" where
  "autoban_after cfg now ip status st =
     (if ip \<noteq> [] \<and> isFailureStatus status then recordFailure cfg now ip st else st)"

section \<open>The chain\<close>

record edge_request =
  erRemote :: string
  erForwarded :: string
  erPath :: string

definition shield_full :: "edge_config \<Rightarrow> 'l edge \<Rightarrow> bool" where
  "shield_full cfg st \<longleftrightarrow> 0 < ecMaxConcurrent cfg \<and> ecMaxConcurrent cfg \<le> int (length (edInflight st))"

definition set_phase :: "nat \<Rightarrow> edge_phase \<Rightarrow> 'l edge \<Rightarrow> 'l edge" where
  "set_phase rid ph st =
     st\<lparr> edInflight := map (\<lambda>(r, ip, p). if r = rid then (r, ip, ph) else (r, ip, p)) (edInflight st) \<rparr>"

text \<open>The steps of a request under its own number: the blocklist refuses it with 403 or lets it
  wait for a slot; the shield refuses it with 503 or gives it one; the rate limiter answers 429 or
  passes it on; the daemon answers, or the handler panics; the failure is counted; the address is
  banned; the counter is deleted; the slot is given back.\<close>

definition edge_check ::
  "(string \<Rightarrow> 128 word option) \<Rightarrow> edge_config \<Rightarrow> int \<Rightarrow> nat \<Rightarrow> edge_request \<Rightarrow> 'l edge \<Rightarrow> int option \<times> 'l edge" where
  "edge_check v6 cfg now rid rq st =
     (let ip = RealIP v6 (ecTrusted cfg) (erRemote rq) (erForwarded rq);
          (blocked, until) = isBlocked v6 cfg now (if ip = [] then hostOnly (erRemote rq) else ip) (edUntil st);
          st1 = st\<lparr> edUntil := until \<rparr>
      in if blocked then (Some 403, st1)
         else (None, st1\<lparr> edChecked := edChecked st1 @ [(rid, ip, erPath rq)] \<rparr>))"

definition edge_acquire :: "edge_config \<Rightarrow> nat \<Rightarrow> 'l edge \<Rightarrow> int option \<times> 'l edge" where
  "edge_acquire cfg rid st =
     (case map_of (edChecked st) rid of
        None \<Rightarrow> (None, st)
      | Some (ip, path) \<Rightarrow>
          (let st1 = st\<lparr> edChecked := filter (\<lambda>r. fst r \<noteq> rid) (edChecked st) \<rparr>
           in if shield_full cfg st1 then (Some 503, st1)
              else (None, st1\<lparr> edInflight := edInflight st1 @ [(rid, ip, Limiting path)] \<rparr>)))"

definition edge_limit :: "'l limiter_lib \<Rightarrow> int \<Rightarrow> nat \<Rightarrow> 'l edge \<Rightarrow> 'l edge" where
  "edge_limit lib now rid st =
     (case map_of (edInflight st) rid of
        Some (ip, Limiting path) \<Rightarrow>
          (let (ok, st1) = rate_limit lib now ip path st
           in set_phase rid (if ok then Proxied else Answered 429) st1)
      | _ \<Rightarrow> st)"

definition edge_answer :: "nat \<Rightarrow> int \<Rightarrow> 'l edge \<Rightarrow> 'l edge" where
  "edge_answer rid status st =
     (case map_of (edInflight st) rid of
        Some (ip, Proxied) \<Rightarrow> set_phase rid (Answered status) st
      | _ \<Rightarrow> st)"

definition edge_panic :: "nat \<Rightarrow> 'l edge \<Rightarrow> 'l edge" where
  "edge_panic rid st =
     (case map_of (edInflight st) rid of
        Some (ip, Proxied) \<Rightarrow> set_phase rid Leaving st
      | _ \<Rightarrow> st)"

definition edge_count :: "edge_config \<Rightarrow> nat \<Rightarrow> 'l edge \<Rightarrow> 'l edge" where
  "edge_count cfg rid st =
     (case map_of (edInflight st) rid of
        Some (ip, Answered status) \<Rightarrow>
          if ip \<noteq> [] \<and> isFailureStatus status \<and> 0 < ecBanThreshold cfg
          then (let (n, st1) = count_failure ip st
                in set_phase rid (if ecBanThreshold cfg \<le> n then Banning else Leaving) st1)
          else set_phase rid Leaving st
      | _ \<Rightarrow> st)"

definition edge_ban :: "edge_config \<Rightarrow> int \<Rightarrow> nat \<Rightarrow> 'l edge \<Rightarrow> 'l edge" where
  "edge_ban cfg now rid st =
     (case map_of (edInflight st) rid of
        Some (ip, Banning) \<Rightarrow> set_phase rid Clearing (store_ban cfg now ip st)
      | _ \<Rightarrow> st)"

definition edge_clear :: "nat \<Rightarrow> 'l edge \<Rightarrow> 'l edge" where
  "edge_clear rid st =
     (case map_of (edInflight st) rid of
        Some (ip, Clearing) \<Rightarrow> set_phase rid Leaving (clear_failures ip st)
      | _ \<Rightarrow> st)"

definition edge_leave :: "nat \<Rightarrow> 'l edge \<Rightarrow> 'l edge" where
  "edge_leave rid st =
     (case map_of (edInflight st) rid of
        Some (ip, Leaving) \<Rightarrow> st\<lparr> edInflight := filter (\<lambda>r. fst r \<noteq> rid) (edInflight st) \<rparr>
      | _ \<Rightarrow> st)"

inductive edge_step ::
  "(string \<Rightarrow> 128 word option) \<Rightarrow> edge_config \<Rightarrow> 'l limiter_lib \<Rightarrow> 'l edge \<Rightarrow> 'l edge \<Rightarrow> bool"
  for v6 cfg lib where
  check: "rid \<notin> fst ` set (edChecked st) \<Longrightarrow> rid \<notin> fst ` set (edInflight st) \<Longrightarrow>
     edge_step v6 cfg lib st (snd (edge_check v6 cfg now rid rq st))"
| acquire: "edge_step v6 cfg lib st (snd (edge_acquire cfg rid st))"
| limit: "edge_step v6 cfg lib st (edge_limit lib now rid st)"
| answer: "edge_step v6 cfg lib st (edge_answer rid status st)"
| panic: "edge_step v6 cfg lib st (edge_panic rid st)"
| count: "edge_step v6 cfg lib st (edge_count cfg rid st)"
| ban_ip: "edge_step v6 cfg lib st (edge_ban cfg now rid st)"
| clear: "edge_step v6 cfg lib st (edge_clear rid st)"
| leave: "edge_step v6 cfg lib st (edge_leave rid st)"

text \<open>A request that is alone at the edge: its steps up to the daemon, all at one time.  The result
  is the status it is refused with, or None when the daemon has it.\<close>

definition edge_arrive ::
  "(string \<Rightarrow> 128 word option) \<Rightarrow> edge_config \<Rightarrow> 'l limiter_lib \<Rightarrow> int \<Rightarrow> nat \<Rightarrow> edge_request \<Rightarrow>
     'l edge \<Rightarrow> int option \<times> 'l edge" where
  "edge_arrive v6 cfg lib now rid rq st =
     (case edge_check v6 cfg now rid rq st of
        (Some status, st1) \<Rightarrow> (Some status, st1)
      | (None, st1) \<Rightarrow>
          (case edge_acquire cfg rid st1 of
             (Some status, st2) \<Rightarrow> (Some status, st2)
           | (None, st2) \<Rightarrow>
               (let st3 = edge_limit lib now rid st2 in
                case map_of (edInflight st3) rid of
                  Some (ip, Answered status) \<Rightarrow>
                    (Some status, edge_leave rid (edge_clear rid (edge_ban cfg now rid (edge_count cfg rid st3))))
                | _ \<Rightarrow> (None, st3))))"

inductive_cases edge_stepE: "edge_step v6 cfg lib st st'"

inductive edge_reachable ::
  "(string \<Rightarrow> 128 word option) \<Rightarrow> edge_config \<Rightarrow> 'l limiter_lib \<Rightarrow> 'l edge \<Rightarrow> bool"
  for v6 cfg lib where
  start: "edge_reachable v6 cfg lib new_edge"
| step: "edge_reachable v6 cfg lib st \<Longrightarrow> edge_step v6 cfg lib st st' \<Longrightarrow> edge_reachable v6 cfg lib st'"

section \<open>The daemon's own limiter\<close>

definition daemon_allow ::
  "'l \<Rightarrow> (int \<Rightarrow> 'l \<Rightarrow> bool \<times> 'l) \<Rightarrow> int \<Rightarrow> string \<Rightarrow> (string \<Rightarrow> 'l option) \<Rightarrow> bool \<times> (string \<Rightarrow> 'l option)" where
  "daemon_allow fresh allow now ip m =
     (let lim = (case m ip of Some l \<Rightarrow> l | None \<Rightarrow> fresh); (ok, lim') = allow now lim
      in (ok, m(ip \<mapsto> lim')))"

definition daemon_rateLimiter ::
  "'l limiter_lib \<Rightarrow> int \<Rightarrow> string \<Rightarrow> string \<Rightarrow> (string \<Rightarrow> 'l option) \<times> (string \<Rightarrow> 'l option) \<Rightarrow>
     bool \<times> (string \<Rightarrow> 'l option) \<times> (string \<Rightarrow> 'l option)" where
  "daemon_rateLimiter lib now remoteAddr path st =
     (if 8 \<le> length path \<and> take 8 path = ''/webhook''
      then (let (ok, m) = daemon_allow (llWebhook lib) (llAllow lib) now remoteAddr (snd st) in (ok, fst st, m))
      else (let (ok, m) = daemon_allow (llAPI lib) (llAllow lib) now remoteAddr (fst st) in (ok, m, snd st)))"

definition requestKind :: "string \<Rightarrow> string" where
  "requestKind path =
     (if has_prefix path ''/webhook/'' then ''webhook''
      else if has_prefix path ''/api/'' then ''api''
      else if path = ''/health'' then ''health''
      else ''other'')"

section \<open>Facts\<close>

lemma rate_limit_keeps:
  "rate_limit lib now ip path st = (ok, st') \<Longrightarrow>
     edInflight st' = edInflight st \<and> edChecked st' = edChecked st \<and> edUntil st' = edUntil st \<and> edFails st' = edFails st"
  by (auto simp: rate_limit_def Let_def split: if_splits prod.splits)

lemmas recording = recordFailure_def count_failure_def store_ban_def clear_failures_def ban_def

text \<open>The requests of an address whose count has reached the threshold and which have still to ban
  it or to delete its counter.\<close>

definition pends :: "string \<Rightarrow> nat \<times> string \<times> edge_phase \<Rightarrow> bool" where
  "pends ip r \<longleftrightarrow> fst (snd r) = ip \<and> (snd (snd r) = Banning \<or> snd (snd r) = Clearing)"

definition pending :: "string \<Rightarrow> 'l edge \<Rightarrow> int" where
  "pending ip st = int (length (filter (pends ip) (edInflight st)))"

lemma pends_simps [simp]:
  "pends k (r, ip, Banning) \<longleftrightarrow> ip = k" "pends k (r, ip, Clearing) \<longleftrightarrow> ip = k"
  "\<not> pends k (r, ip, Limiting p)" "\<not> pends k (r, ip, Proxied)" "\<not> pends k (r, ip, Answered s)"
  "\<not> pends k (r, ip, Leaving)"
  by (auto simp: pends_def)

lemma phase_absent:
  "r \<notin> fst ` set xs \<Longrightarrow> map (\<lambda>(q, ip, p). if q = r then (q, ip, ph) else (q, ip, p)) xs = xs"
  by (induction xs) auto

lemma pending_update:
  "distinct (map fst xs) \<Longrightarrow> map_of xs rid = Some (ip, p) \<Longrightarrow>
     int (length (filter (pends k) (map (\<lambda>(r, a, q). if r = rid then (r, a, ph) else (r, a, q)) xs))) =
     int (length (filter (pends k) xs)) + (if pends k (rid, ip, ph) then 1 else 0) - (if pends k (rid, ip, p) then 1 else 0)"
proof (induction xs)
  case (Cons x xs)
  obtain r a q where x: "x = (r, a, q)" by (cases x)
  show ?case
  proof (cases "r = rid")
    case True
    then show ?thesis using Cons.prems phase_absent [of rid xs ph] by (simp add: x del: length_filter_map)
  next
    case False
    then show ?thesis using Cons by (simp add: x del: length_filter_map split: if_splits)
  qed
qed simp

lemma phase_fst [simp]: "map fst (map (\<lambda>(r, a, q). if r = rid then (r, a, ph) else (r, a, q)) xs) = map fst xs"
  by (induction xs) auto

text \<open>A counter exceeds the last value below the threshold by at most one for each request that has
  still to act on it, and with no threshold nothing is counted and nobody is banned.\<close>

definition edge_inv :: "edge_config \<Rightarrow> 'l edge \<Rightarrow> bool" where
  "edge_inv cfg st \<longleftrightarrow>
     distinct (map fst (edInflight st)) \<and>
     distinct (map fst (edChecked st)) \<and>
     fst ` set (edChecked st) \<inter> fst ` set (edInflight st) = {} \<and>
     (0 < ecMaxConcurrent cfg \<longrightarrow> int (length (edInflight st)) \<le> ecMaxConcurrent cfg) \<and>
     (\<forall>ip. 0 \<le> edFails st ip) \<and>
     (if ecBanThreshold cfg \<le> 0 then (\<forall>ip. edFails st ip = 0 \<and> edUntil st ip = None \<and> pending ip st = 0)
      else (\<forall>ip. edFails st ip < ecBanThreshold cfg + pending ip st))"

lemma ban_banned_None: "ban_banned now ip until = (b, until') \<Longrightarrow> until k = None \<Longrightarrow> until' k = None"
  by (auto simp: ban_banned_def split: option.splits if_splits)

lemma isBlocked_None: "isBlocked v6 cfg now ip until = (b, until') \<Longrightarrow> until k = None \<Longrightarrow> until' k = None"
  by (auto simp: isBlocked_def Let_def dest: ban_banned_None split: prod.splits)

lemma pending_nonneg: "0 \<le> pending ip st"
  by (simp add: pending_def)

lemma pending_phase:
  assumes "edge_inv cfg st" "map_of (edInflight st) rid = Some (ip, p)" "edInflight st' = edInflight st"
  shows "pending k (set_phase rid ph st') =
    pending k st + (if pends k (rid, ip, ph) then 1 else 0) - (if pends k (rid, ip, p) then 1 else 0)"
  using pending_update [OF _ assms(2), of k ph] assms(1,3) by (simp add: pending_def set_phase_def edge_inv_def)

lemma set_phase_simps [simp]:
  "map fst (edInflight (set_phase rid ph st)) = map fst (edInflight st)"
  "fst ` set (edInflight (set_phase rid ph st)) = fst ` set (edInflight st)"
  "length (edInflight (set_phase rid ph st)) = length (edInflight st)"
  "edChecked (set_phase rid ph st) = edChecked st"
  "edFails (set_phase rid ph st) = edFails st" "edUntil (set_phase rid ph st) = edUntil st"
  using phase_fst [of rid ph "edInflight st"] by (simp_all add: set_phase_def flip: set_map del: map_map)

text \<open>A request that changes its phase changes at most the counters and the bans.\<close>

lemma phase_inv:
  assumes "edge_inv cfg st" "map_of (edInflight st) rid = Some (ip, p)"
    and "edInflight st' = edInflight st" "edChecked st' = edChecked st"
    and "\<forall>k. 0 \<le> edFails st' k"
    and "if ecBanThreshold cfg \<le> 0
         then (\<forall>k. edFails st' k = 0 \<and> edUntil st' k = None \<and> pending k (set_phase rid ph st') = 0)
         else (\<forall>k. edFails st' k < ecBanThreshold cfg + pending k (set_phase rid ph st'))"
  shows "edge_inv cfg (set_phase rid ph st')"
  unfolding edge_inv_def set_phase_simps assms(3,4)
  using assms(1,5,6) by (simp add: edge_inv_def)

lemma no_pending: "edge_inv cfg st \<Longrightarrow> ecBanThreshold cfg \<le> 0 \<Longrightarrow> r \<in> set (edInflight st) \<Longrightarrow> \<not> pends k r"
  by (auto simp: edge_inv_def pending_def filter_empty_conv)

lemma quiet_phase_inv:
  assumes "edge_inv cfg st" "map_of (edInflight st) rid = Some (ip, p)"
    and "edInflight st' = edInflight st" "edChecked st' = edChecked st" "edFails st' = edFails st" "edUntil st' = edUntil st"
    and "\<And>k. pends k (rid, ip, ph) = pends k (rid, ip, p)"
  shows "edge_inv cfg (set_phase rid ph st')"
  using assms(1) by (intro phase_inv [OF assms(1,2,3,4)]) (auto simp: edge_inv_def pending_phase [OF assms(1,2,3)] assms(5-7))

lemma edge_inv_until:
  "edge_inv cfg st \<Longrightarrow> (\<And>k. edUntil st k = None \<Longrightarrow> until k = None) \<Longrightarrow> edge_inv cfg (st\<lparr> edUntil := until \<rparr>)"
  by (auto simp: edge_inv_def pending_def)

lemma check_inv:
  assumes "edge_inv cfg st" "rid \<notin> fst ` set (edChecked st)" "rid \<notin> fst ` set (edInflight st)"
  shows "edge_inv cfg (snd (edge_check v6 cfg now rid rq st))"
proof -
  let ?ip = "RealIP v6 (ecTrusted cfg) (erRemote rq) (erForwarded rq)"
  obtain b until where b: "isBlocked v6 cfg now (if ?ip = [] then hostOnly (erRemote rq) else ?ip) (edUntil st) = (b, until)"
    by fastforce
  have "edge_inv cfg (st\<lparr> edUntil := until \<rparr>)"
    using isBlocked_None [OF b] by (intro edge_inv_until [OF assms(1)]) simp
  then show ?thesis
    using assms(2,3) by (simp add: edge_check_def Let_def b edge_inv_def pending_def split: if_splits)
qed

lemma acquire_inv:
  assumes "edge_inv cfg st"
  shows "edge_inv cfg (snd (edge_acquire cfg rid st))"
proof (cases "map_of (edChecked st) rid")
  case None
  then show ?thesis using assms by (simp add: edge_acquire_def)
next
  case (Some c)
  obtain ip path where c: "c = (ip, path)" by (cases c)
  have m: "rid \<in> fst ` set (edChecked st)" using Some map_of_SomeD by force
  then have n: "rid \<notin> fst ` set (edInflight st)" using assms by (auto simp: edge_inv_def)
  show ?thesis
    using assms n by (auto simp: edge_acquire_def Some c Let_def edge_inv_def pending_def shield_full_def
        distinct_map_filter split: if_splits)
qed

lemma limit_inv: "edge_inv cfg st \<Longrightarrow> edge_inv cfg (edge_limit lib now rid st)"
  by (auto simp: edge_limit_def intro!: quiet_phase_inv dest: rate_limit_keeps
      split: option.split edge_phase.split prod.split)

lemma answer_inv: "edge_inv cfg st \<Longrightarrow> edge_inv cfg (edge_answer rid status st)"
  by (auto simp: edge_answer_def intro!: quiet_phase_inv split: option.split edge_phase.split)

lemma panic_inv: "edge_inv cfg st \<Longrightarrow> edge_inv cfg (edge_panic rid st)"
  by (auto simp: edge_panic_def intro!: quiet_phase_inv split: option.split edge_phase.split)

lemma count_inv:
  assumes "edge_inv cfg st"
  shows "edge_inv cfg (edge_count cfg rid st)"
proof -
  have "edge_inv cfg (set_phase rid ph (snd (count_failure ip st)))"
    if m: "map_of (edInflight st) rid = Some (ip, Answered status)" and t: "0 < ecBanThreshold cfg"
      and ph: "ph = (if ecBanThreshold cfg \<le> fst (count_failure ip st) then Banning else Leaving)" for ip status ph
  proof (rule phase_inv [OF assms m])
    have "edFails st k < ecBanThreshold cfg + pending k st" for k
      using assms t by (simp add: edge_inv_def)
    then show "if ecBanThreshold cfg \<le> 0
       then \<forall>k. edFails (snd (count_failure ip st)) k = 0 \<and> edUntil (snd (count_failure ip st)) k = None \<and>
             pending k (set_phase rid ph (snd (count_failure ip st))) = 0
       else \<forall>k. edFails (snd (count_failure ip st)) k
             < ecBanThreshold cfg + pending k (set_phase rid ph (snd (count_failure ip st)))"
      using t pending_phase [OF assms m, of "snd (count_failure ip st)"] pending_nonneg [of ip st]
      by (auto simp: count_failure_def Let_def ph)
  qed (use assms in \<open>auto simp: count_failure_def Let_def edge_inv_def\<close>)
  moreover have "edge_inv cfg (set_phase rid Leaving st)" if "map_of (edInflight st) rid = Some (ip, Answered status)" for ip status
    by (rule quiet_phase_inv [OF assms that]) simp_all
  ultimately show ?thesis
    using assms by (auto simp: edge_count_def case_prod_unfold Let_def split: option.split edge_phase.split)
qed

lemma ban_inv:
  assumes "edge_inv cfg st"
  shows "edge_inv cfg (edge_ban cfg now rid st)"
proof -
  have "edge_inv cfg (set_phase rid Clearing (store_ban cfg now ip st))"
    if m: "map_of (edInflight st) rid = Some (ip, Banning)" for ip
  proof (rule phase_inv [OF assms m])
    have t: "0 < ecBanThreshold cfg" using no_pending [OF assms _ map_of_SomeD [OF m], of ip] by fastforce
    then show "if ecBanThreshold cfg \<le> 0
       then \<forall>k. edFails (store_ban cfg now ip st) k = 0 \<and> edUntil (store_ban cfg now ip st) k = None \<and>
             pending k (set_phase rid Clearing (store_ban cfg now ip st)) = 0
       else \<forall>k. edFails (store_ban cfg now ip st) k
             < ecBanThreshold cfg + pending k (set_phase rid Clearing (store_ban cfg now ip st))"
      using assms pending_phase [OF assms m, of "store_ban cfg now ip st"] by (auto simp: store_ban_def edge_inv_def)
  qed (use assms in \<open>auto simp: store_ban_def edge_inv_def\<close>)
  then show ?thesis using assms by (auto simp: edge_ban_def split: option.split edge_phase.split)
qed

lemma clear_inv:
  assumes "edge_inv cfg st"
  shows "edge_inv cfg (edge_clear rid st)"
proof -
  have "edge_inv cfg (set_phase rid Leaving (clear_failures ip st))"
    if m: "map_of (edInflight st) rid = Some (ip, Clearing)" for ip
  proof (rule phase_inv [OF assms m])
    have t: "0 < ecBanThreshold cfg" using no_pending [OF assms _ map_of_SomeD [OF m], of ip] by fastforce
    have "edFails st k < ecBanThreshold cfg + pending k st" for k using assms t by (simp add: edge_inv_def)
    then show "if ecBanThreshold cfg \<le> 0
       then \<forall>k. edFails (clear_failures ip st) k = 0 \<and> edUntil (clear_failures ip st) k = None \<and>
             pending k (set_phase rid Leaving (clear_failures ip st)) = 0
       else \<forall>k. edFails (clear_failures ip st) k
             < ecBanThreshold cfg + pending k (set_phase rid Leaving (clear_failures ip st))"
      using t pending_phase [OF assms m, of "clear_failures ip st"] pending_nonneg [of ip "set_phase rid Leaving (clear_failures ip st)"]
      by (auto simp: clear_failures_def intro: add_pos_nonneg)
  qed (use assms in \<open>auto simp: clear_failures_def edge_inv_def\<close>)
  then show ?thesis using assms by (auto simp: edge_clear_def split: option.split edge_phase.split)
qed

lemma pending_filter:
  "distinct (map fst xs) \<Longrightarrow> map_of xs rid = Some (ip, Leaving) \<Longrightarrow>
     length (filter (pends k) (filter (\<lambda>r. fst r \<noteq> rid) xs)) = length (filter (pends k) xs)"
proof (induction xs)
  case (Cons x xs)
  have "rid \<notin> fst ` set xs \<Longrightarrow> filter (\<lambda>r. fst r \<noteq> rid) xs = xs" by (auto simp: filter_id_conv)
  then show ?case using Cons by (cases x) (auto simp del: filter_filter)
qed simp

lemma leave_inv:
  assumes "edge_inv cfg st"
  shows "edge_inv cfg (edge_leave rid st)"
proof -
  let ?q = "filter (\<lambda>r. fst r \<noteq> rid) (edInflight st)"
  have "edge_inv cfg (st\<lparr> edInflight := ?q \<rparr>)" if m: "map_of (edInflight st) rid = Some (ip, Leaving)" for ip
  proof -
    have d: "distinct (map fst (edInflight st))" using assms by (simp add: edge_inv_def)
    have p: "pending k (st\<lparr> edInflight := ?q \<rparr>) = pending k st" for k
      using pending_filter [OF d m, of k] by (simp add: pending_def del: filter_filter)
    have "length ?q \<le> length (edInflight st)" by (rule length_filter_le)
    moreover have m2: "0 < ecMaxConcurrent cfg \<longrightarrow> int (length (edInflight st)) \<le> ecMaxConcurrent cfg"
      using assms by (simp add: edge_inv_def)
    ultimately have l: "0 < ecMaxConcurrent cfg \<longrightarrow> int (length ?q) \<le> ecMaxConcurrent cfg"
      by linarith
    have i: "fst ` set (edChecked st) \<inter> fst ` set ?q = {}" using assms by (auto simp: edge_inv_def)
    show ?thesis
      using assms l i by (simp add: edge_inv_def p distinct_map_filter)
  qed
  then show ?thesis using assms by (auto simp: edge_leave_def split: option.split edge_phase.split)
qed

lemma edge_step_inv: "edge_step v6 cfg lib st st' \<Longrightarrow> edge_inv cfg st \<Longrightarrow> edge_inv cfg st'"
  by (induction rule: edge_step.induct)
    (simp_all add: check_inv acquire_inv limit_inv answer_inv panic_inv count_inv ban_inv clear_inv leave_inv)

lemma reachable_inv: "edge_reachable v6 cfg lib st \<Longrightarrow> edge_inv cfg st"
proof (induction rule: edge_reachable.induct)
  case start
  then show ?case by (auto simp: edge_inv_def new_edge_def pending_def)
qed (simp add: edge_step_inv)

text \<open>The request that is alone at the edge takes the steps of the interleaved one.\<close>

lemma edge_arrive_reachable:
  assumes "edge_reachable v6 cfg lib st" "rid \<notin> fst ` set (edChecked st)" "rid \<notin> fst ` set (edInflight st)"
  shows "edge_reachable v6 cfg lib (snd (edge_arrive v6 cfg lib now rid rq st))"
proof -
  obtain r1 st1 where 1: "edge_check v6 cfg now rid rq st = (r1, st1)" by fastforce
  obtain r2 st2 where 2: "edge_acquire cfg rid st1 = (r2, st2)" by fastforce
  have s1: "edge_reachable v6 cfg lib st1"
    using edge_reachable.step [OF assms(1) edge_step.check [OF assms(2,3), of v6 cfg lib now rq]] by (simp add: 1)
  have s2: "edge_reachable v6 cfg lib st2"
    using edge_reachable.step [OF s1 edge_step.acquire, of rid] by (simp add: 2)
  have s3: "edge_reachable v6 cfg lib (edge_limit lib now rid st2)"
    by (rule edge_reachable.step [OF s2 edge_step.limit])
  have s4: "edge_reachable v6 cfg lib
      (edge_leave rid (edge_clear rid (edge_ban cfg now rid (edge_count cfg rid (edge_limit lib now rid st2)))))"
    by (rule edge_reachable.step [OF edge_reachable.step [OF edge_reachable.step [OF edge_reachable.step [OF s3
          edge_step.count] edge_step.ban_ip] edge_step.clear] edge_step.leave])
  show ?thesis
    using s1 s2 s3 s4 by (simp add: edge_arrive_def 1 2 Let_def split: option.split edge_phase.split prod.split)
qed

text \<open>A run of failures of one address, each with the time and status of the answer.\<close>

definition failures :: "edge_config \<Rightarrow> string \<Rightarrow> (int \<times> int) list \<Rightarrow> 'l edge \<Rightarrow> 'l edge" where
  "failures cfg ip ts st = fold (\<lambda>(t, status). autoban_after cfg t ip status) ts st"

lemma failures_snoc:
  "failures cfg ip (ts @ [(t, status)]) st = autoban_after cfg t ip status (failures cfg ip ts st)"
  by (simp add: failures_def)

lemma failures_other:
  "k \<noteq> ip \<Longrightarrow> edUntil (failures cfg ip ts st) k = edUntil st k \<and> edFails (failures cfg ip ts st) k = edFails st k"
proof (induction ts rule: rev_induct)
  case (snoc x ts)
  then show ?case
    by (cases x) (auto simp: failures_snoc autoban_after_def recording Let_def)
qed (simp add: failures_def)

lemma failures_count:
  assumes "0 < ecBanThreshold cfg" "ip \<noteq> []" "edFails st ip = 0" "edUntil st ip = None"
    and "list_all (\<lambda>(t, status). isFailureStatus status) ts" "int (length ts) < ecBanThreshold cfg"
  shows "edFails (failures cfg ip ts st) ip = int (length ts) \<and> edUntil (failures cfg ip ts st) ip = None"
  using assms(5,6)
proof (induction ts rule: rev_induct)
  case (snoc x ts)
  then have "edFails (failures cfg ip ts st) ip = int (length ts) \<and> edUntil (failures cfg ip ts st) ip = None"
    by simp
  then show ?case
    using snoc.prems assms(1,2) by (cases x) (auto simp: failures_snoc autoban_after_def recording Let_def)
qed (simp add: failures_def assms)

lemma arrive_banned:
  assumes "edUntil st ip = Some e" "now \<le> e" "ip \<noteq> []"
    and "RealIP v6 (ecTrusted cfg) (erRemote rq) (erForwarded rq) = ip"
  shows "edge_arrive v6 cfg lib now rid rq st = (Some 403, st)"
  using assms by (simp add: edge_arrive_def edge_check_def isBlocked_def ban_banned_def Let_def)

section \<open>Properties\<close>

text \<open>Property C17.  Whatever the interleaving of the requests' steps, also between the count, the
  ban and the deletion of the counter, every request in flight is counted once and no more are in
  flight than the shield allows.  Without a threshold no failure is counted and nobody is banned.
  With one, the counter of an address is below the threshold, plus one for each request that
  counted up to the threshold and has still to ban the address or to delete its counter; so once
  none of these is left it is below the threshold.\<close>

theorem edge_reachable_invariant:
  assumes "edge_reachable v6 cfg lib st"
  shows "distinct (map fst (edChecked st) @ map fst (edInflight st)) \<and>
    (0 < ecMaxConcurrent cfg \<longrightarrow> int (length (edInflight st)) \<le> ecMaxConcurrent cfg) \<and>
    (\<forall>ip. 0 \<le> edFails st ip) \<and>
    (if ecBanThreshold cfg \<le> 0 then (\<forall>ip. edFails st ip = 0 \<and> edUntil st ip = None)
     else (\<forall>ip. edFails st ip < ecBanThreshold cfg + pending ip st \<and> pending ip st \<le> int (length (edInflight st))))"
proof -
  have "pending ip st \<le> int (length (edInflight st))" for ip by (simp add: pending_def)
  then show ?thesis using reachable_inv [OF assms] by (auto simp: edge_inv_def)
qed

definition demo_edge :: edge_config where
  "demo_edge = \<lparr> ecTrusted = [''10.0.0.0/8''], ecAllowed = [], ecBanned = [], ecMaxConcurrent = 1,
     ecBanThreshold = 2, ecBanDuration = 600 \<rparr>"

definition demo_lib :: "nat limiter_lib" where
  "demo_lib = \<lparr> llAPI = 2, llWebhook = 1, llAllow = (\<lambda>_ n. (0 < n, n - 1)) \<rparr>"

definition demo_request :: edge_request where
  "demo_request = \<lparr> erRemote = ''203.0.113.9:1'', erForwarded = [], erPath = ''/health'' \<rparr>"

theorem edge_reachable_invariant_witness:
  "edge_reachable (\<lambda>_. None) demo_edge demo_lib (snd (edge_arrive (\<lambda>_. None) demo_edge demo_lib 5 1 demo_request new_edge)) \<and>
   length (edInflight (snd (edge_arrive (\<lambda>_. None) demo_edge demo_lib 5 1 demo_request new_edge))) \<le> 1"
proof -
  have r: "edge_reachable (\<lambda>_. None) demo_edge demo_lib (snd (edge_arrive (\<lambda>_. None) demo_edge demo_lib 5 1 demo_request new_edge))"
    by (rule edge_arrive_reachable [OF edge_reachable.start]) (simp_all add: new_edge_def)
  from edge_reachable_invariant [OF r] r show ?thesis by (simp add: demo_edge_def)
qed

text \<open>Property C18.  An address is banned by its threshold-th failure and not before, for the
  configured time, and no other address is affected.  While the ban lasts every request of the
  address is refused with 403, whatever its path: the health check is no exception.\<close>

theorem ban_after_threshold_failures:
  fixes t :: int and st :: "'l edge" and ip :: string
  assumes "0 < ecBanThreshold cfg" "ip \<noteq> []" "edFails st ip = 0" "edUntil st ip = None"
    and "list_all (\<lambda>(t, status). isFailureStatus status) ts" "isFailureStatus status"
    and "int (length ts) = ecBanThreshold cfg - 1"
  defines "before \<equiv> failures cfg ip ts st" and "after \<equiv> failures cfg ip (ts @ [(t, status)]) st"
  shows "edUntil before ip = None \<and> edUntil after ip = Some (t + ecBanDuration cfg) \<and> edFails after ip = 0 \<and>
    (\<forall>k. k \<noteq> ip \<longrightarrow> edUntil after k = edUntil st k \<and> edFails after k = edFails st k) \<and>
    (\<forall>now rid rq. now \<le> t + ecBanDuration cfg \<and> RealIP v6 (ecTrusted cfg) (erRemote rq) (erForwarded rq) = ip \<longrightarrow>
       edge_arrive v6 cfg lib now rid rq after = (Some 403, after))"
proof -
  have b: "edFails before ip = ecBanThreshold cfg - 1 \<and> edUntil before ip = None"
    using failures_count [OF assms(1-5)] assms(7) by (simp add: before_def)
  have a: "edUntil after ip = Some (t + ecBanDuration cfg) \<and> edFails after ip = 0"
    using b assms(1,2,6) by (simp add: after_def failures_snoc before_def [symmetric] autoban_after_def
        recording Let_def)
  have "\<forall>k. k \<noteq> ip \<longrightarrow> edUntil after k = edUntil st k \<and> edFails after k = edFails st k"
    unfolding after_def by (intro allI impI failures_other)
  then show ?thesis using a b arrive_banned [of after ip] assms(2) by auto
qed

theorem ban_after_threshold_failures_witness:
  "edge_arrive (\<lambda>_. None) demo_edge demo_lib 650 1 \<lparr> erRemote = ''203.0.113.9:1'', erForwarded = [], erPath = ''/health'' \<rparr>
     (failures demo_edge ''203.0.113.9'' ([(40, 401)] @ [(50, 429)]) new_edge)
   = (Some 403, failures demo_edge ''203.0.113.9'' ([(40, 401)] @ [(50, 429)]) new_edge)"
proof -
  have "SplitHostPort ''203.0.113.9:1'' = Some (''203.0.113.9'', ''1'')" by code_simp
  then have "RealIP (\<lambda>_. None) (ecTrusted demo_edge) ''203.0.113.9:1'' [] = ''203.0.113.9''"
    by (simp add: RealIP_def hostOnly_def xff_def trim_space_def trim_left.simps strip_first_def space_encodings_def)
  then show ?thesis
    using ban_after_threshold_failures [of demo_edge "''203.0.113.9''" new_edge "[(40, 401)]" 429 50 "(\<lambda>_. None)" demo_lib]
    by (simp add: demo_edge_def new_edge_def isFailureStatus_def)
qed

end
