(* ===== verification/Swarm_Client.thy ===== *)
theory Swarm_Client
  imports Go_Strings "HOL-Library.Word"
begin

text \<open>
  The port to the orchestrator (\<^verbatim>\<open>runtime/runtime.go\<close>) and its Docker adapter (\<^verbatim>\<open>docker/client.go\<close>).

  The Docker SDK is not in the repository: it is the record \<^verbatim>\<open>sdk\<close> of its calls over an unknown
  state \<^verbatim>\<open>'sw\<close> of the swarm.  The adapter turns it into a record \<^verbatim>\<open>client\<close>, the interface
  \<^verbatim>\<open>runtime.Client\<close> that the rest of the program uses.
\<close>

section \<open>The models of the port\<close>

type_synonym labels = "(string \<times> string) list"

record Spec =
  spName :: string
  spData :: string
  spLabels :: labels

record NetworkSpec =
  nsName :: string
  nsDriver :: string
  nsAttachable :: bool

record InspectResult =
  irLabels :: labels
  irData :: string

record Service =
  svID :: string
  svName :: string
  svStack :: string
  svReplicas :: "64 word"
  svDesired :: "64 word"
  svImage :: string
  svMode :: string
  svUpdatedAt :: int

record ServiceInspectResult =
  siID :: string
  siName :: string
  siImage :: string
  siLabels :: labels

record ServiceTask =
  stTaskID :: string
  stNode :: string
  stSlot :: int
  stState :: string
  stError :: string
  stStartedAt :: int
  stFinishedAt :: int

record LogLine =
  llStream :: string
  llLine :: string

record ExecResult =
  exExitCode :: int
  exStdout :: string
  exStderr :: string

record Node =
  ndID :: string
  ndHostname :: string
  ndRole :: string
  ndAvailability :: string
  ndStatus :: string
  ndIsLeader :: bool
  ndEngineVersion :: string
  ndAddress :: string
  ndCreatedAt :: int
  ndUpdatedAt :: int

definition StackNamespaceLabel :: string where
  "StackNamespaceLabel = ''com.docker.stack.namespace''"

section \<open>What the adapter reads of the SDK's answers\<close>

text \<open>An SDK error: whether it is classified as not found, and its message.\<close>

datatype sdk_err = Sdk_Err bool string

record container_spec =
  csImage :: string
  csSecretNames :: "string list"
  csTTY :: bool

text \<open>A service as the SDK returns it.  \<^verbatim>\<open>ssReplicated\<close> is \<^verbatim>\<open>Spec.Mode.Replicated\<close> with its optional
  count, \<^verbatim>\<open>ssStatus\<close> the running tasks of the optional \<^verbatim>\<open>ServiceStatus\<close>.\<close>

record sdk_service =
  ssID :: string
  ssName :: string
  ssLabels :: labels
  ssReplicated :: "64 word option option"
  ssGlobal :: bool
  ssStatus :: "64 word option"
  ssContainer :: "container_spec option"
  ssForceUpdate :: "64 word"
  ssVersion :: "64 word"
  ssUpdatedAt :: int

record sdk_task =
  tkID :: string
  tkNodeID :: string
  tkSlot :: int
  tkTimestamp :: "int option"
  tkState :: string
  tkMessage :: string
  tkErr :: string
  tkContainerID :: "string option"

record sdk_node =
  snID :: string
  snHostname :: string
  snRole :: string
  snAvailability :: string
  snState :: string
  snManager :: "(string \<times> bool) option"
  snEngineVersion :: string
  snCreatedAt :: int
  snUpdatedAt :: int

text \<open>A stream that has been read: its bytes, and whether it broke off with an error.\<close>

record stream =
  smBytes :: string
  smBroken :: bool

record 'sw sdk =
  dkNetworkInspect :: "string \<Rightarrow> 'sw \<Rightarrow> sdk_err option"
  dkNetworkCreate :: "NetworkSpec \<Rightarrow> 'sw \<Rightarrow> sdk_err option \<times> 'sw"
  dkSecretInspect :: "string \<Rightarrow> 'sw \<Rightarrow> sdk_err + Spec"
  dkSecretCreate :: "Spec \<Rightarrow> 'sw \<Rightarrow> sdk_err option \<times> 'sw"
  dkSecretRemove :: "string \<Rightarrow> 'sw \<Rightarrow> sdk_err option \<times> 'sw"
  dkSecretList :: "string option \<Rightarrow> 'sw \<Rightarrow> sdk_err + Spec list"
  dkConfigInspect :: "string \<Rightarrow> 'sw \<Rightarrow> sdk_err + Spec"
  dkConfigCreate :: "Spec \<Rightarrow> 'sw \<Rightarrow> sdk_err option \<times> 'sw"
  dkConfigRemove :: "string \<Rightarrow> 'sw \<Rightarrow> sdk_err option \<times> 'sw"
  dkConfigList :: "string option \<Rightarrow> 'sw \<Rightarrow> sdk_err + Spec list"
  dkNetworkRemove :: "string \<Rightarrow> 'sw \<Rightarrow> sdk_err option \<times> 'sw"
  dkVolumeRemove :: "string \<Rightarrow> bool \<Rightarrow> 'sw \<Rightarrow> sdk_err option \<times> 'sw"
  dkVolumeList :: "string \<Rightarrow> 'sw \<Rightarrow> sdk_err + string list"
  dkServiceList :: "string option \<Rightarrow> bool \<Rightarrow> 'sw \<Rightarrow> sdk_err + sdk_service list"
  dkServiceInspect :: "string \<Rightarrow> 'sw \<Rightarrow> sdk_err + sdk_service"
  dkServiceUpdate :: "string \<Rightarrow> 64 word \<Rightarrow> sdk_service \<Rightarrow> 'sw \<Rightarrow> sdk_err option \<times> 'sw"
  dkTaskList :: "string \<Rightarrow> 'sw \<Rightarrow> sdk_err + sdk_task list"
  dkNodeList :: "'sw \<Rightarrow> sdk_err + sdk_node list"
  dkServiceLogs :: "string \<Rightarrow> string \<Rightarrow> 'sw \<Rightarrow> sdk_err + stream"
  dkExecCreate :: "string \<Rightarrow> string list \<Rightarrow> 'sw \<Rightarrow> (sdk_err + string) \<times> 'sw"
  dkExecAttach :: "string \<Rightarrow> 'sw \<Rightarrow> (sdk_err + (string \<times> string) option) \<times> 'sw"
  dkExecInspect :: "string \<Rightarrow> 'sw \<Rightarrow> sdk_err + int"

section \<open>Errors\<close>

datatype client_err =
    Call_Failed string sdk_err
  | Nil_Status
  | Log_Read_Failed
  | Exec_Read_Failed
  | No_Running_Task "client_err option"

definition sdk_msg :: "sdk_err \<Rightarrow> string" where
  "sdk_msg e = (case e of Sdk_Err _ m \<Rightarrow> m)"

definition sdk_is_not_found :: "sdk_err \<Rightarrow> bool" where
  "sdk_is_not_found e = (case e of Sdk_Err b _ \<Rightarrow> b)"

definition isNotFoundString :: "sdk_err \<Rightarrow> bool" where
  "isNotFoundString e =
     (let m = map to_lower (sdk_msg e)
      in contains_str m ''not found'' \<or> contains_str m ''no such'')"

definition missing :: "sdk_err \<Rightarrow> bool" where
  "missing e \<longleftrightarrow> sdk_is_not_found e \<or> isNotFoundString e"

definition call :: "string \<Rightarrow> sdk_err option \<times> 'sw \<Rightarrow> (client_err + unit) \<times> 'sw" where
  "call what r =
     (case r of (None, s) \<Rightarrow> (Inr (), s) | (Some e, s) \<Rightarrow> (Inl (Call_Failed what e), s))"

definition query :: "string \<Rightarrow> sdk_err + 'a \<Rightarrow> client_err + 'a" where
  "query what r = (case r of Inl e \<Rightarrow> Inl (Call_Failed what e) | Inr v \<Rightarrow> Inr v)"

section \<open>Existence, creation, removal\<close>

definition exists_of :: "string \<Rightarrow> sdk_err + 'a \<Rightarrow> client_err + bool" where
  "exists_of what r =
     (case r of
        Inr _ \<Rightarrow> Inr True
      | Inl e \<Rightarrow> if missing e then Inr False else Inl (Call_Failed what e))"

definition idempotentRemove :: "string \<Rightarrow> sdk_err option \<times> 'sw \<Rightarrow> (client_err + unit) \<times> 'sw" where
  "idempotentRemove kind r =
     (case r of
        (None, s) \<Rightarrow> (Inr (), s)
      | (Some e, s) \<Rightarrow> if missing e then (Inr (), s) else (Inl (Call_Failed kind e), s))"

definition NetworkExists :: "'sw sdk \<Rightarrow> string \<Rightarrow> 'sw \<Rightarrow> client_err + bool" where
  "NetworkExists d name s =
     exists_of ''network inspect''
       (case dkNetworkInspect d name s of None \<Rightarrow> Inr () | Some e \<Rightarrow> Inl e)"

definition NetworkCreate :: "'sw sdk \<Rightarrow> NetworkSpec \<Rightarrow> 'sw \<Rightarrow> (client_err + unit) \<times> 'sw" where
  "NetworkCreate d spec s =
     call ''network create''
       (dkNetworkCreate d (if nsDriver spec = [] then spec\<lparr> nsDriver := ''overlay'' \<rparr> else spec) s)"

definition SecretExists :: "'sw sdk \<Rightarrow> string \<Rightarrow> 'sw \<Rightarrow> client_err + bool" where
  "SecretExists d name s = exists_of ''secret inspect'' (dkSecretInspect d name s)"

definition inspect_of :: "Spec \<Rightarrow> InspectResult" where
  "inspect_of sp = \<lparr> irLabels = spLabels sp, irData = spData sp \<rparr>"

definition SecretInspect :: "'sw sdk \<Rightarrow> string \<Rightarrow> 'sw \<Rightarrow> client_err + InspectResult" where
  "SecretInspect d name s = map_sum id inspect_of (query ''secret inspect'' (dkSecretInspect d name s))"

definition SecretCreate :: "'sw sdk \<Rightarrow> Spec \<Rightarrow> 'sw \<Rightarrow> (client_err + unit) \<times> 'sw" where
  "SecretCreate d spec s = call ''secret create'' (dkSecretCreate d spec s)"

definition ConfigExists :: "'sw sdk \<Rightarrow> string \<Rightarrow> 'sw \<Rightarrow> client_err + bool" where
  "ConfigExists d name s = exists_of ''config inspect'' (dkConfigInspect d name s)"

definition ConfigCreate :: "'sw sdk \<Rightarrow> Spec \<Rightarrow> 'sw \<Rightarrow> (client_err + unit) \<times> 'sw" where
  "ConfigCreate d spec s = call ''config create'' (dkConfigCreate d spec s)"

definition SecretRemove :: "'sw sdk \<Rightarrow> string \<Rightarrow> 'sw \<Rightarrow> (client_err + unit) \<times> 'sw" where
  "SecretRemove d name s = idempotentRemove ''secret'' (dkSecretRemove d name s)"

definition ConfigRemove :: "'sw sdk \<Rightarrow> string \<Rightarrow> 'sw \<Rightarrow> (client_err + unit) \<times> 'sw" where
  "ConfigRemove d name s = idempotentRemove ''config'' (dkConfigRemove d name s)"

definition NetworkRemove :: "'sw sdk \<Rightarrow> string \<Rightarrow> 'sw \<Rightarrow> (client_err + unit) \<times> 'sw" where
  "NetworkRemove d name s = idempotentRemove ''network'' (dkNetworkRemove d name s)"

definition VolumeRemove :: "'sw sdk \<Rightarrow> string \<Rightarrow> 'sw \<Rightarrow> (client_err + unit) \<times> 'sw" where
  "VolumeRemove d name s = idempotentRemove ''volume'' (dkVolumeRemove d name True s)"

section \<open>Lists\<close>

definition VolumeList :: "'sw sdk \<Rightarrow> string \<Rightarrow> string \<Rightarrow> 'sw \<Rightarrow> client_err + string list" where
  "VolumeList d key val s = query ''docker volume ls'' (dkVolumeList d (key @ ''='' @ val) s)"

definition label_filter :: "string \<Rightarrow> string \<Rightarrow> string option" where
  "label_filter key val = (if key = [] then None else Some (key @ ''='' @ val))"

definition SecretList :: "'sw sdk \<Rightarrow> string \<Rightarrow> string \<Rightarrow> 'sw \<Rightarrow> client_err + string list" where
  "SecretList d key val s =
     map_sum id (map spName) (query ''secret list'' (dkSecretList d (label_filter key val) s))"

definition ConfigList :: "'sw sdk \<Rightarrow> string \<Rightarrow> string \<Rightarrow> 'sw \<Rightarrow> client_err + string list" where
  "ConfigList d key val s =
     map_sum id (map spName) (query ''config list'' (dkConfigList d (label_filter key val) s))"

definition ConfigInspect :: "'sw sdk \<Rightarrow> string \<Rightarrow> 'sw \<Rightarrow> client_err + InspectResult" where
  "ConfigInspect d name s = map_sum id inspect_of (query ''config inspect'' (dkConfigInspect d name s))"

text \<open>The two nested loops of \<^verbatim>\<open>StackSecretNames\<close> with the set of names already seen.\<close>

fun add_unseen :: "string list \<Rightarrow> string list \<Rightarrow> string list" where
  "add_unseen out [] = out"
| "add_unseen out (n # ns) = add_unseen (if n \<in> set out then out else out @ [n]) ns"

fun collect_secrets :: "string list \<Rightarrow> sdk_service list \<Rightarrow> string list" where
  "collect_secrets out [] = out"
| "collect_secrets out (v # vs) =
     (case ssContainer v of
        None \<Rightarrow> collect_secrets out vs
      | Some c \<Rightarrow> collect_secrets (add_unseen out (csSecretNames c)) vs)"

definition StackSecretNames :: "'sw sdk \<Rightarrow> string \<Rightarrow> 'sw \<Rightarrow> client_err + string list" where
  "StackSecretNames d stackName s =
     map_sum id (collect_secrets [])
       (query ''docker service ls''
         (dkServiceList d (Some (StackNamespaceLabel @ ''='' @ stackName)) False s))"

definition image_of :: "sdk_service \<Rightarrow> string" where
  "image_of v = (case ssContainer v of None \<Rightarrow> [] | Some c \<Rightarrow> csImage c)"

definition label_value :: "string \<Rightarrow> labels \<Rightarrow> string" where
  "label_value k ls = (case map_of ls k of None \<Rightarrow> [] | Some v \<Rightarrow> v)"

text \<open>One element of \<^verbatim>\<open>ServiceList\<close>.  Reading the status of a service that has none is a nil
  dereference.\<close>

definition service_view :: "sdk_service \<Rightarrow> client_err + Service" where
  "service_view v =
     (case ssStatus v of
        None \<Rightarrow> Inl Nil_Status
      | Some running \<Rightarrow>
         (let d0 = (case ssReplicated v of Some (Some n) \<Rightarrow> n | _ \<Rightarrow> 0)
          in Inr \<lparr> svID = ssID v, svName = ssName v,
                   svStack = label_value StackNamespaceLabel (ssLabels v),
                   svReplicas = running, svDesired = (if ssGlobal v then running else d0),
                   svImage = image_of v,
                   svMode = (if ssReplicated v \<noteq> None then ''replicated''
                             else if ssGlobal v then ''global'' else []),
                   svUpdatedAt = ssUpdatedAt v \<rparr>))"

fun service_views :: "sdk_service list \<Rightarrow> client_err + Service list" where
  "service_views [] = Inr []"
| "service_views (v # vs) =
     bind_r (service_view v) (\<lambda>x. bind_r (service_views vs) (\<lambda>xs. Inr (x # xs)))"

definition ServiceList :: "'sw sdk \<Rightarrow> 'sw \<Rightarrow> client_err + Service list" where
  "ServiceList d s =
     bind_r (query ''docker service ls'' (dkServiceList d None True s)) service_views"

definition ServiceInspect :: "'sw sdk \<Rightarrow> string \<Rightarrow> 'sw \<Rightarrow> client_err + ServiceInspectResult" where
  "ServiceInspect d name s =
     map_sum id (\<lambda>v. \<lparr> siID = ssID v, siName = ssName v, siImage = image_of v, siLabels = ssLabels v \<rparr>)
       (query ''service inspect'' (dkServiceInspect d name s))"

definition node_view :: "sdk_node \<Rightarrow> Node" where
  "node_view n =
     \<lparr> ndID = snID n, ndHostname = snHostname n, ndRole = snRole n,
       ndAvailability = snAvailability n, ndStatus = snState n,
       ndIsLeader = (case snManager n of Some (_, leader) \<Rightarrow> leader | None \<Rightarrow> False),
       ndEngineVersion = snEngineVersion n,
       ndAddress = (case snManager n of Some (addr, _) \<Rightarrow> addr | None \<Rightarrow> []),
       ndCreatedAt = snCreatedAt n, ndUpdatedAt = snUpdatedAt n \<rparr>"

definition NodeList :: "'sw sdk \<Rightarrow> 'sw \<Rightarrow> client_err + Node list" where
  "NodeList d s = map_sum id (map node_view) (query ''docker node ls'' (dkNodeList d s))"

definition task_view :: "(string \<times> string) list \<Rightarrow> sdk_task \<Rightarrow> ServiceTask" where
  "task_view hosts t =
     \<lparr> stTaskID = tkID t, stNode = label_value (tkNodeID t) hosts, stSlot = tkSlot t,
       stState = tkState t,
       stError = (if tkMessage t = [] then tkErr t else tkMessage t),
       stStartedAt = (case tkTimestamp t of None \<Rightarrow> 0 | Some u \<Rightarrow> u),
       stFinishedAt = 0 \<rparr>"

text \<open>A later node of the list overwrites the host name of an earlier one with the same id.\<close>

definition node_hosts :: "client_err + Node list \<Rightarrow> (string \<times> string) list" where
  "node_hosts r = (case r of Inl _ \<Rightarrow> [] | Inr ns \<Rightarrow> rev (map (\<lambda>n. (ndID n, ndHostname n)) ns))"

definition ServiceTasks :: "'sw sdk \<Rightarrow> string \<Rightarrow> 'sw \<Rightarrow> client_err + ServiceTask list" where
  "ServiceTasks d serviceID s =
     bind_r (ServiceInspect d serviceID s) (\<lambda>svc.
       map_sum id (map (task_view (node_hosts (NodeList d s))))
         (query ''task list'' (dkTaskList d (siID svc) s)))"

section \<open>Logs\<close>

definition splitLines :: "string \<Rightarrow> string \<Rightarrow> LogLine list" where
  "splitLines strm s =
     map (\<lambda>ln. \<lparr> llStream = strm, llLine = ln \<rparr>)
       (filter (\<lambda>ln. ln \<noteq> []) (split_at (CHR 0x0A) s))"

text \<open>The frame size of a header: four big-endian bytes.\<close>

definition frame_size :: "string \<Rightarrow> nat" where
  "frame_size hdr =
     of_char (hdr ! 4) * 16777216 + of_char (hdr ! 5) * 65536 + of_char (hdr ! 6) * 256 +
     of_char (hdr ! 7)"

definition maxFrame :: nat where "maxFrame = 16777216"

definition keep_last :: "nat \<Rightarrow> 'a list \<Rightarrow> 'a list" where
  "keep_last n xs = (if n < length xs then drop (length xs - n) xs else xs)"

text \<open>\<^verbatim>\<open>demuxLines\<close>: \<^verbatim>\<open>io.ReadFull\<close> ends the loop without an error only when no byte is left and the
  stream did not break off.\<close>

function demux_from :: "nat \<Rightarrow> LogLine list \<Rightarrow> bool \<Rightarrow> string \<Rightarrow> client_err + LogLine list" where
  "demux_from tail all broken s =
     (if length s < 8 then
        (if s = [] \<and> \<not> broken then Inr all else Inl Log_Read_Failed)
      else
        (let hdr = take 8 s; size = frame_size hdr; rest = drop 8 s in
         if size = 0 \<or> maxFrame < size then Inr all
         else if length rest < size then Inl Log_Read_Failed
         else demux_from tail
                (keep_last tail (all @ splitLines (if hdr ! 0 = CHR 0x02 then ''stderr'' else ''stdout'')
                                         (take size rest)))
                broken (drop size rest)))"
  by pat_completeness auto
termination by (relation "measure (\<lambda>(_, _, _, s). length s)") auto

declare demux_from.simps [simp del]

definition demuxLines :: "stream \<Rightarrow> nat \<Rightarrow> client_err + LogLine list" where
  "demuxLines r tail = demux_from tail [] (smBroken r) (smBytes r)"

definition clamp_tail :: "int \<Rightarrow> int" where
  "clamp_tail tail = (let t = (if tail < 1 then 1 else tail) in if t > 2000 then 2000 else t)"

definition ServiceLogs :: "'sw sdk \<Rightarrow> string \<Rightarrow> int \<Rightarrow> 'sw \<Rightarrow> client_err + LogLine list" where
  "ServiceLogs d serviceID tail0 s =
     (let tail = clamp_tail tail0 in
      bind_r (query ''service inspect'' (dkServiceInspect d serviceID s)) (\<lambda>svc.
        bind_r (query ''service logs'' (dkServiceLogs d (ssID svc) (itoa tail) s)) (\<lambda>rc.
          if (case ssContainer svc of None \<Rightarrow> False | Some c \<Rightarrow> csTTY c) then
            (if smBroken rc then Inl Log_Read_Failed else Inr (splitLines ''stdout'' (smBytes rc)))
          else demuxLines rc (nat tail))))"

section \<open>Restart and exec\<close>

definition ServiceRestart :: "'sw sdk \<Rightarrow> string \<Rightarrow> 'sw \<Rightarrow> (client_err + unit) \<times> 'sw" where
  "ServiceRestart d serviceID s =
     (case query ''service inspect'' (dkServiceInspect d serviceID s) of
        Inl e \<Rightarrow> (Inl e, s)
      | Inr svc \<Rightarrow>
          call ''service restart''
            (dkServiceUpdate d (ssID svc) (ssVersion svc)
               (svc\<lparr> ssForceUpdate := ssForceUpdate svc + 1 \<rparr>) s))"

definition execInContainer ::
  "'sw sdk \<Rightarrow> string \<Rightarrow> string list \<Rightarrow> 'sw \<Rightarrow> (client_err + ExecResult) \<times> 'sw" where
  "execInContainer d containerID argv s =
     (case dkExecCreate d containerID argv s of
        (Inl e, s1) \<Rightarrow> (Inl (Call_Failed ''exec create'' e), s1)
      | (Inr eid, s1) \<Rightarrow>
         (case dkExecAttach d eid s1 of
            (Inl e, s2) \<Rightarrow> (Inl (Call_Failed ''exec attach'' e), s2)
          | (Inr None, s2) \<Rightarrow> (Inl Exec_Read_Failed, s2)
          | (Inr (Some (out, err)), s2) \<Rightarrow>
             (case dkExecInspect d eid s2 of
                Inl e \<Rightarrow> (Inl (Call_Failed ''exec inspect'' e), s2)
              | Inr code \<Rightarrow> (Inr \<lparr> exExitCode = code, exStdout = out, exStderr = err \<rparr>, s2))))"

definition exec_target :: "sdk_task \<Rightarrow> string option" where
  "exec_target t =
     (if tkState t \<noteq> ''running'' then None
      else (case tkContainerID t of
              None \<Rightarrow> None
            | Some cid \<Rightarrow> if cid = [] then None else Some cid))"

fun exec_first ::
  "'sw sdk \<Rightarrow> string list \<Rightarrow> client_err option \<Rightarrow> sdk_task list \<Rightarrow> 'sw \<Rightarrow> (client_err + ExecResult) \<times> 'sw" where
  "exec_first d argv lastErr [] s = (Inl (No_Running_Task lastErr), s)"
| "exec_first d argv lastErr (t # ts) s =
     (case exec_target t of
        None \<Rightarrow> exec_first d argv lastErr ts s
      | Some cid \<Rightarrow>
         (case execInContainer d cid argv s of
            (Inl e, s') \<Rightarrow> exec_first d argv (Some e) ts s'
          | (Inr r, s') \<Rightarrow> (Inr r, s')))"

definition ServiceExec ::
  "'sw sdk \<Rightarrow> string \<Rightarrow> string list \<Rightarrow> 'sw \<Rightarrow> (client_err + ExecResult) \<times> 'sw" where
  "ServiceExec d serviceID argv s =
     (case ServiceInspect d serviceID s of
        Inl e \<Rightarrow> (Inl e, s)
      | Inr svc \<Rightarrow>
         (case query ''task list'' (dkTaskList d (siID svc) s) of
            Inl e \<Rightarrow> (Inl e, s)
          | Inr tasks \<Rightarrow> exec_first d argv None tasks s))"

end
