(* ===== verification/Cluster_Secrets.thy ===== *)
theory Cluster_Secrets
  imports Swarm_Client Store_Misc Auth
begin

text \<open>
  Idempotent provisioning of networks, secrets and configs in the swarm (\<^verbatim>\<open>cluster/networks.go\<close>,
  \<^verbatim>\<open>cluster/secrets.go\<close>): the plain get-or-create, the versioned names \<^verbatim>\<open>base_v001\<close>, \<^verbatim>\<open>base_v002\<close>, ...
  with their garbage collection, and random passwords.

  SHA-256 (hex) is the argument \<^verbatim>\<open>hash\<close>, bcrypt the argument \<^verbatim>\<open>bcrypt\<close>.  The documented behaviour
  of the SDK's object calls is the predicate \<^verbatim>\<open>sdk_objects\<close> of the last section.
\<close>

datatype cluster_err =
    Swarm_Error string client_err
  | Input_Error string
  | Rand_Error string
  | Bcrypt_Error
  | Read_File_Error string

definition pmclusterLabel :: string where
  "pmclusterLabel = ''io.pmcluster.managed''"

section \<open>Networks\<close>

definition EnsureNetwork :: "'sw sdk \<Rightarrow> string \<Rightarrow> 'sw \<Rightarrow> (cluster_err + bool) \<times> 'sw" where
  "EnsureNetwork d name s =
     (case NetworkExists d name s of
        Inl e \<Rightarrow> (Inl (Swarm_Error ''check network'' e), s)
      | Inr True \<Rightarrow> (Inr False, s)
      | Inr False \<Rightarrow>
         (case NetworkCreate d \<lparr> nsName = name, nsDriver = ''overlay'', nsAttachable = True \<rparr> s of
            (Inl e, s') \<Rightarrow> (Inl (Swarm_Error ''create network'' e), s')
          | (Inr _, s') \<Rightarrow> (Inr True, s')))"

fun ensure_networks ::
  "'sw sdk \<Rightarrow> string list \<Rightarrow> string list \<Rightarrow> 'sw \<Rightarrow> string list \<times> cluster_err option \<times> 'sw" where
  "ensure_networks d created [] s = (created, None, s)"
| "ensure_networks d created (n # ns) s =
     (case EnsureNetwork d n s of
        (Inl e, s') \<Rightarrow> (created, Some e, s')
      | (Inr isNew, s') \<Rightarrow> ensure_networks d (if isNew then created @ [n] else created) ns s')"

definition EnsureBundledNetworks :: "'sw sdk \<Rightarrow> 'sw \<Rightarrow> string list \<times> cluster_err option \<times> 'sw" where
  "EnsureBundledNetworks d s = ensure_networks d [] [''traefik-net'', ''monitoring-net''] s"

section \<open>Plain secrets\<close>

definition EnsureSecret :: "'sw sdk \<Rightarrow> string \<Rightarrow> string \<Rightarrow> 'sw \<Rightarrow> (cluster_err + bool) \<times> 'sw" where
  "EnsureSecret d name data s =
     (case SecretExists d name s of
        Inl e \<Rightarrow> (Inl (Swarm_Error ''check secret'' e), s)
      | Inr True \<Rightarrow> (Inr False, s)
      | Inr False \<Rightarrow>
         (case SecretCreate d \<lparr> spName = name, spData = data,
                                spLabels = [(pmclusterLabel, ''true'')] \<rparr> s of
            (Inl e, s') \<Rightarrow> (Inl (Swarm_Error ''create secret'' e), s')
          | (Inr _, s') \<Rightarrow> (Inr True, s')))"

definition EnsureSecretFromFile ::
  "(string \<Rightarrow> string option) \<Rightarrow> 'sw sdk \<Rightarrow> string \<Rightarrow> string \<Rightarrow> 'sw \<Rightarrow> (cluster_err + bool) \<times> 'sw" where
  "EnsureSecretFromFile readFile d name path s =
     (case readFile path of
        None \<Rightarrow> (Inl (Read_File_Error path), s)
      | Some data \<Rightarrow> EnsureSecret d name data s)"

section \<open>Versioned names\<close>

text \<open>\<^verbatim>\<open>fmt.Sscanf(name, prefix+"%d", &v)\<close> for a name that starts with the prefix: an optional
  sign and the longest run of digits; what follows is not looked at.  The names of Docker
  objects hold no blanks, so the blanks \<^verbatim>\<open>Sscanf\<close> skips do not occur.\<close>

definition scan_int :: "string \<Rightarrow> int option" where
  "scan_int s =
     (case s of
        [] \<Rightarrow> None
      | c # r \<Rightarrow>
          if c = CHR ''-'' \<or> c = CHR ''+'' then parse_int64 (c # takeWhile is_digit r)
          else parse_int64 (takeWhile is_digit s))"

definition scan_version :: "string \<Rightarrow> string \<Rightarrow> int option" where
  "scan_version pre name =
     (if has_prefix name pre then scan_int (drop (length pre) name) else None)"

fun max_version :: "string \<Rightarrow> int \<Rightarrow> string list \<Rightarrow> int" where
  "max_version pre m [] = m"
| "max_version pre m (n # ns) =
     (case scan_version pre n of
        Some v \<Rightarrow> max_version pre (if m < v then v else m) ns
      | None \<Rightarrow> max_version pre m ns)"

text \<open>Addition on Go's 64-bit \<^verbatim>\<open>int\<close> wraps around.\<close>

definition wrap64 :: "int \<Rightarrow> int" where
  "wrap64 n = (n + 2 ^ 63) mod 2 ^ 64 - 2 ^ 63"

text \<open>\<^verbatim>\<open>%03d\<close>: zeros up to a width of three, the sign counted.\<close>

definition pad3 :: "int \<Rightarrow> string" where
  "pad3 n =
     (let ds = nat_str (nat \<bar>n\<bar>); sign = (if n < 0 then ''-'' else [])
      in sign @ replicate (3 - length sign - length ds) (CHR ''0'') @ ds)"

definition versioned :: "string \<Rightarrow> int \<Rightarrow> string" where
  "versioned base v = base @ ''_v'' @ pad3 v"

definition remove_old ::
  "(string \<Rightarrow> 'sw \<Rightarrow> (client_err + unit) \<times> 'sw) \<Rightarrow> string \<Rightarrow> string \<Rightarrow> string list \<Rightarrow> 'sw \<Rightarrow> 'sw" where
  "remove_old rm pre keep existing s =
     fold (\<lambda>name s. if \<not> has_prefix name pre \<or> name = keep then s else snd (rm name s)) existing s"

section \<open>Versioned secrets\<close>

definition secretHashKey :: "string \<Rightarrow> string" where
  "secretHashKey base = ''secret_data_hash:'' @ base"

definition versioned_secret :: "(string \<Rightarrow> string) \<Rightarrow> string \<Rightarrow> string \<Rightarrow> string \<Rightarrow> Spec" where
  "versioned_secret hash base name data =
     \<lparr> spName = name, spData = data,
       spLabels = [(pmclusterLabel, ''true''), (''pmcluster.base'', base),
                   (''pmcluster.data_hash'', hash data)] \<rparr>"

definition EnsureVersionedSecret ::
  "'sw sdk \<Rightarrow> (string \<Rightarrow> string) \<Rightarrow> string \<Rightarrow> string \<Rightarrow> Store option \<times> 'sw \<Rightarrow>
     (cluster_err + string \<times> bool) \<times> Store option \<times> 'sw" where
  "EnsureVersionedSecret d hash base data w =
     (let (hs, s) = w in
      case SecretList d pmclusterLabel ''true'' s of
        Inl e \<Rightarrow> (Inl (Swarm_Error ''list secrets'' e), w)
      | Inr existing \<Rightarrow>
         (let pre = base @ ''_v''; maxVer = max_version pre 0 existing;
              stored = (case hs of None \<Rightarrow> [] | Some db \<Rightarrow> GetSettingDefault (secretHashKey base) [] db)
          in if maxVer > 0 \<and> stored \<noteq> [] \<and> stored = hash data
             then (Inr (versioned base maxVer, False), w)
             else
               (let name = versioned base (wrap64 (maxVer + 1)) in
                case SecretCreate d (versioned_secret hash base name data) s of
                  (Inl e, s1) \<Rightarrow> (Inl (Swarm_Error ''create secret'' e), hs, s1)
                | (Inr _, s1) \<Rightarrow>
                    (Inr (name, True), map_option (SetSetting (secretHashKey base) (hash data)) hs,
                     remove_old (SecretRemove d) pre name existing s1))))"

definition EnsureVersionedSecretFromFile ::
  "(string \<Rightarrow> string option) \<Rightarrow> 'sw sdk \<Rightarrow> (string \<Rightarrow> string) \<Rightarrow> string \<Rightarrow> string \<Rightarrow> Store option \<times> 'sw \<Rightarrow>
     (cluster_err + string \<times> bool) \<times> Store option \<times> 'sw" where
  "EnsureVersionedSecretFromFile readFile d hash base path w =
     (case readFile path of
        None \<Rightarrow> (Inl (Read_File_Error path), w)
      | Some data \<Rightarrow> EnsureVersionedSecret d hash base data w)"

section \<open>Versioned configs\<close>

definition versioned_config ::
  "(string \<Rightarrow> string) \<Rightarrow> string \<Rightarrow> string \<Rightarrow> string \<Rightarrow> string \<Rightarrow> Spec" where
  "versioned_config hash base version name data =
     \<lparr> spName = name, spData = data,
       spLabels = [(pmclusterLabel, ''true''), (''pmcluster.base'', base),
                   (''pmcluster.version'', version), (''pmcluster.data_hash'', hash data)] \<rparr>"

definition EnsureConfig ::
  "'sw sdk \<Rightarrow> (string \<Rightarrow> string) \<Rightarrow> string \<Rightarrow> string \<Rightarrow> string \<Rightarrow> 'sw \<Rightarrow> (cluster_err + string \<times> bool) \<times> 'sw" where
  "EnsureConfig d hash base data version s =
     (case ConfigList d [] [] s of
        Inl e \<Rightarrow> (Inl (Swarm_Error ''list configs'' e), s)
      | Inr existing \<Rightarrow>
         (let pre = base @ ''_v''; maxVer = max_version pre 0 existing;
              same = (case ConfigInspect d (versioned base maxVer) s of
                        Inl _ \<Rightarrow> False
                      | Inr cur \<Rightarrow> hash (irData cur) = hash data)
          in if maxVer > 0 \<and> same then (Inr (versioned base maxVer, False), s)
             else
               (let name = versioned base (wrap64 (maxVer + 1)) in
                case ConfigCreate d (versioned_config hash base version name data) s of
                  (Inl e, s1) \<Rightarrow> (Inl (Swarm_Error ''create config'' e), s1)
                | (Inr _, s1) \<Rightarrow>
                    (Inr (name, True), remove_old (ConfigRemove d) pre name existing s1))))"

section \<open>Passwords\<close>

definition insert_at :: "nat \<Rightarrow> 'a \<Rightarrow> 'a list \<Rightarrow> 'a list" where
  "insert_at pos x b = take pos b @ x # drop pos b"

definition password_classes :: "string list" where
  "password_classes =
     [''abcdefghijklmnopqrstuvwxyz'', ''ABCDEFGHIJKLMNOPQRSTUVWXYZ'', ''0123456789'', ''!@#$%^&*'']"

text \<open>The character of class \<^verbatim>\<open>i\<close> goes to a place picked by byte \<^verbatim>\<open>4 + i\<close>.\<close>

definition place_class :: "string \<Rightarrow> nat \<Rightarrow> string \<Rightarrow> string" where
  "place_class buf i b =
     (let cls = password_classes ! i
      in insert_at (of_char (buf ! (4 + i)) mod length b) (cls ! (of_char (buf ! i) mod length cls)) b)"

definition RandomPassword :: "string option \<Rightarrow> cluster_err + string" where
  "RandomPassword rand =
     (case rand of
        None \<Rightarrow> Inl (Rand_Error ''read random bytes'')
      | Some buf \<Rightarrow> Inr (fold (place_class buf) [0..<4] (b64url_encode buf)))"

definition HtpasswdLine :: "(string \<Rightarrow> string option) \<Rightarrow> string \<Rightarrow> string \<Rightarrow> cluster_err + string" where
  "HtpasswdLine bcrypt user password =
     (case bcrypt password of
        None \<Rightarrow> Inl Bcrypt_Error
      | Some h \<Rightarrow> Inr (user @ '':'' @ h @ [CHR 0x0A]))"

end
