(* ===== verification/Cluster_Provisioning.thy ===== *)
theory Cluster_Provisioning
  imports Cluster_Secrets
begin

text \<open>
  What provisioning guarantees: the contract of the SDK's object calls, the version numbers, and
  the effect, idempotence and reach of \<^verbatim>\<open>EnsureVersionedSecret\<close> and \<^verbatim>\<open>EnsureConfig\<close>; random passwords.
\<close>

section \<open>The documented behaviour of the object calls\<close>

text \<open>Secrets and configs are named objects with labels.  A call may fail and then changes
  nothing; a successful answer is the truth.  Secrets cannot be read back (\<^verbatim>\<open>readable\<close> is false), the
  listing order is left open, a label filter selects the objects that carry the label.\<close>

definition label_match :: "string option \<Rightarrow> Spec \<Rightarrow> bool" where
  "label_match f sp =
     (case f of None \<Rightarrow> True | Some l \<Rightarrow> (\<exists>(k, v) \<in> set (spLabels sp). k @ ''='' @ v = l))"

definition object_calls ::
  "('sw \<Rightarrow> Spec set) \<Rightarrow> bool \<Rightarrow> (string \<Rightarrow> 'sw \<Rightarrow> sdk_err + Spec) \<Rightarrow>
   (string option \<Rightarrow> 'sw \<Rightarrow> sdk_err + Spec list) \<Rightarrow> (Spec \<Rightarrow> 'sw \<Rightarrow> sdk_err option \<times> 'sw) \<Rightarrow>
   (string \<Rightarrow> 'sw \<Rightarrow> sdk_err option \<times> 'sw) \<Rightarrow> bool" where
  "object_calls rows readable inspect lst create rm \<longleftrightarrow> (\<forall>s.
     (\<forall>n. case inspect n s of
            Inr sp \<Rightarrow> (\<exists>o' \<in> rows s. spName o' = n \<and> (readable \<longrightarrow> sp = o'))
          | Inl e \<Rightarrow> missing e \<longrightarrow> n \<notin> spName ` rows s) \<and>
     (\<forall>f. case lst f s of
            Inl _ \<Rightarrow> True
          | Inr l \<Rightarrow> spName ` set l = spName ` {o' \<in> rows s. label_match f o'}) \<and>
     (\<forall>sp. case create sp s of
            (None, s') \<Rightarrow> spName sp \<notin> spName ` rows s \<and> rows s' = insert sp (rows s)
          | (Some _, s') \<Rightarrow> rows s' = rows s) \<and>
     (\<forall>n. case rm n s of
            (None, s') \<Rightarrow> rows s' = {o' \<in> rows s. spName o' \<noteq> n}
          | (Some e, s') \<Rightarrow> rows s' = rows s \<and> (missing e \<longrightarrow> n \<notin> spName ` rows s)))"

definition sdk_secrets :: "'sw sdk \<Rightarrow> ('sw \<Rightarrow> Spec set) \<Rightarrow> bool" where
  "sdk_secrets d rows \<longleftrightarrow>
     object_calls rows False (dkSecretInspect d) (dkSecretList d) (dkSecretCreate d) (dkSecretRemove d)"

definition sdk_configs :: "'sw sdk \<Rightarrow> ('sw \<Rightarrow> Spec set) \<Rightarrow> bool" where
  "sdk_configs d rows \<longleftrightarrow>
     object_calls rows True (dkConfigInspect d) (dkConfigList d) (dkConfigCreate d) (dkConfigRemove d)"

lemma object_callsD:
  assumes "object_calls rows readable inspect lst create rm"
  shows "inspect n s = Inr sp \<Longrightarrow> \<exists>o' \<in> rows s. spName o' = n \<and> (readable \<longrightarrow> sp = o')"
    and "inspect n s = Inl e \<Longrightarrow> missing e \<Longrightarrow> n \<notin> spName ` rows s"
    and "lst f s = Inr l \<Longrightarrow> spName ` set l = spName ` {o' \<in> rows s. label_match f o'}"
    and "create sp s = (None, s') \<Longrightarrow> spName sp \<notin> spName ` rows s \<and> rows s' = insert sp (rows s)"
    and "create sp s = (Some e, s') \<Longrightarrow> rows s' = rows s"
    and "rm n s = (None, s') \<Longrightarrow> rows s' = {o' \<in> rows s. spName o' \<noteq> n}"
    and "rm n s = (Some e, s') \<Longrightarrow> rows s' = rows s \<and> (missing e \<longrightarrow> n \<notin> spName ` rows s)"
proof -
  note H = assms [unfolded object_calls_def, rule_format, of s]
  show "inspect n s = Inr sp \<Longrightarrow> \<exists>o' \<in> rows s. spName o' = n \<and> (readable \<longrightarrow> sp = o')"
    using conjunct1 [OF H, rule_format, of n] by simp
  show "inspect n s = Inl e \<Longrightarrow> missing e \<Longrightarrow> n \<notin> spName ` rows s"
    using conjunct1 [OF H, rule_format, of n] by simp
  show "lst f s = Inr l \<Longrightarrow> spName ` set l = spName ` {o' \<in> rows s. label_match f o'}"
    using conjunct1 [OF conjunct2 [OF H], rule_format, of f] by simp
  note C = conjunct1 [OF conjunct2 [OF conjunct2 [OF H]], rule_format, of sp]
  show "create sp s = (None, s') \<Longrightarrow> spName sp \<notin> spName ` rows s \<and> rows s' = insert sp (rows s)"
    "create sp s = (Some e, s') \<Longrightarrow> rows s' = rows s"
    using C by simp_all
  note R = conjunct2 [OF conjunct2 [OF conjunct2 [OF H]], rule_format, of n]
  show "rm n s = (None, s') \<Longrightarrow> rows s' = {o' \<in> rows s. spName o' \<noteq> n}"
    "rm n s = (Some e, s') \<Longrightarrow> rows s' = rows s \<and> (missing e \<longrightarrow> n \<notin> spName ` rows s)"
    using R by simp_all
qed

text \<open>What one removal through the adapter does.\<close>

lemma idempotentRemove_rows:
  assumes "object_calls rows readable inspect lst create rm"
  shows "rows (snd (idempotentRemove kind (rm n s))) = rows s \<and>
           \<not> is_ok (fst (idempotentRemove kind (rm n s))) \<or>
         rows (snd (idempotentRemove kind (rm n s))) = {o' \<in> rows s. spName o' \<noteq> n} \<and>
           is_ok (fst (idempotentRemove kind (rm n s)))"
proof (cases "rm n s")
  case (Pair e s')
  show ?thesis
  proof (cases e)
    case None
    then show ?thesis
      using Pair object_callsD(6) [OF assms] by (simp add: idempotentRemove_def)
  next
    case (Some err)
    have *: "rows s' = rows s" "missing err \<longrightarrow> n \<notin> spName ` rows s"
      using Pair Some object_callsD(7) [OF assms] by blast+
    then show ?thesis
      using Pair Some by (auto simp: idempotentRemove_def)
  qed
qed

lemma remove_old_Cons:
  "remove_old rm pre keep (n # ns) s =
   remove_old rm pre keep ns (if \<not> has_prefix n pre \<or> n = keep then s else snd (rm n s))"
  by (simp add: remove_old_def)

lemma remove_old_subset:
  assumes "object_calls rows readable inspect lst create rm"
  shows "rows (remove_old (\<lambda>n s. idempotentRemove kind (rm n s)) pre keep ns s) \<subseteq> rows s"
proof (induction ns arbitrary: s)
  case (Cons n ns)
  let ?s = "if \<not> has_prefix n pre \<or> n = keep then s else snd (idempotentRemove kind (rm n s))"
  have "rows ?s \<subseteq> rows s"
    using idempotentRemove_rows [OF assms, of kind n s] by (auto split: if_splits)
  then show ?case unfolding remove_old_Cons using Cons [of ?s] by (rule subset_trans [rotated])
qed (simp add: remove_old_def)

lemma remove_old_keeps:
  assumes "object_calls rows readable inspect lst create rm"
  shows "{o' \<in> rows s. \<not> has_prefix (spName o') pre \<or> spName o' = keep \<or> spName o' \<notin> set ns} \<subseteq>
         rows (remove_old (\<lambda>n s. idempotentRemove kind (rm n s)) pre keep ns s)"
proof (induction ns arbitrary: s)
  case (Cons n ns)
  let ?s = "if \<not> has_prefix n pre \<or> n = keep then s else snd (idempotentRemove kind (rm n s))"
  have "{o' \<in> rows s. \<not> has_prefix (spName o') pre \<or> spName o' = keep \<or> spName o' \<notin> set (n # ns)} \<subseteq>
      {o' \<in> rows ?s. \<not> has_prefix (spName o') pre \<or> spName o' = keep \<or> spName o' \<notin> set ns}"
    using idempotentRemove_rows [OF assms, of kind n s] by (auto split: if_splits)
  then show ?case unfolding remove_old_Cons using Cons [of ?s] by (rule subset_trans)
qed (auto simp: remove_old_def)

text \<open>When no removal is refused, the names asked for are gone.\<close>

lemma remove_old_complete:
  assumes "object_calls rows readable inspect lst create rm"
    and ok: "\<And>n s. is_ok (fst (idempotentRemove kind (rm n s)))"
  shows "rows (remove_old (\<lambda>n s. idempotentRemove kind (rm n s)) pre keep ns s) =
         {o' \<in> rows s. \<not> has_prefix (spName o') pre \<or> spName o' = keep \<or> spName o' \<notin> set ns}"
proof (induction ns arbitrary: s)
  case Nil
  show ?case by (simp add: remove_old_def)
next
  case (Cons n ns)
  let ?s = "if \<not> has_prefix n pre \<or> n = keep then s else snd (idempotentRemove kind (rm n s))"
  have "rows ?s = (if \<not> has_prefix n pre \<or> n = keep then rows s else {o' \<in> rows s. spName o' \<noteq> n})"
    using idempotentRemove_rows [OF assms(1), of kind n s] ok [of n s] by simp
  then show ?case unfolding remove_old_Cons using Cons [of ?s] by (auto split: if_splits)
qed

section \<open>Version numbers\<close>

lemma foldl_zeros: "foldl (\<lambda>n c. 10 * n + (of_char c - 48)) 0 (replicate k (CHR ''0'') @ ds) =
    foldl (\<lambda>n c. 10 * n + (of_char c - 48)) (0::nat) ds"
  by (induction k) simp_all

lemma digits_val_zeros: "digits_val (replicate k (CHR ''0'') @ ds) = digits_val ds"
  by (simp only: digits_val_def foldl_zeros)

lemma pad3_pos: "0 \<le> v \<Longrightarrow> pad3 v = replicate (3 - length (nat_str (nat v))) (CHR ''0'') @ nat_str (nat v)"
  by (simp add: pad3_def Let_def)

lemma pad3_digits: "0 \<le> v \<Longrightarrow> list_all is_digit (pad3 v)"
  by (simp add: pad3_pos nat_str_digits list_all_append) (simp add: list_all_iff is_digit_def)

lemma takeWhile_all: "list_all P xs \<Longrightarrow> takeWhile P xs = xs"
  by (simp add: list_all_iff)

lemma parse_digits:
  assumes "ds \<noteq> []" "list_all is_digit ds" "int (digits_val ds) < 2 ^ 63"
  shows "parse_int64 ds = Some (int (digits_val ds))"
proof -
  obtain c r where cr: "ds = c # r" using assms(1) by (cases ds) auto
  then have "is_digit c" using assms(2) by simp
  then have "c \<noteq> CHR ''-''" "c \<noteq> CHR ''+''" by (auto simp: is_digit_def less_eq_char_def)
  then show ?thesis using assms cr by (simp add: parse_int64_def)
qed

lemma scan_int_pad3:
  assumes "0 \<le> v" "v < 2 ^ 63"
  shows "scan_int (pad3 v) = Some v"
proof -
  have d: "list_all is_digit (pad3 v)" using pad3_digits assms(1) .
  have ne: "pad3 v \<noteq> []" using assms(1) by (simp add: pad3_pos)
  have v: "digits_val (pad3 v) = nat v"
    using assms(1) by (simp add: pad3_pos digits_val_zeros digits_val_nat_str)
  obtain c r where cr: "pad3 v = c # r" using ne by (cases "pad3 v") auto
  then have "is_digit c" using d by simp
  then have "c \<noteq> CHR ''-''" "c \<noteq> CHR ''+''" by (auto simp: is_digit_def less_eq_char_def)
  then have "scan_int (pad3 v) = parse_int64 (takeWhile is_digit (pad3 v))"
    by (simp add: scan_int_def cr)
  then show ?thesis using parse_digits [OF ne d] v assms takeWhile_all [OF d] by simp
qed

lemma has_prefix_append [simp]: "has_prefix (p @ q) p"
  by (simp add: has_prefix_def)

lemma has_prefix_versioned [simp]: "has_prefix (versioned base v) (base @ ''_v'')"
  using has_prefix_append [of "base @ ''_v''" "pad3 v"] by (simp add: versioned_def)

lemma scan_versioned:
  "0 \<le> v \<Longrightarrow> v < 2 ^ 63 \<Longrightarrow> scan_version (base @ ''_v'') (versioned base v) = Some v"
  using has_prefix_versioned [of base v] by (simp add: scan_version_def versioned_def scan_int_pad3)

lemma max_version_ge: "m \<le> max_version pre m ns"
proof (induction ns arbitrary: m)
  case (Cons n ns)
  show ?case
    using Cons [of m] Cons [of "the (scan_version pre n)"]
    by (cases "scan_version pre n") auto
qed simp

lemma max_version_scan: "n \<in> set ns \<Longrightarrow> scan_version pre n = Some v \<Longrightarrow> v \<le> max_version pre m ns"
proof (induction ns arbitrary: m)
  case (Cons a ns)
  show ?case
  proof (cases "a = n")
    case True
    then show ?thesis using Cons.prems max_version_ge [of v pre ns] max_version_ge [of m pre ns] by auto
  next
    case False
    then show ?thesis using Cons by (auto split: option.splits)
  qed
qed simp

lemma max_version_le:
  "m \<le> M \<Longrightarrow> (\<And>n v. n \<in> set ns \<Longrightarrow> scan_version pre n = Some v \<Longrightarrow> v \<le> M) \<Longrightarrow> max_version pre m ns \<le> M"
  by (induction ns arbitrary: m) (auto split: option.splits)


text \<open>After a new version was added, and whatever was removed, it is the highest one.\<close>

lemma max_version_next:
  assumes "0 \<le> max_version pre 0 ns" "versioned base v \<in> set ns'" "pre = base @ ''_v''"
    and "set ns' \<subseteq> insert (versioned base v) N" "\<And>n w. n \<in> N \<Longrightarrow> scan_version pre n = Some w \<Longrightarrow> w < v"
    and "0 \<le> v" "v < 2 ^ 63"
  shows "max_version pre 0 ns' = v"
proof (rule antisym)
  have sv: "scan_version pre (versioned base v) = Some v"
    using scan_versioned assms by simp
  show "max_version pre 0 ns' \<le> v"
  proof (rule max_version_le)
    fix n w assume "n \<in> set ns'" "scan_version pre n = Some w"
    then show "w \<le> v" using assms(4,5) sv by (cases "n = versioned base v") fastforce+
  qed (rule assms(6))
  show "v \<le> max_version pre 0 ns'" using max_version_scan [OF assms(2) sv] .
qed

lemma wrap64_id: "0 \<le> n \<Longrightarrow> n < 2 ^ 63 \<Longrightarrow> wrap64 n = n"
  by (simp add: wrap64_def)

section \<open>A small swarm\<close>

text \<open>An instance of the contract: two lists of objects, every other call answering nothing.\<close>

type_synonym toy_swarm = "Spec list \<times> Spec list"

definition toy_missing :: sdk_err where
  "toy_missing = Sdk_Err True ''no such object''"

definition toy_inspect :: "string \<Rightarrow> Spec list \<Rightarrow> sdk_err + Spec" where
  "toy_inspect n rs = (case row_find spName n rs of None \<Rightarrow> Inl toy_missing | Some sp \<Rightarrow> Inr sp)"

definition toy_list :: "string option \<Rightarrow> Spec list \<Rightarrow> sdk_err + Spec list" where
  "toy_list f rs = Inr (filter (label_match f) rs)"

definition toy_create :: "Spec \<Rightarrow> Spec list \<Rightarrow> sdk_err option \<times> Spec list" where
  "toy_create sp rs =
     (if row_find spName (spName sp) rs = None then (None, rs @ [sp])
      else (Some (Sdk_Err False ''already exists''), rs))"

definition toy_remove :: "string \<Rightarrow> Spec list \<Rightarrow> sdk_err option \<times> Spec list" where
  "toy_remove n rs =
     (if row_find spName n rs = None then (Some toy_missing, rs) else (None, row_delete spName n rs))"

definition toy_sdk :: "toy_swarm sdk" where
  "toy_sdk = \<lparr>
     dkNetworkInspect = (\<lambda>_ _. None),
     dkNetworkCreate = (\<lambda>_ s. (None, s)),
     dkSecretInspect = (\<lambda>n s. toy_inspect n (fst s)),
     dkSecretCreate = (\<lambda>sp s. map_prod id (\<lambda>r. (r, snd s)) (toy_create sp (fst s))),
     dkSecretRemove = (\<lambda>n s. map_prod id (\<lambda>r. (r, snd s)) (toy_remove n (fst s))),
     dkSecretList = (\<lambda>f s. toy_list f (fst s)),
     dkConfigInspect = (\<lambda>n s. toy_inspect n (snd s)),
     dkConfigCreate = (\<lambda>sp s. map_prod id (Pair (fst s)) (toy_create sp (snd s))),
     dkConfigRemove = (\<lambda>n s. map_prod id (Pair (fst s)) (toy_remove n (snd s))),
     dkConfigList = (\<lambda>f s. toy_list f (snd s)),
     dkNetworkRemove = (\<lambda>_ s. (None, s)),
     dkVolumeRemove = (\<lambda>_ _ s. (None, s)),
     dkVolumeList = (\<lambda>_ _. Inr []),
     dkServiceList = (\<lambda>_ _ _. Inr []),
     dkServiceInspect = (\<lambda>_ _. Inl toy_missing),
     dkServiceUpdate = (\<lambda>_ _ _ s. (None, s)),
     dkTaskList = (\<lambda>_ _. Inr []),
     dkNodeList = (\<lambda>_. Inr []),
     dkServiceLogs = (\<lambda>_ _ _. Inl toy_missing),
     dkExecCreate = (\<lambda>_ _ s. (Inl toy_missing, s)),
     dkExecAttach = (\<lambda>_ s. (Inl toy_missing, s)),
     dkExecInspect = (\<lambda>_ _. Inl toy_missing) \<rparr>"

lemma toy_object_calls:
  assumes get: "\<And>s x. get (put x s) = x" and rows: "\<And>s. rows s = set (get s)"
  shows "object_calls rows readable (\<lambda>n s. toy_inspect n (get s)) (\<lambda>f s. toy_list f (get s))
           (\<lambda>sp s. map_prod id (\<lambda>r. put r s) (toy_create sp (get s)))
           (\<lambda>n s. map_prod id (\<lambda>r. put r s) (toy_remove n (get s)))"
  unfolding object_calls_def
proof (intro allI conjI)
  fix s n f sp
  show "case toy_inspect n (get s) of
      Inl e \<Rightarrow> missing e \<longrightarrow> n \<notin> spName ` rows s
    | Inr sp \<Rightarrow> \<exists>o'\<in>rows s. spName o' = n \<and> (readable \<longrightarrow> sp = o')"
    using row_find_None [of spName n "get s"] row_find_SomeD [of spName n "get s"]
    by (auto simp: toy_inspect_def rows split: option.splits)
  show "case toy_list f (get s) of Inl _ \<Rightarrow> True
    | Inr l \<Rightarrow> spName ` set l = spName ` {o' \<in> rows s. label_match f o'}"
    by (simp add: toy_list_def rows)
  show "case map_prod id (\<lambda>r. put r s) (toy_create sp (get s)) of
      (None, s') \<Rightarrow> spName sp \<notin> spName ` rows s \<and> rows s' = insert sp (rows s)
    | (Some _, s') \<Rightarrow> rows s' = rows s"
    using row_find_None [of spName "spName sp" "get s"]
    by (cases "row_find spName (spName sp) (get s)") (simp_all add: toy_create_def rows get, blast?)
  show "case map_prod id (\<lambda>r. put r s) (toy_remove n (get s)) of
      (None, s') \<Rightarrow> rows s' = {o' \<in> rows s. spName o' \<noteq> n}
    | (Some e, s') \<Rightarrow> rows s' = rows s \<and> (missing e \<longrightarrow> n \<notin> spName ` rows s)"
    using row_find_None [of spName n "get s"]
    by (cases "row_find spName n (get s)") (simp_all add: toy_remove_def rows get, blast?)
qed

lemma toy_secrets: "sdk_secrets toy_sdk (\<lambda>s. set (fst s))"
  unfolding sdk_secrets_def toy_sdk_def sdk.simps
  by (rule toy_object_calls [where get = fst and put = "\<lambda>x s. (x, snd s)"]) simp_all

lemma toy_configs: "sdk_configs toy_sdk (\<lambda>s. set (snd s))"
  unfolding sdk_configs_def toy_sdk_def sdk.simps
  by (rule toy_object_calls [where get = snd and put = "\<lambda>x s. (fst s, x)"]) simp_all

section \<open>Versioned secrets\<close>

definition managed_filter :: string where
  "managed_filter = pmclusterLabel @ ''='' @ ''true''"

lemma label_filter_managed [simp]: "label_filter pmclusterLabel ''true'' = Some managed_filter"
  by (simp add: label_filter_def managed_filter_def pmclusterLabel_def)

lemma managed_specs [simp]:
  "label_match (Some managed_filter) (versioned_secret hash base name data)"
  "label_match None sp"
  by (simp_all add: label_match_def versioned_secret_def managed_filter_def)

lemma spec_names [simp]:
  "spName (versioned_secret hash base name data) = name"
  "spName (versioned_config hash base version name data) = name"
  "spData (versioned_config hash base version name data) = data"
  by (simp_all add: versioned_secret_def versioned_config_def)

lemma SecretList_names:
  assumes "sdk_secrets d rows" "SecretList d pmclusterLabel ''true'' s = Inr l"
  shows "set l = spName ` {o' \<in> rows s. label_match (Some managed_filter) o'}"
  using assms(2) object_callsD(3) [OF assms(1) [unfolded sdk_secrets_def]]
  by (auto simp: SecretList_def query_def split: sum.splits)

lemma SecretRemove_eq: "SecretRemove d = (\<lambda>n s. idempotentRemove ''secret'' (dkSecretRemove d n s))"
  by (simp add: SecretRemove_def fun_eq_iff)

lemma SecretCreate_ok:
  assumes "sdk_secrets d rows" "SecretCreate d sp s = (Inr u, s1)"
  shows "spName sp \<notin> spName ` rows s" "rows s1 = insert sp (rows s)"
proof -
  have "dkSecretCreate d sp s = (None, s1)"
    using assms(2) by (auto simp: SecretCreate_def call_def split: prod.splits option.splits)
  then show "spName sp \<notin> spName ` rows s" "rows s1 = insert sp (rows s)"
    using object_callsD(4) [OF assms(1) [unfolded sdk_secrets_def]] by blast+
qed

text \<open>The two ways in which the operation succeeds.\<close>

lemma EnsureVersionedSecret_cases:
  assumes "EnsureVersionedSecret d hash base data (hs, s) = (Inr (name, created), hs', s')"
  obtains (reuse) existing db where "SecretList d pmclusterLabel ''true'' s = Inr existing"
      "0 < max_version (base @ ''_v'') 0 existing" "name = versioned base (max_version (base @ ''_v'') 0 existing)"
      "hs = Some db" "GetSettingDefault (secretHashKey base) [] db = hash data" "hash data \<noteq> []"
      "\<not> created" "hs' = hs" "s' = s"
    | (mint) existing s1 where "SecretList d pmclusterLabel ''true'' s = Inr existing"
      "name = versioned base (wrap64 (max_version (base @ ''_v'') 0 existing + 1))"
      "SecretCreate d (versioned_secret hash base name data) s = (Inr (), s1)" created
      "hs' = map_option (SetSetting (secretHashKey base) (hash data)) hs"
      "s' = remove_old (SecretRemove d) (base @ ''_v'') name existing s1"
proof -
  obtain existing where l: "SecretList d pmclusterLabel ''true'' s = Inr existing"
    using assms by (auto simp: EnsureVersionedSecret_def split: sum.splits)
  define mv where "mv = max_version (base @ ''_v'') 0 existing"
  define stored where "stored = (case hs of None \<Rightarrow> [] | Some db \<Rightarrow> GetSettingDefault (secretHashKey base) [] db)"
  let ?name = "versioned base (wrap64 (mv + 1))"
  show thesis
  proof (cases "mv > 0 \<and> stored \<noteq> [] \<and> stored = hash data")
    case True
    then have eq: "(Inr (versioned base mv, False), hs, s) = (Inr (name, created), hs', s')"
      using assms by (auto simp: EnsureVersionedSecret_def l Let_def mv_def stored_def)
    obtain db where "hs = Some db" using True by (cases hs) (auto simp: stored_def)
    then show thesis
      using reuse [OF l, of db] True eq by (auto simp: mv_def stored_def)
  next
    case False
    obtain r s1 where c: "SecretCreate d (versioned_secret hash base ?name data) s = (r, s1)"
      by (meson surj_pair)
    have "(case r of Inl e \<Rightarrow> (Inl (Swarm_Error ''create secret'' e), hs, s1)
        | Inr _ \<Rightarrow> (Inr (?name, True), map_option (SetSetting (secretHashKey base) (hash data)) hs,
                    remove_old (SecretRemove d) (base @ ''_v'') ?name existing s1)) =
        (Inr (name, created), hs', s')"
      using assms unfolding EnsureVersionedSecret_def Let_def prod.case l sum.case
        mv_def [symmetric] stored_def [symmetric] if_not_P [OF False] c .
    then show thesis
      using mint [OF l, of s1] c by (cases r) (auto simp: mv_def)
  qed
qed

text \<open>What creating a version does to the rows.\<close>

lemma minted_rows:
  assumes "sdk_secrets d rows" "SecretList d pmclusterLabel ''true'' s = Inr existing"
    and "SecretCreate d sp s = (Inr (), s1)" "s' = remove_old (SecretRemove d) pre (spName sp) existing s1"
  shows "spName sp \<notin> spName ` rows s \<and> sp \<in> rows s' \<and> rows s' \<subseteq> insert sp (rows s) \<and>
         {o' \<in> rows s. \<not> has_prefix (spName o') pre \<or>
            spName o' \<notin> spName ` {m \<in> rows s. label_match (Some managed_filter) m}} \<subseteq> rows s'"
proof -
  note oc = assms(1) [unfolded sdk_secrets_def]
  have c: "spName sp \<notin> spName ` rows s" "rows s1 = insert sp (rows s)"
    using SecretCreate_ok [OF assms(1,3)] by simp_all
  have s': "s' = remove_old (\<lambda>n s. idempotentRemove ''secret'' (dkSecretRemove d n s)) pre (spName sp) existing s1"
    using assms(4) by (simp add: SecretRemove_eq)
  have sub: "rows s' \<subseteq> insert sp (rows s)"
    using remove_old_subset [OF oc, of "''secret''" pre "spName sp" existing s1] c s' by simp
  have keep: "{o' \<in> rows s1. \<not> has_prefix (spName o') pre \<or> spName o' = spName sp \<or>
      spName o' \<notin> set existing} \<subseteq> rows s'"
    unfolding s' by (rule remove_old_keeps [OF oc])
  have "sp \<in> rows s'" using keep c by auto
  moreover have "{o' \<in> rows s. \<not> has_prefix (spName o') pre \<or>
                 spName o' \<notin> spName ` {m \<in> rows s. label_match (Some managed_filter) m}} \<subseteq> rows s'"
    using keep c SecretList_names [OF assms(1,2)] by auto
  ultimately show ?thesis using c sub by simp
qed

definition demo_digest :: "string \<Rightarrow> string" where
  "demo_digest x = ''h:'' @ x"

definition old_swarm :: toy_swarm where
  "old_swarm =
     ([versioned_secret demo_digest ''cert'' ''cert_v001'' ''old'',
       \<lparr> spName = ''cert_vault'', spData = ''mine'', spLabels = [] \<rparr>],
      [versioned_config demo_digest ''otel'' ''1'' ''otel_v001'' ''old'',
       \<lparr> spName = ''otel_vendor'', spData = ''mine'', spLabels = [] \<rparr>])"

lemma mint_cert:
  "EnsureVersionedSecret toy_sdk demo_digest ''cert'' ''new'' (Some empty_store, old_swarm) =
     (Inr (''cert_v002'', True), Some (SetSetting ''secret_data_hash:cert'' ''h:new'' empty_store),
      [\<lparr> spName = ''cert_vault'', spData = ''mine'', spLabels = [] \<rparr>,
       versioned_secret demo_digest ''cert'' ''cert_v002'' ''new''], snd old_swarm)"
  by code_simp

lemma mint_otel:
  "EnsureConfig toy_sdk demo_digest ''otel'' ''new'' ''2'' old_swarm =
     (Inr (''otel_v002'', True), fst old_swarm, [versioned_config demo_digest ''otel'' ''2'' ''otel_v002'' ''new''])"
  by code_simp





text \<open>Provisioning the same bytes again is idempotent: it answers the name of the first
  call, creates nothing and leaves store and swarm alone, however many old versions could not be
  removed.\<close>

theorem versioned_secret_idempotent:
  assumes "sdk_secrets d rows"
    and "EnsureVersionedSecret d hash base data (Some db, s) = (Inr (name, created), w')"
    and "hash data \<noteq> []"
    and "\<And>n v. n \<in> spName ` rows s \<Longrightarrow> scan_version (base @ ''_v'') n = Some v \<Longrightarrow> v < 2 ^ 63 - 1"
    and "is_ok (SecretList d pmclusterLabel ''true'' (snd w'))"
  shows "EnsureVersionedSecret d hash base data w' = (Inr (name, False), w')"
proof -
  obtain hs' s' where w': "w' = (hs', s')" by (cases w')
  have call: "EnsureVersionedSecret d hash base data (Some db, s) = (Inr (name, created), hs', s')"
    using assms(2) w' by simp
  show ?thesis using call
  proof (cases rule: EnsureVersionedSecret_cases)
    case reuse
    then show ?thesis using w' by (simp add: EnsureVersionedSecret_def Let_def)
  next
    case (mint existing s1)
    let ?pre = "base @ ''_v''" let ?m = "max_version ?pre 0 existing"
    let ?sp = "versioned_secret hash base name data"
    have eff: "?sp \<in> rows s'" "rows s' \<subseteq> insert ?sp (rows s)"
      using minted_rows [OF assms(1) mint(1,3), of s' ?pre] mint(6) by simp_all
    obtain l where l: "SecretList d pmclusterLabel ''true'' s' = Inr l"
      using assms(5) w' by (auto simp: is_ok_iff)
    have names: "name \<in> set l"
      using SecretList_names [OF assms(1) l] eff(1) by (auto simp: image_iff intro!: bexI [of _ ?sp])
    have sub: "set l \<subseteq> insert name (set existing)"
      using SecretList_names [OF assms(1) l] SecretList_names [OF assms(1) mint(1)] eff by auto
    have ge: "0 \<le> ?m" by (rule max_version_ge)
    have lt: "?m < 2 ^ 63 - 1"
    proof (rule ccontr)
      assume "\<not> ?m < 2 ^ 63 - 1"
      moreover have "?m \<le> 2 ^ 63 - 2"
      proof (rule max_version_le)
        fix n v assume "n \<in> set existing" "scan_version ?pre n = Some v"
        moreover have "n \<in> spName ` rows s"
          using calculation(1) SecretList_names [OF assms(1) mint(1)] by auto
        ultimately show "v \<le> 2 ^ 63 - 2" using assms(4) [of n v] by simp
      qed simp
      ultimately show False by simp
    qed
    have nm: "name = versioned base (?m + 1)" using mint(2) ge lt by (simp add: wrap64_id)
    have "max_version ?pre 0 l = ?m + 1"
    proof (rule max_version_next [where N = "set existing" and ns = existing])
      show "\<And>n w. n \<in> set existing \<Longrightarrow> scan_version ?pre n = Some w \<Longrightarrow> w < ?m + 1"
        by (metis max_version_scan zle_add1_eq_le add.commute)
    qed (use names sub nm ge lt in auto)
    then show ?thesis
      using w' l mint(5) assms(3) nm ge
      by (simp add: EnsureVersionedSecret_def Let_def GetSettingDefault_SetSetting)
  qed
qed

theorem versioned_secret_idempotent_witness:
  "EnsureVersionedSecret toy_sdk demo_digest ''cert'' ''new''
     (snd (EnsureVersionedSecret toy_sdk demo_digest ''cert'' ''new'' (Some empty_store, old_swarm))) =
   (Inr (''cert_v002'', False),
      snd (EnsureVersionedSecret toy_sdk demo_digest ''cert'' ''new'' (Some empty_store, old_swarm)))"
proof -
  have "v < 2 ^ 63 - 1" if "n \<in> spName ` set (fst old_swarm)" "scan_version (''cert'' @ ''_v'') n = Some v" for n v
  proof -
    have "scan_version (''cert'' @ ''_v'') ''cert_v001'' = Some 1"
      "scan_version (''cert'' @ ''_v'') ''cert_vault'' = None"
      by code_simp+
    then show ?thesis using that by (auto simp: old_swarm_def versioned_secret_def)
  qed
  moreover have "is_ok (SecretList toy_sdk pmclusterLabel ''true'' w)" for w
    by (simp add: SecretList_def toy_sdk_def toy_list_def query_def)
  ultimately show ?thesis
    using versioned_secret_idempotent [OF toy_secrets mint_cert, folded mint_cert]
    by (simp add: demo_digest_def mint_cert)
qed

section \<open>Versioned configs\<close>

lemma ConfigList_names:
  assumes "sdk_configs d rows" "ConfigList d [] [] s = Inr l"
  shows "set l = spName ` rows s"
  using assms(2) object_callsD(3) [OF assms(1) [unfolded sdk_configs_def]]
  by (auto simp: ConfigList_def query_def label_filter_def split: sum.splits)

lemma ConfigRemove_eq: "ConfigRemove d = (\<lambda>n s. idempotentRemove ''config'' (dkConfigRemove d n s))"
  by (simp add: ConfigRemove_def fun_eq_iff)

lemma ConfigInspect_row:
  assumes "sdk_configs d rows" "ConfigInspect d n s = Inr c"
  shows "\<exists>o' \<in> rows s. spName o' = n \<and> irData c = spData o'"
  using assms(2) object_callsD(1) [OF assms(1) [unfolded sdk_configs_def], of n s]
  by (auto simp: ConfigInspect_def query_def inspect_of_def split: sum.splits)

lemma EnsureConfig_cases:
  assumes "EnsureConfig d hash base data version s = (Inr (name, created), s')"
  obtains (reuse) existing cur where "ConfigList d [] [] s = Inr existing"
      "0 < max_version (base @ ''_v'') 0 existing" "name = versioned base (max_version (base @ ''_v'') 0 existing)"
      "ConfigInspect d name s = Inr cur" "hash (irData cur) = hash data" "\<not> created" "s' = s"
    | (mint) existing s1 where "ConfigList d [] [] s = Inr existing"
      "name = versioned base (wrap64 (max_version (base @ ''_v'') 0 existing + 1))"
      "ConfigCreate d (versioned_config hash base version name data) s = (Inr (), s1)" created
      "s' = remove_old (ConfigRemove d) (base @ ''_v'') name existing s1"
proof -
  obtain existing where l: "ConfigList d [] [] s = Inr existing"
    using assms by (auto simp: EnsureConfig_def split: sum.splits)
  define mv where "mv = max_version (base @ ''_v'') 0 existing"
  let ?name = "versioned base (wrap64 (mv + 1))"
  show thesis
  proof (cases "mv > 0 \<and> (\<exists>cur. ConfigInspect d (versioned base mv) s = Inr cur \<and> hash (irData cur) = hash data)")
    case True
    then obtain cur where cur: "ConfigInspect d (versioned base mv) s = Inr cur"
      "hash (irData cur) = hash data" by blast
    have "(Inr (versioned base mv, False), s) = (Inr (name, created), s')"
      using assms conjunct1 [OF True]
      unfolding EnsureConfig_def Let_def l sum.case mv_def [symmetric] cur(1)
      by (simp add: cur(2))
    then have "name = versioned base mv" "\<not> created" "s' = s" by simp_all
    then show thesis
      using reuse [OF l, of cur] conjunct1 [OF True] cur unfolding mv_def by blast
  next
    case False
    obtain r s1 where c: "ConfigCreate d (versioned_config hash base version ?name data) s = (r, s1)"
      by (meson surj_pair)
    have no: "\<not> (mv > 0 \<and> (case ConfigInspect d (versioned base mv) s of Inl _ \<Rightarrow> False
        | Inr cur \<Rightarrow> hash (irData cur) = hash data))"
      using False by (auto split: sum.splits)
    have "(case r of Inl e \<Rightarrow> (Inl (Swarm_Error ''create config'' e), s1)
        | Inr _ \<Rightarrow> (Inr (?name, True), remove_old (ConfigRemove d) (base @ ''_v'') ?name existing s1)) =
        (Inr (name, created), s')"
      using assms unfolding EnsureConfig_def Let_def l sum.case mv_def [symmetric] if_not_P [OF no] c prod.case .
    then show thesis
      using mint [OF l, of s1] c by (cases r) (auto simp: mv_def)
  qed
qed

lemma minted_configs:
  assumes "sdk_configs d rows" "ConfigList d [] [] s = Inr existing"
    and "ConfigCreate d sp s = (Inr (), s1)" "s' = remove_old (ConfigRemove d) pre (spName sp) existing s1"
  shows "spName sp \<notin> spName ` rows s \<and> sp \<in> rows s' \<and> rows s' \<subseteq> insert sp (rows s) \<and>
         {o' \<in> rows s. \<not> has_prefix (spName o') pre} \<subseteq> rows s' \<and>
         ((\<forall>n s. is_ok (fst (ConfigRemove d n s))) \<longrightarrow>
            {o' \<in> rows s'. has_prefix (spName o') pre} \<subseteq> {sp})"
proof -
  note oc = assms(1) [unfolded sdk_configs_def]
  have "dkConfigCreate d sp s = (None, s1)"
    using assms(3) by (auto simp: ConfigCreate_def call_def split: prod.splits option.splits)
  then have c: "spName sp \<notin> spName ` rows s" "rows s1 = insert sp (rows s)"
    using object_callsD(4) [OF oc] by blast+
  have s': "s' = remove_old (\<lambda>n s. idempotentRemove ''config'' (dkConfigRemove d n s)) pre (spName sp) existing s1"
    using assms(4) by (simp add: ConfigRemove_eq)
  have sub: "rows s' \<subseteq> insert sp (rows s)"
    using remove_old_subset [OF oc, of "''config''" pre "spName sp" existing s1] c s' by simp
  have keep: "{o' \<in> rows s1. \<not> has_prefix (spName o') pre \<or> spName o' = spName sp \<or>
      spName o' \<notin> set existing} \<subseteq> rows s'"
    unfolding s' by (rule remove_old_keeps [OF oc])
  have "sp \<in> rows s'" "{o' \<in> rows s. \<not> has_prefix (spName o') pre} \<subseteq> rows s'" using keep c by auto
  moreover have "{o' \<in> rows s'. has_prefix (spName o') pre} \<subseteq> {sp}"
    if "\<forall>n s. is_ok (fst (ConfigRemove d n s))"
  proof -
    have "rows s' = {o' \<in> rows s1. \<not> has_prefix (spName o') pre \<or> spName o' = spName sp \<or> spName o' \<notin> set existing}"
      unfolding s' by (rule remove_old_complete [OF oc]) (use that in \<open>simp add: ConfigRemove_def\<close>)
    moreover have "spName o' = spName sp \<Longrightarrow> o' \<in> rows s1 \<Longrightarrow> o' = sp" for o'
      using c by (auto simp: image_iff)
    ultimately show ?thesis using ConfigList_names [OF assms(1,2)] c by auto
  qed
  ultimately show ?thesis using c sub by simp
qed

text \<open>A config that holds the same bytes (up to their hash) is reused, whatever its label
  says, and nothing changes; otherwise a new version is created under a free name and older
  versions are collected.  Configs whose name does not start with the base survive.\<close>

theorem ensure_config_effect:
  assumes "sdk_configs d rows"
    and "EnsureConfig d hash base data version s = (Inr (name, created), s')"
  shows "if created
         then name \<notin> spName ` rows s \<and> versioned_config hash base version name data \<in> rows s' \<and>
              rows s' \<subseteq> insert (versioned_config hash base version name data) (rows s) \<and>
              {o' \<in> rows s. \<not> has_prefix (spName o') (base @ ''_v'')} \<subseteq> rows s'
         else s' = s \<and> (\<exists>o' \<in> rows s. spName o' = name \<and> hash (spData o') = hash data)"
  using assms(2)
proof (cases rule: EnsureConfig_cases)
  case (reuse existing cur)
  then show ?thesis using ConfigInspect_row [OF assms(1) reuse(4)] by auto
next
  case (mint existing s1)
  then show ?thesis
    using minted_configs [OF assms(1) mint(1,3), of s' "base @ ''_v''"] by simp
qed

theorem ensure_config_effect_witness:
  "versioned_config demo_digest ''otel'' ''2'' ''otel_v002'' ''new'' \<in>
     set (snd (snd (EnsureConfig toy_sdk demo_digest ''otel'' ''new'' ''2'' old_swarm)))"
  using ensure_config_effect [OF toy_configs mint_otel] by (simp add: mint_otel)

text \<open>The collection does not look at labels: when no removal is refused, a new version
  leaves no other config whose name starts with the base and \<^verbatim>\<open>_v\<close>, an operator's included, and a
  foreign name that goes on with digits sets the version number.\<close>

theorem config_gc_removes_foreign_configs:
  assumes "sdk_configs d rows" "\<And>n s. is_ok (fst (ConfigRemove d n s))"
    and "EnsureConfig d hash base data version s = (Inr (name, True), s')"
    and "o' \<in> rows s" "has_prefix (spName o') (base @ ''_v'')"
  shows "o' \<notin> rows s' \<and>
    (\<forall>v. scan_version (base @ ''_v'') (spName o') = Some v \<longrightarrow>
         (\<exists>m\<ge>v. name = versioned base (wrap64 (m + 1))))"
  using assms(3)
proof (cases rule: EnsureConfig_cases)
  case (mint existing s1)
  have eff: "name \<notin> spName ` rows s" "{o' \<in> rows s'. has_prefix (spName o') (base @ ''_v'')} \<subseteq>
      {versioned_config hash base version name data}"
    using minted_configs [OF assms(1) mint(1,3), of s' "base @ ''_v''"] mint(5) assms(2) by simp_all
  have "o' \<notin> rows s'"
  proof
    assume "o' \<in> rows s'"
    then have "o' = versioned_config hash base version name data" using eff(2) assms(5) by auto
    then show False using eff(1) assms(4) by force
  qed
  moreover have "spName o' \<in> set existing"
    using ConfigList_names [OF assms(1) mint(1)] assms(4) by auto
  ultimately show ?thesis using max_version_scan mint(2) by blast
qed simp

theorem config_gc_removes_foreign_configs_witness:
  "\<lparr> spName = ''otel_vendor'', spData = ''mine'', spLabels = [] \<rparr> \<in> set (snd old_swarm) \<and>
   \<lparr> spName = ''otel_vendor'', spData = ''mine'', spLabels = [] \<rparr> \<notin>
     set (snd (snd (EnsureConfig toy_sdk demo_digest ''otel'' ''new'' ''2'' old_swarm)))"
proof -
  have ok: "is_ok (fst (ConfigRemove toy_sdk n s))" for n s
    by (simp add: ConfigRemove_def toy_sdk_def toy_remove_def idempotentRemove_def missing_def
        toy_missing_def sdk_is_not_found_def)
  have "has_prefix ''otel_vendor'' (''otel'' @ ''_v'')" by code_simp
  then show ?thesis
    using config_gc_removes_foreign_configs [OF toy_configs ok mint_otel,
        of "\<lparr> spName = ''otel_vendor'', spData = ''mine'', spLabels = [] \<rparr>"]
    unfolding mint_otel by (simp add: old_swarm_def)
qed

section \<open>Passwords\<close>

lemma length_b64:
  "length (b64url_encode s) =
     4 * (length s div 3) + (if length s mod 3 = 0 then 0 else length s mod 3 + 1)"
proof (induction s rule: b64url_encode.induct)
  case (4 a b c r)
  have "(3 + length r) div 3 = Suc (length r div 3)" by simp
  then show ?case using 4 by (simp add: Let_def)
qed (simp_all add: Let_def)

lemma length_place [simp]: "length (place_class buf i b) = Suc (length b)"
  by (simp add: place_class_def insert_at_def Let_def)

lemma set_place: "set b \<subseteq> set (place_class buf i b)"
proof -
  let ?n = "of_char (buf ! (4 + i)) mod length b"
  have "set b = set (take ?n b) \<union> set (drop ?n b)" by (metis append_take_drop_id set_append)
  then show ?thesis by (auto simp: place_class_def insert_at_def Let_def)
qed

lemma place_in: "i < 4 \<Longrightarrow> \<exists>c \<in> set (place_class buf i b). c \<in> set (password_classes ! i)"
proof -
  assume i: "i < 4"
  have "\<forall>c \<in> set password_classes. c \<noteq> []" by code_simp
  moreover have "password_classes ! i \<in> set password_classes"
    using i by (intro nth_mem) (simp add: password_classes_def)
  ultimately have "password_classes ! i \<noteq> []" by blast
  then have "password_classes ! i ! (of_char (buf ! i) mod length (password_classes ! i)) \<in>
      set (password_classes ! i)" by simp
  then show ?thesis by (auto simp: place_class_def insert_at_def Let_def)
qed

lemma RandomPassword_policy:
  assumes "length buf = 24"
  shows "\<exists>p. RandomPassword (Some buf) = Inr p \<and> length p = 36 \<and>
    (\<forall>i<4. set p \<inter> set (password_classes ! i) \<noteq> {})"
proof -
  let ?b = "b64url_encode buf" let ?f = "place_class buf"
  define p where "p = ?f 3 (?f 2 (?f 1 (?f 0 ?b)))"
  have p: "RandomPassword (Some buf) = Inr p"
    by (simp add: RandomPassword_def p_def upt_rec numeral_eq_Suc)
  have "length p = 36" using assms by (simp add: p_def length_b64)
  moreover have "set p \<inter> set (password_classes ! i) \<noteq> {}" if "i < 4" for i
  proof -
    have "i = 0 \<or> i = 1 \<or> i = 2 \<or> i = 3" using that by arith
    then obtain b where b: "set (?f i b) \<subseteq> set p"
      unfolding p_def by (elim disjE) (metis set_place subset_trans subset_refl)+
    then show ?thesis using place_in [OF that, of buf b] by auto
  qed
  ultimately show ?thesis using p by blast
qed

text \<open>A random password has 36 characters and holds a lower case letter, an upper case
  letter, a digit and a special character, whatever the random bytes are.\<close>

theorem random_password_meets_policy:
  assumes "length buf = 24"
  shows "\<exists>p. RandomPassword (Some buf) = Inr p \<and> length p = 36 \<and>
    (\<forall>i<4. set p \<inter> set (password_classes ! i) \<noteq> {})"
  using assms by (rule RandomPassword_policy)

theorem random_password_meets_policy_witness:
  "\<exists>p. RandomPassword (Some (replicate 24 (CHR ''a''))) = Inr p \<and> length p = 36"
  using random_password_meets_policy [of "replicate 24 (CHR ''a'')"] by auto

end
