(* ===== verification/Cluster_Stacks.thy ===== *)
theory Cluster_Stacks
  imports Swarm_Client
begin

text \<open>
  The stack deployer (\<^verbatim>\<open>cluster/stacks.go\<close>), which runs the \<^verbatim>\<open>docker\<close> command line, and the health wait
  after a bring-up (\<^verbatim>\<open>cluster/health.go\<close>).

  The command line is the record \<^verbatim>\<open>cli\<close>: one run takes its arguments, its standard input and the
  state \<^verbatim>\<open>'sw\<close>, and answers its output and whether it succeeded; \<^verbatim>\<open>clWait\<close> is the pause between two
  attempts, which tells whether the context was cancelled meanwhile.
\<close>

section \<open>The docker command line\<close>

record 'sw cli =
  clRun :: "string list \<Rightarrow> string \<Rightarrow> 'sw \<Rightarrow> string \<times> bool \<times> 'sw"
  clWait :: "'sw \<Rightarrow> bool \<times> 'sw"
  clServices :: "string \<Rightarrow> string + string list"

datatype deployer_err =
    Docker_Output string
  | Docker_Exit
  | Cancelled
  | Compose_Parse string
  | Bad_Duration string

definition trimOutput :: "string \<Rightarrow> string" where
  "trimOutput s = rev (dropWhile (\<lambda>c. c = CHR 0x0A \<or> c = CHR 0x20 \<or> c = CHR 0x09) (rev s))"

definition runWithOutput :: "'sw cli \<Rightarrow> string list \<Rightarrow> string \<Rightarrow> 'sw \<Rightarrow> string \<times> bool \<times> 'sw" where
  "runWithOutput cl argv input s =
     (let (out, ok, s') = clRun cl argv input s in (trimOutput out, ok, s'))"

definition forceUpdateRetries :: nat where "forceUpdateRetries = 5"

definition out_of_sequence :: "string \<Rightarrow> bool" where
  "out_of_sequence out = contains_str out ''update out of sequence''"

definition failure_of :: "string \<Rightarrow> deployer_err" where
  "failure_of out = (if out \<noteq> [] then Docker_Output out else Docker_Exit)"

text \<open>The retry loop shared by \<^verbatim>\<open>DeployStack\<close> and \<^verbatim>\<open>ForceUpdateService\<close>: \<^verbatim>\<open>n\<close> attempts are left, \<^verbatim>\<open>out\<close> is the
  output of the last failed one.\<close>

fun retry_loop ::
  "'sw cli \<Rightarrow> string list \<Rightarrow> string \<Rightarrow> nat \<Rightarrow> string \<Rightarrow> 'sw \<Rightarrow> (deployer_err + unit) \<times> 'sw" where
  "retry_loop cl argv input 0 out s = (Inl (failure_of out), s)"
| "retry_loop cl argv input (Suc n) out s =
     (case clWait cl s of
        (True, s1) \<Rightarrow> (Inl Cancelled, s1)
      | (False, s1) \<Rightarrow>
         (case runWithOutput cl argv input s1 of
            (_, True, s2) \<Rightarrow> (Inr (), s2)
          | (out', False, s2) \<Rightarrow>
              if out_of_sequence out' then retry_loop cl argv input n out' s2
              else (Inl (failure_of out'), s2)))"

definition run_with_retries ::
  "'sw cli \<Rightarrow> string list \<Rightarrow> string \<Rightarrow> 'sw \<Rightarrow> (deployer_err + unit) \<times> 'sw" where
  "run_with_retries cl argv input s =
     (case runWithOutput cl argv input s of
        (_, True, s1) \<Rightarrow> (Inr (), s1)
      | (out, False, s1) \<Rightarrow>
          if out_of_sequence out then retry_loop cl argv input forceUpdateRetries out s1
          else (Inl (failure_of out), s1))"

definition update_argv :: "string \<Rightarrow> string list" where
  "update_argv fullName =
     [''docker'', ''service'', ''update'', ''--force'', ''--detach=true'', fullName]"

definition ForceUpdateService :: "'sw cli \<Rightarrow> string \<Rightarrow> 'sw \<Rightarrow> (deployer_err + unit) \<times> 'sw" where
  "ForceUpdateService cl fullName s = run_with_retries cl (update_argv fullName) [] s"

section \<open>Services the compose file no longer declares\<close>

definition pruneCandidates ::
  "(string \<Rightarrow> string + string list) \<Rightarrow> string \<Rightarrow> string \<Rightarrow> string list \<Rightarrow> deployer_err + string list" where
  "pruneCandidates parse stackName composeYAML live =
     (case parse composeYAML of
        Inl e \<Rightarrow> Inl (Compose_Parse e)
      | Inr svcs \<Rightarrow>
          if svcs = [] then Inr []
          else Inr (filter (\<lambda>n. n \<noteq> [] \<and> n \<notin> (\<lambda>svc. stackName @ ''_'' @ svc) ` set svcs)
                     (map trim_space live)))"

definition services_argv :: "string \<Rightarrow> string list" where
  "services_argv stackName =
     [''docker'', ''stack'', ''services'', ''--format'', ''{{.Name}}'', stackName]"

fun remove_services :: "'sw cli \<Rightarrow> string list \<Rightarrow> 'sw \<Rightarrow> (deployer_err + unit) \<times> 'sw" where
  "remove_services cl [] s = (Inr (), s)"
| "remove_services cl (n # ns) s =
     (case runWithOutput cl [''docker'', ''service'', ''rm'', n] [] s of
        (out, True, s1) \<Rightarrow> remove_services cl ns s1
      | (out, False, s1) \<Rightarrow> (Inl (Docker_Output out), s1))"

definition pruneStackServices :: "'sw cli \<Rightarrow> string \<Rightarrow> string \<Rightarrow> 'sw \<Rightarrow> (deployer_err + unit) \<times> 'sw" where
  "pruneStackServices cl stackName composeYAML s =
     (case runWithOutput cl (services_argv stackName) [] s of
        (out, False, s1) \<Rightarrow> (Inl (Docker_Output out), s1)
      | (out, True, s1) \<Rightarrow>
         (case pruneCandidates (clServices cl) stackName composeYAML
                 (split_at (CHR 0x0A) (trim_space out)) of
            Inl e \<Rightarrow> (Inl e, s1)
          | Inr gone \<Rightarrow> remove_services cl gone s1))"

fun force_services :: "'sw cli \<Rightarrow> string list \<Rightarrow> 'sw \<Rightarrow> (deployer_err + unit) \<times> 'sw" where
  "force_services cl [] s = (Inr (), s)"
| "force_services cl (n # ns) s =
     (let name = trim_space n in
      if name = [] then force_services cl ns s
      else (case ForceUpdateService cl name s of
              (Inl e, s1) \<Rightarrow> (Inl e, s1)
            | (Inr _, s1) \<Rightarrow> force_services cl ns s1))"

definition forceUpdateStackServices :: "'sw cli \<Rightarrow> string \<Rightarrow> 'sw \<Rightarrow> (deployer_err + unit) \<times> 'sw" where
  "forceUpdateStackServices cl stackName s =
     (case runWithOutput cl (services_argv stackName) [] s of
        (out, False, s1) \<Rightarrow> (Inl (Docker_Output out), s1)
      | (out, True, s1) \<Rightarrow> force_services cl (split_at (CHR 0x0A) (trim_space out)) s1)"

section \<open>Deploying and removing a stack\<close>

definition deploy_argv :: "string \<Rightarrow> string list" where
  "deploy_argv name =
     [''docker'', ''stack'', ''deploy'', ''--detach=true'', ''--resolve-image=always'',
      ''--with-registry-auth'', ''-c'', ''-'', name]"

definition DeployStack :: "'sw cli \<Rightarrow> string \<Rightarrow> string \<Rightarrow> 'sw \<Rightarrow> (deployer_err + unit) \<times> 'sw" where
  "DeployStack cl name composeYAML s =
     (case run_with_retries cl (deploy_argv name) composeYAML s of
        (Inl e, s1) \<Rightarrow> (Inl e, s1)
      | (Inr _, s1) \<Rightarrow>
         (case pruneStackServices cl name composeYAML s1 of
            (Inl e, s2) \<Rightarrow> (Inl e, s2)
          | (Inr _, s2) \<Rightarrow> forceUpdateStackServices cl name s2))"

definition RemoveStack :: "'sw cli \<Rightarrow> string \<Rightarrow> 'sw \<Rightarrow> (deployer_err + unit) \<times> 'sw" where
  "RemoveStack cl name s =
     (case runWithOutput cl [''docker'', ''stack'', ''rm'', name] [] s of
        (out, True, s1) \<Rightarrow> (Inr (), s1)
      | (out, False, s1) \<Rightarrow> (Inl (failure_of out), s1))"

section \<open>Stale containers\<close>

text \<open>\<^verbatim>\<open>durOf\<close> and \<^verbatim>\<open>timeOf\<close> are Go's duration and RFC 3339 parsers, \<^verbatim>\<open>now\<close> the clock at each inspection.\<close>

fun prune_containers ::
  "'sw cli \<Rightarrow> (string \<Rightarrow> int option) \<Rightarrow> ('sw \<Rightarrow> int) \<Rightarrow> int \<Rightarrow> string list \<Rightarrow> 'sw \<Rightarrow> 'sw" where
  "prune_containers cl timeOf now dur [] s = s"
| "prune_containers cl timeOf now dur (i # ids) s =
     (let cid = trim_space i in
      if cid = [] then prune_containers cl timeOf now dur ids s
      else
        (let (finishedAt, ok, s1) = runWithOutput cl
               [''docker'', ''inspect'', ''--format'', ''{{.State.FinishedAt}}'', cid] [] s
         in if \<not> ok then prune_containers cl timeOf now dur ids s1
            else (case timeOf (trim_space finishedAt) of
                    None \<Rightarrow> prune_containers cl timeOf now dur ids s1
                  | Some t \<Rightarrow>
                      if now s1 - t < dur then prune_containers cl timeOf now dur ids s1
                      else (let (_, _, s2) = runWithOutput cl [''docker'', ''rm'', cid] [] s1
                            in prune_containers cl timeOf now dur ids s2))))"

definition PruneStaleContainers ::
  "'sw cli \<Rightarrow> (string \<Rightarrow> int option) \<Rightarrow> (string \<Rightarrow> int option) \<Rightarrow> ('sw \<Rightarrow> int) \<Rightarrow> string \<Rightarrow> string \<Rightarrow> 'sw \<Rightarrow>
     (deployer_err + unit) \<times> 'sw" where
  "PruneStaleContainers cl durOf timeOf now stackName olderThan s =
     (let (out, ok, s1) = runWithOutput cl
            [''docker'', ''container'', ''ls'', ''-a'', ''--filter'', ''status=exited'',
             ''--filter'', ''name=^/'' @ stackName @ ''_'', ''--format'', ''{{.ID}}''] [] s
      in if \<not> ok then (Inl (Docker_Output out), s1)
         else (case durOf olderThan of
                 None \<Rightarrow> (Inl (Bad_Duration olderThan), s1)
               | Some dur \<Rightarrow>
                   (Inr (), prune_containers cl timeOf now dur (split_at (CHR 0x0A) (trim_space out)) s1)))"

section \<open>The health wait\<close>

definition bundledServices :: "string list" where
  "bundledServices =
     [''infra_traefik'', ''edge_pmcluster-edge'', ''observability_openobserve'',
      ''observability_otel-collector'', ''backup_volume-backup'']"

definition defaultHealthTimeout :: int where "defaultHealthTimeout = 60"

definition is_healthy :: "Service \<Rightarrow> bool" where
  "is_healthy s \<longleftrightarrow> svDesired s > 0 \<and> svReplicas s \<ge> svDesired s"

definition unhealthy_services :: "Service list \<Rightarrow> string list" where
  "unhealthy_services svcs =
     map svName (filter (\<lambda>s. \<not> is_healthy s \<and> svName s \<in> set bundledServices) svcs)"

definition all_bundled_healthy :: "Service list \<Rightarrow> bool" where
  "all_bundled_healthy svcs =
     list_all (\<lambda>name. \<exists>s \<in> set svcs. is_healthy s \<and> svName s = name) bundledServices"

text \<open>What one turn of the loop observes: whether the context is done at its start, the clock, the
  answer of the service list, and whether the context was done while waiting for the ticker.\<close>

record poll =
  poCancelled :: bool
  poNow :: int
  poServices :: "client_err + Service list"
  poDoneWaiting :: bool

datatype health = Healthy | Health_Cancelled "string list" | Health_Timed_Out "string list"

text \<open>The loop over the observations still to come; None when they run out, that is, when it is
  still waiting.  The second argument is the list \<^verbatim>\<open>unhealthy\<close>.\<close>

fun wait_loop :: "int \<Rightarrow> string list \<Rightarrow> poll list \<Rightarrow> health option" where
  "wait_loop deadline unhealthy [] = None"
| "wait_loop deadline unhealthy (p # ps) =
     (if poCancelled p then Some (Health_Cancelled unhealthy)
      else (case poServices p of
              Inl _ \<Rightarrow> if poDoneWaiting p then Some (Health_Cancelled unhealthy)
                       else wait_loop deadline unhealthy ps
            | Inr svcs \<Rightarrow>
                (let u = unhealthy_services svcs in
                 if all_bundled_healthy svcs then Some Healthy
                 else if poNow p > deadline then Some (Health_Timed_Out u)
                 else if poDoneWaiting p then Some (Health_Cancelled u)
                 else wait_loop deadline u ps)))"

definition WaitHealthyStacks :: "int \<Rightarrow> poll list \<Rightarrow> health option" where
  "WaitHealthyStacks start ps = wait_loop (start + defaultHealthTimeout) [] ps"

section \<open>Attempts\<close>

text \<open>The state before attempt \<^verbatim>\<open>i\<close> when every attempt is followed by the pause; whether the attempt made
  in a state asks for another one; and whether the pause after it is cut short.\<close>

fun before_attempt :: "'sw cli \<Rightarrow> string list \<Rightarrow> string \<Rightarrow> nat \<Rightarrow> 'sw \<Rightarrow> 'sw" where
  "before_attempt cl argv input 0 s = s"
| "before_attempt cl argv input (Suc i) s =
     before_attempt cl argv input i (snd (clWait cl (snd (snd (runWithOutput cl argv input s)))))"

definition asks_again :: "'sw cli \<Rightarrow> string list \<Rightarrow> string \<Rightarrow> 'sw \<Rightarrow> bool" where
  "asks_again cl argv input s \<longleftrightarrow>
     (case runWithOutput cl argv input s of (out, ok, _) \<Rightarrow> \<not> ok \<and> out_of_sequence out)"

definition cut_short :: "'sw cli \<Rightarrow> string list \<Rightarrow> string \<Rightarrow> 'sw \<Rightarrow> bool" where
  "cut_short cl argv input s \<longleftrightarrow> fst (clWait cl (snd (snd (runWithOutput cl argv input s))))"

text \<open>The answer when \<^verbatim>\<open>s\<close> is the state before the last attempt.\<close>

definition last_attempt ::
  "'sw cli \<Rightarrow> string list \<Rightarrow> string \<Rightarrow> bool \<Rightarrow> 'sw \<Rightarrow> (deployer_err + unit) \<times> 'sw" where
  "last_attempt cl argv input exhausted s =
     (case runWithOutput cl argv input s of
        (out, ok, s1) \<Rightarrow>
          if ok then (Inr (), s1)
          else if out_of_sequence out \<and> \<not> exhausted then (Inl Cancelled, snd (clWait cl s1))
          else (Inl (failure_of out), s1))"

lemma retry_loop_attempts:
  assumes "runWithOutput cl argv input s = (out, False, s1)" "out_of_sequence out"
  shows "\<exists>m\<le>n. (\<forall>i<m. asks_again cl argv input (before_attempt cl argv input i s) \<and>
       \<not> cut_short cl argv input (before_attempt cl argv input i s)) \<and>
     (m = n \<or> \<not> asks_again cl argv input (before_attempt cl argv input m s) \<or>
       cut_short cl argv input (before_attempt cl argv input m s)) \<and>
     retry_loop cl argv input n out s1 = last_attempt cl argv input (m = n) (before_attempt cl argv input m s)"
  using assms
proof (induction n arbitrary: out s s1)
  case 0
  then show ?case by (simp add: last_attempt_def)
next
  case (Suc n)
  obtain b s2 where w: "clWait cl s1 = (b, s2)" by (cases "clWait cl s1")
  have here: "asks_again cl argv input s" using Suc.prems by (simp add: asks_again_def)
  show ?case
  proof (cases b)
    case True
    then show ?thesis
      using w Suc.prems by (intro exI [of _ 0]) (simp add: last_attempt_def cut_short_def)
  next
    case False
    then have go: "\<not> cut_short cl argv input s" "before_attempt cl argv input (Suc i) s = before_attempt cl argv input i s2" for i
      using w Suc.prems by (simp_all add: cut_short_def)
    obtain out' ok s3 where r: "runWithOutput cl argv input s2 = (out', ok, s3)" by (metis surj_pair)
    show ?thesis
    proof (cases "\<not> ok \<and> out_of_sequence out'")
      case True
      then obtain m where m: "m \<le> n" "\<forall>i<m. asks_again cl argv input (before_attempt cl argv input i s2) \<and>
           \<not> cut_short cl argv input (before_attempt cl argv input i s2)"
        "m = n \<or> \<not> asks_again cl argv input (before_attempt cl argv input m s2) \<or>
           cut_short cl argv input (before_attempt cl argv input m s2)"
        "retry_loop cl argv input n out' s3 = last_attempt cl argv input (m = n) (before_attempt cl argv input m s2)"
        using Suc.IH [of s2 out' s3] r by auto
      have "\<forall>i<Suc m. asks_again cl argv input (before_attempt cl argv input i s) \<and>
           \<not> cut_short cl argv input (before_attempt cl argv input i s)"
        using m(2) here go less_Suc_eq_0_disj by auto
      then show ?thesis
        using m True w r False by (intro exI [of _ "Suc m"]) (simp add: go(2) del: before_attempt.simps)
    next
      case no: False
      then have "\<not> asks_again cl argv input s2" by (simp add: asks_again_def r)
      moreover have "last_attempt cl argv input x s2 = (if ok then (Inr (), s3) else (Inl (failure_of out'), s3))" for x
        using no by (auto simp: last_attempt_def r)
      ultimately show ?thesis
        using w r False no here go(1) Suc.prems(1) by (intro exI [of _ 1]) (cases ok, simp_all)
    qed
  qed
qed

text \<open>Property C21.  A docker command that the deployer retries is run at most six times, and how
  often is fixed by the answers: attempt \<^verbatim>\<open>i + 1\<close> is made exactly when each attempt before it failed as
  out of sequence and no pause between them was cut short.  The last attempt decides the result: its
  success, a cancellation when the pause after it was cut short, and otherwise its failure.\<close>

theorem retries_are_bounded:
  "\<exists>n\<le>5. (\<forall>i<n. asks_again cl argv input (before_attempt cl argv input i s) \<and>
       \<not> cut_short cl argv input (before_attempt cl argv input i s)) \<and>
     (n = 5 \<or> \<not> asks_again cl argv input (before_attempt cl argv input n s) \<or>
       cut_short cl argv input (before_attempt cl argv input n s)) \<and>
     run_with_retries cl argv input s = last_attempt cl argv input (n = 5) (before_attempt cl argv input n s)"
proof -
  obtain out ok s1 where r: "runWithOutput cl argv input s = (out, ok, s1)"
    by (cases "runWithOutput cl argv input s")
  show ?thesis
  proof (cases "\<not> ok \<and> out_of_sequence out")
    case True
    then show ?thesis
      using retry_loop_attempts [of cl argv input s out s1 5] r
      by (simp add: run_with_retries_def forceUpdateRetries_def)
  next
    case False
    then show ?thesis
      by (intro exI [of _ 0]) (cases ok, simp_all add: run_with_retries_def r asks_again_def last_attempt_def)
  qed
qed

definition busy_cli :: "nat cli" where
  "busy_cli = \<lparr> clRun = (\<lambda>_ _ n. (''update out of sequence'', False, Suc n)), clWait = (\<lambda>n. (False, n)),
     clServices = (\<lambda>_. Inr []) \<rparr>"

theorem retries_are_bounded_witness:
  "run_with_retries busy_cli [] [] 0 = (Inl (Docker_Output ''update out of sequence''), 6)"
proof -
  have a: "asks_again busy_cli [] [] k" "\<not> cut_short busy_cli [] [] k" for k
    by (simp_all add: asks_again_def cut_short_def runWithOutput_def busy_cli_def) code_simp
  have "before_attempt busy_cli [] [] 5 0 = 5" by code_simp
  moreover have "last_attempt busy_cli [] [] True 5 = (Inl (Docker_Output ''update out of sequence''), 6)" by code_simp
  ultimately show ?thesis using retries_are_bounded [of busy_cli "[]" "[]" 0] a by auto
qed

section \<open>Pruning\<close>

text \<open>A property of states that every command but the removal of the declared services keeps is kept
  by a whole deployment.\<close>

definition rm_declared :: "'sw cli \<Rightarrow> string \<Rightarrow> string \<Rightarrow> string list \<Rightarrow> bool" where
  "rm_declared cl stackName y argv \<longleftrightarrow>
     (\<exists>svcs svc. clServices cl y = Inr svcs \<and> svc \<in> set svcs \<and>
        argv = [''docker'', ''service'', ''rm'', stackName @ ''_'' @ svc])"

lemma rm_declared_argv [simp]:
  "\<not> rm_declared cl st y (deploy_argv n)" "\<not> rm_declared cl st y (services_argv n)"
  "\<not> rm_declared cl st y (update_argv n)"
  by (simp_all add: rm_declared_def deploy_argv_def services_argv_def update_argv_def)

definition keeps :: "'sw cli \<Rightarrow> string \<Rightarrow> string \<Rightarrow> ('sw \<Rightarrow> bool) \<Rightarrow> bool" where
  "keeps cl st y I \<longleftrightarrow>
     (\<forall>argv input s. I s \<longrightarrow> \<not> rm_declared cl st y argv \<longrightarrow> I (snd (snd (clRun cl argv input s)))) \<and>
     (\<forall>s. I s \<longrightarrow> I (snd (clWait cl s)))"

lemma keep_run:
  "keeps cl st y I \<Longrightarrow> runWithOutput cl argv input s = (out, ok, s') \<Longrightarrow> I s \<Longrightarrow> \<not> rm_declared cl st y argv \<Longrightarrow> I s'"
  by (auto simp: runWithOutput_def keeps_def split: prod.splits) (metis snd_conv)

lemma keep_retry_loop:
  assumes k: "keeps cl st y I"
  shows "I s \<Longrightarrow> \<not> rm_declared cl st y argv \<Longrightarrow> I (snd (retry_loop cl argv input n out s))"
proof (induction n arbitrary: out s)
  case (Suc n)
  obtain b s1 where w: "clWait cl s = (b, s1)" by (cases "clWait cl s")
  obtain out' ok s2 where r: "runWithOutput cl argv input s1 = (out', ok, s2)"
    by (cases "runWithOutput cl argv input s1")
  have "I s1" using k Suc.prems(1) w unfolding keeps_def by (metis snd_conv)
  then have "I s2" using keep_run [OF k r] Suc.prems(2) by simp
  then show ?case using \<open>I s1\<close> Suc.IH [of s2 out'] Suc.prems(2) by (cases b; cases ok) (simp_all add: w r)
qed simp

lemma keep_run_with_retries:
  assumes k: "keeps cl st y I"
  shows "I s \<Longrightarrow> \<not> rm_declared cl st y argv \<Longrightarrow> I (snd (run_with_retries cl argv input s))"
  by (cases "runWithOutput cl argv input s")
    (auto simp: run_with_retries_def intro: keep_run [OF k] keep_retry_loop [OF k] split: bool.splits)

lemma keep_remove_services:
  assumes k: "keeps cl st y I"
  shows "I s \<Longrightarrow> (\<And>n. n \<in> set ns \<Longrightarrow> \<not> rm_declared cl st y [''docker'', ''service'', ''rm'', n]) \<Longrightarrow>
   I (snd (remove_services cl ns s))"
proof (induction ns arbitrary: s)
  case (Cons n ns)
  obtain out ok s1 where r: "runWithOutput cl [''docker'', ''service'', ''rm'', n] [] s = (out, ok, s1)"
    by (cases "runWithOutput cl [''docker'', ''service'', ''rm'', n] [] s")
  have "I s1" using keep_run [OF k r Cons.prems(1)] Cons.prems(2) by simp
  then show ?case using Cons by (cases ok) (simp_all add: r)
qed simp

lemma keep_pruneStackServices:
  assumes k: "keeps cl st y I" and i: "I s"
  shows "I (snd (pruneStackServices cl st y s))"
proof -
  obtain out ok s1 where r: "runWithOutput cl (services_argv st) [] s = (out, ok, s1)"
    by (cases "runWithOutput cl (services_argv st) [] s")
  have i1: "I s1" using keep_run [OF k r i] by simp
  show ?thesis
  proof (cases "ok \<and> is_ok (pruneCandidates (clServices cl) st y (split_at (CHR 0x0A) (trim_space out)))")
    case True
    then obtain gone where g:
      "pruneCandidates (clServices cl) st y (split_at (CHR 0x0A) (trim_space out)) = Inr gone"
      by (auto simp: is_ok_iff)
    have "\<not> rm_declared cl st y [''docker'', ''service'', ''rm'', n]" if "n \<in> set gone" for n
      using g that by (auto simp: pruneCandidates_def rm_declared_def split: sum.splits if_splits)
    then show ?thesis
      using keep_remove_services [OF k i1, of gone] True by (simp add: pruneStackServices_def r g)
  next
    case False
    then show ?thesis
      using i1 by (cases ok) (auto simp: pruneStackServices_def r is_ok_def split: sum.splits)
  qed
qed

lemma keep_force_services:
  assumes k: "keeps cl st y I"
  shows "I s \<Longrightarrow> I (snd (force_services cl ns s))"
proof (induction ns arbitrary: s)
  case (Cons n ns)
  obtain x s1 where f: "ForceUpdateService cl (trim_space n) s = (x, s1)"
    by (cases "ForceUpdateService cl (trim_space n) s")
  then have "I s1"
    using keep_run_with_retries [OF k Cons.prems, of "update_argv (trim_space n)" "[]"]
    by (simp add: ForceUpdateService_def)
  then show ?case using Cons f by (cases x) (simp_all add: Let_def)
qed simp

lemma keep_forceUpdateStackServices:
  assumes k: "keeps cl st y I"
  shows "I s \<Longrightarrow> I (snd (forceUpdateStackServices cl st s))"
  using keep_run [OF k, of "services_argv st" "[]" s]
  by (auto simp: forceUpdateStackServices_def intro: keep_force_services [OF k] split: prod.splits bool.splits)


text \<open>Property C22.  Deploying a stack never removes a service that its compose file declares: whatever
  every other docker command keeps is kept.\<close>

theorem deploy_keeps_declared_services:
  assumes k: "keeps cl name y I" and i: "I s"
  shows "I (snd (DeployStack cl name y s))"
proof -
  obtain r1 s1 where d: "run_with_retries cl (deploy_argv name) y s = (r1, s1)"
    by (cases "run_with_retries cl (deploy_argv name) y s")
  have i1: "I s1"
    using keep_run_with_retries [OF k i, of "deploy_argv name" y] d by simp
  obtain r2 s2 where p: "pruneStackServices cl name y s1 = (r2, s2)"
    by (cases "pruneStackServices cl name y s1")
  have i2: "I s2" using keep_pruneStackServices [OF k i1] p by simp
  show ?thesis
    using i1 i2 keep_forceUpdateStackServices [OF k i2]
    by (cases r1; cases r2) (simp_all add: DeployStack_def d p)
qed

definition shop_cli :: "string list cli" where
  "shop_cli = \<lparr>
     clRun = (\<lambda>argv _ svcs.
        if argv = [''docker'', ''service'', ''rm'', last argv]
        then ([], True, filter (\<lambda>n. n \<noteq> last argv) svcs)
        else if argv = services_argv ''web'' then (join_with [CHR 0x0A] svcs @ [CHR 0x0A], True, svcs)
        else ([], True, svcs)),
     clWait = (\<lambda>svcs. (False, svcs)),
     clServices = (\<lambda>_. Inr [''a'']) \<rparr>"

theorem deploy_keeps_declared_services_witness:
  "''web_a'' \<in> set (snd (DeployStack shop_cli ''web'' [] [''web_a'', ''web_old''])) \<and>
   DeployStack shop_cli ''web'' [] [''web_a'', ''web_old''] = (Inr (), [''web_a''])"
proof -
  have step: "''web_a'' \<in> set (snd (snd (clRun shop_cli argv input svcs)))"
    if m: "''web_a'' \<in> set svcs" and nr: "\<not> rm_declared shop_cli ''web'' [] argv" for argv input svcs
  proof (cases "argv = [''docker'', ''service'', ''rm'', last argv]")
    case True
    have "last argv \<noteq> ''web_a''"
    proof
      assume "last argv = ''web_a''"
      then have "argv = [''docker'', ''service'', ''rm'', ''web'' @ ''_'' @ ''a'']" using True by simp
      then have "rm_declared shop_cli ''web'' [] argv"
        unfolding rm_declared_def by (intro exI [of _ "[''a'']"] exI [of _ "''a''"]) (simp add: shop_cli_def)
      then show False using nr by blast
    qed
    then have "''web_a'' \<in> set (filter (\<lambda>n. n \<noteq> last argv) svcs)" using m by simp
    moreover have "clRun shop_cli argv input svcs = ([], True, filter (\<lambda>n. n \<noteq> last argv) svcs)"
      unfolding shop_cli_def cli.simps by (rule if_P [OF True])
    ultimately show ?thesis by simp
  next
    case False
    have "snd (snd (clRun shop_cli argv input svcs)) = svcs"
      unfolding shop_cli_def cli.simps if_not_P [OF False] by simp
    then show ?thesis using m by simp
  qed
  have "keeps shop_cli ''web'' [] (\<lambda>s. ''web_a'' \<in> set s)"
    unfolding keeps_def
    by (intro conjI allI impI) (rule step, assumption+, simp add: shop_cli_def)
  then have "''web_a'' \<in> set (snd (DeployStack shop_cli ''web'' [] [''web_a'', ''web_old'']))"
    using deploy_keeps_declared_services [where I = "\<lambda>s. ''web_a'' \<in> set s"] by simp
  moreover have "DeployStack shop_cli ''web'' [] [''web_a'', ''web_old''] = (Inr (), [''web_a''])"
    by code_simp
  ultimately show ?thesis by blast
qed

section \<open>Health\<close>

lemma wait_loop_None:
  "wait_loop deadline u ps = None \<longleftrightarrow>
     (\<forall>p \<in> set ps. \<not> poCancelled p \<and> \<not> poDoneWaiting p \<and>
        (\<forall>svcs. poServices p = Inr svcs \<longrightarrow> \<not> all_bundled_healthy svcs \<and> poNow p \<le> deadline))"
  by (induction ps arbitrary: u) (auto simp: Let_def split: sum.splits if_splits)

lemma wait_loop_Healthy:
  "wait_loop deadline u ps = Some Healthy \<Longrightarrow>
     \<exists>p \<in> set ps. \<exists>svcs. poServices p = Inr svcs \<and> all_bundled_healthy svcs"
  by (induction ps arbitrary: u) (auto simp: Let_def split: sum.splits if_splits)

lemma all_bundled_healthyD:
  "all_bundled_healthy svcs \<longleftrightarrow> (\<forall>name \<in> set bundledServices. \<exists>s \<in> set svcs.
     svName s = name \<and> svDesired s > 0 \<and> svReplicas s \<ge> svDesired s)"
  unfolding all_bundled_healthy_def list_all_iff is_healthy_def by blast

text \<open>Property C23.  The health wait reports success only after one listing in which every bundled service
  was healthy.  It goes on waiting exactly as long as the context is alive and no listing shows
  them all healthy or arrives after the deadline: while the listing itself fails the deadline of
  sixty seconds is never applied.\<close>

theorem health_wait_ends_only_on_a_listing:
  "(WaitHealthyStacks start ps = None \<longleftrightarrow>
     (\<forall>p \<in> set ps. \<not> poCancelled p \<and> \<not> poDoneWaiting p \<and>
        (\<forall>svcs. poServices p = Inr svcs \<longrightarrow> \<not> all_bundled_healthy svcs \<and> poNow p \<le> start + 60))) \<and>
   (WaitHealthyStacks start ps = Some Healthy \<longrightarrow>
     (\<exists>p \<in> set ps. \<exists>svcs. poServices p = Inr svcs \<and>
       (\<forall>name \<in> set bundledServices. \<exists>s \<in> set svcs.
          svName s = name \<and> svDesired s > 0 \<and> svReplicas s \<ge> svDesired s)))"
proof (intro conjI impI)
  assume "WaitHealthyStacks start ps = Some Healthy"
  then show "\<exists>p \<in> set ps. \<exists>svcs. poServices p = Inr svcs \<and>
       (\<forall>name \<in> set bundledServices. \<exists>s \<in> set svcs.
          svName s = name \<and> svDesired s > 0 \<and> svReplicas s \<ge> svDesired s)"
    unfolding WaitHealthyStacks_def
    by (blast dest: wait_loop_Healthy iffD1 [OF all_bundled_healthyD])
qed (simp add: WaitHealthyStacks_def defaultHealthTimeout_def wait_loop_None)

definition dead_daemon :: "int \<Rightarrow> poll" where
  "dead_daemon t = \<lparr> poCancelled = False, poNow = t, poServices = Inl Nil_Status, poDoneWaiting = False \<rparr>"

definition one_each :: poll where
  "one_each = \<lparr> poCancelled = False, poNow = 3,
     poServices = Inr (map (\<lambda>n. \<lparr> svID = n, svName = n, svStack = [], svReplicas = 1, svDesired = 1,
       svImage = [], svMode = ''replicated'', svUpdatedAt = 0 \<rparr>) bundledServices), poDoneWaiting = False \<rparr>"

theorem health_wait_ends_only_on_a_listing_witness:
  "WaitHealthyStacks 0 (map dead_daemon [0, 3600, 86400]) = None \<and>
   (\<exists>p \<in> set [dead_daemon 0, one_each]. \<exists>svcs. poServices p = Inr svcs)"
proof -
  have "WaitHealthyStacks 0 [dead_daemon 0, one_each] = Some Healthy" by code_simp
  then show ?thesis
    using health_wait_ends_only_on_a_listing [of 0 "[dead_daemon 0, one_each]"]
      health_wait_ends_only_on_a_listing [of 0 "map dead_daemon [0, 3600, 86400]"]
    by (auto simp: dead_daemon_def)
qed

end
