(* ===== verification/Cluster_Credentials.thy ===== *)
theory Cluster_Credentials
  imports Cluster_Provisioning Cluster_Stacks Cipher Store_Users Store_Configs
begin

text \<open>
  The managed credentials of the platform (\<^verbatim>\<open>cluster/credentials.go\<close>): get-or-create with the
  mirrored swarm secret, bootstrap of all six, rotation and revealing.

  The collaborators are the record \<^verbatim>\<open>manager\<close>.  A read of the random source is labelled with the
  credential and the purpose it is for, so that one argument holds all reads of a call.
\<close>

section \<open>Types\<close>

datatype cred_format = formatPlain | formatHtpasswd

datatype generator = RandomPassword_gen | EdgeAPIToken_gen | CookieSecret_gen

record bootstrapSpec =
  bsName :: string
  bsKind :: string
  bsUsername :: string
  bsSecretName :: string
  bsFormat :: cred_format
  bsGenerate :: generator

record Credential =
  crName :: string
  crKind :: string
  crUsername :: string
  crPassword :: string
  crSecretName :: string
  crNewlyCreated :: bool
  crSecretCreated :: bool
  crUsernameChanged :: bool

record 'sw manager =
  mgSdk :: "'sw sdk"
  mgDeployer :: "'sw cli option"
  mgSeal :: "string \<Rightarrow> string \<Rightarrow> string"
  mgUnseal :: "string \<Rightarrow> string \<Rightarrow> string option"
  mgArgon :: "string \<Rightarrow> string \<Rightarrow> string"
  mgBcrypt :: "string \<Rightarrow> string option"
  mgHash :: "string \<Rightarrow> string"
  mgNow :: int

type_synonym draws = "string \<Rightarrow> string \<Rightarrow> string option"

datatype cred_err =
    Lookup_Failed store_err
  | Decrypt_Failed cipher_err
  | Encrypt_Failed cipher_err
  | Store_Failed store_err
  | Secret_Failed cluster_err
  | Remove_Failed client_err
  | Restart_Failed deployer_err
  | Generate_Failed cluster_err
  | Token_Failed auth_err
  | User_Diverged
  | Not_Rotatable
  | No_Spec string
  | Email_Required
  | Rotation_Not_Configured
  | Key_Unavailable

definition KindOpenObserve :: string where "KindOpenObserve = ''openobserve''"

definition bootstrapSpecs :: "bootstrapSpec list" where
  "bootstrapSpecs =
     [\<lparr> bsName = ''traefik_dashboard'', bsKind = ''traefik'', bsUsername = [],
        bsSecretName = ''admin_credentials'', bsFormat = formatHtpasswd, bsGenerate = RandomPassword_gen \<rparr>,
      \<lparr> bsName = ''openobserve_admin'', bsKind = KindOpenObserve, bsUsername = [],
        bsSecretName = ''zo_root_user_password'', bsFormat = formatPlain, bsGenerate = RandomPassword_gen \<rparr>,
      \<lparr> bsName = ''edge_admin'', bsKind = ''edge'', bsUsername = [],
        bsSecretName = ''edge_admin_password'', bsFormat = formatPlain, bsGenerate = RandomPassword_gen \<rparr>,
      \<lparr> bsName = ''edge_ui_secret'', bsKind = ''edge'', bsUsername = [],
        bsSecretName = ''edge_ui_secret'', bsFormat = formatPlain, bsGenerate = RandomPassword_gen \<rparr>,
      \<lparr> bsName = ''edge_api_token'', bsKind = ''edge'', bsUsername = [],
        bsSecretName = ''edge_api_token'', bsFormat = formatPlain, bsGenerate = EdgeAPIToken_gen \<rparr>,
      \<lparr> bsName = ''sso_cookie_secret'', bsKind = ''sso'', bsUsername = [],
        bsSecretName = ''sso_cookie_secret'', bsFormat = formatPlain, bsGenerate = CookieSecret_gen \<rparr>]"

definition specFor :: "string \<Rightarrow> bootstrapSpec option" where
  "specFor name = find (\<lambda>s. bsName s = name) bootstrapSpecs"

definition consumingService :: "string \<Rightarrow> string option" where
  "consumingService =
     map_of [(''traefik_dashboard'', ''infra_traefik''),
             (''openobserve_admin'', ''observability_openobserve''),
             (''sso_cookie_secret'', ''sso_oauth2-proxy'')]"

section \<open>Values\<close>

definition edgeAPITokenUser :: string where "edgeAPITokenUser = ''edge''"

definition ensureEdgeAPIToken ::
  "'sw manager \<Rightarrow> (string \<Rightarrow> string option) \<Rightarrow> Store \<Rightarrow> (cred_err + string) \<times> Store" where
  "ensureEdgeAPIToken m rnd db =
     (case GenerateToken (rnd ''id'') (rnd ''secret'') of
        Inl e \<Rightarrow> (Inl (Token_Failed e), db)
      | Inr token \<Rightarrow>
         (let (tokenID, secret) = SplitToken token in
          case HashToken (mgArgon m) (rnd ''salt'') secret of
            Inl e \<Rightarrow> (Inl (Token_Failed e), db)
          | Inr h \<Rightarrow>
             (case CreateUser (mgNow m) edgeAPITokenUser tokenID h db of
                (Inl e, db') \<Rightarrow> (Inl (if e = ErrUserExists then User_Diverged else Store_Failed e), db')
              | (Inr _, db') \<Rightarrow> (Inr token, db'))))"

text \<open>\<^verbatim>\<open>base64.URLEncoding\<close>: with padding.\<close>

definition b64url_padded :: "string \<Rightarrow> string" where
  "b64url_padded s = b64url_encode s @ replicate ((3 - length s mod 3) mod 3) (CHR ''='')"

definition randomCookieSecret :: "(string \<Rightarrow> string option) \<Rightarrow> cred_err + string" where
  "randomCookieSecret rnd =
     (case rnd ''cookie'' of
        None \<Rightarrow> Inl (Generate_Failed (Rand_Error ''read random cookie secret bytes''))
      | Some buf \<Rightarrow> Inr (b64url_padded buf))"

definition generatePassword ::
  "'sw manager \<Rightarrow> bootstrapSpec \<Rightarrow> (string \<Rightarrow> string option) \<Rightarrow> Store \<Rightarrow> (cred_err + string) \<times> Store" where
  "generatePassword m spec rnd db =
     (case bsGenerate spec of
        EdgeAPIToken_gen \<Rightarrow> ensureEdgeAPIToken m rnd db
      | CookieSecret_gen \<Rightarrow> (randomCookieSecret rnd, db)
      | RandomPassword_gen \<Rightarrow> (map_sum Generate_Failed id (RandomPassword (rnd ''password'')), db))"

definition serialisePassword :: "'sw manager \<Rightarrow> bootstrapSpec \<Rightarrow> string \<Rightarrow> string \<Rightarrow> cred_err + string" where
  "serialisePassword m spec username password =
     (case bsFormat spec of
        formatPlain \<Rightarrow> Inr password
      | formatHtpasswd \<Rightarrow> map_sum Generate_Failed id (HtpasswdLine (mgBcrypt m) username password))"

section \<open>Get or create\<close>

text \<open>An existing row whose username changes under the kind \<^verbatim>\<open>openobserve\<close> gets a new password: the
  ciphertext is rotated, then the username set.\<close>

definition rotate_with_username ::
  "'sw manager \<Rightarrow> (string \<Rightarrow> string option) \<Rightarrow> string \<Rightarrow> string \<Rightarrow> Store \<Rightarrow> (cred_err + string) \<times> Store" where
  "rotate_with_username m rnd name username db =
     (case RandomPassword (rnd ''password'') of
        Inl e \<Rightarrow> (Inl (Generate_Failed e), db)
      | Inr pw \<Rightarrow>
         (case Encrypt (mgSeal m) (rnd ''nonce'') pw of
            Inl e \<Rightarrow> (Inl (Encrypt_Failed e), db)
          | Inr ct \<Rightarrow>
             (case RotateCredential (mgNow m) name ct db of
                (Inl e, db1) \<Rightarrow> (Inl (Store_Failed e), db1)
              | (Inr _, db1) \<Rightarrow>
                 (case UpdateCredentialUsername name username db1 of
                    (Inl e, db2) \<Rightarrow> (Inl (Store_Failed e), db2)
                  | (Inr _, db2) \<Rightarrow> (Inr pw, db2)))))"

definition ensure_existing ::
  "'sw manager \<Rightarrow> (string \<Rightarrow> string option) \<Rightarrow> bootstrapSpec \<Rightarrow> ManagedCredential \<Rightarrow> Store \<times> 'sw \<Rightarrow>
     (cred_err + Credential) \<times> Store \<times> 'sw" where
  "ensure_existing m rnd spec row w =
     (let (db, s) = w;
          changed = (bsUsername spec \<noteq> [] \<and> bsUsername spec \<noteq> mcUsername row);
          username = (if changed then bsUsername spec else mcUsername row)
      in case Decrypt (mgUnseal m) (mcPasswordCiphertext row) of
           Inl e \<Rightarrow> (Inl (Decrypt_Failed e), w)
         | Inr plain0 \<Rightarrow>
            (let (pr, db1) = (if changed \<and> bsKind spec = KindOpenObserve
                              then rotate_with_username m rnd (bsName spec) username db
                              else (Inr plain0, db))
             in case pr of
                  Inl e \<Rightarrow> (Inl e, db1, s)
                | Inr plaintext \<Rightarrow>
                   (case serialisePassword m spec username plaintext of
                      Inl e \<Rightarrow> (Inl e, db1, s)
                    | Inr payload \<Rightarrow>
                       (case EnsureSecret (mgSdk m) (mcSwarmSecretName row) payload s of
                          (Inl e, s1) \<Rightarrow> (Inl (Secret_Failed e), db1, s1)
                        | (Inr made, s1) \<Rightarrow>
                           (let (ur, db2) = (if changed \<and> bsKind spec \<noteq> KindOpenObserve
                                             then UpdateCredentialUsername (bsName spec) username db1
                                             else (Inr (), db1))
                            in case ur of
                                 Inl e \<Rightarrow> (Inl (Store_Failed e), db2, s1)
                               | Inr _ \<Rightarrow>
                                   (Inr \<lparr> crName = mcName row, crKind = mcKind row, crUsername = username,
                                          crPassword = plaintext, crSecretName = mcSwarmSecretName row,
                                          crNewlyCreated = False, crSecretCreated = made,
                                          crUsernameChanged = changed \<rparr>, db2, s1))))))"

definition ensure_new ::
  "'sw manager \<Rightarrow> (string \<Rightarrow> string option) \<Rightarrow> bootstrapSpec \<Rightarrow> Store \<times> 'sw \<Rightarrow>
     (cred_err + Credential) \<times> Store \<times> 'sw" where
  "ensure_new m rnd spec w =
     (let (db, s) = w in
      case generatePassword m spec rnd db of
        (Inl e, db1) \<Rightarrow> (Inl e, db1, s)
      | (Inr password, db1) \<Rightarrow>
         (case Encrypt (mgSeal m) (rnd ''nonce'') password of
            Inl e \<Rightarrow> (Inl (Encrypt_Failed e), db1, s)
          | Inr ct \<Rightarrow>
             (case InsertCredential (mgNow m)
                     \<lparr> mcName = bsName spec, mcKind = bsKind spec, mcUsername = bsUsername spec,
                       mcPasswordCiphertext = ct, mcSwarmSecretName = bsSecretName spec,
                       mcCreatedAt = 0, mcRotatedAt = None \<rparr> db1 of
                (Inl e, db2) \<Rightarrow> (Inl (Store_Failed e), db2, s)
              | (Inr _, db2) \<Rightarrow>
                 (case serialisePassword m spec (bsUsername spec) password of
                    Inl e \<Rightarrow> (Inl e, db2, s)
                  | Inr payload \<Rightarrow>
                     (case EnsureSecret (mgSdk m) (bsSecretName spec) payload s of
                        (Inl e, s1) \<Rightarrow> (Inl (Secret_Failed e), db2, s1)
                      | (Inr made, s1) \<Rightarrow>
                          (Inr \<lparr> crName = bsName spec, crKind = bsKind spec, crUsername = bsUsername spec,
                                 crPassword = password, crSecretName = bsSecretName spec,
                                 crNewlyCreated = True, crSecretCreated = made,
                                 crUsernameChanged = False \<rparr>, db2, s1))))))"

definition ensure_credential ::
  "'sw manager \<Rightarrow> draws \<Rightarrow> bootstrapSpec \<Rightarrow> Store \<times> 'sw \<Rightarrow> (cred_err + Credential) \<times> Store \<times> 'sw" where
  "ensure_credential m rnd spec w =
     (case GetCredential (bsName spec) (fst w) of
        Inr row \<Rightarrow> ensure_existing m (rnd (bsName spec)) spec row w
      | Inl e \<Rightarrow>
          if e \<noteq> ErrCredentialNotFound then (Inl (Lookup_Failed e), w)
          else ensure_new m (rnd (bsName spec)) spec w)"

section \<open>Bootstrap and Ensure\<close>

fun bootstrap_all ::
  "'sw manager \<Rightarrow> draws \<Rightarrow> bootstrapSpec list \<Rightarrow> (string \<times> Credential) list \<Rightarrow> Store \<times> 'sw \<Rightarrow>
     (cred_err + (string \<times> Credential) list) \<times> Store \<times> 'sw" where
  "bootstrap_all m rnd [] out w = (Inr out, w)"
| "bootstrap_all m rnd (spec # specs) out w =
     (case ensure_credential m rnd spec w of
        (Inl e, w') \<Rightarrow> (Inl e, w')
      | (Inr c, w') \<Rightarrow> bootstrap_all m rnd specs (out @ [(bsName spec, c)]) w')"

definition Bootstrap ::
  "'sw manager \<Rightarrow> draws \<Rightarrow> string \<Rightarrow> string \<Rightarrow> Store \<times> 'sw \<Rightarrow>
     (cred_err + (string \<times> Credential) list) \<times> Store \<times> 'sw" where
  "Bootstrap m rnd traefikUser ooEmail w =
     (let user = (if traefikUser = [] then ''admin'' else traefikUser) in
      if ooEmail = [] then (Inl Email_Required, w)
      else
        (let usernameFor = map_of
               [(''traefik_dashboard'', user), (''openobserve_admin'', ooEmail), (''edge_admin'', ''admin''),
                (''edge_ui_secret'', ''session''), (''edge_api_token'', ''edge''),
                (''sso_cookie_secret'', ''sso'')]
         in bootstrap_all m rnd
              (map (\<lambda>s. s\<lparr> bsUsername := the (usernameFor (bsName s)) \<rparr>) bootstrapSpecs) [] w))"

definition Ensure ::
  "'sw manager \<Rightarrow> draws \<Rightarrow> string \<Rightarrow> Store \<times> 'sw \<Rightarrow> (cred_err + Credential) \<times> Store \<times> 'sw" where
  "Ensure m rnd name w =
     (case specFor name of
        None \<Rightarrow> (Inl (No_Spec name), w)
      | Some spec \<Rightarrow>
         (let usernames = map_of
                [(''traefik_dashboard'', ''admin''), (''openobserve_admin'', []), (''edge_admin'', ''admin''),
                 (''edge_ui_secret'', ''session''), (''edge_api_token'', ''edge''),
                 (''sso_cookie_secret'', ''sso'')]
          in ensure_credential m rnd (spec\<lparr> bsUsername := the (usernames (bsName spec)) \<rparr>) w))"

section \<open>Rotation\<close>

definition rotate_db_secret ::
  "'sw manager \<Rightarrow> string \<Rightarrow> string \<Rightarrow> string \<Rightarrow> Store \<Rightarrow> (cred_err + unit) \<times> Store" where
  "rotate_db_secret m secretName ct password db =
     (case GetSecret secretName db of
        Inr _ \<Rightarrow>
          (case UpdateSecret secretName ct (mgHash m password) db of
             (Inl e, db') \<Rightarrow> (Inl (Store_Failed e), db')
           | (Inr _, db') \<Rightarrow> (Inr (), db'))
      | Inl e \<Rightarrow> if e = ErrSecretNotFound then (Inr (), db) else (Inl (Lookup_Failed e), db))"

definition restart_consumer ::
  "'sw manager \<Rightarrow> string \<Rightarrow> 'sw \<Rightarrow> (cred_err + unit) \<times> 'sw" where
  "restart_consumer m name s =
     (case (consumingService name, mgDeployer m) of
        (Some svc, Some cl) \<Rightarrow>
          (case ForceUpdateService cl svc s of
             (Inl e, s') \<Rightarrow> (Inl (Restart_Failed e), s')
           | (Inr _, s') \<Rightarrow> (Inr (), s'))
      | _ \<Rightarrow> (Inr (), s))"

text \<open>Replacing the swarm secret of a rotated credential.\<close>

definition swap_secret ::
  "'sw manager \<Rightarrow> string \<Rightarrow> string \<Rightarrow> 'sw \<Rightarrow> (cred_err + unit) \<times> 'sw" where
  "swap_secret m secretName payload s =
     (case SecretRemove (mgSdk m) secretName s of
        (Inl e, s1) \<Rightarrow> (Inl (Remove_Failed e), s1)
      | (Inr _, s1) \<Rightarrow>
         (case EnsureSecret (mgSdk m) secretName payload s1 of
            (Inl e, s2) \<Rightarrow> (Inl (Secret_Failed e), s2)
          | (Inr _, s2) \<Rightarrow> (Inr (), s2)))"

definition Rotate ::
  "'sw manager \<Rightarrow> (string \<Rightarrow> string option) \<Rightarrow> string \<Rightarrow> Store \<times> 'sw \<Rightarrow>
     (cred_err + Credential) \<times> Store \<times> 'sw" where
  "Rotate m rnd name w =
     (let (db, s) = w in
      if name = ''edge_api_token'' then (Inl Not_Rotatable, w)
      else
        (case GetCredential name db of
           Inl e \<Rightarrow> (Inl (Lookup_Failed e), w)
         | Inr row \<Rightarrow>
            (case RandomPassword (rnd ''password'') of
               Inl e \<Rightarrow> (Inl (Generate_Failed e), w)
             | Inr password \<Rightarrow>
                (case Encrypt (mgSeal m) (rnd ''nonce'') password of
                   Inl e \<Rightarrow> (Inl (Encrypt_Failed e), w)
                 | Inr ct \<Rightarrow>
                    (case RotateCredential (mgNow m) name ct db of
                       (Inl e, db1) \<Rightarrow> (Inl (Store_Failed e), db1, s)
                     | (Inr _, db1) \<Rightarrow>
                        (case specFor name of
                           None \<Rightarrow> (Inl (No_Spec name), db1, s)
                         | Some spec \<Rightarrow>
                            (case serialisePassword m spec (mcUsername row) password of
                               Inl e \<Rightarrow> (Inl e, db1, s)
                             | Inr payload \<Rightarrow>
                                (case swap_secret m (mcSwarmSecretName row) payload s of
                                   (Inl e, s1) \<Rightarrow> (Inl e, db1, s1)
                                 | (Inr _, s1) \<Rightarrow>
                                    (case restart_consumer m name s1 of
                                       (Inl e, s2) \<Rightarrow> (Inl e, db1, s2)
                                     | (Inr _, s2) \<Rightarrow>
                                        (case rotate_db_secret m (mcSwarmSecretName row) ct password db1 of
                                           (Inl e, db2) \<Rightarrow> (Inl e, db2, s2)
                                         | (Inr _, db2) \<Rightarrow>
                                             (Inr \<lparr> crName = mcName row, crKind = mcKind row,
                                                    crUsername = mcUsername row, crPassword = password,
                                                    crSecretName = mcSwarmSecretName row,
                                                    crNewlyCreated = False, crSecretCreated = True,
                                                    crUsernameChanged = False \<rparr>, db2, s2)))))))))))"

section \<open>The local adapter\<close>

definition Reveal :: "(string \<Rightarrow> string \<Rightarrow> string option) option \<Rightarrow> string \<Rightarrow> Store \<Rightarrow> cred_err + string" where
  "Reveal cipher name db =
     (case cipher of
        None \<Rightarrow> Inl Key_Unavailable
      | Some unseal \<Rightarrow>
         (case GetCredential name db of
            Inl e \<Rightarrow> Inl (Lookup_Failed e)
          | Inr row \<Rightarrow> map_sum Decrypt_Failed id (Decrypt unseal (mcPasswordCiphertext row))))"

definition Credentials_Rotate ::
  "'sw manager option \<Rightarrow> (string \<Rightarrow> string option) \<Rightarrow> string \<Rightarrow> Store \<times> 'sw \<Rightarrow>
     (cred_err + Credential) \<times> Store \<times> 'sw" where
  "Credentials_Rotate rotator rnd name w =
     (case rotator of
        None \<Rightarrow> (Inl Rotation_Not_Configured, w)
      | Some m \<Rightarrow> Rotate m rnd name w)"

end
