(* ===== verification/Cluster_Credentials_Properties.thy ===== *)
theory Cluster_Credentials_Properties
  imports Cluster_Credentials
begin

text \<open>
  What the managed credentials guarantee: get-or-create is idempotent and agrees with the store,
  rotation replaces value and secret together, and where secrets fall behind the store.
\<close>

section \<open>Secrets in the swarm\<close>

lemma SecretExists_ok:
  assumes "sdk_secrets d rows" "SecretExists d n s = Inr b"
  shows "b \<longleftrightarrow> n \<in> spName ` rows s"
proof (cases "dkSecretInspect d n s")
  case (Inl e)
  then show ?thesis
    using assms(2) object_callsD(2) [OF assms(1) [unfolded sdk_secrets_def] Inl]
    by (auto simp: SecretExists_def exists_of_def split: if_splits)
next
  case (Inr sp)
  then show ?thesis
    using assms(2) object_callsD(1) [OF assms(1) [unfolded sdk_secrets_def] Inr]
    by (auto simp: SecretExists_def exists_of_def)
qed

definition plain_secret :: "string \<Rightarrow> string \<Rightarrow> Spec" where
  "plain_secret name data = \<lparr> spName = name, spData = data, spLabels = [(pmclusterLabel, ''true'')] \<rparr>"

lemma EnsureSecret_ok:
  assumes "sdk_secrets d rows" "EnsureSecret d n data s = (Inr made, s')"
  shows "if made then n \<notin> spName ` rows s \<and> rows s' = insert (plain_secret n data) (rows s)
         else s' = s \<and> n \<in> spName ` rows s"
proof (cases "SecretExists d n s")
  case (Inl e)
  then show ?thesis using assms(2) by (simp add: EnsureSecret_def)
next
  case (Inr b)
  show ?thesis
  proof (cases b)
    case True
    then show ?thesis using assms SecretExists_ok [OF assms(1) Inr] Inr by (auto simp: EnsureSecret_def)
  next
    case False
    obtain r s1 where c: "SecretCreate d (plain_secret n data) s = (r, s1)"
      by (cases "SecretCreate d (plain_secret n data) s")
    then have "r = Inr () \<and> made \<and> s' = s1"
      using assms(2) Inr False by (cases r) (auto simp: EnsureSecret_def plain_secret_def)
    then show ?thesis
      using SecretCreate_ok [OF assms(1), of "plain_secret n data" s "()" s1] c
      by (simp add: plain_secret_def)
  qed
qed

lemma EnsureSecret_again:
  "SecretExists d n s = Inr True \<Longrightarrow> EnsureSecret d n data s = (Inr False, s)"
  by (simp add: EnsureSecret_def)

section \<open>What a successful get-or-create leaves in the store\<close>

definition cred_stored :: "'sw manager \<Rightarrow> Store \<Rightarrow> Credential \<Rightarrow> bool" where
  "cred_stored m db c \<longleftrightarrow>
     (\<exists>row. GetCredential (crName c) db = Inr row \<and> mcName row = crName c \<and> mcUsername row = crUsername c \<and>
        mcSwarmSecretName row = crSecretName c \<and>
        Decrypt (mgUnseal m) (mcPasswordCiphertext row) = Inr (crPassword c))"

definition nonces_ok :: "(string \<Rightarrow> string option) \<Rightarrow> bool" where
  "nonces_ok rnd \<longleftrightarrow> (\<forall>n. rnd ''nonce'' = Some n \<longrightarrow> length n = nonceBytes)"

lemma GetCredential_name: "GetCredential n db = Inr row \<Longrightarrow> mcName row = n"
  by (auto simp: GetCredential_def split: option.splits dest: row_find_SomeD)

lemma decrypt_fresh:
  assumes "gcm_ok (mgSeal m) (mgUnseal m)" "nonces_ok rnd" "Encrypt (mgSeal m) (rnd ''nonce'') p = Inr ct"
  shows "Decrypt (mgUnseal m) ct = Inr p"
proof -
  obtain n where n: "rnd ''nonce'' = Some n" using assms(3) by (auto simp: Encrypt_def split: option.splits)
  then show ?thesis using assms by (auto simp: nonces_ok_def intro: decrypt_encrypt)
qed

lemma Get_Rotate:
  "RotateCredential now n ct db = (Inr u, db') \<Longrightarrow>
     \<exists>row. GetCredential n db = Inr row \<and>
       GetCredential n db' = Inr (row\<lparr> mcPasswordCiphertext := ct, mcRotatedAt := Some now \<rparr>)"
  by (auto simp: RotateCredential_def GetCredential_def row_find_update split: if_splits option.splits)

lemma Get_UpdateUsername:
  "UpdateCredentialUsername n u db = (Inr x, db') \<Longrightarrow>
     \<exists>row. GetCredential n db = Inr row \<and> GetCredential n db' = Inr (row\<lparr> mcUsername := u \<rparr>)"
  by (auto simp: UpdateCredentialUsername_def GetCredential_def row_find_update split: if_splits option.splits)

lemma rotate_with_username_ok:
  assumes "gcm_ok (mgSeal m) (mgUnseal m)" "nonces_ok rnd"
    and "rotate_with_username m rnd n u db = (Inr pw, db')"
  shows "\<exists>row row'. GetCredential n db = Inr row \<and> GetCredential n db' = Inr row' \<and> mcUsername row' = u \<and>
           mcSwarmSecretName row' = mcSwarmSecretName row \<and>
           Decrypt (mgUnseal m) (mcPasswordCiphertext row') = Inr pw"
proof -
  obtain ct where e: "Encrypt (mgSeal m) (rnd ''nonce'') pw = Inr ct"
    and steps: "\<exists>db1 u1 u2. RotateCredential (mgNow m) n ct db = (Inr u1, db1) \<and>
      UpdateCredentialUsername n u db1 = (Inr u2, db')"
    using assms(3) by (auto simp: rotate_with_username_def split: sum.splits prod.splits)
  then obtain db1 u1 u2 where "RotateCredential (mgNow m) n ct db = (Inr u1, db1)"
    "UpdateCredentialUsername n u db1 = (Inr u2, db')" by blast
  then show ?thesis
    using Get_Rotate [of "mgNow m" n ct db u1 db1] Get_UpdateUsername [of n u db1 u2 db']
      decrypt_fresh [OF assms(1,2) e] by auto
qed

text \<open>The stages of \<^verbatim>\<open>ensure_existing\<close> when it succeeds.\<close>

lemma ensure_existing_cases:
  assumes "ensure_existing m rnd spec row (db, s) = (Inr c, db', s')"
  defines "changed \<equiv> bsUsername spec \<noteq> [] \<and> bsUsername spec \<noteq> mcUsername row"
  defines "username \<equiv> if changed then bsUsername spec else mcUsername row"
  obtains plain0 db1 plaintext payload made where
    "Decrypt (mgUnseal m) (mcPasswordCiphertext row) = Inr plain0"
    "(if changed \<and> bsKind spec = KindOpenObserve then rotate_with_username m rnd (bsName spec) username db
      else (Inr plain0, db)) = (Inr plaintext, db1)"
    "serialisePassword m spec username plaintext = Inr payload"
    "EnsureSecret (mgSdk m) (mcSwarmSecretName row) payload s = (Inr made, s')"
    "(if changed \<and> bsKind spec \<noteq> KindOpenObserve then UpdateCredentialUsername (bsName spec) username db1
      else (Inr (), db1)) = (Inr (), db')"
    "c = \<lparr> crName = mcName row, crKind = mcKind row, crUsername = username, crPassword = plaintext,
           crSecretName = mcSwarmSecretName row, crNewlyCreated = False, crSecretCreated = made,
           crUsernameChanged = changed \<rparr>"
proof -
  obtain plain0 where d: "Decrypt (mgUnseal m) (mcPasswordCiphertext row) = Inr plain0"
    using assms(1) by (auto simp: ensure_existing_def Let_def split: sum.splits)
  obtain pr db1 where p: "(if changed \<and> bsKind spec = KindOpenObserve
      then rotate_with_username m rnd (bsName spec) username db else (Inr plain0, db)) = (pr, db1)"
    by (meson surj_pair)
  note H = assms(1) [unfolded ensure_existing_def Let_def prod.case d sum.case,
      folded changed_def, folded username_def, unfolded p prod.case]
  obtain plaintext where pr: "pr = Inr plaintext" using H by (cases pr) auto
  obtain payload where pay: "serialisePassword m spec username plaintext = Inr payload"
    using H unfolding pr by (auto split: sum.splits)
  obtain r s1 where es: "EnsureSecret (mgSdk m) (mcSwarmSecretName row) payload s = (r, s1)"
    by (meson surj_pair)
  obtain made where r: "r = Inr made" using H unfolding pr sum.case pay es by (cases r) auto
  obtain ur db2 where u: "(if changed \<and> bsKind spec \<noteq> KindOpenObserve
      then UpdateCredentialUsername (bsName spec) username db1 else (Inr (), db1)) = (ur, db2)"
    by (meson surj_pair)
  note H' = H [unfolded pr sum.case pay es r prod.case u]
  have "ur = Inr ()" using H' by (cases ur) auto
  then show thesis
    using that [OF d, of plaintext db1 payload made] p pr pay es r u H' by auto
qed

lemma ensure_existing_stored:
  assumes "gcm_ok (mgSeal m) (mgUnseal m)" "nonces_ok rnd" "GetCredential (bsName spec) db = Inr row"
    and "ensure_existing m rnd spec row (db, s) = (Inr c, db', s')"
  shows "cred_stored m db' c \<and> crName c = bsName spec \<and> (bsUsername spec \<noteq> [] \<longrightarrow> crUsername c = bsUsername spec) \<and>
    is_ok (serialisePassword m spec (crUsername c) (crPassword c)) \<and>
    (\<exists>payload made. EnsureSecret (mgSdk m) (crSecretName c) payload s = (Inr made, s'))"
  using assms(4)
proof (cases rule: ensure_existing_cases)
  case (1 plain0 db1 plaintext payload made)
  have nm: "mcName row = bsName spec" using GetCredential_name [OF assms(3)] .
  have "cred_stored m db' c"
  proof (cases "bsUsername spec \<noteq> [] \<and> bsUsername spec \<noteq> mcUsername row")
    case True
    show ?thesis
    proof (cases "bsKind spec = KindOpenObserve")
      case oo: True
      have "rotate_with_username m rnd (bsName spec) (bsUsername spec) db = (Inr plaintext, db1)" "db1 = db'"
        using 1(2,5) True oo by simp_all
      then obtain row' where "GetCredential (bsName spec) db' = Inr row'" "mcUsername row' = bsUsername spec"
        "mcSwarmSecretName row' = mcSwarmSecretName row"
        "Decrypt (mgUnseal m) (mcPasswordCiphertext row') = Inr plaintext"
        using rotate_with_username_ok [OF assms(1,2)] assms(3) by fastforce
      then show ?thesis using 1(6) True nm GetCredential_name by (simp add: cred_stored_def)
    next
      case False
      have "plaintext = plain0" "UpdateCredentialUsername (bsName spec) (bsUsername spec) db = (Inr (), db')"
        using 1(2,5) True False by auto
      then show ?thesis
        using Get_UpdateUsername [of "bsName spec" "bsUsername spec" db "()" db'] assms(3) 1(1,6) True nm
        by (auto simp: cred_stored_def)
    qed
  next
    case False
    then have "db' = db" "plaintext = plain0" using 1(2,5) by auto
    then show ?thesis using False assms(3) 1(1,6) nm by (auto simp: cred_stored_def)
  qed
  then show ?thesis using 1(3,4,6) nm by auto
qed

lemma Get_Insert:
  "InsertCredential now c db = (Inr u, db') \<Longrightarrow>
     GetCredential (mcName c) db' = Inr (c\<lparr> mcCreatedAt := now, mcRotatedAt := None \<rparr>)"
  by (auto simp: InsertCredential_def GetCredential_def row_find_append split: if_splits option.splits)

lemma ensure_new_stored:
  assumes "gcm_ok (mgSeal m) (mgUnseal m)" "nonces_ok rnd"
    and "ensure_new m rnd spec (db, s) = (Inr c, db', s')"
  shows "cred_stored m db' c \<and> crName c = bsName spec \<and> crUsername c = bsUsername spec \<and>
    is_ok (serialisePassword m spec (crUsername c) (crPassword c)) \<and>
    (\<exists>payload made. EnsureSecret (mgSdk m) (crSecretName c) payload s = (Inr made, s'))"
proof -
  obtain pr db1 where g: "generatePassword m spec rnd db = (pr, db1)" by (meson surj_pair)
  note H = assms(3) [unfolded ensure_new_def Let_def prod.case g]
  obtain pw where pr: "pr = Inr pw" using H by (cases pr) auto
  obtain ct where e: "Encrypt (mgSeal m) (rnd ''nonce'') pw = Inr ct"
    using H unfolding pr by (auto split: sum.splits)
  let ?row = "\<lparr> mcName = bsName spec, mcKind = bsKind spec, mcUsername = bsUsername spec,
    mcPasswordCiphertext = ct, mcSwarmSecretName = bsSecretName spec, mcCreatedAt = 0, mcRotatedAt = None \<rparr>"
  obtain ir db2 where i: "InsertCredential (mgNow m) ?row db1 = (ir, db2)" by (meson surj_pair)
  note H' = H [unfolded pr sum.case e i prod.case]
  obtain u where ir: "ir = Inr u" using H' by (cases ir) auto
  obtain payload where pay: "serialisePassword m spec (bsUsername spec) pw = Inr payload"
    using H' unfolding ir by (auto split: sum.splits)
  obtain r s1 where es: "EnsureSecret (mgSdk m) (bsSecretName spec) payload s = (r, s1)" by (meson surj_pair)
  note H'' = H' [unfolded ir sum.case pay es prod.case]
  obtain made where r: "r = Inr made" using H'' by (cases r) auto
  have c: "crName c = bsName spec" "crUsername c = bsUsername spec" "crPassword c = pw"
    "crSecretName c = bsSecretName spec" "db' = db2" "s' = s1"
    using H'' unfolding r by auto
  have "GetCredential (bsName spec) db2 = Inr (?row\<lparr> mcCreatedAt := mgNow m, mcRotatedAt := None \<rparr>)"
    using Get_Insert [OF i [unfolded ir]] by simp
  then show ?thesis
    using c decrypt_fresh [OF assms(1,2) e] pay es r by (auto simp: cred_stored_def)
qed

lemma ensure_credential_stored:
  assumes "gcm_ok (mgSeal m) (mgUnseal m)" "nonces_ok (rnd (bsName spec))"
    and "ensure_credential m rnd spec (db, s) = (Inr c, db', s')"
  shows "cred_stored m db' c \<and> crName c = bsName spec \<and> (bsUsername spec \<noteq> [] \<longrightarrow> crUsername c = bsUsername spec) \<and>
    is_ok (serialisePassword m spec (crUsername c) (crPassword c)) \<and>
    (\<exists>payload made. EnsureSecret (mgSdk m) (crSecretName c) payload s = (Inr made, s'))"
proof (cases "GetCredential (bsName spec) db")
  case (Inl e)
  then have "ensure_new m (rnd (bsName spec)) spec (db, s) = (Inr c, db', s')"
    using assms(3) by (simp add: ensure_credential_def split: if_splits)
  then show ?thesis using ensure_new_stored [OF assms(1,2)] by blast
next
  case (Inr row)
  then have "ensure_existing m (rnd (bsName spec)) spec row (db, s) = (Inr c, db', s')"
    using assms(3) by (simp add: ensure_credential_def)
  then show ?thesis using ensure_existing_stored [OF assms(1,2) Inr] by blast
qed

text \<open>Get-or-create is idempotent: a second call for the same credential, with whatever
  random bytes, answers the username, password and secret name of the first, creates nothing, and
  leaves store and swarm as they are.\<close>

theorem ensure_credential_idempotent:
  assumes "gcm_ok (mgSeal m) (mgUnseal m)" "nonces_ok (rnd (bsName spec))" "sdk_secrets (mgSdk m) rows"
    and "ensure_credential m rnd spec (db, s) = (Inr c, db', s')"
    and "is_ok (SecretExists (mgSdk m) (crSecretName c) s')"
  shows "\<exists>kind. ensure_credential m rnd' spec (db', s') =
    (Inr (c\<lparr> crKind := kind, crNewlyCreated := False, crSecretCreated := False, crUsernameChanged := False \<rparr>), db', s')"
proof -
  note st = ensure_credential_stored [OF assms(1,2,4)]
  then obtain row where row: "GetCredential (bsName spec) db' = Inr row" "mcName row = bsName spec"
    "mcUsername row = crUsername c" "mcSwarmSecretName row = crSecretName c"
    "Decrypt (mgUnseal m) (mcPasswordCiphertext row) = Inr (crPassword c)"
    by (auto simp: cred_stored_def)
  obtain payload made where es: "EnsureSecret (mgSdk m) (crSecretName c) payload s = (Inr made, s')"
    using st by blast
  have "crSecretName c \<in> spName ` rows s'"
    using EnsureSecret_ok [OF assms(3) es] by (auto simp: plain_secret_def split: if_splits)
  then have ex: "SecretExists (mgSdk m) (crSecretName c) s' = Inr True"
    using SecretExists_ok [OF assms(3)] assms(5) by (fastforce simp: is_ok_iff)
  obtain payload' where pay: "serialisePassword m spec (crUsername c) (crPassword c) = Inr payload'"
    using st by (auto simp: is_ok_iff)
  have same: "\<not> (bsUsername spec \<noteq> [] \<and> bsUsername spec \<noteq> mcUsername row)" using st row(3) by auto
  have "ensure_existing m (rnd' (bsName spec)) spec row (db', s') =
    (Inr \<lparr> crName = mcName row, crKind = mcKind row, crUsername = mcUsername row, crPassword = crPassword c,
       crSecretName = crSecretName c, crNewlyCreated = False, crSecretCreated = False,
       crUsernameChanged = False \<rparr>, db', s')"
    unfolding ensure_existing_def Let_def prod.case row(5) sum.case if_not_P [OF same]
    using same by (auto simp: row(3,4) pay EnsureSecret_again [OF ex])
  then show ?thesis
    using row(2,3) st by (intro exI [of _ "mcKind row"]) (simp add: ensure_credential_def row(1))
qed

section \<open>An instance\<close>

definition demo_manager :: "toy_swarm manager" where
  "demo_manager = \<lparr> mgSdk = toy_sdk, mgDeployer = None, mgSeal = toy_seal, mgUnseal = toy_unseal,
     mgArgon = toy_kdf, mgBcrypt = (\<lambda>p. Some (''$2a$'' @ p)), mgHash = demo_digest, mgNow = 7 \<rparr>"

definition demo_bytes :: "string \<Rightarrow> string option" where
  "demo_bytes purpose =
     map_option (\<lambda>n. replicate n (CHR ''a''))
       (map_of [(''password'', 24), (''nonce'', 12), (''id'', 8), (''secret'', 32), (''salt'', 16),
                (''cookie'', 32)] purpose)"

definition demo_draws :: draws where
  "demo_draws name = demo_bytes"

lemma demo_gcm: "gcm_ok (mgSeal demo_manager) (mgUnseal demo_manager)"
  by (simp add: demo_manager_def toy_gcm_ok)

lemma demo_nonces: "nonces_ok demo_bytes" "nonces_ok (demo_draws n)"
  by (simp_all add: nonces_ok_def demo_draws_def demo_bytes_def nonceBytes_def)

lemma demo_secrets: "sdk_secrets (mgSdk demo_manager) (\<lambda>s. set (fst s))"
  by (simp add: demo_manager_def toy_secrets)

lemma demo_exists: "is_ok (SecretExists (mgSdk demo_manager) n s)"
  by (simp add: demo_manager_def SecretExists_def toy_sdk_def toy_inspect_def exists_of_def missing_def
      toy_missing_def sdk_is_not_found_def split: option.splits)

definition dashboard_as :: "string \<Rightarrow> bootstrapSpec" where
  "dashboard_as user = (bootstrapSpecs ! 0)\<lparr> bsUsername := user \<rparr>"

lemma dashboard_fields [simp]:
  "bsName (dashboard_as u) = ''traefik_dashboard''" "bsKind (dashboard_as u) = ''traefik''"
  "bsUsername (dashboard_as u) = u" "bsSecretName (dashboard_as u) = ''admin_credentials''"
  "bsFormat (dashboard_as u) = formatHtpasswd" "bsGenerate (dashboard_as u) = RandomPassword_gen"
  by (simp_all add: dashboard_as_def bootstrapSpecs_def)

definition demo_password :: string where
  "demo_password = fold (place_class (replicate 24 (CHR ''a''))) [0..<4] (b64url_encode (replicate 24 (CHR ''a'')))"

lemma demo_reads:
  "demo_bytes ''password'' = Some (replicate 24 (CHR ''a''))"
  "demo_bytes ''nonce'' = Some (replicate 12 (CHR ''a''))"
  "demo_bytes ''cookie'' = Some (replicate 32 (CHR ''a''))"
  by (simp_all add: demo_bytes_def)

lemma demo_password: "RandomPassword (demo_bytes ''password'') = Inr demo_password"
  unfolding demo_reads demo_password_def RandomPassword_def option.case ..

definition demo_row :: "string \<Rightarrow> ManagedCredential" where
  "demo_row u = \<lparr> mcName = ''traefik_dashboard'', mcKind = ''traefik'', mcUsername = u,
     mcPasswordCiphertext = replicate 12 (CHR ''a'') @ toy_seal (replicate 12 (CHR ''a'')) demo_password,
     mcSwarmSecretName = ''admin_credentials'', mcCreatedAt = 7, mcRotatedAt = None \<rparr>"

definition after_bootstrap :: "Store \<times> toy_swarm" where
  "after_bootstrap = (empty_store\<lparr> dbCredentials := [demo_row ''admin''] \<rparr>,
     [plain_secret ''admin_credentials'' (''admin:$2a$'' @ demo_password @ [CHR 0x0A])], [])"

lemma demo_encrypt: "Encrypt toy_seal (demo_bytes ''nonce'') p =
    Inr (replicate 12 (CHR ''a'') @ toy_seal (replicate 12 (CHR ''a'')) p)"
  by (simp only: demo_reads Encrypt_def option.case)

lemma demo_decrypt: "Decrypt toy_unseal (mcPasswordCiphertext (demo_row u)) = Inr demo_password"
  using decrypt_encrypt [OF toy_gcm_ok _ demo_encrypt [unfolded demo_reads], of demo_password]
  by (simp only: demo_row_def ManagedCredential.simps length_replicate nonceBytes_def simp_thms)

lemma demo_first: "\<exists>c. ensure_credential demo_manager demo_draws (dashboard_as ''admin'') (empty_store, [], []) =
    (Inr c, after_bootstrap)"
proof -
  have n: "GetCredential ''traefik_dashboard'' empty_store = Inl ErrCredentialNotFound"
    by (simp add: GetCredential_def empty_store_def row_find_def)
  have i: "InsertCredential 7 \<lparr> mcName = ''traefik_dashboard'', mcKind = ''traefik'', mcUsername = ''admin'',
      mcPasswordCiphertext = ct, mcSwarmSecretName = ''admin_credentials'', mcCreatedAt = 0, mcRotatedAt = None \<rparr> empty_store =
      (Inr (), empty_store\<lparr> dbCredentials := [\<lparr> mcName = ''traefik_dashboard'', mcKind = ''traefik'', mcUsername = ''admin'',
      mcPasswordCiphertext = ct, mcSwarmSecretName = ''admin_credentials'', mcCreatedAt = 7, mcRotatedAt = None \<rparr>] \<rparr>)" for ct
    by (simp add: InsertCredential_def empty_store_def row_find_def)
  have e: "EnsureSecret toy_sdk ''admin_credentials'' d ([], []) = (Inr True, [plain_secret ''admin_credentials'' d], [])" for d
    by (simp add: EnsureSecret_def SecretExists_def SecretCreate_def toy_sdk_def toy_inspect_def exists_of_def
        missing_def toy_missing_def sdk_is_not_found_def row_find_def toy_create_def call_def plain_secret_def)
  show ?thesis
    by (simp add: ensure_credential_def n ensure_new_def generatePassword_def demo_draws_def demo_password
        demo_manager_def demo_encrypt i serialisePassword_def HtpasswdLine_def e after_bootstrap_def demo_row_def)
qed

lemma demo_bootstrapped:
  obtains db s where "after_bootstrap = (db, s)"
    "GetCredential ''traefik_dashboard'' db = Inr (demo_row ''admin'')"
    "\<And>d. EnsureSecret toy_sdk ''admin_credentials'' d s = (Inr False, s)"
    "\<And>u. \<exists>db'. UpdateCredentialUsername ''traefik_dashboard'' u db = (Inr (), db')"
    "\<And>ct. \<exists>db'. RotateCredential 7 ''traefik_dashboard'' ct db = (Inr (), db') \<and>
       GetSecret ''admin_credentials'' db' = Inl ErrSecretNotFound"
    "\<And>d. \<exists>s'. swap_secret demo_manager ''admin_credentials'' d s = (Inr (), s')"
    "''admin_credentials'' \<in> spName ` set (fst s)"
proof (rule that)
  show "after_bootstrap = (fst after_bootstrap, snd after_bootstrap)" by simp
  show "GetCredential ''traefik_dashboard'' (fst after_bootstrap) = Inr (demo_row ''admin'')"
    by (simp add: GetCredential_def after_bootstrap_def row_find_def demo_row_def)
  show "EnsureSecret toy_sdk ''admin_credentials'' d (snd after_bootstrap) = (Inr False, snd after_bootstrap)" for d
    by (rule EnsureSecret_again) (simp add: SecretExists_def toy_sdk_def toy_inspect_def exists_of_def
        row_find_def plain_secret_def after_bootstrap_def)
  show "\<exists>db'. UpdateCredentialUsername ''traefik_dashboard'' u (fst after_bootstrap) = (Inr (), db')" for u
    by (simp add: UpdateCredentialUsername_def after_bootstrap_def row_find_def demo_row_def)
  show "\<exists>db'. RotateCredential 7 ''traefik_dashboard'' ct (fst after_bootstrap) = (Inr (), db') \<and>
       GetSecret ''admin_credentials'' db' = Inl ErrSecretNotFound" for ct
    by (simp add: RotateCredential_def after_bootstrap_def row_find_def demo_row_def empty_store_def GetSecret_def)
  show "\<exists>s'. swap_secret demo_manager ''admin_credentials'' d (snd after_bootstrap) = (Inr (), s')" for d
    by (simp add: swap_secret_def demo_manager_def SecretRemove_def EnsureSecret_def SecretExists_def SecretCreate_def
        toy_sdk_def toy_inspect_def toy_remove_def idempotentRemove_def exists_of_def missing_def toy_missing_def
        sdk_is_not_found_def row_find_def row_delete_def toy_create_def call_def plain_secret_def after_bootstrap_def)
  show "''admin_credentials'' \<in> spName ` set (fst (snd after_bootstrap))"
    by (simp add: after_bootstrap_def plain_secret_def)
qed

lemma demo_manager_fields [simp]:
  "mgSdk demo_manager = toy_sdk" "mgSeal demo_manager = toy_seal" "mgUnseal demo_manager = toy_unseal"
  "mgNow demo_manager = 7" "mgDeployer demo_manager = None" "mgBcrypt demo_manager p = Some (''$2a$'' @ p)"
  by (simp_all add: demo_manager_def)

lemma demo_row_fields [simp]:
  "mcName (demo_row u) = ''traefik_dashboard''" "mcKind (demo_row u) = ''traefik''" "mcUsername (demo_row u) = u"
  "mcSwarmSecretName (demo_row u) = ''admin_credentials''"
  by (simp_all add: demo_row_def)

lemma demo_again: "\<exists>c db'. ensure_credential demo_manager rnd (dashboard_as ''ops'') after_bootstrap =
    (Inr c, db', snd after_bootstrap) \<and> crUsernameChanged c \<and> crSecretName c = ''admin_credentials''"
proof -
  obtain db s where D: "after_bootstrap = (db, s)"
    "GetCredential ''traefik_dashboard'' db = Inr (demo_row ''admin'')"
    "\<And>d. EnsureSecret toy_sdk ''admin_credentials'' d s = (Inr False, s)"
    "\<And>u. \<exists>db'. UpdateCredentialUsername ''traefik_dashboard'' u db = (Inr (), db')"
    by (rule demo_bootstrapped) blast
  then obtain db' where up: "UpdateCredentialUsername ''traefik_dashboard'' ''ops'' db = (Inr (), db')" by blast
  obtain payload where pay: "serialisePassword demo_manager (dashboard_as ''ops'') ''ops'' demo_password = Inr payload"
    by (simp add: serialisePassword_def HtpasswdLine_def)
  show ?thesis
    by (simp add: D ensure_credential_def ensure_existing_def demo_decrypt KindOpenObserve_def Let_def pay up)
qed

theorem ensure_credential_idempotent_witness:
  "\<exists>c db' s'. ensure_credential demo_manager demo_draws (dashboard_as ''admin'') (empty_store, [], []) =
       (Inr c, db', s') \<and>
     (\<exists>kind. ensure_credential demo_manager (\<lambda>_ _. None) (dashboard_as ''admin'') (db', s') =
       (Inr (c\<lparr> crKind := kind, crNewlyCreated := False, crSecretCreated := False, crUsernameChanged := False \<rparr>), db', s'))"
proof -
  obtain c w where c: "ensure_credential demo_manager demo_draws (dashboard_as ''admin'') (empty_store, [], []) = (Inr c, w)"
    using demo_first by blast
  obtain db' s' where w: "w = (db', s')" by (cases w)
  show ?thesis
    using ensure_credential_idempotent [OF demo_gcm demo_nonces(2) demo_secrets c [unfolded w] demo_exists] c w by blast
qed

section \<open>Secrets that fall behind the store\<close>

text \<open>A get-or-create never updates a secret that exists: when it succeeds with a changed
  username the store has the new name (for OpenObserve with a new password), and the swarm still
  has the payload it had before.\<close>

theorem username_change_leaves_secret_behind:
  assumes "gcm_ok (mgSeal m) (mgUnseal m)" "nonces_ok (rnd (bsName spec))" "sdk_secrets (mgSdk m) rows"
    and "ensure_credential m rnd spec (db, s) = (Inr c, db', s')"
    and "crUsernameChanged c" "crSecretName c \<in> spName ` rows s"
  shows "s' = s \<and> cred_stored m db' c \<and> crUsername c = bsUsername spec \<and>
    (\<exists>row. GetCredential (bsName spec) db = Inr row \<and> mcUsername row \<noteq> crUsername c)"
proof -
  note st = ensure_credential_stored [OF assms(1,2,4)]
  obtain payload made where es: "EnsureSecret (mgSdk m) (crSecretName c) payload s = (Inr made, s')"
    using st by blast
  have s: "s' = s" using EnsureSecret_ok [OF assms(3) es] assms(6) by (auto split: if_splits)
  obtain row where g: "GetCredential (bsName spec) db = Inr row"
  proof (cases "GetCredential (bsName spec) db")
    case (Inl e)
    then have "ensure_new m (rnd (bsName spec)) spec (db, s) = (Inr c, db', s')"
      using assms(4) by (simp add: ensure_credential_def split: if_splits)
    then have "\<not> crUsernameChanged c"
      by (auto simp: ensure_new_def Let_def split: prod.splits sum.splits)
    then show thesis using assms(5) by simp
  qed
  have "ensure_existing m (rnd (bsName spec)) spec row (db, s) = (Inr c, db', s')"
    using assms(4) g by (simp add: ensure_credential_def)
  then have "bsUsername spec \<noteq> [] \<and> bsUsername spec \<noteq> mcUsername row"
  proof (cases rule: ensure_existing_cases)
    case 1
    then show ?thesis using assms(5) by simp
  qed
  then show ?thesis using s st g by auto
qed

theorem username_change_leaves_secret_behind_witness:
  "\<exists>c db'. ensure_credential demo_manager demo_draws (dashboard_as ''ops'') after_bootstrap =
     (Inr c, db', snd after_bootstrap) \<and> crUsername c = ''ops''"
proof -
  obtain c db' where c: "ensure_credential demo_manager demo_draws (dashboard_as ''ops'') after_bootstrap =
      (Inr c, db', snd after_bootstrap)" "crUsernameChanged c" "crSecretName c = ''admin_credentials''"
    using demo_again [of demo_draws] by blast
  have "crSecretName c \<in> spName ` set (fst (snd after_bootstrap))"
    by (rule demo_bootstrapped) (metis c(3) snd_conv)
  then have "crUsername c = ''ops''"
    using username_change_leaves_secret_behind [of demo_manager demo_draws "dashboard_as ''ops''"
        "\<lambda>s. set (fst s)" "fst after_bootstrap" "snd after_bootstrap" c db' "snd after_bootstrap"]
      demo_gcm demo_nonces(2) demo_secrets c by simp
  then show ?thesis using c by blast
qed

section \<open>Rotation\<close>

lemma Rotate_other:
  "RotateCredential now n ct db = (r, db') \<Longrightarrow> n' \<noteq> n \<Longrightarrow> GetCredential n' db' = GetCredential n' db"
  by (auto simp: RotateCredential_def GetCredential_def row_find_update split: if_splits option.splits)

lemma UpdateSecret_credentials:
  "GetCredential n (snd (UpdateSecret sn ct h db)) = GetCredential n db"
  by (simp add: UpdateSecret_def GetCredential_def)

lemma rotate_db_secret_credentials: "GetCredential n (snd (rotate_db_secret m sn ct pw db)) = GetCredential n db"
proof (cases "GetSecret sn db")
  case (Inr v)
  obtain r db' where "UpdateSecret sn ct (mgHash m pw) db = (r, db')" by (meson surj_pair)
  then show ?thesis
    using UpdateSecret_credentials [of n sn ct "mgHash m pw" db] Inr
    by (cases r) (simp_all add: rotate_db_secret_def)
qed (simp add: rotate_db_secret_def)

text \<open>The stages of a rotation that got as far as the swarm.\<close>

lemma Rotate_stages:
  assumes "Rotate m rnd name (db, s) = (res, db', s')"
    and "res = Inr c \<or> res = Inl (Remove_Failed e)"
  obtains row password ct db1 spec payload where
    "GetCredential name db = Inr row" "RandomPassword (rnd ''password'') = Inr password"
    "Encrypt (mgSeal m) (rnd ''nonce'') password = Inr ct"
    "RotateCredential (mgNow m) name ct db = (Inr (), db1)" "name \<noteq> ''edge_api_token''"
    "specFor name = Some spec" "serialisePassword m spec (mcUsername row) password = Inr payload"
    "case swap_secret m (mcSwarmSecretName row) payload s of
       (Inl e', s1) \<Rightarrow> res = Inl e' \<and> db' = db1 \<and> s' = s1
     | (Inr _, s1) \<Rightarrow>
        (case restart_consumer m name s1 of
           (Inl e', s2) \<Rightarrow> res = Inl e' \<and> db' = db1 \<and> s' = s2
         | (Inr _, s2) \<Rightarrow>
            (case rotate_db_secret m (mcSwarmSecretName row) ct password db1 of
               (Inl e', db2) \<Rightarrow> res = Inl e' \<and> db' = db2 \<and> s' = s2
             | (Inr _, db2) \<Rightarrow> s' = s2 \<and> db' = db2 \<and>
                 res = Inr \<lparr> crName = mcName row, crKind = mcKind row, crUsername = mcUsername row,
                    crPassword = password, crSecretName = mcSwarmSecretName row, crNewlyCreated = False,
                    crSecretCreated = True, crUsernameChanged = False \<rparr>))"
proof -
  note H = assms(1) [unfolded Rotate_def Let_def prod.case]
  have nm: "name \<noteq> ''edge_api_token''" using H assms(2) by auto
  note H = H [unfolded if_not_P [OF nm]]
  obtain row where row: "GetCredential name db = Inr row"
    using H assms(2) by (cases "GetCredential name db") auto
  note H = H [unfolded row sum.case]
  obtain pw where pw: "RandomPassword (rnd ''password'') = Inr pw"
    using H assms(2) by (cases "RandomPassword (rnd ''password'')") auto
  note H = H [unfolded pw sum.case]
  obtain ct where ct: "Encrypt (mgSeal m) (rnd ''nonce'') pw = Inr ct"
    using H assms(2) by (cases "Encrypt (mgSeal m) (rnd ''nonce'') pw") auto
  note H = H [unfolded ct sum.case]
  obtain r1 db1 where r: "RotateCredential (mgNow m) name ct db = (r1, db1)" by (meson surj_pair)
  then have r1: "r1 = Inr ()" using H assms(2) by (cases r1) auto
  note H = H [unfolded r r1 prod.case sum.case]
  obtain spec where sp: "specFor name = Some spec" using H assms(2) by (cases "specFor name") auto
  note H = H [unfolded sp option.case]
  obtain payload where pay: "serialisePassword m spec (mcUsername row) pw = Inr payload"
  proof (cases "serialisePassword m spec (mcUsername row) pw")
    case (Inl e')
    then have "res = Inl e'" using H by simp
    moreover have "e' \<noteq> Remove_Failed e"
      using Inl by (cases "HtpasswdLine (mgBcrypt m) (mcUsername row) pw")
        (auto simp: serialisePassword_def split: cred_format.splits)
    ultimately show thesis using assms(2) by auto
  qed
  note H = H [unfolded pay sum.case]
  obtain x1 s1 where x1: "swap_secret m (mcSwarmSecretName row) payload s = (x1, s1)" by (meson surj_pair)
  obtain x2 s2 where x2: "restart_consumer m name s1 = (x2, s2)" by (meson surj_pair)
  obtain x3 db2 where x3: "rotate_db_secret m (mcSwarmSecretName row) ct pw db1 = (x3, db2)" by (meson surj_pair)
  show thesis
    using H by (intro that [OF row pw ct r [unfolded r1] nm sp pay])
      (cases x1; cases x2; cases x3; simp add: x1 x2 x3)
qed

lemma swap_secret_rows:
  assumes "sdk_secrets (mgSdk m) rows"
  shows "swap_secret m n payload s = (Inr u, s') \<Longrightarrow>
      rows s' = insert (plain_secret n payload) {o' \<in> rows s. spName o' \<noteq> n}"
    and "swap_secret m n payload s = (Inl (Remove_Failed e), s') \<Longrightarrow> rows s' = rows s"
proof -
  obtain r1 s1 where r: "SecretRemove (mgSdk m) n s = (r1, s1)" by (meson surj_pair)
  obtain r2 s2 where e: "EnsureSecret (mgSdk m) n payload s1 = (r2, s2)" by (meson surj_pair)
  note rm = idempotentRemove_rows [OF assms [unfolded sdk_secrets_def], of "''secret''" n s,
      folded SecretRemove_def, unfolded r]
  show "swap_secret m n payload s = (Inr u, s') \<Longrightarrow>
      rows s' = insert (plain_secret n payload) {o' \<in> rows s. spName o' \<noteq> n}"
  proof -
    assume sw: "swap_secret m n payload s = (Inr u, s')"
    have r1: "\<exists>v. r1 = Inr v" using sw r by (cases r1) (auto simp: swap_secret_def)
    obtain made where r2: "r2 = Inr made" "s' = s2"
      using sw r r1 e by (cases r2) (auto simp: swap_secret_def)
    have "rows s1 = {o' \<in> rows s. spName o' \<noteq> n}" using rm r1 by auto
    then show ?thesis using EnsureSecret_ok [OF assms e [unfolded r2(1)]] r2(2) by (auto split: if_splits)
  qed
  show "swap_secret m n payload s = (Inl (Remove_Failed e), s') \<Longrightarrow> rows s' = rows s"
    using rm r e by (cases r1; cases r2) (auto simp: swap_secret_def)
qed

lemma Reveal_rotated:
  assumes "gcm_ok (mgSeal m) (mgUnseal m)" "nonces_ok rnd"
    and "Encrypt (mgSeal m) (rnd ''nonce'') pw = Inr ct" "RotateCredential now name ct db = (Inr u, db1)"
  shows "Reveal (Some (mgUnseal m)) name db1 = Inr pw"
  using Get_Rotate [OF assms(4)] decrypt_fresh [OF assms(1-3)] by (auto simp: Reveal_def)

text \<open>Property C24.  After a successful rotation the store reveals the returned password, the swarm's
  secret of the credential is its serialisation and the only object of that name, every other
  secret and credential is as before.  When the old secret cannot be removed the store already
  reveals the new password while the swarm still has the old secret.\<close>

theorem rotate_effect:
  assumes "gcm_ok (mgSeal m) (mgUnseal m)" "nonces_ok rnd" "sdk_secrets (mgSdk m) rows"
    and cli: "\<And>cl svc s. mgDeployer m = Some cl \<Longrightarrow> rows (snd (ForceUpdateService cl svc s)) = rows s"
    and "Rotate m rnd name (db, s) = (res, db', s')"
  shows "(\<forall>c. res = Inr c \<longrightarrow>
            Reveal (Some (mgUnseal m)) name db' = Inr (crPassword c) \<and>
            (\<exists>spec payload. specFor name = Some spec \<and>
               serialisePassword m spec (crUsername c) (crPassword c) = Inr payload \<and>
               rows s' = insert (plain_secret (crSecretName c) payload)
                           {o' \<in> rows s. spName o' \<noteq> crSecretName c}) \<and>
            (\<forall>n. n \<noteq> name \<longrightarrow> GetCredential n db' = GetCredential n db)) \<and>
         (\<forall>e. res = Inl (Remove_Failed e) \<longrightarrow> rows s' = rows s \<and>
            (\<exists>pw. RandomPassword (rnd ''password'') = Inr pw \<and>
               Reveal (Some (mgUnseal m)) name db' = Inr pw))"
proof (rule conjI; intro allI impI)
  fix c assume ok: "res = Inr c"
  from assms(5) disjI1 [OF ok] show "Reveal (Some (mgUnseal m)) name db' = Inr (crPassword c) \<and>
      (\<exists>spec payload. specFor name = Some spec \<and>
         serialisePassword m spec (crUsername c) (crPassword c) = Inr payload \<and>
         rows s' = insert (plain_secret (crSecretName c) payload) {o' \<in> rows s. spName o' \<noteq> crSecretName c}) \<and>
      (\<forall>n. n \<noteq> name \<longrightarrow> GetCredential n db' = GetCredential n db)"
  proof (cases rule: Rotate_stages)
    case (1 row pw ct db1 spec payload)
    obtain x1 s1 where x1: "swap_secret m (mcSwarmSecretName row) payload s = (x1, s1)" by (meson surj_pair)
    obtain x2 s2 where x2: "restart_consumer m name s1 = (x2, s2)" by (meson surj_pair)
    obtain x3 db2 where x3: "rotate_db_secret m (mcSwarmSecretName row) ct pw db1 = (x3, db2)" by (meson surj_pair)
    note fin = 1(8) [unfolded x1 prod.case x2 x3]
    obtain u1 u2 u3 where u: "x1 = Inr u1" "x2 = Inr u2" "x3 = Inr u3"
      using fin ok by (cases x1; cases x2; cases x3) auto
    note fin' = fin [unfolded u sum.case ok]
    have rows2: "rows s2 = rows s1"
    proof (cases "consumingService name")
      case (Some svc)
      then show ?thesis
        using x2 cli [of _ svc s1]
        by (cases "mgDeployer m") (auto simp: restart_consumer_def split: prod.splits sum.splits)
    qed (use x2 in \<open>auto simp: restart_consumer_def\<close>)
    have get: "GetCredential n db2 = GetCredential n db1" for n
      using rotate_db_secret_credentials [of n m "mcSwarmSecretName row" ct pw db1] x3 by simp
    have "Reveal (Some (mgUnseal m)) name db2 = Reveal (Some (mgUnseal m)) name db1"
      by (simp add: Reveal_def get)
    then show ?thesis
      using fin' get Rotate_other [OF 1(4)] Reveal_rotated [OF assms(1,2) 1(3,4)] 1(6,7) rows2
        swap_secret_rows(1) [OF assms(3) x1 [unfolded u]] by auto
  qed
next
  fix e assume err: "res = Inl (Remove_Failed e)"
  from assms(5) disjI2 [OF err] show "rows s' = rows s \<and>
      (\<exists>pw. RandomPassword (rnd ''password'') = Inr pw \<and> Reveal (Some (mgUnseal m)) name db' = Inr pw)"
  proof (cases rule: Rotate_stages)
    case (1 row pw ct db1 spec payload)
    obtain x1 s1 where x1: "swap_secret m (mcSwarmSecretName row) payload s = (x1, s1)" by (meson surj_pair)
    have late: "restart_consumer m name s1 \<noteq> (Inl (Remove_Failed e), s2)"
      "rotate_db_secret m (mcSwarmSecretName row) ct pw db1 \<noteq> (Inl (Remove_Failed e), db2)" for s2 db2
      by (auto simp: restart_consumer_def rotate_db_secret_def split: option.splits prod.splits sum.splits if_splits)
    have "x1 = Inl (Remove_Failed e) \<and> db' = db1 \<and> s' = s1"
      using 1(8) [unfolded x1 prod.case] err late
      by (cases x1) (auto split: prod.splits sum.splits)
    then show ?thesis
      using swap_secret_rows(2) [OF assms(3)] x1 1(2) Reveal_rotated [OF assms(1,2) 1(3,4)] by auto
  qed
qed

lemma demo_rotate: "\<exists>c w. Rotate demo_manager demo_bytes ''traefik_dashboard'' after_bootstrap = (Inr c, w)"
proof -
  obtain db s where D: "after_bootstrap = (db, s)"
    "GetCredential ''traefik_dashboard'' db = Inr (demo_row ''admin'')"
    "\<And>ct. \<exists>db'. RotateCredential 7 ''traefik_dashboard'' ct db = (Inr (), db') \<and>
       GetSecret ''admin_credentials'' db' = Inl ErrSecretNotFound"
    "\<And>d. \<exists>s'. swap_secret demo_manager ''admin_credentials'' d s = (Inr (), s')"
    by (rule demo_bootstrapped) blast
  obtain ct where ct: "Encrypt toy_seal (demo_bytes ''nonce'') demo_password = Inr ct"
    using demo_encrypt by blast
  obtain db' where r: "RotateCredential 7 ''traefik_dashboard'' ct db = (Inr (), db')"
    "GetSecret ''admin_credentials'' db' = Inl ErrSecretNotFound" using D(3) by blast
  have sp: "specFor ''traefik_dashboard'' = Some (dashboard_as [])"
    by (simp add: specFor_def bootstrapSpecs_def dashboard_as_def)
  obtain payload where pay: "serialisePassword demo_manager (dashboard_as []) ''admin'' demo_password = Inr payload"
    by (simp add: serialisePassword_def HtpasswdLine_def)
  obtain s' where s': "swap_secret demo_manager ''admin_credentials'' payload s = (Inr (), s')"
    using D(4) by blast
  have rs: "restart_consumer demo_manager ''traefik_dashboard'' s' = (Inr (), s')"
    by (simp add: restart_consumer_def split: option.split)
  have rd: "rotate_db_secret demo_manager ''admin_credentials'' ct demo_password db' = (Inr (), db')"
    by (simp add: rotate_db_secret_def r(2))
  show ?thesis
    unfolding D(1) Rotate_def Let_def prod.case
    by (simp add: D(2) demo_password ct r sp pay s' rs rd)
qed

theorem rotate_effect_witness:
  "\<exists>c db' s'. Rotate demo_manager demo_bytes ''traefik_dashboard'' after_bootstrap = (Inr c, db', s') \<and>
     Reveal (Some toy_unseal) ''traefik_dashboard'' db' = Inr (crPassword c)"
proof -
  obtain c w where c: "Rotate demo_manager demo_bytes ''traefik_dashboard'' after_bootstrap = (Inr c, w)"
    using demo_rotate by blast
  obtain db' s' where w: "w = (db', s')" by (cases w)
  obtain db s where b: "after_bootstrap = (db, s)" by (cases after_bootstrap)
  have "mgDeployer demo_manager = Some cl \<Longrightarrow> set (fst (snd (ForceUpdateService cl svc t))) = set (fst t)" for cl svc t
    by (simp add: demo_manager_def)
  then show ?thesis
    using rotate_effect [OF demo_gcm demo_nonces(1) demo_secrets _ c [unfolded w b]] c w
    by (simp add: demo_manager_def)
qed

section \<open>The cookie secret\<close>

definition base64_alphabet :: string where
  "base64_alphabet = ''ABCDEFGHIJKLMNOPQRSTUVWXYZabcdefghijklmnopqrstuvwxyz0123456789-_=''"

lemma b64_char_in: "b64_char n \<in> set base64_alphabet"
proof -
  let ?a = "''ABCDEFGHIJKLMNOPQRSTUVWXYZabcdefghijklmnopqrstuvwxyz0123456789-_''"
  have "length ?a = 64" by simp
  then have "?a ! (n mod 64) \<in> set ?a" by (intro nth_mem) simp
  moreover have "set ?a \<subseteq> set base64_alphabet" unfolding base64_alphabet_def by auto
  ultimately show ?thesis unfolding b64_char_def by blast
qed

lemma b64url_set: "set (b64url_encode s) \<subseteq> set base64_alphabet"
  by (induction s rule: b64url_encode.induct) (simp_all add: Let_def b64_char_in)

text \<open>A fresh cookie secret is the padded base64 of 32 bytes, 44 characters of the base64
  alphabet; the value a rotation puts in its place has 36 characters and is not base64 at all.\<close>

theorem rotation_breaks_cookie_secret:
  assumes "length buf = 32" "length buf' = 24"
  shows "(rnd ''cookie'' = Some buf \<longrightarrow>
            (\<exists>v. generatePassword m (bootstrapSpecs ! 5) rnd db = (Inr v, db) \<and> length v = 44 \<and>
               set v \<subseteq> set base64_alphabet)) \<and>
         (rnd ''password'' = Some buf' \<longrightarrow> Rotate m rnd ''sso_cookie_secret'' w = (Inr c, w') \<longrightarrow>
            length (crPassword c) = 36 \<and> \<not> set (crPassword c) \<subseteq> set base64_alphabet)"
proof (intro conjI impI)
  assume "rnd ''cookie'' = Some buf"
  then have "generatePassword m (bootstrapSpecs ! 5) rnd db = (Inr (b64url_padded buf), db)"
    by (simp add: generatePassword_def bootstrapSpecs_def randomCookieSecret_def)
  moreover have "length (b64url_padded buf) = 44" using assms(1) by (simp add: b64url_padded_def length_b64)
  moreover have "CHR ''='' \<in> set base64_alphabet" by (simp add: base64_alphabet_def)
  then have "set (b64url_padded buf) \<subseteq> set base64_alphabet"
    using b64url_set [of buf] by (auto simp: b64url_padded_def)
  ultimately show "\<exists>v. generatePassword m (bootstrapSpecs ! 5) rnd db = (Inr v, db) \<and> length v = 44 \<and>
      set v \<subseteq> set base64_alphabet" by blast
next
  assume b: "rnd ''password'' = Some buf'" and r: "Rotate m rnd ''sso_cookie_secret'' w = (Inr c, w')"
  obtain db s db' s' where w: "w = (db, s)" "w' = (db', s')" by (cases w; cases w')
  obtain p where p: "RandomPassword (Some buf') = Inr p" "length p = 36"
    "set p \<inter> set (password_classes ! 3) \<noteq> {}"
    using RandomPassword_policy [OF assms(2)] by auto
  from r [unfolded w] disjI1 [OF refl] have "crPassword c = p"
  proof (cases rule: Rotate_stages)
    case (1 row pw ct db1 spec payload)
    have "pw = p" using 1(2) b p(1) by simp
    then show ?thesis using 1(8) by (auto split: prod.splits sum.splits)
  qed
  moreover have "set (password_classes ! 3) \<inter> set base64_alphabet = {}" by code_simp
  ultimately show "length (crPassword c) = 36" "\<not> set (crPassword c) \<subseteq> set base64_alphabet"
    using p by auto
qed

theorem rotation_breaks_cookie_secret_witness:
  "\<exists>v. generatePassword demo_manager (bootstrapSpecs ! 5) demo_bytes empty_store = (Inr v, empty_store) \<and> length v = 44"
  using conjunct1 [OF rotation_breaks_cookie_secret [OF length_replicate length_replicate,
      where rnd = demo_bytes and m = demo_manager and db = empty_store], THEN mp, OF demo_reads(3)]
  by blast

end
