(* ===== verification/Cluster_State.thy ===== *)
theory Cluster_State
  imports Store_Misc Store_Configs Swarm_Client
begin

text \<open>
  The install state of the cluster in the settings table (\<^verbatim>\<open>cluster/cluster_state.go\<close>), the checks on
  the operator's input and the record of a bring-up (\<^verbatim>\<open>validateUpInput\<close>, \<^verbatim>\<open>persistInstallState\<close> of
  \<^verbatim>\<open>cluster/up.go\<close>), the preflight check (\<^verbatim>\<open>preflight.go\<close>) and the status report (\<^verbatim>\<open>status.go\<close>).

  A nil store is None.  The settings statements of the model do not fail.
\<close>

section \<open>Keys and readers\<close>

definition settingTLSMode :: string where "settingTLSMode = ''tls_mode''"
definition settingTLSCertPath :: string where "settingTLSCertPath = ''tls_cert_path''"
definition settingTLSKeyPath :: string where "settingTLSKeyPath = ''tls_key_path''"
definition settingTLSACME :: string where "settingTLSACME = ''tls_acme_email''"
definition settingDomain :: string where "settingDomain = ''domain''"
definition settingOOEmail :: string where "settingOOEmail = ''oo_admin_email''"

lemmas setting_keys = settingTLSMode_def settingTLSCertPath_def settingTLSKeyPath_def
  settingTLSACME_def settingDomain_def settingOOEmail_def

definition clusterInstalled :: "Store option \<Rightarrow> bool" where
  "clusterInstalled st =
     (case st of
        None \<Rightarrow> False
      | Some db \<Rightarrow>
          GetSettingDefault settingDomain [] db \<noteq> [] \<or> GetSettingDefault settingTLSMode [] db \<noteq> [] \<or>
          length (ListConfigs ''cluster'' [] db) > 0)"

record tlsState =
  tlMode :: string
  tlCertPath :: string
  tlKeyPath :: string
  tlACMEEmail :: string

definition loadTLSSettings :: "Store option \<Rightarrow> tlsState" where
  "loadTLSSettings st =
     (case st of
        None \<Rightarrow> \<lparr> tlMode = [], tlCertPath = [], tlKeyPath = [], tlACMEEmail = [] \<rparr>
      | Some db \<Rightarrow> \<lparr> tlMode = GetSettingDefault settingTLSMode [] db,
                    tlCertPath = GetSettingDefault settingTLSCertPath [] db,
                    tlKeyPath = GetSettingDefault settingTLSKeyPath [] db,
                    tlACMEEmail = GetSettingDefault settingTLSACME [] db \<rparr>)"

text \<open>The map of \<^verbatim>\<open>save\<close> has four distinct keys, so the order Go ranges over it does not matter.\<close>

definition save_settings :: "(string \<times> string) list \<Rightarrow> Store \<Rightarrow> Store" where
  "save_settings kvs db = fold (\<lambda>(k, v). SetSetting k v) kvs db"

definition tls_save :: "tlsState \<Rightarrow> Store \<Rightarrow> Store" where
  "tls_save t db =
     save_settings [(settingTLSMode, tlMode t), (settingTLSCertPath, tlCertPath t),
                    (settingTLSKeyPath, tlKeyPath t), (settingTLSACME, tlACMEEmail t)] db"

record ssoState =
  soEnabled :: bool
  soProvider :: string
  soClientID :: string
  soClientSecret :: string
  soGitHubOrg :: string
  soCookieExpire :: string

definition loadSSOSettings :: "Store option \<Rightarrow> ssoState" where
  "loadSSOSettings st =
     (case st of
        None \<Rightarrow> \<lparr> soEnabled = False, soProvider = [], soClientID = [], soClientSecret = [],
                  soGitHubOrg = [], soCookieExpire = [] \<rparr>
      | Some db \<Rightarrow> \<lparr> soEnabled = (GetSettingDefault ''sso_enabled'' [] db = ''true''),
                    soProvider = GetSettingDefault ''sso_provider'' [] db,
                    soClientID = GetSettingDefault ''sso_client_id'' [] db,
                    soClientSecret = GetSettingDefault ''sso_client_secret'' [] db,
                    soGitHubOrg = GetSettingDefault ''sso_github_org'' [] db,
                    soCookieExpire = GetSettingDefault ''sso_cookie_expire'' ''1h'' db \<rparr>)"

datatype state_err =
    SSO_No_Provider | SSO_Unsupported string | SSO_No_Client | SSO_Bad_Duration string
  | TLS_Mode_Flip string string
  | Domain_Required | Email_Missing | TLS_Both | TLS_Missing | TLS_Half
  | Ping_Failed | Info_Failed | Swarm_Inactive string | Not_Manager

text \<open>\<^verbatim>\<open>durOk\<close> tells which strings Go's duration parser accepts.\<close>

definition sso_validate :: "(string \<Rightarrow> bool) \<Rightarrow> ssoState \<Rightarrow> state_err option" where
  "sso_validate durOk s =
     (if \<not> soEnabled s then None
      else if soProvider s = [] then Some SSO_No_Provider
      else if soProvider s \<noteq> ''github'' then Some (SSO_Unsupported (soProvider s))
      else if soClientID s = [] \<or> soClientSecret s = [] then Some SSO_No_Client
      else if \<not> durOk (soCookieExpire s) then Some (SSO_Bad_Duration (soCookieExpire s))
      else None)"

definition loadEdgeLoginDisabled :: "Store option \<Rightarrow> bool" where
  "loadEdgeLoginDisabled st =
     (case st of None \<Rightarrow> True | Some db \<Rightarrow> GetSettingDefault ''edge_login_disabled'' ''true'' db = ''true'')"

definition loadBackupAllNodes :: "Store option \<Rightarrow> bool" where
  "loadBackupAllNodes st =
     (case st of None \<Rightarrow> False | Some db \<Rightarrow> GetSettingDefault ''backup_all_nodes'' [] db = ''true'')"

definition defaultBackupRetentionDays :: int where "defaultBackupRetentionDays = 15"

definition LoadBackupRetentionDays :: "Store option \<Rightarrow> int" where
  "LoadBackupRetentionDays st =
     (case st of
        None \<Rightarrow> defaultBackupRetentionDays
      | Some db \<Rightarrow>
         (let v = GetSettingDefault ''backup_retention_days'' [] db in
          if v = [] then defaultBackupRetentionDays
          else (case parse_int64 v of
                  None \<Rightarrow> defaultBackupRetentionDays
                | Some n \<Rightarrow> if n \<le> 0 then defaultBackupRetentionDays else n)))"

section \<open>The operator's input\<close>

record UpInput =
  uiDomain :: string
  uiCertPath :: string
  uiKeyPath :: string
  uiACMEEmail :: string
  uiForceTLSMode :: bool
  uiTraefikAdminUser :: string
  uiOOEmail :: string
  uiConfigDir :: string
  uiVersion :: string
  uiVolumeRoot :: string

definition requestedTLSMode :: "UpInput \<Rightarrow> string" where
  "requestedTLSMode inp =
     (if uiACMEEmail inp \<noteq> [] then ''acme''
      else if uiCertPath inp \<noteq> [] \<or> uiKeyPath inp \<noteq> [] then ''cert''
      else [])"

definition mergeTLSState :: "UpInput \<Rightarrow> tlsState \<Rightarrow> state_err + UpInput" where
  "mergeTLSState inp state =
     (let req = requestedTLSMode inp in
      if tlMode state = [] then Inr inp
      else if req \<noteq> [] \<and> req \<noteq> tlMode state \<and> \<not> uiForceTLSMode inp
           then Inl (TLS_Mode_Flip (tlMode state) req)
      else if tlMode state = ''cert'' then
        (let in1 = (if uiCertPath inp = [] then inp\<lparr> uiCertPath := tlCertPath state \<rparr> else inp)
         in Inr (if uiKeyPath in1 = [] then in1\<lparr> uiKeyPath := tlKeyPath state \<rparr> else in1))
      else if tlMode state = ''acme'' then
        Inr (if uiACMEEmail inp = [] then inp\<lparr> uiACMEEmail := tlACMEEmail state \<rparr> else inp)
      else Inr inp)"

definition validateUpInput :: "UpInput \<Rightarrow> state_err option" where
  "validateUpInput inp =
     (let byo = (uiCertPath inp \<noteq> [] \<or> uiKeyPath inp \<noteq> []); acme = (uiACMEEmail inp \<noteq> []) in
      if uiDomain inp = [] then Some Domain_Required
      else if uiOOEmail inp = [] then Some Email_Missing
      else if byo \<and> acme then Some TLS_Both
      else if \<not> byo \<and> \<not> acme then Some TLS_Missing
      else if byo \<and> (uiCertPath inp = [] \<or> uiKeyPath inp = []) then Some TLS_Half
      else None)"

definition persistInstallState :: "UpInput \<Rightarrow> Store \<Rightarrow> Store" where
  "persistInstallState inp db =
     save_settings [(settingDomain, uiDomain inp), (settingOOEmail, uiOOEmail inp)]
       (tls_save \<lparr> tlMode = requestedTLSMode inp, tlCertPath = uiCertPath inp, tlKeyPath = uiKeyPath inp,
                   tlACMEEmail = uiACMEEmail inp \<rparr> db)"

section \<open>Preflight and status\<close>

record Info =
  ifName :: string
  ifServerVersion :: string
  ifSwarmState :: string
  ifControlAvailable :: bool
  ifManagers :: int
  ifNodes :: int

definition Preflight :: "bool \<Rightarrow> client_err + Info \<Rightarrow> state_err option" where
  "Preflight pingOk info =
     (if \<not> pingOk then Some Ping_Failed
      else (case info of
              Inl _ \<Rightarrow> Some Info_Failed
            | Inr i \<Rightarrow>
                if ifSwarmState i \<noteq> ''active'' then Some (Swarm_Inactive (ifSwarmState i))
                else if \<not> ifControlAvailable i then Some Not_Manager
                else None))"

record StatusReport =
  srPreflight :: "state_err option"
  srNodeName :: string
  srServerVersion :: string
  srSwarmState :: string
  srIsManager :: bool
  srNodeCount :: int
  srManagerCount :: int

definition Status :: "bool \<Rightarrow> client_err + Info \<Rightarrow> client_err + Info \<Rightarrow> client_err + StatusReport" where
  "Status pingOk info1 info2 =
     map_sum id (\<lambda>i. \<lparr> srPreflight = Preflight pingOk info1, srNodeName = ifName i,
        srServerVersion = ifServerVersion i, srSwarmState = ifSwarmState i,
        srIsManager = ifControlAvailable i, srNodeCount = ifNodes i, srManagerCount = ifManagers i \<rparr>) info2"

section \<open>Properties\<close>

lemma save_settings_get:
  "GetSettingDefault k d (save_settings kvs db) =
     (case map_of (rev kvs) k of Some v \<Rightarrow> v | None \<Rightarrow> GetSettingDefault k d db)"
  by (induction kvs arbitrary: db)
    (auto simp: save_settings_def map_add_def GetSettingDefault_SetSetting split: option.splits)

lemmas setting_fields = loadTLSSettings_def persistInstallState_def tls_save_def save_settings_get setting_keys

text \<open>Recording a bring-up and loading the TLS state gives the operator's TLS input back,
  and merging it into the same input without its TLS flags restores that input.\<close>

theorem install_state_roundtrip:
  assumes "validateUpInput inp = None"
  shows "loadTLSSettings (Some (persistInstallState inp db)) =
      \<lparr> tlMode = requestedTLSMode inp, tlCertPath = uiCertPath inp, tlKeyPath = uiKeyPath inp,
        tlACMEEmail = uiACMEEmail inp \<rparr> \<and>
    mergeTLSState (inp\<lparr> uiCertPath := [], uiKeyPath := [], uiACMEEmail := [] \<rparr>)
      (loadTLSSettings (Some (persistInstallState inp db))) = Inr inp"
proof -
  have load: "loadTLSSettings (Some (persistInstallState inp db)) =
      \<lparr> tlMode = requestedTLSMode inp, tlCertPath = uiCertPath inp, tlKeyPath = uiKeyPath inp,
        tlACMEEmail = uiACMEEmail inp \<rparr>"
    by (simp add: setting_fields)
  have "uiACMEEmail inp \<noteq> [] \<and> uiCertPath inp = [] \<and> uiKeyPath inp = [] \<or>
      uiACMEEmail inp = [] \<and> uiCertPath inp \<noteq> [] \<and> uiKeyPath inp \<noteq> []"
    using assms by (auto simp: validateUpInput_def Let_def split: if_splits)
  then show ?thesis
    unfolding load by (elim disjE) (simp_all add: mergeTLSState_def requestedTLSMode_def)
qed

definition acme_input :: UpInput where
  "acme_input = \<lparr> uiDomain = ''example.com'', uiCertPath = [], uiKeyPath = [], uiACMEEmail = ''ops@example.com'',
     uiForceTLSMode = True, uiTraefikAdminUser = [], uiOOEmail = ''ops@example.com'', uiConfigDir = ''/c'',
     uiVersion = ''1'', uiVolumeRoot = [] \<rparr>"

theorem install_state_roundtrip_witness:
  "tlMode (loadTLSSettings (Some (persistInstallState acme_input empty_store))) = ''acme''"
  using install_state_roundtrip [of acme_input empty_store]
  by (simp add: validateUpInput_def acme_input_def requestedTLSMode_def)

text \<open>The TLS mode of an installed cluster cannot change by a merged and validated input:
  without the force flag another mode is refused by the merge, and with it the stored settings are
  filled in beside the new ones and the validation refuses to have both.  So the flag that the
  refusal advertises never leads to an accepted input.\<close>

theorem tls_mode_never_switches:
  assumes "tlMode state = ''cert'' \<and> tlCertPath state \<noteq> [] \<and> tlKeyPath state \<noteq> [] \<or>
           tlMode state = ''acme'' \<and> tlACMEEmail state \<noteq> []"
    and "requestedTLSMode inp \<noteq> []" "requestedTLSMode inp \<noteq> tlMode state"
    and "uiDomain inp \<noteq> []" "uiOOEmail inp \<noteq> []"
  shows "if uiForceTLSMode inp
         then \<exists>out. mergeTLSState inp state = Inr out \<and> validateUpInput out = Some TLS_Both
         else mergeTLSState inp state = Inl (TLS_Mode_Flip (tlMode state) (requestedTLSMode inp))"
  using assms
  by (auto simp: mergeTLSState_def requestedTLSMode_def validateUpInput_def Let_def split: if_splits)

theorem tls_mode_never_switches_witness:
  "\<exists>out. mergeTLSState acme_input
       \<lparr> tlMode = ''cert'', tlCertPath = ''/c.pem'', tlKeyPath = ''/k.pem'', tlACMEEmail = [] \<rparr> = Inr out \<and>
     validateUpInput out = Some TLS_Both"
  using tls_mode_never_switches [of
      "\<lparr> tlMode = ''cert'', tlCertPath = ''/c.pem'', tlKeyPath = ''/k.pem'', tlACMEEmail = [] \<rparr>" acme_input]
  by (simp add: acme_input_def requestedTLSMode_def)

end
