(* ===== verification/Cluster_Templates.thy ===== *)
theory Cluster_Templates
  imports Cluster_State Cluster_Secrets Refs
begin

text \<open>
  The platform templates (\<^verbatim>\<open>cluster/templates.go\<close>): which body a template file has, how it is rendered,
  and how the rows of the store are brought to the build's version.

  Go's template engine, the embedded files and the YAML library are fields of the record
  \<^verbatim>\<open>rendering\<close>; a YAML document is a tree of the type \<^verbatim>\<open>yaml\<close>.
\<close>

section \<open>Types\<close>

datatype yaml = YScalar string | YSeq "yaml list" | YMap "(string \<times> yaml) list"

record HostCertEntry =
  hcHost :: string
  hcCertSecret :: string
  hcKeySecret :: string

record RenderInput =
  riDomain :: string
  riOOEmail :: string
  riOOPassword :: string
  riOOBasicAuth :: string
  riOOSessionCookie :: string
  riACMEEmail :: string
  riConfigStore :: "Store option"
  riDataDir :: string
  riHostCerts :: "HostCertEntry list"
  riOTelConfigName :: string
  riTraefikConfigName :: string
  riCertSecretName :: string
  riKeySecretName :: string
  riEdgeImage :: string
  riSSOEnabled :: bool
  riSSOCookieSecret :: string
  riSSOClientID :: string
  riSSOClientSecret :: string
  riSSOGitHubOrg :: string
  riSSOCookieExpire :: string
  riEdgeLoginDisabled :: bool
  riBackupAllNodes :: bool
  riBackupRetentionDays :: int

record rendering =
  rnTemplate :: "string \<Rightarrow> RenderInput \<Rightarrow> string + string"
  rnEmbedded :: "string \<Rightarrow> string option"
  rnUnmarshal :: "string \<Rightarrow> string + (string \<times> yaml) list option"
  rnMarshal :: "(string \<times> yaml) list \<Rightarrow> string + string"
  rnBuildVersion :: string
  rnEdgeImageEnv :: string

datatype render_err =
    Embedded_Missing string
  | Template_Error string
  | Ref_Error string
  | Basic_Auth_Required
  | Render_Domain_Required
  | Yaml_Error string
  | Nil_Map_Write
  | Unknown_Stack string
  | Sync_Store_Error store_err

definition ConfigFileNames :: "string list" where
  "ConfigFileNames =
     [''infra-stack.yml'', ''observability-stack.yml'', ''backup-stack.yml'', ''edge-stack.yml'',
      ''sso-stack.yml'', ''otel-collector-config.yml'', ''traefik-dynamic.yml'']"

definition composeFileOf :: "string \<Rightarrow> string option" where
  "composeFileOf =
     map_of [(''infra'', ''infra-stack.yml''), (''observability'', ''observability-stack.yml''),
             (''backup'', ''backup-stack.yml''), (''edge'', ''edge-stack.yml''), (''sso'', ''sso-stack.yml'')]"

section \<open>Values that go into the templates\<close>

definition EdgeImageBase :: string where
  "EdgeImageBase = ''ghcr.io/hazemarian/pmcluster-edge''"

definition EdgeImageFor :: "rendering \<Rightarrow> string" where
  "EdgeImageFor rn =
     (let v = trim_space (rnEdgeImageEnv rn) in
      if v \<noteq> [] then (if contains_str v ''/'' then v else EdgeImageBase @ '':'' @ v)
      else if rnBuildVersion rn \<noteq> [] \<and> rnBuildVersion rn \<noteq> ''dev''
           then EdgeImageBase @ '':'' @ rnBuildVersion rn
      else EdgeImageBase @ '':latest'')"

text \<open>\<^verbatim>\<open>base64.StdEncoding\<close>.\<close>

definition b64std_encode :: "string \<Rightarrow> string" where
  "b64std_encode s =
     map (\<lambda>c. if c = CHR ''-'' then CHR ''+'' else if c = CHR ''_'' then CHR ''/'' else c)
       (b64url_encode s) @ replicate ((3 - length s mod 3) mod 3) (CHR ''='')"

definition openObserveBasicAuth :: "string \<Rightarrow> string \<Rightarrow> string" where
  "openObserveBasicAuth email password =
     (if email = [] \<or> password = [] then []
      else ''Basic '' @ b64std_encode (email @ '':'' @ password))"

definition openObserveSessionCookie :: "string \<Rightarrow> string \<Rightarrow> string" where
  "openObserveSessionCookie email password =
     (let basic = openObserveBasicAuth email password in
      if basic = [] then []
      else b64url_encode
        (''{'' @ [CHR 0x22] @ ''access_token'' @ [CHR 0x22] @ '':'' @ [CHR 0x22] @ basic @ [CHR 0x22] @
         '','' @ [CHR 0x22] @ ''refresh_token'' @ [CHR 0x22] @ '':'' @ [CHR 0x22, CHR 0x22] @ ''}''))"

definition escapeComposeDollar :: "string \<Rightarrow> string" where
  "escapeComposeDollar s = replace_all ''$'' ''$$'' s"

section \<open>Reading and rendering\<close>

definition current_template :: "string \<Rightarrow> ConfigRow \<Rightarrow> bool" where
  "current_template version row \<longleftrightarrow>
     cfgScope row = ''cluster'' \<and> cfgKind row = ''template'' \<and> cfgVersion row = version"

definition embeddedConfigContent :: "rendering \<Rightarrow> string \<Rightarrow> render_err + string" where
  "embeddedConfigContent rn name =
     (case rnEmbedded rn name of None \<Rightarrow> Inl (Embedded_Missing name) | Some b \<Rightarrow> Inr b)"

definition readConfigFile :: "rendering \<Rightarrow> string \<Rightarrow> RenderInput \<Rightarrow> render_err + string" where
  "readConfigFile rn name inp =
     (case riConfigStore inp of
        None \<Rightarrow> embeddedConfigContent rn name
      | Some db \<Rightarrow>
         (case GetConfig (trim_suffix name ''.yml'') db of
            Inl _ \<Rightarrow> embeddedConfigContent rn name
          | Inr row \<Rightarrow> if current_template (rnBuildVersion rn) row then Inr (cfgContent row)
                       else embeddedConfigContent rn name))"

definition resolvePlatformConfig :: "RenderInput \<Rightarrow> string \<Rightarrow> string + string" where
  "resolvePlatformConfig inp name =
     (if name = ''pmcluster_otel_config'' then Inr (riOTelConfigName inp)
      else if name = ''pmcluster_traefik_dynamic'' then Inr (riTraefikConfigName inp)
      else Inl (''no such platform config: '' @ name))"

definition resolvePlatformSecret :: "RenderInput \<Rightarrow> string \<Rightarrow> string + string" where
  "resolvePlatformSecret inp name =
     (if name = ''cert'' then Inr (riCertSecretName inp)
      else if name = ''key'' then Inr (riKeySecretName inp)
      else Inl (''no such platform secret: '' @ name))"

definition substitute_platform :: "RenderInput \<Rightarrow> string \<Rightarrow> string" where
  "substitute_platform inp body =
     (let o1 = replace_all ''${DOMAIN}'' (riDomain inp) body;
          o2 = replace_all ''${OPENOBSERVE_ADMIN_EMAIL}'' (riOOEmail inp) o1;
          o3 = replace_all ''${DATA_DIR}'' (riDataDir inp) o2
      in replace_all ''__OPENOBSERVE_PASSWORD__'' (escapeComposeDollar (riOOPassword inp)) o3)"

definition LoadComposeFile :: "rendering \<Rightarrow> string \<Rightarrow> RenderInput \<Rightarrow> render_err + string" where
  "LoadComposeFile rn name inp =
     (case composeFileOf name of
        None \<Rightarrow> Inl (Unknown_Stack name)
      | Some fname \<Rightarrow>
          bind_r (readConfigFile rn fname inp) (\<lambda>body.
            bind_r (map_sum Template_Error id (rnTemplate rn body inp)) (\<lambda>rendered.
              map_sum Ref_Error id
                (ReplaceRefs (resolvePlatformConfig inp) (resolvePlatformSecret inp)
                   (substitute_platform inp rendered)))))"

definition RenderOTelCollectorConfig :: "rendering \<Rightarrow> RenderInput \<Rightarrow> render_err + string" where
  "RenderOTelCollectorConfig rn inp =
     (if riOOBasicAuth inp = [] then Inl Basic_Auth_Required
      else bind_r (readConfigFile rn ''otel-collector-config.yml'' inp) (\<lambda>body.
             Inr (replace_all ''__BASIC_AUTH_PLACEHOLDER__'' (riOOBasicAuth inp) body)))"

text \<open>Assignment to a key of a YAML mapping, and the type assertions of Go, which give the zero value
  when the shape differs.\<close>

definition as_map :: "yaml option \<Rightarrow> (string \<times> yaml) list option" where
  "as_map v = (case v of Some (YMap m) \<Rightarrow> Some m | _ \<Rightarrow> None)"

definition as_seq :: "yaml option \<Rightarrow> yaml list" where
  "as_seq v = (case v of Some (YSeq l) \<Rightarrow> l | _ \<Rightarrow> [])"

definition cert_entry :: "HostCertEntry \<Rightarrow> yaml" where
  "cert_entry e = YMap [(''certFile'', YScalar (''/run/secrets/'' @ hcCertSecret e)),
                        (''keyFile'', YScalar (''/run/secrets/'' @ hcKeySecret e))]"

definition add_host_certs :: "HostCertEntry list \<Rightarrow> (string \<times> yaml) list \<Rightarrow> (string \<times> yaml) list" where
  "add_host_certs entries doc =
     (let tls = (case as_map (map_of doc ''tls'') of None \<Rightarrow> [] | Some m \<Rightarrow> m);
          certs = as_seq (map_of tls ''certificates'') @ map cert_entry entries
      in AList.update ''tls'' (YMap (AList.update ''certificates'' (YSeq certs) tls)) doc)"

definition appendHostCertSecrets :: "rendering \<Rightarrow> string \<Rightarrow> HostCertEntry list \<Rightarrow> render_err + string" where
  "appendHostCertSecrets rn body entries =
     (if entries = [] then Inr body
      else (case rnUnmarshal rn body of
              Inl e \<Rightarrow> Inl (Yaml_Error e)
            | Inr None \<Rightarrow> Inl Nil_Map_Write
            | Inr (Some doc) \<Rightarrow> map_sum Yaml_Error id (rnMarshal rn (add_host_certs entries doc))))"

definition RenderTraefikDynamic :: "rendering \<Rightarrow> RenderInput \<Rightarrow> render_err + string" where
  "RenderTraefikDynamic rn inp =
     (if riDomain inp = [] then Inl Render_Domain_Required
      else bind_r (readConfigFile rn ''traefik-dynamic.yml'' inp) (\<lambda>body.
             bind_r (map_sum Template_Error id (rnTemplate rn body inp)) (\<lambda>out.
               appendHostCertSecrets rn out (riHostCerts inp))))"

section \<open>Bringing the rows to the build's version\<close>

record ConfigSyncResult =
  syCreated :: "string list"
  syUpdated :: "string list"
  syPreserved :: "string list"

definition sync_one ::
  "rendering \<Rightarrow> (string \<Rightarrow> string) \<Rightarrow> int \<Rightarrow> string \<Rightarrow> string \<Rightarrow> ConfigSyncResult \<Rightarrow> Store \<Rightarrow>
     (render_err + ConfigSyncResult) \<times> Store" where
  "sync_one rn hash now version name res db =
     (let cfg = trim_suffix name ''.yml'' in
      case GetConfig cfg db of
        Inr row \<Rightarrow>
          if cfgScope row = ''cluster'' \<and> cfgKind row = ''template'' then
            (if cfgVersion row = version then (Inr (res\<lparr> syPreserved := syPreserved res @ [cfg] \<rparr>), db)
             else (case embeddedConfigContent rn name of
                     Inl e \<Rightarrow> (Inl e, db)
                   | Inr content \<Rightarrow>
                      (case UpdateConfig hash now cfg content version db of
                         (Inl e, db') \<Rightarrow> (Inl (Sync_Store_Error e), db')
                       | (Inr _, db') \<Rightarrow> (Inr (res\<lparr> syUpdated := syUpdated res @ [cfg] \<rparr>), db'))))
          else (Inr res, db)
      | Inl e \<Rightarrow>
          if e = ErrConfigNotFound then
            (case embeddedConfigContent rn name of
               Inl e' \<Rightarrow> (Inl e', db)
             | Inr content \<Rightarrow>
                (case CreateConfig hash now ''cluster'' [] cfg ''template'' content version db of
                   (Inl e', db') \<Rightarrow> (Inl (Sync_Store_Error e'), db')
                 | (Inr _, db') \<Rightarrow> (Inr (res\<lparr> syCreated := syCreated res @ [cfg] \<rparr>), db')))
          else (Inl (Sync_Store_Error e), db))"

fun sync_all ::
  "rendering \<Rightarrow> (string \<Rightarrow> string) \<Rightarrow> int \<Rightarrow> string \<Rightarrow> string list \<Rightarrow> ConfigSyncResult \<Rightarrow> Store \<Rightarrow>
     (render_err + ConfigSyncResult) \<times> Store" where
  "sync_all rn hash now version [] res db = (Inr res, db)"
| "sync_all rn hash now version (n # ns) res db =
     (case sync_one rn hash now version n res db of
        (Inl e, db') \<Rightarrow> (Inl e, db')
      | (Inr res', db') \<Rightarrow> sync_all rn hash now version ns res' db')"

definition SyncClusterConfigs ::
  "rendering \<Rightarrow> (string \<Rightarrow> string) \<Rightarrow> int \<Rightarrow> string \<Rightarrow> Store \<Rightarrow> (render_err + ConfigSyncResult) \<times> Store" where
  "SyncClusterConfigs rn hash now version db =
     sync_all rn hash now version ConfigFileNames \<lparr> syCreated = [], syUpdated = [], syPreserved = [] \<rparr> db"

definition SyncPlatformConfigs ::
  "rendering \<Rightarrow> (string \<Rightarrow> string) \<Rightarrow> int \<Rightarrow> string \<Rightarrow> Store option \<Rightarrow>
     (render_err + ConfigSyncResult) \<times> Store option" where
  "SyncPlatformConfigs rn hash now version st =
     (case st of
        None \<Rightarrow> (Inr \<lparr> syCreated = [], syUpdated = [], syPreserved = [] \<rparr>, None)
      | Some db \<Rightarrow> map_prod id Some (SyncClusterConfigs rn hash now version db))"

section \<open>Version strings\<close>

text \<open>The loop over the characters stops at the first that is no digit; the sum wraps around.\<close>

definition parseSegment :: "string \<Rightarrow> int" where
  "parseSegment s =
     foldl (\<lambda>n c. wrap64 (n * 10 + (of_char c - 48))) 0 (takeWhile is_digit s)"

fun compare_parts :: "string list \<Rightarrow> string list \<Rightarrow> int" where
  "compare_parts [] [] = 0"
| "compare_parts as bs =
     (let a = (case as of [] \<Rightarrow> 0 | x # _ \<Rightarrow> parseSegment x); b = (case bs of [] \<Rightarrow> 0 | x # _ \<Rightarrow> parseSegment x)
      in if a < b then - 1 else if a > b then 1 else compare_parts (tl as) (tl bs))"

definition Compare :: "string \<Rightarrow> string \<Rightarrow> int" where
  "Compare a b =
     compare_parts (split_at (CHR ''.'') (trim_prefix a ''v'')) (split_at (CHR ''.'') (trim_prefix b ''v''))"

end
