(* ===== verification/Cluster_Sync.thy ===== *)
theory Cluster_Sync
  imports Cluster_Templates
begin

text \<open>
  What bringing the template rows to the build's version does, and what it does to a rollback.
\<close>

lemma GetConfig_eq: "GetConfig n db = (case find_config db n of None \<Rightarrow> Inl ErrConfigNotFound | Some c \<Rightarrow> Inr c)"
  by (simp add: GetConfig_def find_config_def)

text \<open>The row that one name has after the sync.\<close>

definition synced_row ::
  "(string \<Rightarrow> string) \<Rightarrow> string \<Rightarrow> string \<Rightarrow> ConfigRow option \<Rightarrow> ConfigRow \<Rightarrow> bool" where
  "synced_row hash version body old new \<longleftrightarrow>
     (case old of
        None \<Rightarrow> current_template version new \<and> cfgContent new = body \<and> cfgHash new = hash body
      | Some row \<Rightarrow>
          if cfgScope row = ''cluster'' \<and> cfgKind row = ''template'' \<and> cfgVersion row \<noteq> version \<and> cfgHash row \<noteq> hash body
          then current_template version new \<and> cfgContent new = body \<and> cfgHash new = hash body
          else new = row)"

lemma UpdateConfig_find:
  assumes "configs_inv hash db" "find_config db n = Some row"
  shows "\<exists>h db'. UpdateConfig hash now n body version db = (Inr h, db') \<and> configs_inv hash db' \<and>
    (\<forall>k. find_config db' k =
      (if k = n \<and> hash body \<noteq> cfgHash row
       then Some (row\<lparr> cfgContent := body, cfgVersion := version, cfgHash := hash body, cfgUpdatedAt := now \<rparr>)
       else find_config db k))"
proof -
  have row: "row_find cfgName n (dbConfigs db) = Some row" using assms(2) by (simp add: find_config_def)
  have inv: "configs_inv hash (snd (UpdateConfig hash now n body version db))"
    by (rule UpdateConfig_inv [OF assms(1)])
  show ?thesis
  proof (cases "hash body = cfgHash row")
    case True
    then show ?thesis using row assms(1) by (simp add: UpdateConfig_def)
  next
    case False
    then show ?thesis
      using inv row
      by (simp add: UpdateConfig_def Let_def find_config_def push_version_def
          find_row_update_id [OF assms(1) row, where f = "\<lambda>r. r\<lparr> cfgContent := body, cfgVersion := version,
            cfgHash := hash body, cfgUpdatedAt := now \<rparr>"])
  qed
qed

lemma CreateConfig_find:
  assumes "configs_inv hash db" "find_config db n = None"
  shows "\<exists>i db' row. CreateConfig hash now ''cluster'' [] n ''template'' body version db = (Inr i, db') \<and>
    configs_inv hash db' \<and> synced_row hash version body None row \<and>
    (\<forall>k. find_config db' k = (if k = n then Some row else find_config db k))"
proof -
  have row: "row_find cfgName n (dbConfigs db) = None" using assms(2) by (simp add: find_config_def)
  have inv: "configs_inv hash (snd (CreateConfig hash now ''cluster'' [] n ''template'' body version db))"
    by (rule CreateConfig_inv [OF assms(1)])
  have ok: "scope_ok ''cluster''" "kind_ok ''template''" by (simp_all add: scope_ok_def kind_ok_def)
  let ?row = "\<lparr> cfgID = next_rowid (map cfgID (dbConfigs db)), cfgScope = ''cluster'', cfgStack = [], cfgName = n,
    cfgKind = ''template'', cfgContent = body, cfgVersion = version, cfgHash = hash body, cfgCreatedAt = now,
    cfgUpdatedAt = now, cfgRenderedContent = [], cfgRenderedAt = 0, cfgRenderedHash = [] \<rparr>"
  have f: "row_find cfgName k (dbConfigs db @ [?row]) =
      (if k = n then Some ?row else row_find cfgName k (dbConfigs db))" for k
    using row by (auto simp: row_find_append split: option.splits)
  show ?thesis
    using inv by (intro exI [of _ "next_rowid (map cfgID (dbConfigs db))"] exI
        [of _ "db\<lparr> dbConfigs := dbConfigs db @ [?row] \<rparr>"] exI [of _ ?row])
      (simp add: CreateConfig_def ok row Let_def find_config_def f synced_row_def current_template_def)
qed

lemma sync_one_effect:
  assumes inv: "configs_inv hash db" and b: "rnEmbedded rn name = Some body"
  defines "n \<equiv> trim_suffix name ''.yml''"
  shows "\<exists>res' db'. sync_one rn hash now version name res db = (Inr res', db') \<and> configs_inv hash db' \<and>
    (\<exists>row. find_config db' n = Some row \<and> synced_row hash version body (find_config db n) row) \<and>
    (\<forall>k. k \<noteq> n \<longrightarrow> find_config db' k = find_config db k)"
proof (cases "find_config db n")
  case None
  obtain i db' row where c: "CreateConfig hash now ''cluster'' [] n ''template'' body version db = (Inr i, db')"
    "configs_inv hash db'" "synced_row hash version body None row"
    "\<forall>k. find_config db' k = (if k = n then Some row else find_config db k)"
    using CreateConfig_find [OF inv None] by blast
  have "sync_one rn hash now version name res db = (Inr (res\<lparr> syCreated := syCreated res @ [n] \<rparr>), db')"
    using None c(1) b unfolding n_def by (simp add: sync_one_def GetConfig_eq embeddedConfigContent_def)
  then show ?thesis using c None by auto
next
  case (Some row)
  show ?thesis
  proof (cases "cfgScope row = ''cluster'' \<and> cfgKind row = ''template'' \<and> cfgVersion row \<noteq> version")
    case True
    obtain h db' where u: "UpdateConfig hash now n body version db = (Inr h, db')" "configs_inv hash db'"
      "\<forall>k. find_config db' k = (if k = n \<and> hash body \<noteq> cfgHash row
         then Some (row\<lparr> cfgContent := body, cfgVersion := version, cfgHash := hash body, cfgUpdatedAt := now \<rparr>)
         else find_config db k)"
      using UpdateConfig_find [OF inv Some] by blast
    have "sync_one rn hash now version name res db = (Inr (res\<lparr> syUpdated := syUpdated res @ [n] \<rparr>), db')"
      using Some u(1) b True unfolding n_def by (simp add: sync_one_def GetConfig_eq embeddedConfigContent_def)
    then show ?thesis using u Some True by (auto simp: synced_row_def current_template_def)
  next
    case False
    have "\<exists>res'. sync_one rn hash now version name res db = (Inr res', db)"
      using Some False unfolding n_def by (auto simp: sync_one_def GetConfig_eq Let_def)
    then show ?thesis using inv Some False by (auto simp: synced_row_def)
  qed
qed

lemma sync_all_effect:
  assumes "configs_inv hash db" "\<And>name. name \<in> set names \<Longrightarrow> rnEmbedded rn name = Some (body name)"
    and "distinct (map (\<lambda>name. trim_suffix name ''.yml'') names)"
  shows "\<exists>res' db'. sync_all rn hash now version names res db = (Inr res', db') \<and> configs_inv hash db' \<and>
    (\<forall>name \<in> set names. \<exists>row. find_config db' (trim_suffix name ''.yml'') = Some row \<and>
       synced_row hash version (body name) (find_config db (trim_suffix name ''.yml'')) row) \<and>
    (\<forall>k. k \<notin> (\<lambda>name. trim_suffix name ''.yml'') ` set names \<longrightarrow> find_config db' k = find_config db k)"
  using assms
proof (induction names arbitrary: db res)
  case (Cons a names)
  let ?t = "\<lambda>name. trim_suffix name ''.yml''"
  obtain res1 db1 where s: "sync_one rn hash now version a res db = (Inr res1, db1)" "configs_inv hash db1"
    "\<exists>row. find_config db1 (?t a) = Some row \<and> synced_row hash version (body a) (find_config db (?t a)) row"
    "\<forall>k. k \<noteq> ?t a \<longrightarrow> find_config db1 k = find_config db k"
    using sync_one_effect [OF Cons.prems(1) Cons.prems(2) [of a], of now version res] by auto
  have "\<exists>res' db'. sync_all rn hash now version names res1 db1 = (Inr res', db') \<and> configs_inv hash db' \<and>
    (\<forall>name \<in> set names. \<exists>row. find_config db' (?t name) = Some row \<and>
       synced_row hash version (body name) (find_config db1 (?t name)) row) \<and>
    (\<forall>k. k \<notin> ?t ` set names \<longrightarrow> find_config db' k = find_config db1 k)"
    using Cons.prems(2,3) by (intro Cons.IH [OF s(2)]) auto
  then obtain res' db' where r: "sync_all rn hash now version names res1 db1 = (Inr res', db')" "configs_inv hash db'"
    "\<forall>name \<in> set names. \<exists>row. find_config db' (?t name) = Some row \<and>
       synced_row hash version (body name) (find_config db1 (?t name)) row"
    "\<forall>k. k \<notin> ?t ` set names \<longrightarrow> find_config db' k = find_config db1 k"
    by blast
  have d: "?t a \<notin> ?t ` set names" using Cons.prems(3) by auto
  have "\<forall>name \<in> set (a # names). \<exists>row. find_config db' (?t name) = Some row \<and>
       synced_row hash version (body name) (find_config db (?t name)) row"
  proof
    fix name assume m: "name \<in> set (a # names)"
    show "\<exists>row. find_config db' (?t name) = Some row \<and>
       synced_row hash version (body name) (find_config db (?t name)) row"
    proof (cases "name = a")
      case True
      have e: "find_config db' (?t a) = find_config db1 (?t a)" using r(4) [rule_format, OF d] .
      show ?thesis using s(3) unfolding True e .
    next
      case False
      then have "name \<in> set names" using m by simp
      then have "?t name \<in> ?t ` set names" by (rule imageI)
      moreover have False if "?t name = ?t a"
        using d calculation unfolding that by (rule notE)
      ultimately have "?t name \<noteq> ?t a" by blast
      then have e: "find_config db1 (?t name) = find_config db (?t name)" using s(4) by blast
      show ?thesis using r(3) [rule_format, OF \<open>name \<in> set names\<close>] unfolding e .
    qed
  qed
  moreover have "sync_all rn hash now version (a # names) res db = (Inr res', db')"
    using s(1) r(1) by simp
  moreover have "\<forall>k. k \<notin> ?t ` set (a # names) \<longrightarrow> find_config db' k = find_config db k"
    using s(4) r(4) by simp
  ultimately show ?case using r(2) by (intro exI conjI) assumption+
qed simp

lemma config_names_distinct: "distinct (map (\<lambda>name. trim_suffix name ''.yml'') ConfigFileNames)"
  by code_simp

text \<open>Property C25.  Bringing the seven template rows to the build's version always succeeds: a missing row
  is created from the embedded default, an older template row whose content differs from the
  default is overwritten with it, and every other row, in particular a row of this version and a
  user's own config of that name, is exactly as before.\<close>

theorem sync_cluster_configs_effect:
  assumes "configs_inv hash db" "\<And>name. name \<in> set ConfigFileNames \<Longrightarrow> rnEmbedded rn name = Some (body name)"
  shows "\<exists>res db'. SyncClusterConfigs rn hash now version db = (Inr res, db') \<and> configs_inv hash db' \<and>
    (\<forall>name \<in> set ConfigFileNames. \<exists>row. find_config db' (trim_suffix name ''.yml'') = Some row \<and>
       synced_row hash version (body name) (find_config db (trim_suffix name ''.yml'')) row) \<and>
    (\<forall>k. k \<notin> (\<lambda>name. trim_suffix name ''.yml'') ` set ConfigFileNames \<longrightarrow> find_config db' k = find_config db k)"
  unfolding SyncClusterConfigs_def by (rule sync_all_effect [OF assms config_names_distinct])

definition demo_rendering :: "string \<Rightarrow> rendering" where
  "demo_rendering version = \<lparr> rnTemplate = (\<lambda>body _. Inr body), rnEmbedded = (\<lambda>name. Some (''default of '' @ name)),
     rnUnmarshal = (\<lambda>_. Inr (Some [])), rnMarshal = (\<lambda>_. Inr []), rnBuildVersion = version,
     rnEdgeImageEnv = [] \<rparr>"

theorem sync_cluster_configs_effect_witness:
  "\<exists>res db'. SyncClusterConfigs (demo_rendering ''v1'') demo_hash 1 ''v1'' empty_store = (Inr res, db') \<and>
     configs_inv demo_hash db'"
  using sync_cluster_configs_effect [where hash = demo_hash and db = empty_store and rn = "demo_rendering ''v1''"
      and body = "\<lambda>name. ''default of '' @ name" and now = 1 and version = "''v1''"] empty_configs_inv
  by (auto simp: demo_rendering_def)

text \<open>Rolling a template back to an earlier version is lost when its row carries an older
  build's version: rendering ignores the rolled back content, and the next sync overwrites it with
  the default unless they agree.  A rollback does not restamp the row, and neither does a sync that
  finds the default unchanged.\<close>

theorem rollback_of_stale_template_is_lost:
  assumes inv: "configs_inv hash db" and "\<And>name. name \<in> set ConfigFileNames \<Longrightarrow> rnEmbedded rn name = Some (body name)"
    and n: "name \<in> set ConfigFileNames" and row: "find_config db (trim_suffix name ''.yml'') = Some row"
    and t: "cfgScope row = ''cluster''" "cfgKind row = ''template''" "cfgVersion row \<noteq> rnBuildVersion rn"
    and rb: "RollbackConfig t1 (trim_suffix name ''.yml'') vid db = (Inr h, db1)"
  shows "readConfigFile rn name (inp\<lparr> riConfigStore := Some db1 \<rparr>) = Inr (body name) \<and>
    (\<exists>res db2 row2. SyncClusterConfigs rn hash t2 (rnBuildVersion rn) db1 = (Inr res, db2) \<and>
       find_config db2 (trim_suffix name ''.yml'') = Some row2 \<and> cfgHash row2 = hash (body name))"
proof -
  let ?n = "trim_suffix name ''.yml''"
  have r: "row_find cfgName ?n (dbConfigs db) = Some row" using row by (simp add: find_config_def)
  obtain v where "find (\<lambda>v. cvrID v = vid \<and> cvrConfigID v = cfgID row) (dbConfigVersions db) = Some v"
    using rb by (auto simp: RollbackConfig_def r split: option.splits)
  then have v: "db1 = (push_version t1 row db)\<lparr> dbConfigs := row_update cfgID (cfgID row)
      (\<lambda>r. r\<lparr> cfgContent := cvrContent v, cfgHash := cvrHash v, cfgUpdatedAt := t1 \<rparr>) (dbConfigs db) \<rparr>"
    using rb by (auto simp: RollbackConfig_def r)
  have f1: "find_config db1 ?n = Some (row\<lparr> cfgContent := cvrContent v, cfgHash := cvrHash v, cfgUpdatedAt := t1 \<rparr>)"
    unfolding v by (simp add: find_config_def push_version_def find_row_update_id [OF inv r])
  have inv1: "configs_inv hash db1" using RollbackConfig_inv [OF inv, of t1 ?n vid] rb by simp
  have "readConfigFile rn name (inp\<lparr> riConfigStore := Some db1 \<rparr>) = Inr (body name)"
    using t assms(2) [OF n] by (simp add: readConfigFile_def GetConfig_eq f1 current_template_def embeddedConfigContent_def)
  moreover obtain res db2 where s: "SyncClusterConfigs rn hash t2 (rnBuildVersion rn) db1 = (Inr res, db2)"
    "\<forall>name \<in> set ConfigFileNames. \<exists>row. find_config db2 (trim_suffix name ''.yml'') = Some row \<and>
       synced_row hash (rnBuildVersion rn) (body name) (find_config db1 (trim_suffix name ''.yml'')) row"
    using sync_all_effect [OF inv1 assms(2) config_names_distinct, of t2 "rnBuildVersion rn"
        "\<lparr> syCreated = [], syUpdated = [], syPreserved = [] \<rparr>"]
    unfolding SyncClusterConfigs_def by blast
  then obtain row2 where "find_config db2 ?n = Some row2"
    "synced_row hash (rnBuildVersion rn) (body name) (find_config db1 ?n) row2" using n by blast
  ultimately show ?thesis
    using s(1) t by (auto simp: f1 synced_row_def split: if_splits)
qed

definition stale_row :: ConfigRow where
  "stale_row = \<lparr> cfgID = 1, cfgScope = ''cluster'', cfgStack = [], cfgName = ''traefik-dynamic'',
     cfgKind = ''template'', cfgContent = ''default of traefik-dynamic.yml'', cfgVersion = ''v1'',
     cfgHash = demo_hash ''default of traefik-dynamic.yml'', cfgCreatedAt = 1, cfgUpdatedAt = 2,
     cfgRenderedContent = [], cfgRenderedAt = 0, cfgRenderedHash = [] \<rparr>"

definition stale_store :: Store where
  "stale_store = empty_store\<lparr> dbConfigs := [stale_row], dbConfigVersions :=
     [\<lparr> cvrID = 1, cvrConfigID = 1, cvrContent = ''edited'', cvrHash = demo_hash ''edited'', cvrCreatedAt = 2 \<rparr>] \<rparr>"

theorem rollback_of_stale_template_is_lost_witness:
  "\<exists>db1. RollbackConfig 3 (trim_suffix ''traefik-dynamic.yml'' ''.yml'') 1 stale_store = (Inr (demo_hash ''edited''), db1) \<and>
     (\<forall>inp. readConfigFile (demo_rendering ''v2'') ''traefik-dynamic.yml'' (inp\<lparr> riConfigStore := Some db1 \<rparr>) =
        Inr (''default of '' @ ''traefik-dynamic.yml''))"
proof -
  have n: "trim_suffix ''traefik-dynamic.yml'' ''.yml'' = ''traefik-dynamic''" by code_simp
  have m: "''traefik-dynamic.yml'' \<in> set ConfigFileNames" by (simp add: ConfigFileNames_def)
  have inv: "configs_inv demo_hash stale_store"
    by (simp add: configs_inv_def stale_store_def stale_row_def empty_store_def unique_key_def config_row_ok_def
        version_row_ok_def)
  have f: "find_config stale_store (trim_suffix ''traefik-dynamic.yml'' ''.yml'') = Some stale_row"
    unfolding n by (simp add: find_config_def stale_store_def row_find_def stale_row_def)
  have "\<exists>db1. RollbackConfig 3 ''traefik-dynamic'' 1 stale_store = (Inr (demo_hash ''edited''), db1)"
    by (simp add: RollbackConfig_def stale_store_def row_find_def stale_row_def)
  then obtain db1 where r: "RollbackConfig 3 (trim_suffix ''traefik-dynamic.yml'' ''.yml'') 1 stale_store =
      (Inr (demo_hash ''edited''), db1)" unfolding n by blast
  have e: "\<And>name. name \<in> set ConfigFileNames \<Longrightarrow> rnEmbedded (demo_rendering ''v2'') name = Some (''default of '' @ name)"
    by (simp add: demo_rendering_def)
  have t: "cfgScope stale_row = ''cluster''" "cfgKind stale_row = ''template''"
    "cfgVersion stale_row \<noteq> rnBuildVersion (demo_rendering ''v2'')"
    by (simp_all add: stale_row_def demo_rendering_def)
  show ?thesis
    using rollback_of_stale_template_is_lost [where body = "\<lambda>name. ''default of '' @ name", OF inv e m f t r] r by blast
qed

end
