(* ===== verification/Cluster_Lifecycle.thy ===== *)
theory Cluster_Lifecycle
  imports Cluster_Credentials Cluster_State Cluster_Templates Workflow Compose
begin

text \<open>
  Bringing the cluster up, updating it and taking it down (\<^verbatim>\<open>cluster/up.go\<close>, \<^verbatim>\<open>update.go\<close>, \<^verbatim>\<open>down.go\<close>, and
  \<^verbatim>\<open>loadHostCertEntries\<close> of \<^verbatim>\<open>hostcerts.go\<close>) as the workflows of named steps the source runs.

  The world is the store and the machine \<^verbatim>\<open>'sw\<close> (swarm and file system).  The store is not nil: the
  command line and the daemon always pass the opened one.  Console output is left out, and so is
  the partial report that accompanies an error.
\<close>

section \<open>Types\<close>

record 'sw deps =
  cdManager :: "'sw manager"
  cdCli :: "'sw cli"
  cdRendering :: rendering
  cdDraws :: draws
  cdPing :: "'sw \<Rightarrow> bool"
  cdInfo :: "'sw \<Rightarrow> client_err + Info"
  cdDurOk :: "string \<Rightarrow> bool"
  cdReadFile :: "'sw \<Rightarrow> string \<Rightarrow> string option"
  cdMkdirAll :: "string \<Rightarrow> 'sw \<Rightarrow> bool \<times> 'sw"
  cdPolls :: "'sw \<Rightarrow> int \<times> poll list"
  cdSettle :: "'sw \<Rightarrow> 'sw"

abbreviation cdSdk :: "'sw deps \<Rightarrow> 'sw sdk" where "cdSdk d \<equiv> mgSdk (cdManager d)"
abbreviation cdHash :: "'sw deps \<Rightarrow> string \<Rightarrow> string" where "cdHash d \<equiv> mgHash (cdManager d)"
abbreviation cdNow :: "'sw deps \<Rightarrow> int" where "cdNow d \<equiv> mgNow (cdManager d)"

datatype life_err =
    State_Refused state_err
  | Already_Installed
  | Storage_Failed string
  | Render_Failed render_err
  | Provision_Failed cluster_err
  | Credential_Failed cred_err
  | Volume_Reset_Failed client_err
  | Credential_Missing string
  | Stack_Failed string deployer_err
  | Unhealthy health
  | Still_Waiting
  | Snapshot_Failed store_err
  | No_Domain
  | No_TLS_Paths
  | Life_Step string life_err

type_synonym 'sw cworld = "Store \<times> 'sw"

section \<open>Pieces shared by up and update\<close>

definition loadHostCertEntries :: "string \<Rightarrow> Store \<Rightarrow> HostCertEntry list" where
  "loadHostCertEntries domain db =
     map (\<lambda>r. \<lparr> hcHost = scDomain r, hcCertSecret = scCertSecret r, hcKeySecret = scKeySecret r \<rparr>)
       (filter (\<lambda>r. scDomain r \<noteq> domain) (ListSiteCerts db))"

text \<open>\<^verbatim>\<open>filepath.Dir\<close> of the configuration directory is an argument.\<close>

definition render_input ::
  "'sw deps \<Rightarrow> string \<Rightarrow> string \<Rightarrow> string \<Rightarrow> string \<Rightarrow> string \<Rightarrow> ssoState \<Rightarrow> string \<Rightarrow> Store \<Rightarrow> RenderInput" where
  "render_input d dataDir domain ooUser ooPass acme sso ssoSecret db =
     \<lparr> riDomain = domain, riOOEmail = ooUser, riOOPassword = ooPass,
       riOOBasicAuth = openObserveBasicAuth ooUser ooPass,
       riOOSessionCookie = openObserveSessionCookie ooUser ooPass, riACMEEmail = acme,
       riConfigStore = Some db, riDataDir = dataDir, riHostCerts = loadHostCertEntries domain db,
       riOTelConfigName = [], riTraefikConfigName = [], riCertSecretName = [], riKeySecretName = [],
       riEdgeImage = EdgeImageFor (cdRendering d), riSSOEnabled = soEnabled sso,
       riSSOCookieSecret = ssoSecret, riSSOClientID = soClientID sso,
       riSSOClientSecret = soClientSecret sso, riSSOGitHubOrg = soGitHubOrg sso,
       riSSOCookieExpire = soCookieExpire sso,
       riEdgeLoginDisabled = loadEdgeLoginDisabled (Some db),
       riBackupAllNodes = loadBackupAllNodes (Some db),
       riBackupRetentionDays = LoadBackupRetentionDays (Some db) \<rparr>"

text \<open>Render one config and make sure the swarm has it; the state is the swarm.\<close>

definition provision_config ::
  "'sw deps \<Rightarrow> string \<Rightarrow> string \<Rightarrow> render_err + string \<Rightarrow> 'sw \<Rightarrow> (life_err + string \<times> bool) \<times> 'sw" where
  "provision_config d version base rendered s =
     (case rendered of
        Inl e \<Rightarrow> (Inl (Render_Failed e), s)
      | Inr y \<Rightarrow>
         (case EnsureConfig (cdSdk d) (cdHash d) base y version s of
            (Inl e, s') \<Rightarrow> (Inl (Provision_Failed e), s')
          | (Inr r, s') \<Rightarrow> (Inr r, s')))"

text \<open>The OpenTelemetry, Traefik and edge configs, in this order; the first two names go into the
  render input.\<close>

definition provision_configs ::
  "'sw deps \<Rightarrow> string \<Rightarrow> RenderInput \<Rightarrow> 'sw \<Rightarrow>
     (life_err + RenderInput \<times> (string \<times> bool) \<times> (string \<times> bool) \<times> (string \<times> bool)) \<times> 'sw" where
  "provision_configs d version ri s =
     (let rn = cdRendering d in
      case provision_config d version ''pmcluster_otel_config'' (RenderOTelCollectorConfig rn ri) s of
        (Inl e, s1) \<Rightarrow> (Inl e, s1)
      | (Inr otel, s1) \<Rightarrow>
         (let ri1 = ri\<lparr> riOTelConfigName := fst otel \<rparr> in
          case provision_config d version ''pmcluster_traefik_dynamic'' (RenderTraefikDynamic rn ri1) s1 of
            (Inl e, s2) \<Rightarrow> (Inl e, s2)
          | (Inr traefik, s2) \<Rightarrow>
             (let ri2 = ri1\<lparr> riTraefikConfigName := fst traefik \<rparr> in
              case provision_config d version ''pmcluster_edge'' (LoadComposeFile rn ''edge'' ri2) s2 of
                (Inl e, s3) \<Rightarrow> (Inl e, s3)
              | (Inr edge, s3) \<Rightarrow> (Inr (ri2, otel, traefik, edge), s3))))"

text \<open>The two versioned secrets of the cluster's own certificate.\<close>

definition provision_tls ::
  "'sw deps \<Rightarrow> string \<Rightarrow> string \<Rightarrow> 'sw cworld \<Rightarrow>
     (life_err + (string \<times> bool) \<times> (string \<times> bool)) \<times> 'sw cworld" where
  "provision_tls d certPath keyPath w =
     (let ensure = (\<lambda>base path (db, s). map_prod id (map_prod the id)
            (EnsureVersionedSecretFromFile (cdReadFile d s) (cdSdk d) (cdHash d) base path (Some db, s)))
      in case ensure ''cert'' certPath w of
           (Inl e, w1) \<Rightarrow> (Inl (Provision_Failed e), w1)
         | (Inr cert, w1) \<Rightarrow>
            (case ensure ''key'' keyPath w1 of
               (Inl e, w2) \<Rightarrow> (Inl (Provision_Failed e), w2)
             | (Inr key, w2) \<Rightarrow> (Inr (cert, key), w2)))"

definition deployStack ::
  "'sw deps \<Rightarrow> string \<Rightarrow> RenderInput \<Rightarrow> 'sw \<Rightarrow> (life_err + unit) \<times> 'sw" where
  "deployStack d stack ri s =
     (case LoadComposeFile (cdRendering d) stack ri of
        Inl e \<Rightarrow> (Inl (Render_Failed e), s)
      | Inr y \<Rightarrow>
         (case DeployStack (cdCli d) stack y s of
            (Inl e, s') \<Rightarrow> (Inl (Stack_Failed stack e), s')
          | (Inr _, s') \<Rightarrow> (Inr (), s')))"

fun deploy_stacks ::
  "'sw deps \<Rightarrow> RenderInput \<Rightarrow> string list \<Rightarrow> 'sw \<Rightarrow> (life_err + unit) \<times> 'sw" where
  "deploy_stacks d ri [] s = (Inr (), s)"
| "deploy_stacks d ri (n # ns) s =
     (case deployStack d n ri s of
        (Inl e, s') \<Rightarrow> (Inl e, s')
      | (Inr _, s') \<Rightarrow> deploy_stacks d ri ns s')"

fun render_stacks :: "rendering \<Rightarrow> RenderInput \<Rightarrow> string list \<Rightarrow> render_err + (string \<times> string) list" where
  "render_stacks rn ri [] = Inr []"
| "render_stacks rn ri (n # ns) =
     bind_r (LoadComposeFile rn n ri) (\<lambda>y.
       bind_r (render_stacks rn ri ns) (\<lambda>rest. Inr ((n @ ''-stack'', y) # rest)))"

definition renderPlatformConfigs :: "rendering \<Rightarrow> RenderInput \<Rightarrow> render_err + (string \<times> string) list" where
  "renderPlatformConfigs rn ri =
     bind_r (render_stacks rn ri ([''infra'', ''observability'', ''backup'', ''edge''] @
               (if riSSOEnabled ri then [''sso''] else []))) (\<lambda>stacks.
       bind_r (RenderOTelCollectorConfig rn ri) (\<lambda>otel.
         bind_r (RenderTraefikDynamic rn ri) (\<lambda>traefik.
           Inr (stacks @ [(''otel-collector-config'', otel), (''traefik-dynamic'', traefik)]))))"

text \<open>Writing the snapshots: the names are distinct, so the order Go ranges over the map only matters
  when a write fails; a name that has no row is skipped.\<close>

fun snapshot_all ::
  "(string \<Rightarrow> string) \<Rightarrow> int \<Rightarrow> (string \<times> string) list \<Rightarrow> Store \<Rightarrow> (life_err + unit) \<times> Store" where
  "snapshot_all hash now [] db = (Inr (), db)"
| "snapshot_all hash now ((n, y) # rest) db =
     (case SetRendered hash now n y db of
        (Inl e, db') \<Rightarrow> if e \<noteq> ErrConfigNotFound then (Inl (Snapshot_Failed e), db')
                        else snapshot_all hash now rest db'
      | (Inr _, db') \<Rightarrow> snapshot_all hash now rest db')"

section \<open>Up\<close>

record UpResult =
  urNewNetworks :: "string list"
  urNewSecrets :: "string list"
  urNewConfigs :: "string list"
  urStacksDeployed :: "string list"
  urCredentials :: "(string \<times> Credential) list"

record 'sw up_state =
  usWorld :: "'sw cworld"
  usRes :: UpResult
  usCert :: string
  usKey :: string
  usCreds :: "(string \<times> Credential) list"
  usRender :: RenderInput
  usSSO :: ssoState

text \<open>The zero value of the render input, before its step sets it.\<close>

definition zero_render :: RenderInput where
  "zero_render =
     \<lparr> riDomain = [], riOOEmail = [], riOOPassword = [], riOOBasicAuth = [], riOOSessionCookie = [],
       riACMEEmail = [], riConfigStore = None, riDataDir = [], riHostCerts = [], riOTelConfigName = [],
       riTraefikConfigName = [], riCertSecretName = [], riKeySecretName = [], riEdgeImage = [],
       riSSOEnabled = False, riSSOCookieSecret = [], riSSOClientID = [], riSSOClientSecret = [],
       riSSOGitHubOrg = [], riSSOCookieExpire = [], riEdgeLoginDisabled = False,
       riBackupAllNodes = False, riBackupRetentionDays = 0 \<rparr>"

definition backupRootDir :: string where "backupRootDir = ''/var/stack/backup''"

definition up_preflight :: "'sw deps \<Rightarrow> (life_err, 'sw up_state) step_fun" where
  "up_preflight d st =
     (let s = snd (usWorld st) in
      case Preflight (cdPing d s) (cdInfo d s) of
        Some e \<Rightarrow> (Inl (State_Refused e), st)
      | None \<Rightarrow> (Inr (), st))"

fun make_dirs :: "'sw deps \<Rightarrow> string list \<Rightarrow> 'sw \<Rightarrow> (life_err + unit) \<times> 'sw" where
  "make_dirs d [] s = (Inr (), s)"
| "make_dirs d (p # ps) s =
     (case cdMkdirAll d p s of
        (False, s') \<Rightarrow> (Inl (Storage_Failed p), s')
      | (True, s') \<Rightarrow> make_dirs d ps s')"

definition up_storage :: "'sw deps \<Rightarrow> UpInput \<Rightarrow> (life_err, 'sw up_state) step_fun" where
  "up_storage d inp st =
     (let root = (if uiVolumeRoot inp = [] then DefaultVolumeRoot else uiVolumeRoot inp);
          (r, s') = make_dirs d [root, backupRootDir] (snd (usWorld st))
      in (r, st\<lparr> usWorld := (fst (usWorld st), s') \<rparr>))"

definition up_sync :: "'sw deps \<Rightarrow> UpInput \<Rightarrow> (life_err, 'sw up_state) step_fun" where
  "up_sync d inp st =
     (let (r, db') = SyncClusterConfigs (cdRendering d) (cdHash d) (cdNow d) (uiVersion inp) (fst (usWorld st));
          st' = st\<lparr> usWorld := (db', snd (usWorld st)) \<rparr>
      in case r of Inl e \<Rightarrow> (Inl (Render_Failed e), st') | Inr _ \<Rightarrow> (Inr (), st'))"

definition up_networks :: "'sw deps \<Rightarrow> (life_err, 'sw up_state) step_fun" where
  "up_networks d st =
     (let (created, err, s') = EnsureBundledNetworks (cdSdk d) (snd (usWorld st));
          st' = st\<lparr> usWorld := (fst (usWorld st), s') \<rparr>
      in case err of
           Some e \<Rightarrow> (Inl (Provision_Failed e), st')
         | None \<Rightarrow> (Inr (), st'\<lparr> usRes := (usRes st')\<lparr> urNewNetworks := created \<rparr> \<rparr>))"

definition up_tls :: "'sw deps \<Rightarrow> UpInput \<Rightarrow> (life_err, 'sw up_state) step_fun" where
  "up_tls d inp st =
     (if uiACMEEmail inp \<noteq> [] then (Inr (), st)
      else
        (case provision_tls d (uiCertPath inp) (uiKeyPath inp) (usWorld st) of
           (Inl e, w') \<Rightarrow> (Inl e, st\<lparr> usWorld := w' \<rparr>)
         | (Inr ((cert, certCreated), (key, keyCreated)), w') \<Rightarrow>
             (Inr (), st\<lparr> usWorld := w', usCert := cert, usKey := key,
                usRes := (usRes st)\<lparr> urNewSecrets := urNewSecrets (usRes st) @
                  (if certCreated \<or> keyCreated then [cert, key] else []) \<rparr> \<rparr>)))"

definition find_cred :: "string \<Rightarrow> (string \<times> Credential) list \<Rightarrow> Credential option" where
  "find_cred name creds = map_of creds name"

definition up_credentials :: "'sw deps \<Rightarrow> UpInput \<Rightarrow> (life_err, 'sw up_state) step_fun" where
  "up_credentials d inp st =
     (case Bootstrap (cdManager d) (cdDraws d) (uiTraefikAdminUser inp) (uiOOEmail inp) (usWorld st) of
        (Inl e, w') \<Rightarrow> (Inl (Credential_Failed e), st\<lparr> usWorld := w' \<rparr>)
      | (Inr creds, (db', s')) \<Rightarrow>
         (let st' = st\<lparr> usWorld := (db', s'), usCreds := creds,
                usRes := (usRes st)\<lparr> urCredentials := creds, urNewSecrets := urNewSecrets (usRes st) @
                  map (\<lambda>(_, c). crSecretName c) (filter (\<lambda>(_, c). crSecretCreated c) creds) \<rparr> \<rparr>
          in case find_cred ''openobserve_admin'' creds of
               Some c \<Rightarrow>
                 if crUsernameChanged c then
                   (case VolumeRemove (cdSdk d) ''observability_openobserve_data'' s' of
                      (Inl e, s'') \<Rightarrow> (Inl (Volume_Reset_Failed e), st'\<lparr> usWorld := (db', s'') \<rparr>)
                    | (Inr _, s'') \<Rightarrow> (Inr (), st'\<lparr> usWorld := (db', s'') \<rparr>))
                 else (Inr (), st')
             | None \<Rightarrow> (Inr (), st')))"

definition up_render :: "'sw deps \<Rightarrow> (string \<Rightarrow> string) \<Rightarrow> UpInput \<Rightarrow> (life_err, 'sw up_state) step_fun" where
  "up_render d dirOf inp st =
     (let (db, s) = usWorld st; sso = loadSSOSettings (Some db) in
      case find_cred ''openobserve_admin'' (usCreds st) of
        None \<Rightarrow> (Inl (Credential_Missing ''openobserve_admin''), st)
      | Some oo \<Rightarrow>
         (case sso_validate (cdDurOk d) sso of
            Some e \<Rightarrow> (Inl (State_Refused e), st)
          | None \<Rightarrow>
             (case (if soEnabled sso then map_option crPassword (find_cred ''sso_cookie_secret'' (usCreds st))
                    else Some []) of
                None \<Rightarrow> (Inl (Credential_Missing ''sso_cookie_secret''), st)
              | Some ssoSecret \<Rightarrow>
                 (let ri = (render_input d (dirOf (uiConfigDir inp)) (uiDomain inp) (crUsername oo) (crPassword oo)
                       (uiACMEEmail inp) sso ssoSecret db)\<lparr> riCertSecretName := usCert st, riKeySecretName := usKey st \<rparr>
                  in case provision_configs d (uiVersion inp) ri s of
                       (Inl e, s') \<Rightarrow> (Inl e, st\<lparr> usWorld := (db, s') \<rparr>)
                     | (Inr (ri', otel, traefik, edge), s') \<Rightarrow>
                         (Inr (), st\<lparr> usWorld := (db, s'), usRender := ri', usSSO := sso,
                            usRes := (usRes st)\<lparr> urNewConfigs := urNewConfigs (usRes st) @
                              map fst (filter snd [otel, traefik, edge]) \<rparr> \<rparr>)))))"

definition up_deploy :: "'sw deps \<Rightarrow> (life_err, 'sw up_state) step_fun" where
  "up_deploy d st =
     (let stacks = [''infra'', ''edge'', ''observability'', ''backup''] @
                   (if soEnabled (usSSO st) then [''sso''] else []);
          (r, s') = deploy_stacks d (usRender st) stacks (snd (usWorld st));
          st' = st\<lparr> usWorld := (fst (usWorld st), s') \<rparr>
      in case r of
           Inl e \<Rightarrow> (Inl e, st')
         | Inr _ \<Rightarrow> (Inr (), st'\<lparr> usRes := (usRes st')\<lparr> urStacksDeployed := stacks \<rparr> \<rparr>))"

definition up_health :: "'sw deps \<Rightarrow> (life_err, 'sw up_state) step_fun" where
  "up_health d st =
     (let (start, polls) = cdPolls d (snd (usWorld st)) in
      case WaitHealthyStacks start polls of
        Some Healthy \<Rightarrow> (Inr (), st)
      | Some h \<Rightarrow> (Inl (Unhealthy h), st)
      | None \<Rightarrow> (Inl Still_Waiting, st))"

definition up_snapshot :: "'sw deps \<Rightarrow> (life_err, 'sw up_state) step_fun" where
  "up_snapshot d st =
     (case renderPlatformConfigs (cdRendering d) (usRender st) of
        Inl e \<Rightarrow> (Inl (Render_Failed e), st)
      | Inr rendered \<Rightarrow>
         (let (r, db') = snapshot_all (cdHash d) (cdNow d) rendered (fst (usWorld st))
          in (r, st\<lparr> usWorld := (db', snd (usWorld st)) \<rparr>)))"

definition up_persist :: "UpInput \<Rightarrow> (life_err, 'sw up_state) step_fun" where
  "up_persist inp st =
     (Inr (), st\<lparr> usWorld := (persistInstallState inp (fst (usWorld st)), snd (usWorld st)) \<rparr>)"

definition up_workflow ::
  "'sw deps \<Rightarrow> (string \<Rightarrow> string) \<Rightarrow> UpInput \<Rightarrow> (life_err, 'sw up_state) Workflow" where
  "up_workflow d dirOf inp =
     map (\<lambda>(n, f). \<lparr> stepName = n, stepRun = f \<rparr>)
       [(''Preflight'', up_preflight d),
        (''Ensuring storage root directories'', up_storage d inp),
        (''Syncing platform config templates into the store'', up_sync d inp),
        (''Ensuring overlay networks'', up_networks d),
        (''TLS certificate'', up_tls d inp),
        (''Bootstrapping managed credentials'', up_credentials d inp),
        (''Rendering and creating Docker configs'', up_render d dirOf inp),
        (''Deploying stacks'', up_deploy d),
        (''Waiting for all services to become healthy'', up_health d),
        (''Snapshotting rendered configs into the store'', up_snapshot d),
        (''Persisting install state'', up_persist inp),
        (''Cluster up complete.'', (\<lambda>st. (Inr (), st)))]"

definition up_start :: "'sw cworld \<Rightarrow> 'sw up_state" where
  "up_start w = \<lparr> usWorld = w,
     usRes = \<lparr> urNewNetworks = [], urNewSecrets = [], urNewConfigs = [], urStacksDeployed = [],
               urCredentials = [] \<rparr>,
     usCert = [], usKey = [], usCreds = [], usRender = zero_render, usSSO = loadSSOSettings None \<rparr>"

definition Up ::
  "'sw deps \<Rightarrow> (string \<Rightarrow> string) \<Rightarrow> UpInput \<Rightarrow> 'sw cworld \<Rightarrow> (life_err + UpResult) \<times> 'sw cworld" where
  "Up d dirOf inp0 w =
     (case mergeTLSState inp0 (loadTLSSettings (Some (fst w))) of
        Inl e \<Rightarrow> (Inl (State_Refused e), w)
      | Inr inp \<Rightarrow>
         (case validateUpInput inp of
            Some e \<Rightarrow> (Inl (State_Refused e), w)
          | None \<Rightarrow>
             if clusterInstalled (Some (fst w)) then (Inl Already_Installed, w)
             else
               (case Run (up_workflow d dirOf inp) (up_start w) of
                  (Inl (n, e), _, st) \<Rightarrow> (Inl (Life_Step n e), usWorld st)
                | (Inr _, _, st) \<Rightarrow> (Inr (usRes st), usWorld st))))"

end
