(* ===== verification/Api_Wire.thy ===== *)
theory Api_Wire
  imports Webhook_Receiver "HOL-Library.Monad_Syntax"
begin

text \<open>
  The wire between the daemon's REST handlers and their clients: JSON values, the error answers of
  \<^verbatim>\<open>writeErr\<close>, and the remote client's core (\<^verbatim>\<open>internal/remote/remote.go\<close>), which turns error answers
  back into the sentinels of the store.

  A request or answer body is a JSON value, since marshalling and unmarshalling undo each other on strings
  of valid UTF-8, which all strings here are taken to be.
  Only an error answer is read as text: \<^verbatim>\<open>error_text\<close> is the document \<^verbatim>\<open>encoding/json\<close> writes for it.
  A path is its list of segments: \<^verbatim>\<open>url.PathEscape\<close> and the router undo each other for segments without
  slash, semicolon and comma.  Bodies are below the limits of the readers on both sides.
\<close>

section \<open>JSON values\<close>

datatype json = JNull | JBool bool | JInt int | JStr string | JArr "json list" | JObj "(string \<times> json) list"

text \<open>Unmarshalling into a struct: a field that is missing or null keeps its zero value, a value of
  another type is an error.\<close>

definition jfield :: "string \<Rightarrow> json \<Rightarrow> json" where
  "jfield k j = (case j of JObj fs \<Rightarrow> (case map_of fs k of Some v \<Rightarrow> v | None \<Rightarrow> JNull) | _ \<Rightarrow> JNull)"

definition as_struct :: "json \<Rightarrow> json option" where
  "as_struct j = (case j of JObj _ \<Rightarrow> Some j | JNull \<Rightarrow> Some j | _ \<Rightarrow> None)"

definition as_str :: "json \<Rightarrow> string option" where
  "as_str j = (case j of JStr s \<Rightarrow> Some s | JNull \<Rightarrow> Some [] | _ \<Rightarrow> None)"

definition as_int :: "json \<Rightarrow> int option" where
  "as_int j = (case j of JInt i \<Rightarrow> Some i | JNull \<Rightarrow> Some 0 | _ \<Rightarrow> None)"

definition as_bool :: "json \<Rightarrow> bool option" where
  "as_bool j = (case j of JBool b \<Rightarrow> Some b | JNull \<Rightarrow> Some False | _ \<Rightarrow> None)"

fun all_some :: "'a option list \<Rightarrow> 'a list option" where
  "all_some [] = Some []"
| "all_some (x # xs) = do { a \<leftarrow> x; as \<leftarrow> all_some xs; Some (a # as) }"

definition as_list :: "(json \<Rightarrow> 'a option) \<Rightarrow> json \<Rightarrow> 'a list option" where
  "as_list f j = (case j of JArr js \<Rightarrow> all_some (map f js) | JNull \<Rightarrow> Some [] | _ \<Rightarrow> None)"

text \<open>A string field of the tag \<^verbatim>\<open>omitempty\<close>.\<close>

definition omit_str :: "string \<Rightarrow> string \<Rightarrow> (string \<times> json) list" where
  "omit_str k s = (if s = [] then [] else [(k, JStr s)])"

definition omit_int :: "string \<Rightarrow> int \<Rightarrow> (string \<times> json) list" where
  "omit_int k i = (if i = 0 then [] else [(k, JInt i)])"

section \<open>Requests and answers\<close>

record request =
  rqMethod :: string
  rqPath :: "string list"
  rqQuery :: "(string \<times> string) list"
  rqBody :: "(string + json) option"

definition query_param :: "string \<Rightarrow> request \<Rightarrow> string" where
  "query_param k rq = (case map_of (rqQuery rq) k of Some v \<Rightarrow> v | None \<Rightarrow> [])"

text \<open>A handler's decoder with \<^verbatim>\<open>DisallowUnknownFields\<close>; \<^verbatim>\<open>get\<close> fills the struct.\<close>

definition decode_body :: "string list \<Rightarrow> (json \<Rightarrow> 'a option) \<Rightarrow> (string + json) option \<Rightarrow> string + 'a" where
  "decode_body allowed get body =
     (case body of
        None \<Rightarrow> Inl ''EOF''
      | Some (Inl e) \<Rightarrow> Inl e
      | Some (Inr j) \<Rightarrow>
         (case find (\<lambda>(k, _). k \<notin> set allowed) (case j of JObj fs \<Rightarrow> fs | _ \<Rightarrow> []) of
            Some (k, _) \<Rightarrow> Inl (''json: unknown field '' @ k)
          | None \<Rightarrow> (case as_struct j \<bind> get of
                       None \<Rightarrow> Inl ''json: cannot unmarshal''
                     | Some v \<Rightarrow> Inr v)))"

definition not_routed :: "json reply" where
  "not_routed = (404, Inl ''404 page not found'')"

section \<open>Errors as text\<close>

definition hex_digit :: "nat \<Rightarrow> char" where
  "hex_digit n = ''0123456789abcdef'' ! n"

definition json_escape_char :: "char \<Rightarrow> string" where
  "json_escape_char c =
     (if c = CHR 0x22 \<or> c = CHR 0x5C then [CHR 0x5C, c]
      else if c = CHR 0x0A then [CHR 0x5C, CHR ''n'']
      else if c = CHR 0x0D then [CHR 0x5C, CHR ''r'']
      else if c = CHR 0x09 then [CHR 0x5C, CHR ''t'']
      else if of_char c < (32::nat) \<or> c \<in> {CHR ''<'', CHR ''>'', CHR ''&''}
      then [CHR 0x5C, CHR ''u'', CHR ''0'', CHR ''0'',
            hex_digit (of_char c div 16), hex_digit (of_char c mod 16)]
      else [c])"

definition error_text :: "string \<Rightarrow> string" where
  "error_text msg = [CHR ''{'', CHR 0x22] @ ''error'' @ [CHR 0x22, CHR '':'', CHR 0x22] @
     concat (map json_escape_char msg) @ [CHR 0x22, CHR ''}'']"

text \<open>The part of \<^verbatim>\<open>http.StatusText\<close> that the daemon's statuses need.\<close>

definition StatusText :: "int \<Rightarrow> string" where
  "StatusText s =
     (if s = 400 then ''Bad Request'' else if s = 401 then ''Unauthorized''
      else if s = 403 then ''Forbidden'' else if s = 404 then ''Not Found''
      else if s = 405 then ''Method Not Allowed'' else if s = 409 then ''Conflict''
      else if s = 413 then ''Request Entity Too Large'' else if s = 429 then ''Too Many Requests''
      else if s = 500 then ''Internal Server Error'' else if s = 502 then ''Bad Gateway''
      else if s = 503 then ''Service Unavailable'' else [])"

datatype remote_err =
    Sentinel store_err
  | Edge_User_Protected
  | Self_Delete
  | Trigger_Not_Configured
  | Api_Error int string
  | Decode_Response

definition mapError :: "int \<Rightarrow> string \<Rightarrow> remote_err" where
  "mapError status body =
     (let msg = (if body = [] then StatusText status else body);
          has = (\<lambda>s. contains_str body s)
      in if status = 404 \<and> has ''stack'' then Sentinel ErrStackNotFound
         else if status = 404 \<and> has ''revision'' then Sentinel ErrRevisionNotFound
         else if status = 404 \<and> has ''config'' then Sentinel ErrConfigNotFound
         else if status = 404 \<and> has ''secret'' then Sentinel ErrSecretNotFound
         else if status = 404 \<and> has ''webhook'' then Sentinel ErrWebhookSourceNotFound
         else if status = 404 \<and> (has ''user'' \<or> has ''api key'') then Sentinel ErrUserNotFound
         else if status = 404 \<and> has ''cert'' then Sentinel ErrSiteCertNotFound
         else if status = 409 \<and> has ''webhook'' then Sentinel ErrWebhookSourceExists
         else if status = 409 \<and> has ''config'' then Sentinel ErrConfigExists
         else if status = 409 \<and> has ''secret'' then Sentinel ErrSecretExists
         else if status = 409 \<and> has ''edge'' then Edge_User_Protected
         else if status = 409 \<and> has ''authenticated'' then Self_Delete
         else if status = 503 then Trigger_Not_Configured
         else Api_Error status msg)"

text \<open>\<^verbatim>\<open>Client.do\<close> against a daemon, the value of the answer unmarshalled by \<^verbatim>\<open>get\<close>.  The answer 204 has no
  body, which leaves the value at its zero.\<close>

definition do_request ::
  "(request \<Rightarrow> 's \<Rightarrow> json reply \<times> 's) \<Rightarrow> string \<Rightarrow> string list \<Rightarrow> (string \<times> string) list \<Rightarrow> json option \<Rightarrow>
     (json \<Rightarrow> 'a option) \<Rightarrow> 's \<Rightarrow> (remote_err + 'a) \<times> 's" where
  "do_request daemon method path q inp get s =
     (case daemon \<lparr> rqMethod = method, rqPath = path, rqQuery = q, rqBody = map_option Inr inp \<rparr> s of
        ((status, answer), s') \<Rightarrow>
          (if status < 200 \<or> 300 \<le> status
           then Inl (mapError status (case answer of Inl msg \<Rightarrow> error_text msg | Inr _ \<Rightarrow> []))
           else (case get (case answer of Inl msg \<Rightarrow> JObj [(''error'', JStr msg)] | Inr j \<Rightarrow> j) of
                   None \<Rightarrow> Inl Decode_Response
                 | Some v \<Rightarrow> Inr v), s'))"

definition do_unit ::
  "(request \<Rightarrow> 's \<Rightarrow> json reply \<times> 's) \<Rightarrow> string \<Rightarrow> string list \<Rightarrow> json option \<Rightarrow> 's \<Rightarrow> (remote_err + unit) \<times> 's" where
  "do_unit daemon method path inp s = do_request daemon method path [] inp (\<lambda>_. Some ()) s"

end
