(* ===== verification/Api_Configs.thy ===== *)
theory Api_Configs
  imports Api_Wire Cipher
begin

text \<open>
  The bounded contexts of configs (\<^verbatim>\<open>internal/configs\<close>) and of application secrets
  (\<^verbatim>\<open>internal/secrets\<close>): the local adapters over the store, the REST handlers with their routes, and
  the remote adapters (\<^verbatim>\<open>internal/remote/configs.go\<close>, \<^verbatim>\<open>secrets.go\<close>) that implement the same port over HTTP.
\<close>

section \<open>Configs: the local adapter\<close>

record Config =
  cfID :: int
  cfScope :: string
  cfStack :: string
  cfName :: string
  cfKind :: string
  cfVersion :: string
  cfHash :: string
  cfContent :: string
  cfRendered :: string
  cfCreatedAt :: int
  cfUpdatedAt :: int

record ConfigVersion =
  cvID :: int
  cvHash :: string
  cvCreatedAt :: int

definition config_rowModel :: "ConfigRow \<Rightarrow> Config" where
  "config_rowModel r =
     \<lparr> cfID = cfgID r, cfScope = cfgScope r, cfStack = cfgStack r, cfName = cfgName r, cfKind = cfgKind r,
       cfVersion = cfgVersion r, cfHash = cfgHash r, cfContent = cfgContent r,
       cfRendered = cfgRenderedContent r, cfCreatedAt = cfgCreatedAt r, cfUpdatedAt = cfgUpdatedAt r \<rparr>"

definition Configs_Get :: "string \<Rightarrow> Store \<Rightarrow> store_err + Config" where
  "Configs_Get name db = map_sum id config_rowModel (GetConfig name db)"

definition Configs_List :: "string \<Rightarrow> string \<Rightarrow> Store \<Rightarrow> Config list" where
  "Configs_List scope stack db = map config_rowModel (ListConfigs scope stack db)"

definition Configs_ListVersions :: "string \<Rightarrow> Store \<Rightarrow> store_err + ConfigVersion list" where
  "Configs_ListVersions name db =
     map_sum id (map (\<lambda>v. \<lparr> cvID = cvrID v, cvHash = cvrHash v, cvCreatedAt = cvrCreatedAt v \<rparr>))
       (ListConfigVersions name db)"

definition Configs_ListRendered :: "Store \<Rightarrow> Config list" where
  "Configs_ListRendered db =
     map (\<lambda>r. (config_rowModel r)\<lparr> cfContent := [], cfRendered := cfgRenderedContent r \<rparr>)
       (ListRenderedConfigs db)"

section \<open>Configs: the handlers\<close>

definition config_row_json :: "Config \<Rightarrow> json" where
  "config_row_json x =
     JObj ([(''id'', JInt (cfID x)), (''scope'', JStr (cfScope x))] @ omit_str ''stack'' (cfStack x) @
           [(''name'', JStr (cfName x)), (''kind'', JStr (cfKind x)), (''version'', JStr (cfVersion x)),
            (''hash'', JStr (cfHash x))] @
           (if cfRendered x \<noteq> [] then [(''rendered'', JBool True)] else []) @
           [(''created_at'', JInt (cfCreatedAt x)), (''updated_at'', JInt (cfUpdatedAt x))])"

definition http_configs_list :: "string \<Rightarrow> string \<Rightarrow> Store \<Rightarrow> json reply" where
  "http_configs_list scope stack db =
     (200, Inr (JObj [(''configs'', JArr (map config_row_json (Configs_List scope stack db)))]))"

record createConfigRequest =
  ccScope :: string
  ccStack :: string
  ccName :: string
  ccKind :: string
  ccContent :: string

definition decode_createConfig :: "json \<Rightarrow> createConfigRequest option" where
  "decode_createConfig j = do {
     scope \<leftarrow> as_str (jfield ''scope'' j); stack \<leftarrow> as_str (jfield ''stack'' j);
     name \<leftarrow> as_str (jfield ''name'' j); kind \<leftarrow> as_str (jfield ''kind'' j);
     content \<leftarrow> as_str (jfield ''content'' j);
     Some \<lparr> ccScope = scope, ccStack = stack, ccName = name, ccKind = kind, ccContent = content \<rparr> }"

text \<open>The checks of the scope and the kind, with their defaults.\<close>

definition check_config_request :: "createConfigRequest \<Rightarrow> string + createConfigRequest" where
  "check_config_request b =
     (let name = trim_space (ccName b); scope0 = trim_space (ccScope b);
          kind0 = trim_space (ccKind b); stack = trim_space (ccStack b);
          scope = (if scope0 = [] then ''service'' else scope0);
          kind = (if kind0 = [] then ''file'' else kind0)
      in if name = [] then Inl ''name is required''
         else if scope \<noteq> ''cluster'' \<and> scope \<noteq> ''service''
         then Inl (''scope must be '' @ [CHR 0x27] @ ''cluster'' @ [CHR 0x27] @ '' or '' @ [CHR 0x27] @ ''service'' @ [CHR 0x27])
         else if stack \<noteq> [] \<and> scope \<noteq> ''service'' then Inl ''stack is only valid for service-scope configs''
         else if kind \<noteq> ''template'' \<and> kind \<noteq> ''file'' \<and> kind \<noteq> ''env''
         then Inl (''kind must be '' @ [CHR 0x27] @ ''template'' @ [CHR 0x27] @ '', '' @ [CHR 0x27] @ ''file'' @ [CHR 0x27] @
                   '' or '' @ [CHR 0x27] @ ''env'' @ [CHR 0x27])
         else Inr \<lparr> ccScope = scope, ccStack = stack, ccName = name, ccKind = kind, ccContent = ccContent b \<rparr>)"

text \<open>What the daemon brings: the hash, the texts of the store's errors, its build version.\<close>

record daemon =
  dmHash :: "string \<Rightarrow> string"
  dmText :: "store_err \<Rightarrow> string"
  dmVersion :: string
  dmNow :: int

definition http_configs_create :: "daemon \<Rightarrow> (string + json) option \<Rightarrow> Store \<Rightarrow> json reply \<times> Store" where
  "http_configs_create dm body db =
     (case decode_body [''scope'', ''stack'', ''name'', ''kind'', ''content''] decode_createConfig body of
        Inl e \<Rightarrow> ((400, Inl (''invalid JSON body: '' @ e)), db)
      | Inr b0 \<Rightarrow>
         (case check_config_request b0 of
            Inl e \<Rightarrow> ((400, Inl e), db)
          | Inr b \<Rightarrow>
             (case CreateConfig (dmHash dm) (dmNow dm) (ccScope b) (ccStack b) (ccName b) (ccKind b)
                     (ccContent b) (dmVersion dm) db of
                (Inl e, db') \<Rightarrow>
                  (if e = ErrConfigExists then (409, Inl (''config already exists: '' @ ccName b))
                   else (500, Inl (''create config: '' @ dmText dm e)), db')
              | (Inr cid, db') \<Rightarrow>
                  ((201, Inr (JObj [(''id'', JInt cid), (''scope'', JStr (ccScope b)), (''stack'', JStr (ccStack b)),
                      (''name'', JStr (ccName b)), (''kind'', JStr (ccKind b)),
                      (''hash'', JStr (dmHash dm (ccContent b)))])), db'))))"

definition http_configs_get :: "daemon \<Rightarrow> string \<Rightarrow> Store \<Rightarrow> json reply" where
  "http_configs_get dm name db =
     (case Configs_Get name db of
        Inl e \<Rightarrow>
          (if e = ErrConfigNotFound then (404, Inl (''config not found: '' @ name))
           else (500, Inl (''get config: '' @ dmText dm e)))
      | Inr c \<Rightarrow>
          (200, Inr (JObj [(''id'', JInt (cfID c)), (''scope'', JStr (cfScope c)), (''name'', JStr (cfName c)),
             (''kind'', JStr (cfKind c)), (''version'', JStr (cfVersion c)), (''hash'', JStr (cfHash c)),
             (''content'', JStr (cfContent c))])))"

definition http_configs_update :: "daemon \<Rightarrow> string \<Rightarrow> (string + json) option \<Rightarrow> Store \<Rightarrow> json reply \<times> Store" where
  "http_configs_update dm name body db =
     (case decode_body [''content''] (\<lambda>j. as_str (jfield ''content'' j)) body of
        Inl e \<Rightarrow> ((400, Inl (''invalid JSON body: '' @ e)), db)
      | Inr content \<Rightarrow>
         (case UpdateConfig (dmHash dm) (dmNow dm) name content (dmVersion dm) db of
            (Inl e, db') \<Rightarrow>
              (if e = ErrConfigNotFound then (404, Inl (''config not found: '' @ name))
               else (500, Inl (''update config: '' @ dmText dm e)), db')
          | (Inr h, db') \<Rightarrow> ((200, Inr (JObj [(''name'', JStr name), (''hash'', JStr h)])), db')))"

definition http_configs_remove :: "daemon \<Rightarrow> string \<Rightarrow> Store \<Rightarrow> json reply \<times> Store" where
  "http_configs_remove dm name db =
     (case DeleteConfig name db of
        (Inl e, db') \<Rightarrow>
          (if e = ErrConfigNotFound then (404, Inl (''config not found: '' @ name))
           else (500, Inl (''delete config: '' @ dmText dm e)), db')
      | (Inr _, db') \<Rightarrow> ((204, Inr JNull), db'))"

definition config_version_json :: "ConfigVersion \<Rightarrow> json" where
  "config_version_json v =
     JObj [(''id'', JInt (cvID v)), (''hash'', JStr (cvHash v)), (''created_at'', JInt (cvCreatedAt v))]"

definition http_configs_versions :: "daemon \<Rightarrow> string \<Rightarrow> Store \<Rightarrow> json reply" where
  "http_configs_versions dm name db =
     (case Configs_ListVersions name db of
        Inl e \<Rightarrow>
          (if e = ErrConfigNotFound then (404, Inl (''config not found: '' @ name))
           else (500, Inl (''list config versions: '' @ dmText dm e)))
      | Inr vs \<Rightarrow> (200, Inr (JObj [(''versions'', JArr (map config_version_json vs))])))"

definition http_configs_rollback :: "daemon \<Rightarrow> string \<Rightarrow> (string + json) option \<Rightarrow> Store \<Rightarrow> json reply \<times> Store" where
  "http_configs_rollback dm name body db =
     (case decode_body [''version_id''] (\<lambda>j. as_int (jfield ''version_id'' j)) body of
        Inl e \<Rightarrow> ((400, Inl (''invalid JSON body: '' @ e)), db)
      | Inr vid \<Rightarrow>
          if vid \<le> 0 then ((400, Inl ''version_id is required''), db)
          else (case RollbackConfig (dmNow dm) name vid db of
                  (Inl e, db') \<Rightarrow>
                    (if e = ErrConfigNotFound then (404, Inl (''config not found: '' @ name))
                     else if e = ErrConfigVersionNotFound then (404, Inl ''config version not found'')
                     else (500, Inl (''rollback config: '' @ dmText dm e)), db')
                | (Inr h, db') \<Rightarrow>
                    ((200, Inr (JObj [(''name'', JStr name), (''hash'', JStr h), (''rolled_back_to'', JInt vid)])), db')))"

definition http_configs_rendered :: "Store \<Rightarrow> json reply" where
  "http_configs_rendered db =
     (200, Inr (JObj [(''configs'', JArr (map
        (\<lambda>c. JObj [(''name'', JStr (cfName c)), (''content'', JStr (cfRendered c))]) (Configs_ListRendered db)))]))"

text \<open>The routes of \<^verbatim>\<open>Mount\<close>.\<close>

definition configs_routes :: "daemon \<Rightarrow> request \<Rightarrow> Store \<Rightarrow> (json reply \<times> Store) option" where
  "configs_routes dm rq db =
     (let m = rqMethod rq; body = rqBody rq in
      case rqPath rq of
        [a] \<Rightarrow>
          if a \<noteq> ''configs'' then None
          else if m = ''GET'' then Some (http_configs_list (query_param ''scope'' rq) (query_param ''stack'' rq) db, db)
          else if m = ''POST'' then Some (http_configs_create dm body db)
          else None
      | [a, name] \<Rightarrow>
          if a = ''cluster'' \<and> name = ''rendered'' \<and> m = ''GET'' then Some (http_configs_rendered db, db)
          else if a \<noteq> ''configs'' \<or> name = [] then None
          else if m = ''GET'' then Some (http_configs_get dm name db, db)
          else if m = ''PUT'' then Some (http_configs_update dm name body db)
          else if m = ''DELETE'' then Some (http_configs_remove dm name db)
          else None
      | [a, name, b] \<Rightarrow>
          if a \<noteq> ''configs'' then None
          else if b = ''versions'' \<and> m = ''GET'' then Some (http_configs_versions dm name db, db)
          else if b = ''rollback'' \<and> m = ''POST'' then Some (http_configs_rollback dm name body db)
          else None
      | _ \<Rightarrow> None)"

section \<open>Configs: the remote adapter\<close>

type_synonym 's server = "request \<Rightarrow> 's \<Rightarrow> json reply \<times> 's"

text \<open>The DTO of a row: what it does not name stays zero.\<close>

definition config_dto :: "json \<Rightarrow> Config option" where
  "config_dto j0 = do {
     j \<leftarrow> as_struct j0;
     i \<leftarrow> as_int (jfield ''id'' j); scope \<leftarrow> as_str (jfield ''scope'' j); stack \<leftarrow> as_str (jfield ''stack'' j);
     name \<leftarrow> as_str (jfield ''name'' j); kind \<leftarrow> as_str (jfield ''kind'' j); version \<leftarrow> as_str (jfield ''version'' j);
     h \<leftarrow> as_str (jfield ''hash'' j); created \<leftarrow> as_int (jfield ''created_at'' j);
     updated \<leftarrow> as_int (jfield ''updated_at'' j); content \<leftarrow> as_str (jfield ''content'' j);
     rendered \<leftarrow> as_bool (jfield ''rendered'' j);
     Some \<lparr> cfID = i, cfScope = scope, cfStack = stack, cfName = name, cfKind = kind, cfVersion = version,
       cfHash = h, cfContent = content, cfRendered = [], cfCreatedAt = created, cfUpdatedAt = updated \<rparr> }"

definition config_version_dto :: "json \<Rightarrow> ConfigVersion option" where
  "config_version_dto j0 = do {
     j \<leftarrow> as_struct j0;
     i \<leftarrow> as_int (jfield ''id'' j); h \<leftarrow> as_str (jfield ''hash'' j); created \<leftarrow> as_int (jfield ''created_at'' j);
     Some \<lparr> cvID = i, cvHash = h, cvCreatedAt = created \<rparr> }"

definition rendered_dto :: "json \<Rightarrow> Config option" where
  "rendered_dto j0 = do {
     j \<leftarrow> as_struct j0; name \<leftarrow> as_str (jfield ''name'' j); content \<leftarrow> as_str (jfield ''content'' j);
     Some \<lparr> cfID = 0, cfScope = [], cfStack = [], cfName = name, cfKind = [], cfVersion = [],
       cfHash = [], cfContent = [], cfRendered = content, cfCreatedAt = 0, cfUpdatedAt = 0 \<rparr> }"

definition in_struct :: "string \<Rightarrow> (json \<Rightarrow> 'a option) \<Rightarrow> json \<Rightarrow> 'a option" where
  "in_struct k f j = as_struct j \<bind> (\<lambda>j. f (jfield k j))"

definition remote_configs_Create ::
  "'s server \<Rightarrow> string \<Rightarrow> string \<Rightarrow> string \<Rightarrow> string \<Rightarrow> string \<Rightarrow> string \<Rightarrow> 's \<Rightarrow> (remote_err + int) \<times> 's" where
  "remote_configs_Create srv scope stack name kind content version s =
     do_request srv ''POST'' [''configs''] []
       (Some (JObj [(''scope'', JStr scope), (''stack'', JStr stack), (''name'', JStr name),
                    (''kind'', JStr kind), (''content'', JStr content)]))
       (in_struct ''id'' as_int) s"

definition remote_configs_Get :: "'s server \<Rightarrow> string \<Rightarrow> 's \<Rightarrow> (remote_err + Config) \<times> 's" where
  "remote_configs_Get srv name s = do_request srv ''GET'' [''configs'', name] [] None config_dto s"

definition query_args :: "(string \<times> string) list \<Rightarrow> (string \<times> string) list" where
  "query_args q = filter (\<lambda>(_, v). v \<noteq> []) q"

definition remote_configs_List :: "'s server \<Rightarrow> string \<Rightarrow> string \<Rightarrow> 's \<Rightarrow> (remote_err + Config list) \<times> 's" where
  "remote_configs_List srv scope stack s =
     do_request srv ''GET'' [''configs''] (query_args [(''scope'', scope), (''stack'', stack)]) None
       (in_struct ''configs'' (as_list config_dto)) s"

definition remote_configs_Update ::
  "'s server \<Rightarrow> string \<Rightarrow> string \<Rightarrow> string \<Rightarrow> 's \<Rightarrow> (remote_err + string) \<times> 's" where
  "remote_configs_Update srv name content version s =
     do_request srv ''PUT'' [''configs'', name] [] (Some (JObj [(''content'', JStr content)]))
       (in_struct ''hash'' as_str) s"

definition remote_configs_Rollback ::
  "'s server \<Rightarrow> string \<Rightarrow> int \<Rightarrow> 's \<Rightarrow> (remote_err + string) \<times> 's" where
  "remote_configs_Rollback srv name vid s =
     do_request srv ''POST'' [''configs'', name, ''rollback''] [] (Some (JObj [(''version_id'', JInt vid)]))
       (in_struct ''hash'' as_str) s"

definition remote_configs_Delete :: "'s server \<Rightarrow> string \<Rightarrow> 's \<Rightarrow> (remote_err + unit) \<times> 's" where
  "remote_configs_Delete srv name s = do_unit srv ''DELETE'' [''configs'', name] None s"

definition remote_configs_ListVersions ::
  "'s server \<Rightarrow> string \<Rightarrow> 's \<Rightarrow> (remote_err + ConfigVersion list) \<times> 's" where
  "remote_configs_ListVersions srv name s =
     do_request srv ''GET'' [''configs'', name, ''versions''] [] None
       (in_struct ''versions'' (as_list config_version_dto)) s"

definition remote_configs_ListRendered :: "'s server \<Rightarrow> 's \<Rightarrow> (remote_err + Config list) \<times> 's" where
  "remote_configs_ListRendered srv s =
     do_request srv ''GET'' [''cluster'', ''rendered''] [] None
       (in_struct ''configs'' (as_list rendered_dto)) s"

end
