(* ===== verification/Api_Secrets.thy ===== *)
theory Api_Secrets
  imports Api_Configs
begin

text \<open>
  The bounded context of application secrets (\<^verbatim>\<open>internal/secrets\<close>): the local adapter over the store
  and the cipher, the REST handlers with their routes, and the remote adapter
  (\<^verbatim>\<open>internal/remote/secrets.go\<close>).
\<close>

section \<open>The local adapter\<close>

record Secret =
  seID :: int
  seScope :: string
  seStack :: string
  seName :: string
  seHash :: string
  seCreatedAt :: int

datatype secret_err = Secret_Store store_err | Secret_Cipher cipher_err

text \<open>The cipher with the randomness of one call and the texts of its errors.\<close>

record vault =
  vaSeal :: "string \<Rightarrow> string \<Rightarrow> string"
  vaUnseal :: "string \<Rightarrow> string \<Rightarrow> string option"
  vaNonce :: "string option"
  vaText :: "cipher_err \<Rightarrow> string"

definition secret_model :: "SecretRow \<Rightarrow> Secret" where
  "secret_model r =
     \<lparr> seID = secID r, seScope = secScope r, seStack = secStack r, seName = secName r,
       seHash = secHash r, seCreatedAt = secCreatedAt r \<rparr>"

definition Secrets_Create ::
  "vault \<Rightarrow> daemon \<Rightarrow> string \<Rightarrow> string \<Rightarrow> string \<Rightarrow> string \<Rightarrow> Store \<Rightarrow> (secret_err + int) \<times> Store" where
  "Secrets_Create va dm scope stack name value db =
     (case Encrypt (vaSeal va) (vaNonce va) value of
        Inl e \<Rightarrow> (Inl (Secret_Cipher e), db)
      | Inr payload \<Rightarrow>
          map_prod (map_sum Secret_Store id) id
            (CreateSecret (dmNow dm) scope stack name payload (dmHash dm value) db))"

definition Secrets_Get :: "string \<Rightarrow> Store \<Rightarrow> secret_err + Secret" where
  "Secrets_Get name db = map_sum Secret_Store secret_model (GetSecret name db)"

definition Secrets_Reveal :: "vault \<Rightarrow> string \<Rightarrow> Store \<Rightarrow> secret_err + string" where
  "Secrets_Reveal va name db =
     (case GetSecret name db of
        Inl e \<Rightarrow> Inl (Secret_Store e)
      | Inr r \<Rightarrow> map_sum Secret_Cipher id (Decrypt (vaUnseal va) (secPayload r)))"

definition Secrets_List :: "string \<Rightarrow> string \<Rightarrow> Store \<Rightarrow> Secret list" where
  "Secrets_List scope stack db = map secret_model (ListSecrets scope stack db)"

definition Secrets_Update ::
  "vault \<Rightarrow> daemon \<Rightarrow> string \<Rightarrow> string \<Rightarrow> Store \<Rightarrow> (secret_err + unit) \<times> Store" where
  "Secrets_Update va dm name value db =
     (case Encrypt (vaSeal va) (vaNonce va) value of
        Inl e \<Rightarrow> (Inl (Secret_Cipher e), db)
      | Inr payload \<Rightarrow>
          map_prod (map_sum Secret_Store id) id (UpdateSecret name payload (dmHash dm value) db))"

definition Secrets_Delete :: "string \<Rightarrow> Store \<Rightarrow> (secret_err + unit) \<times> Store" where
  "Secrets_Delete name db = map_prod (map_sum Secret_Store id) id (DeleteSecret name db)"

section \<open>The handlers\<close>

definition secret_row_json :: "Secret \<Rightarrow> json" where
  "secret_row_json x =
     JObj ([(''id'', JInt (seID x)), (''scope'', JStr (seScope x))] @ omit_str ''stack'' (seStack x) @
           [(''name'', JStr (seName x)), (''hash'', JStr (seHash x)), (''created_at'', JInt (seCreatedAt x))])"

definition http_secrets_list :: "string \<Rightarrow> string \<Rightarrow> Store \<Rightarrow> json reply" where
  "http_secrets_list scope stack db =
     (200, Inr (JObj [(''secrets'', JArr (map secret_row_json (Secrets_List scope stack db)))]))"

definition decode_createSecret :: "json \<Rightarrow> (string \<times> string \<times> string \<times> string) option" where
  "decode_createSecret j = do {
     name \<leftarrow> as_str (jfield ''name'' j); scope \<leftarrow> as_str (jfield ''scope'' j);
     stack \<leftarrow> as_str (jfield ''stack'' j); value \<leftarrow> as_str (jfield ''value'' j);
     Some (name, scope, stack, value) }"

definition check_secret_request ::
  "string \<times> string \<times> string \<times> string \<Rightarrow> string + string \<times> string \<times> string \<times> string" where
  "check_secret_request b =
     (case b of (name0, scope0, stack0, value) \<Rightarrow>
       (let name = trim_space name0; scope1 = trim_space scope0; stack = trim_space stack0;
            scope = (if scope1 = [] then ''service'' else scope1)
        in if name = [] then Inl ''name is required''
           else if scope \<noteq> ''cluster'' \<and> scope \<noteq> ''service''
           then Inl (''scope must be '' @ [CHR 0x27] @ ''cluster'' @ [CHR 0x27] @ '' or '' @ [CHR 0x27] @ ''service'' @ [CHR 0x27])
           else if stack \<noteq> [] \<and> scope \<noteq> ''service'' then Inl ''stack is only valid for service-scope secrets''
           else if value = [] then Inl ''value is required''
           else Inr (name, scope, stack, value)))"

definition secret_text :: "vault \<Rightarrow> daemon \<Rightarrow> secret_err \<Rightarrow> string" where
  "secret_text va dm e = (case e of Secret_Store se \<Rightarrow> dmText dm se | Secret_Cipher ce \<Rightarrow> vaText va ce)"

definition http_secrets_create ::
  "vault \<Rightarrow> daemon \<Rightarrow> (string + json) option \<Rightarrow> Store \<Rightarrow> json reply \<times> Store" where
  "http_secrets_create va dm body db =
     (case decode_body [''name'', ''scope'', ''stack'', ''value''] decode_createSecret body of
        Inl e \<Rightarrow> ((400, Inl (''invalid JSON body: '' @ e)), db)
      | Inr b0 \<Rightarrow>
         (case check_secret_request b0 of
            Inl e \<Rightarrow> ((400, Inl e), db)
          | Inr (name, scope, stack, value) \<Rightarrow>
             (case Secrets_Create va dm scope stack name value db of
                (Inl e, db') \<Rightarrow>
                  (if e = Secret_Store ErrSecretExists then (409, Inl (''secret already exists: '' @ name))
                   else (500, Inl (''create secret: '' @ secret_text va dm e)), db')
              | (Inr sid, db') \<Rightarrow>
                  ((201, Inr (JObj [(''id'', JInt sid), (''scope'', JStr scope), (''stack'', JStr stack),
                      (''name'', JStr name), (''hash'', JStr (dmHash dm value))])), db'))))"

definition http_secrets_update ::
  "vault \<Rightarrow> daemon \<Rightarrow> string \<Rightarrow> (string + json) option \<Rightarrow> Store \<Rightarrow> json reply \<times> Store" where
  "http_secrets_update va dm name body db =
     (if name = [] then ((400, Inl ''secret name is required''), db)
      else case decode_body [''value''] (\<lambda>j. as_str (jfield ''value'' j)) body of
        Inl e \<Rightarrow> ((400, Inl (''invalid JSON body: '' @ e)), db)
      | Inr value \<Rightarrow>
          if value = [] then ((400, Inl ''value is required''), db)
          else (case Secrets_Update va dm name value db of
                  (Inl e, db') \<Rightarrow>
                    (if e = Secret_Store ErrSecretNotFound then (404, Inl (''secret not found: '' @ name))
                     else (500, Inl (''update secret: '' @ secret_text va dm e)), db')
                | (Inr _, db') \<Rightarrow>
                    ((200, Inr (JObj [(''name'', JStr name), (''hash'', JStr (dmHash dm value))])), db')))"

definition http_secrets_remove :: "vault \<Rightarrow> daemon \<Rightarrow> string \<Rightarrow> Store \<Rightarrow> json reply \<times> Store" where
  "http_secrets_remove va dm name db =
     (if name = [] then ((400, Inl ''secret name is required''), db)
      else case Secrets_Delete name db of
        (Inl e, db') \<Rightarrow>
          (if e = Secret_Store ErrSecretNotFound then (404, Inl (''secret not found: '' @ name))
           else (500, Inl (''delete secret: '' @ secret_text va dm e)), db')
      | (Inr _, db') \<Rightarrow> ((204, Inr JNull), db'))"

definition http_secrets_value :: "vault \<Rightarrow> daemon \<Rightarrow> string \<Rightarrow> Store \<Rightarrow> json reply" where
  "http_secrets_value va dm name db =
     (if name = [] then (400, Inl ''secret name is required'')
      else case Secrets_Reveal va name db of
        Inl e \<Rightarrow>
          (if e = Secret_Store ErrSecretNotFound then (404, Inl (''secret not found: '' @ name))
           else (500, Inl (''reveal secret: '' @ secret_text va dm e)))
      | Inr plain \<Rightarrow> (200, Inr (JObj [(''name'', JStr name), (''value'', JStr plain)])))"

definition secrets_routes :: "vault \<Rightarrow> daemon \<Rightarrow> request \<Rightarrow> Store \<Rightarrow> (json reply \<times> Store) option" where
  "secrets_routes va dm rq db =
     (let m = rqMethod rq; body = rqBody rq in
      case rqPath rq of
        [a] \<Rightarrow>
          if a \<noteq> ''secrets'' then None
          else if m = ''GET'' then Some (http_secrets_list (query_param ''scope'' rq) (query_param ''stack'' rq) db, db)
          else if m = ''POST'' then Some (http_secrets_create va dm body db)
          else None
      | [a, name] \<Rightarrow>
          if a \<noteq> ''secrets'' \<or> name = [] then None
          else if m = ''PUT'' then Some (http_secrets_update va dm name body db)
          else if m = ''DELETE'' then Some (http_secrets_remove va dm name db)
          else None
      | [a, name, b] \<Rightarrow>
          if a = ''secrets'' \<and> b = ''value'' \<and> m = ''GET'' then Some (http_secrets_value va dm name db, db)
          else None
      | _ \<Rightarrow> None)"

section \<open>The remote adapter\<close>

definition secret_dto :: "json \<Rightarrow> Secret option" where
  "secret_dto j0 = do {
     j \<leftarrow> as_struct j0;
     i \<leftarrow> as_int (jfield ''id'' j); scope \<leftarrow> as_str (jfield ''scope'' j); stack \<leftarrow> as_str (jfield ''stack'' j);
     name \<leftarrow> as_str (jfield ''name'' j); h \<leftarrow> as_str (jfield ''hash'' j); created \<leftarrow> as_int (jfield ''created_at'' j);
     Some \<lparr> seID = i, seScope = scope, seStack = stack, seName = name, seHash = h, seCreatedAt = created \<rparr> }"

definition remote_secrets_Create ::
  "'s server \<Rightarrow> string \<Rightarrow> string \<Rightarrow> string \<Rightarrow> string \<Rightarrow> 's \<Rightarrow> (remote_err + int) \<times> 's" where
  "remote_secrets_Create srv scope stack name value s =
     do_request srv ''POST'' [''secrets''] []
       (Some (JObj [(''scope'', JStr scope), (''stack'', JStr stack), (''name'', JStr name), (''value'', JStr value)]))
       (in_struct ''id'' as_int) s"

definition remote_secrets_List :: "'s server \<Rightarrow> string \<Rightarrow> string \<Rightarrow> 's \<Rightarrow> (remote_err + Secret list) \<times> 's" where
  "remote_secrets_List srv scope stack s =
     do_request srv ''GET'' [''secrets''] (query_args [(''scope'', scope), (''stack'', stack)]) None
       (in_struct ''secrets'' (as_list secret_dto)) s"

definition remote_secrets_Get :: "'s server \<Rightarrow> string \<Rightarrow> 's \<Rightarrow> (remote_err + Secret) \<times> 's" where
  "remote_secrets_Get srv name s =
     (case remote_secrets_List srv [] [] s of
        (Inl e, s') \<Rightarrow> (Inl e, s')
      | (Inr rows, s') \<Rightarrow>
          (case find (\<lambda>r. seName r = name) rows of
             None \<Rightarrow> Inl (Sentinel ErrSecretNotFound)
           | Some r \<Rightarrow> Inr r, s'))"

definition remote_secrets_Reveal :: "'s server \<Rightarrow> string \<Rightarrow> 's \<Rightarrow> (remote_err + string) \<times> 's" where
  "remote_secrets_Reveal srv name s =
     do_request srv ''GET'' [''secrets'', name, ''value''] [] None (in_struct ''value'' as_str) s"

definition remote_secrets_Update :: "'s server \<Rightarrow> string \<Rightarrow> string \<Rightarrow> 's \<Rightarrow> (remote_err + unit) \<times> 's" where
  "remote_secrets_Update srv name value s =
     do_unit srv ''PUT'' [''secrets'', name] (Some (JObj [(''value'', JStr value)])) s"

definition remote_secrets_Delete :: "'s server \<Rightarrow> string \<Rightarrow> 's \<Rightarrow> (remote_err + unit) \<times> 's" where
  "remote_secrets_Delete srv name s = do_unit srv ''DELETE'' [''secrets'', name] None s"

end
