(* ===== verification/Api_Keys.thy ===== *)
theory Api_Keys
  imports Api_Secrets Store_Users Store_Stacks Cluster_State Cluster_Credentials
begin

text \<open>
  API keys (\<^verbatim>\<open>internal/apikeys\<close>), cluster settings (\<^verbatim>\<open>internal/settings\<close>) and the usage of configs and
  secrets by stacks (\<^verbatim>\<open>internal/usage\<close>): local adapters, REST handlers and remote adapters.
\<close>

section \<open>API keys\<close>

record APIKey =
  akID :: int
  akName :: string
  akCreatedAt :: int
  akLastUsedAt :: int

datatype key_err = Key_Store store_err | ErrEdgeUserProtected | ErrSelfDelete

text \<open>The random bytes of one call: the token's id and secret, the salt.  Their failures are ignored.\<close>

record key_draw =
  kdID :: "string option"
  kdSecret :: "string option"
  kdSalt :: "string option"

definition or_empty :: "'e + string \<Rightarrow> string" where
  "or_empty r = (case r of Inl _ \<Rightarrow> [] | Inr s \<Rightarrow> s)"

definition Keys_Create ::
  "(string \<Rightarrow> string \<Rightarrow> string) \<Rightarrow> key_draw \<Rightarrow> int \<Rightarrow> string \<Rightarrow> Store \<Rightarrow> (key_err + int \<times> string) \<times> Store" where
  "Keys_Create argon kd now name db =
     (let token = or_empty (GenerateToken (kdID kd) (kdSecret kd));
          (tokenID, secret) = SplitToken token;
          h = or_empty (HashToken argon (kdSalt kd) secret)
      in case CreateUser now name tokenID h db of
           (Inl e, db') \<Rightarrow> (Inl (Key_Store e), db')
         | (Inr uid, db') \<Rightarrow> (Inr (uid, token), db'))"

definition Keys_List :: "Store \<Rightarrow> APIKey list" where
  "Keys_List db =
     map (\<lambda>r. \<lparr> akID = urID r, akName = urName r, akCreatedAt = urCreatedAt r, akLastUsedAt = urLastUsedAt r \<rparr>)
       (ListUsers db)"

text \<open>\<^verbatim>\<open>me\<close> is the user of the request, if any.\<close>

definition Keys_Delete :: "auth_user option \<Rightarrow> int \<Rightarrow> Store \<Rightarrow> (key_err + unit) \<times> Store" where
  "Keys_Delete me uid db =
     (case UserByID uid db of
        Inl e \<Rightarrow> (Inl (Key_Store e), db)
      | Inr user \<Rightarrow>
          if auName user = edgeAPITokenUser then (Inl ErrEdgeUserProtected, db)
          else if (case me of Some u \<Rightarrow> auID u = uid | None \<Rightarrow> False) then (Inl ErrSelfDelete, db)
          else map_prod (map_sum Key_Store id) id (DeleteUser uid db))"

definition key_json :: "APIKey \<Rightarrow> json" where
  "key_json k =
     JObj [(''id'', JInt (akID k)), (''name'', JStr (akName k)), (''created_at'', JInt (akCreatedAt k)),
           (''last_used_at'', JInt (akLastUsedAt k))]"

definition http_keys_list :: "Store \<Rightarrow> json reply" where
  "http_keys_list db = (200, Inr (JObj [(''keys'', JArr (map key_json (Keys_List db)))]))"

text \<open>Only errors of the store reach the default branches.\<close>

definition key_text :: "daemon \<Rightarrow> key_err \<Rightarrow> string" where
  "key_text dm e = (case e of Key_Store se \<Rightarrow> dmText dm se | _ \<Rightarrow> [])"

definition http_keys_create ::
  "(string \<Rightarrow> string \<Rightarrow> string) \<Rightarrow> key_draw \<Rightarrow> daemon \<Rightarrow> (string + json) option \<Rightarrow> Store \<Rightarrow> json reply \<times> Store" where
  "http_keys_create argon kd dm body db =
     (case decode_body [''name''] (\<lambda>j. as_str (jfield ''name'' j)) body of
        Inl e \<Rightarrow> ((400, Inl (''invalid JSON body: '' @ e)), db)
      | Inr name0 \<Rightarrow>
         (let name = trim_space name0 in
          if name = [] then ((400, Inl ''name is required''), db)
          else (case Keys_Create argon kd (dmNow dm) name db of
                  (Inl e, db') \<Rightarrow>
                    (if e = Key_Store ErrUserExists then (409, Inl (''user already exists: '' @ name))
                     else (500, Inl (''create api key: '' @ key_text dm e)), db')
                | (Inr (uid, token), db') \<Rightarrow>
                    ((201, Inr (JObj [(''id'', JInt uid), (''name'', JStr name), (''token'', JStr token)])), db'))))"

definition http_keys_remove :: "daemon \<Rightarrow> auth_user option \<Rightarrow> string \<Rightarrow> Store \<Rightarrow> json reply \<times> Store" where
  "http_keys_remove dm me idParam db =
     (case parse_int64 idParam of
        None \<Rightarrow> ((400, Inl ''invalid user id''), db)
      | Some uid \<Rightarrow>
          if uid \<le> 0 then ((400, Inl ''invalid user id''), db)
          else (case Keys_Delete me uid db of
                  (Inr _, db') \<Rightarrow> ((204, Inr JNull), db')
                | (Inl e, db') \<Rightarrow>
                    (if e = Key_Store ErrNoRows \<or> e = Key_Store ErrUserNotFound then (404, Inl ''api key not found'')
                     else if e = ErrEdgeUserProtected
                     then (409, Inl (''the '' @ [CHR 0x27] @ ''edge'' @ [CHR 0x27] @
                                     '' user is required by the operator console and cannot be removed''))
                     else if e = ErrSelfDelete
                     then (409, Inl ''cannot remove the API key you are currently authenticated with'')
                     else (500, Inl (''delete api key: '' @ key_text dm e)), db')))"

definition keys_routes ::
  "(string \<Rightarrow> string \<Rightarrow> string) \<Rightarrow> key_draw \<Rightarrow> daemon \<Rightarrow> auth_user option \<Rightarrow> request \<Rightarrow> Store \<Rightarrow>
     (json reply \<times> Store) option" where
  "keys_routes argon kd dm me rq db =
     (case rqPath rq of
        [a] \<Rightarrow>
          if a \<noteq> ''api_keys'' then None
          else if rqMethod rq = ''GET'' then Some (http_keys_list db, db)
          else if rqMethod rq = ''POST'' then Some (http_keys_create argon kd dm (rqBody rq) db)
          else None
      | [a, uid] \<Rightarrow>
          if a = ''api_keys'' \<and> uid \<noteq> [] \<and> rqMethod rq = ''DELETE'' then Some (http_keys_remove dm me uid db)
          else None
      | _ \<Rightarrow> None)"

definition key_dto :: "json \<Rightarrow> APIKey option" where
  "key_dto j0 = do {
     j \<leftarrow> as_struct j0;
     i \<leftarrow> as_int (jfield ''id'' j); name \<leftarrow> as_str (jfield ''name'' j);
     created \<leftarrow> as_int (jfield ''created_at'' j); used \<leftarrow> as_int (jfield ''last_used_at'' j);
     Some \<lparr> akID = i, akName = name, akCreatedAt = created, akLastUsedAt = used \<rparr> }"

definition remote_keys_Create :: "'s server \<Rightarrow> string \<Rightarrow> 's \<Rightarrow> (remote_err + int \<times> string) \<times> 's" where
  "remote_keys_Create srv name s =
     do_request srv ''POST'' [''api_keys''] [] (Some (JObj [(''name'', JStr name)]))
       (\<lambda>j. do { i \<leftarrow> in_struct ''id'' as_int j; t \<leftarrow> in_struct ''token'' as_str j; Some (i, t) }) s"

definition remote_keys_List :: "'s server \<Rightarrow> 's \<Rightarrow> (remote_err + APIKey list) \<times> 's" where
  "remote_keys_List srv s =
     do_request srv ''GET'' [''api_keys''] [] None (in_struct ''keys'' (as_list key_dto)) s"

definition remote_keys_Delete :: "'s server \<Rightarrow> int \<Rightarrow> 's \<Rightarrow> (remote_err + unit) \<times> 's" where
  "remote_keys_Delete srv uid s = do_unit srv ''DELETE'' [''api_keys'', itoa uid] None s"

section \<open>Cluster settings\<close>

definition clusterSettingKeys :: "string list" where
  "clusterSettingKeys =
     [''volume_root'', ''backup_all_nodes'', ''backup_retention_days'', ''sso_enabled'', ''sso_provider'',
      ''sso_client_id'', ''sso_client_secret'', ''sso_github_org'', ''sso_cookie_expire'',
      ''edge_login_disabled'', settingDomain, settingOOEmail, ''traefik_admin_user'']"

type_synonym Settings = "(string \<times> string) list"

definition Settings_Get :: "Store \<Rightarrow> Settings" where
  "Settings_Get db = map (\<lambda>k. (k, GetSettingDefault k [] db)) clusterSettingKeys"

datatype settings_err = Settings_Required | Unknown_Setting string

text \<open>The values in the order Go ranges over them.\<close>

definition Settings_Update :: "Settings \<Rightarrow> Store \<Rightarrow> (settings_err + Settings) \<times> Store" where
  "Settings_Update values db =
     (if values = [] then (Inl Settings_Required, db)
      else (case find (\<lambda>(k, _). k \<notin> set clusterSettingKeys) values of
              Some (k, _) \<Rightarrow> (Inl (Unknown_Setting k), db)
            | None \<Rightarrow> (let db' = fold (\<lambda>(k, v). SetSetting k v) values db in (Inr (Settings_Get db'), db'))))"

definition settings_json :: "Settings \<Rightarrow> json" where
  "settings_json values = JObj [(''settings'', JObj (map (map_prod id JStr) values))]"

definition as_settings :: "json \<Rightarrow> Settings option" where
  "as_settings j =
     (case j of
        JObj fs \<Rightarrow> all_some (map (\<lambda>(k, v). map_option (Pair k) (as_str v)) fs)
      | JNull \<Rightarrow> Some []
      | _ \<Rightarrow> None)"

definition http_settings_get :: "Store \<Rightarrow> json reply" where
  "http_settings_get db = (200, Inr (settings_json (Settings_Get db)))"

definition settings_text :: "settings_err \<Rightarrow> string" where
  "settings_text e =
     (case e of Settings_Required \<Rightarrow> ''settings: required'' | Unknown_Setting k \<Rightarrow> ''unknown setting: '' @ k)"

definition http_settings_put :: "(string + json) option \<Rightarrow> Store \<Rightarrow> json reply \<times> Store" where
  "http_settings_put body db =
     (case decode_body [''settings''] (\<lambda>j. as_settings (jfield ''settings'' j)) body of
        Inl e \<Rightarrow> ((400, Inl (''invalid JSON body: '' @ e)), db)
      | Inr values \<Rightarrow>
         (case Settings_Update values db of
            (Inl e, db') \<Rightarrow> ((400, Inl (settings_text e)), db')
          | (Inr updated, db') \<Rightarrow> ((200, Inr (settings_json updated)), db')))"

definition settings_routes :: "request \<Rightarrow> Store \<Rightarrow> (json reply \<times> Store) option" where
  "settings_routes rq db =
     (if rqPath rq \<noteq> [''cluster'', ''settings''] then None
      else if rqMethod rq = ''GET'' then Some (http_settings_get db, db)
      else if rqMethod rq = ''PUT'' then Some (http_settings_put (rqBody rq) db)
      else None)"

definition remote_settings_Get :: "'s server \<Rightarrow> 's \<Rightarrow> (remote_err + Settings) \<times> 's" where
  "remote_settings_Get srv s =
     do_request srv ''GET'' [''cluster'', ''settings''] [] None (in_struct ''settings'' as_settings) s"

definition remote_settings_Update :: "'s server \<Rightarrow> Settings \<Rightarrow> 's \<Rightarrow> (remote_err + Settings) \<times> 's" where
  "remote_settings_Update srv values s =
     do_request srv ''PUT'' [''cluster'', ''settings''] [] (Some (settings_json values))
       (in_struct ''settings'' as_settings) s"

section \<open>Usage\<close>

record Usage =
  ugConfigs :: "(string \<times> string list) list"
  ugSecrets :: "(string \<times> string list) list"

text \<open>\<^verbatim>\<open>unmarshal\<close> is the YAML library: the keys of the two top level maps, each in the order of one
  run.  A document that does not parse counts as one without references.\<close>

definition parseComposeReferences ::
  "(string \<Rightarrow> (string list \<times> string list) option) \<Rightarrow> string \<Rightarrow> string list \<times> string list" where
  "parseComposeReferences unmarshal rendered =
     (case unmarshal rendered of None \<Rightarrow> ([], []) | Some refs \<Rightarrow> refs)"

text \<open>The sets of stacks by name.\<close>

definition add_user :: "string \<Rightarrow> string \<Rightarrow> (string \<times> string list) list \<Rightarrow> (string \<times> string list) list" where
  "add_user stack name m =
     (let users = (case map_of m name of Some l \<Rightarrow> l | None \<Rightarrow> [])
      in AList.update name (List.insert stack users) m)"

definition flatten :: "(string \<times> string list) list \<Rightarrow> (string \<times> string list) list" where
  "flatten m = map (map_prod id sort) m"

definition count_stack ::
  "(string \<Rightarrow> (string list \<times> string list) option) \<Rightarrow> Store \<Rightarrow> Stack \<Rightarrow>
     (string \<times> string list) list \<times> (string \<times> string list) list \<Rightarrow>
     (string \<times> string list) list \<times> (string \<times> string list) list" where
  "count_stack unmarshal db s acc =
     (case GetRevision (stName s) (stCurrentRevision s) db of
        Inl _ \<Rightarrow> acc
      | Inr r \<Rightarrow>
         (let (cfgs, secs) = parseComposeReferences unmarshal (srRenderedYAML r)
          in map_prod (fold (add_user (stName s)) cfgs) (fold (add_user (stName s)) secs) acc))"

definition Usage_Get :: "(string \<Rightarrow> (string list \<times> string list) option) \<Rightarrow> Store \<Rightarrow> Usage" where
  "Usage_Get unmarshal db =
     (let (cfgs, secs) = fold (count_stack unmarshal db) (ListStacks db) ([], [])
      in \<lparr> ugConfigs = flatten cfgs, ugSecrets = flatten secs \<rparr>)"

end
