(* ===== verification/Api_Refinement.thy ===== *)
theory Api_Refinement
  imports Api_Keys
begin

text \<open>
  The remote adapters against the daemon's own handlers: for which names the port behaves over HTTP
  as it does locally, and what happens for the others.
\<close>

section \<open>Error answers as text\<close>

lemma contains_append:
  assumes "w \<noteq> []" "c \<notin> set w"
  shows "contains_str (a @ [c] @ b) w \<longleftrightarrow> contains_str a w \<or> contains_str b w"
proof
  assume "contains_str (a @ [c] @ b) w"
  then obtain x y where "a @ (c # b) = x @ (w @ y)" by (auto simp: contains_str_iff)
  then obtain us where "a = x @ us \<and> us @ (c # b) = w @ y \<or> a @ us = x \<and> c # b = us @ w @ y"
    unfolding append_eq_append_conv2 [of a "c # b"] by blast
  then show "contains_str a w \<or> contains_str b w"
  proof (elim disjE conjE)
    assume a: "a = x @ us" and e: "us @ (c # b) = w @ y"
    obtain vs where "us = w @ vs \<or> us @ vs = w \<and> c # b = vs @ y"
      using e unfolding append_eq_append_conv2 [of us "c # b"] by blast
    then have "\<exists>vs. us = w @ vs" using assms by (auto simp: Cons_eq_append_conv)
    then show ?thesis unfolding contains_str_iff using a by blast
  next
    assume "c # b = us @ w @ y"
    then have "\<exists>ts. b = ts @ w @ y" using assms by (cases us) (auto simp: Cons_eq_append_conv)
    then show ?thesis unfolding contains_str_iff by blast
  qed
next
  assume "contains_str a w \<or> contains_str b w"
  then show "contains_str (a @ [c] @ b) w"
  proof
    assume "contains_str a w"
    then obtain x y where "a = x @ w @ y" by (auto simp: contains_str_iff)
    then have "a @ [c] @ b = x @ w @ (y @ [c] @ b)" by simp
    then show ?thesis unfolding contains_str_iff by blast
  next
    assume "contains_str b w"
    then obtain x y where "b = x @ w @ y" by (auto simp: contains_str_iff)
    then have "a @ [c] @ b = (a @ [c] @ x) @ w @ y" by simp
    then show ?thesis unfolding contains_str_iff by blast
  qed
qed

text \<open>Characters that \<^verbatim>\<open>encoding/json\<close> writes as they are.\<close>

definition plain_char :: "char \<Rightarrow> bool" where
  "plain_char c \<longleftrightarrow> json_escape_char c = [c]"

definition plain :: "string \<Rightarrow> bool" where
  "plain s \<longleftrightarrow> list_all plain_char s"

lemma plain_append [simp]: "plain (a @ b) \<longleftrightarrow> plain a \<and> plain b"
  by (simp add: plain_def)

lemma plain_escape: "plain s \<Longrightarrow> concat (map json_escape_char s) = s"
  by (induction s) (auto simp: plain_def plain_char_def)

lemma contains_singleton_free: "w \<noteq> [] \<Longrightarrow> set a \<inter> set w = {} \<Longrightarrow> \<not> contains_str a w"
  by (auto simp: contains_str_iff neq_Nil_conv)

definition key_text_prefix :: string where
  "key_text_prefix = [CHR ''{'', CHR 0x22] @ ''error'' @ [CHR 0x22, CHR '':'']"

text \<open>The words by which the client tells errors apart.\<close>

definition sentinel_words :: "string list" where
  "sentinel_words = [''stack'', ''revision'', ''config'', ''secret'', ''webhook'', ''user'', ''api key'', ''cert'',
     ''edge'', ''authenticated'']"

lemma error_text_contains:
  assumes "plain msg" "w \<in> set sentinel_words"
  shows "contains_str (error_text msg) w \<longleftrightarrow> contains_str msg w"
proof -
  have w: "w \<noteq> []" "CHR 0x22 \<notin> set w" "\<not> contains_str key_text_prefix w" "\<not> contains_str ''}'' w"
  proof -
    have "list_all (\<lambda>w. w \<noteq> [] \<and> CHR 0x22 \<notin> set w \<and> \<not> contains_str key_text_prefix w \<and>
        \<not> contains_str ''}'' w) sentinel_words" by code_simp
    then show "w \<noteq> []" "CHR 0x22 \<notin> set w" "\<not> contains_str key_text_prefix w" "\<not> contains_str ''}'' w"
      using assms(2) by (auto simp: list_all_iff)
  qed
  have "error_text msg = key_text_prefix @ [CHR 0x22] @ (msg @ [CHR 0x22] @ ''}'')"
    using plain_escape [OF assms(1)] by (simp add: error_text_def key_text_prefix_def)
  then show ?thesis by (simp only: contains_append [OF w(1,2)] w(3,4)) simp
qed

text \<open>A message that names a thing after a colon.\<close>

lemma named_contains:
  assumes "w \<in> set sentinel_words"
  shows "contains_str (a @ '': '' @ name) w \<longleftrightarrow> contains_str a w \<or> contains_str name w"
proof -
  have w: "w \<noteq> []" "CHR '':'' \<notin> set w" "hd w \<noteq> CHR '' ''"
  proof -
    have "list_all (\<lambda>w. w \<noteq> [] \<and> CHR '':'' \<notin> set w \<and> hd w \<noteq> CHR '' '') sentinel_words" by code_simp
    then show "w \<noteq> []" "CHR '':'' \<notin> set w" "hd w \<noteq> CHR '' ''" using assms by (auto simp: list_all_iff)
  qed
  have "contains_str (CHR '' '' # name) w \<longleftrightarrow> contains_str name w"
    using w(1,3) by (auto simp: contains_str_iff Cons_eq_append_conv)
  then show ?thesis using contains_append [OF w(1,2), of a "CHR '' '' # name"] by simp
qed

section \<open>The daemon's store-backed routes\<close>

record api_env =
  aeDaemon :: daemon
  aeVault :: vault
  aeArgon :: "string \<Rightarrow> string \<Rightarrow> string"
  aeDraw :: key_draw
  aeMe :: "auth_user option"

fun first_route :: "'a option list \<Rightarrow> 'a \<Rightarrow> 'a" where
  "first_route [] r = r"
| "first_route (Some x # xs) r = x"
| "first_route (None # xs) r = first_route xs r"

text \<open>The routes that \<^verbatim>\<open>New\<close> of \<^verbatim>\<open>server.go\<close> mounts behind the bearer middleware for the contexts kept in the
  store, for a request that is already authenticated as \<^verbatim>\<open>aeMe\<close>.\<close>

definition api_server :: "api_env \<Rightarrow> Store server" where
  "api_server ae rq db =
     first_route [settings_routes rq db,
       keys_routes (aeArgon ae) (aeDraw ae) (aeDaemon ae) (aeMe ae) rq db,
       secrets_routes (aeVault ae) (aeDaemon ae) rq db,
       configs_routes (aeDaemon ae) rq db] (not_routed, db)"

text \<open>The middleware in front of the routes: the lookup of the token writes when its user was last seen,
  on the store that is part of the state \<^verbatim>\<open>'s\<close>; then the routes run for that user.  The answer to any
  other request is plain text.\<close>

definition behind_bearer ::
  "(string \<Rightarrow> string \<Rightarrow> string) \<Rightarrow> int \<Rightarrow> ('s \<Rightarrow> Store) \<Rightarrow> (Store \<Rightarrow> 's \<Rightarrow> 's) \<Rightarrow> (auth_user \<Rightarrow> 's server) \<Rightarrow>
     string \<Rightarrow> 's server" where
  "behind_bearer argon now get put srv header rq s =
     (case Bearer (UserByToken argon now) header (get s) of
        (Unauthorized, db) \<Rightarrow> ((401, Inl ''unauthorized''), put db s)
      | (Pass u, db) \<Rightarrow> srv u rq (put db s))"

definition bearer_api :: "api_env \<Rightarrow> string \<Rightarrow> Store server" where
  "bearer_api ae =
     behind_bearer (aeArgon ae) (dmNow (aeDaemon ae)) id (\<lambda>db _. db) (\<lambda>u. api_server (ae\<lparr> aeMe := Some u \<rparr>))"

lemma Bearer_passes:
  "fst (Bearer (UserByToken argon now) header db) = Pass u \<Longrightarrow>
     snd (Bearer (UserByToken argon now) header db) = TouchUser now (auID u) db"
  by (auto simp: Bearer_def UserByToken_def Let_def split: option.splits prod.splits sum.splits)

lemma Bearer_refuses:
  "fst (Bearer (UserByToken argon now) header db) = Unauthorized \<Longrightarrow>
     snd (Bearer (UserByToken argon now) header db) = db"
  by (auto simp: Bearer_def UserByToken_def Let_def split: option.splits prod.splits sum.splits)

lemma behind_bearer_cases:
  "behind_bearer argon now get put srv header rq s =
     (case fst (Bearer (UserByToken argon now) header (get s)) of
        Unauthorized \<Rightarrow> ((401, Inl ''unauthorized''), put (get s) s)
      | Pass u \<Rightarrow> srv u rq (put (TouchUser now (auID u) (get s)) s))"
  using Bearer_passes [of argon now header "get s"] Bearer_refuses [of argon now header "get s"]
  by (cases "Bearer (UserByToken argon now) header (get s)")
    (auto simp: behind_bearer_def split: auth_result.splits)

lemma bearer_api_passes:
  assumes "fst (Bearer (UserByToken (aeArgon ae) (dmNow (aeDaemon ae))) header db) = Pass u"
  shows "bearer_api ae header rq db =
    api_server (ae\<lparr> aeMe := Some u \<rparr>) rq (TouchUser (dmNow (aeDaemon ae)) (auID u) db)"
  using assms by (simp add: bearer_api_def behind_bearer_cases)

text \<open>A remote call is one request, so it does behind the middleware what it does on the routes.\<close>

lemma do_request_behind:
  "(\<And>rq. srv rq s = srv' rq s') \<Longrightarrow> do_request srv m p q i g s = do_request srv' m p q i g s'"
  by (simp add: do_request_def)

lemmas routes = api_server_def settings_routes_def keys_routes_def secrets_routes_def configs_routes_def

lemma config_requests:
  assumes "name \<noteq> []"
  shows
    "api_server ae \<lparr> rqMethod = ''GET'', rqPath = [''configs'', name], rqQuery = q, rqBody = b \<rparr> db =
       (http_configs_get (aeDaemon ae) name db, db)"
    "api_server ae \<lparr> rqMethod = ''PUT'', rqPath = [''configs'', name], rqQuery = q, rqBody = b \<rparr> db =
       http_configs_update (aeDaemon ae) name b db"
    "api_server ae \<lparr> rqMethod = ''DELETE'', rqPath = [''configs'', name], rqQuery = q, rqBody = b \<rparr> db =
       http_configs_remove (aeDaemon ae) name db"
    "api_server ae \<lparr> rqMethod = ''GET'', rqPath = [''configs'', name, ''versions''], rqQuery = q, rqBody = b \<rparr> db =
       (http_configs_versions (aeDaemon ae) name db, db)"
    "api_server ae \<lparr> rqMethod = ''POST'', rqPath = [''configs'', name, ''rollback''], rqQuery = q, rqBody = b \<rparr> db =
       http_configs_rollback (aeDaemon ae) name b db"
    "api_server ae \<lparr> rqMethod = ''POST'', rqPath = [''configs''], rqQuery = q, rqBody = b \<rparr> db =
       http_configs_create (aeDaemon ae) b db"
    "api_server ae \<lparr> rqMethod = ''GET'', rqPath = [''configs''], rqQuery = q, rqBody = b \<rparr> db =
       (http_configs_list (query_param ''scope'' \<lparr> rqMethod = ''GET'', rqPath = [''configs''], rqQuery = q, rqBody = b \<rparr>)
          (query_param ''stack'' \<lparr> rqMethod = ''GET'', rqPath = [''configs''], rqQuery = q, rqBody = b \<rparr>) db, db)"
    "api_server ae \<lparr> rqMethod = ''GET'', rqPath = [''cluster'', ''rendered''], rqQuery = q, rqBody = b \<rparr> db =
       (http_configs_rendered db, db)"
  using assms by (simp_all add: routes Let_def)

lemma secret_requests:
  assumes "name \<noteq> []"
  shows
    "api_server ae \<lparr> rqMethod = ''GET'', rqPath = [''secrets'', name, ''value''], rqQuery = q, rqBody = b \<rparr> db =
       (http_secrets_value (aeVault ae) (aeDaemon ae) name db, db)"
    "api_server ae \<lparr> rqMethod = ''PUT'', rqPath = [''secrets'', name], rqQuery = q, rqBody = b \<rparr> db =
       http_secrets_update (aeVault ae) (aeDaemon ae) name b db"
    "api_server ae \<lparr> rqMethod = ''DELETE'', rqPath = [''secrets'', name], rqQuery = q, rqBody = b \<rparr> db =
       http_secrets_remove (aeVault ae) (aeDaemon ae) name db"
    "api_server ae \<lparr> rqMethod = ''POST'', rqPath = [''secrets''], rqQuery = q, rqBody = b \<rparr> db =
       http_secrets_create (aeVault ae) (aeDaemon ae) b db"
    "api_server ae \<lparr> rqMethod = ''GET'', rqPath = [''secrets''], rqQuery = q, rqBody = b \<rparr> db =
       (http_secrets_list (query_param ''scope'' \<lparr> rqMethod = ''GET'', rqPath = [''secrets''], rqQuery = q, rqBody = b \<rparr>)
          (query_param ''stack'' \<lparr> rqMethod = ''GET'', rqPath = [''secrets''], rqQuery = q, rqBody = b \<rparr>) db, db)"
  using assms by (simp_all add: routes Let_def)

section \<open>Classification of the answers\<close>

text \<open>Names over which the client's reading of error texts does not stumble.\<close>

definition quiet :: "string \<Rightarrow> bool" where
  "quiet name \<longleftrightarrow> name \<noteq> [] \<and> plain name \<and> list_all (\<lambda>w. \<not> contains_str name w) sentinel_words"

lemma words_listed:
  "''stack'' \<in> set sentinel_words" "''revision'' \<in> set sentinel_words" "''config'' \<in> set sentinel_words"
  "''secret'' \<in> set sentinel_words" "''webhook'' \<in> set sentinel_words" "''user'' \<in> set sentinel_words"
  "''api key'' \<in> set sentinel_words" "''cert'' \<in> set sentinel_words" "''edge'' \<in> set sentinel_words"
  "''authenticated'' \<in> set sentinel_words"
  by (simp_all add: sentinel_words_def)

definition classify :: "int \<Rightarrow> (string \<Rightarrow> bool) \<Rightarrow> remote_err option" where
  "classify status has =
     (if status = 404 \<and> has ''stack'' then Some (Sentinel ErrStackNotFound)
      else if status = 404 \<and> has ''revision'' then Some (Sentinel ErrRevisionNotFound)
      else if status = 404 \<and> has ''config'' then Some (Sentinel ErrConfigNotFound)
      else if status = 404 \<and> has ''secret'' then Some (Sentinel ErrSecretNotFound)
      else if status = 404 \<and> has ''webhook'' then Some (Sentinel ErrWebhookSourceNotFound)
      else if status = 404 \<and> (has ''user'' \<or> has ''api key'') then Some (Sentinel ErrUserNotFound)
      else if status = 404 \<and> has ''cert'' then Some (Sentinel ErrSiteCertNotFound)
      else if status = 409 \<and> has ''webhook'' then Some (Sentinel ErrWebhookSourceExists)
      else if status = 409 \<and> has ''config'' then Some (Sentinel ErrConfigExists)
      else if status = 409 \<and> has ''secret'' then Some (Sentinel ErrSecretExists)
      else if status = 409 \<and> has ''edge'' then Some Edge_User_Protected
      else if status = 409 \<and> has ''authenticated'' then Some Self_Delete
      else if status = 503 then Some Trigger_Not_Configured
      else None)"

lemma mapError_classify:
  "mapError status body = (case classify status (contains_str body) of
     Some e \<Rightarrow> e | None \<Rightarrow> Api_Error status (if body = [] then StatusText status else body))"
  by (simp add: mapError_def classify_def Let_def)

lemma classify_cong: "(\<And>w. w \<in> set sentinel_words \<Longrightarrow> h w = h' w) \<Longrightarrow> classify st h = classify st h'"
  by (simp add: classify_def sentinel_words_def)

lemma named_error:
  assumes "plain (a @ '': '' @ name)"
  shows "classify st (contains_str (error_text (a @ '': '' @ name))) =
    classify st (\<lambda>w. contains_str a w \<or> contains_str name w)"
  by (rule classify_cong) (simp only: error_text_contains [OF assms] named_contains)

text \<open>The texts of the handlers that name a thing, and what the client makes of them.\<close>

lemma config_missing_text:
  assumes "plain name"
  shows "mapError 404 (error_text (''config not found: '' @ name)) =
     (if contains_str name ''stack'' then Sentinel ErrStackNotFound
      else if contains_str name ''revision'' then Sentinel ErrRevisionNotFound
      else Sentinel ErrConfigNotFound)"
proof -
  have s: "''config not found: '' @ name = ''config not found'' @ '': '' @ name" by simp
  have p: "plain (''config not found'' @ '': '' @ name)"
    unfolding plain_append by (intro conjI assms) code_simp+
  have w: "\<not> contains_str ''config not found'' ''stack''" "\<not> contains_str ''config not found'' ''revision''"
    "contains_str ''config not found'' ''config''" by code_simp+
  show ?thesis unfolding mapError_classify s unfolding named_error [OF p] unfolding classify_def using w by simp
qed

lemma secret_missing_text:
  assumes "plain name"
  shows "mapError 404 (error_text (''secret not found: '' @ name)) =
     (if contains_str name ''stack'' then Sentinel ErrStackNotFound
      else if contains_str name ''revision'' then Sentinel ErrRevisionNotFound
      else if contains_str name ''config'' then Sentinel ErrConfigNotFound
      else Sentinel ErrSecretNotFound)"
proof -
  have s: "''secret not found: '' @ name = ''secret not found'' @ '': '' @ name" by simp
  have p: "plain (''secret not found'' @ '': '' @ name)"
    unfolding plain_append by (intro conjI assms) code_simp+
  have w: "\<not> contains_str ''secret not found'' ''stack''" "\<not> contains_str ''secret not found'' ''revision''"
    "\<not> contains_str ''secret not found'' ''config''" "contains_str ''secret not found'' ''secret''" by code_simp+
  show ?thesis unfolding mapError_classify s unfolding named_error [OF p] unfolding classify_def using w by simp
qed

lemma config_exists_text:
  assumes "plain name"
  shows "mapError 409 (error_text (''config already exists: '' @ name)) =
     (if contains_str name ''webhook'' then Sentinel ErrWebhookSourceExists else Sentinel ErrConfigExists)"
proof -
  have s: "''config already exists: '' @ name = ''config already exists'' @ '': '' @ name" by simp
  have p: "plain (''config already exists'' @ '': '' @ name)"
    unfolding plain_append by (intro conjI assms) code_simp+
  have w: "\<not> contains_str ''config already exists'' ''webhook''"
    "contains_str ''config already exists'' ''config''" by code_simp+
  show ?thesis unfolding mapError_classify s unfolding named_error [OF p] unfolding classify_def using w by simp
qed

lemma secret_exists_text:
  assumes "plain name"
  shows "mapError 409 (error_text (''secret already exists: '' @ name)) =
     (if contains_str name ''webhook'' then Sentinel ErrWebhookSourceExists
      else if contains_str name ''config'' then Sentinel ErrConfigExists else Sentinel ErrSecretExists)"
proof -
  have s: "''secret already exists: '' @ name = ''secret already exists'' @ '': '' @ name" by simp
  have p: "plain (''secret already exists'' @ '': '' @ name)"
    unfolding plain_append by (intro conjI assms) code_simp+
  have w: "\<not> contains_str ''secret already exists'' ''webhook''" "\<not> contains_str ''secret already exists'' ''config''"
    "contains_str ''secret already exists'' ''secret''" by code_simp+
  show ?thesis unfolding mapError_classify s unfolding named_error [OF p] unfolding classify_def using w by simp
qed

lemma version_missing_text:
  "mapError 404 (error_text ''config version not found'') = Sentinel ErrConfigNotFound"
  by code_simp

lemma quietD:
  assumes "quiet name"
  shows "name \<noteq> []" "plain name" "\<not> contains_str name ''stack''" "\<not> contains_str name ''revision''"
    "\<not> contains_str name ''config''" "\<not> contains_str name ''webhook''"
  using assms words_listed by (auto simp: quiet_def list_all_iff)

lemma quiet_texts:
  assumes "quiet name"
  shows "mapError 404 (error_text (''config not found: '' @ name)) = Sentinel ErrConfigNotFound"
    "mapError 404 (error_text (''secret not found: '' @ name)) = Sentinel ErrSecretNotFound"
    "mapError 409 (error_text (''config already exists: '' @ name)) = Sentinel ErrConfigExists"
    "mapError 409 (error_text (''secret already exists: '' @ name)) = Sentinel ErrSecretExists"
  using quietD [OF assms]
  by (simp_all add: config_missing_text secret_missing_text config_exists_text secret_exists_text
      del: append.simps)

section \<open>Configs over HTTP\<close>

lemmas call_defs = do_unit_def do_request_def in_struct_def as_struct_def jfield_def decode_body_def
  as_str_def as_int_def as_bool_def as_list_def

lemma UpdateConfig_error: "UpdateConfig h now n c v db = (Inl e, db') \<Longrightarrow> e = ErrConfigNotFound"
  by (auto simp: UpdateConfig_def Let_def split: option.splits if_splits)

lemma DeleteConfig_error: "DeleteConfig n db = (Inl e, db') \<Longrightarrow> e = ErrConfigNotFound"
  by (auto simp: DeleteConfig_def split: if_splits)

lemma RollbackConfig_error:
  "RollbackConfig now n i db = (Inl e, db') \<Longrightarrow> e = ErrConfigNotFound \<or> e = ErrConfigVersionNotFound"
  by (auto simp: RollbackConfig_def Let_def split: option.splits)

lemma remote_config_delete:
  assumes "quiet name"
  shows "remote_configs_Delete (api_server ae) name db = map_prod (map_sum Sentinel id) id (DeleteConfig name db)"
proof -
  obtain r db' where d: "DeleteConfig name db = (r, db')" by (cases "DeleteConfig name db")
  show ?thesis
    unfolding remote_configs_Delete_def do_unit_def do_request_def config_requests [OF quietD(1) [OF assms]]
      http_configs_remove_def d prod.case
    using quiet_texts(1) [OF assms] DeleteConfig_error d by (cases r) auto
qed

lemma all_some_map: "(\<And>x. f (g x) = Some (h x)) \<Longrightarrow> all_some (map f (map g xs)) = Some (map h xs)"
  by (induction xs) simp_all

lemma as_list_map: "(\<And>x. f (g x) = Some (h x)) \<Longrightarrow> as_list f (JArr (map g xs)) = Some (map h xs)"
  by (simp only: as_list_def json.case all_some_map)

text \<open>What each endpoint leaves out of a config.\<close>

definition get_view :: "Config \<Rightarrow> Config" where
  "get_view c = c\<lparr> cfStack := [], cfRendered := [], cfCreatedAt := 0, cfUpdatedAt := 0 \<rparr>"

definition list_view :: "Config \<Rightarrow> Config" where
  "list_view c = c\<lparr> cfContent := [], cfRendered := [] \<rparr>"

definition rendered_view :: "Config \<Rightarrow> Config" where
  "rendered_view c = \<lparr> cfID = 0, cfScope = [], cfStack = [], cfName = cfName c, cfKind = [], cfVersion = [],
     cfHash = [], cfContent = [], cfRendered = cfRendered c, cfCreatedAt = 0, cfUpdatedAt = 0 \<rparr>"

lemma config_dto_row: "config_dto (config_row_json c) = Some (list_view c)"
  by (simp add: config_dto_def config_row_json_def list_view_def call_defs omit_str_def)

lemma config_dto_get:
  "config_dto (JObj [(''id'', JInt (cfID c)), (''scope'', JStr (cfScope c)), (''name'', JStr (cfName c)),
     (''kind'', JStr (cfKind c)), (''version'', JStr (cfVersion c)), (''hash'', JStr (cfHash c)),
     (''content'', JStr (cfContent c))]) = Some (get_view c)"
  by (simp add: config_dto_def get_view_def call_defs)

lemma config_version_dto_row: "config_version_dto (config_version_json v) = Some v"
  by (simp add: config_version_dto_def config_version_json_def call_defs)

lemma in_struct_obj: "in_struct k f (JObj fs) = f (case map_of fs k of Some v \<Rightarrow> v | None \<Rightarrow> JNull)"
  by (simp add: in_struct_def as_struct_def jfield_def)

lemma remote_config_get:
  assumes "quiet name"
  shows "remote_configs_Get (api_server ae) name db = (map_sum Sentinel get_view (Configs_Get name db), db)"
proof -
  have "GetConfig name db = Inl e \<Longrightarrow> e = ErrConfigNotFound" for e
    by (auto simp: GetConfig_def split: option.splits)
  then show ?thesis
    unfolding remote_configs_Get_def do_request_def config_requests [OF quietD(1) [OF assms]]
      http_configs_get_def
    using quiet_texts(1) [OF assms]
    by (cases "GetConfig name db") (auto simp: Configs_Get_def config_dto_get)
qed

lemma remote_config_update:
  assumes "quiet name"
  shows "remote_configs_Update (api_server ae) name content v db = map_prod (map_sum Sentinel id) id
    (UpdateConfig (dmHash (aeDaemon ae)) (dmNow (aeDaemon ae)) name content (dmVersion (aeDaemon ae)) db)"
proof -
  obtain r db' where u: "UpdateConfig (dmHash (aeDaemon ae)) (dmNow (aeDaemon ae)) name content
      (dmVersion (aeDaemon ae)) db = (r, db')" by (metis surj_pair)
  have b: "decode_body [''content''] (\<lambda>j. as_str (jfield ''content'' j))
      (map_option Inr (Some (JObj [(''content'', JStr content)]))) = Inr content"
    by (simp add: call_defs)
  show ?thesis
    unfolding remote_configs_Update_def do_request_def config_requests [OF quietD(1) [OF assms]]
      http_configs_update_def b sum.case u prod.case
    using quiet_texts(1) [OF assms] u
    by (cases r) (auto simp: in_struct_obj as_str_def dest: UpdateConfig_error)
qed

text \<open>Over HTTP a missing version looks like a missing config.\<close>

definition blur :: "store_err \<Rightarrow> store_err" where
  "blur e = (if e = ErrConfigVersionNotFound then ErrConfigNotFound else e)"

lemma remote_config_rollback:
  assumes "quiet name" "0 < vid"
  shows "remote_configs_Rollback (api_server ae) name vid db = map_prod (map_sum (Sentinel \<circ> blur) id) id
    (RollbackConfig (dmNow (aeDaemon ae)) name vid db)"
proof -
  obtain r db' where u: "RollbackConfig (dmNow (aeDaemon ae)) name vid db = (r, db')" by (metis surj_pair)
  have b: "decode_body [''version_id''] (\<lambda>j. as_int (jfield ''version_id'' j))
      (map_option Inr (Some (JObj [(''version_id'', JInt vid)]))) = Inr vid"
    by (simp add: call_defs)
  show ?thesis
    unfolding remote_configs_Rollback_def do_request_def config_requests [OF quietD(1) [OF assms(1)]]
      http_configs_rollback_def b sum.case u prod.case
    using quiet_texts(1) [OF assms(1)] version_missing_text u assms(2)
    by (cases r) (auto simp: in_struct_obj as_str_def blur_def dest: RollbackConfig_error)
qed

lemma remote_config_versions:
  assumes "quiet name"
  shows "remote_configs_ListVersions (api_server ae) name db =
    (map_sum Sentinel id (Configs_ListVersions name db), db)"
proof -
  have "Configs_ListVersions name db = Inl e \<Longrightarrow> e = ErrConfigNotFound" for e
    by (auto simp: Configs_ListVersions_def ListConfigVersions_def split: option.splits)
  moreover have "as_list config_version_dto (JArr (map config_version_json vs)) = Some (map id vs)" for vs
    by (rule as_list_map) (simp add: config_version_dto_row)
  ultimately show ?thesis
    unfolding remote_configs_ListVersions_def do_request_def config_requests [OF quietD(1) [OF assms]]
      http_configs_versions_def
    using quiet_texts(1) [OF assms]
    by (cases "Configs_ListVersions name db") (auto simp: in_struct_obj)
qed

lemma query_args_query:
  "query_param ''scope'' \<lparr> rqMethod = m, rqPath = ps, rqQuery = query_args [(''scope'', a), (''stack'', b)], rqBody = bd \<rparr> = a"
  "query_param ''stack'' \<lparr> rqMethod = m, rqPath = ps, rqQuery = query_args [(''scope'', a), (''stack'', b)], rqBody = bd \<rparr> = b"
  by (simp_all add: query_param_def query_args_def)

lemma remote_config_list:
  "remote_configs_List (api_server ae) scope stack db = (Inr (map list_view (Configs_List scope stack db)), db)"
proof -
  have "as_list config_dto (JArr (map config_row_json cs)) = Some (map list_view cs)" for cs
    by (rule as_list_map) (rule config_dto_row)
  moreover have "''x'' \<noteq> []" by simp
  ultimately show ?thesis
    unfolding remote_configs_List_def do_request_def config_requests [of "''x''"] query_args_query
    by (simp add: config_requests(7) [of "''x''"] query_args_query http_configs_list_def in_struct_obj)
qed

lemma remote_config_rendered:
  "remote_configs_ListRendered (api_server ae) db = (Inr (map rendered_view (Configs_ListRendered db)), db)"
proof -
  have "as_list rendered_dto (JArr (map (\<lambda>c. JObj [(''name'', JStr (cfName c)), (''content'', JStr (cfRendered c))]) cs))
      = Some (map rendered_view cs)" for cs
    by (rule as_list_map) (simp add: rendered_dto_def rendered_view_def call_defs)
  then show ?thesis
    by (simp add: remote_configs_ListRendered_def do_request_def config_requests(8) [of "''x''"]
        http_configs_rendered_def in_struct_obj)
qed

lemma remote_config_create:
  assumes "quiet name" "trim_space name = name" "trim_space stack = stack" "scope_ok scope" "kind_ok kind"
    and "stack \<noteq> [] \<Longrightarrow> scope = ''service''"
  shows "remote_configs_Create (api_server ae) scope stack name kind content v db = map_prod (map_sum Sentinel id) id
    (CreateConfig (dmHash (aeDaemon ae)) (dmNow (aeDaemon ae)) scope stack name kind content (dmVersion (aeDaemon ae)) db)"
proof -
  let ?b = "\<lparr> ccScope = scope, ccStack = stack, ccName = name, ccKind = kind, ccContent = content \<rparr>"
  obtain r db' where u: "CreateConfig (dmHash (aeDaemon ae)) (dmNow (aeDaemon ae)) scope stack name kind content
      (dmVersion (aeDaemon ae)) db = (r, db')" by (metis surj_pair)
  have e: "r = Inl e \<Longrightarrow> e = ErrConfigExists" for e
    using u assms(4,5) by (auto simp: CreateConfig_def Let_def split: if_splits)
  have b: "decode_body [''scope'', ''stack'', ''name'', ''kind'', ''content''] decode_createConfig
      (map_option Inr (Some (JObj [(''scope'', JStr scope), (''stack'', JStr stack), (''name'', JStr name),
         (''kind'', JStr kind), (''content'', JStr content)]))) = Inr ?b"
    by (simp add: call_defs decode_createConfig_def)
  have "trim_space scope = scope \<and> scope \<noteq> []"
    using assms(4) unfolding scope_ok_def by (elim disjE; hypsubst; code_simp)
  moreover have "trim_space kind = kind \<and> kind \<noteq> []"
    using assms(5) unfolding kind_ok_def by (elim disjE; hypsubst; code_simp)
  ultimately have c: "check_config_request ?b = Inr ?b"
    using assms quietD(1) [OF assms(1)] by (auto simp: check_config_request_def Let_def scope_ok_def kind_ok_def)
  show ?thesis
    unfolding remote_configs_Create_def do_request_def config_requests(6) [OF quietD(1) [OF assms(1)]]
      http_configs_create_def b c sum.case createConfigRequest.simps u prod.case
    using quiet_texts(3) [OF assms(1)] e
    by (cases r) (auto simp: in_struct_obj as_int_def)
qed

section \<open>Secrets over HTTP\<close>

text \<open>A failure of the cipher is an error of the daemon; only its text crosses.\<close>

definition secret_seen :: "vault \<Rightarrow> string \<Rightarrow> secret_err \<Rightarrow> remote_err" where
  "secret_seen va op e =
     (case e of Secret_Store se \<Rightarrow> Sentinel se | Secret_Cipher ce \<Rightarrow> Api_Error 500 (error_text (op @ vaText va ce)))"

lemma mapError_500 [simp]: "mapError 500 (error_text m) = Api_Error 500 (error_text m)"
  by (simp add: mapError_def error_text_def)

lemma Secrets_Delete_error: "Secrets_Delete n db = (Inl e, db') \<Longrightarrow> e = Secret_Store ErrSecretNotFound"
  by (auto simp: Secrets_Delete_def DeleteSecret_def split: if_splits)

lemma Secrets_Update_error:
  "Secrets_Update va dm n v db = (Inl e, db') \<Longrightarrow> e = Secret_Store ErrSecretNotFound \<or> (\<exists>ce. e = Secret_Cipher ce)"
  by (auto simp: Secrets_Update_def UpdateSecret_def split: if_splits sum.splits)

lemma Secrets_Create_error:
  "scope_ok scope \<Longrightarrow> Secrets_Create va dm scope stack n v db = (Inl e, db') \<Longrightarrow>
     e = Secret_Store ErrSecretExists \<or> (\<exists>ce. e = Secret_Cipher ce)"
  by (auto simp: Secrets_Create_def CreateSecret_def Let_def split: if_splits sum.splits)

lemma map_sum_Inl: "map_sum f g x = Inl e \<longleftrightarrow> (\<exists>a. x = Inl a \<and> e = f a)"
  by (cases x) auto

lemma Secrets_Reveal_error:
  "Secrets_Reveal va n db = Inl e \<Longrightarrow> e = Secret_Store ErrSecretNotFound \<or> (\<exists>ce. e = Secret_Cipher ce)"
  by (auto simp: Secrets_Reveal_def GetSecret_def map_sum_Inl split: option.splits sum.splits)

lemma remote_secret_delete:
  assumes "quiet name"
  shows "remote_secrets_Delete (api_server ae) name db =
    map_prod (map_sum (secret_seen (aeVault ae) ''delete secret: '') id) id (Secrets_Delete name db)"
proof -
  obtain r db' where d: "Secrets_Delete name db = (r, db')" by (cases "Secrets_Delete name db")
  show ?thesis
    unfolding remote_secrets_Delete_def do_unit_def do_request_def secret_requests [OF quietD(1) [OF assms]]
      http_secrets_remove_def if_not_P [OF quietD(1) [OF assms]] d prod.case
    using quiet_texts(2) [OF assms] d
    by (cases r) (auto simp: secret_seen_def dest: Secrets_Delete_error)
qed

lemma remote_secret_update:
  assumes "quiet name" "value \<noteq> []"
  shows "remote_secrets_Update (api_server ae) name value db =
    map_prod (map_sum (secret_seen (aeVault ae) ''update secret: '') id) id
      (Secrets_Update (aeVault ae) (aeDaemon ae) name value db)"
proof -
  obtain r db' where u: "Secrets_Update (aeVault ae) (aeDaemon ae) name value db = (r, db')" by (metis surj_pair)
  have b: "decode_body [''value''] (\<lambda>j. as_str (jfield ''value'' j))
      (map_option Inr (Some (JObj [(''value'', JStr value)]))) = Inr value"
    by (simp add: call_defs)
  show ?thesis
    unfolding remote_secrets_Update_def do_unit_def do_request_def secret_requests [OF quietD(1) [OF assms(1)]]
      http_secrets_update_def if_not_P [OF quietD(1) [OF assms(1)]] b sum.case if_not_P [OF assms(2)] u prod.case
    using quiet_texts(2) [OF assms(1)] u
    by (cases r) (auto simp: secret_seen_def secret_text_def dest!: Secrets_Update_error)
qed

lemma remote_secret_reveal:
  assumes "quiet name"
  shows "remote_secrets_Reveal (api_server ae) name db =
    (map_sum (secret_seen (aeVault ae) ''reveal secret: '') id (Secrets_Reveal (aeVault ae) name db), db)"
proof -
  show ?thesis
    unfolding remote_secrets_Reveal_def do_request_def secret_requests [OF quietD(1) [OF assms]]
      http_secrets_value_def if_not_P [OF quietD(1) [OF assms]]
    using quiet_texts(2) [OF assms]
    by (cases "Secrets_Reveal (aeVault ae) name db")
      (auto simp: secret_seen_def secret_text_def in_struct_obj as_str_def dest!: Secrets_Reveal_error)
qed

lemma secret_dto_row: "secret_dto (secret_row_json x) = Some x"
  by (simp add: secret_dto_def secret_row_json_def call_defs omit_str_def)

lemma remote_secret_list:
  "remote_secrets_List (api_server ae) scope stack db = (Inr (Secrets_List scope stack db), db)"
proof -
  have "as_list secret_dto (JArr (map secret_row_json xs)) = Some (map id xs)" for xs
    by (rule as_list_map) (simp add: secret_dto_row)
  then show ?thesis
    unfolding remote_secrets_List_def do_request_def
    by (simp add: secret_requests(5) [of "''x''"] query_args_query http_secrets_list_def in_struct_obj)
qed

text \<open>The metadata of one secret is looked up in the list.\<close>

lemma find_model:
  "find (\<lambda>r. seName r = n) (map secret_model (map (\<lambda>r. r\<lparr> secPayload := [] \<rparr>) rows)) =
     map_option secret_model (find (\<lambda>r. secName r = n) rows)"
  by (induction rows) (simp_all add: secret_model_def)

lemma remote_secret_get:
  assumes "secrets_inv db"
  shows "remote_secrets_Get (api_server ae) name db =
    (map_sum (secret_seen (aeVault ae) []) id (Secrets_Get name db), db)"
proof -
  let ?sorted = "sort_key (\<lambda>r. (secScope r, secStack r, secName r)) (dbSecrets db)"
  have u: "unique_key secName (dbSecrets db)" "unique_key secName ?sorted"
    using assms by (simp_all add: secrets_inv_def unique_key_def distinct_map)
  have "find (\<lambda>r. secName r = name) ?sorted = row_find secName name (dbSecrets db)"
    using row_find_unique [OF u(1), of name] row_find_unique [OF u(2), of name]
      row_find_None [of secName name "dbSecrets db"] row_find_None [of secName name ?sorted]
    unfolding row_find_def by (metis (lifting) option.exhaust set_sort)
  then have "find (\<lambda>r. seName r = name) (Secrets_List [] [] db) =
      map_option secret_model (row_find secName name (dbSecrets db))"
    unfolding Secrets_List_def ListSecrets_def find_model by (simp add: wild_def)
  then show ?thesis
    by (simp add: remote_secrets_Get_def remote_secret_list Secrets_Get_def GetSecret_def secret_seen_def
        split: option.splits)
qed

lemma remote_secret_create:
  assumes "quiet name" "trim_space name = name" "trim_space stack = stack" "scope_ok scope" "value \<noteq> []"
    and "stack \<noteq> [] \<Longrightarrow> scope = ''service''"
  shows "remote_secrets_Create (api_server ae) scope stack name value db =
    map_prod (map_sum (secret_seen (aeVault ae) ''create secret: '') id) id
      (Secrets_Create (aeVault ae) (aeDaemon ae) scope stack name value db)"
proof -
  obtain r db' where u: "Secrets_Create (aeVault ae) (aeDaemon ae) scope stack name value db = (r, db')"
    by (metis surj_pair)
  have b: "decode_body [''name'', ''scope'', ''stack'', ''value''] decode_createSecret
      (map_option Inr (Some (JObj [(''scope'', JStr scope), (''stack'', JStr stack), (''name'', JStr name),
         (''value'', JStr value)]))) = Inr (name, scope, stack, value)"
    by (simp add: call_defs decode_createSecret_def)
  have "trim_space scope = scope \<and> scope \<noteq> []"
    using assms(4) unfolding scope_ok_def by (elim disjE; hypsubst; code_simp)
  then have c: "check_secret_request (name, scope, stack, value) = Inr (name, scope, stack, value)"
    using assms quietD(1) [OF assms(1)] by (auto simp: check_secret_request_def Let_def scope_ok_def)
  show ?thesis
    unfolding remote_secrets_Create_def do_request_def secret_requests(4) [OF quietD(1) [OF assms(1)]]
      http_secrets_create_def b c sum.case prod.case u
    using quiet_texts(4) [OF assms(1)] u
    by (cases r) (auto simp: in_struct_obj as_int_def secret_seen_def secret_text_def
        dest!: Secrets_Create_error [OF assms(4)])
qed

end
