(* ===== verification/Api_Properties.thy ===== *)
theory Api_Properties
  imports Api_Refinement
begin

text \<open>
  What the store-backed contexts of the API promise: the locale of a port of named things with its four
  providers, the refinement of the local configs port by the remote one, what goes wrong for other
  names, and the protections of API keys, settings and usage.
\<close>

section \<open>A port of named things\<close>

locale named_port =
  fixes ok :: "string \<Rightarrow> bool"
    and get :: "string \<Rightarrow> 's \<Rightarrow> 'e + 'v"
    and remove :: "string \<Rightarrow> 's \<Rightarrow> ('e + unit) \<times> 's"
    and absent :: 'e
  assumes get_cases: "ok n \<Longrightarrow> get n s = Inl e \<Longrightarrow> e = absent"
    and remove_known: "ok n \<Longrightarrow> is_ok (get n s) \<Longrightarrow> fst (remove n s) = Inr ()"
    and remove_absent: "ok n \<Longrightarrow> get n s = Inl absent \<Longrightarrow> remove n s = (Inl absent, s)"
    and removed: "ok n \<Longrightarrow> fst (remove n s) = Inr () \<Longrightarrow> get n (snd (remove n s)) = Inl absent"
    and others: "ok n \<Longrightarrow> ok m \<Longrightarrow> m \<noteq> n \<Longrightarrow> get m (snd (remove n s)) = get m s"
begin

lemma remove_outcome:
  assumes "ok n"
  shows "fst (remove n s) = (if is_ok (get n s) then Inr () else Inl absent)"
proof (cases "get n s")
  case (Inl e)
  then have "get n s = Inl absent" using get_cases [OF assms] by blast
  then show ?thesis using remove_absent [OF assms] by simp
next
  case (Inr v)
  then show ?thesis using remove_known [OF assms, of s] by simp
qed

lemma removed_always:
  assumes "ok n"
  shows "get n (snd (remove n s)) = Inl absent"
proof (cases "get n s")
  case (Inl e)
  then have "get n s = Inl absent" using get_cases [OF assms] by blast
  then show ?thesis using remove_absent [OF assms] by simp
next
  case (Inr v)
  then show ?thesis using remove_known [OF assms, of s] removed [OF assms, of s] by simp
qed

lemma remove_again: "ok n \<Longrightarrow> remove n (snd (remove n s)) = (Inl absent, snd (remove n s))"
  by (rule remove_absent [OF _ removed_always])

text \<open>Removing a list of names leaves exactly the names outside it.\<close>

lemma remove_all:
  assumes "list_all ok ns" "ok m"
  shows "get m (fold (\<lambda>n s. snd (remove n s)) ns s) = (if m \<in> set ns then Inl absent else get m s)"
  using assms
proof (induction ns arbitrary: s)
  case (Cons n ns)
  have "get m (snd (remove n s)) = (if m = n then Inl absent else get m s)"
    using others removed_always Cons.prems by auto
  then show ?case using Cons by auto
qed simp

end

lemma GetConfig_delete:
  "GetConfig m (snd (DeleteConfig n db)) = (if m = n then Inl ErrConfigNotFound else GetConfig m db)"
proof -
  have "row_find cfgName m (filter (\<lambda>c. cfgName c \<noteq> n) rows) =
      (if m = n then None else row_find cfgName m rows)" for rows :: "ConfigRow list"
    using row_find_delete [of cfgName m n rows] by (simp add: row_delete_def)
  then show ?thesis
    by (auto simp: DeleteConfig_def GetConfig_def delete_configs_def Let_def split: option.splits)
qed

lemma GetSecret_delete:
  "GetSecret m (snd (DeleteSecret n db)) = (if m = n then Inl ErrSecretNotFound else GetSecret m db)"
  by (auto simp: DeleteSecret_def GetSecret_def tbl_simps split: option.splits)

lemma Delete_outcomes:
  "DeleteConfig n db = (if is_ok (GetConfig n db) then (Inr (), snd (DeleteConfig n db)) else (Inl ErrConfigNotFound, db))"
  "DeleteSecret n db = (if is_ok (GetSecret n db) then (Inr (), snd (DeleteSecret n db)) else (Inl ErrSecretNotFound, db))"
  by (auto simp: DeleteConfig_def DeleteSecret_def GetConfig_def GetSecret_def split: option.splits)

lemma is_ok_map_sum [simp]: "is_ok (map_sum f g x) = is_ok x"
  by (cases x) simp_all

text \<open>The local adapters provide the port for every name, the remote ones for quiet names.\<close>

interpretation local_configs: named_port "\<lambda>_. True" Configs_Get DeleteConfig ErrConfigNotFound
proof
  fix n m s e
  show "Configs_Get n s = Inl e \<Longrightarrow> e = ErrConfigNotFound"
    by (auto simp: Configs_Get_def GetConfig_def split: option.splits)
  show "is_ok (Configs_Get n s) \<Longrightarrow> fst (DeleteConfig n s) = Inr ()"
    "Configs_Get n s = Inl ErrConfigNotFound \<Longrightarrow> DeleteConfig n s = (Inl ErrConfigNotFound, s)"
    by (subst Delete_outcomes, auto simp: Configs_Get_def map_sum_Inl)+
  show "Configs_Get n (snd (DeleteConfig n s)) = Inl ErrConfigNotFound"
    "m \<noteq> n \<Longrightarrow> Configs_Get m (snd (DeleteConfig n s)) = Configs_Get m s"
    by (simp_all add: Configs_Get_def GetConfig_delete)
qed

interpretation local_secrets: named_port "\<lambda>_. True" Secrets_Get Secrets_Delete "Secret_Store ErrSecretNotFound"
proof
  fix n m s e
  show "Secrets_Get n s = Inl e \<Longrightarrow> e = Secret_Store ErrSecretNotFound"
    by (auto simp: Secrets_Get_def GetSecret_def split: option.splits)
  show "is_ok (Secrets_Get n s) \<Longrightarrow> fst (Secrets_Delete n s) = Inr ()"
    "Secrets_Get n s = Inl (Secret_Store ErrSecretNotFound) \<Longrightarrow>
       Secrets_Delete n s = (Inl (Secret_Store ErrSecretNotFound), s)"
    unfolding Secrets_Delete_def by (subst Delete_outcomes, auto simp: Secrets_Get_def map_sum_Inl)+
  show "Secrets_Get n (snd (Secrets_Delete n s)) = Inl (Secret_Store ErrSecretNotFound)"
    "m \<noteq> n \<Longrightarrow> Secrets_Get m (snd (Secrets_Delete n s)) = Secrets_Get m s"
    by (simp_all add: Secrets_Get_def Secrets_Delete_def GetSecret_delete)
qed

interpretation remote_configs: named_port quiet "\<lambda>n db. fst (remote_configs_Get (api_server ae) n db)"
    "remote_configs_Delete (api_server ae)" "Sentinel ErrConfigNotFound" for ae
proof
  fix n m s e assume n: "quiet n"
  note eqs = remote_config_get [OF n] remote_config_delete [OF n]
  show "fst (remote_configs_Get (api_server ae) n s) = Inl e \<Longrightarrow> e = Sentinel ErrConfigNotFound"
    using local_configs.get_cases [of n s] by (auto simp: eqs map_sum_Inl)
  show "is_ok (fst (remote_configs_Get (api_server ae) n s)) \<Longrightarrow> fst (remote_configs_Delete (api_server ae) n s) = Inr ()"
    using local_configs.remove_known [of n s] by (simp add: eqs)
  show "fst (remote_configs_Get (api_server ae) n s) = Inl (Sentinel ErrConfigNotFound) \<Longrightarrow>
      remote_configs_Delete (api_server ae) n s = (Inl (Sentinel ErrConfigNotFound), s)"
    using local_configs.remove_absent [of n s] by (auto simp: eqs map_sum_Inl)
  show "fst (remote_configs_Get (api_server ae) n (snd (remote_configs_Delete (api_server ae) n s))) =
      Inl (Sentinel ErrConfigNotFound)"
    using local_configs.removed_always [of n s] by (simp add: eqs)
  show "quiet m \<Longrightarrow> m \<noteq> n \<Longrightarrow> fst (remote_configs_Get (api_server ae) m (snd (remote_configs_Delete (api_server ae) n s))) =
      fst (remote_configs_Get (api_server ae) m s)"
    using local_configs.others [of m n s] by (simp add: eqs remote_config_get)
qed

lemma Secrets_List_delete:
  "Secrets_List [] [] (snd (Secrets_Delete n db)) = filter (\<lambda>r. seName r \<noteq> n) (Secrets_List [] [] db)"
proof -
  have "Secrets_List [] [] (snd (Secrets_Delete n db)) = Secrets_List [] [] (db\<lparr> dbSecrets := row_delete secName n (dbSecrets db) \<rparr>)"
  proof (cases "row_find secName n (dbSecrets db)")
    case None
    then have "row_delete secName n (dbSecrets db) = dbSecrets db"
      by (auto simp: row_find_None row_delete_def filter_id_conv image_iff)
    then show ?thesis using None by (simp add: Secrets_Delete_def DeleteSecret_def)
  qed (simp add: Secrets_Delete_def DeleteSecret_def)
  then show ?thesis
    by (simp add: Secrets_List_def ListSecrets_def wild_def row_delete_def filter_map o_def secret_model_def
        filter_sort [symmetric])
qed

lemma find_filter: "(\<And>x. P x \<Longrightarrow> Q x) \<Longrightarrow> find P (filter Q xs) = find P xs"
  by (induction xs) auto

lemma remote_secret_found:
  "fst (remote_secrets_Get (api_server ae) n db) =
    (case find (\<lambda>r. seName r = n) (Secrets_List [] [] db) of
       None \<Rightarrow> Inl (Sentinel ErrSecretNotFound) | Some r \<Rightarrow> Inr r)"
  by (simp add: remote_secrets_Get_def remote_secret_list split: option.splits)

lemma secret_listed: "find (\<lambda>r. seName r = n) (Secrets_List [] [] db) = None \<longleftrightarrow> GetSecret n db = Inl ErrSecretNotFound"
proof -
  have "find (\<lambda>r. seName r = n) (Secrets_List [] [] db) = None \<longleftrightarrow> n \<notin> secName ` set (dbSecrets db)"
    unfolding Secrets_List_def ListSecrets_def find_model by (auto simp: find_None_iff wild_def)
  also have "\<dots> \<longleftrightarrow> GetSecret n db = Inl ErrSecretNotFound"
    by (simp add: GetSecret_def row_find_None [symmetric] split: option.splits)
  finally show ?thesis .
qed

interpretation remote_secrets: named_port quiet "\<lambda>n db. fst (remote_secrets_Get (api_server ae) n db)"
    "remote_secrets_Delete (api_server ae)" "Sentinel ErrSecretNotFound" for ae
proof
  fix n m s e assume n: "quiet n"
  note eqs = remote_secret_found remote_secret_delete [OF n]
  show "fst (remote_secrets_Get (api_server ae) n s) = Inl e \<Longrightarrow> e = Sentinel ErrSecretNotFound"
    by (simp add: eqs split: option.splits)
  have known: "is_ok (Secrets_Get n s) = (find (\<lambda>r. seName r = n) (Secrets_List [] [] s) \<noteq> None)"
    unfolding secret_listed by (auto simp: Secrets_Get_def GetSecret_def split: option.splits)
  show "is_ok (fst (remote_secrets_Get (api_server ae) n s)) \<Longrightarrow> fst (remote_secrets_Delete (api_server ae) n s) = Inr ()"
    using local_secrets.remove_known [of n s] known by (auto simp: eqs split: option.splits)
  show "fst (remote_secrets_Get (api_server ae) n s) = Inl (Sentinel ErrSecretNotFound) \<Longrightarrow>
      remote_secrets_Delete (api_server ae) n s = (Inl (Sentinel ErrSecretNotFound), s)"
    using local_secrets.remove_absent [of n s] secret_listed [of n s]
    by (auto simp: eqs secret_seen_def Secrets_Get_def split: option.splits)
  show "fst (remote_secrets_Get (api_server ae) n (snd (remote_secrets_Delete (api_server ae) n s))) =
      Inl (Sentinel ErrSecretNotFound)"
    by (simp add: eqs Secrets_List_delete find_None_iff split: option.splits)
  show "quiet m \<Longrightarrow> m \<noteq> n \<Longrightarrow> fst (remote_secrets_Get (api_server ae) m (snd (remote_secrets_Delete (api_server ae) n s))) =
      fst (remote_secrets_Get (api_server ae) m s)"
    by (simp add: eqs Secrets_List_delete find_filter)
qed

section \<open>The remote port refines the local one\<close>

lemma remote_configs_refine:
  assumes "quiet name" "0 < vid"
  shows "remote_configs_Get (api_server ae) name db = (map_sum Sentinel get_view (Configs_Get name db), db) \<and>
    remote_configs_List (api_server ae) scope stack db = (Inr (map list_view (Configs_List scope stack db)), db) \<and>
    remote_configs_ListRendered (api_server ae) db = (Inr (map rendered_view (Configs_ListRendered db)), db) \<and>
    remote_configs_ListVersions (api_server ae) name db = (map_sum Sentinel id (Configs_ListVersions name db), db) \<and>
    remote_configs_Delete (api_server ae) name db = map_prod (map_sum Sentinel id) id (DeleteConfig name db) \<and>
    remote_configs_Update (api_server ae) name content v db = map_prod (map_sum Sentinel id) id
      (UpdateConfig (dmHash (aeDaemon ae)) (dmNow (aeDaemon ae)) name content (dmVersion (aeDaemon ae)) db) \<and>
    remote_configs_Rollback (api_server ae) name vid db = map_prod (map_sum (Sentinel \<circ> blur) id) id
      (RollbackConfig (dmNow (aeDaemon ae)) name vid db) \<and>
    (trim_space name = name \<and> trim_space stk = stk \<and> scope_ok sc \<and> kind_ok kind \<and> (stk \<noteq> [] \<longrightarrow> sc = ''service'') \<longrightarrow>
      remote_configs_Create (api_server ae) sc stk name kind content v db = map_prod (map_sum Sentinel id) id
        (CreateConfig (dmHash (aeDaemon ae)) (dmNow (aeDaemon ae)) sc stk name kind content
           (dmVersion (aeDaemon ae)) db))"
  using assms
  by (simp add: remote_config_get remote_config_list remote_config_rendered remote_config_versions
      remote_config_delete remote_config_update remote_config_rollback remote_config_create)

text \<open>Property C35.  Through the daemon's bearer middleware, with a token it accepts, the remote configs
  adapter does what the local one does on the store in which the token's user is marked as just seen.
  The name is one that \<^verbatim>\<open>encoding/json\<close> leaves as it is and that has none of the words the client looks
  for in error texts, and the version id is positive.  The exceptions: \<^verbatim>\<open>Get\<close> comes without the stack, the
  rendered document and the times, \<^verbatim>\<open>List\<close> without contents and rendered documents, \<^verbatim>\<open>ListRendered\<close> with name
  and rendered document only; \<^verbatim>\<open>Update\<close> and \<^verbatim>\<open>Create\<close> write the daemon's version and not the caller's;
  \<^verbatim>\<open>Rollback\<close> reports a missing version as a missing config; and \<^verbatim>\<open>Create\<close> agrees for requests the
  handler leaves as they are: trimmed, with a scope and a kind it knows, and a stack only for services.\<close>

theorem remote_configs_refine_local:
  assumes "quiet name" "0 < vid"
    and "fst (Bearer (UserByToken (aeArgon ae) (dmNow (aeDaemon ae))) header db0) = Pass u"
    and "db = TouchUser (dmNow (aeDaemon ae)) (auID u) db0"
  shows "remote_configs_Get (bearer_api ae header) name db0 = (map_sum Sentinel get_view (Configs_Get name db), db) \<and>
    remote_configs_List (bearer_api ae header) scope stack db0 = (Inr (map list_view (Configs_List scope stack db)), db) \<and>
    remote_configs_ListRendered (bearer_api ae header) db0 = (Inr (map rendered_view (Configs_ListRendered db)), db) \<and>
    remote_configs_ListVersions (bearer_api ae header) name db0 = (map_sum Sentinel id (Configs_ListVersions name db), db) \<and>
    remote_configs_Delete (bearer_api ae header) name db0 = map_prod (map_sum Sentinel id) id (DeleteConfig name db) \<and>
    remote_configs_Update (bearer_api ae header) name content v db0 = map_prod (map_sum Sentinel id) id
      (UpdateConfig (dmHash (aeDaemon ae)) (dmNow (aeDaemon ae)) name content (dmVersion (aeDaemon ae)) db) \<and>
    remote_configs_Rollback (bearer_api ae header) name vid db0 = map_prod (map_sum (Sentinel \<circ> blur) id) id
      (RollbackConfig (dmNow (aeDaemon ae)) name vid db) \<and>
    (trim_space name = name \<and> trim_space stk = stk \<and> scope_ok sc \<and> kind_ok kind \<and> (stk \<noteq> [] \<longrightarrow> sc = ''service'') \<longrightarrow>
      remote_configs_Create (bearer_api ae header) sc stk name kind content v db0 = map_prod (map_sum Sentinel id) id
        (CreateConfig (dmHash (aeDaemon ae)) (dmNow (aeDaemon ae)) sc stk name kind content
           (dmVersion (aeDaemon ae)) db))"
proof -
  have "do_request (bearer_api ae header) m p q i g db0 = do_request (api_server (ae\<lparr> aeMe := Some u \<rparr>)) m p q i g db"
    for m p q i and g :: "json \<Rightarrow> 'x option"
    by (rule do_request_behind) (simp add: bearer_api_passes [OF assms(3)] assms(4))
  note one = this
  have calls: "remote_configs_Get (bearer_api ae header) name db0 = remote_configs_Get (api_server (ae\<lparr> aeMe := Some u \<rparr>)) name db"
    "remote_configs_List (bearer_api ae header) scope stack db0 = remote_configs_List (api_server (ae\<lparr> aeMe := Some u \<rparr>)) scope stack db"
    "remote_configs_ListRendered (bearer_api ae header) db0 = remote_configs_ListRendered (api_server (ae\<lparr> aeMe := Some u \<rparr>)) db"
    "remote_configs_ListVersions (bearer_api ae header) name db0 = remote_configs_ListVersions (api_server (ae\<lparr> aeMe := Some u \<rparr>)) name db"
    "remote_configs_Delete (bearer_api ae header) name db0 = remote_configs_Delete (api_server (ae\<lparr> aeMe := Some u \<rparr>)) name db"
    "remote_configs_Update (bearer_api ae header) name content v db0 = remote_configs_Update (api_server (ae\<lparr> aeMe := Some u \<rparr>)) name content v db"
    "remote_configs_Rollback (bearer_api ae header) name vid db0 = remote_configs_Rollback (api_server (ae\<lparr> aeMe := Some u \<rparr>)) name vid db"
    "remote_configs_Create (bearer_api ae header) sc stk name kind content v db0 =
       remote_configs_Create (api_server (ae\<lparr> aeMe := Some u \<rparr>)) sc stk name kind content v db"
    by (simp_all add: one remote_configs_Get_def remote_configs_List_def remote_configs_ListRendered_def
        remote_configs_ListVersions_def remote_configs_Delete_def remote_configs_Update_def
        remote_configs_Rollback_def remote_configs_Create_def do_unit_def)
  show ?thesis
    unfolding calls using remote_configs_refine [OF assms(1,2), of "ae\<lparr> aeMe := Some u \<rparr>" db] by simp
qed

lemma quiet_app: "quiet ''app.yml''"
  by code_simp

definition keyed_env :: api_env where
  "keyed_env = \<lparr> aeDaemon = \<lparr> dmHash = id, dmText = (\<lambda>_. []), dmVersion = ''v1'', dmNow = 7 \<rparr>,
     aeVault = \<lparr> vaSeal = toy_seal, vaUnseal = toy_unseal, vaNonce = None, vaText = (\<lambda>_. []) \<rparr>,
     aeArgon = toy_kdf, aeDraw = \<lparr> kdID = None, kdSecret = None, kdSalt = None \<rparr>, aeMe = None \<rparr>"

theorem remote_configs_refine_local_witness:
  "\<exists>stored. HashToken toy_kdf (Some (replicate 16 (CHR ''s''))) ''secret'' = Inr stored \<and>
     (let row = \<lparr> usID = 1, usName = ''ci'', usTokenID = None, usTokenHash = stored, usCreatedAt = 1, usLastUsedAt = 0 \<rparr>
      in remote_configs_Delete (bearer_api keyed_env ''Bearer secret'') ''app.yml'' (empty_store\<lparr> dbUsers := [row] \<rparr>) =
         (Inl (Sentinel ErrConfigNotFound), empty_store\<lparr> dbUsers := [row\<lparr> usLastUsedAt := 7 \<rparr>] \<rparr>))"
proof -
  obtain stored where h: "HashToken toy_kdf (Some (replicate 16 (CHR ''s''))) ''secret'' = Inr stored"
    by (simp add: HashToken_def)
  have ok: "VerifyToken toy_kdf ''secret'' stored = Inr True"
    using verify_hashed [OF h, of "''secret''"] by (simp add: toy_kdf_def)
  let ?row = "\<lparr> usID = 1, usName = ''ci'', usTokenID = None, usTokenHash = stored, usCreatedAt = 1, usLastUsedAt = 0 \<rparr>"
  let ?db0 = "empty_store\<lparr> dbUsers := [?row] \<rparr>"
  have x: "extractBearer ''Bearer secret'' = Some ''secret''" "SplitToken ''secret'' = ([], ''secret'')" by code_simp+
  have b: "fst (Bearer (UserByToken (aeArgon keyed_env) (dmNow (aeDaemon keyed_env))) ''Bearer secret'' ?db0) =
      Pass \<lparr> auID = 1, auName = ''ci'' \<rparr>"
    by (simp add: Bearer_def x UserByToken_def userByTokenLegacy_def keyed_env_def ok auth_user_of_def)
  have t: "TouchUser (dmNow (aeDaemon keyed_env)) (auID \<lparr> auID = 1, auName = ''ci'' \<rparr>) ?db0 =
      empty_store\<lparr> dbUsers := [?row\<lparr> usLastUsedAt := 7 \<rparr>] \<rparr>"
    by (simp add: TouchUser_def row_update_def keyed_env_def)
  have "DeleteConfig ''app.yml'' (empty_store\<lparr> dbUsers := us \<rparr>) = (Inl ErrConfigNotFound, empty_store\<lparr> dbUsers := us \<rparr>)" for us
    by (simp add: DeleteConfig_def empty_store_def row_find_def)
  then have "remote_configs_Delete (bearer_api keyed_env ''Bearer secret'') ''app.yml'' ?db0 =
      (Inl (Sentinel ErrConfigNotFound), empty_store\<lparr> dbUsers := [?row\<lparr> usLastUsedAt := 7 \<rparr>] \<rparr>)"
    using remote_configs_refine_local [OF quiet_app, of 1, OF _ b t [symmetric]] by simp
  then show ?thesis using h by (simp add: Let_def)
qed

text \<open>The client reads errors off the text of the answer, which holds the name: for a config
  that does not exist, removing it remotely reports a missing stack when its name contains
  \<^verbatim>\<open>stack\<close>, a missing revision when it contains \<^verbatim>\<open>revision\<close>, and a missing config otherwise; a
  secret's name has a third such word; and creating a config again whose name contains
  \<^verbatim>\<open>webhook\<close> reports an existing webhook source.\<close>

theorem remote_errors_depend_on_names:
  assumes "plain name" "name \<noteq> []"
  shows "(GetConfig name db = Inl ErrConfigNotFound \<longrightarrow>
      fst (remote_configs_Delete (api_server ae) name db) = Inl (Sentinel
        (if contains_str name ''stack'' then ErrStackNotFound
         else if contains_str name ''revision'' then ErrRevisionNotFound else ErrConfigNotFound))) \<and>
    (GetSecret name db = Inl ErrSecretNotFound \<longrightarrow>
      fst (remote_secrets_Delete (api_server ae) name db) = Inl (Sentinel
        (if contains_str name ''stack'' then ErrStackNotFound
         else if contains_str name ''revision'' then ErrRevisionNotFound
         else if contains_str name ''config'' then ErrConfigNotFound else ErrSecretNotFound))) \<and>
    (GetConfig name db \<noteq> Inl ErrConfigNotFound \<and> trim_space name = name \<longrightarrow>
      fst (remote_configs_Create (api_server ae) ''service'' [] name ''file'' content v db) = Inl (Sentinel
        (if contains_str name ''webhook'' then ErrWebhookSourceExists else ErrConfigExists)))"
proof (intro conjI impI)
  assume "GetConfig name db = Inl ErrConfigNotFound"
  then have "DeleteConfig name db = (Inl ErrConfigNotFound, db)" by (subst Delete_outcomes) simp
  then show "fst (remote_configs_Delete (api_server ae) name db) = Inl (Sentinel
        (if contains_str name ''stack'' then ErrStackNotFound
         else if contains_str name ''revision'' then ErrRevisionNotFound else ErrConfigNotFound))"
    unfolding remote_configs_Delete_def do_unit_def do_request_def config_requests [OF assms(2)] http_configs_remove_def
    using config_missing_text [OF assms(1)] by simp
next
  assume "GetSecret name db = Inl ErrSecretNotFound"
  then have "Secrets_Delete name db = (Inl (Secret_Store ErrSecretNotFound), db)"
    unfolding Secrets_Delete_def by (subst Delete_outcomes) simp
  then show "fst (remote_secrets_Delete (api_server ae) name db) = Inl (Sentinel
        (if contains_str name ''stack'' then ErrStackNotFound
         else if contains_str name ''revision'' then ErrRevisionNotFound
         else if contains_str name ''config'' then ErrConfigNotFound else ErrSecretNotFound))"
    unfolding remote_secrets_Delete_def do_unit_def do_request_def secret_requests [OF assms(2)] http_secrets_remove_def
      if_not_P [OF assms(2)]
    using secret_missing_text [OF assms(1)] by simp
next
  assume e: "GetConfig name db \<noteq> Inl ErrConfigNotFound \<and> trim_space name = name"
  let ?b = "\<lparr> ccScope = ''service'', ccStack = [], ccName = name, ccKind = ''file'', ccContent = content \<rparr>"
  have "CreateConfig h now ''service'' [] name ''file'' content ver db = (Inl ErrConfigExists, db)" for h now ver
    using e by (auto simp: CreateConfig_def GetConfig_def scope_ok_def kind_ok_def split: option.splits)
  moreover have "decode_body [''scope'', ''stack'', ''name'', ''kind'', ''content''] decode_createConfig
      (map_option Inr (Some (JObj [(''scope'', JStr ''service''), (''stack'', JStr []), (''name'', JStr name),
         (''kind'', JStr ''file''), (''content'', JStr content)]))) = Inr ?b"
    by (simp add: call_defs decode_createConfig_def)
  moreover have "check_config_request ?b = Inr ?b"
  proof -
    have "trim_space ''service'' = ''service''" "trim_space ''file'' = ''file''" "trim_space [] = []" by code_simp+
    then show ?thesis using e assms(2) by (simp add: check_config_request_def Let_def)
  qed
  ultimately show "fst (remote_configs_Create (api_server ae) ''service'' [] name ''file'' content v db) = Inl (Sentinel
        (if contains_str name ''webhook'' then ErrWebhookSourceExists else ErrConfigExists))"
    unfolding remote_configs_Create_def do_request_def config_requests(6) [OF assms(2)] http_configs_create_def
    using config_exists_text [OF assms(1)] by simp
qed

theorem remote_errors_depend_on_names_witness:
  "\<forall>ae. fst (remote_configs_Delete (api_server ae) ''web-stack'' empty_store) = Inl (Sentinel ErrStackNotFound)"
proof
  fix ae
  have n: "plain ''web-stack''" "contains_str ''web-stack'' ''stack''" by code_simp+
  have "GetConfig ''web-stack'' empty_store = Inl ErrConfigNotFound"
    by (simp add: GetConfig_def empty_store_def row_find_def)
  then show "fst (remote_configs_Delete (api_server ae) ''web-stack'' empty_store) = Inl (Sentinel ErrStackNotFound)"
    using remote_errors_depend_on_names [OF n(1), of empty_store ae] n(2) by simp
qed

lemma created_secret:
  assumes "gcm_ok (vaSeal va) (vaUnseal va)" "vaNonce va = Some nonce" "length nonce = nonceBytes"
    and "scope_ok scope" "GetSecret name db = Inl ErrSecretNotFound"
  shows "\<exists>i db'. Secrets_Create va dm scope stack name value db = (Inr i, db') \<and>
    Secrets_Reveal va name db' = Inr value \<and> is_ok (Secrets_Get name db')"
proof -
  have f: "row_find secName name (dbSecrets db) = None"
    using assms(5) by (simp add: GetSecret_def split: option.splits)
  obtain ct where ct: "Encrypt (vaSeal va) (vaNonce va) value = Inr ct" "Decrypt (vaUnseal va) ct = Inr value"
    using decrypt_encrypt [OF assms(1)] assms(2,3) by (simp add: Encrypt_def)
  then show ?thesis
    using f assms(4) by (simp add: Secrets_Create_def CreateSecret_def Let_def Secrets_Reveal_def Secrets_Get_def
        GetSecret_def tbl_simps)
qed

text \<open>The life of a secret over HTTP.  A secret created remotely under a quiet name
  reveals remotely to exactly the value sent; once removed it is not found, revealing it fails, and
  removing it again reports a missing secret and changes nothing.\<close>

theorem remote_secret_lifecycle:
  assumes "quiet name" "trim_space name = name" "trim_space stack = stack" "scope_ok scope" "value \<noteq> []"
    and "stack \<noteq> [] \<Longrightarrow> scope = ''service''"
    and "gcm_ok (vaSeal (aeVault ae)) (vaUnseal (aeVault ae))" "vaNonce (aeVault ae) = Some nonce"
    and "length nonce = nonceBytes" "GetSecret name db = Inl ErrSecretNotFound"
  shows "\<exists>i db1 db2.
    remote_secrets_Create (api_server ae) scope stack name value db = (Inr i, db1) \<and>
    remote_secrets_Reveal (api_server ae) name db1 = (Inr value, db1) \<and>
    remote_secrets_Delete (api_server ae) name db1 = (Inr (), db2) \<and>
    fst (remote_secrets_Get (api_server ae) name db2) = Inl (Sentinel ErrSecretNotFound) \<and>
    fst (remote_secrets_Reveal (api_server ae) name db2) = Inl (Sentinel ErrSecretNotFound) \<and>
    remote_secrets_Delete (api_server ae) name db2 = (Inl (Sentinel ErrSecretNotFound), db2)"
proof -
  obtain i db1 where c: "Secrets_Create (aeVault ae) (aeDaemon ae) scope stack name value db = (Inr i, db1)"
    "Secrets_Reveal (aeVault ae) name db1 = Inr value" "is_ok (Secrets_Get name db1)"
    using created_secret [OF assms(7,8,9,4,10)] by blast
  obtain r db2 where d: "remote_secrets_Delete (api_server ae) name db1 = (r, db2)" by (metis surj_pair)
  have found: "is_ok (fst (remote_secrets_Get (api_server ae) name db1))"
    using c(3) secret_listed [of name db1]
    by (auto simp: remote_secret_found Secrets_Get_def split: option.splits)
  have r: "r = Inr ()" using remote_secrets.remove_known [OF assms(1) found] d by simp
  have gone: "fst (remote_secrets_Get (api_server ae) name db2) = Inl (Sentinel ErrSecretNotFound)"
    using remote_secrets.removed_always [OF assms(1), of ae db1] d by simp
  then have "GetSecret name db2 = Inl ErrSecretNotFound"
    using secret_listed [of name db2] by (simp add: remote_secret_found split: option.splits)
  then have "fst (remote_secrets_Reveal (api_server ae) name db2) = Inl (Sentinel ErrSecretNotFound)"
    by (simp add: remote_secret_reveal [OF assms(1)] Secrets_Reveal_def secret_seen_def)
  moreover have "remote_secrets_Delete (api_server ae) name db2 = (Inl (Sentinel ErrSecretNotFound), db2)"
    using remote_secrets.remove_again [OF assms(1), of ae db1] d by simp
  ultimately show ?thesis
    using c(1,2) d r gone
    by (simp add: remote_secret_create [OF assms(1-6)] remote_secret_reveal [OF assms(1)])
qed

definition demo_env :: api_env where
  "demo_env = \<lparr> aeDaemon = \<lparr> dmHash = id, dmText = (\<lambda>_. []), dmVersion = ''v1'', dmNow = 1 \<rparr>,
     aeVault = \<lparr> vaSeal = toy_seal, vaUnseal = toy_unseal, vaNonce = Some (replicate 12 (CHR ''n'')),
                vaText = (\<lambda>_. []) \<rparr>,
     aeArgon = (\<lambda>t s. t @ s), aeDraw = \<lparr> kdID = Some ''ab'', kdSecret = Some ''xyz'', kdSalt = Some ''s'' \<rparr>,
     aeMe = Some \<lparr> auID = 2, auName = ''ops'' \<rparr> \<rparr>"

theorem remote_secret_lifecycle_witness:
  "\<exists>i db1. remote_secrets_Create (api_server demo_env) ''service'' ''shop'' ''DB_PASS'' ''hunter2'' empty_store = (Inr i, db1) \<and>
    remote_secrets_Reveal (api_server demo_env) ''DB_PASS'' db1 = (Inr ''hunter2'', db1)"
proof -
  have q: "quiet ''DB_PASS''" "trim_space ''DB_PASS'' = ''DB_PASS''" "trim_space ''shop'' = ''shop''"
    "scope_ok ''service''" by code_simp+
  have v: "gcm_ok (vaSeal (aeVault demo_env)) (vaUnseal (aeVault demo_env))"
    "vaNonce (aeVault demo_env) = Some (replicate 12 (CHR ''n''))"
    "length (replicate 12 (CHR ''n'')) = nonceBytes"
    by (simp_all add: demo_env_def toy_gcm_ok nonceBytes_def)
  have g: "GetSecret ''DB_PASS'' empty_store = Inl ErrSecretNotFound"
    by (simp add: GetSecret_def empty_store_def row_find_def)
  have "''hunter2'' \<noteq> []" by simp
  from remote_secret_lifecycle [OF q this _ v g] show ?thesis by blast
qed

section \<open>API keys\<close>

lemma Keys_Delete_keeps:
  assumes inv: "users_inv db" and u: "u \<in> set (dbUsers db)"
    and keep: "usName u = ''edge'' \<or> (\<exists>m. me = Some m \<and> auID m = usID u) \<or> usID u \<noteq> uid"
  shows "u \<in> set (dbUsers (snd (Keys_Delete me uid db)))"
proof (cases "usID u = uid")
  case False
  then show ?thesis using u
    by (auto simp: Keys_Delete_def DeleteUser_def row_delete_def split: sum.splits)
next
  case True
  have "unique_key usID (dbUsers db)" using inv by (simp add: users_inv_def)
  then have "row_find usID uid (dbUsers db) = Some u" using u True by (simp add: row_find_unique)
  then have "UserByID uid db = Inr (auth_user_of u)" by (simp add: UserByID_def)
  then show ?thesis
    using keep True u by (auto simp: Keys_Delete_def auth_user_of_def edgeAPITokenUser_def)
qed

lemma parse_itoa:
  assumes "parse_int64 (itoa i) = Some k" shows "k = i"
proof -
  obtain c r where cr: "nat_str (nat \<bar>i\<bar>) = c # r" by (cases "nat_str (nat \<bar>i\<bar>)") auto
  have "is_digit c" using nat_str_digits [of "nat \<bar>i\<bar>"] cr by simp
  then have "c \<noteq> CHR ''-''" "c \<noteq> CHR ''+''" by (auto simp: is_digit_def less_eq_char_def)
  then show ?thesis
    using assms cr digits_val_nat_str [of "nat \<bar>i\<bar>"]
    by (auto simp: itoa_def parse_int64_def Let_def split: if_splits)
qed

lemma key_request:
  "api_server ae \<lparr> rqMethod = ''DELETE'', rqPath = [''api_keys'', itoa uid], rqQuery = q, rqBody = b \<rparr> db =
     (if itoa uid = [] then (not_routed, db) else http_keys_remove (aeDaemon ae) (aeMe ae) (itoa uid) db)"
  by (simp add: routes Let_def)

lemma do_unit_store:
  "snd (do_unit srv m p b s) = snd (srv \<lparr> rqMethod = m, rqPath = p, rqQuery = [], rqBody = map_option Inr b \<rparr> s)"
  by (simp add: do_unit_def do_request_def split: prod.splits)

lemma remote_keys_Delete_store:
  "snd (remote_keys_Delete (api_server ae) uid db) = db \<or>
   snd (remote_keys_Delete (api_server ae) uid db) = snd (Keys_Delete (aeMe ae) uid db)"
proof -
  have "snd (http_keys_remove dm me (itoa uid) db) = db \<or>
      snd (http_keys_remove dm me (itoa uid) db) = snd (Keys_Delete me uid db)" for dm me
  proof (cases "parse_int64 (itoa uid)")
    case (Some i)
    have "i = uid" using Some parse_itoa by auto
    then show ?thesis using Some by (auto simp: http_keys_remove_def split: prod.splits sum.splits)
  qed (simp add: http_keys_remove_def)
  then show ?thesis
    by (simp add: remote_keys_Delete_def do_unit_store key_request)
qed

text \<open>Property C39.  Whatever id is asked for, over the remote adapter and the handler, the console's user
  \<^verbatim>\<open>edge\<close> and the user of the request keep their keys, and no other user than the one named is touched.\<close>

theorem api_keys_protected:
  assumes "users_inv db" "u \<in> set (dbUsers db)"
    and "usName u = ''edge'' \<or> (\<exists>m. aeMe ae = Some m \<and> auID m = usID u) \<or> usID u \<noteq> uid"
  shows "u \<in> set (dbUsers (snd (remote_keys_Delete (api_server ae) uid db)))"
  using remote_keys_Delete_store [of ae uid db] Keys_Delete_keeps [OF assms] assms(2) by auto

definition two_users :: Store where
  "two_users = empty_store\<lparr> dbUserSeq := 2, dbUsers :=
     [\<lparr> usID = 1, usName = ''edge'', usTokenID = Some ''aa'', usTokenHash = ''h'', usCreatedAt = 0, usLastUsedAt = 0 \<rparr>,
      \<lparr> usID = 2, usName = ''ops'', usTokenID = Some ''bb'', usTokenHash = ''h'', usCreatedAt = 0, usLastUsedAt = 0 \<rparr>] \<rparr>"

theorem api_keys_protected_witness:
  "\<exists>u \<in> set (dbUsers (snd (remote_keys_Delete (api_server demo_env) 1 two_users))). usName u = ''edge''"
proof -
  let ?u = "\<lparr> usID = 1, usName = ''edge'', usTokenID = Some ''aa'', usTokenHash = ''h'', usCreatedAt = 0, usLastUsedAt = 0 \<rparr>"
  have "users_inv two_users" by (simp add: users_inv_def two_users_def unique_key_def)
  moreover have "?u \<in> set (dbUsers two_users)" by (simp add: two_users_def)
  ultimately have "?u \<in> set (dbUsers (snd (remote_keys_Delete (api_server demo_env) 1 two_users)))"
    by (rule api_keys_protected) simp
  then show ?thesis by force
qed

section \<open>Settings\<close>

lemma fold_SetSetting:
  assumes "distinct (map fst kvs)"
  shows "GetSettingDefault k d (fold (\<lambda>(k, v). SetSetting k v) kvs db) =
    (case map_of kvs k of Some v \<Rightarrow> v | None \<Rightarrow> GetSettingDefault k d db)"
  using assms
proof (induction kvs arbitrary: db)
  case (Cons a kvs)
  obtain x y where a: "a = (x, y)" by (cases a)
  have "map_of kvs x = None" using Cons.prems a by (auto simp: map_of_eq_None_iff)
  then show ?case using Cons a by (auto simp: GetSettingDefault_SetSetting split: option.splits)
qed simp

lemma known_settings_distinct: "distinct clusterSettingKeys"
  by code_simp

text \<open>An update of the cluster's settings is all or nothing on the store: an empty update
  or one with a key that is not editable is refused without a change; otherwise every editable
  setting reads back as the value sent, or as it was when it was not sent, and every other setting,
  the TLS state among them, is as before.\<close>

theorem settings_update_effect:
  assumes "distinct (map fst values)" "Settings_Update values db = (r, db')"
  shows "if values \<noteq> [] \<and> fst ` set values \<subseteq> set clusterSettingKeys
    then r = Inr (Settings_Get db') \<and>
      (\<forall>k \<in> set clusterSettingKeys. map_of (Settings_Get db') k =
         Some (case map_of values k of Some v \<Rightarrow> v | None \<Rightarrow> GetSettingDefault k [] db)) \<and>
      (\<forall>k d. k \<notin> fst ` set values \<longrightarrow> GetSettingDefault k d db' = GetSettingDefault k d db)
    else (\<exists>e. r = Inl e) \<and> db' = db"
proof (cases "values \<noteq> [] \<and> fst ` set values \<subseteq> set clusterSettingKeys")
  case True
  then have "find (\<lambda>(k, _). k \<notin> set clusterSettingKeys) values = None" by (auto simp: find_None_iff)
  then have r: "r = Inr (Settings_Get db')" "db' = fold (\<lambda>(k, v). SetSetting k v) values db"
    using assms(2) True by (auto simp: Settings_Update_def Let_def)
  have get: "GetSettingDefault k d db' = (case map_of values k of Some v \<Rightarrow> v | None \<Rightarrow> GetSettingDefault k d db)" for k d
    unfolding r(2) by (rule fold_SetSetting [OF assms(1)])
  have "map_of (Settings_Get db') k = Some (GetSettingDefault k [] db')" if "k \<in> set clusterSettingKeys" for k
    using that by (simp add: Settings_Get_def map_of_map_restrict)
  moreover have "map_of values k = None" if "k \<notin> fst ` set values" for k
    using that by (simp add: map_of_eq_None_iff)
  ultimately show ?thesis using True r(1) get by simp
next
  case False
  then have "values = [] \<or> (\<exists>k v. find (\<lambda>(k, _). k \<notin> set clusterSettingKeys) values = Some (k, v))"
    by (cases "find (\<lambda>(k, _). k \<notin> set clusterSettingKeys) values") (auto simp: find_None_iff)
  then have "(\<exists>e. r = Inl e) \<and> db' = db"
  proof
    assume "\<exists>k v. find (\<lambda>(k, _). k \<notin> set clusterSettingKeys) values = Some (k, v)"
    then show ?thesis using assms(2) by (cases "values") (auto simp: Settings_Update_def)
  next
    assume "values = []"
    then show ?thesis using assms(2) by (auto simp: Settings_Update_def)
  qed
  then show ?thesis using False by (simp only: if_False)
qed

theorem settings_update_effect_witness:
  "map_of (Settings_Get (snd (Settings_Update [(''volume_root'', ''/srv'')] empty_store))) ''volume_root'' = Some ''/srv''"
proof -
  have k: "''volume_root'' \<in> set clusterSettingKeys" by (simp add: clusterSettingKeys_def)
  obtain r db' where u: "Settings_Update [(''volume_root'', ''/srv'')] empty_store = (r, db')" by (metis surj_pair)
  have "distinct (map fst [(''volume_root'', ''/srv'')])" by simp
  from settings_update_effect [OF this u] k show ?thesis by (simp add: u)
qed

section \<open>Usage\<close>

definition users_in :: "(string \<times> string list) list \<Rightarrow> string \<Rightarrow> string list" where
  "users_in m name = (case map_of m name of Some l \<Rightarrow> l | None \<Rightarrow> [])"

lemma users_add: "users_in (add_user st n m) k = (if k = n then List.insert st (users_in m n) else users_in m k)"
  by (simp add: users_in_def add_user_def Let_def update_conv')

lemma users_fold_add:
  "set (users_in (fold (add_user st) ns m) k) = (if k \<in> set ns then {st} else {}) \<union> set (users_in m k)"
  by (induction ns arbitrary: m) (auto simp: users_add)

lemma users_flatten: "users_in (flatten m) k = sort (users_in m k)"
proof -
  have "map_of (flatten m) k = map_option sort (map_of m k)"
    by (induction m) (auto simp: flatten_def)
  then show ?thesis by (simp add: users_in_def split: option.splits)
qed

definition references ::
  "(string \<Rightarrow> (string list \<times> string list) option) \<Rightarrow> Store \<Rightarrow> Stack \<Rightarrow> string list \<times> string list" where
  "references unmarshal db s =
     (case GetRevision (stName s) (stCurrentRevision s) db of
        Inl _ \<Rightarrow> ([], []) | Inr r \<Rightarrow> parseComposeReferences unmarshal (srRenderedYAML r))"

lemma count_stack_references:
  "count_stack unmarshal db s acc =
     map_prod (fold (add_user (stName s)) (fst (references unmarshal db s)))
       (fold (add_user (stName s)) (snd (references unmarshal db s))) acc"
  by (cases acc) (simp add: count_stack_def references_def split: sum.splits prod.splits)

lemma count_stacks:
  "set (users_in (fst (fold (count_stack unmarshal db) ss acc)) k) =
     {stName s | s. s \<in> set ss \<and> k \<in> set (fst (references unmarshal db s))} \<union> set (users_in (fst acc) k) \<and>
   set (users_in (snd (fold (count_stack unmarshal db) ss acc)) k) =
     {stName s | s. s \<in> set ss \<and> k \<in> set (snd (references unmarshal db s))} \<union> set (users_in (snd acc) k)"
  by (induction ss arbitrary: acc) (auto simp: count_stack_references users_fold_add split: if_splits)

text \<open>The usage report is exact: a stack is listed under a config or a secret if and only
  if the rendered document of its current revision names it, and the lists are sorted.\<close>

lemma usage_report:
  "(st \<in> set (users_in (ugConfigs (Usage_Get unmarshal db)) name) \<longleftrightarrow>
     (\<exists>s \<in> set (dbStacks db). stName s = st \<and> name \<in> set (fst (references unmarshal db s)))) \<and>
   (st \<in> set (users_in (ugSecrets (Usage_Get unmarshal db)) name) \<longleftrightarrow>
     (\<exists>s \<in> set (dbStacks db). stName s = st \<and> name \<in> set (snd (references unmarshal db s)))) \<and>
   sorted (users_in (ugConfigs (Usage_Get unmarshal db)) name) \<and>
   sorted (users_in (ugSecrets (Usage_Get unmarshal db)) name)"
proof -
  have "set (ListStacks db) = set (dbStacks db)" by (simp add: ListStacks_def)
  then show ?thesis
    using count_stacks [of unmarshal db "ListStacks db" "([], [])" name]
    by (auto simp: Usage_Get_def users_flatten users_in_def [of "[]"] split: prod.splits)
qed

end
