(* ===== verification/Cluster_Update.thy ===== *)
theory Cluster_Update
  imports Cluster_Lifecycle
begin

text \<open>
  Reconciling a cluster that is up (\<^verbatim>\<open>cluster/update.go\<close>), refreshing the per-host certificates
  (\<^verbatim>\<open>RefreshHostCerts\<close> of \<^verbatim>\<open>hostcerts.go\<close>), rendering without deploying, and taking the cluster down
  (\<^verbatim>\<open>down.go\<close>).  As in Cluster_Lifecycle the store is not nil, and step names are cut to their first
  words.
\<close>

section \<open>Types\<close>

record UpdateResult =
  udOTelConfig :: string
  udOTelCreated :: bool
  udTraefikConfig :: string
  udTraefikCreated :: bool
  udCertSecret :: string
  udKeySecret :: string
  udCertCreated :: bool
  udKeyCreated :: bool
  udEdgeConfig :: string
  udEdgeCreated :: bool
  udEdgeDeployed :: bool
  udStacksDeployed :: "string list"

text \<open>The variables that the closures of \<^verbatim>\<open>Update\<close> share.\<close>

record 'sw update_state =
  wuWorld :: "'sw cworld"
  wuRes :: UpdateResult
  wuTLS :: tlsState
  wuDomain :: string
  wuSSO :: ssoState
  wuSSOSecret :: string
  wuRender :: RenderInput

section \<open>Pieces\<close>

text \<open>The cookie secret of an enabled single sign-on: decrypted, or minted when it is missing.\<close>

definition cookie_secret :: "'sw deps \<Rightarrow> 'sw cworld \<Rightarrow> (life_err + string) \<times> 'sw cworld" where
  "cookie_secret d w =
     (case GetCredential ''sso_cookie_secret'' (fst w) of
        Inr row \<Rightarrow>
          (map_sum (\<lambda>e. Credential_Failed (Decrypt_Failed e)) id
             (Decrypt (mgUnseal (cdManager d)) (mcPasswordCiphertext row)), w)
      | Inl e \<Rightarrow>
          if e = ErrCredentialNotFound then
            (case Ensure (cdManager d) (cdDraws d) ''sso_cookie_secret'' w of
               (Inl e', w') \<Rightarrow> (Inl (Credential_Failed e'), w')
             | (Inr c, w') \<Rightarrow> (Inr (crPassword c), w'))
          else (Inl (Credential_Failed (Lookup_Failed e)), w))"

text \<open>Username and password of OpenObserve.\<close>

definition oo_credential :: "'sw deps \<Rightarrow> Store \<Rightarrow> life_err + string \<times> string" where
  "oo_credential d db =
     (case GetCredential ''openobserve_admin'' db of
        Inl e \<Rightarrow> Inl (Credential_Failed (Lookup_Failed e))
      | Inr row \<Rightarrow>
          map_sum (\<lambda>e. Credential_Failed (Decrypt_Failed e)) (Pair (mcUsername row))
            (Decrypt (mgUnseal (cdManager d)) (mcPasswordCiphertext row)))"

text \<open>The store is a pointer: every use of the render input reads the rows as they are then.\<close>

definition with_store :: "RenderInput \<Rightarrow> Store \<Rightarrow> RenderInput" where
  "with_store ri db = ri\<lparr> riConfigStore := Some db \<rparr>"

text \<open>The stacks whose rendered text differs from the stored hash, in the order given.\<close>

fun stale_stacks ::
  "(string \<Rightarrow> string) \<Rightarrow> (string \<times> string) list \<Rightarrow> Store \<Rightarrow> string list \<Rightarrow> life_err + string list" where
  "stale_stacks hash rendered db [] = Inr []"
| "stale_stacks hash rendered db (n # ns) =
     (let cfg = n @ ''-stack''; fresh = (case map_of rendered cfg of None \<Rightarrow> [] | Some y \<Rightarrow> y)
      in case GetConfig cfg db of
           Inr row \<Rightarrow>
             if cfgRenderedHash row = hash fresh then stale_stacks hash rendered db ns
             else map_sum id (Cons n) (stale_stacks hash rendered db ns)
         | Inl e \<Rightarrow>
             if e \<noteq> ErrConfigNotFound then Inl (Snapshot_Failed e)
             else map_sum id (Cons n) (stale_stacks hash rendered db ns))"

section \<open>The steps\<close>

definition wu_preflight :: "'sw deps \<Rightarrow> (life_err, 'sw update_state) step_fun" where
  "wu_preflight d st =
     (let s = snd (wuWorld st) in
      case Preflight (cdPing d s) (cdInfo d s) of
        Some e \<Rightarrow> (Inl (State_Refused e), st)
      | None \<Rightarrow> (Inr (), st))"

definition wu_sync :: "'sw deps \<Rightarrow> string \<Rightarrow> (life_err, 'sw update_state) step_fun" where
  "wu_sync d version st =
     (let (r, db') = SyncClusterConfigs (cdRendering d) (cdHash d) (cdNow d) version (fst (wuWorld st));
          st' = st\<lparr> wuWorld := (db', snd (wuWorld st)) \<rparr>
      in case r of Inl e \<Rightarrow> (Inl (Render_Failed e), st') | Inr _ \<Rightarrow> (Inr (), st'))"

definition wu_load :: "(life_err, 'sw update_state) step_fun" where
  "wu_load st =
     (let db = fst (wuWorld st); domain = GetSettingDefault settingDomain [] db;
          st' = st\<lparr> wuTLS := loadTLSSettings (Some db), wuDomain := domain \<rparr>
      in if domain = [] then (Inl No_Domain, st') else (Inr (), st'))"

definition wu_sso :: "'sw deps \<Rightarrow> (life_err, 'sw update_state) step_fun" where
  "wu_sso d st =
     (let sso = loadSSOSettings (Some (fst (wuWorld st))); st' = st\<lparr> wuSSO := sso \<rparr> in
      case sso_validate (cdDurOk d) sso of
        Some e \<Rightarrow> (Inl (State_Refused e), st')
      | None \<Rightarrow>
          if soEnabled sso then
            (case cookie_secret d (wuWorld st) of
               (Inl e, w') \<Rightarrow> (Inl e, st'\<lparr> wuWorld := w', wuSSOSecret := [] \<rparr>)
             | (Inr secret, w') \<Rightarrow> (Inr (), st'\<lparr> wuWorld := w', wuSSOSecret := secret \<rparr>))
          else (Inr (), st'\<lparr> wuSSOSecret := [] \<rparr>))"

definition wu_openobserve ::
  "'sw deps \<Rightarrow> (string \<Rightarrow> string) \<Rightarrow> string \<Rightarrow> (life_err, 'sw update_state) step_fun" where
  "wu_openobserve d dirOf configDir st =
     (let db = fst (wuWorld st) in
      case oo_credential d db of
        Inl e \<Rightarrow> (Inl e, st)
      | Inr (user, pass) \<Rightarrow>
          (Inr (), st\<lparr> wuRender := render_input d (dirOf configDir) (wuDomain st) user pass
             (tlACMEEmail (wuTLS st)) (wuSSO st) (wuSSOSecret st) db \<rparr>))"

definition wu_tls :: "'sw deps \<Rightarrow> (life_err, 'sw update_state) step_fun" where
  "wu_tls d st =
     (let ri = wuRender st; tls = wuTLS st in
      if riACMEEmail ri \<noteq> [] then (Inr (), st)
      else if tlCertPath tls = [] \<or> tlKeyPath tls = [] then (Inl No_TLS_Paths, st)
      else
        (case provision_tls d (tlCertPath tls) (tlKeyPath tls) (wuWorld st) of
           (Inl e, w') \<Rightarrow> (Inl e, st\<lparr> wuWorld := w' \<rparr>)
         | (Inr ((cert, certCreated), (key, keyCreated)), w') \<Rightarrow>
             (Inr (), st\<lparr> wuWorld := w',
                wuRes := (wuRes st)\<lparr> udCertSecret := cert, udKeySecret := key,
                                     udCertCreated := certCreated, udKeyCreated := keyCreated \<rparr>,
                wuRender := ri\<lparr> riCertSecretName := cert, riKeySecretName := key \<rparr> \<rparr>)))"

definition wu_configs :: "'sw deps \<Rightarrow> string \<Rightarrow> (life_err, 'sw update_state) step_fun" where
  "wu_configs d version st =
     (let (db, s) = wuWorld st in
      case provision_configs d version (with_store (wuRender st) db) s of
        (Inl e, s') \<Rightarrow> (Inl e, st\<lparr> wuWorld := (db, s') \<rparr>)
      | (Inr (ri', otel, traefik, edge), s') \<Rightarrow>
          (Inr (), st\<lparr> wuWorld := (db, s'), wuRender := ri',
             wuRes := (wuRes st)\<lparr> udOTelConfig := fst otel, udOTelCreated := snd otel,
               udTraefikConfig := fst traefik, udTraefikCreated := snd traefik,
               udEdgeConfig := fst edge, udEdgeCreated := snd edge \<rparr> \<rparr>))"

definition update_order :: "ssoState \<Rightarrow> string list" where
  "update_order sso =
     [''observability'', ''infra'', ''edge'', ''backup''] @ (if soEnabled sso then [''sso''] else [])"

text \<open>The rendered texts go on record before the stacks that differ are deployed.\<close>

definition wu_reconcile :: "'sw deps \<Rightarrow> (life_err, 'sw update_state) step_fun" where
  "wu_reconcile d st =
     (let (db, s) = wuWorld st; ri = wuRender st in
      case renderPlatformConfigs (cdRendering d) (with_store ri db) of
        Inl e \<Rightarrow> (Inl (Render_Failed e), st)
      | Inr rendered \<Rightarrow>
         (case stale_stacks (cdHash d) rendered db (update_order (wuSSO st)) of
            Inl e \<Rightarrow> (Inl e, st)
          | Inr redeploy \<Rightarrow>
             (case snapshot_all (cdHash d) (cdNow d) rendered db of
                (Inl e, db') \<Rightarrow> (Inl e, st\<lparr> wuWorld := (db', s) \<rparr>)
              | (Inr _, db') \<Rightarrow>
                 (case deploy_stacks d (with_store ri db') redeploy s of
                    (Inl e, s') \<Rightarrow> (Inl e, st\<lparr> wuWorld := (db', s') \<rparr>)
                  | (Inr _, s') \<Rightarrow>
                      (Inr (), st\<lparr> wuWorld := (db', s'),
                         wuRes := (wuRes st)\<lparr> udStacksDeployed := redeploy,
                                              udEdgeDeployed := (''edge'' \<in> set redeploy) \<rparr> \<rparr>)))))"

section \<open>Update\<close>

definition update_workflow ::
  "'sw deps \<Rightarrow> (string \<Rightarrow> string) \<Rightarrow> string \<Rightarrow> string \<Rightarrow> (life_err, 'sw update_state) Workflow" where
  "update_workflow d dirOf configDir version =
     map (\<lambda>(n, f). \<lparr> stepName = n, stepRun = f \<rparr>)
       [(''Preflight'', wu_preflight d),
        (''Syncing platform config templates into the store'', wu_sync d version),
        (''Loading persisted install state'', wu_load),
        (''Loading SSO settings + cookie secret'', wu_sso d),
        (''Loading OpenObserve credentials'', wu_openobserve d dirOf configDir),
        (''TLS certificate'', wu_tls d),
        (''Rendering OTel + Traefik + edge configs'', wu_configs d version),
        (''Reconciling platform stacks'', wu_reconcile d),
        (''Cluster update complete.'', (\<lambda>st. (Inr (), st)))]"

definition update_start :: "'sw cworld \<Rightarrow> 'sw update_state" where
  "update_start w = \<lparr> wuWorld = w,
     wuRes = \<lparr> udOTelConfig = [], udOTelCreated = False, udTraefikConfig = [], udTraefikCreated = False,
               udCertSecret = [], udKeySecret = [], udCertCreated = False, udKeyCreated = False,
               udEdgeConfig = [], udEdgeCreated = False, udEdgeDeployed = False, udStacksDeployed = [] \<rparr>,
     wuTLS = loadTLSSettings None, wuDomain = [], wuSSO = loadSSOSettings None, wuSSOSecret = [],
     wuRender = zero_render \<rparr>"

definition Update ::
  "'sw deps \<Rightarrow> (string \<Rightarrow> string) \<Rightarrow> string \<Rightarrow> string \<Rightarrow> 'sw cworld \<Rightarrow>
     (life_err + UpdateResult) \<times> 'sw cworld" where
  "Update d dirOf configDir version w =
     (case Run (update_workflow d dirOf configDir version) (update_start w) of
        (Inl (n, e), _, st) \<Rightarrow> (Inl (Life_Step n e), wuWorld st)
      | (Inr _, _, st) \<Rightarrow> (Inr (wuRes st), wuWorld st))"

definition RefreshHostCerts ::
  "'sw deps \<Rightarrow> (string \<Rightarrow> string) \<Rightarrow> string \<Rightarrow> string \<Rightarrow> 'sw cworld \<Rightarrow> (life_err + bool) \<times> 'sw cworld" where
  "RefreshHostCerts d dirOf configDir version w =
     map_prod (map_sum id (\<lambda>r. udTraefikCreated r \<or> udCertCreated r \<or> udKeyCreated r)) id
       (Update d dirOf configDir version w)"

section \<open>Rendering without deploying\<close>

text \<open>From the certificate's secrets on; \<^verbatim>\<open>ri\<close> already holds the host certificates.\<close>

definition render_provisioned ::
  "'sw deps \<Rightarrow> string \<Rightarrow> tlsState \<Rightarrow> RenderInput \<Rightarrow> 'sw cworld \<Rightarrow>
     (life_err + (string \<times> string) list) \<times> 'sw cworld" where
  "render_provisioned d version tls ri w =
     (let (r, w1) =
        (if riACMEEmail ri \<noteq> [] then (Inr ri, w)
         else if tlCertPath tls = [] \<or> tlKeyPath tls = [] then (Inl No_TLS_Paths, w)
         else map_prod (map_sum id
                 (\<lambda>((cert, _), (key, _)). ri\<lparr> riCertSecretName := cert, riKeySecretName := key \<rparr>)) id
                (provision_tls d (tlCertPath tls) (tlKeyPath tls) w))
      in case r of
           Inl e \<Rightarrow> (Inl e, w1)
         | Inr ri1 \<Rightarrow>
            (let (db, s) = w1 in
             case provision_configs d version (with_store ri1 db) s of
               (Inl e, s') \<Rightarrow> (Inl e, (db, s'))
             | (Inr (ri2, _, _, _), s') \<Rightarrow>
                 (map_sum Render_Failed id (renderPlatformConfigs (cdRendering d) (with_store ri2 db)),
                  (db, s'))))"

definition RenderClusterConfigs ::
  "'sw deps \<Rightarrow> (string \<Rightarrow> string) \<Rightarrow> string \<Rightarrow> string \<Rightarrow> 'sw cworld \<Rightarrow>
     (life_err + (string \<times> string) list) \<times> 'sw cworld" where
  "RenderClusterConfigs d dirOf configDir version w =
     (let (db, s) = w in
      case Preflight (cdPing d s) (cdInfo d s) of
        Some e \<Rightarrow> (Inl (State_Refused e), w)
      | None \<Rightarrow>
         (let tls = loadTLSSettings (Some db); domain = GetSettingDefault settingDomain [] db in
          if domain = [] then (Inl No_Domain, w)
          else
            (case oo_credential d db of
               Inl e \<Rightarrow> (Inl e, w)
             | Inr (user, pass) \<Rightarrow>
                (let sso = loadSSOSettings (Some db);
                     (r, w1) = (if soEnabled sso then cookie_secret d w else (Inr [], w))
                 in case r of
                      Inl e \<Rightarrow> (Inl e, w1)
                    | Inr secret \<Rightarrow>
                        render_provisioned d version tls
                          (render_input d (dirOf configDir) domain user pass (tlACMEEmail tls) sso secret
                             (fst w1)) w1))))"

section \<open>Down\<close>

record DownResult =
  dnStacks :: "string list"
  dnSecrets :: "string list"
  dnConfigs :: "string list"
  dnNetworks :: "string list"

definition pmclusterManagedSecrets :: "string list" where
  "pmclusterManagedSecrets = [''admin_credentials'', ''zo_root_user_password'']"

definition pmclusterManagedNetworks :: "string list" where
  "pmclusterManagedNetworks = [''traefik-net'', ''monitoring-net'']"

text \<open>A loop that goes on after a failed removal and collects what was removed.\<close>

fun try_each :: "(string \<Rightarrow> 'sw \<Rightarrow> ('e + unit) \<times> 'sw) \<Rightarrow> string list \<Rightarrow> 'sw \<Rightarrow> string list \<times> 'sw" where
  "try_each rm [] s = ([], s)"
| "try_each rm (n # ns) s =
     (let (r, s1) = rm n s; (done, s2) = try_each rm ns s1
      in (if is_ok r then n # done else done, s2))"

definition Down :: "'sw deps \<Rightarrow> bool \<Rightarrow> 'sw \<Rightarrow> DownResult \<times> 'sw" where
  "Down d purge s =
     (let (stacks, s1) = try_each (RemoveStack (cdCli d)) [''infra'', ''edge'', ''observability'', ''backup''] s in
      if \<not> purge then (\<lparr> dnStacks = stacks, dnSecrets = [], dnConfigs = [], dnNetworks = [] \<rparr>, s1)
      else
        (let dk = cdSdk d;
             (secrets1, s2) = try_each (SecretRemove dk) pmclusterManagedSecrets (cdSettle d s1);
             (secrets2, s3) =
               (case SecretList dk pmclusterLabel ''true'' s2 of
                  Inl _ \<Rightarrow> ([], s2) | Inr names \<Rightarrow> try_each (SecretRemove dk) names s2);
             (configs', s4) =
               (case ConfigList dk pmclusterLabel ''true'' s3 of
                  Inl _ \<Rightarrow> ([], s3) | Inr names \<Rightarrow> try_each (ConfigRemove dk) names s3);
             (networks, s5) = try_each (NetworkRemove dk) pmclusterManagedNetworks s4
         in (\<lparr> dnStacks = stacks, dnSecrets = secrets1 @ secrets2, dnConfigs = configs',
               dnNetworks = networks \<rparr>, s5)))"

end
