(* ===== verification/Cluster_Certs.thy ===== *)
theory Cluster_Certs
  imports Cluster_Update Backups
begin

text \<open>
  Certificates: checking a certificate against a host (\<^verbatim>\<open>cluster/tlscerts/tlscerts.go\<close>), the names of
  the per-host secrets (\<^verbatim>\<open>cluster/hostcerts.go\<close>), and applying and removing certificates
  (\<^verbatim>\<open>cluster/sitecert.go\<close>).

  The X.509 and PEM libraries are the record \<^verbatim>\<open>x509lib\<close>, the calls of the operating system the record
  \<^verbatim>\<open>os\<close> over the machine \<^verbatim>\<open>'sw\<close>.
\<close>

section \<open>Checking a certificate\<close>

datatype tls_err =
    Host_Required | Host_Separators string | Host_Invalid string
  | Pair_Missing | Pair_Mismatch string | No_PEM_Block | Bad_Certificate string | Host_Not_Covered string

record leaf =
  lfDNSNames :: "string list"
  lfCommonName :: string
  lfNotBefore :: int
  lfNotAfter :: int

record x509lib =
  xlKeyPair :: "string \<Rightarrow> string \<Rightarrow> string option"
  xlDecode :: "string \<Rightarrow> string option"
  xlParse :: "string \<Rightarrow> string + leaf"

record PairInfo =
  piSANs :: "string list"
  piNotBefore :: int
  piNotAfter :: int

text \<open>\<^verbatim>\<open>[a-zA-Z0-9]([a-zA-Z0-9-]{0,61}[a-zA-Z0-9])?\<close>\<close>

definition host_label :: "string \<Rightarrow> bool" where
  "host_label l \<longleftrightarrow>
     l \<noteq> [] \<and> length l \<le> 63 \<and> is_alnum (hd l) \<and> is_alnum (last l) \<and>
     list_all (\<lambda>c. is_alnum c \<or> c = CHR ''-'') l"

definition hostRe :: "string \<Rightarrow> bool" where
  "hostRe s = list_all host_label (split_at (CHR ''.'') (trim_prefix s ''*.''))"

definition Validate_host :: "string \<Rightarrow> tls_err + unit" where
  "Validate_host host =
     (if host = [] then Inl Host_Required
      else if list_ex (\<lambda>c. c = CHR ''/'' \<or> c = CHR 0x5C) host \<or> contains_str host ''..''
           then Inl (Host_Separators host)
      else if \<not> hostRe host then Inl (Host_Invalid host)
      else Inr ())"

definition domainMatches :: "string \<Rightarrow> string \<Rightarrow> bool" where
  "domainMatches pattern name =
     (if pattern = name then True
      else if has_prefix pattern ''*.'' then
        (let sfx = drop 1 pattern in length name > length sfx \<and> has_suffix name sfx)
      else False)"

definition hostCoveredByCert :: "leaf \<Rightarrow> string \<Rightarrow> bool" where
  "hostCoveredByCert cert host0 =
     (let host = map to_lower (trim_suffix host0 ''.'') in
      if list_ex (\<lambda>san. domainMatches (map to_lower san) host) (lfDNSNames cert) then True
      else lfCommonName cert \<noteq> [] \<and> domainMatches (map to_lower (lfCommonName cert)) host)"

definition parseLeaf :: "x509lib \<Rightarrow> string \<Rightarrow> tls_err + leaf" where
  "parseLeaf x certPEM =
     (case xlDecode x certPEM of
        None \<Rightarrow> Inl No_PEM_Block
      | Some bytes \<Rightarrow> map_sum Bad_Certificate id (xlParse x bytes))"

definition parsePair :: "x509lib \<Rightarrow> string \<Rightarrow> string \<Rightarrow> tls_err + leaf" where
  "parsePair x certPEM keyPEM =
     (if certPEM = [] \<or> keyPEM = [] then Inl Pair_Missing
      else (case xlKeyPair x certPEM keyPEM of
              Some e \<Rightarrow> Inl (Pair_Mismatch e)
            | None \<Rightarrow> parseLeaf x certPEM))"

definition ParseAndCheck :: "x509lib \<Rightarrow> string \<Rightarrow> string \<Rightarrow> string \<Rightarrow> tls_err + PairInfo" where
  "ParseAndCheck x certPEM keyPEM host =
     (case parsePair x certPEM keyPEM of
        Inl e \<Rightarrow> Inl e
      | Inr lf \<Rightarrow>
          if \<not> hostCoveredByCert lf host then Inl (Host_Not_Covered host)
          else Inr \<lparr> piSANs = lfDNSNames lf, piNotBefore = lfNotBefore lf, piNotAfter = lfNotAfter lf \<rparr>)"

section \<open>Names of the per-host secrets\<close>

text \<open>For hosts in ASCII, which the validation ensures, runes are bytes.\<close>

definition hostSecretBase :: "string \<Rightarrow> string \<Rightarrow> string" where
  "hostSecretBase kind host =
     ''host'' @ kind @ ''-'' @
     map (\<lambda>c. if is_lower c \<or> is_digit c then c else CHR ''-'') (map to_lower host)"

section \<open>Files of the site certificate\<close>

record 'sw os =
  osMkdirAll :: "string \<Rightarrow> 'sw \<Rightarrow> bool \<times> 'sw"
  osCreateTemp :: "string \<Rightarrow> 'sw \<Rightarrow> string option \<times> 'sw"
  osWrite :: "string \<Rightarrow> string \<Rightarrow> 'sw \<Rightarrow> bool \<times> 'sw"
  osChmod :: "string \<Rightarrow> 'sw \<Rightarrow> bool \<times> 'sw"
  osClose :: "string \<Rightarrow> 'sw \<Rightarrow> bool \<times> 'sw"
  osRename :: "string \<Rightarrow> string \<Rightarrow> 'sw \<Rightarrow> bool \<times> 'sw"
  osRemove :: "string \<Rightarrow> 'sw \<Rightarrow> 'sw"

datatype cert_err =
    Cert_No_Domain
  | Cert_Host tls_err
  | Cert_Pair tls_err
  | Cert_Dir
  | Cert_File string string
  | Cert_Secret cluster_err
  | Cert_Refresh life_err
  | Cert_Own string
  | Cert_Lookup store_err

definition SiteCertDir :: "string \<Rightarrow> string" where
  "SiteCertDir configDir = path_join configDir ''site''"

definition PersistedDomain :: "Store option \<Rightarrow> string" where
  "PersistedDomain st =
     (case st of None \<Rightarrow> [] | Some db \<Rightarrow> GetSettingDefault settingDomain [] db)"

text \<open>The temporary file is removed on every way out; after a failure the file is closed first.\<close>

definition writeSiteCertFile ::
  "'sw os \<Rightarrow> string \<Rightarrow> string \<Rightarrow> string \<Rightarrow> 'sw \<Rightarrow> (cert_err + unit) \<times> 'sw" where
  "writeSiteCertFile o' dir path content s =
     (case osCreateTemp o' dir s of
        (None, s1) \<Rightarrow> (Inl (Cert_File ''create temp'' path), s1)
      | (Some tmp, s1) \<Rightarrow>
         (case osWrite o' tmp content s1 of
            (False, s2) \<Rightarrow> (Inl (Cert_File ''write'' path), osRemove o' tmp (snd (osClose o' tmp s2)))
          | (True, s2) \<Rightarrow>
             (case osChmod o' tmp s2 of
                (False, s3) \<Rightarrow> (Inl (Cert_File ''chmod'' path), osRemove o' tmp (snd (osClose o' tmp s3)))
              | (True, s3) \<Rightarrow>
                 (case osClose o' tmp s3 of
                    (False, s4) \<Rightarrow> (Inl (Cert_File ''close'' path), osRemove o' tmp s4)
                  | (True, s4) \<Rightarrow>
                     (case osRename o' tmp path s4 of
                        (False, s5) \<Rightarrow> (Inl (Cert_File ''rename'' path), osRemove o' tmp s5)
                      | (True, s5) \<Rightarrow> (Inr (), osRemove o' tmp s5))))))"

section \<open>Applying a certificate\<close>

text \<open>The cluster's own certificate: two files, and the install state points at them.\<close>

definition place_own ::
  "'sw os \<Rightarrow> string \<Rightarrow> string \<Rightarrow> string \<Rightarrow> 'sw cworld \<Rightarrow> (cert_err + string \<times> string) \<times> 'sw cworld" where
  "place_own o' configDir certPEM keyPEM w =
     (let (db, s) = w; dir = SiteCertDir configDir;
          certPath = path_join dir ''cert.pem''; keyPath = path_join dir ''key.pem''
      in case osMkdirAll o' dir s of
           (False, s1) \<Rightarrow> (Inl Cert_Dir, db, s1)
         | (True, s1) \<Rightarrow>
            (case writeSiteCertFile o' dir keyPath keyPEM s1 of
               (Inl e, s2) \<Rightarrow> (Inl e, db, s2)
             | (Inr _, s2) \<Rightarrow>
                (case writeSiteCertFile o' dir certPath certPEM s2 of
                   (Inl e, s3) \<Rightarrow> (Inl e, db, s3)
                 | (Inr _, s3) \<Rightarrow>
                     (Inr ([], []),
                      tls_save \<lparr> tlMode = ''cert'', tlCertPath = certPath, tlKeyPath = keyPath,
                                 tlACMEEmail = [] \<rparr> db, s3))))"

text \<open>Another host's certificate: two versioned secrets.\<close>

definition place_host ::
  "'sw deps \<Rightarrow> string \<Rightarrow> string \<Rightarrow> string \<Rightarrow> 'sw cworld \<Rightarrow> (cert_err + string \<times> string) \<times> 'sw cworld" where
  "place_host d host certPEM keyPEM w =
     (let ensure = (\<lambda>base content (db, s). map_prod id (map_prod the id)
            (EnsureVersionedSecret (cdSdk d) (cdHash d) base content (Some db, s)))
      in case ensure (hostSecretBase ''cert'' host) certPEM w of
           (Inl e, w1) \<Rightarrow> (Inl (Cert_Secret e), w1)
         | (Inr (cert, _), w1) \<Rightarrow>
            (case ensure (hostSecretBase ''key'' host) keyPEM w1 of
               (Inl e, w2) \<Rightarrow> (Inl (Cert_Secret e), w2)
             | (Inr (key, _), w2) \<Rightarrow> (Inr (cert, key), w2)))"

definition cert_row ::
  "(string \<Rightarrow> string) \<Rightarrow> int \<Rightarrow> string \<Rightarrow> string \<Rightarrow> string \<Rightarrow> PairInfo \<Rightarrow> string \<Rightarrow> string \<Rightarrow> SiteCertRow" where
  "cert_row hash now domain certName keyName info certPEM keyPEM =
     \<lparr> scDomain = domain, scCertSecret = certName, scKeySecret = keyName,
       scNotBefore = piNotBefore info, scNotAfter = piNotAfter info, scSANs = piSANs info,
       scCertHash = hash certPEM, scKeyHash = hash keyPEM, scCreatedAt = now, scUpdatedAt = now \<rparr>"

text \<open>The refresh, and the row; the names of the own certificate's secrets come from the update.\<close>

definition record_cert ::
  "'sw deps \<Rightarrow> (string \<Rightarrow> string) \<Rightarrow> string \<Rightarrow> string \<Rightarrow> bool \<Rightarrow> string \<Rightarrow> PairInfo \<Rightarrow> string \<Rightarrow> string \<Rightarrow> bool \<Rightarrow>
     string \<times> string \<Rightarrow> 'sw cworld \<Rightarrow> (cert_err + SiteCertRow) \<times> 'sw cworld" where
  "record_cert d dirOf configDir version own domain info certPEM keyPEM refresh names w =
     (let (r, w1) =
        (if refresh then
           map_prod (map_sum Cert_Refresh
               (\<lambda>res. if own then (udCertSecret res, udKeySecret res) else names)) id
             (Update d dirOf configDir version w)
         else (Inr names, w))
      in case r of
           Inl e \<Rightarrow> (Inl e, w1)
         | Inr (certName, keyName) \<Rightarrow>
            (let row = cert_row (cdHash d) (cdNow d) domain certName keyName info certPEM keyPEM
             in (Inr row, PutSiteCert row (fst w1), snd w1)))"

text \<open>From the validated pair on.\<close>

definition apply_checked ::
  "'sw deps \<Rightarrow> 'sw os \<Rightarrow> (string \<Rightarrow> string) \<Rightarrow> string \<Rightarrow> string \<Rightarrow> string \<Rightarrow> PairInfo \<Rightarrow> string \<Rightarrow> string \<Rightarrow> bool \<Rightarrow>
     'sw cworld \<Rightarrow> (cert_err + SiteCertRow) \<times> 'sw cworld" where
  "apply_checked d o' dirOf configDir version domain info certPEM keyPEM refresh w =
     (let own = (domain = PersistedDomain (Some (fst w))) in
      case (if own then place_own o' configDir certPEM keyPEM w
            else place_host d domain certPEM keyPEM w) of
        (Inl e, w1) \<Rightarrow> (Inl e, w1)
      | (Inr names, w1) \<Rightarrow>
          record_cert d dirOf configDir version own domain info certPEM keyPEM refresh names w1)"

definition ApplyCert ::
  "'sw deps \<Rightarrow> 'sw os \<Rightarrow> x509lib \<Rightarrow> (string \<Rightarrow> string) \<Rightarrow> string \<Rightarrow> string \<Rightarrow> string \<Rightarrow> string \<Rightarrow> string \<Rightarrow> bool \<Rightarrow>
     'sw cworld \<Rightarrow> (cert_err + SiteCertRow) \<times> 'sw cworld" where
  "ApplyCert d o' x dirOf configDir version domain0 certPEM keyPEM refresh w =
     (let domain1 = (if domain0 = [] then GetSettingDefault settingDomain [] (fst w) else domain0) in
      if domain1 = [] then (Inl Cert_No_Domain, w)
      else
        (case Validate_host domain1 of
           Inl e \<Rightarrow> (Inl (Cert_Host e), w)
         | Inr _ \<Rightarrow>
            (let domain = map to_lower domain1 in
             case ParseAndCheck x certPEM keyPEM domain of
               Inl e \<Rightarrow> (Inl (Cert_Pair e), w)
             | Inr info \<Rightarrow>
                apply_checked d o' dirOf configDir version domain info certPEM keyPEM refresh w)))"

section \<open>Removing, reading, warning\<close>

definition RemoveCert ::
  "'sw deps \<Rightarrow> (string \<Rightarrow> string) \<Rightarrow> string \<Rightarrow> string \<Rightarrow> string \<Rightarrow> bool \<Rightarrow> 'sw cworld \<Rightarrow>
     (cert_err + unit) \<times> 'sw cworld" where
  "RemoveCert d dirOf configDir version domain0 refresh w =
     (let (db, s) = w; domain = map to_lower domain0 in
      if domain = PersistedDomain (Some db) then (Inl (Cert_Own domain), w)
      else
        (case GetSiteCert domain db of
           Inl e \<Rightarrow> (Inl (Cert_Lookup e), w)
         | Inr row \<Rightarrow>
            (let s1 = snd (SecretRemove (cdSdk d) (scCertSecret row) s);
                 s2 = snd (SecretRemove (cdSdk d) (scKeySecret row) s1);
                 w2 = (DeleteSiteCert domain db, s2)
             in if refresh then
                  map_prod (map_sum Cert_Refresh (\<lambda>_. ())) id (Update d dirOf configDir version w2)
                else (Inr (), w2))))"

definition GetSiteCert_opt :: "string \<Rightarrow> Store option \<Rightarrow> store_err + SiteCertRow" where
  "GetSiteCert_opt domain st =
     (case st of None \<Rightarrow> Inl ErrSiteCertNotFound | Some db \<Rightarrow> GetSiteCert domain db)"

datatype expiry_warning = Expired_Days_Ago int | Expires_In_Days int

definition siteCertExpiryWarnDays :: int where "siteCertExpiryWarnDays = 30"

text \<open>Whole days up to the expiry, rounded towards zero; times are in seconds.\<close>

definition warnSiteCertExpiry :: "int \<Rightarrow> string \<Rightarrow> Store option \<Rightarrow> expiry_warning option" where
  "warnSiteCertExpiry now domain st =
     (if st = None \<or> domain = [] then None
      else (case GetSiteCert domain (the st) of
              Inl _ \<Rightarrow> None
            | Inr row \<Rightarrow>
                (let left = scNotAfter row - now; days = sgn left * (\<bar>left\<bar> div 86400) in
                 if days < 0 then Some (Expired_Days_Ago (- days))
                 else if days \<le> siteCertExpiryWarnDays then Some (Expires_In_Days days)
                 else None)))"

end
