(* ===== verification/Cluster_Reconcile.thy ===== *)
theory Cluster_Reconcile
  imports Cluster_Update Cluster_Sync Cluster_Credentials_Properties
begin

text \<open>
  What the last step of an update does to the record of rendered stacks: the texts go on record
  before they are deployed, so a deployment that failed, or a stack that was taken down since, looks
  deployed to the next update.
\<close>

section \<open>What rendering reads of the store\<close>

definition template_view :: "Store \<Rightarrow> string \<Rightarrow> (string \<times> string \<times> string \<times> string) option" where
  "template_view db k =
     map_option (\<lambda>r. (cfgScope r, cfgKind r, cfgVersion r, cfgContent r)) (find_config db k)"

text \<open>What \<^verbatim>\<open>text/template\<close> makes of a render input does not depend on the rows of the store it points
  to: the store has no exported fields.\<close>

definition templates_ignore_store :: "rendering \<Rightarrow> bool" where
  "templates_ignore_store rn \<longleftrightarrow>
     (\<forall>body inp db db'. rnTemplate rn body (with_store inp db) = rnTemplate rn body (with_store inp db'))"

lemma with_store_fields [simp]:
  "riDomain (with_store ri db) = riDomain ri" "riOOEmail (with_store ri db) = riOOEmail ri"
  "riDataDir (with_store ri db) = riDataDir ri" "riOOPassword (with_store ri db) = riOOPassword ri"
  "riOOBasicAuth (with_store ri db) = riOOBasicAuth ri" "riHostCerts (with_store ri db) = riHostCerts ri"
  "riOTelConfigName (with_store ri db) = riOTelConfigName ri"
  "riTraefikConfigName (with_store ri db) = riTraefikConfigName ri"
  "riCertSecretName (with_store ri db) = riCertSecretName ri"
  "riKeySecretName (with_store ri db) = riKeySecretName ri"
  "riSSOEnabled (with_store ri db) = riSSOEnabled ri" "riConfigStore (with_store ri db) = Some db"
  by (simp_all add: with_store_def)

lemma readConfigFile_view:
  assumes "template_view db = template_view db'"
  shows "readConfigFile rn name (with_store ri db) = readConfigFile rn name (with_store ri db')"
  using fun_cong [OF assms, of "trim_suffix name ''.yml''"]
  by (auto simp: readConfigFile_def template_view_def GetConfig_eq current_template_def split: option.splits)

lemma LoadComposeFile_view:
  assumes "templates_ignore_store rn" "template_view db = template_view db'"
  shows "LoadComposeFile rn name (with_store ri db) = LoadComposeFile rn name (with_store ri db')"
proof -
  have t: "rnTemplate rn body (with_store ri db) = rnTemplate rn body (with_store ri db')" for body
    using assms(1) unfolding templates_ignore_store_def by blast
  have r: "resolvePlatformConfig (with_store ri db) = resolvePlatformConfig (with_store ri db')"
    "resolvePlatformSecret (with_store ri db) = resolvePlatformSecret (with_store ri db')"
    "substitute_platform (with_store ri db) = substitute_platform (with_store ri db')"
    by (simp_all add: fun_eq_iff resolvePlatformConfig_def resolvePlatformSecret_def substitute_platform_def)
  show ?thesis
    unfolding LoadComposeFile_def readConfigFile_view [OF assms(2), of rn _ ri] t r ..
qed

lemma render_stacks_view:
  assumes "templates_ignore_store rn" "template_view db = template_view db'"
  shows "render_stacks rn (with_store ri db) ns = render_stacks rn (with_store ri db') ns"
  by (induction ns) (simp_all add: LoadComposeFile_view [OF assms, of _ ri])

lemma renderPlatformConfigs_view:
  assumes "templates_ignore_store rn" "template_view db = template_view db'"
  shows "renderPlatformConfigs rn (with_store ri db) = renderPlatformConfigs rn (with_store ri db')"
proof -
  have t: "rnTemplate rn body (with_store ri db) = rnTemplate rn body (with_store ri db')" for body
    using assms(1) unfolding templates_ignore_store_def by blast
  have "RenderTraefikDynamic rn (with_store ri db) = RenderTraefikDynamic rn (with_store ri db')"
    unfolding RenderTraefikDynamic_def readConfigFile_view [OF assms(2), of rn _ ri] t by simp
  moreover have "RenderOTelCollectorConfig rn (with_store ri db) = RenderOTelCollectorConfig rn (with_store ri db')"
    unfolding RenderOTelCollectorConfig_def readConfigFile_view [OF assms(2), of rn _ ri] by simp
  ultimately show ?thesis
    unfolding renderPlatformConfigs_def render_stacks_view [OF assms, of ri] by simp
qed

section \<open>Snapshots\<close>

definition stamp :: "(string \<Rightarrow> string) \<Rightarrow> int \<Rightarrow> string \<Rightarrow> ConfigRow \<Rightarrow> ConfigRow" where
  "stamp hash now y r = r\<lparr> cfgRenderedContent := y, cfgRenderedHash := hash y, cfgRenderedAt := now \<rparr>"

lemma SetRendered_find:
  "find_config (snd (SetRendered hash now n y db)) k =
     (if k = n then map_option (stamp hash now y) (find_config db n) else find_config db k)"
  unfolding SetRendered_def find_config_def stamp_def
  by (auto simp: tbl_simps option.map_ident split: option.splits)

lemma SetRendered_result:
  "fst (SetRendered hash now n y db) = Inr () \<or> fst (SetRendered hash now n y db) = Inl ErrConfigNotFound"
  by (simp add: SetRendered_def)

lemma snapshot_all_find:
  assumes "distinct (map fst rendered)"
  shows "\<exists>db'. snapshot_all hash now rendered db = (Inr (), db') \<and>
    (\<forall>k. find_config db' k =
       (case map_of rendered k of None \<Rightarrow> find_config db k
        | Some y \<Rightarrow> map_option (stamp hash now y) (find_config db k)))"
  using assms
proof (induction rendered arbitrary: db)
  case (Cons a rest)
  obtain n y where a: "a = (n, y)" by (cases a)
  obtain r db1 where s: "SetRendered hash now n y db = (r, db1)" by (cases "SetRendered hash now n y db")
  have f: "find_config db1 k = (if k = n then map_option (stamp hash now y) (find_config db n) else find_config db k)" for k
    using SetRendered_find [of hash now n y db k] s by simp
  have step: "snapshot_all hash now (a # rest) db = snapshot_all hash now rest db1"
    using SetRendered_result [of hash now n y db] s a by auto
  have n: "map_of rest n = None" using Cons.prems a by (simp add: map_of_eq_None_iff)
  obtain db' where d: "snapshot_all hash now rest db1 = (Inr (), db')"
    "\<And>k. find_config db' k = (case map_of rest k of None \<Rightarrow> find_config db1 k
        | Some y \<Rightarrow> map_option (stamp hash now y) (find_config db1 k))"
    using Cons.IH [of db1] Cons.prems a by auto
  show ?case unfolding step d(1) using d(2) f n a by (intro exI conjI refl allI) (auto split: option.splits)
qed simp

lemma snapshot_all_view:
  assumes "distinct (map fst rendered)"
  shows "template_view (snd (snapshot_all hash now rendered db)) = template_view db"
proof
  fix k
  show "template_view (snd (snapshot_all hash now rendered db)) k = template_view db k"
    using snapshot_all_find [OF assms, of hash now db]
    by (cases "map_of rendered k") (auto simp: template_view_def stamp_def option.map_comp o_def)
qed

section \<open>A second reconciliation\<close>

lemma render_stacks_keys:
  "render_stacks rn ri ns = Inr out \<Longrightarrow> map fst out = map (\<lambda>n. n @ ''-stack'') ns"
  by (induction ns arbitrary: out) (auto simp: bind_r_def split: sum.splits)

definition platform_keys :: "bool \<Rightarrow> string list" where
  "platform_keys sso = [''infra-stack'', ''observability-stack'', ''backup-stack'', ''edge-stack''] @
     (if sso then [''sso-stack''] else []) @ [''otel-collector-config'', ''traefik-dynamic'']"

lemma platform_keys_distinct: "distinct (platform_keys sso)"
proof -
  have "distinct (platform_keys True)" "distinct (platform_keys False)" by code_simp+
  then show ?thesis by (cases sso) simp_all
qed

lemma update_order_keys: "n \<in> set (update_order sso) \<Longrightarrow> n @ ''-stack'' \<in> set (platform_keys (soEnabled sso))"
  by (auto simp: update_order_def platform_keys_def)

lemma renderPlatformConfigs_keys:
  "renderPlatformConfigs rn ri = Inr out \<Longrightarrow> map fst out = platform_keys (riSSOEnabled ri)"
  by (auto simp: renderPlatformConfigs_def bind_r_def platform_keys_def split: sum.splits if_splits
      dest!: render_stacks_keys)

lemma stale_stacks_none:
  assumes "\<And>n. n \<in> set ns \<Longrightarrow> \<exists>row y. find_config db (n @ ''-stack'') = Some row \<and>
      map_of rendered (n @ ''-stack'') = Some y \<and> cfgRenderedHash row = hash y"
  shows "stale_stacks hash rendered db ns = Inr []"
  using assms
proof (induction ns)
  case (Cons n ns)
  obtain row y where "find_config db (n @ ''-stack'') = Some row"
    "map_of rendered (n @ ''-stack'') = Some y" "cfgRenderedHash row = hash y"
    using Cons.prems [of n] by auto
  then show ?case using Cons by (simp add: GetConfig_eq)
qed simp

lemma snapshot_then_fresh:
  assumes "renderPlatformConfigs rn ri = Inr rendered" "riSSOEnabled ri = soEnabled sso"
    and "\<And>n. n \<in> set (update_order sso) \<Longrightarrow> find_config db (n @ ''-stack'') \<noteq> None"
    and "snapshot_all hash now rendered db = (r, db')"
  shows "stale_stacks hash rendered db' (update_order sso) = Inr []"
proof (rule stale_stacks_none)
  fix n assume n: "n \<in> set (update_order sso)"
  have k: "map fst rendered = platform_keys (soEnabled sso)"
    using renderPlatformConfigs_keys [OF assms(1)] assms(2) by simp
  have "n @ ''-stack'' \<in> fst ` set rendered"
    using update_order_keys [OF n] k by (metis set_map)
  then obtain y where y: "map_of rendered (n @ ''-stack'') = Some y"
    by (metis weak_map_of_SomeI image_iff prod.collapse)
  obtain row where row: "find_config db (n @ ''-stack'') = Some row" using assms(3) [OF n] by blast
  have "find_config db' (n @ ''-stack'') = Some (stamp hash now y row)"
    using snapshot_all_find [of rendered hash now db] platform_keys_distinct [of "soEnabled sso"] k assms(4) y row
    by auto
  then show "\<exists>row y. find_config db' (n @ ''-stack'') = Some row \<and>
      map_of rendered (n @ ''-stack'') = Some y \<and> cfgRenderedHash row = hash y"
    using y by (auto simp: stamp_def)
qed

lemma wu_reconcile_records_first:
  assumes ren: "renderPlatformConfigs (cdRendering d) (with_store (wuRender st) (fst (wuWorld st))) = Inr rendered"
    and "riSSOEnabled (wuRender st) = soEnabled (wuSSO st)"
  shows "fst (wuWorld (snd (wu_reconcile d st))) =
      snd (snapshot_all (cdHash d) (cdNow d) rendered (fst (wuWorld st))) \<or>
    (\<exists>e. stale_stacks (cdHash d) rendered (fst (wuWorld st)) (update_order (wuSSO st)) = Inl e)"
  using assms by (auto simp: wu_reconcile_def Let_def split: sum.splits prod.splits)

lemma stale_stacks_ok: "\<exists>l. stale_stacks hash rendered db ns = Inr l"
proof (induction ns)
  case (Cons n ns)
  then show ?case by (auto simp: Let_def GetConfig_def split: option.splits)
qed simp

lemma reconcile_again:
  assumes "templates_ignore_store (cdRendering d)"
    and ren: "renderPlatformConfigs (cdRendering d) (with_store (wuRender st) (fst (wuWorld st))) = Inr rendered"
    and sso: "riSSOEnabled (wuRender st) = soEnabled (wuSSO st)"
    and rows: "\<And>n. n \<in> set (update_order (wuSSO st)) \<Longrightarrow> find_config (fst (wuWorld st)) (n @ ''-stack'') \<noteq> None"
    and run: "wu_reconcile d st = (r, st1)"
  shows "\<exists>st2. wu_reconcile d (st\<lparr> wuWorld := (fst (wuWorld st1), swarm) \<rparr>) = (Inr (), st2) \<and>
    udStacksDeployed (wuRes st2) = [] \<and> snd (wuWorld st2) = swarm"
proof -
  let ?db = "fst (wuWorld st)" let ?db1 = "fst (wuWorld st1)" let ?ri = "wuRender st"
  have d: "distinct (map fst rendered)"
    using renderPlatformConfigs_keys [OF ren] platform_keys_distinct by simp
  obtain u where snap: "snapshot_all (cdHash d) (cdNow d) rendered ?db = (u, ?db1)"
    using wu_reconcile_records_first [OF ren sso] stale_stacks_ok run by (metis prod.collapse snd_conv sum.distinct(1))
  have v: "template_view ?db = template_view ?db1"
    using snapshot_all_view [OF d, of "cdHash d" "cdNow d" ?db] snap by simp
  have ren1: "renderPlatformConfigs (cdRendering d) (with_store ?ri ?db1) = Inr rendered"
    using renderPlatformConfigs_view [OF assms(1) v] ren by simp
  have fresh: "stale_stacks (cdHash d) rendered ?db1 (update_order (wuSSO st)) = Inr []"
    using snapshot_then_fresh [OF ren _ rows snap] sso by simp
  obtain db2 where "snapshot_all (cdHash d) (cdNow d) rendered ?db1 = (Inr (), db2)"
    using snapshot_all_find [OF d] by blast
  then show ?thesis using ren1 fresh by (simp add: wu_reconcile_def)
qed

text \<open>Property C27.  The last step of an update puts the rendered stacks on record before it deploys them.
  So whatever became of the deployment, and whatever happened to the swarm since (a failed docker
  command, a cluster taken down), the same step run again on the record it left succeeds, deploys
  no stack and leaves the swarm as it is.\<close>

theorem reconcile_is_never_repeated:
  assumes "templates_ignore_store (cdRendering d)"
    and "renderPlatformConfigs (cdRendering d) (with_store (wuRender st) (fst (wuWorld st))) = Inr rendered"
    and "riSSOEnabled (wuRender st) = soEnabled (wuSSO st)"
    and "\<And>n. n \<in> set (update_order (wuSSO st)) \<Longrightarrow> find_config (fst (wuWorld st)) (n @ ''-stack'') \<noteq> None"
    and "wu_reconcile d st = (r, st1)"
  shows "\<exists>st2. wu_reconcile d (st\<lparr> wuWorld := (fst (wuWorld st1), swarm) \<rparr>) = (Inr (), st2) \<and>
    udStacksDeployed (wuRes st2) = [] \<and> snd (wuWorld st2) = swarm"
  using assms by (rule reconcile_again)

text \<open>Templates that render to nothing, and a docker that refuses every command.\<close>

definition blank_rendering :: rendering where
  "blank_rendering = \<lparr> rnTemplate = (\<lambda>_ _. Inr []), rnEmbedded = (\<lambda>_. Some []), rnUnmarshal = (\<lambda>_. Inr (Some [])),
     rnMarshal = (\<lambda>_. Inr []), rnBuildVersion = ''v1'', rnEdgeImageEnv = [] \<rparr>"

definition blank_row :: "string \<Rightarrow> ConfigRow" where
  "blank_row name = \<lparr> cfgID = 1, cfgScope = ''cluster'', cfgStack = [], cfgName = name,
     cfgKind = ''template'', cfgContent = [], cfgVersion = ''v1'', cfgHash = [], cfgCreatedAt = 1,
     cfgUpdatedAt = 1, cfgRenderedContent = [], cfgRenderedAt = 0, cfgRenderedHash = [] \<rparr>"

definition blank_store :: Store where
  "blank_store = empty_store\<lparr> dbConfigs :=
     map blank_row [''infra-stack'', ''observability-stack'', ''backup-stack'', ''edge-stack''] \<rparr>"

definition broken_cli :: "toy_swarm cli" where
  "broken_cli = \<lparr> clRun = (\<lambda>_ _ s. (''no space left'', False, s)), clWait = (\<lambda>s. (False, s)),
     clServices = (\<lambda>_. Inr []) \<rparr>"

definition broken_deps :: "toy_swarm deps" where
  "broken_deps = \<lparr> cdManager = demo_manager, cdCli = broken_cli, cdRendering = blank_rendering,
     cdDraws = demo_draws, cdPing = (\<lambda>_. True), cdInfo = (\<lambda>_. Inl Nil_Status), cdDurOk = (\<lambda>_. True),
     cdReadFile = (\<lambda>_ _. None), cdMkdirAll = (\<lambda>_ s. (True, s)), cdPolls = (\<lambda>_. (0, [])), cdSettle = id \<rparr>"

definition reconciling :: "toy_swarm update_state" where
  "reconciling = (update_start (blank_store, [], []))\<lparr> wuRender :=
     render_input broken_deps ''/data'' ''example.com'' ''ops'' ''pw'' ''ops@example.com''
       (loadSSOSettings None) [] blank_store \<rparr>"

lemma blank_read: "readConfigFile blank_rendering f (with_store ri blank_store) = Inr []"
proof -
  have "row_find cfgName n (map blank_row ns) = Some r \<Longrightarrow> cfgContent r = []" for n ns r
    by (induction ns) (auto simp: blank_row_def row_find_def split: if_splits)
  then show ?thesis
    by (auto simp: readConfigFile_def embeddedConfigContent_def GetConfig_def blank_store_def
        blank_rendering_def simp del: list.map split: option.splits)
qed

lemma blank_LoadComposeFile:
  "composeFileOf n = Some f \<Longrightarrow> LoadComposeFile blank_rendering n (with_store ri blank_store) = Inr []"
  by (simp add: LoadComposeFile_def blank_read) (simp add: blank_rendering_def substitute_platform_def)

lemma composeFileOf_known:
  "composeFileOf ''infra'' = Some ''infra-stack.yml''" "composeFileOf ''edge'' = Some ''edge-stack.yml''"
  "composeFileOf ''observability'' = Some ''observability-stack.yml''"
  "composeFileOf ''backup'' = Some ''backup-stack.yml''"
  by (simp_all add: composeFileOf_def)

lemma blank_platform:
  assumes "riOOBasicAuth ri \<noteq> []" "riDomain ri \<noteq> []" "\<not> riSSOEnabled ri" "riHostCerts ri = []"
  shows "\<exists>out. renderPlatformConfigs blank_rendering (with_store ri blank_store) = Inr out"
proof -
  have "RenderTraefikDynamic blank_rendering (with_store ri blank_store) = Inr []"
    using assms(2,4) unfolding RenderTraefikDynamic_def blank_read
    by (simp add: blank_rendering_def appendHostCertSecrets_def)
  moreover have "RenderOTelCollectorConfig blank_rendering (with_store ri blank_store) = Inr []"
    using assms(1) unfolding RenderOTelCollectorConfig_def blank_read by simp
  ultimately show ?thesis
    using assms(3) by (simp add: renderPlatformConfigs_def composeFileOf_known [THEN blank_LoadComposeFile])
qed

theorem reconcile_is_never_repeated_witness:
  "\<exists>st2. wu_reconcile broken_deps (reconciling\<lparr> wuWorld := (fst (wuWorld (snd (wu_reconcile broken_deps reconciling))), [], []) \<rparr>)
      = (Inr (), st2) \<and> udStacksDeployed (wuRes st2) = []"
proof -
  have ri: "riOOBasicAuth (wuRender reconciling) \<noteq> []" "riDomain (wuRender reconciling) \<noteq> []"
    "\<not> riSSOEnabled (wuRender reconciling)" "riHostCerts (wuRender reconciling) = []"
    by (simp_all add: reconciling_def render_input_def openObserveBasicAuth_def loadSSOSettings_def
        loadHostCertEntries_def ListSiteCerts_def blank_store_def empty_store_def update_start_def)
  have w: "fst (wuWorld reconciling) = blank_store" "wuSSO reconciling = loadSSOSettings None"
    by (simp_all add: reconciling_def update_start_def)
  obtain out where "renderPlatformConfigs blank_rendering (with_store (wuRender reconciling) blank_store) = Inr out"
    using blank_platform [OF ri] by blast
  then have h2: "renderPlatformConfigs (cdRendering broken_deps)
      (with_store (wuRender reconciling) (fst (wuWorld reconciling))) = Inr out"
    by (simp add: w broken_deps_def)
  have "find_config blank_store ''infra-stack'' \<noteq> None" "find_config blank_store ''edge-stack'' \<noteq> None"
    "find_config blank_store ''observability-stack'' \<noteq> None" "find_config blank_store ''backup-stack'' \<noteq> None"
    by (simp_all add: find_config_def blank_store_def blank_row_def row_find_def)
  then have h4: "find_config (fst (wuWorld reconciling)) (n @ ''-stack'') \<noteq> None"
    if "n \<in> set (update_order (wuSSO reconciling))" for n
    using that by (auto simp: w update_order_def loadSSOSettings_def)
  have h1: "templates_ignore_store (cdRendering broken_deps)"
    by (simp add: templates_ignore_store_def broken_deps_def blank_rendering_def)
  have h3: "riSSOEnabled (wuRender reconciling) = soEnabled (wuSSO reconciling)"
    using ri(3) w(2) by (simp add: loadSSOSettings_def)
  show ?thesis
    using reconcile_is_never_repeated [OF h1 h2 h3 h4 prod.collapse [symmetric]] by blast
qed

end
