(* ===== verification/Cluster_Bringup.thy ===== *)
theory Cluster_Bringup
  imports Cluster_Reconcile
begin

text \<open>
  What a failed bring-up leaves behind: the store effects of each of its steps, and that neither a
  second bring-up nor an update accepts the result.
\<close>

section \<open>A failed bring-up\<close>

definition no_domain :: "Store \<Rightarrow> bool" where
  "no_domain db \<longleftrightarrow> GetSettingDefault settingDomain [] db = []"

definition platform_row :: "Store \<Rightarrow> bool" where
  "platform_row db \<longleftrightarrow> ''cluster'' \<in> cfgScope ` set (dbConfigs db)"

lemma no_domain_cong: "dbSettings db' = dbSettings db \<Longrightarrow> no_domain db' = no_domain db"
  by (simp add: no_domain_def GetSettingDefault_def GetSetting_def)

lemma scopes_update:
  assumes "\<And>r. cfgScope (f r) = cfgScope r"
  shows "cfgScope ` set (row_update key k f rows) = cfgScope ` set rows"
proof -
  have "map cfgScope (row_update key k f rows) = map cfgScope rows"
    using assms by (auto simp: row_update_def)
  then show ?thesis by (metis set_map)
qed

lemma platform_row_installed: "platform_row db \<Longrightarrow> clusterInstalled (Some db)"
  by (auto simp: platform_row_def clusterInstalled_def ListConfigs_def wild_def filter_empty_conv)

lemma UpdateConfig_keeps:
  "dbSettings (snd (UpdateConfig hash now n c v db)) = dbSettings db"
  "dbSiteCerts (snd (UpdateConfig hash now n c v db)) = dbSiteCerts db"
  "platform_row (snd (UpdateConfig hash now n c v db)) = platform_row db"
  by (simp_all add: UpdateConfig_def push_version_def platform_row_def scopes_update Let_def split: option.splits)

lemma CreateConfig_keeps:
  "dbSettings (snd (CreateConfig hash now sc st n k c v db)) = dbSettings db"
  "dbSiteCerts (snd (CreateConfig hash now sc st n k c v db)) = dbSiteCerts db"
  "platform_row db \<Longrightarrow> platform_row (snd (CreateConfig hash now sc st n k c v db))"
  "CreateConfig hash now ''cluster'' st n k c v db = (Inr i, db') \<Longrightarrow> platform_row db'"
  by (auto simp: CreateConfig_def platform_row_def Let_def split: if_splits)

lemma sync_one_keeps:
  "dbSettings (snd (sync_one rn hash now v name res db)) = dbSettings db"
  "dbSiteCerts (snd (sync_one rn hash now v name res db)) = dbSiteCerts db"
  "platform_row db \<Longrightarrow> platform_row (snd (sync_one rn hash now v name res db))"
  using UpdateConfig_keeps CreateConfig_keeps(1,2,3)
  by (auto simp: sync_one_def Let_def split: sum.splits prod.splits) (metis snd_conv)+

lemma sync_all_keeps:
  "dbSettings (snd (sync_all rn hash now v names res db)) = dbSettings db"
  "dbSiteCerts (snd (sync_all rn hash now v names res db)) = dbSiteCerts db"
  "platform_row db \<Longrightarrow> platform_row (snd (sync_all rn hash now v names res db))"
proof -
  show "dbSettings (snd (sync_all rn hash now v names res db)) = dbSettings db"
    by (induction rn hash now v names res db rule: sync_all.induct)
      (auto split: sum.splits prod.splits, (metis sync_one_keeps(1) snd_conv)+)
  show "dbSiteCerts (snd (sync_all rn hash now v names res db)) = dbSiteCerts db"
    by (induction rn hash now v names res db rule: sync_all.induct)
      (auto split: sum.splits prod.splits, (metis sync_one_keeps(2) snd_conv)+)
  show "platform_row db \<Longrightarrow> platform_row (snd (sync_all rn hash now v names res db))"
    by (induction rn hash now v names res db rule: sync_all.induct)
      (auto split: sum.splits prod.splits, (metis sync_one_keeps(3) snd_conv)+)
qed

lemma sync_makes_row:
  assumes "SyncClusterConfigs rn hash now v db = (Inr res, db')" "find_config db ''infra-stack'' = None"
  shows "platform_row db'"
proof -
  let ?r0 = "\<lparr> syCreated = [], syUpdated = [], syPreserved = [] \<rparr>"
  obtain rest where names: "ConfigFileNames = ''infra-stack.yml'' # rest" by (simp add: ConfigFileNames_def)
  obtain r1 db1 where one: "sync_one rn hash now v ''infra-stack.yml'' ?r0 db = (r1, db1)"
    by (cases "sync_one rn hash now v ''infra-stack.yml'' ?r0 db")
  have r1: "\<exists>x. r1 = Inr x" "snd (sync_all rn hash now v rest (projr r1) db1) = db'"
    using assms(1) one by (auto simp: SyncClusterConfigs_def names split: sum.splits)
  have "trim_suffix ''infra-stack.yml'' ''.yml'' = ''infra-stack''" by code_simp
  then have "platform_row db1"
    using one r1(1) assms(2) by (auto simp: sync_one_def GetConfig_eq Let_def split: sum.splits prod.splits
        dest: CreateConfig_keeps(4))
  then show ?thesis using sync_all_keeps(3) r1(2) by metis
qed


text \<open>The credential operations touch neither the settings nor the configs nor the certificates.\<close>

definition spares :: "Store \<Rightarrow> Store \<Rightarrow> bool" where
  "spares db db' \<longleftrightarrow> dbSettings db' = dbSettings db \<and> dbConfigs db' = dbConfigs db \<and> dbSiteCerts db' = dbSiteCerts db"

lemma spares_refl [simp]: "spares db db"
  by (simp add: spares_def)

lemma spares_trans: "spares a b \<Longrightarrow> spares b c \<Longrightarrow> spares a c"
  by (simp add: spares_def)

lemma spares_ops:
  "CreateUser now n t h db = (r1, db') \<Longrightarrow> spares db db'"
  "RotateCredential now n ct db = (r2, db') \<Longrightarrow> spares db db'"
  "UpdateCredentialUsername n u db = (r2, db') \<Longrightarrow> spares db db'"
  "InsertCredential now c db = (r2, db') \<Longrightarrow> spares db db'"
  by (auto simp: CreateUser_def RotateCredential_def UpdateCredentialUsername_def InsertCredential_def
      spares_def Let_def split: if_splits)

lemma generatePassword_spares: "generatePassword m spec rnd db = (r, db') \<Longrightarrow> spares db db'"
  by (auto simp: generatePassword_def ensureEdgeAPIToken_def Let_def
      split: generator.splits sum.splits prod.splits dest: spares_ops(1))

lemma rotate_with_username_spares: "rotate_with_username m rnd n u db = (r, db') \<Longrightarrow> spares db db'"
  by (auto simp: rotate_with_username_def split: sum.splits prod.splits
      dest!: spares_ops(2,3) intro: spares_trans)

lemma ensure_existing_spares: "ensure_existing m rnd spec row (db, s) = (r, db', s') \<Longrightarrow> spares db db'"
  by (auto simp: ensure_existing_def Let_def split: sum.splits prod.splits if_splits
      dest!: rotate_with_username_spares spares_ops(3) intro: spares_trans)

lemma ensure_new_spares: "ensure_new m rnd spec (db, s) = (r, db', s') \<Longrightarrow> spares db db'"
  by (auto simp: ensure_new_def Let_def split: sum.splits prod.splits
      dest!: generatePassword_spares spares_ops(4) intro: spares_trans)

lemma ensure_credential_spares: "ensure_credential m rnd spec (db, s) = (r, db', s') \<Longrightarrow> spares db db'"
  by (auto simp: ensure_credential_def split: sum.splits if_splits
      dest: ensure_existing_spares ensure_new_spares)

lemma bootstrap_all_spares: "bootstrap_all m rnd specs out (db, s) = (r, db', s') \<Longrightarrow> spares db db'"
proof (induction specs arbitrary: out db s)
  case (Cons spec specs)
  obtain r1 db1 s1 where e: "ensure_credential m rnd spec (db, s) = (r1, db1, s1)"
    by (cases "ensure_credential m rnd spec (db, s)")
  show ?case
    using Cons.prems Cons.IH [of _ db1 s1] ensure_credential_spares [OF e] e
    by (auto split: sum.splits intro: spares_trans)
qed simp

lemma Bootstrap_spares: "Bootstrap m rnd u e (db, s) = (r, db', s') \<Longrightarrow> spares db db'"
  by (auto simp: Bootstrap_def Let_def split: if_splits dest: bootstrap_all_spares)

section \<open>The steps of a bring-up\<close>

text \<open>No domain on record, and a platform row if there was one before.\<close>

definition unfinished :: "Store \<Rightarrow> bool" where
  "unfinished db \<longleftrightarrow> no_domain db \<and> platform_row db"

lemma unfinished_spares: "spares db db' \<Longrightarrow> unfinished db \<Longrightarrow> unfinished db'"
  by (simp add: spares_def unfinished_def no_domain_def platform_row_def GetSettingDefault_def GetSetting_def)

lemma unfinished_set:
  assumes "unfinished db" "k \<noteq> settingDomain"
  shows "unfinished (SetSetting k v db)"
proof -
  have "dbConfigs (SetSetting k v db) = dbConfigs db" by (simp add: SetSetting_def)
  then show ?thesis using assms by (simp add: unfinished_def no_domain_def platform_row_def GetSettingDefault_SetSetting)
qed

lemma EnsureVersionedSecret_unfinished:
  assumes "EnsureVersionedSecretFromFile rf dk hash base path (Some db, s) = (r, hs', s')" "unfinished db"
  shows "\<exists>db'. hs' = Some db' \<and> unfinished db'"
proof -
  have "secretHashKey base \<noteq> settingDomain" by (simp add: secretHashKey_def settingDomain_def)
  then show ?thesis
    using assms by (auto simp: EnsureVersionedSecretFromFile_def EnsureVersionedSecret_def Let_def
        intro: unfinished_set split: option.splits sum.splits prod.splits if_splits)
qed

lemma provision_tls_unfinished:
  assumes "provision_tls d cp kp (db, s) = (r, db', s')" "unfinished db"
  shows "unfinished db'"
  using assms
  by (auto simp: provision_tls_def Let_def map_prod_def split: sum.splits prod.splits
      dest!: EnsureVersionedSecret_unfinished)

lemma SetRendered_unfinished:
  assumes "unfinished db" shows "unfinished (snd (SetRendered hash now n y db))"
  using assms
  by (simp add: SetRendered_def unfinished_def no_domain_def platform_row_def GetSettingDefault_def
      GetSetting_def scopes_update)

lemma snapshot_all_unfinished: "unfinished db \<Longrightarrow> unfinished (snd (snapshot_all hash now ys db))"
proof (induction ys arbitrary: db)
  case (Cons a ys)
  obtain n y where a: "a = (n, y)" by (cases a)
  show ?case
    using SetRendered_unfinished [OF Cons.prems, of hash now n y] Cons.IH
    by (auto simp: a split: sum.splits prod.splits)
qed simp

lemma Run_Inl_split:
  assumes "Run (v @ w) t = (Inl (n, e), out, t')" "n \<notin> stepName ` set v"
  obtains out1 t1 where "Run v t = (Inr (), out1, t1)" "\<exists>out2. Run w t1 = (Inl (n, e), out2, t')"
proof -
  have *: "Run v t = (Inl (m, e'), o', t1) \<Longrightarrow> m \<in> stepName ` set v" for m e' o' t1 v t
    by (induction v t arbitrary: o' rule: Run.induct) (auto split: sum.splits prod.splits)
  have "\<forall>e'. fst (Run v t) \<noteq> Inl (n, e')" using * [of v t n] assms(2) by (metis prod.collapse)
  then show thesis
    using assms(1) by (auto simp: Run_append split: sum.splits prod.splits intro: that)
qed

lemma Run_total:
  assumes "\<And>st t. st \<in> set w \<Longrightarrow> \<exists>t'. stepRun st t = (Inr (), t')"
  shows "\<exists>out t'. Run w t = (Inr (), out, t')"
  using assms
proof (induction w t rule: Run.induct)
  case (2 st w t)
  obtain t1 where t1: "stepRun st t = (Inr (), t1)" using "2.prems" by (meson list.set_intros(1))
  obtain out t' where "Run w t1 = (Inr (), out, t')"
    using "2.IH" [OF t1 [symmetric] refl] "2.prems" by (meson list.set_intros(2))
  then show ?case by (simp add: t1)
qed simp

lemma up_steps_unfinished:
  assumes "unfinished (fst (usWorld st))"
  shows "unfinished (fst (usWorld (snd (up_networks d st))))"
    "unfinished (fst (usWorld (snd (up_tls d inp st))))"
    "unfinished (fst (usWorld (snd (up_credentials d inp st))))"
    "unfinished (fst (usWorld (snd (up_render d dirOf inp st))))"
    "unfinished (fst (usWorld (snd (up_deploy d st))))"
    "unfinished (fst (usWorld (snd (up_health d st))))"
    "unfinished (fst (usWorld (snd (up_snapshot d st))))"
proof -
  obtain db s where w: "usWorld st = (db, s)" by (cases "usWorld st")
  have u: "unfinished db" using assms w by simp
  show "unfinished (fst (usWorld (snd (up_networks d st))))"
    using u by (simp add: up_networks_def w Let_def split: prod.splits option.splits)
  show "unfinished (fst (usWorld (snd (up_tls d inp st))))"
    using u by (auto simp: up_tls_def w split: prod.splits sum.splits dest: provision_tls_unfinished)
  show "unfinished (fst (usWorld (snd (up_credentials d inp st))))"
    using u by (auto simp: up_credentials_def w Let_def split: prod.splits sum.splits option.splits
        dest!: Bootstrap_spares intro: unfinished_spares)
  show "unfinished (fst (usWorld (snd (up_render d dirOf inp st))))"
    using u by (auto simp: up_render_def w Let_def split: prod.splits sum.splits option.splits)
  show "unfinished (fst (usWorld (snd (up_deploy d st))))"
    using u by (simp add: up_deploy_def w Let_def split: prod.splits sum.splits)
  show "unfinished (fst (usWorld (snd (up_health d st))))"
    using u by (simp add: up_health_def w split: prod.splits option.splits health.splits)
  show "unfinished (fst (usWorld (snd (up_snapshot d st))))"
    using snapshot_all_unfinished [OF u]
    by (auto simp: up_snapshot_def w u split: prod.splits sum.splits) (metis snd_conv)
qed

definition up_head :: "'sw deps \<Rightarrow> UpInput \<Rightarrow> (life_err, 'sw up_state) Workflow" where
  "up_head d inp =
     [\<lparr> stepName = ''Preflight'', stepRun = up_preflight d \<rparr>,
      \<lparr> stepName = ''Ensuring storage root directories'', stepRun = up_storage d inp \<rparr>,
      \<lparr> stepName = ''Syncing platform config templates into the store'', stepRun = up_sync d inp \<rparr>]"

definition up_tail :: "'sw deps \<Rightarrow> UpInput \<Rightarrow> (life_err, 'sw up_state) Workflow" where
  "up_tail d inp =
     [\<lparr> stepName = ''Persisting install state'', stepRun = up_persist inp \<rparr>,
      \<lparr> stepName = ''Cluster up complete.'', stepRun = (\<lambda>st. (Inr (), st)) \<rparr>]"

lemma up_workflow_split:
  fixes d :: "'a deps"
  shows "\<exists>mid. up_workflow d dirOf inp = up_head d inp @ mid @ up_tail d inp \<and>
     (\<forall>st \<in> set mid. \<forall>t. unfinished (fst (usWorld t)) \<longrightarrow> unfinished (fst (usWorld (snd (stepRun st t)))))"
proof (intro exI conjI ballI allI impI)
  let ?mid = "[\<lparr> stepName = ''Ensuring overlay networks'', stepRun = up_networks d \<rparr>,
      \<lparr> stepName = ''TLS certificate'', stepRun = up_tls d inp \<rparr>,
      \<lparr> stepName = ''Bootstrapping managed credentials'', stepRun = up_credentials d inp \<rparr>,
      \<lparr> stepName = ''Rendering and creating Docker configs'', stepRun = up_render d dirOf inp \<rparr>,
      \<lparr> stepName = ''Deploying stacks'', stepRun = up_deploy d \<rparr>,
      \<lparr> stepName = ''Waiting for all services to become healthy'', stepRun = up_health d \<rparr>,
      \<lparr> stepName = ''Snapshotting rendered configs into the store'', stepRun = up_snapshot d \<rparr>]"
  show "up_workflow d dirOf inp = up_head d inp @ ?mid @ up_tail d inp"
    by (simp add: up_workflow_def up_head_def up_tail_def)
  fix st and t :: "'a up_state" assume "st \<in> set ?mid" and u: "unfinished (fst (usWorld t))"
  then show "unfinished (fst (usWorld (snd (stepRun st t))))"
    using up_steps_unfinished [OF u] by auto
qed

lemma up_head_unfinished:
  assumes "Run (up_head d inp) (up_start (db, s)) = (Inr (), out, t)"
    and "no_domain db" "find_config db ''infra-stack'' = None"
  shows "unfinished (fst (usWorld t))"
proof -
  obtain res db1 where "SyncClusterConfigs (cdRendering d) (cdHash d) (cdNow d) (uiVersion inp) db = (Inr res, db1)"
    "fst (usWorld t) = db1"
    using assms(1) by (auto simp: up_head_def up_preflight_def up_storage_def up_sync_def up_start_def Let_def
        split: sum.splits prod.splits option.splits)
  then show ?thesis
    using sync_makes_row assms(2,3) sync_all_keeps(1) no_domain_cong unfolding unfinished_def SyncClusterConfigs_def
    by (metis snd_conv)
qed

lemma failed_up_unfinished:
  assumes "Up d dirOf inp (db, s) = (Inl (Life_Step n e), db', s')"
    and "n \<notin> stepName ` set (up_head d inp)" "find_config db ''infra-stack'' = None"
  shows "unfinished db'"
proof -
  obtain inp1 where "mergeTLSState inp (loadTLSSettings (Some db)) = Inr inp1"
    using assms(1) by (cases "mergeTLSState inp (loadTLSSettings (Some db))") (simp_all add: Up_def)
  then obtain out t where run: "Run (up_workflow d dirOf inp1) (up_start (db, s)) = (Inl (n, e), out, t)"
    "usWorld t = (db', s')" and ni: "\<not> clusterInstalled (Some db)"
    using assms(1) by (auto simp: Up_def split: option.splits if_splits sum.splits prod.splits)
  have nd: "no_domain db" using ni by (simp add: clusterInstalled_def no_domain_def)
  obtain mid where w: "up_workflow d dirOf inp1 = up_head d inp1 @ mid @ up_tail d inp1"
    and mid: "\<And>st t. st \<in> set mid \<Longrightarrow> unfinished (fst (usWorld t)) \<Longrightarrow> unfinished (fst (usWorld (snd (stepRun st t))))"
    using up_workflow_split [of d dirOf inp1] by metis
  have n: "n \<notin> stepName ` set (up_head d inp1)" using assms(2) by (simp add: up_head_def)
  obtain out1 t1 out2 where h: "Run (up_head d inp1) (up_start (db, s)) = (Inr (), out1, t1)"
    and m: "Run (mid @ up_tail d inp1) t1 = (Inl (n, e), out2, t)"
    using Run_Inl_split [OF run(1) [unfolded w] n] by metis
  have "\<exists>out t'. Run (up_tail d inp1) t2 = (Inr (), out, t')" for t2
    by (rule Run_total) (auto simp: up_tail_def up_persist_def)
  then obtain out3 where "Run mid t1 = (Inl (n, e), out3, t)"
    using m by (auto simp: Run_append split: sum.splits prod.splits) (metis Inl_Inr_False fst_conv prod.sel(1))+
  moreover have "unfinished (fst (usWorld (snd (snd (Run mid t1)))))"
    using Run_invariant [where P = "\<lambda>t. unfinished (fst (usWorld t))", OF up_head_unfinished [OF h nd assms(3)] mid] .
  ultimately show ?thesis using run(2) by simp
qed

text \<open>A store with platform rows and no domain: a bring-up refuses its input or the cluster, and changes
  nothing; an update fails, at the latest when it looks for the domain, and leaves the store so.\<close>

lemma Up_refused:
  assumes "unfinished db"
  shows "\<exists>e. Up d dirOf inp (db, s) = (Inl e, db, s) \<and>
    (e = Already_Installed \<or>
     (\<exists>se. e = State_Refused se \<and>
        (mergeTLSState inp (loadTLSSettings (Some db)) = Inl se \<or>
         (\<exists>inp1. mergeTLSState inp (loadTLSSettings (Some db)) = Inr inp1 \<and> validateUpInput inp1 = Some se))))"
  using assms platform_row_installed [of db]
  by (auto simp: Up_def unfinished_def split: sum.splits option.splits)

lemma Update_refused:
  assumes "unfinished db"
  shows "\<exists>n e db' s'. Update d dirOf configDir version (db, s) = (Inl (Life_Step n e), db', s') \<and> unfinished db' \<and>
    (Preflight (cdPing d s) (cdInfo d s) = None \<and>
       is_ok (fst (SyncClusterConfigs (cdRendering d) (cdHash d) (cdNow d) version db)) \<longrightarrow> e = No_Domain)"
proof -
  obtain r db1 where sync: "SyncClusterConfigs (cdRendering d) (cdHash d) (cdNow d) version db = (r, db1)"
    by (cases "SyncClusterConfigs (cdRendering d) (cdHash d) (cdNow d) version db")
  then have "unfinished (snd (SyncClusterConfigs (cdRendering d) (cdHash d) (cdNow d) version db))"
    using assms no_domain_cong sync_all_keeps(1,3) unfolding SyncClusterConfigs_def unfinished_def by metis
  then have k: "unfinished db1" by (simp add: sync)
  then have nd: "GetSettingDefault settingDomain [] db1 = []" by (simp add: unfinished_def no_domain_def)
  show ?thesis
  proof (cases "Preflight (cdPing d s) (cdInfo d s)")
    case (Some e)
    then show ?thesis
      using assms by (simp add: Update_def update_workflow_def wu_preflight_def update_start_def)
  next
    case None
    then show ?thesis
      using k nd by (cases r)
        (simp_all add: Update_def update_workflow_def wu_preflight_def wu_sync_def wu_load_def update_start_def sync is_ok_iff)
  qed
qed

text \<open>Property C26.  A bring-up of a fresh cluster that fails after the templates were synced, on a store
  that had no \<^verbatim>\<open>infra-stack\<close> config yet, leaves platform rows and no domain: the cluster counts as
  installed.  For as long as the store has platform rows and no domain, whatever else happens to it,
  every bring-up on any machine and swarm refuses, for its input or because the cluster is installed,
  and changes nothing; and every update fails, for want of a domain if its preflight and its sync
  succeed, and leaves platform rows and no domain again.  So it ends only when somebody sets the
  domain or deletes the rows by hand.\<close>

theorem failed_up_strands_the_cluster:
  fixes d :: "'a deps" and d2 :: "'b deps"
  assumes "Up d dirOf inp (db, s) = (Inl (Life_Step n e), db', s')"
    and "n \<notin> {''Preflight'', ''Ensuring storage root directories'', ''Syncing platform config templates into the store''}"
    and "find_config db ''infra-stack'' = None"
  shows "GetSettingDefault settingDomain [] db' = [] \<and> ''cluster'' \<in> cfgScope ` set (dbConfigs db') \<and>
    clusterInstalled (Some db') \<and>
    (\<forall>db2. GetSettingDefault settingDomain [] db2 = [] \<and> ''cluster'' \<in> cfgScope ` set (dbConfigs db2) \<longrightarrow>
      (\<exists>e2. Up d2 dirOf2 inp2 (db2, s2) = (Inl e2, db2, s2) \<and>
        (e2 = Already_Installed \<or>
         (\<exists>se. e2 = State_Refused se \<and>
            (mergeTLSState inp2 (loadTLSSettings (Some db2)) = Inl se \<or>
             (\<exists>inp1. mergeTLSState inp2 (loadTLSSettings (Some db2)) = Inr inp1 \<and> validateUpInput inp1 = Some se))))) \<and>
      (\<exists>n3 e3 db3 s3. Update d2 dirOf2 configDir version (db2, s2) = (Inl (Life_Step n3 e3), db3, s3) \<and>
        GetSettingDefault settingDomain [] db3 = [] \<and> ''cluster'' \<in> cfgScope ` set (dbConfigs db3) \<and>
        (Preflight (cdPing d2 s2) (cdInfo d2 s2) = None \<and>
         is_ok (fst (SyncClusterConfigs (cdRendering d2) (cdHash d2) (cdNow d2) version db2)) \<longrightarrow> e3 = No_Domain)))"
proof -
  have spell: "unfinished db0 \<longleftrightarrow> GetSettingDefault settingDomain [] db0 = [] \<and> ''cluster'' \<in> cfgScope ` set (dbConfigs db0)" for db0
    by (simp add: unfinished_def no_domain_def platform_row_def)
  have u: "unfinished db'" using failed_up_unfinished [OF assms(1) _ assms(3)] assms(2) by (simp add: up_head_def)
  then have "clusterInstalled (Some db')" by (simp add: unfinished_def platform_row_installed)
  then show ?thesis
    using u Up_refused [of _ d2 dirOf2 inp2 s2] Update_refused [of _ d2 dirOf2 configDir version s2]
    unfolding spell by blast
qed

definition jammed_deps :: "toy_swarm deps" where
  "jammed_deps = broken_deps\<lparr>
     cdManager := demo_manager\<lparr> mgSdk := toy_sdk\<lparr> dkNetworkInspect := (\<lambda>_ _. Some (Sdk_Err False ''busy'')) \<rparr> \<rparr>,
     cdInfo := (\<lambda>_. Inr \<lparr> ifName = ''n1'', ifServerVersion = ''27'', ifSwarmState = ''active'',
       ifControlAvailable = True, ifManagers = 1, ifNodes = 1 \<rparr>) \<rparr>"

lemma jammed_sync:
  "\<exists>res db'. SyncClusterConfigs (cdRendering jammed_deps) (cdHash jammed_deps) (cdNow jammed_deps) v empty_store =
     (Inr res, db')"
proof -
  have "\<And>name. name \<in> set ConfigFileNames \<Longrightarrow> rnEmbedded (cdRendering jammed_deps) name = Some []"
    by (simp add: jammed_deps_def broken_deps_def blank_rendering_def)
  from sync_all_effect [where hash = "cdHash jammed_deps" and now = "cdNow jammed_deps" and version = v
      and body = "\<lambda>_. []", OF empty_configs_inv this config_names_distinct]
  show ?thesis unfolding SyncClusterConfigs_def by blast
qed

lemma jammed_networks: "\<exists>e. EnsureBundledNetworks (cdSdk jammed_deps) s = ([], Some e, s)"
proof -
  have "\<not> missing (Sdk_Err False ''busy'')" by code_simp
  then show ?thesis
    by (simp add: EnsureBundledNetworks_def EnsureNetwork_def NetworkExists_def exists_of_def jammed_deps_def)
qed

lemma jammed_run:
  "\<exists>e out t. Run (up_workflow jammed_deps dirOf acme_input) (up_start (empty_store, s)) =
     (Inl (''Ensuring overlay networks'', e), out, t)"
proof -
  obtain res db' where sync: "SyncClusterConfigs (cdRendering jammed_deps) (cdHash jammed_deps)
      (cdNow jammed_deps) (uiVersion acme_input) empty_store = (Inr res, db')" using jammed_sync by blast
  obtain e where net: "EnsureBundledNetworks (cdSdk jammed_deps) s = ([], Some e, s)" using jammed_networks by blast
  have dirs: "make_dirs jammed_deps ps s = (Inr (), s)" for ps
    by (induction ps) (simp_all add: jammed_deps_def broken_deps_def)
  have pre: "Preflight (cdPing jammed_deps s) (cdInfo jammed_deps s) = None"
    by (simp add: jammed_deps_def broken_deps_def Preflight_def)
  show ?thesis
    by (simp add: up_workflow_def up_start_def up_preflight_def pre up_storage_def dirs up_sync_def sync
        up_networks_def net del: make_dirs.simps)
qed

theorem failed_up_strands_the_cluster_witness:
  "\<exists>n e db' s'. Up jammed_deps id acme_input (empty_store, [], []) = (Inl (Life_Step n e), db', s') \<and>
     clusterInstalled (Some db') \<and>
     (\<exists>e2. Up jammed_deps id acme_input (db', s') = (Inl e2, db', s')) \<and>
     (\<exists>e3 w. Update jammed_deps id ''/c'' ''1'' (db', s') = (Inl e3, w))"
proof -
  obtain e out t where run: "Run (up_workflow jammed_deps id acme_input) (up_start (empty_store, [], [])) =
     (Inl (''Ensuring overlay networks'', e), out, t)" using jammed_run by blast
  have m: "mergeTLSState acme_input (loadTLSSettings (Some empty_store)) = Inr acme_input"
    by (simp add: mergeTLSState_def loadTLSSettings_def GetSettingDefault_def GetSetting_def empty_store_def row_find_def)
  have v: "validateUpInput acme_input = None" by (simp add: validateUpInput_def acme_input_def)
  have i: "\<not> clusterInstalled (Some empty_store)"
    by (simp add: clusterInstalled_def GetSettingDefault_def GetSetting_def ListConfigs_def empty_store_def row_find_def)
  have up: "Up jammed_deps id acme_input (empty_store, [], []) =
      (Inl (Life_Step ''Ensuring overlay networks'' e), fst (usWorld t), snd (usWorld t))"
    using i by (simp add: Up_def m v run)
  have f: "find_config empty_store ''infra-stack'' = None" by (simp add: find_config_def empty_store_def row_find_def)
  have n: "''Ensuring overlay networks'' \<notin> {''Preflight'', ''Ensuring storage root directories'',
      ''Syncing platform config templates into the store''}" by simp
  let ?db = "fst (usWorld t)" and ?s = "snd (usWorld t)"
  note strands = failed_up_strands_the_cluster [OF up n f, of jammed_deps id acme_input ?s "''/c''" "''1''"]
  then have u: "GetSettingDefault settingDomain [] ?db = [] \<and> ''cluster'' \<in> cfgScope ` set (dbConfigs ?db)"
    and ci: "clusterInstalled (Some ?db)" by blast+
  note later = conjunct2 [OF conjunct2 [OF conjunct2 [OF strands]], rule_format, OF u]
  then have "\<exists>e2. Up jammed_deps id acme_input (?db, ?s) = (Inl e2, ?db, ?s)"
    "\<exists>e3 w. Update jammed_deps id ''/c'' ''1'' (?db, ?s) = (Inl e3, w)" by blast+
  then show ?thesis using up ci by blast
qed

end
