(* ===== verification/Cluster_Certs_Properties.thy ===== *)
theory Cluster_Certs_Properties
  imports Cluster_Certs Cluster_Bringup
begin

text \<open>
  What holds of certificates: which ones are accepted, the files of the cluster's own certificate,
  what the refresh after an upload renders, and the names of the per-host secrets.
\<close>

section \<open>Which certificates are accepted\<close>

text \<open>A name of a certificate covers a host: equal up to case, or a wildcard over one or more labels.\<close>

definition covers :: "string \<Rightarrow> string \<Rightarrow> bool" where
  "covers p h \<longleftrightarrow> map to_lower p = h \<or> (\<exists>a sfx. a \<noteq> [] \<and> map to_lower p = ''*.'' @ sfx \<and> h = a @ ''.'' @ sfx)"

lemma domainMatches_iff: "domainMatches (map to_lower p) h \<longleftrightarrow> covers p h"
proof (cases "has_prefix (map to_lower p) ''*.''")
  case True
  then obtain sfx where p: "map to_lower p = ''*.'' @ sfx" by (auto simp: has_prefix_def prefix_def)
  have "(length h > length (''.'' @ sfx) \<and> has_suffix h (''.'' @ sfx)) \<longleftrightarrow> (\<exists>a. a \<noteq> [] \<and> h = a @ ''.'' @ sfx)"
    by (auto simp: has_suffix_def suffix_def)
  then show ?thesis using True by (simp add: domainMatches_def covers_def p Let_def)
next
  case False
  then have "\<nexists>sfx. map to_lower p = ''*.'' @ sfx" by (auto simp: has_prefix_def prefix_def)
  then show ?thesis using False by (auto simp: domainMatches_def covers_def)
qed

lemma hostCoveredByCert_iff:
  "hostCoveredByCert lf host \<longleftrightarrow>
     (\<exists>p \<in> set (lfDNSNames lf) \<union> ({lfCommonName lf} - {[]}). covers p (map to_lower (trim_suffix host ''.'')))"
  by (auto simp: hostCoveredByCert_def Let_def domainMatches_iff list_ex_iff)

text \<open>Property C28.  A pair is accepted for a host exactly when both halves are there and belong
  together, the certificate parses, and one of its names covers the host: equal up to case, or a
  wildcard, which here stands for one label or more.\<close>

theorem certificate_check_exact:
  "ParseAndCheck x certPEM keyPEM host = Inr info \<longleftrightarrow>
     certPEM \<noteq> [] \<and> keyPEM \<noteq> [] \<and> xlKeyPair x certPEM keyPEM = None \<and>
     (\<exists>bytes lf. xlDecode x certPEM = Some bytes \<and> xlParse x bytes = Inr lf \<and>
        info = \<lparr> piSANs = lfDNSNames lf, piNotBefore = lfNotBefore lf, piNotAfter = lfNotAfter lf \<rparr> \<and>
        (\<exists>p \<in> set (lfDNSNames lf) \<union> ({lfCommonName lf} - {[]}).
           covers p (map to_lower (trim_suffix host ''.''))))"
proof -
  have "parsePair x certPEM keyPEM = Inr lf \<longleftrightarrow> certPEM \<noteq> [] \<and> keyPEM \<noteq> [] \<and> xlKeyPair x certPEM keyPEM = None \<and>
      (\<exists>bytes. xlDecode x certPEM = Some bytes \<and> xlParse x bytes = Inr lf)" for lf
    by (cases "xlDecode x certPEM"; cases "xlParse x (the (xlDecode x certPEM))")
      (auto simp: parsePair_def parseLeaf_def split: option.splits)
  moreover have "ParseAndCheck x certPEM keyPEM host = Inr info \<longleftrightarrow> (\<exists>lf. parsePair x certPEM keyPEM = Inr lf \<and>
      hostCoveredByCert lf host \<and>
      info = \<lparr> piSANs = lfDNSNames lf, piNotBefore = lfNotBefore lf, piNotAfter = lfNotAfter lf \<rparr>)"
    by (auto simp: ParseAndCheck_def split: sum.splits if_splits)
  ultimately show ?thesis unfolding hostCoveredByCert_iff by blast
qed

section \<open>Files\<close>

definition os_files :: "'sw os \<Rightarrow> ('sw \<Rightarrow> string \<Rightarrow> string option) \<Rightarrow> string set \<Rightarrow> bool" where
  "os_files o' files targets \<longleftrightarrow>
     (\<forall>dir s ok s'. osMkdirAll o' dir s = (ok, s') \<longrightarrow> files s' = files s) \<and>
     (\<forall>dir s s'. osCreateTemp o' dir s = (None, s') \<longrightarrow> files s' = files s) \<and>
     (\<forall>dir s tmp s'. osCreateTemp o' dir s = (Some tmp, s') \<longrightarrow>
        tmp \<notin> targets \<and> files s tmp = None \<and> files s' = (files s)(tmp \<mapsto> [])) \<and>
     (\<forall>tmp c s s'. osWrite o' tmp c s = (True, s') \<longrightarrow> files s' = (files s)(tmp \<mapsto> c)) \<and>
     (\<forall>tmp c s s'. osWrite o' tmp c s = (False, s') \<longrightarrow> (\<exists>b. files s' = (files s)(tmp := b))) \<and>
     (\<forall>tmp s ok s'. osChmod o' tmp s = (ok, s') \<longrightarrow> files s' = files s) \<and>
     (\<forall>tmp s ok s'. osClose o' tmp s = (ok, s') \<longrightarrow> files s' = files s) \<and>
     (\<forall>tmp path s s'. osRename o' tmp path s = (True, s') \<longrightarrow>
        files s' = (files s)(tmp := None, path := files s tmp)) \<and>
     (\<forall>tmp path s s'. osRename o' tmp path s = (False, s') \<longrightarrow> files s' = files s) \<and>
     (\<forall>tmp s. \<exists>b. files (osRemove o' tmp s) = (files s)(tmp := b))"

lemma os_filesD:
  assumes "os_files o' files targets"
  shows "osMkdirAll o' p s = (ok, s') \<Longrightarrow> files s' = files s"
    "osCreateTemp o' p s = (None, s') \<Longrightarrow> files s' = files s"
    "osCreateTemp o' p s = (Some tmp, s') \<Longrightarrow> tmp \<notin> targets \<and> files s tmp = None \<and> files s' = (files s)(tmp \<mapsto> [])"
    "osWrite o' tmp c s = (True, s') \<Longrightarrow> files s' = (files s)(tmp \<mapsto> c)"
    "osWrite o' tmp c s = (False, s') \<Longrightarrow> \<exists>b. files s' = (files s)(tmp := b)"
    "osChmod o' tmp s = (ok, s') \<Longrightarrow> files s' = files s"
    "osClose o' tmp s = (ok, s') \<Longrightarrow> files s' = files s"
    "osRename o' tmp p s = (True, s') \<Longrightarrow> files s' = (files s)(tmp := None, p := files s tmp)"
    "osRename o' tmp p s = (False, s') \<Longrightarrow> files s' = files s"
    "\<exists>b. files (osRemove o' tmp s) = (files s)(tmp := b)"
  using assms unfolding os_files_def by (elim conjE; simp)+

lemma writeSiteCertFile_files:
  assumes ok: "os_files o' files targets" and path: "path \<in> targets"
    and w: "writeSiteCertFile o' dir path content s = (r, s')"
  shows "r = Inr () \<and> (\<forall>p \<in> targets. files s' p = ((files s)(path \<mapsto> content)) p) \<or>
    (\<exists>e. r = Inl e) \<and> (\<forall>p \<in> targets. files s' p = files s p)"
proof (cases "osCreateTemp o' dir s")
  case (Pair t s1)
  show ?thesis
  proof (cases t)
    case None
    then show ?thesis using w Pair os_filesD(2) [OF ok, of dir s s1] by (auto simp: writeSiteCertFile_def)
  next
    case (Some tmp)
    have c: "tmp \<notin> targets" "tmp \<noteq> path" "files s1 = (files s)(tmp \<mapsto> [])"
      using os_filesD(3) [OF ok, of dir s tmp s1] path Pair Some by auto
    have rm: "\<forall>p \<in> targets. files (osRemove o' tmp u) p = files u p" for u
      using os_filesD(10) [OF ok, of tmp u] c(1) by auto
    have cl: "osClose o' tmp u = (b, u') \<Longrightarrow> files u' = files u" for u b u'
      by (rule os_filesD(7) [OF ok])
    have ch: "osChmod o' tmp u = (b, u') \<Longrightarrow> files u' = files u" for u b u'
      by (rule os_filesD(6) [OF ok])
    obtain b2 s2 where w2: "osWrite o' tmp content s1 = (b2, s2)" by (cases "osWrite o' tmp content s1")
    obtain b3 s3 where w3: "osChmod o' tmp s2 = (b3, s3)" by (cases "osChmod o' tmp s2")
    obtain b4 s4 where w4: "osClose o' tmp s3 = (b4, s4)" by (cases "osClose o' tmp s3")
    obtain b5 s5 where w5: "osRename o' tmp path s4 = (b5, s5)" by (cases "osRename o' tmp path s4")
    obtain b where f2: "files s2 = (files s1)(tmp := b)" "b2 \<Longrightarrow> b = Some content"
      using os_filesD(4,5) [OF ok, of tmp content s1 s2] w2 by (cases b2) auto
    have old: "\<forall>p \<in> targets. files s2 p = files s p" using f2(1) c by auto
    have f4: "files s3 = files s2" "files s4 = files s2" using ch [OF w3] cl [OF w4] by simp_all
    have f5: "files s5 = (if b5 then (files s2)(tmp := None, path := files s2 tmp) else files s2)"
      using os_filesD(8,9) [OF ok, of tmp path s4 s5] w5 f4(2) by (cases b5) simp_all
    have e2: "files (snd (osClose o' tmp u)) = files u" for u
      by (cases "osClose o' tmp u") (simp add: cl)
    show ?thesis
    proof (cases "b2 \<and> b3 \<and> b4 \<and> b5")
      case True
      then have "r = Inr ()" "s' = osRemove o' tmp s5"
        using w by (simp_all add: writeSiteCertFile_def Pair Some w2 w3 w4 w5)
      moreover have "\<forall>p \<in> targets. files s5 p = ((files s)(path \<mapsto> content)) p"
        using True f5 f2 c old by auto
      ultimately show ?thesis using rm [of s5] by simp
    next
      case False
      then have "\<exists>e. r = Inl e"
        using w by (auto simp: writeSiteCertFile_def Pair Some w2 w3 w4 w5 split: bool.splits)
      moreover have "\<exists>u. s' = osRemove o' tmp u \<and> files u = files s2"
        using w False f4 f5 e2
        by (auto simp: writeSiteCertFile_def Pair Some w2 w3 w4 w5 split: bool.splits)
      ultimately show ?thesis using rm old by metis
    qed
  qed
qed

lemma place_own_files:
  assumes cp: "cp = path_join (SiteCertDir cfg) ''cert.pem''" and kp: "kp = path_join (SiteCertDir cfg) ''key.pem''"
    and ne: "cp \<noteq> kp" and ok: "os_files o' files {cp, kp}"
    and w: "place_own o' cfg certPEM keyPEM (db, s) = (r, db', s')"
  shows "r = Inr ([], []) \<and> files s' cp = Some certPEM \<and> files s' kp = Some keyPEM \<and>
      loadTLSSettings (Some db') = \<lparr> tlMode = ''cert'', tlCertPath = cp, tlKeyPath = kp, tlACMEEmail = [] \<rparr> \<or>
    (\<exists>e. r = Inl e) \<and> db' = db \<and> files s' cp = files s cp \<and> files s' kp \<in> {files s kp, Some keyPEM}"
proof -
  let ?dir = "SiteCertDir cfg"
  obtain b1 s1 where m: "osMkdirAll o' ?dir s = (b1, s1)" by (cases "osMkdirAll o' ?dir s")
  have f1: "files s1 = files s" by (rule os_filesD(1) [OF ok m])
  obtain r2 s2 where k: "writeSiteCertFile o' ?dir kp keyPEM s1 = (r2, s2)"
    by (cases "writeSiteCertFile o' ?dir kp keyPEM s1")
  obtain r3 s3 where c: "writeSiteCertFile o' ?dir cp certPEM s2 = (r3, s3)"
    by (cases "writeSiteCertFile o' ?dir cp certPEM s2")
  note w' = w [unfolded place_own_def prod.case Let_def, folded cp kp, unfolded m prod.case k c]
  have f2: "r2 = Inr () \<and> (\<forall>p \<in> {cp, kp}. files s2 p = ((files s1)(kp \<mapsto> keyPEM)) p) \<or>
      (\<exists>e. r2 = Inl e) \<and> (\<forall>p \<in> {cp, kp}. files s2 p = files s1 p)"
    by (rule writeSiteCertFile_files [OF ok _ k]) simp
  have f3: "r3 = Inr () \<and> (\<forall>p \<in> {cp, kp}. files s3 p = ((files s2)(cp \<mapsto> certPEM)) p) \<or>
      (\<exists>e. r3 = Inl e) \<and> (\<forall>p \<in> {cp, kp}. files s3 p = files s2 p)"
    by (rule writeSiteCertFile_files [OF ok _ c]) simp
  have tls: "loadTLSSettings (Some (tls_save t db)) = t" for t
    by (simp add: setting_fields)
  show ?thesis
    using w' f1 f2 f3 tls ne by (cases b1; cases r2; cases r3) (auto simp: k c)
qed

section \<open>A small file system whose second rename fails\<close>

type_synonym toy_disk = "(string \<Rightarrow> string option) \<times> nat"

definition toy_tmp :: string where "toy_tmp = ''tmp''"

definition toy_os :: "toy_disk os" where
  "toy_os = \<lparr>
     osMkdirAll = (\<lambda>_ s. (True, s)),
     osCreateTemp = (\<lambda>_ s. if fst s toy_tmp = None then (Some toy_tmp, (fst s)(toy_tmp \<mapsto> []), snd s) else (None, s)),
     osWrite = (\<lambda>f c s. (True, (fst s)(f \<mapsto> c), snd s)),
     osChmod = (\<lambda>_ s. (True, s)),
     osClose = (\<lambda>_ s. (True, s)),
     osRename = (\<lambda>f p s. if snd s = 0 then (False, s)
                          else (True, (fst s)(f := None, p := fst s f), snd s - 1)),
     osRemove = (\<lambda>f s. ((fst s)(f := None), snd s)) \<rparr>"

lemma toy_os_files: "toy_tmp \<notin> targets \<Longrightarrow> os_files toy_os fst targets"
  by (auto simp: os_files_def toy_os_def fun_eq_iff)

lemma toy_place:
  "\<exists>e s'. place_own toy_os ''/etc'' ''CERT2'' ''KEY2''
     (empty_store, [''/etc/site/cert.pem'' \<mapsto> ''CERT1'', ''/etc/site/key.pem'' \<mapsto> ''KEY1''], 1) = (Inl e, empty_store, s') \<and>
     fst s' ''/etc/site/key.pem'' = Some ''KEY2''"
proof -
  have p: "path_join (SiteCertDir ''/etc'') ''cert.pem'' = ''/etc/site/cert.pem''"
    "path_join (SiteCertDir ''/etc'') ''key.pem'' = ''/etc/site/key.pem''" by code_simp+
  show ?thesis unfolding place_own_def prod.case Let_def p
    by (simp add: writeSiteCertFile_def toy_os_def toy_tmp_def)
qed

text \<open>The files of the cluster's own certificate.  Applying it either replaces both
  files and points the settings at them, or fails with the store unchanged; each file is replaced
  as a whole, but the key goes first, so a failure can leave the new key beside the old certificate.\<close>

theorem own_certificate_files:
  assumes "cp = path_join (SiteCertDir cfg) ''cert.pem''" and "kp = path_join (SiteCertDir cfg) ''key.pem''"
    and "cp \<noteq> kp" and "os_files o' files {cp, kp}"
    and "place_own o' cfg certPEM keyPEM (db, s) = (r, db', s')"
  shows "r = Inr ([], []) \<and> files s' cp = Some certPEM \<and> files s' kp = Some keyPEM \<and>
      loadTLSSettings (Some db') = \<lparr> tlMode = ''cert'', tlCertPath = cp, tlKeyPath = kp, tlACMEEmail = [] \<rparr> \<or>
    (\<exists>e. r = Inl e) \<and> db' = db \<and> files s' cp = files s cp \<and> files s' kp \<in> {files s kp, Some keyPEM}"
  using assms by (rule place_own_files)

theorem own_certificate_files_witness:
  "\<exists>e s'. place_own toy_os ''/etc'' ''CERT2'' ''KEY2''
     (empty_store, [''/etc/site/cert.pem'' \<mapsto> ''CERT1'', ''/etc/site/key.pem'' \<mapsto> ''KEY1''], 1) = (Inl e, empty_store, s') \<and>
     fst s' ''/etc/site/cert.pem'' = Some ''CERT1'' \<and> fst s' ''/etc/site/key.pem'' = Some ''KEY2''"
proof -
  let ?d = "[''/etc/site/cert.pem'' \<mapsto> ''CERT1'', ''/etc/site/key.pem'' \<mapsto> ''KEY1''] :: string \<Rightarrow> string option"
  obtain e s' where p: "place_own toy_os ''/etc'' ''CERT2'' ''KEY2'' (empty_store, ?d, 1) = (Inl e, empty_store, s')"
    and k: "fst s' ''/etc/site/key.pem'' = Some ''KEY2''"
    using toy_place by (elim exE conjE)
  have paths: "path_join (SiteCertDir ''/etc'') ''cert.pem'' = ''/etc/site/cert.pem''"
    "path_join (SiteCertDir ''/etc'') ''key.pem'' = ''/etc/site/key.pem''" by code_simp+
  have ne: "''/etc/site/cert.pem'' \<noteq> ''/etc/site/key.pem''" by simp
  have "os_files toy_os fst {''/etc/site/cert.pem'', ''/etc/site/key.pem''}"
    by (rule toy_os_files) (simp add: toy_tmp_def)
  from own_certificate_files [OF paths [symmetric] ne this p]
  have "fst s' ''/etc/site/cert.pem'' = Some ''CERT1''" by simp
  then show ?thesis using p k by (intro exI conjI)
qed

section \<open>A refresh works on the certificates on record\<close>

lemma ListSiteCerts_cong: "dbSiteCerts db' = dbSiteCerts db \<Longrightarrow> ListSiteCerts db' = ListSiteCerts db"
  by (simp add: ListSiteCerts_def)

lemma EnsureVersionedSecret_certs:
  assumes "EnsureVersionedSecret dk hash base content (Some db, s) = (r, hs', s')"
  shows "\<exists>db'. hs' = Some db' \<and> dbSiteCerts db' = dbSiteCerts db"
  using assms
  by (auto simp: EnsureVersionedSecret_def Let_def SetSetting_def split: sum.splits prod.splits if_splits)

lemma provision_tls_certs:
  assumes "provision_tls d cp kp (db, s) = (r, db', s')"
  shows "dbSiteCerts db' = dbSiteCerts db"
  using assms
  by (auto simp: provision_tls_def Let_def map_prod_def EnsureVersionedSecretFromFile_def
      split: sum.splits prod.splits option.splits dest!: EnsureVersionedSecret_certs)

lemma place_host_certs:
  assumes "place_host d host c k (db, s) = (r, db', s')"
  shows "dbSiteCerts db' = dbSiteCerts db"
  using assms
  by (auto simp: place_host_def Let_def map_prod_def split: sum.splits prod.splits
      dest!: EnsureVersionedSecret_certs)

lemma SetSetting_certs [simp]: "dbSiteCerts (SetSetting k v db) = dbSiteCerts db"
  by (simp add: SetSetting_def)

lemma place_own_certs:
  assumes "place_own o' cfg c k (db, s) = (r, db', s')"
  shows "dbSiteCerts db' = dbSiteCerts db"
  using assms
  by (auto simp: place_own_def Let_def tls_save_def save_settings_def split: sum.splits prod.splits bool.splits)

lemma SetRendered_certs: "dbSiteCerts (snd (SetRendered hash now n y db)) = dbSiteCerts db"
  by (simp add: SetRendered_def)

lemma snapshot_all_certs: "dbSiteCerts (snd (snapshot_all hash now ys db)) = dbSiteCerts db"
proof (induction ys arbitrary: db)
  case (Cons a ys)
  obtain n y where a: "a = (n, y)" by (cases a)
  show ?case
    using SetRendered_certs [of hash now n y db] Cons.IH
    by (auto simp: a split: sum.splits prod.splits)
qed simp

lemma cookie_secret_certs:
  assumes "cookie_secret d (db, s) = (r, db', s')" shows "dbSiteCerts db' = dbSiteCerts db"
  using assms
  by (auto simp: cookie_secret_def Ensure_def Let_def spares_def split: sum.splits prod.splits if_splits option.splits
      dest!: ensure_credential_spares)

text \<open>The state of an update whose certificates on record are \<^verbatim>\<open>certs\<close>: the record is unchanged, and so
  are the host certificates of the render input.\<close>

definition renders_certs :: "Store \<Rightarrow> 'sw update_state \<Rightarrow> bool" where
  "renders_certs db0 st \<longleftrightarrow> dbSiteCerts (fst (wuWorld st)) = dbSiteCerts db0 \<and>
     (riHostCerts (wuRender st) = [] \<or> (\<exists>dom. riHostCerts (wuRender st) = loadHostCertEntries dom db0))"

lemma provision_configs_hosts:
  "provision_configs d v ri s = (Inr (ri', x), s') \<Longrightarrow> riHostCerts ri' = riHostCerts ri"
  by (auto simp: provision_configs_def Let_def split: sum.splits prod.splits)

lemma with_store_hosts [simp]: "riHostCerts (with_store ri db) = riHostCerts ri"
  by (simp add: with_store_def)

lemma update_step_certs:
  assumes "renders_certs db0 t"
  shows "renders_certs db0 (snd (wu_preflight d t))"
    "renders_certs db0 (snd (wu_sync d v t))"
    "renders_certs db0 (snd (wu_load t))"
    "renders_certs db0 (snd (wu_sso d t))"
    "renders_certs db0 (snd (wu_openobserve d dirOf cfg t))"
    "renders_certs db0 (snd (wu_tls d t))"
    "renders_certs db0 (snd (wu_configs d v t))"
    "renders_certs db0 (snd (wu_reconcile d t))"
proof -
  obtain db s where w: "wuWorld t = (db, s)" by (cases "wuWorld t")
  have c: "dbSiteCerts db = dbSiteCerts db0" using assms w by (simp add: renders_certs_def)
  have h: "riHostCerts (wuRender t) = [] \<or> (\<exists>dom. riHostCerts (wuRender t) = loadHostCertEntries dom db0)"
    using assms by (simp add: renders_certs_def)
  show "renders_certs db0 (snd (wu_preflight d t))"
    using assms by (simp add: wu_preflight_def Let_def split: option.splits)
  have sync: "dbSiteCerts (snd (SyncClusterConfigs rn hash now v db)) = dbSiteCerts db0" for rn hash now
    unfolding SyncClusterConfigs_def by (simp add: sync_all_keeps(2) c)
  show "renders_certs db0 (snd (wu_sync d v t))"
    using h sync [of "cdRendering d" "cdHash d" "cdNow d"]
    by (auto simp: wu_sync_def renders_certs_def w Let_def split: prod.splits sum.splits)
  show "renders_certs db0 (snd (wu_load t))"
    using assms by (simp add: wu_load_def renders_certs_def Let_def)
  show "renders_certs db0 (snd (wu_sso d t))"
    using h c by (auto simp: wu_sso_def renders_certs_def Let_def w split: option.splits prod.splits sum.splits
        dest!: cookie_secret_certs)
  show "renders_certs db0 (snd (wu_openobserve d dirOf cfg t))"
    using h c ListSiteCerts_cong [OF c]
    by (auto simp: wu_openobserve_def renders_certs_def w render_input_def loadHostCertEntries_def
        split: sum.splits prod.splits)
  show "renders_certs db0 (snd (wu_tls d t))"
    using h c by (auto simp: wu_tls_def renders_certs_def w Let_def split: sum.splits prod.splits
        dest!: provision_tls_certs)
  show "renders_certs db0 (snd (wu_configs d v t))"
    using h c by (auto simp: wu_configs_def renders_certs_def w split: sum.splits prod.splits
        dest!: provision_configs_hosts)
  have snap: "dbSiteCerts (snd (snapshot_all hash now ys db)) = dbSiteCerts db0" for hash now ys
    by (simp add: snapshot_all_certs c)
  show "renders_certs db0 (snd (wu_reconcile d t))"
  proof (cases "renderPlatformConfigs (cdRendering d) (with_store (wuRender t) db)")
    case (Inr rendered)
    show ?thesis
      using h c snap [of "cdHash d" "cdNow d" rendered] Inr
      by (auto simp: wu_reconcile_def renders_certs_def w split: sum.splits prod.splits)
  qed (use h c in \<open>simp add: wu_reconcile_def renders_certs_def w\<close>)
qed

lemma update_run_certs:
  assumes "Run (update_workflow d dirOf cfg v) (update_start (db, s)) = (r, out, st)"
  shows "renders_certs db st"
proof -
  have "renders_certs db (snd (stepRun stp t))"
    if "stp \<in> set (update_workflow d dirOf cfg v)" "renders_certs db t" for stp t
    using that update_step_certs [OF that(2)] unfolding update_workflow_def by auto
  moreover have "renders_certs db (update_start (db, s))"
    by (simp add: renders_certs_def update_start_def zero_render_def)
  ultimately show ?thesis
    using Run_invariant [where P = "renders_certs db" and w = "update_workflow d dirOf cfg v"
        and s = "update_start (db, s)"] assms by simp
qed

lemma loadHostCertEntries_cong: "dbSiteCerts db' = dbSiteCerts db \<Longrightarrow> loadHostCertEntries dm db' = loadHostCertEntries dm db"
  by (simp add: loadHostCertEntries_def ListSiteCerts_def)

definition refreshed :: "(cert_err + SiteCertRow) \<times> 'sw cworld \<Rightarrow> 'sw cworld \<Rightarrow> bool" where
  "refreshed res w2 \<longleftrightarrow> (\<exists>e. res = (Inl e, w2)) \<or> (\<exists>row. res = (Inr row, PutSiteCert row (fst w2), snd w2))"

lemma record_cert_cases:
  "refreshed (record_cert d dirOf cfg v own dm info c k True names w) (snd (Update d dirOf cfg v w))"
proof -
  obtain ur w2 where up: "Update d dirOf cfg v w = (ur, w2)" by (cases "Update d dirOf cfg v w")
  show ?thesis by (cases ur; cases names) (auto simp: refreshed_def record_cert_def up Let_def)
qed

lemma apply_checked_cases:
  "(\<exists>e db1 s1. apply_checked d o' dirOf cfg v dm info c k True w = (Inl e, db1, s1) \<and> dbSiteCerts db1 = dbSiteCerts (fst w)) \<or>
   (\<exists>w1. dbSiteCerts (fst w1) = dbSiteCerts (fst w) \<and>
      refreshed (apply_checked d o' dirOf cfg v dm info c k True w) (snd (Update d dirOf cfg v w1)))"
proof -
  let ?own = "dm = PersistedDomain (Some (fst w))"
  obtain db s where w: "w = (db, s)" by (cases w)
  obtain r db1 s1 where p: "(if ?own then place_own o' cfg c k w else place_host d dm c k w) = (r, db1, s1)"
    by (cases "if ?own then place_own o' cfg c k w else place_host d dm c k w")
  have certs: "dbSiteCerts db1 = dbSiteCerts db"
    using p by (auto simp: w dest: place_own_certs place_host_certs split: if_splits)
  note eq = apply_checked_def [of d o' dirOf cfg v dm info c k True w, unfolded Let_def p prod.case]
  show ?thesis
  proof (cases r)
    case (Inl e)
    then show ?thesis using eq certs by (simp add: w)
  next
    case (Inr names)
    have "apply_checked d o' dirOf cfg v dm info c k True w =
        record_cert d dirOf cfg v ?own dm info c k True names (db1, s1)"
      using eq Inr by simp
    moreover have "dbSiteCerts (fst (db1, s1)) = dbSiteCerts (fst w)" using certs by (simp add: w)
    ultimately show ?thesis using record_cert_cases by metis
  qed
qed

lemma ApplyCert_cases:
  "(\<exists>e db1 s1. ApplyCert d o' x dirOf cfg v host c k True w = (Inl e, db1, s1) \<and> dbSiteCerts db1 = dbSiteCerts (fst w)) \<or>
   (\<exists>w1. dbSiteCerts (fst w1) = dbSiteCerts (fst w) \<and>
      refreshed (ApplyCert d o' x dirOf cfg v host c k True w) (snd (Update d dirOf cfg v w1)))"
proof -
  have "(\<exists>e. ApplyCert d o' x dirOf cfg v host c k True w = (Inl e, w)) \<or>
    (\<exists>dm info. ApplyCert d o' x dirOf cfg v host c k True w = apply_checked d o' dirOf cfg v dm info c k True w)"
    unfolding ApplyCert_def Let_def by (auto split: sum.splits)
  then show ?thesis
  proof (elim disjE exE)
    fix e assume "ApplyCert d o' x dirOf cfg v host c k True w = (Inl e, w)"
    then show ?thesis by (cases w) simp
  next
    fix dm info assume eq: "ApplyCert d o' x dirOf cfg v host c k True w = apply_checked d o' dirOf cfg v dm info c k True w"
    show ?thesis unfolding eq by (rule apply_checked_cases)
  qed
qed

text \<open>The refresh that ends an upload works on the certificates already on record:
  either the upload stops before it, or the update it runs renders the host certificates the store
  had before the upload, and the new row is written only after the update.\<close>

theorem refresh_renders_the_old_certificates:
  "(\<exists>e db1 s1. ApplyCert d o' x dirOf cfg v host c k True w = (Inl e, db1, s1) \<and>
      ListSiteCerts db1 = ListSiteCerts (fst w)) \<or>
   (\<exists>w1 r out st. Run (update_workflow d dirOf cfg v) (update_start w1) = (r, out, st) \<and>
      ListSiteCerts (fst (wuWorld st)) = ListSiteCerts (fst w) \<and>
      (riHostCerts (wuRender st) = [] \<or> (\<exists>dm. riHostCerts (wuRender st) = loadHostCertEntries dm (fst w))) \<and>
      ((\<exists>e. ApplyCert d o' x dirOf cfg v host c k True w = (Inl e, wuWorld st)) \<or>
       (\<exists>row. ApplyCert d o' x dirOf cfg v host c k True w =
          (Inr row, PutSiteCert row (fst (wuWorld st)), snd (wuWorld st)))))"
  using ApplyCert_cases [of d o' x dirOf cfg v host c k w]
proof
  assume "\<exists>w1. dbSiteCerts (fst w1) = dbSiteCerts (fst w) \<and>
      refreshed (ApplyCert d o' x dirOf cfg v host c k True w) (snd (Update d dirOf cfg v w1))"
  then obtain w1 where w1: "dbSiteCerts (fst w1) = dbSiteCerts (fst w)" and
    res: "refreshed (ApplyCert d o' x dirOf cfg v host c k True w) (snd (Update d dirOf cfg v w1))" by blast
  obtain r out st where run: "Run (update_workflow d dirOf cfg v) (update_start w1) = (r, out, st)"
    by (cases "Run (update_workflow d dirOf cfg v) (update_start w1)")
  have up: "snd (Update d dirOf cfg v w1) = wuWorld st"
    by (simp add: Update_def run split: sum.splits prod.splits)
  have "renders_certs (fst w1) st" using update_run_certs run by (metis prod.collapse)
  then have "ListSiteCerts (fst (wuWorld st)) = ListSiteCerts (fst w)"
    "riHostCerts (wuRender st) = [] \<or> (\<exists>dm. riHostCerts (wuRender st) = loadHostCertEntries dm (fst w))"
    using w1 ListSiteCerts_cong loadHostCertEntries_cong [OF w1] unfolding renders_certs_def by metis+
  then show ?thesis using run res [unfolded refreshed_def up] by blast
next
  assume "\<exists>e db1 s1. ApplyCert d o' x dirOf cfg v host c k True w = (Inl e, db1, s1) \<and> dbSiteCerts db1 = dbSiteCerts (fst w)"
  then show ?thesis using ListSiteCerts_cong by blast
qed

section \<open>Names of the per-host secrets\<close>

definition base_chars :: "string \<Rightarrow> string" where
  "base_chars = map (\<lambda>c. if is_lower c \<or> is_digit c then c else CHR ''-'') \<circ> map to_lower"

lemma hostSecretBase_eq: "hostSecretBase kind h = hostSecretBase kind h' \<longleftrightarrow> base_chars h = base_chars h'"
  by (simp add: hostSecretBase_def base_chars_def)

lemma versioned_prefix: "has_prefix (versioned (hostSecretBase kind h) v) (''host'' @ kind @ ''-'')"
  by (simp add: has_prefix_def versioned_def hostSecretBase_def)

text \<open>Charset of Docker's names.\<close>

definition docker_name_char :: "char \<Rightarrow> bool" where
  "docker_name_char c \<longleftrightarrow> is_alnum c \<or> c \<in> {CHR ''_'', CHR ''.'', CHR ''-''}"

lemma pad3_chars: "list_all docker_name_char (pad3 v)"
proof -
  have "list_all docker_name_char ds" if "list_all is_digit ds" for ds
    using that by (auto simp: list_all_iff docker_name_char_def is_alnum_def)
  then have "list_all docker_name_char (nat_str n)" for n using nat_str_digits by blast
  moreover have "docker_name_char (CHR ''0'')" by code_simp
  ultimately show ?thesis
    by (auto simp: pad3_def Let_def docker_name_char_def list_all_append) (auto simp: list_all_iff docker_name_char_def)
qed

lemma base_chars_ok: "list_all docker_name_char (base_chars h)"
  by (auto simp: base_chars_def list_all_iff docker_name_char_def is_alnum_def is_alpha_def)

lemma host_name_eq: "versioned (hostSecretBase kind h) v = ''host'' @ kind @ ''-'' @ base_chars h @ ''_v'' @ pad3 v"
  by (simp add: versioned_def hostSecretBase_def base_chars_def)

text \<open>Property C29.  Every name a host's certificate or key secret can get, wildcard hosts
  included, is made of the characters Docker allows in a name and starts with a letter or digit,
  and a certificate secret never has the name of a key secret of the same host.\<close>

theorem host_secret_names_are_docker_names:
  "list_all docker_name_char (versioned (hostSecretBase ''cert'' host) v) \<and>
   list_all docker_name_char (versioned (hostSecretBase ''key'' host) v) \<and>
   is_alnum (hd (versioned (hostSecretBase ''cert'' host) v)) \<and>
   is_alnum (hd (versioned (hostSecretBase ''key'' host) v)) \<and>
   versioned (hostSecretBase ''cert'' host) v \<noteq> versioned (hostSecretBase ''key'' host) w"
proof -
  have "list_all docker_name_char ''hostcert-''" "list_all docker_name_char ''hostkey-''" "list_all docker_name_char ''_v''"
    "is_alnum (CHR ''h'')"
    by code_simp+
  then show ?thesis using pad3_chars base_chars_ok by (simp add: host_name_eq list_all_append)
qed

text \<open>What an ensured secret leaves among the labelled secrets of its base.\<close>

definition managed_names :: "Spec set \<Rightarrow> string set" where
  "managed_names R = spName ` {o' \<in> R. label_match (Some managed_filter) o'}"

lemma ensured_names:
  assumes sdk: "sdk_secrets d rows"
    and call: "EnsureVersionedSecret d hash base data (hs, s) = (Inr (name, created), hs', s')"
  shows "(\<exists>v. name = versioned base v) \<and> managed_names (rows s') \<subseteq> insert name (managed_names (rows s)) \<and>
    (created \<longrightarrow> name \<notin> managed_names (rows s)) \<and>
    (created \<longrightarrow> (\<forall>n s. is_ok (fst (SecretRemove d n s))) \<longrightarrow>
       (\<forall>n \<in> managed_names (rows s). has_prefix n (base @ ''_v'') \<longrightarrow> n \<notin> managed_names (rows s')))"
  using call
proof (cases rule: EnsureVersionedSecret_cases)
  case (mint existing s1)
  let ?sp = "versioned_secret hash base name data"
  note oc = sdk [unfolded sdk_secrets_def]
  have r: "name \<notin> spName ` rows s" "rows s' \<subseteq> insert ?sp (rows s)"
    using minted_rows [OF sdk mint(1,3), of s' "base @ ''_v''"] mint(6) by simp_all
  have c: "rows s1 = insert ?sp (rows s)" by (rule SecretCreate_ok(2) [OF sdk mint(3)])
  have "n \<notin> managed_names (rows s')" if rm: "\<forall>n s. is_ok (fst (SecretRemove d n s))"
    and n: "n \<in> managed_names (rows s)" "has_prefix n (base @ ''_v'')" for n
  proof -
    have "rows s' = {o' \<in> rows s1. \<not> has_prefix (spName o') (base @ ''_v'') \<or> spName o' = name \<or> spName o' \<notin> set existing}"
      unfolding mint(6) SecretRemove_eq
      by (rule remove_old_complete [OF oc]) (use rm in \<open>simp add: SecretRemove_eq\<close>)
    moreover have "n \<in> set existing" using SecretList_names [OF sdk mint(1)] n(1) by (simp add: managed_names_def)
    moreover have "n \<noteq> name" using r(1) n(1) by (auto simp: managed_names_def)
    ultimately show ?thesis using n(2) by (auto simp: managed_names_def)
  qed
  then show ?thesis using r mint(2) by (auto simp: managed_names_def)
qed auto

text \<open>The hash on record for a base.\<close>

lemma ensured_hash:
  assumes "EnsureVersionedSecret d hash base data (Some db, s) = (Inr (name, created), Some db', s')"
  shows "GetSettingDefault (secretHashKey base') [] db' =
      (if base' = base then hash data else GetSettingDefault (secretHashKey base') [] db)"
    "\<not> created \<Longrightarrow> GetSettingDefault (secretHashKey base) [] db = hash data"
  using assms
  by (cases rule: EnsureVersionedSecret_cases; auto simp: GetSettingDefault_SetSetting secretHashKey_def)+

text \<open>Whose secrets are replaced.\<close>

lemma place_host_split:
  assumes "place_host d host c k (db, s) = (Inr (cn, kn), db', s')"
  obtains hs1 s1 b1 b2 where
    "EnsureVersionedSecret (cdSdk d) (cdHash d) (hostSecretBase ''cert'' host) c (Some db, s) = (Inr (cn, b1), hs1, s1)"
    "EnsureVersionedSecret (cdSdk d) (cdHash d) (hostSecretBase ''key'' host) k (hs1, s1) = (Inr (kn, b2), Some db', s')"
proof -
  obtain r hs1 s1 where e1: "EnsureVersionedSecret (cdSdk d) (cdHash d) (hostSecretBase ''cert'' host) c (Some db, s) = (r, hs1, s1)"
    by (metis surj_pair)
  have h1: "\<exists>db1. hs1 = Some db1" using EnsureVersionedSecret_certs [OF e1] by blast
  obtain r2 hs2 s2 where e2: "EnsureVersionedSecret (cdSdk d) (cdHash d) (hostSecretBase ''key'' host) k (hs1, s1) = (r2, hs2, s2)"
    by (metis surj_pair)
  obtain db1 where h1': "hs1 = Some db1" using h1 by blast
  have h2: "\<exists>db2. hs2 = Some db2" using EnsureVersionedSecret_certs [OF e2 [unfolded h1']] by blast
  show thesis
    using assms h1 h2 that
    by (cases r; cases r2) (auto simp: place_host_def Let_def e1 e2 split: prod.splits)
qed

text \<open>Two hosts that differ only in dots, hyphens and stars share their secrets: a
  different certificate applied for the second removes the secret the first one's row names.\<close>

theorem hosts_share_secrets:
  assumes sdk: "sdk_secrets (cdSdk d) rows" and rm: "\<And>n s. is_ok (fst (SecretRemove (cdSdk d) n s))"
    and collide: "base_chars a = base_chars b"
    and first: "place_host d a certA keyA (db, s) = (Inr (ca, ka), db1, s1)"
    and second: "place_host d b certB keyB (db1, s1) = (Inr (cb, kb), db2, s2)"
    and new: "cdHash d certB \<noteq> cdHash d certA"
  shows "ca = cb \<or> ca \<notin> managed_names (rows s2)"
proof -
  obtain hs1 t1 b1 b2 where
    A: "EnsureVersionedSecret (cdSdk d) (cdHash d) (hostSecretBase ''cert'' a) certA (Some db, s) = (Inr (ca, b1), hs1, t1)"
    "EnsureVersionedSecret (cdSdk d) (cdHash d) (hostSecretBase ''key'' a) keyA (hs1, t1) = (Inr (ka, b2), Some db1, s1)"
    by (rule place_host_split [OF first])
  obtain hs2 t2 b3 b4 where
    B: "EnsureVersionedSecret (cdSdk d) (cdHash d) (hostSecretBase ''cert'' b) certB (Some db1, s1) = (Inr (cb, b3), hs2, t2)"
    "EnsureVersionedSecret (cdSdk d) (cdHash d) (hostSecretBase ''key'' b) keyB (hs2, t2) = (Inr (kb, b4), Some db2, s2)"
    by (rule place_host_split [OF second])
  let ?base = "hostSecretBase ''cert'' b"
  have base: "hostSecretBase ''cert'' a = ?base" using collide by (simp add: hostSecretBase_eq)
  have kinds: "?base \<noteq> hostSecretBase ''key'' h" for h by (simp add: hostSecretBase_def)
  obtain h1 where h1: "hs1 = Some h1" using EnsureVersionedSecret_certs [OF A(1)] by blast
  obtain h2 where h2: "hs2 = Some h2" using EnsureVersionedSecret_certs [OF B(1)] by blast
  have "GetSettingDefault (secretHashKey ?base) [] db1 = cdHash d certA"
    using ensured_hash(1) [OF A(1) [unfolded h1], of ?base] ensured_hash(1) [OF A(2) [unfolded h1], of ?base] base kinds
    by simp
  then have b3: b3 using ensured_hash(2) [OF B(1) [unfolded h2]] new by auto
  obtain v where v: "ca = versioned ?base v" using ensured_names [OF sdk A(1)] base by auto
  have mint: "managed_names (rows t2) \<subseteq> insert cb (managed_names (rows s1))" "cb \<notin> managed_names (rows s1)"
    "\<forall>n \<in> managed_names (rows s1). has_prefix n (?base @ ''_v'') \<longrightarrow> n \<notin> managed_names (rows t2)"
    using ensured_names [OF sdk B(1)] b3 rm by blast+
  have gone: "ca = cb \<or> ca \<notin> managed_names (rows t2)"
    using mint v by auto
  obtain w where "kb = versioned (hostSecretBase ''key'' b) w" using ensured_names [OF sdk B(2)] by blast
  then have "ca \<noteq> kb" using v by (simp add: host_name_eq)
  then show ?thesis using ensured_names [OF sdk B(2)] gone by auto
qed

lemma broken_removes: "is_ok (fst (SecretRemove (cdSdk broken_deps) n s))"
  by (simp add: broken_deps_def SecretRemove_def toy_sdk_def toy_remove_def idempotentRemove_def missing_def
      toy_missing_def sdk_is_not_found_def)

lemma answer_with: "fst x = v \<Longrightarrow> (\<And>a b. x = (v, a, b) \<Longrightarrow> thesis) \<Longrightarrow> thesis"
  by (cases x) auto

theorem hosts_share_secrets_witness:
  "\<exists>w1 w2. place_host broken_deps ''a.b.io'' ''C1'' ''K1'' (empty_store, [], []) =
       (Inr (''hostcert-a-b-io_v001'', ''hostkey-a-b-io_v001''), w1) \<and>
     place_host broken_deps ''a-b.io'' ''C2'' ''K2'' w1 =
       (Inr (''hostcert-a-b-io_v002'', ''hostkey-a-b-io_v002''), w2) \<and>
     ''hostcert-a-b-io_v001'' \<notin> managed_names (set (fst (snd w2)))"
proof -
  let ?p = "place_host broken_deps ''a.b.io'' ''C1'' ''K1'' (empty_store, [], [])"
  have v: "fst ?p = Inr (''hostcert-a-b-io_v001'', ''hostkey-a-b-io_v001'')"
    "fst (place_host broken_deps ''a-b.io'' ''C2'' ''K2'' (snd ?p)) =
       Inr (''hostcert-a-b-io_v002'', ''hostkey-a-b-io_v002'')"
    by code_simp+
  obtain db1 s1 where p1: "?p = (Inr (''hostcert-a-b-io_v001'', ''hostkey-a-b-io_v001''), db1, s1)"
    by (rule answer_with [OF v(1)])
  obtain db2 s2 where p2: "place_host broken_deps ''a-b.io'' ''C2'' ''K2'' (db1, s1) =
       (Inr (''hostcert-a-b-io_v002'', ''hostkey-a-b-io_v002''), db2, s2)"
    by (rule answer_with [OF v(2) [unfolded p1 snd_conv]])
  note p = p1 p2
  have sdk: "sdk_secrets (cdSdk broken_deps) (\<lambda>s. set (fst s))" using toy_secrets by (simp add: broken_deps_def)
  have b: "base_chars ''a.b.io'' = base_chars ''a-b.io''" by code_simp
  have h: "cdHash broken_deps ''C2'' \<noteq> cdHash broken_deps ''C1''" by code_simp
  have g: "''hostcert-a-b-io_v001'' \<notin> managed_names (set (fst (snd (db2, s2))))"
    unfolding snd_conv
    using hosts_share_secrets [OF sdk broken_removes b p h] by simp
  show ?thesis by (rule exI [of _ "(db1, s1)"], rule exI [of _ "(db2, s2)"]) (intro conjI p g)
qed

end
