(* ===== verification/Api_Certs.thy ===== *)
theory Api_Certs
  imports Api_Properties Cluster_Certs_Properties
begin

text \<open>
  Certificates towards the API (\<^verbatim>\<open>internal/certs\<close>): the local adapter over the cluster's certificate
  operations, the REST handlers for hosts and for the cluster's own domain, and the remote adapter
  (\<^verbatim>\<open>internal/remote/tls.go\<close>).

  Times are Unix seconds; \<^verbatim>\<open>clock_fmt\<close> holds the library's formatting and parsing of them.  A service that
  is not wired is None.
\<close>

record Cert =
  ctDomain :: string
  ctCertSecret :: string
  ctKeySecret :: string
  ctNotBefore :: int
  ctNotAfter :: int
  ctSANs :: "string list"
  ctCertHash :: string
  ctKeyHash :: string
  ctCreatedAt :: int
  ctUpdatedAt :: int

record clock_fmt =
  cfmFormat :: "int \<Rightarrow> string"
  cfmParse :: "string \<Rightarrow> int option"

text \<open>Go's zero time, the first of January of the year one.\<close>

definition zero_time :: int where
  "zero_time = - 62135596800"

text \<open>The collaborators of the local adapter; \<^verbatim>\<open>ceQuote\<close> is \<^verbatim>\<open>%q\<close>, \<^verbatim>\<open>ceOther\<close> the texts of errors from
  below.\<close>

record 'sw certs_local =
  ceDeps :: "'sw deps"
  ceOs :: "'sw os"
  ceX509 :: x509lib
  ceDirOf :: "string \<Rightarrow> string"
  ceConfigDir :: string
  ceVersion :: string
  ceHasCipher :: bool
  ceQuote :: "string \<Rightarrow> string"
  ceOther :: "cert_err \<Rightarrow> string"
  ceFmt :: clock_fmt

section \<open>The local adapter\<close>

datatype certs_err = Certs_Not_Ready | Certs_Failed cert_err

definition cert_rowModel :: "SiteCertRow \<Rightarrow> Cert" where
  "cert_rowModel r =
     \<lparr> ctDomain = scDomain r, ctCertSecret = scCertSecret r, ctKeySecret = scKeySecret r,
       ctNotBefore = scNotBefore r, ctNotAfter = scNotAfter r, ctSANs = scSANs r,
       ctCertHash = scCertHash r, ctKeyHash = scKeyHash r, ctCreatedAt = scCreatedAt r, ctUpdatedAt = scUpdatedAt r \<rparr>"

definition Certs_ApplyHostCert ::
  "'sw certs_local \<Rightarrow> string \<Rightarrow> string \<Rightarrow> string \<Rightarrow> bool \<Rightarrow> 'sw cworld \<Rightarrow> (certs_err + Cert) \<times> 'sw cworld" where
  "Certs_ApplyHostCert ce host certPEM keyPEM refresh w =
     (if \<not> ceHasCipher ce then (Inl Certs_Not_Ready, w)
      else map_prod (map_sum Certs_Failed cert_rowModel) id
        (ApplyCert (ceDeps ce) (ceOs ce) (ceX509 ce) (ceDirOf ce) (ceConfigDir ce) (ceVersion ce)
           host certPEM keyPEM refresh w))"

definition Certs_SiteCert ::
  "'sw certs_local \<Rightarrow> string \<Rightarrow> string \<Rightarrow> string \<Rightarrow> 'sw cworld \<Rightarrow> (certs_err + Cert) \<times> 'sw cworld" where
  "Certs_SiteCert ce domain certPEM keyPEM w =
     (if \<not> ceHasCipher ce then (Inl Certs_Not_Ready, w)
      else map_prod (map_sum Certs_Failed cert_rowModel) id
        (ApplyCert (ceDeps ce) (ceOs ce) (ceX509 ce) (ceDirOf ce) (ceConfigDir ce) (ceVersion ce)
           domain certPEM keyPEM True w))"

definition Certs_RemoveHostCert ::
  "'sw certs_local \<Rightarrow> string \<Rightarrow> bool \<Rightarrow> 'sw cworld \<Rightarrow> (certs_err + unit) \<times> 'sw cworld" where
  "Certs_RemoveHostCert ce host refresh w =
     (if \<not> ceHasCipher ce then (Inl Certs_Not_Ready, w)
      else map_prod (map_sum Certs_Failed id) id
        (RemoveCert (ceDeps ce) (ceDirOf ce) (ceConfigDir ce) (ceVersion ce) host refresh w))"

definition Certs_GetSiteCert :: "string \<Rightarrow> Store \<Rightarrow> store_err + Cert" where
  "Certs_GetSiteCert domain db = map_sum id cert_rowModel (GetSiteCert domain db)"

definition Certs_List :: "Store \<Rightarrow> Cert list" where
  "Certs_List db = map cert_rowModel (ListSiteCerts db)"

definition Certs_MainDomain :: "Store \<Rightarrow> string" where
  "Certs_MainDomain db = PersistedDomain (Some db)"

section \<open>Texts of errors\<close>

text \<open>The names of the certificate, which the text for an uncovered host lists at its end, are left out.\<close>

definition tls_text :: "(string \<Rightarrow> string) \<Rightarrow> tls_err \<Rightarrow> string" where
  "tls_text q e =
     (case e of
        Host_Required \<Rightarrow> ''host is required''
      | Host_Separators h \<Rightarrow> ''invalid host '' @ q h @ '': must not contain path separators or '' @
          [CHR 0x27] @ ''..'' @ [CHR 0x27]
      | Host_Invalid h \<Rightarrow> ''invalid host '' @ q h
      | Pair_Missing \<Rightarrow> ''both cert and key are required''
      | Pair_Mismatch m \<Rightarrow> ''cert and key do not form a valid pair: '' @ m
      | No_PEM_Block \<Rightarrow> ''no PEM block found in certificate''
      | Bad_Certificate m \<Rightarrow> ''parse certificate: '' @ m
      | Host_Not_Covered h \<Rightarrow> ''certificate for '' @ q h @ '' does not cover host '' @ q h)"

definition certs_text :: "'sw certs_local \<Rightarrow> certs_err \<Rightarrow> string" where
  "certs_text ce e =
     (case e of
        Certs_Not_Ready \<Rightarrow> ''encryption key unavailable; cannot refresh Traefik''
      | Certs_Failed (Cert_Host t) \<Rightarrow> tls_text (ceQuote ce) t
      | Certs_Failed (Cert_Pair t) \<Rightarrow> ''validate certificate: '' @ tls_text (ceQuote ce) t
      | Certs_Failed c \<Rightarrow> ceOther ce c)"

section \<open>The handlers\<close>

definition rfTime :: "clock_fmt \<Rightarrow> int \<Rightarrow> string" where
  "rfTime f t = (if t = zero_time then [] else cfmFormat f t)"

definition omit_list :: "string \<Rightarrow> string list \<Rightarrow> (string \<times> json) list" where
  "omit_list k xs = (if xs = [] then [] else [(k, JArr (map JStr xs))])"

text \<open>The two response types differ in the name of the first field.\<close>

definition cert_fields :: "clock_fmt \<Rightarrow> Cert \<Rightarrow> (string \<times> json) list" where
  "cert_fields f c =
     omit_str ''cert_secret'' (ctCertSecret c) @ omit_str ''key_secret'' (ctKeySecret c) @
     omit_str ''not_before'' (rfTime f (ctNotBefore c)) @ omit_str ''not_after'' (rfTime f (ctNotAfter c)) @
     omit_list ''sans'' (ctSANs c) @ omit_str ''cert_hash'' (ctCertHash c) @ omit_str ''key_hash'' (ctKeyHash c) @
     omit_str ''created_at'' (rfTime f (ctCreatedAt c)) @ omit_str ''updated_at'' (rfTime f (ctUpdatedAt c))"

definition hostCertResponseFromCert :: "clock_fmt \<Rightarrow> Cert \<Rightarrow> json" where
  "hostCertResponseFromCert f c = JObj ((''host'', JStr (ctDomain c)) # cert_fields f c)"

definition siteCertResponseFromCert :: "clock_fmt \<Rightarrow> Cert \<Rightarrow> json" where
  "siteCertResponseFromCert f c = JObj ((''domain'', JStr (ctDomain c)) # cert_fields f c)"

definition http_certs_listHosts :: "'sw certs_local option \<Rightarrow> Store \<Rightarrow> json reply" where
  "http_certs_listHosts svc db =
     (case svc of
        None \<Rightarrow> (500, Inl ''host-cert service not wired'')
      | Some ce \<Rightarrow>
          (200, Inr (JObj [(''hosts'', JArr (map (hostCertResponseFromCert (ceFmt ce))
             (filter (\<lambda>c. ctDomain c \<noteq> Certs_MainDomain db) (Certs_List db))))])))"

definition decode_pair :: "(string + json) option \<Rightarrow> string + string \<times> string" where
  "decode_pair = decode_body [''cert'', ''key'']
     (\<lambda>j. do { c \<leftarrow> as_str (jfield ''cert'' j); k \<leftarrow> as_str (jfield ''key'' j); Some (c, k) })"

definition http_certs_putHost ::
  "'sw certs_local option \<Rightarrow> string \<Rightarrow> (string + json) option \<Rightarrow> 'sw cworld \<Rightarrow> json reply \<times> 'sw cworld" where
  "http_certs_putHost svc host body w =
     (case svc of
        None \<Rightarrow> ((500, Inl ''host-cert service not wired''), w)
      | Some ce \<Rightarrow>
          if host = [] then ((400, Inl ''host is required''), w)
          else (case decode_pair body of
             Inl e \<Rightarrow> ((400, Inl (''invalid JSON body: '' @ e)), w)
           | Inr (cert, key) \<Rightarrow>
               if trim_space cert = [] \<or> trim_space key = [] then ((400, Inl ''cert and key are both required''), w)
               else (case Certs_ApplyHostCert ce host cert key True w of
                  (Inl e, w') \<Rightarrow>
                    (let m = certs_text ce e in
                     ((if contains_str m ''does not cover'' \<or> contains_str m ''valid pair'' \<or>
                          contains_str m ''PEM'' \<or> contains_str m ''invalid host'' then 400 else 500, Inl m), w'))
                | (Inr got, w') \<Rightarrow> ((200, Inr (hostCertResponseFromCert (ceFmt ce) got)), w'))))"

definition http_certs_removeHost ::
  "'sw certs_local option \<Rightarrow> string \<Rightarrow> 'sw cworld \<Rightarrow> json reply \<times> 'sw cworld" where
  "http_certs_removeHost svc host w =
     (case svc of
        None \<Rightarrow> ((500, Inl ''host-cert service not wired''), w)
      | Some ce \<Rightarrow>
          if host = [] then ((400, Inl ''host is required''), w)
          else (case Certs_RemoveHostCert ce host True w of
             (Inl e, w') \<Rightarrow>
               (if e = Certs_Failed (Cert_Lookup ErrSiteCertNotFound)
                then (404, Inl (''no cert stored for host '' @ host))
                else (500, Inl (''remove host cert: '' @ certs_text ce e)), w')
           | (Inr _, w') \<Rightarrow> ((204, Inr JNull), w')))"

definition no_domain_text :: string where
  "no_domain_text = ''no persisted cluster domain found '' @ [CHR 0xE2, CHR 0x80, CHR 0x94] @
     '' run `pmcluster cluster up` first''"

definition http_certs_getSite :: "'sw certs_local option \<Rightarrow> daemon \<Rightarrow> Store \<Rightarrow> json reply" where
  "http_certs_getSite svc dm db =
     (case svc of
        None \<Rightarrow> (500, Inl ''site-cert service not wired'')
      | Some ce \<Rightarrow>
         (let domain = Certs_MainDomain db in
          if domain = [] then (404, Inl no_domain_text)
          else (case Certs_GetSiteCert domain db of
                  Inl e \<Rightarrow>
                    (if e = ErrSiteCertNotFound then (404, Inl (''no site certificate stored for '' @ domain))
                     else (500, Inl (''get site cert: '' @ dmText dm e)))
                | Inr c \<Rightarrow> (200, Inr (siteCertResponseFromCert (ceFmt ce) c)))))"

definition http_certs_putSite ::
  "'sw certs_local option \<Rightarrow> (string + json) option \<Rightarrow> 'sw cworld \<Rightarrow> json reply \<times> 'sw cworld" where
  "http_certs_putSite svc body w =
     (case svc of
        None \<Rightarrow> ((500, Inl ''site-cert service not wired''), w)
      | Some ce \<Rightarrow>
         (let domain = Certs_MainDomain (fst w) in
          if domain = [] then ((404, Inl no_domain_text), w)
          else (case decode_pair body of
             Inl e \<Rightarrow> ((400, Inl (''invalid JSON body: '' @ e)), w)
           | Inr (cert, key) \<Rightarrow>
               if trim_space cert = [] \<or> trim_space key = [] then ((400, Inl ''cert and key are both required''), w)
               else (case Certs_SiteCert ce domain cert key w of
                  (Inl e, w') \<Rightarrow>
                    (let m = certs_text ce e in
                     ((if contains_str m ''does not cover'' \<or> contains_str m ''valid pair'' \<or>
                          contains_str m ''PEM'' then 400 else 500, Inl m), w'))
                | (Inr c, w') \<Rightarrow> ((200, Inr (siteCertResponseFromCert (ceFmt ce) c)), w')))))"

definition certs_server :: "'sw certs_local option \<Rightarrow> daemon \<Rightarrow> 'sw cworld server" where
  "certs_server svc dm rq w =
     (let m = rqMethod rq; body = rqBody rq in
      case rqPath rq of
        [a, b] \<Rightarrow>
          if a \<noteq> ''tls'' then (not_routed, w)
          else if b = ''hosts'' \<and> m = ''GET'' then (http_certs_listHosts svc (fst w), w)
          else if b = ''site'' \<and> m = ''GET'' then (http_certs_getSite svc dm (fst w), w)
          else if b = ''site'' \<and> m = ''PUT'' then http_certs_putSite svc body w
          else (not_routed, w)
      | [a, b, host] \<Rightarrow>
          if a \<noteq> ''tls'' \<or> b \<noteq> ''hosts'' \<or> host = [] then (not_routed, w)
          else if m = ''PUT'' then http_certs_putHost svc host body w
          else if m = ''DELETE'' then http_certs_removeHost svc host w
          else (not_routed, w)
      | _ \<Rightarrow> (not_routed, w))"

section \<open>The remote adapter\<close>

definition parseRFC3339 :: "clock_fmt \<Rightarrow> string \<Rightarrow> int" where
  "parseRFC3339 f s = (if s = [] then zero_time else (case cfmParse f s of None \<Rightarrow> zero_time | Some t \<Rightarrow> t))"

text \<open>The DTO has a field \<^verbatim>\<open>host\<close>, which the model does not read.\<close>

definition cert_dto :: "clock_fmt \<Rightarrow> json \<Rightarrow> Cert option" where
  "cert_dto f j0 = do {
     j \<leftarrow> as_struct j0;
     domain \<leftarrow> as_str (jfield ''domain'' j); host \<leftarrow> as_str (jfield ''host'' j);
     cs \<leftarrow> as_str (jfield ''cert_secret'' j); ks \<leftarrow> as_str (jfield ''key_secret'' j);
     nb \<leftarrow> as_str (jfield ''not_before'' j); na \<leftarrow> as_str (jfield ''not_after'' j);
     sans \<leftarrow> as_list as_str (jfield ''sans'' j);
     ch \<leftarrow> as_str (jfield ''cert_hash'' j); kh \<leftarrow> as_str (jfield ''key_hash'' j);
     created \<leftarrow> as_str (jfield ''created_at'' j); updated \<leftarrow> as_str (jfield ''updated_at'' j);
     Some \<lparr> ctDomain = domain, ctCertSecret = cs, ctKeySecret = ks, ctNotBefore = parseRFC3339 f nb,
       ctNotAfter = parseRFC3339 f na, ctSANs = sans, ctCertHash = ch, ctKeyHash = kh,
       ctCreatedAt = parseRFC3339 f created, ctUpdatedAt = parseRFC3339 f updated \<rparr> }"

definition pair_body :: "string \<Rightarrow> string \<Rightarrow> json" where
  "pair_body certPEM keyPEM = JObj [(''cert'', JStr certPEM), (''key'', JStr keyPEM)]"

definition remote_certs_SiteCert ::
  "clock_fmt \<Rightarrow> 's server \<Rightarrow> string \<Rightarrow> string \<Rightarrow> string \<Rightarrow> 's \<Rightarrow> (remote_err + Cert) \<times> 's" where
  "remote_certs_SiteCert f srv domain certPEM keyPEM s =
     do_request srv ''PUT'' [''tls'', ''site''] [] (Some (pair_body certPEM keyPEM)) (cert_dto f) s"

definition remote_certs_ApplyHostCert ::
  "clock_fmt \<Rightarrow> 's server \<Rightarrow> string \<Rightarrow> string \<Rightarrow> string \<Rightarrow> bool \<Rightarrow> 's \<Rightarrow> (remote_err + Cert) \<times> 's" where
  "remote_certs_ApplyHostCert f srv host certPEM keyPEM refresh s =
     do_request srv ''PUT'' [''tls'', ''hosts'', host] [] (Some (pair_body certPEM keyPEM)) (cert_dto f) s"

definition remote_certs_RemoveHostCert :: "'s server \<Rightarrow> string \<Rightarrow> bool \<Rightarrow> 's \<Rightarrow> (remote_err + unit) \<times> 's" where
  "remote_certs_RemoveHostCert srv host refresh s = do_unit srv ''DELETE'' [''tls'', ''hosts'', host] None s"

definition remote_certs_GetSiteCert :: "clock_fmt \<Rightarrow> 's server \<Rightarrow> string \<Rightarrow> 's \<Rightarrow> (remote_err + Cert) \<times> 's" where
  "remote_certs_GetSiteCert f srv domain s = do_request srv ''GET'' [''tls'', ''site''] [] None (cert_dto f) s"

definition remote_certs_List :: "clock_fmt \<Rightarrow> 's server \<Rightarrow> 's \<Rightarrow> (remote_err + Cert list) \<times> 's" where
  "remote_certs_List f srv s =
     do_request srv ''GET'' [''tls'', ''hosts''] [] None (in_struct ''hosts'' (as_list (cert_dto f))) s"

definition remote_certs_MainDomain :: "clock_fmt \<Rightarrow> 's server \<Rightarrow> 's \<Rightarrow> (remote_err + string) \<times> 's" where
  "remote_certs_MainDomain f srv s = map_prod (map_sum id ctDomain) id (remote_certs_GetSiteCert f srv [] s)"

section \<open>Certificates over HTTP\<close>

lemma as_str_list: "as_list as_str (JArr (map JStr xs)) = Some xs"
proof -
  have "as_list as_str (JArr (map JStr xs)) = Some (map id xs)" by (rule as_list_map) (simp add: as_str_def)
  then show ?thesis by simp
qed

text \<open>A clock format whose parser undoes its printer, and prints something.\<close>

definition clock_ok :: "clock_fmt \<Rightarrow> bool" where
  "clock_ok f \<longleftrightarrow> (\<forall>t. cfmFormat f t \<noteq> [] \<and> cfmParse f (cfmFormat f t) = Some t)"

lemma parse_rfTime: "clock_ok f \<Longrightarrow> parseRFC3339 f (rfTime f t) = t"
  by (simp add: parseRFC3339_def rfTime_def clock_ok_def)

lemma jfield_omits:
  "jfield k (JObj (omit_str k' s @ fs)) = (if k = k' \<and> s \<noteq> [] then JStr s else jfield k (JObj fs))"
  "jfield k (JObj (omit_list k' xs @ fs)) = (if k = k' \<and> xs \<noteq> [] then JArr (map JStr xs) else jfield k (JObj fs))"
  "jfield k (JObj ((k', v) # fs)) = (if k = k' then v else jfield k (JObj fs))"
  "jfield k (JObj (omit_str k' s)) = (if k = k' \<and> s \<noteq> [] then JStr s else JNull)"
  by (simp_all add: jfield_def omit_str_def omit_list_def)

lemma as_values [simp]:
  "as_str (JStr s) = Some s" "as_str JNull = Some []" "as_list g JNull = Some []"
  "as_struct (JObj fs) = Some (JObj fs)"
  by (simp_all add: as_str_def as_list_def as_struct_def)

lemma omitted_values:
  "as_str (if s \<noteq> [] then JStr s else JNull) = Some s"
  "as_list as_str (if xs \<noteq> [] then JArr (map JStr xs) else JNull) = Some xs"
  by (simp_all add: as_str_list)

lemma cert_dto_fields:
  assumes "clock_ok f" "k = ''host'' \<or> k = ''domain''"
  shows "cert_dto f (JObj ((k, JStr d) # cert_fields f c)) = Some (c\<lparr> ctDomain := if k = ''domain'' then d else [] \<rparr>)"
  using assms(2)
  by (elim disjE) (simp_all add: cert_dto_def cert_fields_def jfield_omits omitted_values parse_rfTime [OF assms(1)]
      split del: if_split cong del: if_weak_cong)

text \<open>What the remote client sees of the certificates.  A list of the hosts' certificates
  comes back with every field but the domain, which is empty for each of them, while the cluster's own
  certificate comes back whole: the answers name hosts in a field the client does not read.\<close>

theorem remote_hosts_have_no_domain:
  assumes "clock_ok (ceFmt ce)" "Certs_MainDomain (fst w) \<noteq> []"
  shows "remote_certs_List (ceFmt ce) (certs_server (Some ce) dm) w =
      (Inr (map (\<lambda>c. c\<lparr> ctDomain := [] \<rparr>) (filter (\<lambda>c. ctDomain c \<noteq> Certs_MainDomain (fst w)) (Certs_List (fst w)))), w) \<and>
    (\<forall>c. Certs_GetSiteCert (Certs_MainDomain (fst w)) (fst w) = Inr c \<longrightarrow>
      remote_certs_GetSiteCert (ceFmt ce) (certs_server (Some ce) dm) any w = (Inr c, w))"
proof -
  have "as_list (cert_dto (ceFmt ce)) (JArr (map (hostCertResponseFromCert (ceFmt ce)) cs)) =
      Some (map (\<lambda>c. c\<lparr> ctDomain := [] \<rparr>) cs)" for cs
    by (rule as_list_map) (simp add: hostCertResponseFromCert_def cert_dto_fields [OF assms(1)])
  moreover have "cert_dto (ceFmt ce) (siteCertResponseFromCert (ceFmt ce) c) = Some c" for c
    using cert_dto_fields [OF assms(1), of "''domain''" "ctDomain c" c]
    by (simp add: siteCertResponseFromCert_def)
  ultimately show ?thesis
    using assms(2)
    by (auto simp: remote_certs_List_def remote_certs_GetSiteCert_def do_request_def certs_server_def Let_def
        http_certs_listHosts_def http_certs_getSite_def in_struct_obj)
qed

text \<open>A wired adapter with a store that holds the cluster's domain and one host's certificate.\<close>

definition demo_clock :: clock_fmt where
  "demo_clock = \<lparr> cfmFormat = (\<lambda>t. (if t < 0 then CHR ''-'' else CHR ''+'') # replicate (nat \<bar>t\<bar>) (CHR ''x'')),
     cfmParse = (\<lambda>s. Some ((if hd s = CHR ''-'' then - 1 else 1) * int (length (tl s)))) \<rparr>"

definition closed_os :: "'sw os" where
  "closed_os = \<lparr> osMkdirAll = (\<lambda>_ s. (False, s)), osCreateTemp = (\<lambda>_ s. (None, s)), osWrite = (\<lambda>_ _ s. (False, s)),
     osChmod = (\<lambda>_ s. (False, s)), osClose = (\<lambda>_ s. (False, s)), osRename = (\<lambda>_ _ s. (False, s)),
     osRemove = (\<lambda>_ s. s) \<rparr>"

definition demo_certs :: "toy_swarm certs_local" where
  "demo_certs = \<lparr> ceDeps = broken_deps, ceOs = closed_os,
     ceX509 = \<lparr> xlKeyPair = (\<lambda>_ _. None), xlDecode = (\<lambda>_. None), xlParse = (\<lambda>_. Inl []) \<rparr>,
     ceDirOf = id, ceConfigDir = ''/etc'', ceVersion = ''v1'', ceHasCipher = True, ceQuote = id,
     ceOther = (\<lambda>_. []), ceFmt = demo_clock \<rparr>"

definition host_row :: SiteCertRow where
  "host_row = \<lparr> scDomain = ''shop.org'', scCertSecret = ''hostcert-shop-org_v001'',
     scKeySecret = ''hostkey-shop-org_v001'', scNotBefore = 1, scNotAfter = 9, scSANs = [''shop.org''],
     scCertHash = ''h'', scKeyHash = ''k'', scCreatedAt = 1, scUpdatedAt = 1 \<rparr>"

definition cert_store :: Store where
  "cert_store = PutSiteCert host_row (SetSetting settingDomain ''example.com'' empty_store)"

theorem remote_hosts_have_no_domain_witness:
  "\<exists>c. fst (remote_certs_List demo_clock (certs_server (Some demo_certs) (aeDaemon demo_env)) (cert_store, [], [])) = Inr [c] \<and>
     ctDomain c = [] \<and> ctCertSecret c = ''hostcert-shop-org_v001''"
proof -
  have clock: "clock_ok (ceFmt demo_certs)"
    by (auto simp: clock_ok_def demo_certs_def demo_clock_def)
  have dom: "Certs_MainDomain (fst (cert_store, [], [])) = ''example.com''" by code_simp
  have l: "Certs_List cert_store = [cert_rowModel host_row]" by code_simp
  have "''shop.org'' \<noteq> ''example.com''" by simp
  then show ?thesis
    using remote_hosts_have_no_domain [OF clock, of "(cert_store, [], [])" "aeDaemon demo_env" "[]"] dom l
    by (simp add: demo_certs_def cert_rowModel_def host_row_def)
qed

end
