(* ===== verification/Api_Services.thy ===== *)
theory Api_Services
  imports Api_Refinement
begin

text \<open>
  The whitelisted operations on services (\<^verbatim>\<open>internal/services\<close>): the local adapter over the Docker client
  with its check that a service belongs to the stack, the REST handlers, the remote adapter
  (\<^verbatim>\<open>internal/remote/services.go\<close>), and the read-only node and profile endpoints of \<^verbatim>\<open>internal/api\<close>.
\<close>

section \<open>The local adapter\<close>

record ServiceSummary =
  suName :: string
  suStack :: string
  suReplicas :: "64 word"
  suDesired :: "64 word"
  suImage :: string
  suMode :: string
  suUpdated :: int

record TaskRun =
  trTaskID :: string
  trNode :: string
  trSlot :: int
  trState :: string
  trError :: string
  trStartedAt :: int
  trFinishedAt :: int

datatype services_err =
    Bad_Stack string
  | Service_Required
  | Not_Found_Service string client_err
  | Foreign_Service string string
  | Argv_Required | Argv_Too_Many | Argv_Too_Long
  | Docker_Error client_err

text \<open>\<^verbatim>\<open>^[a-z0-9][a-z0-9_-]*$\<close>\<close>

definition stackNameRe :: "string \<Rightarrow> bool" where
  "stackNameRe s =
     (case s of
        [] \<Rightarrow> False
      | c # r \<Rightarrow> (is_lower c \<or> is_digit c) \<and>
          list_all (\<lambda>d. is_lower d \<or> is_digit d \<or> d = CHR ''_'' \<or> d = CHR ''-'') r)"

definition validateStack :: "string \<Rightarrow> services_err + unit" where
  "validateStack stack = (if stack = [] \<or> \<not> stackNameRe stack then Inl (Bad_Stack stack) else Inr ())"

definition full_name :: "string \<Rightarrow> string \<Rightarrow> string" where
  "full_name stack service = stack @ ''_'' @ service"

definition resolve :: "'sw sdk \<Rightarrow> string \<Rightarrow> string \<Rightarrow> 'sw \<Rightarrow> services_err + string" where
  "resolve d stack service s =
     (case validateStack stack of
        Inl e \<Rightarrow> Inl e
      | Inr _ \<Rightarrow>
          if service = [] then Inl Service_Required
          else (case ServiceInspect d (full_name stack service) s of
                  Inl e \<Rightarrow> Inl (Not_Found_Service (full_name stack service) e)
                | Inr svc \<Rightarrow>
                    if label_value StackNamespaceLabel (siLabels svc) \<noteq> stack
                    then Inl (Foreign_Service (full_name stack service) stack)
                    else Inr (siID svc)))"

definition service_summary :: "Service \<Rightarrow> ServiceSummary" where
  "service_summary x =
     \<lparr> suName = svName x, suStack = svStack x, suReplicas = svReplicas x, suDesired = svDesired x,
       suImage = svImage x, suMode = svMode x, suUpdated = svUpdatedAt x \<rparr>"

definition Services_List :: "'sw sdk \<Rightarrow> string \<Rightarrow> 'sw \<Rightarrow> services_err + ServiceSummary list" where
  "Services_List d stack s =
     (case (if stack \<noteq> [] then validateStack stack else Inr ()) of
        Inl e \<Rightarrow> Inl e
      | Inr _ \<Rightarrow>
         (case ServiceList d s of
            Inl e \<Rightarrow> Inl (Docker_Error e)
          | Inr svcs \<Rightarrow> Inr (map service_summary (filter (\<lambda>x. \<not> (stack \<noteq> [] \<and> svStack x \<noteq> stack)) svcs))))"

definition task_run :: "ServiceTask \<Rightarrow> TaskRun" where
  "task_run t =
     \<lparr> trTaskID = stTaskID t, trNode = stNode t, trSlot = stSlot t, trState = stState t, trError = stError t,
       trStartedAt = stStartedAt t, trFinishedAt = stFinishedAt t \<rparr>"

definition Services_Tasks :: "'sw sdk \<Rightarrow> string \<Rightarrow> string \<Rightarrow> 'sw \<Rightarrow> services_err + TaskRun list" where
  "Services_Tasks d stack service s =
     (case resolve d stack service s of
        Inl e \<Rightarrow> Inl e
      | Inr sid \<Rightarrow> map_sum Docker_Error (map task_run) (ServiceTasks d sid s))"

definition Services_Logs :: "'sw sdk \<Rightarrow> string \<Rightarrow> string \<Rightarrow> int \<Rightarrow> 'sw \<Rightarrow> services_err + LogLine list" where
  "Services_Logs d stack service tail0 s =
     (let tail1 = (if tail0 < 1 then 1 else tail0); tail = (if tail1 > 2000 then 2000 else tail1) in
      case resolve d stack service s of
        Inl e \<Rightarrow> Inl e
      | Inr sid \<Rightarrow> map_sum Docker_Error id (ServiceLogs d sid tail s))"

definition Services_Restart :: "'sw sdk \<Rightarrow> string \<Rightarrow> string \<Rightarrow> 'sw \<Rightarrow> (services_err + unit) \<times> 'sw" where
  "Services_Restart d stack service s =
     (case resolve d stack service s of
        Inl e \<Rightarrow> (Inl e, s)
      | Inr sid \<Rightarrow> map_prod (map_sum Docker_Error id) id (ServiceRestart d sid s))"

definition Services_Exec ::
  "'sw sdk \<Rightarrow> string \<Rightarrow> string \<Rightarrow> string list \<Rightarrow> 'sw \<Rightarrow> (services_err + ExecResult) \<times> 'sw" where
  "Services_Exec d stack service argv s =
     (if argv = [] then (Inl Argv_Required, s)
      else if length argv > 16 then (Inl Argv_Too_Many, s)
      else if list_ex (\<lambda>a. length a > 200) argv then (Inl Argv_Too_Long, s)
      else (case resolve d stack service s of
              Inl e \<Rightarrow> (Inl e, s)
            | Inr sid \<Rightarrow> map_prod (map_sum Docker_Error id) id (ServiceExec d sid argv s)))"

section \<open>The handlers\<close>

text \<open>Replica counts are unsigned; \<^verbatim>\<open>txt\<close> gives the texts of errors.\<close>

definition service_json :: "ServiceSummary \<Rightarrow> json" where
  "service_json x =
     JObj [(''name'', JStr (suName x)), (''stack'', JStr (suStack x)), (''replicas'', JInt (uint (suReplicas x))),
           (''desired'', JInt (uint (suDesired x))), (''image'', JStr (suImage x)), (''mode'', JStr (suMode x)),
           (''updated'', JInt (suUpdated x))]"

definition http_services_list :: "(services_err \<Rightarrow> string) \<Rightarrow> 'sw sdk \<Rightarrow> 'sw \<Rightarrow> json reply" where
  "http_services_list txt d s =
     (case Services_List d [] s of
        Inl e \<Rightarrow> (500, Inl (txt e))
      | Inr xs \<Rightarrow> (200, Inr (JObj [(''services'', JArr (map service_json xs))])))"

definition http_services_listStack :: "(services_err \<Rightarrow> string) \<Rightarrow> 'sw sdk \<Rightarrow> string \<Rightarrow> 'sw \<Rightarrow> json reply" where
  "http_services_listStack txt d stack s =
     (case Services_List d stack s of
        Inl e \<Rightarrow> (400, Inl (txt e))
      | Inr xs \<Rightarrow> (200, Inr (JObj [(''stack'', JStr stack), (''services'', JArr (map service_json xs))])))"

definition task_json :: "TaskRun \<Rightarrow> json" where
  "task_json t =
     JObj [(''task_id'', JStr (trTaskID t)), (''node'', JStr (trNode t)), (''slot'', JInt (trSlot t)),
           (''state'', JStr (trState t)), (''error'', JStr (trError t)), (''started_at'', JInt (trStartedAt t)),
           (''finished_at'', JInt (trFinishedAt t))]"

definition http_services_tasks ::
  "(services_err \<Rightarrow> string) \<Rightarrow> 'sw sdk \<Rightarrow> string \<Rightarrow> string \<Rightarrow> 'sw \<Rightarrow> json reply" where
  "http_services_tasks txt d stack service s =
     (case Services_Tasks d stack service s of
        Inl e \<Rightarrow> (400, Inl (txt e))
      | Inr ts \<Rightarrow> (200, Inr (JObj [(''service'', JStr (full_name stack service)), (''tasks'', JArr (map task_json ts))])))"

definition log_json :: "LogLine \<Rightarrow> json" where
  "log_json l = JObj [(''stream'', JStr (llStream l)), (''line'', JStr (llLine l))]"

definition http_services_logs ::
  "(services_err \<Rightarrow> string) \<Rightarrow> 'sw sdk \<Rightarrow> string \<Rightarrow> string \<Rightarrow> string \<Rightarrow> 'sw \<Rightarrow> json reply" where
  "http_services_logs txt d stack service tailParam s =
     (case (if tailParam = [] then Some 200 else parse_int64 tailParam) of
        None \<Rightarrow> (400, Inl ''tail must be an integer'')
      | Some tail \<Rightarrow>
         (case Services_Logs d stack service tail s of
            Inl e \<Rightarrow> (400, Inl (txt e))
          | Inr ls \<Rightarrow> (200, Inr (JObj [(''service'', JStr (full_name stack service)), (''logs'', JArr (map log_json ls))]))))"

definition http_services_restart ::
  "(services_err \<Rightarrow> string) \<Rightarrow> 'sw sdk \<Rightarrow> string \<Rightarrow> string \<Rightarrow> 'sw \<Rightarrow> json reply \<times> 'sw" where
  "http_services_restart txt d stack service s =
     (case Services_Restart d stack service s of
        (Inl e, s') \<Rightarrow> ((400, Inl (txt e)), s')
      | (Inr _, s') \<Rightarrow> ((200, Inr (JObj [(''service'', JStr (full_name stack service)), (''restarted'', JBool True)])), s'))"

text \<open>The decoder of this handler takes unknown fields.\<close>

definition decode_argv :: "(string + json) option \<Rightarrow> string + string list" where
  "decode_argv body =
     (case body of
        None \<Rightarrow> Inl ''EOF''
      | Some (Inl e) \<Rightarrow> Inl e
      | Some (Inr j) \<Rightarrow>
         (case in_struct ''argv'' (as_list as_str) j of
            None \<Rightarrow> Inl ''json: cannot unmarshal''
          | Some a \<Rightarrow> Inr a))"

definition http_services_exec ::
  "(services_err \<Rightarrow> string) \<Rightarrow> 'sw sdk \<Rightarrow> string \<Rightarrow> string \<Rightarrow> (string + json) option \<Rightarrow> 'sw \<Rightarrow> json reply \<times> 'sw" where
  "http_services_exec txt d stack service body s =
     (case decode_argv body of
        Inl e \<Rightarrow> ((400, Inl (''invalid JSON: '' @ e)), s)
      | Inr argv \<Rightarrow>
         (case Services_Exec d stack service argv s of
            (Inl e, s') \<Rightarrow> ((400, Inl (txt e)), s')
          | (Inr r, s') \<Rightarrow>
              ((200, Inr (JObj [(''service'', JStr (full_name stack service)), (''exit_code'', JInt (exExitCode r)),
                 (''stdout'', JStr (exStdout r)), (''stderr'', JStr (exStderr r))])), s')))"

definition services_server :: "(services_err \<Rightarrow> string) \<Rightarrow> 'sw sdk \<Rightarrow> 'sw server" where
  "services_server txt d rq s =
     (let m = rqMethod rq in
      case rqPath rq of
        [a] \<Rightarrow> if a = ''services'' \<and> m = ''GET'' then (http_services_list txt d s, s) else (not_routed, s)
      | [a, stack] \<Rightarrow>
          if a = ''services'' \<and> stack \<noteq> [] \<and> m = ''GET'' then (http_services_listStack txt d stack s, s)
          else (not_routed, s)
      | [a, stack, service, op] \<Rightarrow>
          if a \<noteq> ''services'' then (not_routed, s)
          else if op = ''tasks'' \<and> m = ''GET'' then (http_services_tasks txt d stack service s, s)
          else if op = ''logs'' \<and> m = ''GET'' then (http_services_logs txt d stack service (query_param ''tail'' rq) s, s)
          else if op = ''restart'' \<and> m = ''POST'' then http_services_restart txt d stack service s
          else if op = ''exec'' \<and> m = ''POST'' then http_services_exec txt d stack service (rqBody rq) s
          else (not_routed, s)
      | _ \<Rightarrow> (not_routed, s))"

section \<open>The remote adapter\<close>

definition service_dto :: "json \<Rightarrow> ServiceSummary option" where
  "service_dto j0 = do {
     j \<leftarrow> as_struct j0;
     name \<leftarrow> as_str (jfield ''name'' j); stack \<leftarrow> as_str (jfield ''stack'' j);
     replicas \<leftarrow> as_int (jfield ''replicas'' j); desired \<leftarrow> as_int (jfield ''desired'' j);
     image \<leftarrow> as_str (jfield ''image'' j); mode \<leftarrow> as_str (jfield ''mode'' j); updated \<leftarrow> as_int (jfield ''updated'' j);
     Some \<lparr> suName = name, suStack = stack, suReplicas = word_of_int replicas, suDesired = word_of_int desired,
       suImage = image, suMode = mode, suUpdated = updated \<rparr> }"

definition task_dto :: "json \<Rightarrow> TaskRun option" where
  "task_dto j0 = do {
     j \<leftarrow> as_struct j0;
     tid \<leftarrow> as_str (jfield ''task_id'' j); node \<leftarrow> as_str (jfield ''node'' j); slot \<leftarrow> as_int (jfield ''slot'' j);
     state \<leftarrow> as_str (jfield ''state'' j); err \<leftarrow> as_str (jfield ''error'' j);
     started \<leftarrow> as_int (jfield ''started_at'' j); finished \<leftarrow> as_int (jfield ''finished_at'' j);
     Some \<lparr> trTaskID = tid, trNode = node, trSlot = slot, trState = state, trError = err,
       trStartedAt = started, trFinishedAt = finished \<rparr> }"

definition log_dto :: "json \<Rightarrow> LogLine option" where
  "log_dto j0 = do {
     j \<leftarrow> as_struct j0; st \<leftarrow> as_str (jfield ''stream'' j); l \<leftarrow> as_str (jfield ''line'' j);
     Some \<lparr> llStream = st, llLine = l \<rparr> }"

definition exec_dto :: "json \<Rightarrow> ExecResult option" where
  "exec_dto j0 = do {
     j \<leftarrow> as_struct j0; code \<leftarrow> as_int (jfield ''exit_code'' j);
     out \<leftarrow> as_str (jfield ''stdout'' j); err \<leftarrow> as_str (jfield ''stderr'' j);
     Some \<lparr> exExitCode = code, exStdout = out, exStderr = err \<rparr> }"

definition remote_services_List :: "'s server \<Rightarrow> string \<Rightarrow> 's \<Rightarrow> (remote_err + ServiceSummary list) \<times> 's" where
  "remote_services_List srv stack s =
     do_request srv ''GET'' (''services'' # (if stack \<noteq> [] then [stack] else [])) [] None
       (in_struct ''services'' (as_list service_dto)) s"

definition remote_services_Tasks :: "'s server \<Rightarrow> string \<Rightarrow> string \<Rightarrow> 's \<Rightarrow> (remote_err + TaskRun list) \<times> 's" where
  "remote_services_Tasks srv stack service s =
     do_request srv ''GET'' [''services'', stack, service, ''tasks''] [] None (in_struct ''tasks'' (as_list task_dto)) s"

definition remote_services_Logs ::
  "'s server \<Rightarrow> string \<Rightarrow> string \<Rightarrow> int \<Rightarrow> 's \<Rightarrow> (remote_err + LogLine list) \<times> 's" where
  "remote_services_Logs srv stack service tail s =
     do_request srv ''GET'' [''services'', stack, service, ''logs''] [(''tail'', itoa tail)] None
       (in_struct ''logs'' (as_list log_dto)) s"

definition remote_services_Restart :: "'s server \<Rightarrow> string \<Rightarrow> string \<Rightarrow> 's \<Rightarrow> (remote_err + unit) \<times> 's" where
  "remote_services_Restart srv stack service s =
     do_unit srv ''POST'' [''services'', stack, service, ''restart''] None s"

definition remote_services_Exec ::
  "'s server \<Rightarrow> string \<Rightarrow> string \<Rightarrow> string list \<Rightarrow> 's \<Rightarrow> (remote_err + ExecResult) \<times> 's" where
  "remote_services_Exec srv stack service argv s =
     do_request srv ''POST'' [''services'', stack, service, ''exec''] [] (Some (JObj [(''argv'', JArr (map JStr argv))]))
       exec_dto s"

section \<open>Nodes and profile\<close>

definition node_json :: "Node \<Rightarrow> json" where
  "node_json n =
     JObj [(''id'', JStr (ndID n)), (''hostname'', JStr (ndHostname n)), (''role'', JStr (ndRole n)),
           (''availability'', JStr (ndAvailability n)), (''status'', JStr (ndStatus n)),
           (''is_leader'', JBool (ndIsLeader n)), (''engine_version'', JStr (ndEngineVersion n)),
           (''address'', JStr (ndAddress n)), (''created_at'', JInt (ndCreatedAt n)),
           (''updated_at'', JInt (ndUpdatedAt n))]"

definition NodesHandler :: "(client_err \<Rightarrow> string) \<Rightarrow> 'sw sdk \<Rightarrow> 'sw \<Rightarrow> json reply" where
  "NodesHandler txt d s =
     (case NodeList d s of
        Inl e \<Rightarrow> (502, Inl (txt e))
      | Inr ns \<Rightarrow> (200, Inr (JObj [(''nodes'', JArr (map node_json ns))])))"

definition Me :: "auth_user option \<Rightarrow> json reply" where
  "Me u =
     (case u of
        None \<Rightarrow> (500, Inl ''missing authenticated user (server misconfiguration)'')
      | Some a \<Rightarrow> (200, Inr (JObj [(''id'', JInt (auID a)), (''name'', JStr (auName a))])))"

end
