(* ===== verification/Api_Services_Properties.thy ===== *)
theory Api_Services_Properties
  imports Api_Services Api_Properties
begin

text \<open>
  What the operations on services may touch, and that the remote adapter answers as the local one.
\<close>

section \<open>The check that a service belongs to the stack\<close>

lemma resolve_ok:
  "resolve d stack service s = Inr sid \<longleftrightarrow>
     stackNameRe stack \<and> service \<noteq> [] \<and>
     (\<exists>svc. ServiceInspect d (full_name stack service) s = Inr svc \<and>
        label_value StackNamespaceLabel (siLabels svc) = stack \<and> siID svc = sid)"
  by (cases stack) (auto simp: resolve_def validateStack_def stackNameRe_def split: sum.splits list.splits if_splits)

lemma restart_changes:
  assumes "snd (Services_Restart d stack service s) \<noteq> s"
  shows "\<exists>sid. resolve d stack service s = Inr sid \<and>
     snd (Services_Restart d stack service s) = snd (ServiceRestart d sid s)"
  using assms by (cases "resolve d stack service s") (auto simp: Services_Restart_def)

definition argv_ok :: "string list \<Rightarrow> bool" where
  "argv_ok argv \<longleftrightarrow> argv \<noteq> [] \<and> length argv \<le> 16 \<and> list_all (\<lambda>a. length a \<le> 200) argv"

lemma exec_changes:
  assumes "snd (Services_Exec d stack service argv s) \<noteq> s"
  shows "argv_ok argv \<and> (\<exists>sid. resolve d stack service s = Inr sid \<and>
     snd (Services_Exec d stack service argv s) = snd (ServiceExec d sid argv s))"
  using assms
  by (cases "resolve d stack service s")
     (auto simp: Services_Exec_def argv_ok_def list_all_iff list_ex_iff split: if_splits)

lemma http_restart_state: "snd (http_services_restart txt d stack service s) = snd (Services_Restart d stack service s)"
  by (auto simp: http_services_restart_def split: prod.splits sum.splits)

lemma http_exec_state:
  "snd (http_services_exec txt d stack service body s) =
     (case decode_argv body of Inl _ \<Rightarrow> s | Inr argv \<Rightarrow> snd (Services_Exec d stack service argv s))"
  by (auto simp: http_services_exec_def split: prod.splits sum.splits)

text \<open>The two requests that may change the swarm.\<close>

lemma services_server_changes:
  assumes "snd (services_server txt d rq s) \<noteq> s"
  shows "rqMethod rq = ''POST'' \<and> (\<exists>stack service.
      rqPath rq = [''services'', stack, service, ''restart''] \<and>
        snd (services_server txt d rq s) = snd (Services_Restart d stack service s) \<or>
      rqPath rq = [''services'', stack, service, ''exec''] \<and>
        (\<exists>argv. decode_argv (rqBody rq) = Inr argv \<and>
           snd (services_server txt d rq s) = snd (Services_Exec d stack service argv s)))"
proof -
  have "\<exists>stack service op. rqPath rq = [''services'', stack, service, op] \<and> rqMethod rq = ''POST'' \<and>
      (op = ''restart'' \<or> op = ''exec'')"
    using assms by (auto simp: services_server_def Let_def split: list.splits if_splits)
  then obtain stack service op where p: "rqPath rq = [''services'', stack, service, op]"
    "rqMethod rq = ''POST''" and op: "op = ''restart'' \<or> op = ''exec''" by blast
  from op show ?thesis
  proof
    assume o: "op = ''restart''"
    then have "snd (services_server txt d rq s) = snd (Services_Restart d stack service s)"
      using p by (simp add: services_server_def http_restart_state)
    then show ?thesis using p o by auto
  next
    assume o: "op = ''exec''"
    then have "snd (services_server txt d rq s) =
        (case decode_argv (rqBody rq) of Inl _ \<Rightarrow> s | Inr argv \<Rightarrow> snd (Services_Exec d stack service argv s))"
      using p by (simp add: services_server_def http_exec_state)
    then show ?thesis using p o assms by (cases "decode_argv (rqBody rq)") auto
  qed
qed

text \<open>Property C37.  The service endpoints are confined.  A request that changes the swarm is a POST to
  restart or exec of a service; then the stack's name is well formed, Docker knows the service under the
  full name and gives it the namespace label of exactly that stack, and the change is that of restarting
  it, or of running in it a command of one to sixteen arguments of at most 200 bytes.\<close>

theorem services_confined:
  assumes "snd (services_server txt d rq s) \<noteq> s"
  shows "rqMethod rq = ''POST'' \<and> (\<exists>stack service svc op.
     rqPath rq = [''services'', stack, service, op] \<and> stackNameRe stack \<and> service \<noteq> [] \<and>
     ServiceInspect d (full_name stack service) s = Inr svc \<and>
     label_value StackNamespaceLabel (siLabels svc) = stack \<and>
     (op = ''restart'' \<and> snd (services_server txt d rq s) = snd (ServiceRestart d (siID svc) s) \<or>
      op = ''exec'' \<and> (\<exists>argv. decode_argv (rqBody rq) = Inr argv \<and>
         argv \<noteq> [] \<and> length argv \<le> 16 \<and> list_all (\<lambda>a. length a \<le> 200) argv \<and>
         snd (services_server txt d rq s) = snd (ServiceExec d (siID svc) argv s))))"
proof -
  from services_server_changes [OF assms] obtain stack service where m: "rqMethod rq = ''POST''" and
    c: "rqPath rq = [''services'', stack, service, ''restart''] \<and>
        snd (services_server txt d rq s) = snd (Services_Restart d stack service s) \<or>
      rqPath rq = [''services'', stack, service, ''exec''] \<and>
        (\<exists>argv. decode_argv (rqBody rq) = Inr argv \<and>
           snd (services_server txt d rq s) = snd (Services_Exec d stack service argv s))" by blast
  from c show ?thesis
  proof (elim disjE exE conjE)
    assume p: "rqPath rq = [''services'', stack, service, ''restart'']"
      and e: "snd (services_server txt d rq s) = snd (Services_Restart d stack service s)"
    with restart_changes [of d stack service s] assms obtain sid where
      r: "resolve d stack service s = Inr sid"
        "snd (Services_Restart d stack service s) = snd (ServiceRestart d sid s)" by auto
    then show ?thesis using m p e unfolding resolve_ok by auto
  next
    fix argv
    assume p: "rqPath rq = [''services'', stack, service, ''exec'']" and a: "decode_argv (rqBody rq) = Inr argv"
      and e: "snd (services_server txt d rq s) = snd (Services_Exec d stack service argv s)"
    with exec_changes [of d stack service argv s] assms obtain sid where
      r: "argv_ok argv" "resolve d stack service s = Inr sid"
        "snd (Services_Exec d stack service argv s) = snd (ServiceExec d sid argv s)" by auto
    then show ?thesis using m p e a unfolding resolve_ok argv_ok_def by auto
  qed
qed

definition shop_web :: sdk_service where
  "shop_web = \<lparr> ssID = ''x1'', ssName = ''shop_web'', ssLabels = [(StackNamespaceLabel, ''shop'')],
     ssReplicated = Some (Some 1), ssGlobal = False, ssStatus = Some 1, ssContainer = None, ssForceUpdate = 0,
     ssVersion = 7, ssUpdatedAt = 0 \<rparr>"

text \<open>A swarm with one service; updating it leaves a mark.\<close>

definition shop_sdk :: "toy_swarm sdk" where
  "shop_sdk = toy_sdk \<lparr>
     dkServiceInspect := (\<lambda>n _. if n = ''shop_web'' \<or> n = ''x1'' then Inr shop_web else Inl toy_missing),
     dkServiceUpdate := (\<lambda>sid _ _ s. (None, (fst s, \<lparr> spName = sid, spData = [], spLabels = [] \<rparr> # snd s))) \<rparr>"

definition shop_restart :: request where
  "shop_restart = \<lparr> rqMethod = ''POST'', rqPath = [''services'', ''shop'', ''web'', ''restart''], rqQuery = [],
     rqBody = None \<rparr>"

lemma shop_restarted:
  "snd (services_server (\<lambda>_. []) shop_sdk shop_restart ([], [])) =
     ([], [\<lparr> spName = ''x1'', spData = [], spLabels = [] \<rparr>])"
  by code_simp

theorem services_confined_witness:
  "\<exists>stack service svc. rqPath shop_restart = [''services'', stack, service, ''restart''] \<and> stackNameRe stack \<and>
     ServiceInspect shop_sdk (full_name stack service) ([], []) = Inr svc \<and>
     label_value StackNamespaceLabel (siLabels svc) = stack"
proof -
  have "snd (services_server (\<lambda>_. []) shop_sdk shop_restart ([], [])) \<noteq> ([], [])"
    unfolding shop_restarted by simp
  from services_confined [OF this] show ?thesis by (auto simp: shop_restart_def)
qed

section \<open>The remote adapter\<close>

lemma parse_itoa_total:
  assumes "- (2 ^ 63) \<le> i" "i < 2 ^ 63"
  shows "parse_int64 (itoa i) = Some i"
proof -
  obtain c r where cr: "nat_str (nat \<bar>i\<bar>) = c # r" by (cases "nat_str (nat \<bar>i\<bar>)") auto
  have "is_digit c" using nat_str_digits [of "nat \<bar>i\<bar>"] cr by simp
  then have "c \<noteq> CHR ''-''" "c \<noteq> CHR ''+''" by (auto simp: is_digit_def less_eq_char_def)
  then show ?thesis
    using assms cr digits_val_nat_str [of "nat \<bar>i\<bar>"] nat_str_digits [of "nat \<bar>i\<bar>"]
    by (auto simp: itoa_def parse_int64_def Let_def)
qed

lemma all_some_rows: "(\<And>x. f (g x) = Some x) \<Longrightarrow> all_some (map (f \<circ> g) xs) = Some xs"
  by (induction xs) auto

lemma service_dto_row: "service_dto (service_json x) = Some x"
  by (simp add: service_dto_def service_json_def as_struct_def jfield_def as_str_def as_int_def)

lemma task_dto_row: "task_dto (task_json x) = Some x"
  by (simp add: task_dto_def task_json_def as_struct_def jfield_def as_str_def as_int_def)

lemma log_dto_row: "log_dto (log_json x) = Some x"
  by (simp add: log_dto_def log_json_def as_struct_def jfield_def as_str_def)

lemma argv_roundtrip: "decode_argv (Some (Inr (JObj [(''argv'', JArr (map JStr a))]))) = Inr a"
  using as_list_map [of as_str JStr "\<lambda>x. x" a]
  by (simp add: decode_argv_def in_struct_def as_struct_def jfield_def as_str_def)

lemma remote_services_list_reply:
  "remote_services_List (services_server txt d) stack s =
     (map_sum (\<lambda>e. mapError (if stack = [] then 500 else 400) (error_text (txt e))) id (Services_List d stack s), s)"
  by (cases "Services_List d stack s"; cases stack)
     (auto simp: remote_services_List_def services_server_def http_services_list_def http_services_listStack_def
        call_defs all_some_rows [of service_dto, OF service_dto_row])

lemma remote_services_tasks_reply:
  "remote_services_Tasks (services_server txt d) stack service s =
     (map_sum (\<lambda>e. mapError 400 (error_text (txt e))) id (Services_Tasks d stack service s), s)"
  by (cases "Services_Tasks d stack service s")
     (auto simp: remote_services_Tasks_def services_server_def http_services_tasks_def
        call_defs all_some_rows [of task_dto, OF task_dto_row])

lemma remote_services_logs_reply:
  assumes "- (2 ^ 63) \<le> tail" "tail < 2 ^ 63"
  shows "remote_services_Logs (services_server txt d) stack service tail s =
     (map_sum (\<lambda>e. mapError 400 (error_text (txt e))) id (Services_Logs d stack service tail s), s)"
proof -
  have "itoa tail \<noteq> []" using parse_itoa_total [OF assms] by (auto simp: parse_int64_def)
  then show ?thesis
    using parse_itoa_total [OF assms]
    by (cases "Services_Logs d stack service tail s")
       (auto simp: remote_services_Logs_def services_server_def http_services_logs_def query_param_def
          call_defs all_some_rows [of log_dto, OF log_dto_row])
qed

lemma remote_services_restart_reply:
  "remote_services_Restart (services_server txt d) stack service s =
     map_prod (map_sum (\<lambda>e. mapError 400 (error_text (txt e))) id) id
       (Services_Restart d stack service s)"
  by (cases "Services_Restart d stack service s"; cases "fst (Services_Restart d stack service s)")
     (auto simp: remote_services_Restart_def services_server_def http_services_restart_def call_defs)

lemma remote_services_exec_reply:
  "remote_services_Exec (services_server txt d) stack service argv s =
     map_prod (map_sum (\<lambda>e. mapError 400 (error_text (txt e))) id) id
       (Services_Exec d stack service argv s)"
  by (cases "Services_Exec d stack service argv s"; cases "fst (Services_Exec d stack service argv s)")
     (auto simp: remote_services_Exec_def services_server_def http_services_exec_def argv_roundtrip exec_dto_def
        call_defs as_int_def as_str_def)


text \<open>The remote adapter for services refines the local one: whatever the swarm and the
  request, it changes the swarm exactly as the local call does, answers a result exactly when the local
  call has that result, and an error exactly when the local call fails; the tail of a log must be an
  integer of Go, and log lines are taken to be valid UTF-8, as in \<^verbatim>\<open>Api_Wire\<close>.\<close>

theorem remote_services_refine_local:
  assumes "- (2 ^ 63) \<le> tail" "tail < 2 ^ 63"
  shows "remote_services_List (services_server txt d) stack s =
      (map_sum (\<lambda>e. mapError (if stack = [] then 500 else 400) (error_text (txt e))) id (Services_List d stack s), s) \<and>
    remote_services_Tasks (services_server txt d) stack service s =
      (map_sum (\<lambda>e. mapError 400 (error_text (txt e))) id (Services_Tasks d stack service s), s) \<and>
    remote_services_Logs (services_server txt d) stack service tail s =
      (map_sum (\<lambda>e. mapError 400 (error_text (txt e))) id (Services_Logs d stack service tail s), s) \<and>
    remote_services_Restart (services_server txt d) stack service s =
      map_prod (map_sum (\<lambda>e. mapError 400 (error_text (txt e))) id) id (Services_Restart d stack service s) \<and>
    remote_services_Exec (services_server txt d) stack service argv s =
      map_prod (map_sum (\<lambda>e. mapError 400 (error_text (txt e))) id) id (Services_Exec d stack service argv s)"
  by (simp add: remote_services_list_reply remote_services_tasks_reply remote_services_logs_reply [OF assms]
      remote_services_restart_reply remote_services_exec_reply)

theorem remote_services_refine_local_witness:
  "remote_services_Restart (services_server (\<lambda>_. []) shop_sdk) ''shop'' ''web'' ([], []) =
     (Inr (), ([], [\<lparr> spName = ''x1'', spData = [], spLabels = [] \<rparr>]))"
proof -
  have l: "Services_Restart shop_sdk ''shop'' ''web'' ([], []) =
      (Inr (), ([], [\<lparr> spName = ''x1'', spData = [], spLabels = [] \<rparr>]))" by code_simp
  have "remote_services_Restart (services_server (\<lambda>_. []) shop_sdk) ''shop'' ''web'' ([], []) =
      map_prod (map_sum (\<lambda>e. mapError 400 (error_text [])) id) id (Services_Restart shop_sdk ''shop'' ''web'' ([], []))"
    by (rule remote_services_refine_local [of 5, THEN conjunct2, THEN conjunct2, THEN conjunct2, THEN conjunct1])
       simp_all
  then show ?thesis by (simp add: l)
qed

end
