(* ===== verification/Console_Store.thy ===== *)
theory Console_Store
  imports Tables
begin

text \<open>
  The operator console's own store (\<^verbatim>\<open>internal/ui/store\<close>): its accounts and its settings, in a database
  separate from the daemon's.  Rows are in the order of insertion; failures of SQLite are left out.
\<close>

section \<open>The tables\<close>

record ConsoleUser =
  cuID :: int
  cuUsername :: string
  cuPasswordHash :: string
  cuPasswordSet :: bool
  cuRole :: string
  cuCreatedAt :: int

definition RoleAdmin :: string where "RoleAdmin = ''admin''"
definition RoleOperator :: string where "RoleOperator = ''operator''"
definition RoleViewer :: string where "RoleViewer = ''viewer''"

definition KeyAPIURL :: string where "KeyAPIURL = ''pmcluster_api_url''"
definition KeyToken :: string where "KeyToken = ''pmcluster_api_token''"

record Console =
  coUsers :: "ConsoleUser list"
  coUserSeq :: int
  coSettings :: "(string \<times> string) list"

datatype console_err = Console_Not_Found | Console_Unique

section \<open>The upgrade that adds roles\<close>

text \<open>The column with its default, then the promotion of the user with the least id.\<close>

definition add_role_column :: "ConsoleUser list \<Rightarrow> ConsoleUser list" where
  "add_role_column us = map (\<lambda>u. u\<lparr> cuRole := RoleOperator \<rparr>) us"

definition promote_first :: "ConsoleUser list \<Rightarrow> ConsoleUser list" where
  "promote_first us = map (\<lambda>u. if cuID u = fold min (map cuID us) (cuID u) then u\<lparr> cuRole := RoleAdmin \<rparr> else u) us"

text \<open>Each statement commits on its own: \<^verbatim>\<open>stop\<close> is a crash between the two.  The first component is
  whether the table has the column.\<close>

definition ensureRoleColumn :: "bool \<Rightarrow> bool \<times> ConsoleUser list \<Rightarrow> bool \<times> ConsoleUser list" where
  "ensureRoleColumn stop t =
     (let (hasRole, us) = t in
      if hasRole then t
      else if stop then (True, add_role_column us)
      else (True, promote_first (add_role_column us)))"

section \<open>Users\<close>

definition GetByUsername :: "string \<Rightarrow> Console \<Rightarrow> console_err + ConsoleUser" where
  "GetByUsername name st =
     (case row_find cuUsername name (coUsers st) of None \<Rightarrow> Inl Console_Not_Found | Some u \<Rightarrow> Inr u)"

definition GetByID :: "int \<Rightarrow> Console \<Rightarrow> console_err + ConsoleUser" where
  "GetByID uid st =
     (case row_find cuID uid (coUsers st) of None \<Rightarrow> Inl Console_Not_Found | Some u \<Rightarrow> Inr u)"

definition console_ListUsers :: "Console \<Rightarrow> ConsoleUser list" where
  "console_ListUsers st = sort_key cuID (coUsers st)"

definition FirstUser :: "Console \<Rightarrow> console_err + ConsoleUser" where
  "FirstUser st = (case console_ListUsers st of [] \<Rightarrow> Inl Console_Not_Found | u # _ \<Rightarrow> Inr u)"

definition console_CountUsers :: "Console \<Rightarrow> int" where
  "console_CountUsers st = int (length (coUsers st))"

definition CountAdmins :: "Console \<Rightarrow> int" where
  "CountAdmins st = int (length (filter (\<lambda>u. cuRole u = RoleAdmin) (coUsers st)))"

definition default_role :: "string \<Rightarrow> string" where
  "default_role role = (if role = [] then RoleOperator else role)"

definition console_CreateUser ::
  "int \<Rightarrow> string \<Rightarrow> string \<Rightarrow> bool \<Rightarrow> string \<Rightarrow> Console \<Rightarrow> (console_err + ConsoleUser) \<times> Console" where
  "console_CreateUser now name hash isset role st =
     (if row_find cuUsername name (coUsers st) \<noteq> None then (Inl Console_Unique, st)
      else let uid = coUserSeq st + 1;
               st' = st\<lparr> coUserSeq := uid, coUsers := coUsers st @
                 [\<lparr> cuID = uid, cuUsername = name, cuPasswordHash = hash, cuPasswordSet = isset,
                    cuRole = default_role role, cuCreatedAt = now \<rparr>] \<rparr>
           in (GetByUsername name st', st'))"

definition UpdateUser :: "int \<Rightarrow> string \<Rightarrow> string \<Rightarrow> Console \<Rightarrow> Console" where
  "UpdateUser uid role hash st =
     st\<lparr> coUsers := row_update cuID uid
       (\<lambda>u. if hash \<noteq> [] then u\<lparr> cuRole := default_role role, cuPasswordHash := hash, cuPasswordSet := True \<rparr>
            else u\<lparr> cuRole := default_role role \<rparr>) (coUsers st) \<rparr>"

definition console_DeleteUser :: "int \<Rightarrow> Console \<Rightarrow> (console_err + unit) \<times> Console" where
  "console_DeleteUser uid st =
     (if row_find cuID uid (coUsers st) = None then (Inl Console_Not_Found, st)
      else (Inr (), st\<lparr> coUsers := row_delete cuID uid (coUsers st) \<rparr>))"

definition SetPassword :: "string \<Rightarrow> string \<Rightarrow> Console \<Rightarrow> Console" where
  "SetPassword name hash st =
     st\<lparr> coUsers := row_update cuUsername name (\<lambda>u. u\<lparr> cuPasswordHash := hash, cuPasswordSet := True \<rparr>) (coUsers st) \<rparr>"

definition CreateEnvUser :: "int \<Rightarrow> string \<Rightarrow> string \<Rightarrow> Console \<Rightarrow> (console_err + bool) \<times> Console" where
  "CreateEnvUser now name hash st =
     (case GetByUsername name st of
        Inr _ \<Rightarrow> (Inr False, st)
      | Inl _ \<Rightarrow>
         (case console_CreateUser now name hash True RoleAdmin st of
            (Inl e, st') \<Rightarrow> (Inl e, st')
          | (Inr _, st') \<Rightarrow> (Inr True, st')))"

section \<open>Settings\<close>

definition console_GetSetting :: "string \<Rightarrow> Console \<Rightarrow> console_err + string" where
  "console_GetSetting k st = (case map_of (coSettings st) k of None \<Rightarrow> Inl Console_Not_Found | Some v \<Rightarrow> Inr v)"

definition GetSettings :: "Console \<Rightarrow> (string \<times> string) list" where
  "GetSettings st = coSettings st"

definition console_SetSetting :: "string \<Rightarrow> string \<Rightarrow> Console \<Rightarrow> Console" where
  "console_SetSetting k v st = st\<lparr> coSettings := AList.update k v (coSettings st) \<rparr>"

definition SeedSettingOnce :: "string \<Rightarrow> string \<Rightarrow> Console \<Rightarrow> Console" where
  "SeedSettingOnce k v st =
     (case console_GetSetting k st of Inr _ \<Rightarrow> st | Inl _ \<Rightarrow> console_SetSetting k v st)"

section \<open>Invariant\<close>

definition console_inv :: "Console \<Rightarrow> bool" where
  "console_inv st \<longleftrightarrow> unique_key cuUsername (coUsers st) \<and> unique_key cuID (coUsers st) \<and>
     list_all (\<lambda>u. cuID u \<le> coUserSeq st) (coUsers st)"

lemma console_fresh_id: "console_inv st \<Longrightarrow> row_find cuID (coUserSeq st + 1) (coUsers st) = None"
  by (auto simp: console_inv_def row_find_None list_all_iff)

lemma console_CreateUser_inv [inv_intros]:
  assumes "console_inv st"
  shows "console_inv (snd (console_CreateUser now n h p r st))"
proof -
  have "list_all (\<lambda>u. cuID u \<le> coUserSeq st + 1) (coUsers st)"
    using assms by (auto simp: console_inv_def list_all_iff)
  then show ?thesis
    using assms console_fresh_id [OF assms]
    by (simp add: console_inv_def console_CreateUser_def Let_def tbl_simps)
qed

lemma UpdateUser_inv [inv_intros]: "console_inv st \<Longrightarrow> console_inv (UpdateUser i r h st)"
  by (auto simp: console_inv_def UpdateUser_def tbl_simps intro!: all_row_update)

lemma SetPassword_inv [inv_intros]: "console_inv st \<Longrightarrow> console_inv (SetPassword n h st)"
  by (auto simp: console_inv_def SetPassword_def tbl_simps intro!: all_row_update)

lemma console_row_delete_inv:
  "console_inv st \<Longrightarrow> console_inv (st\<lparr> coUsers := row_delete cuID i (coUsers st) \<rparr>)"
  by (simp add: console_inv_def tbl_simps) (auto simp: row_delete_def all_filter)

lemma console_DeleteUser_inv [inv_intros]: "console_inv st \<Longrightarrow> console_inv (snd (console_DeleteUser i st))"
  by (simp add: console_DeleteUser_def console_row_delete_inv)

lemma console_SetSetting_inv [inv_intros]: "console_inv st \<Longrightarrow> console_inv (console_SetSetting k v st)"
  by (simp add: console_inv_def console_SetSetting_def)

lemma CreateEnvUser_inv [inv_intros]: "console_inv st \<Longrightarrow> console_inv (snd (CreateEnvUser now n h st))"
  using console_CreateUser_inv [of st now n h True RoleAdmin]
  by (auto simp: CreateEnvUser_def split: sum.splits prod.splits)

lemma console_CreateUser_ok:
  "row_find cuUsername n (coUsers st) = None \<Longrightarrow>
     \<exists>u st'. console_CreateUser now n h p r st = (Inr u, st') \<and> row_find cuUsername n (coUsers st') = Some u \<and>
       cuUsername u = n \<and> cuPasswordHash u = h \<and> cuPasswordSet u = p \<and> cuRole u = default_role r"
  by (simp add: console_CreateUser_def Let_def GetByUsername_def tbl_simps)

text \<open>The locale of tables of named rows, for the accounts.\<close>

lemma console_lookup_delete:
  assumes "console_inv st" "row_find cuUsername n (coUsers st) = Some u"
  shows "row_find cuUsername m (row_delete cuID (cuID u) (coUsers st)) =
    (if m = n then None else row_find cuUsername m (coUsers st))"
proof -
  have u: "u \<in> set (coUsers st)" "cuUsername u = n" using row_find_SomeD [OF assms(2)] by auto
  have "row_delete cuID (cuID u) (coUsers st) = row_delete cuUsername n (coUsers st)"
    unfolding row_delete_def
  proof (rule filter_cong [OF refl])
    fix r assume r: "r \<in> set (coUsers st)"
    have "cuID r = cuID u \<longleftrightarrow> r = u" "cuUsername r = cuUsername u \<longleftrightarrow> r = u"
      using assms(1) r u(1) by (auto simp: console_inv_def unique_key_def distinct_map dest: inj_onD)
    then show "(cuID r \<noteq> cuID u) = (cuUsername r \<noteq> n)" using u(2) by simp
  qed
  then show ?thesis by (simp add: row_find_delete)
qed

end
