(* ===== verification/Console_Session.thy ===== *)
theory Console_Session
  imports Console_Store Auth
begin

text \<open>
  Who may use the operator console: its signed session cookies and the two gates in front of every
  route (\<^verbatim>\<open>internal/ui/middleware/session.go\<close>), sign in, first setup and sign out
  (\<^verbatim>\<open>controllers/auth.go\<close>), and the seeding of the first account (\<^verbatim>\<open>ui.go\<close>).

  HMAC-SHA256, bcrypt, the JSON library, the translation tables and the reader of timestamps are
  parameters of the console; base64 is written out.  A
  reply is its status, headers, cookie and the data of the page it renders.
\<close>

section \<open>Decoding base64\<close>

text \<open>\<^verbatim>\<open>base64.RawURLEncoding\<close>: line breaks are skipped, left-over bits ignored.\<close>

definition b64_val :: "char \<Rightarrow> nat option" where
  "b64_val c =
     (let n = of_char c :: nat in
      if 65 \<le> n \<and> n \<le> 90 then Some (n - 65)
      else if 97 \<le> n \<and> n \<le> 122 then Some (n - 71)
      else if 48 \<le> n \<and> n \<le> 57 then Some (n + 4)
      else if n = 45 then Some 62 else if n = 95 then Some 63 else None)"

fun b64_join :: "nat list \<Rightarrow> string option" where
  "b64_join [] = Some []"
| "b64_join [a] = None"
| "b64_join [a, b] = Some [char_of ((a * 262144 + b * 4096) div 65536)]"
| "b64_join [a, b, c] =
     (let n = a * 262144 + b * 4096 + c * 64 in Some [char_of (n div 65536), char_of (n div 256)])"
| "b64_join (a # b # c # d # r) =
     (let n = a * 262144 + b * 4096 + c * 64 + d
      in map_option (\<lambda>s. char_of (n div 65536) # char_of (n div 256) # char_of n # s) (b64_join r))"

fun b64_vals :: "string \<Rightarrow> nat list option" where
  "b64_vals [] = Some []"
| "b64_vals (c # cs) =
     (if c = CHR 0x0A \<or> c = CHR 0x0D then b64_vals cs
      else (case b64_val c of
              None \<Rightarrow> None
            | Some v \<Rightarrow> map_option ((#) v) (b64_vals cs)))"

definition b64url_decode :: "string \<Rightarrow> string option" where
  "b64url_decode s = Option.bind (b64_vals s) b64_join"

section \<open>Session cookies\<close>

record Session =
  seUsername :: string
  seExp :: int

record console_env =
  ceSecret :: string
  ceHmac :: "string \<Rightarrow> string \<Rightarrow> string"
  ceMarshal :: "Session \<Rightarrow> string"
  ceUnmarshal :: "string \<Rightarrow> Session option"
  ceHash :: "string \<Rightarrow> string option"
  ceCompare :: "string \<Rightarrow> string \<Rightarrow> bool"
  ceLoginDisabled :: bool
  ceVersion :: string
  ceUnique :: string
  ceEnvAPI :: string
  ceEnvToken :: string
  ceDomain :: string
  ceSteps :: "string \<Rightarrow> string list option"
  cePreview :: "(string \<times> string) list \<Rightarrow> string"
  ceTranslate :: "string \<Rightarrow> string"
  ceTime :: "string \<Rightarrow> int option"

definition sign :: "console_env \<Rightarrow> Session \<Rightarrow> string" where
  "sign e s =
     (let body = b64url_encode (ceMarshal e s)
      in body @ ''.'' @ b64url_encode (ceHmac e (ceSecret e) body))"

definition Verify :: "console_env \<Rightarrow> int \<Rightarrow> string \<Rightarrow> Session option" where
  "Verify e now v =
     (if v = [] then None
      else (case split_at (CHR ''.'') v of
              [body, sig] \<Rightarrow>
                (case b64url_decode sig of
                   None \<Rightarrow> None
                 | Some got \<Rightarrow>
                     if got \<noteq> ceHmac e (ceSecret e) body then None
                     else (case b64url_decode body of
                             None \<Rightarrow> None
                           | Some raw \<Rightarrow>
                               (case ceUnmarshal e raw of
                                  None \<Rightarrow> None
                                | Some s \<Rightarrow> if now > seExp s then None else Some s)))
            | _ \<Rightarrow> None))"

section \<open>Requests and replies\<close>

text \<open>\<^verbatim>\<open>uqBase\<close> and \<^verbatim>\<open>uqTok\<close> say where the client that all requests share points when this one arrives:
  most handlers set it before they call, some take it as another request left it.\<close>

record ui_request =
  uqMethod :: string
  uqPath :: "string list"
  uqHX :: bool
  uqQuery :: "(string \<times> string) list"
  uqForm :: "(string \<times> string) list"
  uqCookie :: "string option"
  uqNow :: int
  uqBase :: string
  uqTok :: string

definition PostForm :: "string \<Rightarrow> ui_request \<Rightarrow> string" where
  "PostForm k rq = (case map_of (uqForm rq) k of Some v \<Rightarrow> v | None \<Rightarrow> [])"

definition UrlQuery :: "string \<Rightarrow> ui_request \<Rightarrow> string" where
  "UrlQuery k rq = (case map_of (uqQuery rq) k of Some v \<Rightarrow> v | None \<Rightarrow> [])"

datatype ui_cookie = No_Cookie | Issue string int | Clear

record 'p ui_reply =
  uiStatus :: int
  uiHeaders :: "(string \<times> string) list"
  uiCookie :: ui_cookie
  uiPage :: "'p option"

definition fragment :: "'p \<Rightarrow> 'p ui_reply" where
  "fragment p = \<lparr> uiStatus = 200, uiHeaders = [], uiCookie = No_Cookie, uiPage = Some p \<rparr>"

definition WebBase :: string where "WebBase = ''/web''"

definition sessionTTL :: int where "sessionTTL = 7 * 24 * 3600"

definition SetCookie :: "console_env \<Rightarrow> int \<Rightarrow> string \<Rightarrow> int \<Rightarrow> ui_cookie" where
  "SetCookie e now name ttl = Issue (sign e \<lparr> seUsername = name, seExp = now + ttl \<rparr>) ttl"

text \<open>The redirect of the gate answers htmx with 401, the one of the controllers with 200.\<close>

definition gate_redirect :: "ui_request \<Rightarrow> string \<Rightarrow> 'p ui_reply" where
  "gate_redirect rq to =
     (if uqHX rq then \<lparr> uiStatus = 401, uiHeaders = [(''HX-Redirect'', to)], uiCookie = No_Cookie, uiPage = None \<rparr>
      else \<lparr> uiStatus = 302, uiHeaders = [(''Location'', to)], uiCookie = No_Cookie, uiPage = None \<rparr>)"

definition redirect :: "ui_request \<Rightarrow> string \<Rightarrow> 'p ui_reply" where
  "redirect rq to =
     (if uqHX rq then \<lparr> uiStatus = 200, uiHeaders = [(''HX-Redirect'', to)], uiCookie = No_Cookie, uiPage = None \<rparr>
      else \<lparr> uiStatus = 302, uiHeaders = [(''Location'', to)], uiCookie = No_Cookie, uiPage = None \<rparr>)"

section \<open>The gates\<close>

definition NudgeSetup :: "Console \<Rightarrow> bool" where
  "NudgeSetup st =
     (if console_CountUsers st = 0 then True
      else (case FirstUser st of Inl _ \<Rightarrow> False | Inr fu \<Rightarrow> \<not> cuPasswordSet fu))"

definition target :: "console_env \<Rightarrow> Console \<Rightarrow> string" where
  "target e st =
     (if ceLoginDisabled e then WebBase @ ''/''
      else if NudgeSetup st then WebBase @ ''/setup''
      else WebBase @ ''/login'')"

definition synthetic_admin :: ConsoleUser where
  "synthetic_admin = \<lparr> cuID = 1, cuUsername = ''admin'', cuPasswordHash = [], cuPasswordSet = True,
     cuRole = RoleAdmin, cuCreatedAt = 0 \<rparr>"

definition Require :: "console_env \<Rightarrow> ui_request \<Rightarrow> Console \<Rightarrow> 'p ui_reply + ConsoleUser" where
  "Require e rq st =
     (if ceLoginDisabled e then Inr synthetic_admin
      else (case uqCookie rq of
              None \<Rightarrow> Inl (gate_redirect rq (target e st))
            | Some ck \<Rightarrow>
               (case Verify e (uqNow rq) ck of
                  None \<Rightarrow> Inl (gate_redirect rq (target e st))
                | Some s \<Rightarrow>
                   (case GetByUsername (seUsername s) st of
                      Inl _ \<Rightarrow> Inl (gate_redirect rq (target e st))
                    | Inr u \<Rightarrow>
                        if \<not> cuPasswordSet u \<and> NudgeSetup st then Inl (gate_redirect rq (WebBase @ ''/setup''))
                        else Inr u))))"

definition roleRank :: "string \<Rightarrow> nat" where
  "roleRank role =
     (if role = RoleAdmin then 3 else if role = RoleOperator then 2 else if role = RoleViewer then 1 else 1)"

definition RequireRole :: "string \<Rightarrow> ui_request \<Rightarrow> ConsoleUser \<Rightarrow> 'p ui_reply option" where
  "RequireRole minRole rq u =
     (if roleRank (cuRole u) < roleRank minRole
      then Some (if uqHX rq
             then \<lparr> uiStatus = 403, uiHeaders = [(''HX-Redirect'', WebBase @ ''/'')], uiCookie = No_Cookie, uiPage = None \<rparr>
             else \<lparr> uiStatus = 403, uiHeaders = [], uiCookie = No_Cookie, uiPage = None \<rparr>)
      else None)"

section \<open>Sign in, setup, sign out\<close>

record authPage =
  apName :: string
  apPageVersion :: string
  apFailure :: string
  apDetail :: string
  apUsername :: string
  apDone :: bool

definition auth_page :: "string \<Rightarrow> string \<Rightarrow> authPage" where
  "auth_page name version =
     \<lparr> apName = name, apPageVersion = version, apFailure = [], apDetail = [], apUsername = [], apDone = False \<rparr>"

definition needSetup :: "Console \<Rightarrow> console_err + bool" where
  "needSetup st =
     (if console_CountUsers st = 0 then Inr True
      else map_sum id (\<lambda>fu. \<not> cuPasswordSet fu) (FirstUser st))"

definition setup_open :: "Console \<Rightarrow> bool" where
  "setup_open st = (case needSetup st of Inl _ \<Rightarrow> False | Inr need \<Rightarrow> need)"

definition hashPassword :: "console_env \<Rightarrow> string \<Rightarrow> string" where
  "hashPassword e p = (case ceHash e p of None \<Rightarrow> [] | Some h \<Rightarrow> h)"

definition checkPassword :: "console_env \<Rightarrow> ConsoleUser \<Rightarrow> string \<Rightarrow> bool" where
  "checkPassword e u p = (if cuPasswordHash u = [] then False else ceCompare e (cuPasswordHash u) p)"

definition LoginPage :: "console_env \<Rightarrow> ui_request \<Rightarrow> authPage ui_reply" where
  "LoginPage e rq =
     (if ceLoginDisabled e then redirect rq (WebBase @ ''/'') else fragment (auth_page ''login'' (ceVersion e)))"

definition Login :: "console_env \<Rightarrow> ui_request \<Rightarrow> Console \<Rightarrow> authPage ui_reply" where
  "Login e rq st =
     (if ceLoginDisabled e then redirect rq (WebBase @ ''/'')
      else let refused = fragment (auth_page ''login'' (ceVersion e)\<lparr> apFailure := ''auth.bad_credentials'' \<rparr>) in
        (case GetByUsername (PostForm ''username'' rq) st of
           Inl _ \<Rightarrow> refused
         | Inr u \<Rightarrow>
             if \<not> cuPasswordSet u \<or> \<not> checkPassword e u (PostForm ''password'' rq) then refused
             else redirect rq (WebBase @ ''/'')\<lparr> uiCookie := SetCookie e (uqNow rq) (cuUsername u) sessionTTL \<rparr>))"

definition SetupPage :: "console_env \<Rightarrow> ui_request \<Rightarrow> Console \<Rightarrow> authPage ui_reply" where
  "SetupPage e rq st =
     (if ceLoginDisabled e then redirect rq (WebBase @ ''/'')
      else if \<not> setup_open st then redirect rq (WebBase @ ''/login'')
      else fragment (auth_page ''setup'' []))"

definition validateNewAdmin :: "string \<Rightarrow> string \<Rightarrow> string \<Rightarrow> string option" where
  "validateNewAdmin name password confirm =
     (if name = [] then Some ''auth.err.username_required''
      else if length password < 8 then Some ''auth.err.password_short''
      else if password \<noteq> confirm then Some ''auth.err.password_mismatch''
      else None)"

definition console_text :: "console_env \<Rightarrow> console_err \<Rightarrow> string" where
  "console_text e err = (case err of Console_Not_Found \<Rightarrow> ''not found'' | Console_Unique \<Rightarrow> ceUnique e)"

definition Setup :: "console_env \<Rightarrow> ui_request \<Rightarrow> Console \<Rightarrow> authPage ui_reply \<times> Console" where
  "Setup e rq st =
     (if ceLoginDisabled e then (redirect rq (WebBase @ ''/''), st)
      else if \<not> setup_open st then (redirect rq (WebBase @ ''/login''), st)
      else let uname = trim_space (PostForm ''username'' rq); pass = PostForm ''password'' rq;
               pg = auth_page ''setup'' (ceVersion e)\<lparr> apUsername := uname \<rparr> in
        (case validateNewAdmin uname pass (PostForm ''confirm'' rq) of
           Some key \<Rightarrow> (fragment (pg\<lparr> apFailure := key \<rparr>), st)
         | None \<Rightarrow>
            (case console_CreateUser (uqNow rq) uname (hashPassword e pass) True RoleAdmin st of
               (Inl err, st') \<Rightarrow>
                 (fragment (pg\<lparr> apFailure := ''auth.err.create_failed'', apDetail := console_text e err \<rparr>), st')
             | (Inr _, st') \<Rightarrow>
                 (fragment (pg\<lparr> apDone := True \<rparr>)\<lparr> uiCookie := SetCookie e (uqNow rq) uname sessionTTL \<rparr>, st'))))"

definition Logout :: "console_env \<Rightarrow> ui_request \<Rightarrow> authPage ui_reply" where
  "Logout e rq =
     (redirect rq (if ceLoginDisabled e then WebBase @ ''/'' else WebBase @ ''/login''))\<lparr> uiCookie := Clear \<rparr>"

section \<open>Seeding\<close>

definition bootstrapUsers ::
  "console_env \<Rightarrow> int \<Rightarrow> string \<Rightarrow> string \<Rightarrow> Console \<Rightarrow> (console_err option + unit) \<times> Console" where
  "bootstrapUsers e now envUser envPass st =
     (if ceLoginDisabled e then (Inr (), st)
      else if envUser \<noteq> [] \<and> envPass \<noteq> [] then
        (case ceHash e envPass of
           None \<Rightarrow> (Inl None, st)
         | Some h \<Rightarrow>
            (case CreateEnvUser now envUser h st of
               (Inl err, st') \<Rightarrow> (Inl (Some err), st')
             | (Inr _, st') \<Rightarrow> (Inr (), st')))
      else (Inr (), st))"

text \<open>What \<^verbatim>\<open>NewApp\<close> does to the store before it serves.\<close>

definition NewApp ::
  "console_env \<Rightarrow> int \<Rightarrow> string \<Rightarrow> string \<Rightarrow> Console \<Rightarrow> (console_err option + unit) \<times> Console" where
  "NewApp e now envUser envPass st =
     (let st1 = (if ceEnvToken e \<noteq> [] then SeedSettingOnce KeyToken (ceEnvToken e) st else st);
          st2 = (if ceEnvAPI e \<noteq> [] then SeedSettingOnce KeyAPIURL (ceEnvAPI e) st1 else st1)
      in bootstrapUsers e now envUser envPass st2)"

end
