(* ===== verification/Console_Users.thy ===== *)
theory Console_Users
  imports Console_Session
begin

text \<open>
  The accounts page of the console (\<^verbatim>\<open>controllers/users.go\<close>): the table with its guards, the forms, and
  the creation, change and removal of accounts by a signed-in administrator.  The fields \<^verbatim>\<open>Error\<close> that
  no handler sets are left out, and the id of a form whose id does not parse is shown as zero; \<^verbatim>\<open>CountAdmins\<close> and \<^verbatim>\<open>ListUsers\<close> only fail when SQLite does.
\<close>

section \<open>Page models\<close>

definition roleOptions :: "string list" where
  "roleOptions = [RoleAdmin, RoleOperator, RoleViewer]"

definition minPasswordLen :: nat where "minPasswordLen = 8"

definition validRole :: "string \<Rightarrow> bool" where
  "validRole r \<longleftrightarrow> list_ex (\<lambda>v. r = v) roleOptions"

record userRow =
  rwID :: int
  rwUsername :: string
  rwRole :: string
  rwCreatedAt :: int
  rwIsSelf :: bool
  rwRoleLocked :: bool
  rwCanDelete :: bool
  rwDeleteBlockKey :: string

record usersData =
  udRows :: "userRow list"
  udCount :: int
  udKnown :: bool
  udErrKey :: string
  udErrRaw :: string
  udMsgKey :: string
  udMsgArg :: string
  udMsgArg2 :: string
  udCurrent :: string
  udDisabled :: bool

record userFormData =
  ufTitleKey :: string
  ufSubKey :: string
  ufUsername :: string
  ufRole :: string
  ufRoles :: "string list"
  ufIsEdit :: bool
  ufID :: int
  ufRoleLocked :: bool
  ufAction :: string
  ufErrKey :: string
  ufErrRaw :: string

datatype users_page = Users_Table usersData | User_Form userFormData

definition empty_users :: "bool \<Rightarrow> usersData" where
  "empty_users disabled = \<lparr> udRows = [], udCount = 0, udKnown = False, udErrKey = [], udErrRaw = [], udMsgKey = [],
     udMsgArg = [], udMsgArg2 = [], udCurrent = [], udDisabled = disabled \<rparr>"

definition new_form :: userFormData where
  "new_form = \<lparr> ufTitleKey = ''users.form_new_title'', ufSubKey = ''users.form_new_sub'', ufUsername = [],
     ufRole = [], ufRoles = roleOptions, ufIsEdit = False, ufID = 0, ufRoleLocked = False,
     ufAction = WebBase @ ''/users/add'', ufErrKey = [], ufErrRaw = [] \<rparr>"

definition edit_form :: userFormData where
  "edit_form = \<lparr> ufTitleKey = ''users.form_edit_title'', ufSubKey = ''users.form_edit_sub'', ufUsername = [],
     ufRole = [], ufRoles = roleOptions, ufIsEdit = True, ufID = 0, ufRoleLocked = False,
     ufAction = WebBase @ ''/users/edit'', ufErrKey = [], ufErrRaw = [] \<rparr>"

definition rowFor :: "string \<Rightarrow> int \<Rightarrow> ConsoleUser \<Rightarrow> userRow" where
  "rowFor me admins u =
     (let r = \<lparr> rwID = cuID u, rwUsername = cuUsername u, rwRole = cuRole u, rwCreatedAt = cuCreatedAt u,
                rwIsSelf = (me \<noteq> [] \<and> cuUsername u = me), rwRoleLocked = False, rwCanDelete = False,
                rwDeleteBlockKey = [] \<rparr>
      in if rwIsSelf r then r\<lparr> rwRoleLocked := True, rwDeleteBlockKey := ''users.self_delete_blocked'' \<rparr>
         else if cuRole u = RoleAdmin \<and> admins \<le> 1
         then r\<lparr> rwRoleLocked := True, rwDeleteBlockKey := ''users.last_admin_blocked'' \<rparr>
         else if cuRole u = RoleAdmin then r\<lparr> rwDeleteBlockKey := ''users.err_admin_required'' \<rparr>
         else r\<lparr> rwCanDelete := True \<rparr>)"

definition rowsFor :: "ConsoleUser list \<Rightarrow> string \<Rightarrow> int \<Rightarrow> userRow list" where
  "rowsFor users me admins = map (rowFor me admins) users"

definition users_page :: "Console \<Rightarrow> string \<Rightarrow> usersData \<Rightarrow> usersData" where
  "users_page st me d =
     (let users = console_ListUsers st in
      d\<lparr> udCurrent := me, udRows := rowsFor users me (CountAdmins st), udCount := int (length users),
         udKnown := True \<rparr>)"

text \<open>A refused form goes back into the modal with status 422.\<close>

definition userFormError :: "userFormData \<Rightarrow> users_page ui_reply" where
  "userFormError d = \<lparr> uiStatus = 422, uiHeaders = [(''HX-Retarget'', ''#modal-body'')], uiCookie = No_Cookie,
     uiPage = Some (User_Form d) \<rparr>"

section \<open>Handlers\<close>

text \<open>\<^verbatim>\<open>me\<close> is the user the gate put into the context.\<close>

definition Users_List :: "console_env \<Rightarrow> ConsoleUser \<Rightarrow> Console \<Rightarrow> users_page ui_reply" where
  "Users_List e me st = fragment (Users_Table (users_page st (cuUsername me) (empty_users (ceLoginDisabled e))))"

definition Users_New :: "users_page ui_reply" where
  "Users_New = fragment (User_Form (new_form\<lparr> ufRole := RoleOperator \<rparr>))"

definition Users_Edit :: "console_env \<Rightarrow> ConsoleUser \<Rightarrow> string \<Rightarrow> Console \<Rightarrow> users_page ui_reply" where
  "Users_Edit e me idParam st =
     (case parse_int64 idParam of
        None \<Rightarrow> userFormError (edit_form\<lparr> ufErrKey := ''users.err_bad_id'' \<rparr>)
      | Some i \<Rightarrow>
         (case GetByID i st of
            Inl err \<Rightarrow> userFormError (edit_form\<lparr> ufID := i, ufErrKey := ''users.err_not_found'',
                          ufErrRaw := console_text e err \<rparr>)
          | Inr u \<Rightarrow>
              fragment (User_Form (edit_form\<lparr> ufID := i, ufUsername := cuUsername u, ufRole := cuRole u,
                ufRoleLocked := (cuRole u = RoleAdmin \<and> CountAdmins st \<le> 1) \<or>
                  (cuUsername me \<noteq> [] \<and> cuUsername me = cuUsername u) \<rparr>))))"

definition Users_Create ::
  "console_env \<Rightarrow> ConsoleUser \<Rightarrow> ui_request \<Rightarrow> Console \<Rightarrow> users_page ui_reply \<times> Console" where
  "Users_Create e me rq st =
     (let uname = PostForm ''username'' rq; role = PostForm ''role'' rq; pass = PostForm ''password'' rq;
          d = new_form\<lparr> ufUsername := uname, ufRole := role \<rparr>
      in if uname = [] then (userFormError (d\<lparr> ufErrKey := ''users.err_username'' \<rparr>), st)
         else if length pass < minPasswordLen then (userFormError (d\<lparr> ufErrKey := ''users.err_password_short'' \<rparr>), st)
         else if \<not> validRole role then (userFormError (d\<lparr> ufErrKey := ''users.err_role'' \<rparr>), st)
         else (case console_CreateUser (uqNow rq) uname (hashPassword e pass) True role st of
                 (Inl err, st') \<Rightarrow>
                   (userFormError (d\<lparr> ufErrKey := ''users.err_save'', ufErrRaw := console_text e err \<rparr>), st')
               | (Inr _, st') \<Rightarrow>
                   (fragment (Users_Table ((users_page st' (cuUsername me) (empty_users (ceLoginDisabled e)))
                      \<lparr> udMsgKey := ''users.msg_created'', udMsgArg := uname, udMsgArg2 := role \<rparr>)), st')))"

definition Users_EditSave ::
  "console_env \<Rightarrow> ConsoleUser \<Rightarrow> ui_request \<Rightarrow> Console \<Rightarrow> users_page ui_reply \<times> Console" where
  "Users_EditSave e me rq st =
     (let role = PostForm ''role'' rq; pass = PostForm ''password'' rq; d = edit_form\<lparr> ufRole := role \<rparr> in
      case parse_int64 (PostForm ''id'' rq) of
        None \<Rightarrow> (userFormError (d\<lparr> ufErrKey := ''users.err_bad_id'' \<rparr>), st)
      | Some i \<Rightarrow>
         (case GetByID i st of
            Inl err \<Rightarrow>
              (userFormError (d\<lparr> ufID := i, ufErrKey := ''users.err_not_found'', ufErrRaw := console_text e err \<rparr>), st)
          | Inr u \<Rightarrow>
              (let du = d\<lparr> ufID := i, ufUsername := cuUsername u \<rparr> in
               if \<not> validRole role then (userFormError (du\<lparr> ufErrKey := ''users.err_role'' \<rparr>), st)
               else if cuUsername me = cuUsername u \<and> role \<noteq> RoleAdmin
               then (userFormError (du\<lparr> ufErrKey := ''users.err_self_demote'', ufRole := cuRole u,
                       ufRoleLocked := True \<rparr>), st)
               else if length pass > 0 \<and> length pass < minPasswordLen
               then (userFormError (du\<lparr> ufErrKey := ''users.err_password_short'' \<rparr>), st)
               else (let hash = (if pass \<noteq> [] then hashPassword e pass else []);
                         st' = UpdateUser i role hash st
                     in (fragment (Users_Table ((users_page st' (cuUsername me) (empty_users (ceLoginDisabled e)))
                           \<lparr> udMsgKey := ''users.msg_updated'', udMsgArg := cuUsername u \<rparr>)), st')))))"

definition Users_Remove ::
  "console_env \<Rightarrow> ConsoleUser \<Rightarrow> string \<Rightarrow> Console \<Rightarrow> users_page ui_reply \<times> Console" where
  "Users_Remove e me idParam st =
     (let d0 = empty_users (ceLoginDisabled e);
          (d, st') =
            (case parse_int64 idParam of
               None \<Rightarrow> (d0\<lparr> udErrKey := ''users.err_bad_id'' \<rparr>, st)
             | Some i \<Rightarrow>
                (case GetByID i st of
                   Inl err \<Rightarrow> (d0\<lparr> udErrKey := ''users.err_not_found'', udErrRaw := console_text e err \<rparr>, st)
                 | Inr u \<Rightarrow>
                     if cuUsername me = cuUsername u then (d0\<lparr> udErrKey := ''users.err_self_delete'' \<rparr>, st)
                     else if cuRole u = RoleAdmin
                     then (if CountAdmins st \<le> 1 then (d0\<lparr> udErrKey := ''users.err_last_admin'' \<rparr>, st)
                           else (d0\<lparr> udErrKey := ''users.err_admin_required'' \<rparr>, st))
                     else (case console_DeleteUser i st of
                             (Inl err, s) \<Rightarrow> (d0\<lparr> udErrKey := ''users.err_delete'', udErrRaw := console_text e err \<rparr>, s)
                           | (Inr _, s) \<Rightarrow> (d0\<lparr> udMsgKey := ''users.msg_deleted'', udMsgArg := cuUsername u \<rparr>, s))))
      in (fragment (Users_Table (users_page st' (cuUsername me) d)), st'))"

section \<open>What the handlers leave\<close>

lemma Users_Create_inv [inv_intros]: "console_inv st \<Longrightarrow> console_inv (snd (Users_Create e me rq st))"
  using console_CreateUser_inv [of st "uqNow rq" "PostForm ''username'' rq" "hashPassword e (PostForm ''password'' rq)"
      True "PostForm ''role'' rq"]
  by (auto simp: Users_Create_def Let_def split: prod.splits sum.splits)

lemma Users_EditSave_inv [inv_intros]: "console_inv st \<Longrightarrow> console_inv (snd (Users_EditSave e me rq st))"
  by (auto simp: Users_EditSave_def Let_def UpdateUser_inv split: option.splits sum.splits)

lemma Users_Remove_store:
  "snd (Users_Remove e me p st) =
     (case parse_int64 p of
        None \<Rightarrow> st
      | Some i \<Rightarrow>
         (case row_find cuID i (coUsers st) of
            None \<Rightarrow> st
          | Some u \<Rightarrow> if cuUsername me = cuUsername u \<or> cuRole u = RoleAdmin then st
                      else st\<lparr> coUsers := row_delete cuID i (coUsers st) \<rparr>))"
  by (auto simp: Users_Remove_def Let_def GetByID_def console_DeleteUser_def split: option.splits prod.splits)

lemma Users_Remove_inv [inv_intros]: "console_inv st \<Longrightarrow> console_inv (snd (Users_Remove e me p st))"
  by (auto simp: Users_Remove_store console_row_delete_inv split: option.splits)

lemma Users_EditSave_store:
  "snd (Users_EditSave e me rq st) =
     (case parse_int64 (PostForm ''id'' rq) of
        None \<Rightarrow> st
      | Some i \<Rightarrow>
         (case row_find cuID i (coUsers st) of
            None \<Rightarrow> st
          | Some u \<Rightarrow>
              if \<not> validRole (PostForm ''role'' rq) \<or>
                 cuUsername me = cuUsername u \<and> PostForm ''role'' rq \<noteq> RoleAdmin \<or>
                 PostForm ''password'' rq \<noteq> [] \<and> length (PostForm ''password'' rq) < minPasswordLen then st
              else UpdateUser i (PostForm ''role'' rq)
                (if PostForm ''password'' rq \<noteq> [] then hashPassword e (PostForm ''password'' rq) else []) st))"
  by (auto simp: Users_EditSave_def Let_def GetByID_def split: option.splits)

end
