(* ===== verification/Console_Api.thy ===== *)
theory Console_Api
  imports Console_Users Api_Services
begin

text \<open>
  The console's client of the daemon (\<^verbatim>\<open>internal/ui/pmapi\<close>) for configs, secrets, keys, settings and the
  rendered documents, and the part of the controllers that decides which daemon it talks to
  (\<^verbatim>\<open>controllers/base.go\<close>).  \<^verbatim>\<open>net\<close> gives the daemon that answers at a base URL to a bearer token, as in
  the remote adapters; failures of the transport are left out.
\<close>

section \<open>The client\<close>

datatype pm_err = Pm_Error int string | Pm_Decode

type_synonym 's net = "string \<Rightarrow> string \<Rightarrow> 's server"

record pm_client =
  pcBase :: string
  pcTok :: string

definition trim_slashes :: "string \<Rightarrow> string" where
  "trim_slashes s = List.rev (dropWhile (\<lambda>c. c = CHR ''/'') (List.rev s))"

definition pm_text :: "pm_err \<Rightarrow> string" where
  "pm_text e =
     (case e of Pm_Error st body \<Rightarrow> ''pmcluster API '' @ itoa st @ '': '' @ body
      | Pm_Decode \<Rightarrow> ''json: cannot unmarshal'')"

definition pm_do ::
  "'s server \<Rightarrow> string \<Rightarrow> string list \<Rightarrow> (string \<times> string) list \<Rightarrow> json option \<Rightarrow>
     (json \<Rightarrow> 'a option) \<Rightarrow> 's \<Rightarrow> (pm_err + 'a) \<times> 's" where
  "pm_do srv m p q inp get s =
     (case srv \<lparr> rqMethod = m, rqPath = p, rqQuery = q, rqBody = map_option Inr inp \<rparr> s of
        ((status, answer), s') \<Rightarrow>
          (if status < 200 \<or> 299 < status
           then Inl (Pm_Error status (case answer of Inl msg \<Rightarrow> error_text msg | Inr _ \<Rightarrow> []))
           else (case get (case answer of Inl msg \<Rightarrow> JObj [(''error'', JStr msg)] | Inr j \<Rightarrow> j) of
                   None \<Rightarrow> Inl Pm_Decode
                 | Some v \<Rightarrow> Inr v), s'))"

definition pm_unit ::
  "'s server \<Rightarrow> string \<Rightarrow> string list \<Rightarrow> json option \<Rightarrow> 's \<Rightarrow> (pm_err + unit) \<times> 's" where
  "pm_unit srv m p inp s = pm_do srv m p [] inp (\<lambda>_. Some ()) s"

section \<open>Models\<close>

text \<open>A config of the client is the daemon's row, its flag \<^verbatim>\<open>rendered\<close> apart.\<close>

definition pm_config :: "json \<Rightarrow> (Config \<times> bool) option" where
  "pm_config j = do { c \<leftarrow> config_dto j; r \<leftarrow> in_struct ''rendered'' as_bool j; Some (c, r) }"

definition pm_secret :: "json \<Rightarrow> Secret option" where
  "pm_secret j = secret_dto j"

definition pm_secret_value :: "json \<Rightarrow> (string \<times> string) option" where
  "pm_secret_value j = do { n \<leftarrow> in_struct ''name'' as_str j; v \<leftarrow> in_struct ''value'' as_str j; Some (n, v) }"

record UpdateSummary =
  usOTelConfig :: string
  usTraefikConfig :: string
  usCertSecret :: string
  usKeySecret :: string
  usEdgeConfig :: string
  usStacksDeployed :: "string list"

definition pm_summary :: "json \<Rightarrow> UpdateSummary option" where
  "pm_summary j0 = do {
     j \<leftarrow> as_struct j0;
     otel \<leftarrow> as_str (jfield ''otel_config'' j); tr \<leftarrow> as_str (jfield ''traefik_config'' j);
     cert \<leftarrow> as_str (jfield ''cert_secret'' j); key \<leftarrow> as_str (jfield ''key_secret'' j);
     edge \<leftarrow> as_str (jfield ''edge_config'' j); stacks \<leftarrow> as_list as_str (jfield ''stacks_deployed'' j);
     Some \<lparr> usOTelConfig = otel, usTraefikConfig = tr, usCertSecret = cert, usKeySecret = key,
       usEdgeConfig = edge, usStacksDeployed = stacks \<rparr> }"

section \<open>Calls\<close>

definition pm_ListAPIKeys :: "'s server \<Rightarrow> 's \<Rightarrow> (pm_err + APIKey list) \<times> 's" where
  "pm_ListAPIKeys srv s = pm_do srv ''GET'' [''api_keys''] [] None (in_struct ''keys'' (as_list key_dto)) s"

definition pm_CreateAPIKey :: "'s server \<Rightarrow> string \<Rightarrow> 's \<Rightarrow> (pm_err + int \<times> string \<times> string) \<times> 's" where
  "pm_CreateAPIKey srv name s = pm_do srv ''POST'' [''api_keys''] [] (Some (JObj [(''name'', JStr name)]))
     (\<lambda>j. do { i \<leftarrow> in_struct ''id'' as_int j; n \<leftarrow> in_struct ''name'' as_str j;
               t \<leftarrow> in_struct ''token'' as_str j; Some (i, n, t) }) s"

definition pm_DeleteAPIKey :: "'s server \<Rightarrow> int \<Rightarrow> 's \<Rightarrow> (pm_err + unit) \<times> 's" where
  "pm_DeleteAPIKey srv i s = pm_unit srv ''DELETE'' [''api_keys'', itoa i] None s"

definition pm_ListSecrets :: "'s server \<Rightarrow> string \<Rightarrow> string \<Rightarrow> 's \<Rightarrow> (pm_err + Secret list) \<times> 's" where
  "pm_ListSecrets srv scope stack s =
     pm_do srv ''GET'' [''secrets''] [(''scope'', scope), (''stack'', stack)] None
       (in_struct ''secrets'' (as_list pm_secret)) s"

definition pm_CreateSecret ::
  "'s server \<Rightarrow> string \<Rightarrow> string \<Rightarrow> string \<Rightarrow> string \<Rightarrow> 's \<Rightarrow> (pm_err + Secret) \<times> 's" where
  "pm_CreateSecret srv scope stack name v s =
     pm_do srv ''POST'' [''secrets''] []
       (Some (JObj [(''scope'', JStr scope), (''stack'', JStr stack), (''name'', JStr name), (''value'', JStr v)]))
       pm_secret s"

definition pm_UpdateSecret :: "'s server \<Rightarrow> string \<Rightarrow> string \<Rightarrow> 's \<Rightarrow> (pm_err + Secret) \<times> 's" where
  "pm_UpdateSecret srv name v s =
     pm_do srv ''PUT'' [''secrets'', name] [] (Some (JObj [(''value'', JStr v)])) pm_secret s"

definition pm_DeleteSecret :: "'s server \<Rightarrow> string \<Rightarrow> 's \<Rightarrow> (pm_err + unit) \<times> 's" where
  "pm_DeleteSecret srv name s = pm_unit srv ''DELETE'' [''secrets'', name] None s"

definition pm_RevealSecret :: "'s server \<Rightarrow> string \<Rightarrow> 's \<Rightarrow> (pm_err + string \<times> string) \<times> 's" where
  "pm_RevealSecret srv name s = pm_do srv ''GET'' [''secrets'', name, ''value''] [] None pm_secret_value s"

definition pm_ListConfigs ::
  "'s server \<Rightarrow> string \<Rightarrow> string \<Rightarrow> 's \<Rightarrow> (pm_err + (Config \<times> bool) list) \<times> 's" where
  "pm_ListConfigs srv scope stack s =
     pm_do srv ''GET'' [''configs''] [(''scope'', scope), (''stack'', stack)] None
       (in_struct ''configs'' (as_list pm_config)) s"

definition pm_GetConfig :: "'s server \<Rightarrow> string \<Rightarrow> 's \<Rightarrow> (pm_err + Config \<times> bool) \<times> 's" where
  "pm_GetConfig srv name s = pm_do srv ''GET'' [''configs'', name] [] None pm_config s"

definition pm_CreateConfig ::
  "'s server \<Rightarrow> string \<Rightarrow> string \<Rightarrow> string \<Rightarrow> string \<Rightarrow> string \<Rightarrow> 's \<Rightarrow> (pm_err + Config \<times> bool) \<times> 's" where
  "pm_CreateConfig srv scope stack name kind content s =
     pm_do srv ''POST'' [''configs''] []
       (Some (JObj [(''scope'', JStr scope), (''stack'', JStr stack), (''name'', JStr name),
                    (''kind'', JStr kind), (''content'', JStr content)])) pm_config s"

definition pm_UpdateConfig :: "'s server \<Rightarrow> string \<Rightarrow> string \<Rightarrow> 's \<Rightarrow> (pm_err + Config \<times> bool) \<times> 's" where
  "pm_UpdateConfig srv name content s =
     pm_do srv ''PUT'' [''configs'', name] [] (Some (JObj [(''content'', JStr content)])) pm_config s"

definition pm_DeleteConfig :: "'s server \<Rightarrow> string \<Rightarrow> 's \<Rightarrow> (pm_err + unit) \<times> 's" where
  "pm_DeleteConfig srv name s = pm_unit srv ''DELETE'' [''configs'', name] None s"

definition pm_ConfigVersions :: "'s server \<Rightarrow> string \<Rightarrow> 's \<Rightarrow> (pm_err + ConfigVersion list) \<times> 's" where
  "pm_ConfigVersions srv name s =
     pm_do srv ''GET'' [''configs'', name, ''versions''] [] None
       (in_struct ''versions'' (as_list config_version_dto)) s"

definition pm_RollbackConfig :: "'s server \<Rightarrow> string \<Rightarrow> int \<Rightarrow> 's \<Rightarrow> (pm_err + Config \<times> bool) \<times> 's" where
  "pm_RollbackConfig srv name vid s =
     pm_do srv ''POST'' [''configs'', name, ''rollback''] [] (Some (JObj [(''version_id'', JInt vid)])) pm_config s"

definition pm_TriggerUpdate :: "'s server \<Rightarrow> 's \<Rightarrow> (pm_err + UpdateSummary) \<times> 's" where
  "pm_TriggerUpdate srv s = pm_do srv ''POST'' [''update''] [] None pm_summary s"

definition pm_ListRenderedConfigs :: "'s server \<Rightarrow> 's \<Rightarrow> (pm_err + Config list) \<times> 's" where
  "pm_ListRenderedConfigs srv s =
     pm_do srv ''GET'' [''cluster'', ''rendered''] [] None (in_struct ''configs'' (as_list rendered_dto)) s"

definition pm_GetClusterSettings :: "'s server \<Rightarrow> 's \<Rightarrow> (pm_err + Settings) \<times> 's" where
  "pm_GetClusterSettings srv s =
     pm_do srv ''GET'' [''cluster'', ''settings''] [] None (in_struct ''settings'' as_settings) s"

definition pm_UpdateClusterSettings :: "'s server \<Rightarrow> Settings \<Rightarrow> 's \<Rightarrow> (pm_err + Settings) \<times> 's" where
  "pm_UpdateClusterSettings srv values s =
     pm_do srv ''PUT'' [''cluster'', ''settings''] [] (Some (settings_json values))
       (in_struct ''settings'' as_settings) s"

section \<open>Which daemon\<close>

definition loadParams :: "console_env \<Rightarrow> Console \<Rightarrow> string \<times> string \<times> bool" where
  "loadParams e st =
     (let cfg = GetSettings st;
          apiURL = (case map_of cfg KeyAPIURL of Some v \<Rightarrow> if v \<noteq> [] then v else ceEnvAPI e | None \<Rightarrow> ceEnvAPI e);
          token = (case map_of cfg KeyToken of Some v \<Rightarrow> if v \<noteq> [] then v else ceEnvToken e | None \<Rightarrow> ceEnvToken e)
      in (apiURL, token, apiURL \<noteq> [] \<and> token \<noteq> []))"

definition client_of :: "console_env \<Rightarrow> Console \<Rightarrow> pm_client" where
  "client_of e st = (let (apiURL, token, _) = loadParams e st in \<lparr> pcBase = trim_slashes apiURL, pcTok = token \<rparr>)"

definition api_of :: "'s net \<Rightarrow> console_env \<Rightarrow> Console \<Rightarrow> 's server" where
  "api_of net e st = (let c = client_of e st in net (pcBase c) (pcTok c))"

definition api_configured :: "console_env \<Rightarrow> Console \<Rightarrow> bool" where
  "api_configured e st = snd (snd (loadParams e st))"

end
