(* ===== verification/Console_Settings.thy ===== *)
theory Console_Settings
  imports Console_Api
begin

text \<open>
  The settings pages of the console (\<^verbatim>\<open>controllers/settings.go\<close>, with the shared forms of
  \<^verbatim>\<open>configs.go\<close> and \<^verbatim>\<open>secrets.go\<close>) and the page of API keys (\<^verbatim>\<open>apikeys.go\<close>).  A handler takes the console's
  store and the daemon's state and gives a reply and both states.  A row of a config is the client's
  config with its flag; a map is an association list.
\<close>

section \<open>Page models\<close>

record settingsData =
  sdAPIURL :: string
  sdEnvAPIURL :: string
  sdHasToken :: bool
  sdHasEnvToken :: bool
  sdConfigured :: bool
  sdVersion :: string
  sdUser :: string
  sdClusterConfigs :: "(Config \<times> bool) list"
  sdConfigsKnown :: bool
  sdConfigsErrKey :: string
  sdConfigsErrRaw :: string
  sdClusterSecrets :: "Secret list"
  sdSecretsKnown :: bool
  sdSecretsErrKey :: string
  sdSecretsErrRaw :: string
  sdApplyDone :: bool
  sdApplyOTel :: string
  sdApplyTraefik :: string
  sdApplyCert :: string
  sdApplyEdge :: string
  sdApplyStacks :: string
  sdCanEditCluster :: bool
  sdErrKey :: string
  sdErrRaw :: string
  sdMsgKey :: string
  sdMsgArg :: string
  sdMsgArg2 :: string

definition empty_settings :: settingsData where
  "empty_settings = \<lparr> sdAPIURL = [], sdEnvAPIURL = [], sdHasToken = False, sdHasEnvToken = False,
     sdConfigured = False, sdVersion = [], sdUser = [], sdClusterConfigs = [], sdConfigsKnown = False,
     sdConfigsErrKey = [], sdConfigsErrRaw = [], sdClusterSecrets = [], sdSecretsKnown = False,
     sdSecretsErrKey = [], sdSecretsErrRaw = [], sdApplyDone = False, sdApplyOTel = [], sdApplyTraefik = [],
     sdApplyCert = [], sdApplyEdge = [], sdApplyStacks = [], sdCanEditCluster = False, sdErrKey = [],
     sdErrRaw = [], sdMsgKey = [], sdMsgArg = [], sdMsgArg2 = [] \<rparr>"

definition sd_fail :: "string \<Rightarrow> string \<Rightarrow> settingsData \<Rightarrow> settingsData" where
  "sd_fail key raw d = d\<lparr> sdErrKey := key, sdErrRaw := raw \<rparr>"

record configFormData =
  fcScope :: string
  fcStack :: string
  fcName :: string
  fcKind :: string
  fcContent :: string
  fcIsEdit :: bool
  fcVersions :: "ConfigVersion list"
  fcErrKey :: string
  fcErrRaw :: string
  fcError :: string
  fcAction :: string

definition config_form :: "string \<Rightarrow> string \<Rightarrow> string \<Rightarrow> bool \<Rightarrow> string \<Rightarrow> configFormData" where
  "config_form scope stack kind isedit action = \<lparr> fcScope = scope, fcStack = stack, fcName = [], fcKind = kind,
     fcContent = [], fcIsEdit = isedit, fcVersions = [], fcErrKey = [], fcErrRaw = [], fcError = [],
     fcAction = WebBase @ action \<rparr>"

definition fc_fail :: "string \<Rightarrow> string \<Rightarrow> configFormData \<Rightarrow> configFormData" where
  "fc_fail key raw d = d\<lparr> fcErrKey := key, fcErrRaw := raw \<rparr>"

record secretFormData =
  fsScope :: string
  fsStack :: string
  fsName :: string
  fsValue :: string
  fsIsEdit :: bool
  fsAction :: string
  fsErrKey :: string
  fsErrRaw :: string
  fsError :: string

definition secret_form :: "string \<Rightarrow> string \<Rightarrow> bool \<Rightarrow> string \<Rightarrow> secretFormData" where
  "secret_form scope stack isedit action = \<lparr> fsScope = scope, fsStack = stack, fsName = [], fsValue = [],
     fsIsEdit = isedit, fsAction = WebBase @ action, fsErrKey = [], fsErrRaw = [], fsError = [] \<rparr>"

definition fs_fail :: "string \<Rightarrow> string \<Rightarrow> secretFormData \<Rightarrow> secretFormData" where
  "fs_fail key raw d = d\<lparr> fsErrKey := key, fsErrRaw := raw \<rparr>"

record secretRevealData =
  rvName :: string
  rvValue :: string
  rvErrKey :: string
  rvErrRaw :: string
  rvError :: string

definition reveal_data :: "string \<Rightarrow> secretRevealData" where
  "reveal_data name = \<lparr> rvName = name, rvValue = [], rvErrKey = [], rvErrRaw = [], rvError = [] \<rparr>"

record renderedData =
  rdName :: string
  rdContent :: string
  rdErrKey :: string
  rdErrRaw :: string

definition rd_fail :: "string \<Rightarrow> string \<Rightarrow> renderedData \<Rightarrow> renderedData" where
  "rd_fail key raw d = d\<lparr> rdErrKey := key, rdErrRaw := raw \<rparr>"

record clusterSettingsData =
  csSettings :: Settings
  csHasClientSecret :: bool
  csErrKey :: string
  csErrRaw :: string
  csMsgKey :: string

datatype settings_page =
    Settings_Page settingsData
  | Config_Form configFormData
  | Secret_Form secretFormData
  | Secret_Reveal secretRevealData
  | Rendered_Page renderedData
  | Cluster_Settings clusterSettingsData

definition errKeyNotConfigured :: string where
  "errKeyNotConfigured = ''err.api_not_configured''"

definition not_configured_prose :: string where
  "not_configured_prose = ''pmcluster API not configured. Open Settings first.''"

text \<open>Forms: a fresh one and a refused one, which stays in the modal.\<close>

definition configForm :: "configFormData \<Rightarrow> configFormData" where
  "configForm d = (if fcKind d = [] then d\<lparr> fcKind := ''file'' \<rparr> else d)"

definition modal_error :: "'p \<Rightarrow> 'p ui_reply" where
  "modal_error p = \<lparr> uiStatus = 422, uiHeaders = [(''HX-Retarget'', ''#modal-body'')], uiCookie = No_Cookie,
     uiPage = Some p \<rparr>"

definition configFormError :: "configFormData \<Rightarrow> settings_page ui_reply" where
  "configFormError d = modal_error (Config_Form (configForm d))"

definition secretFormError :: "secretFormData \<Rightarrow> settings_page ui_reply" where
  "secretFormError d = modal_error (Secret_Form d)"

section \<open>The settings page\<close>

definition loadCluster :: "'s server \<Rightarrow> settingsData \<Rightarrow> 's \<Rightarrow> settingsData \<times> 's" where
  "loadCluster srv d s =
     (let (cfgs, s1) = pm_ListConfigs srv ''cluster'' [] s;
          d1 = (case cfgs of
                  Inl e \<Rightarrow> d\<lparr> sdConfigsErrKey := ''settings.err_config_list'', sdConfigsErrRaw := pm_text e \<rparr>
                | Inr rows \<Rightarrow> d\<lparr> sdClusterConfigs := rows, sdConfigsKnown := True \<rparr>);
          (secs, s2) = pm_ListSecrets srv ''cluster'' [] s1
      in (case secs of
            Inl e \<Rightarrow> d1\<lparr> sdSecretsErrKey := ''settings.err_secret_list'', sdSecretsErrRaw := pm_text e \<rparr>
          | Inr rows \<Rightarrow> d1\<lparr> sdClusterSecrets := rows, sdSecretsKnown := True \<rparr>, s2))"

definition fill_settings ::
  "'s net \<Rightarrow> console_env \<Rightarrow> ConsoleUser \<Rightarrow> settingsData \<Rightarrow> Console \<Rightarrow> 's \<Rightarrow> settingsData \<times> 's" where
  "fill_settings net e me d st s =
     (let (apiURL, _, configured) = loadParams e st;
          d1 = d\<lparr> sdAPIURL := apiURL, sdEnvAPIURL := ceEnvAPI e, sdHasEnvToken := (ceEnvToken e \<noteq> []),
                 sdConfigured := configured, sdVersion := ceVersion e, sdUser := cuUsername me,
                 sdCanEditCluster := (cuRole me = RoleAdmin) \<or> sdCanEditCluster d,
                 sdHasToken := is_ok (console_GetSetting KeyToken st) \<or> sdHasToken d \<rparr>
      in if configured then loadCluster (api_of net e st) d1 s else (d1, s))"

definition render_settings ::
  "'s net \<Rightarrow> console_env \<Rightarrow> ConsoleUser \<Rightarrow> settingsData \<Rightarrow> Console \<Rightarrow> 's \<Rightarrow> settings_page ui_reply \<times> 's" where
  "render_settings net e me d st s = map_prod (fragment \<circ> Settings_Page) id (fill_settings net e me d st s)"

definition Settings_Show ::
  "'s net \<Rightarrow> console_env \<Rightarrow> ConsoleUser \<Rightarrow> Console \<Rightarrow> 's \<Rightarrow> settings_page ui_reply \<times> 's" where
  "Settings_Show net e me st s = render_settings net e me empty_settings st s"

text \<open>\<^verbatim>\<open>mask\<close> is the text the form shows for a stored token.\<close>

definition tokenPlaceholder :: string where
  "tokenPlaceholder = concat (replicate 3 [CHR 0xE2, CHR 0x80, CHR 0xA2]) @ ''set'' @
     concat (replicate 3 [CHR 0xE2, CHR 0x80, CHR 0xA2])"

definition save_connection :: "ui_request \<Rightarrow> Console \<Rightarrow> Console" where
  "save_connection rq st =
     (let token = PostForm ''api_token'' rq; st1 = console_SetSetting KeyAPIURL (PostForm ''api_url'' rq) st
      in if PostForm ''clear_token'' rq = ''1'' then console_SetSetting KeyToken [] st1
         else if token \<noteq> [] \<and> token \<noteq> tokenPlaceholder then console_SetSetting KeyToken token st1
         else st1)"

definition Settings_Save ::
  "'s net \<Rightarrow> console_env \<Rightarrow> ConsoleUser \<Rightarrow> ui_request \<Rightarrow> Console \<Rightarrow> 's \<Rightarrow> settings_page ui_reply \<times> Console \<times> 's" where
  "Settings_Save net e me rq st s =
     (let st1 = save_connection rq st;
          (r, s1) = render_settings net e me (empty_settings\<lparr> sdMsgKey := ''settings.msg_saved'' \<rparr>) st1 s
      in (r, st1, s1))"

definition deployed_text :: "string list \<Rightarrow> string" where
  "deployed_text stacks = (if stacks = [] then ''none'' else join_with '', '' stacks)"

definition Settings_Apply ::
  "'s net \<Rightarrow> console_env \<Rightarrow> ConsoleUser \<Rightarrow> Console \<Rightarrow> 's \<Rightarrow> settings_page ui_reply \<times> 's" where
  "Settings_Apply net e me st s =
     (if \<not> api_configured e st
      then render_settings net e me (sd_fail errKeyNotConfigured not_configured_prose empty_settings) st s
      else (case pm_TriggerUpdate (api_of net e st) s of
              (Inl err, s1) \<Rightarrow> render_settings net e me (sd_fail ''settings.err_apply'' (pm_text err) empty_settings) st s1
            | (Inr sm, s1) \<Rightarrow>
                render_settings net e me (empty_settings\<lparr> sdApplyDone := True, sdApplyOTel := usOTelConfig sm,
                  sdApplyTraefik := usTraefikConfig sm, sdApplyCert := usCertSecret sm, sdApplyEdge := usEdgeConfig sm,
                  sdApplyStacks := deployed_text (usStacksDeployed sm) \<rparr>) st s1))"

section \<open>Configs of the cluster\<close>

definition Settings_ConfigNew :: "console_env \<Rightarrow> Console \<Rightarrow> settings_page ui_reply" where
  "Settings_ConfigNew e st =
     (let d = config_form ''cluster'' [] ''template'' False ''/settings/configs/add'' in
      if \<not> api_configured e st then configFormError (fc_fail errKeyNotConfigured not_configured_prose d)
      else fragment (Config_Form (configForm d)))"

text \<open>The content, and the history unless its call fails.\<close>

definition loadConfigEdit ::
  "'s server \<Rightarrow> string \<Rightarrow> 's \<Rightarrow> (pm_err + Config \<times> ConfigVersion list) \<times> 's" where
  "loadConfigEdit srv name s =
     (case pm_GetConfig srv name s of
        (Inl e, s1) \<Rightarrow> (Inl e, s1)
      | (Inr (cfg, _), s1) \<Rightarrow>
         (let (vs, s2) = pm_ConfigVersions srv name s1
          in (Inr (cfg, case vs of Inl _ \<Rightarrow> [] | Inr l \<Rightarrow> l), s2)))"

definition Settings_ConfigEdit ::
  "'s net \<Rightarrow> console_env \<Rightarrow> string \<Rightarrow> Console \<Rightarrow> 's \<Rightarrow> settings_page ui_reply \<times> 's" where
  "Settings_ConfigEdit net e name st s =
     (let d = (config_form ''cluster'' [] ''template'' True ''/settings/configs/edit'')\<lparr> fcName := name \<rparr> in
      if \<not> api_configured e st then (configFormError (fc_fail errKeyNotConfigured not_configured_prose d), s)
      else (case loadConfigEdit (api_of net e st) name s of
              (Inl err, s1) \<Rightarrow> (configFormError (fc_fail ''configs.err_action'' (pm_text err) d), s1)
            | (Inr (cfg, vs), s1) \<Rightarrow>
                (fragment (Config_Form (configForm (d\<lparr> fcName := cfName cfg, fcKind := cfKind cfg,
                   fcContent := cfContent cfg, fcVersions := vs \<rparr>))), s1)))"

definition Settings_AddConfig ::
  "'s net \<Rightarrow> console_env \<Rightarrow> ConsoleUser \<Rightarrow> ui_request \<Rightarrow> Console \<Rightarrow> 's \<Rightarrow> settings_page ui_reply \<times> 's" where
  "Settings_AddConfig net e me rq st s =
     (let name = PostForm ''name'' rq; content = PostForm ''content'' rq;
          kind = (if PostForm ''kind'' rq = [] then ''template'' else PostForm ''kind'' rq);
          d = (config_form ''cluster'' [] kind False ''/settings/configs/add'')\<lparr> fcName := name, fcContent := content \<rparr>
      in if \<not> api_configured e st then (configFormError (fc_fail errKeyNotConfigured not_configured_prose d), s)
         else if name = [] then (configFormError (fc_fail ''configs.err_name_required'' [] d), s)
         else (case pm_CreateConfig (api_of net e st) ''cluster'' [] name kind content s of
                 (Inl err, s1) \<Rightarrow> (configFormError (fc_fail ''settings.err_config_action'' (pm_text err) d), s1)
               | (Inr _, s1) \<Rightarrow>
                   render_settings net e me
                     (empty_settings\<lparr> sdMsgKey := ''settings.msg_config_created'', sdMsgArg := name \<rparr>) st s1))"

definition Settings_EditConfig ::
  "'s net \<Rightarrow> console_env \<Rightarrow> ConsoleUser \<Rightarrow> ui_request \<Rightarrow> Console \<Rightarrow> 's \<Rightarrow> settings_page ui_reply \<times> 's" where
  "Settings_EditConfig net e me rq st s =
     (let name = PostForm ''name'' rq; content = PostForm ''content'' rq;
          d = (config_form ''cluster'' [] ''template'' True ''/settings/configs/edit'')
                \<lparr> fcName := name, fcContent := content \<rparr>
      in if \<not> api_configured e st then (configFormError (fc_fail errKeyNotConfigured not_configured_prose d), s)
         else if name = [] then (configFormError (fc_fail ''settings.err_bad_config_name'' [] d), s)
         else (case pm_UpdateConfig (api_of net e st) name content s of
                 (Inl err, s1) \<Rightarrow> (configFormError (fc_fail ''settings.err_config_action'' (pm_text err) d), s1)
               | (Inr _, s1) \<Rightarrow>
                   render_settings net e me
                     (empty_settings\<lparr> sdMsgKey := ''settings.msg_config_updated'', sdMsgArg := name \<rparr>) st s1))"

definition Settings_RollbackConfig ::
  "'s net \<Rightarrow> console_env \<Rightarrow> ConsoleUser \<Rightarrow> string \<Rightarrow> string \<Rightarrow> Console \<Rightarrow> 's \<Rightarrow> settings_page ui_reply \<times> 's" where
  "Settings_RollbackConfig net e me name vparam st s =
     (let (d, s1) =
        (if \<not> api_configured e st then (sd_fail errKeyNotConfigured not_configured_prose empty_settings, s)
         else (case parse_int64 vparam of
                 None \<Rightarrow> (sd_fail ''settings.err_bad_version'' [] empty_settings, s)
               | Some vid \<Rightarrow>
                   if vid \<le> 0 then (sd_fail ''settings.err_bad_version'' [] empty_settings, s)
                   else (case pm_RollbackConfig (api_of net e st) name vid s of
                           (Inl err, s1) \<Rightarrow> (sd_fail ''settings.err_config_action'' (pm_text err) empty_settings, s1)
                         | (Inr _, s1) \<Rightarrow>
                             (empty_settings\<lparr> sdMsgKey := ''settings.msg_config_rolled_back'', sdMsgArg := name,
                                sdMsgArg2 := itoa vid \<rparr>, s1))))
      in render_settings net e me d st s1)"

definition Settings_RemoveConfig ::
  "'s net \<Rightarrow> console_env \<Rightarrow> ConsoleUser \<Rightarrow> string \<Rightarrow> Console \<Rightarrow> 's \<Rightarrow> settings_page ui_reply \<times> 's" where
  "Settings_RemoveConfig net e me name st s =
     (let (d, s1) =
        (if \<not> api_configured e st then (sd_fail errKeyNotConfigured not_configured_prose empty_settings, s)
         else if name = [] then (sd_fail ''settings.err_bad_config_name'' [] empty_settings, s)
         else (case pm_DeleteConfig (api_of net e st) name s of
                 (Inl err, s1) \<Rightarrow> (sd_fail ''settings.err_config_action'' (pm_text err) empty_settings, s1)
               | (Inr _, s1) \<Rightarrow>
                   (empty_settings\<lparr> sdMsgKey := ''settings.msg_config_removed'', sdMsgArg := name \<rparr>, s1)))
      in render_settings net e me d st s1)"

section \<open>Secrets of the cluster\<close>

definition Settings_SecretNew :: "console_env \<Rightarrow> Console \<Rightarrow> settings_page ui_reply" where
  "Settings_SecretNew e st =
     (let d = secret_form ''cluster'' [] False ''/settings/secrets/add'' in
      if \<not> api_configured e st then secretFormError (fs_fail errKeyNotConfigured not_configured_prose d)
      else fragment (Secret_Form d))"

definition Settings_SecretEdit :: "console_env \<Rightarrow> string \<Rightarrow> Console \<Rightarrow> settings_page ui_reply" where
  "Settings_SecretEdit e name st =
     (let d = (secret_form ''cluster'' [] True ''/settings/secrets/edit'')\<lparr> fsName := name \<rparr> in
      if \<not> api_configured e st then secretFormError (fs_fail errKeyNotConfigured not_configured_prose d)
      else fragment (Secret_Form d))"

definition Settings_AddSecret ::
  "'s net \<Rightarrow> console_env \<Rightarrow> ConsoleUser \<Rightarrow> ui_request \<Rightarrow> Console \<Rightarrow> 's \<Rightarrow> settings_page ui_reply \<times> 's" where
  "Settings_AddSecret net e me rq st s =
     (let name = PostForm ''name'' rq; v = PostForm ''value'' rq;
          d = (secret_form ''cluster'' [] False ''/settings/secrets/add'')\<lparr> fsName := name, fsValue := v \<rparr>
      in if \<not> api_configured e st then (secretFormError (fs_fail errKeyNotConfigured not_configured_prose d), s)
         else if name = [] then (secretFormError (fs_fail ''secrets.err_name_required'' [] d), s)
         else if v = [] then (secretFormError (fs_fail ''secrets.err_value_required'' [] d), s)
         else (case pm_CreateSecret (api_of net e st) ''cluster'' [] name v s of
                 (Inl err, s1) \<Rightarrow> (secretFormError (fs_fail ''settings.err_secret_action'' (pm_text err) d), s1)
               | (Inr _, s1) \<Rightarrow>
                   render_settings net e me
                     (empty_settings\<lparr> sdMsgKey := ''settings.msg_secret_created'', sdMsgArg := name \<rparr>) st s1))"

definition Settings_EditSecret ::
  "'s net \<Rightarrow> console_env \<Rightarrow> ConsoleUser \<Rightarrow> ui_request \<Rightarrow> Console \<Rightarrow> 's \<Rightarrow> settings_page ui_reply \<times> 's" where
  "Settings_EditSecret net e me rq st s =
     (let name = PostForm ''name'' rq; v = PostForm ''value'' rq;
          d = (secret_form ''cluster'' [] True ''/settings/secrets/edit'')\<lparr> fsName := name, fsValue := v \<rparr>
      in if \<not> api_configured e st then (secretFormError (fs_fail errKeyNotConfigured not_configured_prose d), s)
         else if name = [] then (secretFormError (fs_fail ''settings.err_bad_secret_name'' [] d), s)
         else if v = [] then (secretFormError (fs_fail ''secrets.err_value_required'' [] d), s)
         else (case pm_UpdateSecret (api_of net e st) name v s of
                 (Inl err, s1) \<Rightarrow> (secretFormError (fs_fail ''settings.err_secret_action'' (pm_text err) d), s1)
               | (Inr _, s1) \<Rightarrow>
                   render_settings net e me
                     (empty_settings\<lparr> sdMsgKey := ''settings.msg_secret_updated'', sdMsgArg := name \<rparr>) st s1))"

definition Settings_RemoveSecret ::
  "'s net \<Rightarrow> console_env \<Rightarrow> ConsoleUser \<Rightarrow> string \<Rightarrow> Console \<Rightarrow> 's \<Rightarrow> settings_page ui_reply \<times> 's" where
  "Settings_RemoveSecret net e me name st s =
     (let (d, s1) =
        (if \<not> api_configured e st then (sd_fail errKeyNotConfigured not_configured_prose empty_settings, s)
         else if name = [] then (sd_fail ''settings.err_bad_secret_name'' [] empty_settings, s)
         else (case pm_DeleteSecret (api_of net e st) name s of
                 (Inl err, s1) \<Rightarrow> (sd_fail ''settings.err_secret_action'' (pm_text err) empty_settings, s1)
               | (Inr _, s1) \<Rightarrow>
                   (empty_settings\<lparr> sdMsgKey := ''settings.msg_secret_removed'', sdMsgArg := name \<rparr>, s1)))
      in render_settings net e me d st s1)"

definition Settings_RevealSecret ::
  "'s net \<Rightarrow> console_env \<Rightarrow> string \<Rightarrow> Console \<Rightarrow> 's \<Rightarrow> settings_page ui_reply \<times> 's" where
  "Settings_RevealSecret net e name st s =
     (let d = reveal_data name; failed = (\<lambda>key raw. fragment (Secret_Reveal (d\<lparr> rvErrKey := key, rvErrRaw := raw \<rparr>))) in
      if \<not> api_configured e st then (failed errKeyNotConfigured not_configured_prose, s)
      else if name = [] then (failed ''settings.err_bad_secret_name'' [], s)
      else (case pm_RevealSecret (api_of net e st) name s of
              (Inl err, s1) \<Rightarrow> (failed ''secrets.err_reveal'' (pm_text err), s1)
            | (Inr (n, v), s1) \<Rightarrow> (fragment (Secret_Reveal (d\<lparr> rvName := n, rvValue := v \<rparr>)), s1)))"

section \<open>Rendered documents\<close>

definition Settings_RenderedGet ::
  "'s net \<Rightarrow> console_env \<Rightarrow> string \<Rightarrow> Console \<Rightarrow> 's \<Rightarrow> settings_page ui_reply \<times> 's" where
  "Settings_RenderedGet net e name st s =
     (let d = \<lparr> rdName = name, rdContent = [], rdErrKey = [], rdErrRaw = [] \<rparr>; srv = api_of net e st;
          shown = (\<lambda>d. fragment (Rendered_Page d)) in
      if \<not> api_configured e st then (shown (rd_fail errKeyNotConfigured not_configured_prose d), s)
      else (case pm_ListRenderedConfigs srv s of
              (Inl err, s1) \<Rightarrow> (shown (rd_fail ''settings.err_rendered'' (pm_text err) d), s1)
            | (Inr rc, s1) \<Rightarrow>
               (case find (\<lambda>c. cfName c = name) rc of
                  Some c \<Rightarrow> (shown (d\<lparr> rdContent := cfRendered c \<rparr>), s1)
                | None \<Rightarrow>
                   (case pm_GetConfig srv name s1 of
                      (Inr _, s2) \<Rightarrow> (shown (rd_fail ''settings.err_rendered_missing'' [] d), s2)
                    | (Inl err, s2) \<Rightarrow> (shown (rd_fail ''settings.err_rendered_not_found'' (pm_text err) d), s2)))))"

section \<open>Settings of the cluster\<close>

definition console_clusterSettingKeys :: "string list" where
  "console_clusterSettingKeys =
     [''volume_root'', ''backup_all_nodes'', ''sso_enabled'', ''sso_provider'', ''sso_client_id'',
      ''sso_client_secret'', ''sso_github_org'', ''sso_cookie_expire'', ''edge_login_disabled'', ''domain'',
      ''oo_admin_email'', ''traefik_admin_user'']"

definition clusterBoolSettings :: "string list" where
  "clusterBoolSettings = [''backup_all_nodes'', ''sso_enabled'', ''edge_login_disabled'']"

definition maskClusterSettings :: "Settings \<Rightarrow> Settings \<times> bool" where
  "maskClusterSettings settings =
     (filter (\<lambda>(k, _). k \<noteq> ''sso_client_secret'') settings,
      (case map_of settings ''sso_client_secret'' of None \<Rightarrow> False | Some v \<Rightarrow> v \<noteq> []))"

definition cluster_page :: "string \<Rightarrow> string \<Rightarrow> string \<Rightarrow> Settings \<Rightarrow> settings_page ui_reply" where
  "cluster_page errKey errRaw msgKey settings =
     (let (shown, has) = maskClusterSettings settings in
      fragment (Cluster_Settings \<lparr> csSettings = shown, csHasClientSecret = has, csErrKey = errKey,
        csErrRaw = errRaw, csMsgKey = msgKey \<rparr>))"

definition ClusterSettingsPage ::
  "'s net \<Rightarrow> console_env \<Rightarrow> Console \<Rightarrow> 's \<Rightarrow> settings_page ui_reply \<times> 's" where
  "ClusterSettingsPage net e st s =
     (if \<not> api_configured e st then (cluster_page ''err.api_not_configured'' [] [] [], s)
      else (case pm_GetClusterSettings (api_of net e st) s of
              (Inl err, s1) \<Rightarrow> (cluster_page ''settings.err_cluster_read'' (pm_text err) [] [], s1)
            | (Inr settings, s1) \<Rightarrow> (cluster_page [] [] [] settings, s1)))"

definition form_setting :: "ui_request \<Rightarrow> string \<Rightarrow> string" where
  "form_setting rq k =
     (if k \<in> set clusterBoolSettings then (if PostForm k rq \<noteq> [] then ''true'' else ''false'') else PostForm k rq)"

definition form_settings :: "ui_request \<Rightarrow> Settings" where
  "form_settings rq =
     filter (\<lambda>(k, v). \<not> (k = ''sso_client_secret'' \<and> v = []))
       (map (\<lambda>k. (k, form_setting rq k)) console_clusterSettingKeys)"

definition ClusterSettingsSave ::
  "'s net \<Rightarrow> console_env \<Rightarrow> ui_request \<Rightarrow> Console \<Rightarrow> 's \<Rightarrow> settings_page ui_reply \<times> 's" where
  "ClusterSettingsSave net e rq st s =
     (if \<not> api_configured e st then (cluster_page ''err.api_not_configured'' [] [] [], s)
      else (case pm_UpdateClusterSettings (api_of net e st) (form_settings rq) s of
              (Inl err, s1) \<Rightarrow> (cluster_page ''settings.err_cluster_save'' (pm_text err) [] (form_settings rq), s1)
            | (Inr updated, s1) \<Rightarrow> (cluster_page [] [] ''settings.msg_cluster_saved'' updated, s1)))"

end
