(* ===== verification/Console_Stack_Configs.thy ===== *)
theory Console_Stack_Configs
  imports Console_Settings
begin

text \<open>
  The configs and secrets page of one stack (\<^verbatim>\<open>controllers/stackconfigs.go\<close>), the page of API keys
  (\<^verbatim>\<open>apikeys.go\<close>), and the public sign-in bridge (\<^verbatim>\<open>sso_bridge.go\<close>).
\<close>

section \<open>Configs and secrets of a stack\<close>

record stackConfigsData =
  skStack :: string
  skConfigs :: "(Config \<times> bool) list"
  skSecrets :: "Secret list"
  skConfigsKnown :: bool
  skSecretsKnown :: bool
  skMsgKey :: string
  skMsgArg0 :: string
  skMsgArg1 :: string
  skErrKey :: string
  skErrRaw :: string

definition stack_data :: "string \<Rightarrow> stackConfigsData" where
  "stack_data stack = \<lparr> skStack = stack, skConfigs = [], skSecrets = [], skConfigsKnown = False,
     skSecretsKnown = False, skMsgKey = [], skMsgArg0 = [], skMsgArg1 = [], skErrKey = [], skErrRaw = [] \<rparr>"

definition sk_fail :: "string \<Rightarrow> string \<Rightarrow> stackConfigsData \<Rightarrow> stackConfigsData" where
  "sk_fail key raw d = d\<lparr> skErrKey := key, skErrRaw := raw \<rparr>"

definition sk_done :: "string \<Rightarrow> string \<Rightarrow> string \<Rightarrow> stackConfigsData \<Rightarrow> stackConfigsData" where
  "sk_done key a0 a1 d = d\<lparr> skMsgKey := key, skMsgArg0 := a0, skMsgArg1 := a1 \<rparr>"

datatype stack_page =
    Stack_Page stackConfigsData
  | Stack_Config_Form configFormData
  | Stack_Secret_Form secretFormData
  | Stack_Reveal secretRevealData

definition fetch :: "'s server \<Rightarrow> stackConfigsData \<Rightarrow> 's \<Rightarrow> stackConfigsData \<times> 's" where
  "fetch srv d s =
     (let (cfgs, s1) = pm_ListConfigs srv ''service'' (skStack d) s;
          d1 = (case cfgs of
                  Inl e \<Rightarrow> if skErrKey d = [] then sk_fail ''err.stackconfigs_configs'' (pm_text e) d else d
                | Inr rows \<Rightarrow> d\<lparr> skConfigsKnown := True, skConfigs := rows \<rparr>);
          (secs, s2) = pm_ListSecrets srv ''service'' (skStack d) s1
      in (case secs of
            Inl e \<Rightarrow> if skErrKey d1 = [] then sk_fail ''err.stackconfigs_secrets'' (pm_text e) d1 else d1
          | Inr rows \<Rightarrow> d1\<lparr> skSecretsKnown := True, skSecrets := rows \<rparr>, s2))"

definition stack_render ::
  "'s net \<Rightarrow> console_env \<Rightarrow> stackConfigsData \<Rightarrow> Console \<Rightarrow> 's \<Rightarrow> stack_page ui_reply \<times> 's" where
  "stack_render net e d st s =
     (if \<not> api_configured e st then (fragment (Stack_Page (d\<lparr> skErrKey := ''err.api_not_configured'' \<rparr>)), s)
      else map_prod (fragment \<circ> Stack_Page) id (fetch (api_of net e st) d s))"

definition stack_config_error :: "string \<Rightarrow> configFormData \<Rightarrow> stack_page ui_reply" where
  "stack_config_error msg d = modal_error (Stack_Config_Form (configForm (d\<lparr> fcError := msg \<rparr>)))"

definition stack_secret_error :: "string \<Rightarrow> secretFormData \<Rightarrow> stack_page ui_reply" where
  "stack_secret_error msg d = modal_error (Stack_Secret_Form (d\<lparr> fsError := msg \<rparr>))"

definition Stack_Show :: "'s net \<Rightarrow> console_env \<Rightarrow> string \<Rightarrow> Console \<Rightarrow> 's \<Rightarrow> stack_page ui_reply \<times> 's" where
  "Stack_Show net e stack st s = stack_render net e (stack_data stack) st s"

definition Stack_ConfigNew :: "console_env \<Rightarrow> string \<Rightarrow> Console \<Rightarrow> stack_page ui_reply" where
  "Stack_ConfigNew e stack st =
     (let d = config_form ''service'' stack ''file'' False (''/stacks/'' @ stack @ ''/configs/add'') in
      if \<not> api_configured e st then stack_config_error not_configured_prose d
      else fragment (Stack_Config_Form (configForm d)))"

definition Stack_ConfigEdit ::
  "'s net \<Rightarrow> console_env \<Rightarrow> string \<Rightarrow> string \<Rightarrow> Console \<Rightarrow> 's \<Rightarrow> stack_page ui_reply \<times> 's" where
  "Stack_ConfigEdit net e stack name st s =
     (let d = (config_form ''service'' stack [] True (''/stacks/'' @ stack @ ''/configs/edit''))\<lparr> fcName := name \<rparr> in
      if \<not> api_configured e st then (stack_config_error not_configured_prose d, s)
      else (case loadConfigEdit (api_of net e st) name s of
              (Inl err, s1) \<Rightarrow> (stack_config_error (pm_text err) d, s1)
            | (Inr (cfg, vs), s1) \<Rightarrow>
                (fragment (Stack_Config_Form (configForm (d\<lparr> fcKind := cfKind cfg, fcContent := cfContent cfg,
                   fcVersions := vs \<rparr>))), s1)))"

definition Stack_SecretNew :: "console_env \<Rightarrow> string \<Rightarrow> Console \<Rightarrow> stack_page ui_reply" where
  "Stack_SecretNew e stack st =
     (let d = secret_form ''service'' stack False (''/stacks/'' @ stack @ ''/secrets/add'') in
      if \<not> api_configured e st then stack_secret_error not_configured_prose d
      else fragment (Stack_Secret_Form d))"

definition Stack_SecretEdit :: "console_env \<Rightarrow> string \<Rightarrow> string \<Rightarrow> Console \<Rightarrow> stack_page ui_reply" where
  "Stack_SecretEdit e stack name st =
     (let d = (secret_form ''service'' stack True (''/stacks/'' @ stack @ ''/secrets/edit''))\<lparr> fsName := name \<rparr> in
      if \<not> api_configured e st then stack_secret_error not_configured_prose d
      else fragment (Stack_Secret_Form d))"

definition Stack_AddConfig ::
  "'s net \<Rightarrow> console_env \<Rightarrow> string \<Rightarrow> ui_request \<Rightarrow> Console \<Rightarrow> 's \<Rightarrow> stack_page ui_reply \<times> 's" where
  "Stack_AddConfig net e stack rq st s =
     (let name = PostForm ''name'' rq; content = PostForm ''content'' rq;
          kind = (if PostForm ''kind'' rq = [] then ''file'' else PostForm ''kind'' rq);
          d = (config_form ''service'' stack kind False (''/stacks/'' @ stack @ ''/configs/add''))
                \<lparr> fcName := name, fcContent := content \<rparr>
      in if \<not> api_configured e st then (stack_config_error not_configured_prose d, s)
         else if name = [] then (stack_config_error ''Name is required.'' d, s)
         else (case pm_CreateConfig (api_of net e st) ''service'' stack name kind content s of
                 (Inl err, s1) \<Rightarrow> (stack_config_error (pm_text err) d, s1)
               | (Inr _, s1) \<Rightarrow>
                   stack_render net e (sk_done ''stackconfigs.msg_config_added'' name stack (stack_data stack)) st s1))"

definition Stack_EditConfig ::
  "'s net \<Rightarrow> console_env \<Rightarrow> string \<Rightarrow> ui_request \<Rightarrow> Console \<Rightarrow> 's \<Rightarrow> stack_page ui_reply \<times> 's" where
  "Stack_EditConfig net e stack rq st s =
     (let name = PostForm ''name'' rq; content = PostForm ''content'' rq;
          d = (config_form ''service'' stack [] True (''/stacks/'' @ stack @ ''/configs/edit''))
                \<lparr> fcName := name, fcContent := content \<rparr>
      in if \<not> api_configured e st then (stack_config_error not_configured_prose d, s)
         else if name = [] then (stack_config_error ''Invalid config name.'' d, s)
         else (case pm_UpdateConfig (api_of net e st) name content s of
                 (Inl err, s1) \<Rightarrow> (stack_config_error (pm_text err) d, s1)
               | (Inr _, s1) \<Rightarrow>
                   stack_render net e (sk_done ''stackconfigs.msg_config_edited'' name [] (stack_data stack)) st s1))"

definition Stack_RollbackConfig ::
  "'s net \<Rightarrow> console_env \<Rightarrow> string \<Rightarrow> string \<Rightarrow> string \<Rightarrow> Console \<Rightarrow> 's \<Rightarrow> stack_page ui_reply \<times> 's" where
  "Stack_RollbackConfig net e stack name vparam st s =
     (let d = stack_data stack;
          vid = (case parse_int64 vparam of Some v \<Rightarrow> if v \<le> 0 then None else Some v | None \<Rightarrow> None);
          (d', s1) =
            (if \<not> api_configured e st then (sk_fail ''err.api_not_configured'' [] d, s)
             else if name = [] then (sk_fail ''stackconfigs.err_bad_name'' [] d, s)
             else (case vid of
                     None \<Rightarrow> (sk_fail ''stackconfigs.err_bad_version'' [] d, s)
                   | Some v \<Rightarrow>
                      (case pm_RollbackConfig (api_of net e st) name v s of
                         (Inl err, s1) \<Rightarrow> (sk_fail ''err.config_rollback'' (pm_text err) d, s1)
                       | (Inr _, s1) \<Rightarrow> (sk_done ''stackconfigs.msg_config_rolled'' name (itoa v) d, s1))))
      in stack_render net e d' st s1)"

definition Stack_RemoveConfig ::
  "'s net \<Rightarrow> console_env \<Rightarrow> string \<Rightarrow> string \<Rightarrow> Console \<Rightarrow> 's \<Rightarrow> stack_page ui_reply \<times> 's" where
  "Stack_RemoveConfig net e stack name st s =
     (let d = stack_data stack;
          (d', s1) =
            (if \<not> api_configured e st then (sk_fail ''err.api_not_configured'' [] d, s)
             else if name = [] then (sk_fail ''stackconfigs.err_bad_name'' [] d, s)
             else (case pm_DeleteConfig (api_of net e st) name s of
                     (Inl err, s1) \<Rightarrow> (sk_fail ''err.config_remove'' (pm_text err) d, s1)
                   | (Inr _, s1) \<Rightarrow> (sk_done ''stackconfigs.msg_config_removed'' name [] d, s1)))
      in stack_render net e d' st s1)"

definition Stack_AddSecret ::
  "'s net \<Rightarrow> console_env \<Rightarrow> string \<Rightarrow> ui_request \<Rightarrow> Console \<Rightarrow> 's \<Rightarrow> stack_page ui_reply \<times> 's" where
  "Stack_AddSecret net e stack rq st s =
     (let name = PostForm ''name'' rq; v = PostForm ''value'' rq;
          d = (secret_form ''service'' stack False (''/stacks/'' @ stack @ ''/secrets/add''))
                \<lparr> fsName := name, fsValue := v \<rparr>
      in if \<not> api_configured e st then (stack_secret_error not_configured_prose d, s)
         else if name = [] then (stack_secret_error ''Name is required.'' d, s)
         else if v = [] then (stack_secret_error ''Value is required.'' d, s)
         else (case pm_CreateSecret (api_of net e st) ''service'' stack name v s of
                 (Inl err, s1) \<Rightarrow> (stack_secret_error (pm_text err) d, s1)
               | (Inr _, s1) \<Rightarrow>
                   stack_render net e (sk_done ''stackconfigs.msg_secret_added'' name stack (stack_data stack)) st s1))"

definition Stack_EditSecret ::
  "'s net \<Rightarrow> console_env \<Rightarrow> string \<Rightarrow> ui_request \<Rightarrow> Console \<Rightarrow> 's \<Rightarrow> stack_page ui_reply \<times> 's" where
  "Stack_EditSecret net e stack rq st s =
     (let name = PostForm ''name'' rq; v = PostForm ''value'' rq;
          d = (secret_form ''service'' stack True (''/stacks/'' @ stack @ ''/secrets/edit''))
                \<lparr> fsName := name, fsValue := v \<rparr>
      in if \<not> api_configured e st then (stack_secret_error not_configured_prose d, s)
         else if name = [] then (stack_secret_error ''Invalid secret name.'' d, s)
         else if v = [] then (stack_secret_error ''Value is required.'' d, s)
         else (case pm_UpdateSecret (api_of net e st) name v s of
                 (Inl err, s1) \<Rightarrow> (stack_secret_error (pm_text err) d, s1)
               | (Inr _, s1) \<Rightarrow>
                   stack_render net e (sk_done ''stackconfigs.msg_secret_edited'' name [] (stack_data stack)) st s1))"

definition Stack_RemoveSecret ::
  "'s net \<Rightarrow> console_env \<Rightarrow> string \<Rightarrow> string \<Rightarrow> Console \<Rightarrow> 's \<Rightarrow> stack_page ui_reply \<times> 's" where
  "Stack_RemoveSecret net e stack name st s =
     (let d = stack_data stack;
          (d', s1) =
            (if \<not> api_configured e st then (sk_fail ''err.api_not_configured'' [] d, s)
             else if name = [] then (sk_fail ''stackconfigs.err_bad_name'' [] d, s)
             else (case pm_DeleteSecret (api_of net e st) name s of
                     (Inl err, s1) \<Rightarrow> (sk_fail ''err.secret_remove'' (pm_text err) d, s1)
                   | (Inr _, s1) \<Rightarrow> (sk_done ''stackconfigs.msg_secret_removed'' name [] d, s1)))
      in stack_render net e d' st s1)"

definition Stack_RevealSecret ::
  "'s net \<Rightarrow> console_env \<Rightarrow> string \<Rightarrow> Console \<Rightarrow> 's \<Rightarrow> stack_page ui_reply \<times> 's" where
  "Stack_RevealSecret net e name st s =
     (if \<not> api_configured e st
      then (fragment (Stack_Reveal ((reveal_data name)\<lparr> rvError := not_configured_prose \<rparr>)), s)
      else if name = [] then (fragment (Stack_Reveal ((reveal_data [])\<lparr> rvError := ''Invalid secret name.'' \<rparr>)), s)
      else (case pm_RevealSecret (api_of net e st) name s of
              (Inl err, s1) \<Rightarrow> (fragment (Stack_Reveal ((reveal_data name)\<lparr> rvError := pm_text err \<rparr>)), s1)
            | (Inr (n, v), s1) \<Rightarrow> (fragment (Stack_Reveal ((reveal_data n)\<lparr> rvValue := v \<rparr>)), s1)))"

section \<open>API keys\<close>

record apiKeyRow =
  arID :: int
  arName :: string
  arCreatedAt :: int
  arLastUsedAt :: int
  arPrefix :: string
  arJustCreated :: bool

record apiKeysData =
  apKeys :: "apiKeyRow list"
  apCount :: int
  apConfigured :: bool
  apKnown :: bool
  apErrKey :: string
  apErrRaw :: string
  apMsgKey :: string
  apMsgArg :: string
  apToken :: string
  apTokenName :: string
  apTokenPrefix :: string
  apNewID :: int

definition keys_data :: apiKeysData where
  "keys_data = \<lparr> apKeys = [], apCount = 0, apConfigured = False, apKnown = False, apErrKey = [], apErrRaw = [],
     apMsgKey = [], apMsgArg = [], apToken = [], apTokenName = [], apTokenPrefix = [], apNewID = 0 \<rparr>"

definition ap_fail :: "string \<Rightarrow> string \<Rightarrow> apiKeysData \<Rightarrow> apiKeysData" where
  "ap_fail key raw d = d\<lparr> apErrKey := key, apErrRaw := raw \<rparr>"

definition loadKeys :: "'s server \<Rightarrow> apiKeysData \<Rightarrow> 's \<Rightarrow> apiKeysData \<times> 's" where
  "loadKeys srv d s =
     (case pm_ListAPIKeys srv s of
        (Inl e, s1) \<Rightarrow> (if apErrKey d = [] then ap_fail ''apikeys.err_list'' (pm_text e) d else d, s1)
      | (Inr ks, s1) \<Rightarrow>
          (d\<lparr> apKeys := map (\<lambda>k. \<lparr> arID = akID k, arName = akName k, arCreatedAt = akCreatedAt k,
                arLastUsedAt = akLastUsedAt k, arPrefix = [], arJustCreated = False \<rparr>) ks,
              apCount := int (length ks), apKnown := True \<rparr>, s1))"

text \<open>Only the first row of the new id is marked.\<close>

fun mark_row :: "int \<Rightarrow> string \<Rightarrow> apiKeyRow list \<Rightarrow> apiKeyRow list" where
  "mark_row i p [] = []"
| "mark_row i p (r # rs) =
     (if arID r = i then r\<lparr> arPrefix := p, arJustCreated := True \<rparr> # rs else r # mark_row i p rs)"

definition markCreated :: "apiKeysData \<Rightarrow> apiKeysData" where
  "markCreated d = (if apNewID d = 0 then d else d\<lparr> apKeys := mark_row (apNewID d) (apTokenPrefix d) (apKeys d) \<rparr>)"

definition tokenPrefix :: "string \<Rightarrow> string" where
  "tokenPrefix tok =
     (let rest = (if has_prefix tok ''pmc_'' then drop 4 tok else tok); i = takeWhile (\<lambda>c. c \<noteq> CHR ''_'') rest
      in if rest \<noteq> tok \<and> CHR ''_'' \<in> set rest \<and> i \<noteq> [] then ''pmc_'' @ i
         else if length tok > 12 then take 12 tok else tok)"

definition Keys_Page :: "'s net \<Rightarrow> console_env \<Rightarrow> Console \<Rightarrow> 's \<Rightarrow> apiKeysData ui_reply \<times> 's" where
  "Keys_Page net e st s =
     (if \<not> api_configured e st then (fragment keys_data, s)
      else map_prod fragment id (loadKeys (api_of net e st) (keys_data\<lparr> apConfigured := True \<rparr>) s))"

definition Keys_Add ::
  "'s net \<Rightarrow> console_env \<Rightarrow> ui_request \<Rightarrow> Console \<Rightarrow> 's \<Rightarrow> apiKeysData ui_reply \<times> 's" where
  "Keys_Add net e rq st s =
     (let name = trim_space (PostForm ''name'' rq); d = keys_data\<lparr> apConfigured := True \<rparr>; srv = api_of net e st in
      if \<not> api_configured e st then (fragment (ap_fail errKeyNotConfigured not_configured_prose keys_data), s)
      else if name = [] then map_prod fragment id (loadKeys srv (ap_fail ''apikeys.err_name'' [] d) s)
      else (case pm_CreateAPIKey srv name s of
              (Inl err, s1) \<Rightarrow>
                map_prod (fragment \<circ> markCreated) id (loadKeys srv (ap_fail ''apikeys.err_create'' (pm_text err) d) s1)
            | (Inr (i, n, t), s1) \<Rightarrow>
                map_prod (fragment \<circ> markCreated) id (loadKeys srv (d\<lparr> apToken := t, apNewID := i, apTokenName := n,
                  apTokenPrefix := tokenPrefix t, apMsgKey := ''apikeys.msg_created'', apMsgArg := n \<rparr>) s1)))"

definition Keys_Remove ::
  "'s net \<Rightarrow> console_env \<Rightarrow> string \<Rightarrow> Console \<Rightarrow> 's \<Rightarrow> apiKeysData ui_reply \<times> 's" where
  "Keys_Remove net e idParam st s =
     (let d = keys_data\<lparr> apConfigured := True \<rparr>; srv = api_of net e st;
          kid = (case parse_int64 idParam of Some i \<Rightarrow> if i \<le> 0 then None else Some i | None \<Rightarrow> None) in
      if \<not> api_configured e st then (fragment (ap_fail errKeyNotConfigured not_configured_prose keys_data), s)
      else (case kid of
              None \<Rightarrow> map_prod fragment id (loadKeys srv (ap_fail ''apikeys.err_bad_id'' [] d) s)
            | Some i \<Rightarrow>
               (case pm_DeleteAPIKey srv i s of
                  (Inl err, s1) \<Rightarrow>
                    map_prod fragment id (loadKeys srv (ap_fail ''apikeys.err_revoke'' (pm_text err) d) s1)
                | (Inr _, s1) \<Rightarrow>
                    map_prod fragment id (loadKeys srv (d\<lparr> apMsgKey := ''apikeys.msg_removed'', apMsgArg := itoa i \<rparr>) s1))))"

section \<open>The sign-in bridge\<close>

text \<open>The first statement of the script the bridge serves, and the address it puts there.  The call
  goes to the daemon the client was last pointed at.\<close>

definition sso_email :: "'s server \<Rightarrow> string \<Rightarrow> 's \<Rightarrow> string \<times> 's" where
  "sso_email srv domain s =
     (case pm_GetClusterSettings srv s of
        (Inl _, s1) \<Rightarrow> (''admin@'' @ domain, s1)
      | (Inr settings, s1) \<Rightarrow>
         (case map_of settings ''oo_admin_email'' of
            None \<Rightarrow> (''admin@'' @ domain, s1)
          | Some v \<Rightarrow> (if v \<noteq> [] then v else ''admin@'' @ domain, s1)))"

definition sso_script :: "'s server \<Rightarrow> string \<Rightarrow> 's \<Rightarrow> string \<times> 's" where
  "sso_script srv domain s =
     (let (email, s1) = sso_email srv domain s in
      ([CHR 0x0A] @ ''const email = '' @ [CHR 0x22] @ email @ [CHR 0x22] @ '';'' @ [CHR 0x0A], s1))"

end
