(* ===== verification/Api_Stacks.thy ===== *)
theory Api_Stacks
  imports Api_Services Stacks_Http
begin

text \<open>
  The deploy engine over HTTP: the JSON of the handlers of \<^verbatim>\<open>internal/stacks/http.go\<close>, their routes, and the
  remote adapters for the read side and the engine (\<^verbatim>\<open>internal/remote/stacks.go\<close>).  The server's state is
  the world of the engine, store and swarm together; \<^verbatim>\<open>daemon_server\<close> is the daemon with its store-backed
  routes, its stacks and its services.
\<close>

section \<open>The handlers' JSON\<close>

text \<open>A decoder that takes unknown fields.\<close>

definition decode_lenient :: "(json \<Rightarrow> 'a option) \<Rightarrow> (string + json) option \<Rightarrow> string + 'a" where
  "decode_lenient get body =
     (case body of
        None \<Rightarrow> Inl ''EOF''
      | Some (Inl e) \<Rightarrow> Inl e
      | Some (Inr j) \<Rightarrow> (case get j of None \<Rightarrow> Inl ''json: cannot unmarshal'' | Some v \<Rightarrow> Inr v))"

definition payload_dto :: "json \<Rightarrow> Payload option" where
  "payload_dto j0 = do {
     j \<leftarrow> as_struct j0;
     app \<leftarrow> as_str (jfield ''app_name'' j); repo \<leftarrow> as_str (jfield ''repo_url'' j); file \<leftarrow> as_str (jfield ''file'' j);
     version \<leftarrow> as_str (jfield ''version'' j); manifest \<leftarrow> as_str (jfield ''manifest'' j);
     Some \<lparr> plAppName = app, plRepoURL = repo, plFile = file, plVersion = version, plManifest = manifest \<rparr> }"

definition stackJSON :: "StackInfo \<Rightarrow> json" where
  "stackJSON st =
     JObj [(''name'', JStr (siName st)), (''current_revision'', JInt (siCurrentRevision st)),
           (''repo_url'', JStr (siRepoURL st)), (''source_file'', JStr (siSourceFile st)),
           (''created_at'', JInt (siCreatedAt st)), (''updated_at'', JInt (siUpdatedAt st))]"

definition last_backup_json :: "last_backup option \<Rightarrow> json" where
  "last_backup_json b =
     (case b of
        None \<Rightarrow> JNull
      | Some l \<Rightarrow>
          JObj ([(''status'', JStr (lbStatus l)), (''started_at'', JInt (lbStartedAt l))]
            @ (case lbFinishedAt l of None \<Rightarrow> [] | Some t \<Rightarrow> [(''finished_at'', JInt t)])
            @ (case lbRevision l of None \<Rightarrow> [] | Some r \<Rightarrow> [(''revision'', JInt r)])
            @ (case lbErrorMessage l of None \<Rightarrow> [] | Some m \<Rightarrow> [(''error_message'', JStr m)])))"

definition json_of :: "('a \<Rightarrow> json) \<Rightarrow> 'a reply \<Rightarrow> json reply" where
  "json_of f r = (fst r, map_sum id f (snd r))"

definition revision_meta_json :: "int \<times> int \<Rightarrow> json" where
  "revision_meta_json m = JObj [(''revision'', JInt (fst m)), (''created_at'', JInt (snd m))]"

definition show_json :: "StackInfo \<times> (int \<times> int) list \<times> last_backup option \<Rightarrow> json" where
  "show_json r = (case r of (st, revs, b) \<Rightarrow>
     JObj [(''stack'', stackJSON st), (''revisions'', JArr (map revision_meta_json revs)),
           (''last_backup'', last_backup_json b)])"

definition revision_json :: "Revision \<Rightarrow> json" where
  "revision_json rv =
     JObj [(''stack'', JStr (rvStackName rv)), (''revision'', JInt (rvRevision rv)),
           (''created_at'', JInt (rvCreatedAt rv)), (''source_yaml'', JStr (rvSourceYAML rv)),
           (''rendered_yaml'', JStr (rvRenderedYAML rv)), (''payload'', JStr (rvPayloadJSON rv))]"

definition deploy_json :: "string \<times> int \<Rightarrow> json" where
  "deploy_json r = JObj [(''stack'', JStr (fst r)), (''revision'', JInt (snd r))]"

definition sync_json :: "string \<times> int \<times> bool \<Rightarrow> json" where
  "sync_json r = (case r of (n, i, c) \<Rightarrow>
     JObj [(''stack'', JStr n), (''revision'', JInt i), (''changed'', JBool c)])"

definition rollback_json :: "string \<times> int \<times> int \<Rightarrow> json" where
  "rollback_json r = (case r of (n, i, back) \<Rightarrow>
     JObj [(''stack'', JStr n), (''new_revision'', JInt i), (''rolled_back_to'', JInt back)])"

section \<open>The routes\<close>

record 'sw stacks_env =
  seEngine :: "'sw engine"
  seNow :: int
  seText :: "deploy_err \<Rightarrow> string"
  seStoreText :: "store_err \<Rightarrow> string"
  seBackups :: "string \<Rightarrow> Store \<Rightarrow> Backup list option"

definition stacks_server :: "'sw stacks_env \<Rightarrow> 'sw World server" where
  "stacks_server se rq w =
     (let m = rqMethod rq; eg = seEngine se; txt = seText se; db = wStore w in
      case rqPath rq of
        [a] \<Rightarrow>
          if a \<noteq> ''stacks'' then (not_routed, w)
          else if m = ''POST'' then
            map_prod (json_of deploy_json) id (http_deploy txt eg (seNow se) (decode_lenient payload_dto (rqBody rq)) w)
          else if m = ''GET'' then
            (json_of (\<lambda>l. JObj [(''stacks'', JArr (map stackJSON l))]) (http_list db), w)
          else (not_routed, w)
      | [a, name] \<Rightarrow>
          if a \<noteq> ''stacks'' \<or> name = [] then (not_routed, w)
          else if m = ''GET'' then
            (json_of show_json (http_show (seStoreText se) (\<lambda>n. seBackups se n db) name db), w)
          else if m = ''DELETE'' then
            map_prod (json_of (\<lambda>n. JObj [(''stack'', JStr n)])) id (http_remove txt eg name w)
          else (not_routed, w)
      | [a, name, op] \<Rightarrow>
          if a \<noteq> ''stacks'' \<or> name = [] \<or> m \<noteq> ''POST'' then (not_routed, w)
          else if op = ''sync'' then map_prod (json_of sync_json) id (http_sync txt eg (seNow se) name w)
          else if op = ''rollback'' then
            map_prod (json_of rollback_json) id
              (http_rollback txt eg (seNow se) name (decode_lenient (in_struct ''revision'' as_int) (rqBody rq)) w)
          else (not_routed, w)
      | [a, name, op, rv] \<Rightarrow>
          if a = ''stacks'' \<and> name \<noteq> [] \<and> op = ''revisions'' \<and> m = ''GET''
          then (json_of revision_json (http_showRevision name rv db), w)
          else (not_routed, w)
      | _ \<Rightarrow> (not_routed, w))"

definition on_store :: "Store server \<Rightarrow> 'sw World server" where
  "on_store srv rq w = (let (r, db) = srv rq (wStore w) in (r, w\<lparr> wStore := db \<rparr>))"

definition on_swarm :: "'sw server \<Rightarrow> 'sw World server" where
  "on_swarm srv rq w = (let (r, sw) = srv rq (wSwarm w) in (r, w\<lparr> wSwarm := sw \<rparr>))"

text \<open>The daemon: each context has a path of its own.\<close>

definition daemon_server ::
  "api_env \<Rightarrow> 'sw stacks_env \<Rightarrow> (services_err \<Rightarrow> string) \<Rightarrow> 'sw sdk \<Rightarrow> 'sw World server" where
  "daemon_server ae se txt d rq w =
     (case rqPath rq of
        [] \<Rightarrow> (not_routed, w)
      | a # _ \<Rightarrow>
          if a = ''stacks'' then stacks_server se rq w
          else if a = ''services'' then on_swarm (services_server txt d) rq w
          else on_store (api_server ae) rq w)"

definition bearer_daemon ::
  "api_env \<Rightarrow> 'sw stacks_env \<Rightarrow> (services_err \<Rightarrow> string) \<Rightarrow> 'sw sdk \<Rightarrow> string \<Rightarrow> 'sw World server" where
  "bearer_daemon ae se txt d =
     behind_bearer (aeArgon ae) (dmNow (aeDaemon ae)) wStore (\<lambda>db w. w\<lparr> wStore := db \<rparr>)
       (\<lambda>u. daemon_server (ae\<lparr> aeMe := Some u \<rparr>) se txt d)"

lemma bearer_daemon_passes:
  assumes "fst (Bearer (UserByToken (aeArgon ae) (dmNow (aeDaemon ae))) header (wStore w)) = Pass u"
  shows "bearer_daemon ae se txt d header rq w = daemon_server (ae\<lparr> aeMe := Some u \<rparr>) se txt d rq
    (w\<lparr> wStore := TouchUser (dmNow (aeDaemon ae)) (auID u) (wStore w) \<rparr>)"
  using assms by (simp add: bearer_daemon_def behind_bearer_cases)

section \<open>The remote adapters\<close>

definition stack_dto :: "json \<Rightarrow> StackInfo option" where
  "stack_dto j0 = do {
     j \<leftarrow> as_struct j0;
     name \<leftarrow> as_str (jfield ''name'' j); cur \<leftarrow> as_int (jfield ''current_revision'' j);
     repo \<leftarrow> as_str (jfield ''repo_url'' j); file \<leftarrow> as_str (jfield ''source_file'' j);
     created \<leftarrow> as_int (jfield ''created_at'' j); updated \<leftarrow> as_int (jfield ''updated_at'' j);
     Some \<lparr> siName = name, siCurrentRevision = cur, siRepoURL = repo, siSourceFile = file,
       siCreatedAt = created, siUpdatedAt = updated \<rparr> }"

definition revision_meta_dto :: "json \<Rightarrow> (int \<times> int) option" where
  "revision_meta_dto j0 = do {
     j \<leftarrow> as_struct j0; r \<leftarrow> as_int (jfield ''revision'' j); t \<leftarrow> as_int (jfield ''created_at'' j); Some (r, t) }"

definition stack_detail_dto :: "json \<Rightarrow> (StackInfo \<times> (int \<times> int) list) option" where
  "stack_detail_dto j0 = do {
     j \<leftarrow> as_struct j0; st \<leftarrow> stack_dto (jfield ''stack'' j);
     revs \<leftarrow> as_list revision_meta_dto (jfield ''revisions'' j); Some (st, revs) }"

definition remote_stacks_List :: "'s server \<Rightarrow> 's \<Rightarrow> (remote_err + StackInfo list) \<times> 's" where
  "remote_stacks_List srv s =
     do_request srv ''GET'' [''stacks''] [] None (in_struct ''stacks'' (as_list stack_dto)) s"

definition remote_stacks_Get :: "'s server \<Rightarrow> string \<Rightarrow> 's \<Rightarrow> (remote_err + StackInfo) \<times> 's" where
  "remote_stacks_Get srv name s =
     map_prod (map_sum id fst) id (do_request srv ''GET'' [''stacks'', name] [] None stack_detail_dto s)"

text \<open>The limit is not sent, and the documents of a revision are not in the answer.\<close>

definition remote_stacks_Revisions ::
  "'s server \<Rightarrow> string \<Rightarrow> int \<Rightarrow> 's \<Rightarrow> (remote_err + Revision list) \<times> 's" where
  "remote_stacks_Revisions srv name limit s =
     map_prod (map_sum id (\<lambda>(_, revs). map (\<lambda>(r, t). \<lparr> rvStackName = name, rvRevision = r, rvSourceYAML = [],
       rvRenderedYAML = [], rvPayloadJSON = [], rvCreatedAt = t \<rparr>) revs)) id
       (do_request srv ''GET'' [''stacks'', name] [] None stack_detail_dto s)"

record deploy_result_dto =
  drStack :: string
  drRevision :: int
  drNewRevision :: int
  drRolledBackTo :: int
  drChanged :: bool

definition deploy_dto :: "json \<Rightarrow> deploy_result_dto option" where
  "deploy_dto j0 = do {
     j \<leftarrow> as_struct j0;
     st \<leftarrow> as_str (jfield ''stack'' j); r \<leftarrow> as_int (jfield ''revision'' j);
     n \<leftarrow> as_int (jfield ''new_revision'' j); back \<leftarrow> as_int (jfield ''rolled_back_to'' j);
     c \<leftarrow> as_bool (jfield ''changed'' j);
     Some \<lparr> drStack = st, drRevision = r, drNewRevision = n, drRolledBackTo = back, drChanged = c \<rparr> }"

definition remote_result :: "string \<Rightarrow> int \<Rightarrow> bool \<Rightarrow> Result" where
  "remote_result st r c = \<lparr> rsStackName = st, rsRevision = r, rsRenderedYAML = [], rsChanged = c \<rparr>"

definition payload_json :: "Payload \<Rightarrow> json" where
  "payload_json p =
     JObj [(''app_name'', JStr (plAppName p)), (''repo_url'', JStr (plRepoURL p)), (''file'', JStr (plFile p)),
           (''version'', JStr (plVersion p)), (''manifest'', JStr (plManifest p))]"

definition remote_Deploy :: "'s server \<Rightarrow> Payload \<Rightarrow> 's \<Rightarrow> (remote_err + Result) \<times> 's" where
  "remote_Deploy srv p s =
     map_prod (map_sum id (\<lambda>d. remote_result (drStack d) (drRevision d) False)) id
       (do_request srv ''POST'' [''stacks''] [] (Some (payload_json p)) deploy_dto s)"

definition remote_Rollback :: "'s server \<Rightarrow> string \<Rightarrow> int \<Rightarrow> 's \<Rightarrow> (remote_err + Result) \<times> 's" where
  "remote_Rollback srv name r s =
     map_prod (map_sum id (\<lambda>d. remote_result (drStack d)
         (if drNewRevision d \<noteq> 0 then drNewRevision d else drRevision d) False)) id
       (do_request srv ''POST'' [''stacks'', name, ''rollback''] [] (Some (JObj [(''revision'', JInt r)])) deploy_dto s)"

definition remote_Sync :: "'s server \<Rightarrow> string \<Rightarrow> 's \<Rightarrow> (remote_err + Result) \<times> 's" where
  "remote_Sync srv name s =
     map_prod (map_sum id (\<lambda>d. remote_result (drStack d) (drRevision d) (drChanged d))) id
       (do_request srv ''POST'' [''stacks'', name, ''sync''] [] None deploy_dto s)"

definition remote_Undeploy :: "'s server \<Rightarrow> string \<Rightarrow> 's \<Rightarrow> (remote_err + unit) \<times> 's" where
  "remote_Undeploy srv name s = do_unit srv ''DELETE'' [''stacks'', name] None s"

end
