(* ===== verification/Api_Operations.thy ===== *)
theory Api_Operations
  imports Api_Stacks Backups
begin

text \<open>
  Backups, webhook sources and the usage report over HTTP: the handlers' JSON and routes
  (\<^verbatim>\<open>backups/http.go\<close>, \<^verbatim>\<open>webhooks/http.go\<close>, \<^verbatim>\<open>usage/http.go\<close>) and the remote adapters
  (\<^verbatim>\<open>remote/backups.go\<close>, \<^verbatim>\<open>remote/webhooks.go\<close>, \<^verbatim>\<open>remote/usage.go\<close>).
\<close>

section \<open>Backups\<close>

text \<open>The archive directory, the rows, and the file operations a restore has made so far.\<close>

record backup_world =
  bwDisk :: disk
  bwStore :: Store
  bwOps :: "fs_op list"

record backups_env =
  beService :: backup_service
  beNow :: int
  beArchive :: "string \<Rightarrow> archive"
  beOk :: "fs_op \<Rightarrow> bool"
  beRestoreText :: "restore_err \<Rightarrow> string"
  beStoreText :: "store_err \<Rightarrow> string"

definition run_json :: "Run \<Rightarrow> json" where
  "run_json r =
     JObj ([(''id'', JInt (runID r)), (''status'', JStr (runStatus r))]
       @ omit_str ''stack_name'' (runStackName r) @ omit_int ''revision'' (runRevision r)
       @ (if runArchivePaths r = [] then [] else [(''archive_paths'', JArr (map JStr (runArchivePaths r)))])
       @ omit_str ''error_message'' (runErrorMessage r)
       @ [(''started_at'', JInt (runStartedAt r))] @ omit_int ''finished_at'' (runFinishedAt r))"

definition file_json :: "FileEntry \<Rightarrow> json" where
  "file_json f =
     JObj [(''path'', JStr (fePath f)), (''size'', JInt (feSize f)), (''is_dir'', JBool (feIsDir f))]"

definition on_rows :: "(disk \<times> Store \<Rightarrow> 'a \<times> disk \<times> Store) \<Rightarrow> backup_world \<Rightarrow> 'a \<times> backup_world" where
  "on_rows f w = (let (x, d, db) = f (bwDisk w, bwStore w) in (x, w\<lparr> bwDisk := d, bwStore := db \<rparr>))"

definition http_backups_list :: "backups_env \<Rightarrow> string \<Rightarrow> backup_world \<Rightarrow> json reply \<times> backup_world" where
  "http_backups_list be v w =
     (let limit = (case parse_int64 v of Some n \<Rightarrow> if n > 0 then n else 50 | None \<Rightarrow> 50);
          (rows, w') = on_rows (List_runs (beService be) (beNow be) limit) w
      in ((200, Inr (JObj [(''backups'', JArr (map run_json rows))])), w'))"

definition http_backups_listForStack :: "backups_env \<Rightarrow> string \<Rightarrow> backup_world \<Rightarrow> json reply \<times> backup_world" where
  "http_backups_listForStack be name w =
     (let (rows, w') = on_rows (ListForStack (beService be) (beNow be) name) w
      in ((200, Inr (JObj [(''backups'', JArr (map run_json rows))])), w'))"

definition http_backups_create :: "backups_env \<Rightarrow> backup_world \<Rightarrow> json reply \<times> backup_world" where
  "http_backups_create be w =
     (let ((bid, paths, err), w') = on_rows (Trigger (beService be) (beNow be) [] 0) w
      in (case err of
            Some e \<Rightarrow> (if bsRun (beService be) = None then 503 else 502, Inl e)
          | None \<Rightarrow>
              (200, Inr (JObj [(''id'', JInt bid), (''status'', JStr ''succeeded''),
                 (''archive_paths'', JArr (map JStr paths))])), w'))"

definition http_backups_browse :: "backups_env \<Rightarrow> string \<Rightarrow> backup_world \<Rightarrow> json reply" where
  "http_backups_browse be idParam w =
     (case parse_int64 idParam of
        None \<Rightarrow> (400, Inl ''invalid backup id'')
      | Some bid \<Rightarrow>
         (case Browse (beArchive be) bid (bwStore w) of
            Inl e \<Rightarrow> (500, Inl (beStoreText be e))
          | Inr (r, files) \<Rightarrow>
              (200, Inr (JObj [(''run'', run_json r), (''files'', JArr (map file_json files))]))))"

text \<open>The decoder's error is ignored: a body that is not read leaves the destination empty.\<close>

definition dest_root :: "(string + json) option \<Rightarrow> string" where
  "dest_root body =
     (case decode_lenient (in_struct ''dest_root'' as_str) body of
        Inr d \<Rightarrow> if d = [] then ''/var/stack/data'' else d
      | Inl _ \<Rightarrow> ''/var/stack/data'')"

definition http_backups_restore ::
  "backups_env \<Rightarrow> string \<Rightarrow> (string + json) option \<Rightarrow> backup_world \<Rightarrow> json reply \<times> backup_world" where
  "http_backups_restore be idParam body w =
     (case parse_int64 idParam of
        None \<Rightarrow> ((400, Inl ''invalid backup id''), w)
      | Some bid \<Rightarrow>
         (let dest = dest_root body; (n, err, ops) = Restore (beOk be) (beArchive be) bid dest (bwStore w) in
          (case err of
             Some e \<Rightarrow> (400, Inl (beRestoreText be e))
           | None \<Rightarrow> (200, Inr (JObj [(''restored'', JInt (int n)), (''dest_root'', JStr dest)])),
           w\<lparr> bwOps := bwOps w @ ops \<rparr>)))"

definition backups_server :: "backups_env \<Rightarrow> backup_world server" where
  "backups_server be rq w =
     (let m = rqMethod rq in
      case rqPath rq of
        [a] \<Rightarrow>
          if a \<noteq> ''backups'' then (not_routed, w)
          else if m = ''GET'' then http_backups_list be (query_param ''limit'' rq) w
          else if m = ''POST'' then http_backups_create be w
          else (not_routed, w)
      | [a, x, op] \<Rightarrow>
          if a = ''backups'' \<and> x \<noteq> [] \<and> op = ''files'' \<and> m = ''GET'' then (http_backups_browse be x w, w)
          else if a = ''backups'' \<and> x \<noteq> [] \<and> op = ''restore'' \<and> m = ''POST'' then http_backups_restore be x (rqBody rq) w
          else if a = ''stacks'' \<and> x \<noteq> [] \<and> op = ''backups'' \<and> m = ''GET'' then http_backups_listForStack be x w
          else (not_routed, w)
      | _ \<Rightarrow> (not_routed, w))"

definition run_dto :: "json \<Rightarrow> Run option" where
  "run_dto j0 = do {
     j \<leftarrow> as_struct j0;
     bid \<leftarrow> as_int (jfield ''id'' j); status \<leftarrow> as_str (jfield ''status'' j);
     stack \<leftarrow> as_str (jfield ''stack_name'' j); r \<leftarrow> as_int (jfield ''revision'' j);
     paths \<leftarrow> as_list as_str (jfield ''archive_paths'' j); err \<leftarrow> as_str (jfield ''error_message'' j);
     started \<leftarrow> as_int (jfield ''started_at'' j); finished \<leftarrow> as_int (jfield ''finished_at'' j);
     Some \<lparr> runID = bid, runStatus = status, runStackName = stack, runRevision = r, runArchivePaths = paths,
       runErrorMessage = err, runStartedAt = started, runFinishedAt = finished \<rparr> }"

definition file_dto :: "json \<Rightarrow> FileEntry option" where
  "file_dto j0 = do {
     j \<leftarrow> as_struct j0; p \<leftarrow> as_str (jfield ''path'' j); n \<leftarrow> as_int (jfield ''size'' j); d \<leftarrow> as_bool (jfield ''is_dir'' j);
     Some \<lparr> fePath = p, feSize = n, feIsDir = d \<rparr> }"

text \<open>A pointer of the client: null leaves it nil.\<close>

definition as_pointer :: "(json \<Rightarrow> 'a option) \<Rightarrow> json \<Rightarrow> 'a option option" where
  "as_pointer f j = (if j = JNull then Some None else map_option Some (f j))"

definition browse_dto :: "json \<Rightarrow> (Run option \<times> FileEntry list) option" where
  "browse_dto j0 = do {
     j \<leftarrow> as_struct j0; r \<leftarrow> as_pointer run_dto (jfield ''run'' j);
     fs \<leftarrow> as_list file_dto (jfield ''files'' j); Some (r, fs) }"

definition remote_backups_Trigger :: "'s server \<Rightarrow> string \<Rightarrow> int \<Rightarrow> 's \<Rightarrow> (remote_err + int \<times> string list) \<times> 's" where
  "remote_backups_Trigger srv stackName revision s =
     do_request srv ''POST'' [''backups''] [] None
       (\<lambda>j0. do { j \<leftarrow> as_struct j0; bid \<leftarrow> as_int (jfield ''id'' j); _ \<leftarrow> as_str (jfield ''status'' j);
                  ps \<leftarrow> as_list as_str (jfield ''archive_paths'' j); Some (bid, ps) }) s"

definition remote_backups_List :: "'s server \<Rightarrow> int \<Rightarrow> 's \<Rightarrow> (remote_err + Run list) \<times> 's" where
  "remote_backups_List srv limit s =
     do_request srv ''GET'' [''backups''] (if limit > 0 then [(''limit'', itoa limit)] else []) None
       (in_struct ''backups'' (as_list run_dto)) s"

definition remote_backups_ListForStack :: "'s server \<Rightarrow> string \<Rightarrow> 's \<Rightarrow> (remote_err + Run list) \<times> 's" where
  "remote_backups_ListForStack srv name s =
     do_request srv ''GET'' [''stacks'', name, ''backups''] [] None (in_struct ''backups'' (as_list run_dto)) s"

definition remote_backups_Browse :: "'s server \<Rightarrow> int \<Rightarrow> 's \<Rightarrow> (remote_err + Run option \<times> FileEntry list) \<times> 's" where
  "remote_backups_Browse srv bid s =
     do_request srv ''GET'' [''backups'', itoa bid, ''files''] [] None browse_dto s"

definition remote_backups_Restore :: "'s server \<Rightarrow> int \<Rightarrow> string \<Rightarrow> 's \<Rightarrow> (remote_err + int) \<times> 's" where
  "remote_backups_Restore srv bid dest s =
     do_request srv ''POST'' [''backups'', itoa bid, ''restore''] [] (Some (JObj [(''dest_root'', JStr dest)]))
       (in_struct ''restored'' as_int) s"

section \<open>Webhook sources\<close>

definition source_json :: "Source \<Rightarrow> json" where
  "source_json x =
     JObj ([(''source'', JStr (soSource x))] @ omit_str ''description'' (soDescription x)
       @ [(''created_at'', JInt (soCreatedAt x))] @ omit_int ''last_used_at'' (soLastUsedAt x))"

definition delivery_json :: "WebhookDelivery \<Rightarrow> json" where
  "delivery_json d =
     JObj ([(''id'', JInt (wdID d)), (''source'', JStr (wdSource d)), (''status'', JStr (wdStatus d))]
       @ omit_str ''stack_name'' (wdStackName d) @ omit_int ''revision'' (wdRevision d)
       @ omit_str ''repo_url'' (wdRepoURL d) @ omit_str ''file'' (wdFile d) @ omit_str ''error'' (wdError d)
       @ [(''created_at'', JInt (wdCreatedAt d))])"

record hooks_env =
  heSeal :: "string \<Rightarrow> string \<Rightarrow> string"
  heSecret :: "string option"
  heNonce :: "string option"
  heNow :: int

definition hook_request_dto :: "json \<Rightarrow> (string \<times> string) option" where
  "hook_request_dto j = do {
     src \<leftarrow> as_str (jfield ''source'' j); d \<leftarrow> as_str (jfield ''description'' j); Some (src, d) }"

definition hooks_server :: "hooks_env \<Rightarrow> Store server" where
  "hooks_server he rq db =
     (let m = rqMethod rq in
      case rqPath rq of
        [a] \<Rightarrow>
          if a \<noteq> ''webhooks'' then (not_routed, db)
          else if m = ''GET'' then (json_of (\<lambda>l. JObj [(''webhooks'', JArr (map source_json l))]) (hook_list db), db)
          else if m = ''POST'' then
            map_prod (json_of (\<lambda>(src, sec). JObj [(''source'', JStr src), (''secret'', JStr sec)])) id
              (hook_create (heSeal he) (heSecret he) (heNonce he) (heNow he)
                 (decode_body [''source'', ''description''] hook_request_dto (rqBody rq)) db)
          else (not_routed, db)
      | [a, src] \<Rightarrow>
          if a = ''webhooks'' \<and> src \<noteq> [] \<and> m = ''DELETE''
          then map_prod (json_of (\<lambda>_. JNull)) id (hook_remove src db)
          else (not_routed, db)
      | [a, src, op] \<Rightarrow>
          if a = ''webhooks'' \<and> src \<noteq> [] \<and> op = ''deliveries'' \<and> m = ''GET''
          then (json_of (\<lambda>l. JObj [(''deliveries'', JArr (map delivery_json l))])
                  (hook_deliveries src (query_param ''limit'' rq) db), db)
          else (not_routed, db)
      | _ \<Rightarrow> (not_routed, db))"

definition source_dto :: "json \<Rightarrow> Source option" where
  "source_dto j0 = do {
     j \<leftarrow> as_struct j0; src \<leftarrow> as_str (jfield ''source'' j); d \<leftarrow> as_str (jfield ''description'' j);
     created \<leftarrow> as_int (jfield ''created_at'' j); used \<leftarrow> as_int (jfield ''last_used_at'' j);
     Some \<lparr> soSource = src, soDescription = d, soCreatedAt = created, soLastUsedAt = used \<rparr> }"

definition delivery_dto :: "json \<Rightarrow> WebhookDelivery option" where
  "delivery_dto j0 = do {
     j \<leftarrow> as_struct j0;
     i \<leftarrow> as_int (jfield ''id'' j); src \<leftarrow> as_str (jfield ''source'' j); status \<leftarrow> as_str (jfield ''status'' j);
     stack \<leftarrow> as_str (jfield ''stack_name'' j); r \<leftarrow> as_int (jfield ''revision'' j);
     repo \<leftarrow> as_str (jfield ''repo_url'' j); file \<leftarrow> as_str (jfield ''file'' j); err \<leftarrow> as_str (jfield ''error'' j);
     created \<leftarrow> as_int (jfield ''created_at'' j);
     Some \<lparr> wdID = i, wdSource = src, wdStatus = status, wdStackName = stack, wdRevision = r, wdRepoURL = repo,
       wdFile = file, wdError = err, wdCreatedAt = created \<rparr> }"

definition remote_hooks_Create :: "'s server \<Rightarrow> string \<Rightarrow> string \<Rightarrow> 's \<Rightarrow> (remote_err + string) \<times> 's" where
  "remote_hooks_Create srv source description s =
     do_request srv ''POST'' [''webhooks''] []
       (Some (JObj [(''description'', JStr description), (''source'', JStr source)]))
       (\<lambda>j0. do { j \<leftarrow> as_struct j0; _ \<leftarrow> as_str (jfield ''source'' j); as_str (jfield ''secret'' j) }) s"

definition remote_hooks_List :: "'s server \<Rightarrow> 's \<Rightarrow> (remote_err + Source list) \<times> 's" where
  "remote_hooks_List srv s =
     do_request srv ''GET'' [''webhooks''] [] None (in_struct ''webhooks'' (as_list source_dto)) s"

definition remote_hooks_Delete :: "'s server \<Rightarrow> string \<Rightarrow> 's \<Rightarrow> (remote_err + unit) \<times> 's" where
  "remote_hooks_Delete srv source s = do_unit srv ''DELETE'' [''webhooks'', source] None s"

definition remote_hooks_Deliveries :: "'s server \<Rightarrow> string \<Rightarrow> int \<Rightarrow> 's \<Rightarrow> (remote_err + WebhookDelivery list) \<times> 's" where
  "remote_hooks_Deliveries srv source limit s =
     do_request srv ''GET'' [''webhooks'', source, ''deliveries'']
       (if limit > 0 then [(''limit'', itoa limit)] else []) None (in_struct ''deliveries'' (as_list delivery_dto)) s"

section \<open>Usage\<close>

definition names_json :: "(string \<times> string list) list \<Rightarrow> json" where
  "names_json m = JObj (map (\<lambda>(n, l). (n, JArr (map JStr l))) m)"

definition usage_json :: "Usage \<Rightarrow> json" where
  "usage_json u = JObj [(''configs'', names_json (ugConfigs u)), (''secrets'', names_json (ugSecrets u))]"

definition usage_server :: "(string \<Rightarrow> (string list \<times> string list) option) \<Rightarrow> Store server" where
  "usage_server unmarshal rq db =
     (if rqMethod rq = ''GET'' \<and> rqPath rq = [''usage'']
      then ((200, Inr (usage_json (Usage_Get unmarshal db))), db)
      else (not_routed, db))"

definition as_names :: "json \<Rightarrow> (string \<times> string list) list option" where
  "as_names j =
     (case j of
        JObj fs \<Rightarrow> all_some (map (\<lambda>(k, v). map_option (Pair k) (as_list as_str v)) fs)
      | JNull \<Rightarrow> Some []
      | _ \<Rightarrow> None)"

definition usage_dto :: "json \<Rightarrow> Usage option" where
  "usage_dto j0 = do {
     j \<leftarrow> as_struct j0; cs \<leftarrow> as_names (jfield ''configs'' j); ss \<leftarrow> as_names (jfield ''secrets'' j);
     Some \<lparr> ugConfigs = cs, ugSecrets = ss \<rparr> }"

definition remote_usage_Get :: "'s server \<Rightarrow> 's \<Rightarrow> (remote_err + Usage) \<times> 's" where
  "remote_usage_Get srv s = do_request srv ''GET'' [''usage''] [] None usage_dto s"

end
