(* ===== verification/Console_Calls.thy ===== *)
theory Console_Calls
  imports Console_Api Api_Operations
begin

text \<open>
  The rest of the console's client of the daemon (\<^verbatim>\<open>internal/ui/pmapi\<close>): stacks, deploys, services, backups,
  webhooks, certificates, nodes and usage.  Where the client's model of an answer is that of the remote
  adapters, their reader is used.
\<close>

section \<open>Models\<close>

record BackupSummary =
  bmStatus :: string
  bmStartedAt :: int
  bmFinishedAt :: int
  bmRevision :: int
  bmErrorMessage :: string

definition pm_backup_summary :: "json \<Rightarrow> BackupSummary option" where
  "pm_backup_summary j0 = do {
     j \<leftarrow> as_struct j0;
     st \<leftarrow> as_str (jfield ''status'' j); started \<leftarrow> as_int (jfield ''started_at'' j);
     finished \<leftarrow> as_int (jfield ''finished_at'' j); r \<leftarrow> as_int (jfield ''revision'' j);
     err \<leftarrow> as_str (jfield ''error_message'' j);
     Some \<lparr> bmStatus = st, bmStartedAt = started, bmFinishedAt = finished, bmRevision = r, bmErrorMessage = err \<rparr> }"

record StackDetail =
  sdtStack :: StackInfo
  sdtRevisions :: "(int \<times> int) list"
  sdtLastBackup :: "BackupSummary option"

definition pm_stack_detail :: "json \<Rightarrow> StackDetail option" where
  "pm_stack_detail j0 = do {
     j \<leftarrow> as_struct j0; st \<leftarrow> stack_dto (jfield ''stack'' j);
     revs \<leftarrow> as_list revision_meta_dto (jfield ''revisions'' j);
     b \<leftarrow> as_pointer pm_backup_summary (jfield ''last_backup'' j);
     Some \<lparr> sdtStack = st, sdtRevisions = revs, sdtLastBackup = b \<rparr> }"

definition pm_revision :: "json \<Rightarrow> Revision option" where
  "pm_revision j0 = do {
     j \<leftarrow> as_struct j0;
     st \<leftarrow> as_str (jfield ''stack'' j); r \<leftarrow> as_int (jfield ''revision'' j); created \<leftarrow> as_int (jfield ''created_at'' j);
     src \<leftarrow> as_str (jfield ''source_yaml'' j); rendered \<leftarrow> as_str (jfield ''rendered_yaml'' j);
     payload \<leftarrow> as_str (jfield ''payload'' j);
     Some \<lparr> rvStackName = st, rvRevision = r, rvSourceYAML = src, rvRenderedYAML = rendered,
       rvPayloadJSON = payload, rvCreatedAt = created \<rparr> }"

definition pm_payload_json :: "Payload \<Rightarrow> json" where
  "pm_payload_json p =
     JObj (omit_str ''app_name'' (plAppName p) @ omit_str ''repo_url'' (plRepoURL p) @ omit_str ''file'' (plFile p)
       @ omit_str ''version'' (plVersion p) @ [(''manifest'', JStr (plManifest p))])"

definition pm_deploy_result :: "json \<Rightarrow> (string \<times> int \<times> bool) option" where
  "pm_deploy_result j0 = do {
     j \<leftarrow> as_struct j0; st \<leftarrow> as_str (jfield ''stack'' j); r \<leftarrow> as_int (jfield ''revision'' j);
     c \<leftarrow> as_bool (jfield ''changed'' j); Some (st, r, c) }"

definition pm_rollback_result :: "json \<Rightarrow> (string \<times> int \<times> int) option" where
  "pm_rollback_result j0 = do {
     j \<leftarrow> as_struct j0; st \<leftarrow> as_str (jfield ''stack'' j); n \<leftarrow> as_int (jfield ''new_revision'' j);
     back \<leftarrow> as_int (jfield ''rolled_back_to'' j); Some (st, n, back) }"

text \<open>A certificate of the daemon, of a host or of the cluster; times are text.\<close>

record PmCert =
  pcDomain :: string
  pcSANs :: "string list"
  pcNotAfter :: string
  pcNotBefore :: string
  pcCertSecret :: string
  pcKeySecret :: string
  pcCertHash :: string
  pcKeyHash :: string
  pcCreated :: string
  pcUpdated :: string

definition pm_cert :: "string \<Rightarrow> json \<Rightarrow> PmCert option" where
  "pm_cert key j0 = do {
     j \<leftarrow> as_struct j0;
     dom \<leftarrow> as_str (jfield key j); sans \<leftarrow> as_list as_str (jfield ''sans'' j);
     na \<leftarrow> as_str (jfield ''not_after'' j); nb \<leftarrow> as_str (jfield ''not_before'' j);
     cs \<leftarrow> as_str (jfield ''cert_secret'' j); ks \<leftarrow> as_str (jfield ''key_secret'' j);
     ch \<leftarrow> as_str (jfield ''cert_hash'' j); kh \<leftarrow> as_str (jfield ''key_hash'' j);
     created \<leftarrow> as_str (jfield ''created_at'' j); updated \<leftarrow> as_str (jfield ''updated_at'' j);
     Some \<lparr> pcDomain = dom, pcSANs = sans, pcNotAfter = na, pcNotBefore = nb, pcCertSecret = cs,
       pcKeySecret = ks, pcCertHash = ch, pcKeyHash = kh, pcCreated = created, pcUpdated = updated \<rparr> }"

record ClusterInfo =
  ciNodeName :: string
  ciServerVersion :: string
  ciOS :: string
  ciArch :: string
  ciCPUs :: int
  ciMemoryBytes :: int
  ciState :: string
  ciControlAvailable :: bool
  ciManagers :: int
  ciNodes :: int

definition pm_cluster_info :: "json \<Rightarrow> ClusterInfo option" where
  "pm_cluster_info j0 = do {
     j \<leftarrow> as_struct j0; sw \<leftarrow> as_struct (jfield ''swarm'' j);
     node \<leftarrow> as_str (jfield ''node_name'' j); ver \<leftarrow> as_str (jfield ''server_version'' j);
     os \<leftarrow> as_str (jfield ''os'' j); arch \<leftarrow> as_str (jfield ''arch'' j);
     cpus \<leftarrow> as_int (jfield ''cpus'' j); mem \<leftarrow> as_int (jfield ''memory_bytes'' j);
     st \<leftarrow> as_str (jfield ''state'' sw); ctl \<leftarrow> as_bool (jfield ''control_available'' sw);
     ms \<leftarrow> as_int (jfield ''managers'' sw); ns \<leftarrow> as_int (jfield ''nodes'' sw);
     Some \<lparr> ciNodeName = node, ciServerVersion = ver, ciOS = os, ciArch = arch, ciCPUs = cpus,
       ciMemoryBytes = mem, ciState = st, ciControlAvailable = ctl, ciManagers = ms, ciNodes = ns \<rparr> }"

definition pm_node :: "json \<Rightarrow> Node option" where
  "pm_node j0 = do {
     j \<leftarrow> as_struct j0;
     i \<leftarrow> as_str (jfield ''id'' j); h \<leftarrow> as_str (jfield ''hostname'' j); role \<leftarrow> as_str (jfield ''role'' j);
     av \<leftarrow> as_str (jfield ''availability'' j); st \<leftarrow> as_str (jfield ''status'' j);
     ld \<leftarrow> as_bool (jfield ''is_leader'' j); ev \<leftarrow> as_str (jfield ''engine_version'' j);
     ad \<leftarrow> as_str (jfield ''address'' j); created \<leftarrow> as_int (jfield ''created_at'' j);
     updated \<leftarrow> as_int (jfield ''updated_at'' j);
     Some \<lparr> ndID = i, ndHostname = h, ndRole = role, ndAvailability = av, ndStatus = st, ndIsLeader = ld,
       ndEngineVersion = ev, ndAddress = ad, ndCreatedAt = created, ndUpdatedAt = updated \<rparr> }"

section \<open>Calls\<close>

definition Configured :: "pm_client \<Rightarrow> bool" where
  "Configured cl \<longleftrightarrow> pcBase cl \<noteq> [] \<and> pcTok cl \<noteq> []"

definition pm_Me :: "'s server \<Rightarrow> 's \<Rightarrow> (pm_err + int \<times> string) \<times> 's" where
  "pm_Me srv s = pm_do srv ''GET'' [''me''] [] None
     (\<lambda>j0. do { j \<leftarrow> as_struct j0; i \<leftarrow> as_int (jfield ''id'' j); n \<leftarrow> as_str (jfield ''name'' j); Some (i, n) }) s"

definition pm_ClusterInfo :: "'s server \<Rightarrow> 's \<Rightarrow> (pm_err + ClusterInfo) \<times> 's" where
  "pm_ClusterInfo srv s = pm_do srv ''GET'' [''cluster'', ''info''] [] None pm_cluster_info s"

definition pm_Nodes :: "'s server \<Rightarrow> 's \<Rightarrow> (pm_err + Node list) \<times> 's" where
  "pm_Nodes srv s = pm_do srv ''GET'' [''nodes''] [] None (in_struct ''nodes'' (as_list pm_node)) s"

definition pm_ListStacks :: "'s server \<Rightarrow> 's \<Rightarrow> (pm_err + StackInfo list) \<times> 's" where
  "pm_ListStacks srv s = pm_do srv ''GET'' [''stacks''] [] None (in_struct ''stacks'' (as_list stack_dto)) s"

definition pm_GetStack :: "'s server \<Rightarrow> string \<Rightarrow> 's \<Rightarrow> (pm_err + StackDetail) \<times> 's" where
  "pm_GetStack srv name s = pm_do srv ''GET'' [''stacks'', name] [] None pm_stack_detail s"

definition pm_GetRevision :: "'s server \<Rightarrow> string \<Rightarrow> int \<Rightarrow> 's \<Rightarrow> (pm_err + Revision) \<times> 's" where
  "pm_GetRevision srv name r s = pm_do srv ''GET'' [''stacks'', name, ''revisions'', itoa r] [] None pm_revision s"

definition pm_Deploy :: "'s server \<Rightarrow> Payload \<Rightarrow> 's \<Rightarrow> (pm_err + string \<times> int \<times> bool) \<times> 's" where
  "pm_Deploy srv p s = pm_do srv ''POST'' [''stacks''] [] (Some (pm_payload_json p)) pm_deploy_result s"

definition pm_Rollback :: "'s server \<Rightarrow> string \<Rightarrow> int \<Rightarrow> 's \<Rightarrow> (pm_err + string \<times> int \<times> int) \<times> 's" where
  "pm_Rollback srv name r s =
     pm_do srv ''POST'' [''stacks'', name, ''rollback''] [] (Some (JObj [(''revision'', JInt r)])) pm_rollback_result s"

definition pm_SyncStack :: "'s server \<Rightarrow> string \<Rightarrow> 's \<Rightarrow> (pm_err + string \<times> int \<times> bool) \<times> 's" where
  "pm_SyncStack srv name s = pm_do srv ''POST'' [''stacks'', name, ''sync''] [] None pm_deploy_result s"

definition pm_DeleteStack :: "'s server \<Rightarrow> string \<Rightarrow> 's \<Rightarrow> (pm_err + unit) \<times> 's" where
  "pm_DeleteStack srv name s = pm_unit srv ''DELETE'' [''stacks'', name] None s"

definition pm_ListBackups :: "'s server \<Rightarrow> int \<Rightarrow> 's \<Rightarrow> (pm_err + Run list) \<times> 's" where
  "pm_ListBackups srv limit s =
     pm_do srv ''GET'' [''backups''] [(''limit'', itoa limit)] None (in_struct ''backups'' (as_list run_dto)) s"

definition pm_CreateBackup :: "'s server \<Rightarrow> 's \<Rightarrow> (pm_err + Run) \<times> 's" where
  "pm_CreateBackup srv s = pm_do srv ''POST'' [''backups''] [] None run_dto s"

definition pm_ListStackBackups :: "'s server \<Rightarrow> string \<Rightarrow> 's \<Rightarrow> (pm_err + Run list) \<times> 's" where
  "pm_ListStackBackups srv name s =
     pm_do srv ''GET'' [''stacks'', name, ''backups''] [] None (in_struct ''backups'' (as_list run_dto)) s"

definition pm_BrowseBackup :: "'s server \<Rightarrow> int \<Rightarrow> 's \<Rightarrow> (pm_err + Run option \<times> FileEntry list) \<times> 's" where
  "pm_BrowseBackup srv bid s = pm_do srv ''GET'' [''backups'', itoa bid, ''files''] [] None browse_dto s"

definition pm_RestoreBackup :: "'s server \<Rightarrow> int \<Rightarrow> string \<Rightarrow> 's \<Rightarrow> (pm_err + int) \<times> 's" where
  "pm_RestoreBackup srv bid dest s =
     pm_do srv ''POST'' [''backups'', itoa bid, ''restore''] [] (Some (JObj [(''dest_root'', JStr dest)]))
       (in_struct ''restored'' as_int) s"

definition pm_ListHostCerts :: "'s server \<Rightarrow> 's \<Rightarrow> (pm_err + PmCert list) \<times> 's" where
  "pm_ListHostCerts srv s =
     pm_do srv ''GET'' [''tls'', ''hosts''] [] None (in_struct ''hosts'' (as_list (pm_cert ''host''))) s"

definition cert_body :: "string \<Rightarrow> string \<Rightarrow> json" where
  "cert_body cert key = JObj [(''cert'', JStr cert), (''key'', JStr key)]"

definition pm_AddHostCert :: "'s server \<Rightarrow> string \<Rightarrow> string \<Rightarrow> string \<Rightarrow> 's \<Rightarrow> (pm_err + PmCert) \<times> 's" where
  "pm_AddHostCert srv host cert key s =
     pm_do srv ''PUT'' [''tls'', ''hosts'', host] [] (Some (cert_body cert key)) (pm_cert ''host'') s"

definition pm_RemoveHostCert :: "'s server \<Rightarrow> string \<Rightarrow> 's \<Rightarrow> (pm_err + unit) \<times> 's" where
  "pm_RemoveHostCert srv host s = pm_unit srv ''DELETE'' [''tls'', ''hosts'', host] None s"

definition pm_GetSiteCert :: "'s server \<Rightarrow> 's \<Rightarrow> (pm_err + PmCert) \<times> 's" where
  "pm_GetSiteCert srv s = pm_do srv ''GET'' [''tls'', ''site''] [] None (pm_cert ''domain'') s"

definition pm_UpdateSiteCert :: "'s server \<Rightarrow> string \<Rightarrow> string \<Rightarrow> 's \<Rightarrow> (pm_err + PmCert) \<times> 's" where
  "pm_UpdateSiteCert srv cert key s =
     pm_do srv ''PUT'' [''tls'', ''site''] [] (Some (cert_body cert key)) (pm_cert ''domain'') s"

definition pm_ListWebhooks :: "'s server \<Rightarrow> 's \<Rightarrow> (pm_err + Source list) \<times> 's" where
  "pm_ListWebhooks srv s = pm_do srv ''GET'' [''webhooks''] [] None (in_struct ''webhooks'' (as_list source_dto)) s"

definition pm_CreateWebhook :: "'s server \<Rightarrow> string \<Rightarrow> string \<Rightarrow> 's \<Rightarrow> (pm_err + string \<times> string) \<times> 's" where
  "pm_CreateWebhook srv source description s =
     pm_do srv ''POST'' [''webhooks''] [] (Some (JObj [(''description'', JStr description), (''source'', JStr source)]))
       (\<lambda>j0. do { j \<leftarrow> as_struct j0; x \<leftarrow> as_str (jfield ''source'' j); sec \<leftarrow> as_str (jfield ''secret'' j); Some (x, sec) }) s"

definition pm_DeleteWebhook :: "'s server \<Rightarrow> string \<Rightarrow> 's \<Rightarrow> (pm_err + unit) \<times> 's" where
  "pm_DeleteWebhook srv source s = pm_unit srv ''DELETE'' [''webhooks'', source] None s"

definition pm_ListWebhookDeliveries ::
  "'s server \<Rightarrow> string \<Rightarrow> int \<Rightarrow> 's \<Rightarrow> (pm_err + WebhookDelivery list) \<times> 's" where
  "pm_ListWebhookDeliveries srv source limit s =
     pm_do srv ''GET'' [''webhooks'', source, ''deliveries''] (if limit > 0 then [(''limit'', itoa limit)] else []) None
       (in_struct ''deliveries'' (as_list delivery_dto)) s"

definition pm_GetUsage :: "'s server \<Rightarrow> 's \<Rightarrow> (pm_err + Usage) \<times> 's" where
  "pm_GetUsage srv s = pm_do srv ''GET'' [''usage''] [] None usage_dto s"

definition pm_ListServices :: "'s server \<Rightarrow> string \<Rightarrow> 's \<Rightarrow> (pm_err + ServiceSummary list) \<times> 's" where
  "pm_ListServices srv stack s =
     pm_do srv ''GET'' (''services'' # (if stack \<noteq> [] then [stack] else [])) [] None
       (in_struct ''services'' (as_list service_dto)) s"

definition svcPath :: "string \<Rightarrow> string \<Rightarrow> string list" where
  "svcPath stack service = [''services'', stack, service]"

definition pm_ServiceTasks :: "'s server \<Rightarrow> string \<Rightarrow> string \<Rightarrow> 's \<Rightarrow> (pm_err + TaskRun list) \<times> 's" where
  "pm_ServiceTasks srv stack service s =
     pm_do srv ''GET'' (svcPath stack service @ [''tasks'']) [] None (in_struct ''tasks'' (as_list task_dto)) s"

definition pm_ServiceLogs :: "'s server \<Rightarrow> string \<Rightarrow> string \<Rightarrow> int \<Rightarrow> 's \<Rightarrow> (pm_err + LogLine list) \<times> 's" where
  "pm_ServiceLogs srv stack service tail s =
     pm_do srv ''GET'' (svcPath stack service @ [''logs'']) [(''tail'', itoa tail)] None
       (in_struct ''logs'' (as_list log_dto)) s"

definition pm_RestartService :: "'s server \<Rightarrow> string \<Rightarrow> string \<Rightarrow> 's \<Rightarrow> (pm_err + unit) \<times> 's" where
  "pm_RestartService srv stack service s =
     pm_unit srv ''POST'' (svcPath stack service @ [''restart'']) None s"

definition pm_ExecService :: "'s server \<Rightarrow> string \<Rightarrow> string \<Rightarrow> string list \<Rightarrow> 's \<Rightarrow> (pm_err + ExecResult) \<times> 's" where
  "pm_ExecService srv stack service argv s =
     pm_do srv ''POST'' (svcPath stack service @ [''exec'']) [] (Some (JObj [(''argv'', JArr (map JStr argv))])) exec_dto s"

section \<open>Errors for people\<close>

definition humanErr :: "string \<Rightarrow> pm_err \<Rightarrow> string \<times> string" where
  "humanErr key e =
     (let k = (if key = [] then ''err.upstream'' else key) in
      case e of
        Pm_Error st body0 \<Rightarrow>
          (let body = (if trim_space body0 = [] then pm_text e else trim_space body0)
           in (k, ''HTTP '' @ itoa st @ '' '' @ StatusText st @ [CHR 0x0A] @ body))
      | Pm_Decode \<Rightarrow> (k, pm_text e))"

end
