(* ===== verification/Console_Services.thy ===== *)
theory Console_Services
  imports Console_Stack_Configs Console_Calls
begin

text \<open>
  The console's pages of services (\<^verbatim>\<open>controllers/services.go\<close>): the list, the history of tasks, the logs,
  restart and exec.  Replica counts are the daemon's unsigned words; the pages show them as signed.
\<close>

section \<open>Rows\<close>

record serviceRow =
  vrName :: string
  vrServiceName :: string
  vrStack :: string
  vrReplicas :: "64 word"
  vrDesired :: "64 word"
  vrImage :: string
  vrMode :: string
  vrUpdated :: int
  vrConverged :: bool
  vrShort :: bool
  vrPaused :: bool
  vrRoutable :: bool

definition unqualifiedServiceName :: "string \<Rightarrow> string \<Rightarrow> string" where
  "unqualifiedServiceName full stack =
     (let p = stack @ ''_'' in
      if stack \<noteq> [] \<and> length full > length p \<and> take (length p) full = p then drop (length p) full else full)"

definition service_row :: "ServiceSummary \<Rightarrow> serviceRow" where
  "service_row s =
     \<lparr> vrName = suName s, vrServiceName = unqualifiedServiceName (suName s) (suStack s), vrStack = suStack s,
       vrReplicas = suReplicas s, vrDesired = suDesired s, vrImage = suImage s, vrMode = suMode s,
       vrUpdated = suUpdated s, vrConverged = (suDesired s > 0 \<and> suReplicas s \<ge> suDesired s),
       vrShort = (suReplicas s < suDesired s), vrPaused = (suDesired s = 0), vrRoutable = (suStack s \<noteq> []) \<rparr>"

record servicesData =
  syServices :: "serviceRow list"
  syKnown :: bool
  syCount :: int
  syReady :: int
  syShort :: int
  syStacks :: int
  syErrKey :: string
  syErrRaw :: string

definition empty_services :: servicesData where
  "empty_services = \<lparr> syServices = [], syKnown = False, syCount = 0, syReady = 0, syShort = 0, syStacks = 0,
     syErrKey = [], syErrRaw = [] \<rparr>"

definition services_page :: "ServiceSummary list \<Rightarrow> servicesData" where
  "services_page svcs =
     (let rows = map service_row svcs in
      empty_services\<lparr> syServices := rows, syKnown := True, syCount := int (length rows),
        syReady := int (length (filter vrConverged rows)), syShort := int (length (filter vrShort rows)),
        syStacks := int (length (remdups (filter (\<lambda>n. n \<noteq> []) (map suStack svcs)))) \<rparr>)"

definition Services_Page_List :: "'s net \<Rightarrow> console_env \<Rightarrow> Console \<Rightarrow> 's \<Rightarrow> servicesData \<times> 's" where
  "Services_Page_List net e st s =
     (if \<not> api_configured e st then (empty_services\<lparr> syErrKey := errKeyNotConfigured \<rparr>, s)
      else (case pm_ListServices (api_of net e st) [] s of
              (Inl err, s1) \<Rightarrow>
                (let (k, raw) = humanErr ''err.services'' err in (empty_services\<lparr> syErrKey := k, syErrRaw := raw \<rparr>, s1))
            | (Inr svcs, s1) \<Rightarrow> (services_page svcs, s1)))"

section \<open>One service\<close>

record serviceMeta =
  smName :: string
  smImage :: string
  smMode :: string
  smUpdated :: int
  smReplicas :: "64 word"
  smDesired :: "64 word"
  smConverged :: bool
  smShort :: bool
  smPaused :: bool

record serviceTaskRow =
  tkTaskID :: string
  tkNode :: string
  tkSlot :: int
  tkRawState :: string
  tkState :: string
  tkPill :: string
  tkError :: string
  tkStarted :: int
  tkFinished :: int

record serviceLogRow =
  lgStream :: string
  lgStreamKey :: string
  lgLine :: string
  lgIsErr :: bool

record serviceDetailData =
  vdStack :: string
  vdService :: string
  vdFullName :: string
  vdTab :: string
  vdSvc :: "serviceMeta option"
  vdSvcKnown :: bool
  vdTasks :: "serviceTaskRow list"
  vdTasksKnown :: bool
  vdLogs :: "serviceLogRow list"
  vdLogsKnown :: bool
  vdTailCount :: string
  vdExecRan :: bool
  vdExecExit :: int
  vdExecArgv :: string
  vdExecEmpty :: bool
  vdLogText :: string
  vdErrKey :: string
  vdErrRaw :: string
  vdMsgKey :: string
  vdMsgA :: string

definition service_detail :: "string \<Rightarrow> string \<Rightarrow> string \<Rightarrow> serviceDetailData" where
  "service_detail stack service tab =
     \<lparr> vdStack = stack, vdService = service, vdFullName = stack @ ''_'' @ service, vdTab = tab, vdSvc = None,
       vdSvcKnown = False, vdTasks = [], vdTasksKnown = False, vdLogs = [], vdLogsKnown = False, vdTailCount = ''200'',
       vdExecRan = False, vdExecExit = 0, vdExecArgv = [], vdExecEmpty = False, vdLogText = [], vdErrKey = [],
       vdErrRaw = [], vdMsgKey = [], vdMsgA = [] \<rparr>"

definition vd_err :: "string \<times> string \<Rightarrow> serviceDetailData \<Rightarrow> serviceDetailData" where
  "vd_err kr d = d\<lparr> vdErrKey := fst kr, vdErrRaw := snd kr \<rparr>"

definition taskState :: "string \<Rightarrow> string \<times> string" where
  "taskState raw =
     (let s = map to_lower raw in
      if s = ''running'' then (''st.running'', ''good'')
      else if s = ''ready'' then (''st.ready'', ''good'')
      else if s \<in> {''complete'', ''completed'', ''shutdown''} then (''st.done'', ''plain'')
      else if s \<in> {''failed'', ''rejected'', ''orphaned''} then (''st.failed'', ''bad'')
      else if s \<in> {''pending'', ''new'', ''allocated'', ''assigned'', ''accepted'', ''preparing'', ''starting''}
      then (''st.pending'', ''info'')
      else if s \<in> {''draining'', ''remove''} then (''st.draining'', ''warn'')
      else ([], ''plain''))"

definition logStream :: "string \<Rightarrow> string \<times> bool" where
  "logStream raw =
     (let s = map to_lower raw in
      if s = ''stdout'' then (''services.exec_stream_stdout'', False)
      else if s = ''stderr'' then (''services.exec_stream_stderr'', True)
      else ([], False))"

definition service_meta :: "'s server \<Rightarrow> string \<Rightarrow> string \<Rightarrow> 's \<Rightarrow> (serviceMeta option \<times> bool) \<times> 's" where
  "service_meta srv stack service s =
     (case pm_ListServices srv stack s of
        (Inl _, s1) \<Rightarrow> ((None, False), s1)
      | (Inr svcs, s1) \<Rightarrow>
         (case find (\<lambda>x. suName x = stack @ ''_'' @ service \<or> suName x = service) svcs of
            None \<Rightarrow> ((None, False), s1)
          | Some x \<Rightarrow>
              ((Some \<lparr> smName = suName x, smImage = suImage x, smMode = suMode x, smUpdated = suUpdated x,
                  smReplicas = suReplicas x, smDesired = suDesired x,
                  smConverged = (suDesired x > 0 \<and> suReplicas x \<ge> suDesired x),
                  smShort = (suReplicas x < suDesired x), smPaused = (suDesired x = 0) \<rparr>, True), s1)))"

definition task_row :: "TaskRun \<Rightarrow> serviceTaskRow" where
  "task_row t =
     (let (key, pill) = taskState (trState t) in
      \<lparr> tkTaskID = trTaskID t, tkNode = trNode t, tkSlot = trSlot t, tkRawState = trState t, tkState = key,
        tkPill = pill, tkError = trError t, tkStarted = trStartedAt t, tkFinished = trFinishedAt t \<rparr>)"

definition load_tasks :: "'s server \<Rightarrow> string \<Rightarrow> string \<Rightarrow> serviceDetailData \<Rightarrow> 's \<Rightarrow> serviceDetailData \<times> 's" where
  "load_tasks srv stack service d s =
     (case pm_ServiceTasks srv stack service s of
        (Inl err, s1) \<Rightarrow>
          (let d1 = d\<lparr> vdTasksKnown := False \<rparr>
           in (if vdErrKey d = [] then vd_err (humanErr ''err.service_tasks'' err) d1 else d1, s1))
      | (Inr rows, s1) \<Rightarrow> (d\<lparr> vdTasksKnown := True, vdTasks := map task_row rows \<rparr>, s1))"

definition with_meta :: "'s server \<Rightarrow> serviceDetailData \<Rightarrow> 's \<Rightarrow> serviceDetailData \<times> 's" where
  "with_meta srv d s =
     (let ((m, known), s1) = service_meta srv (vdStack d) (vdService d) s
      in (d\<lparr> vdSvc := m, vdSvcKnown := known \<rparr>, s1))"

definition logText :: "serviceLogRow list \<Rightarrow> string" where
  "logText rows = join_with [CHR 0x0A] (map lgLine rows)"

definition log_row :: "LogLine \<Rightarrow> serviceLogRow" where
  "log_row l =
     (let (key, isErr) = logStream (llStream l)
      in \<lparr> lgStream = llStream l, lgStreamKey = key, lgLine = llLine l, lgIsErr = isErr \<rparr>)"

definition Services_Page_Tasks ::
  "'s net \<Rightarrow> console_env \<Rightarrow> string \<Rightarrow> string \<Rightarrow> Console \<Rightarrow> 's \<Rightarrow> serviceDetailData \<times> 's" where
  "Services_Page_Tasks net e stack service st s =
     (let srv = api_of net e st; (d, s1) = with_meta srv (service_detail stack service ''tasks'') s
      in load_tasks srv stack service d s1)"

definition Services_Page_Logs ::
  "'s net \<Rightarrow> console_env \<Rightarrow> string \<Rightarrow> string \<Rightarrow> Console \<Rightarrow> 's \<Rightarrow> serviceDetailData \<times> 's" where
  "Services_Page_Logs net e stack service st s =
     (let srv = api_of net e st; (d, s1) = with_meta srv (service_detail stack service ''logs'') s;
          (r, s2) = pm_ServiceLogs srv stack service 200 s1;
          d1 = (case r of
                  Inl err \<Rightarrow> vd_err (humanErr ''err.service_logs'' err) d
                | Inr lines \<Rightarrow> d\<lparr> vdLogsKnown := True, vdLogs := map log_row lines \<rparr>)
      in (d1\<lparr> vdLogText := logText (vdLogs d1) \<rparr>, s2))"

definition Services_Page_Restart ::
  "'s net \<Rightarrow> console_env \<Rightarrow> string \<Rightarrow> string \<Rightarrow> Console \<Rightarrow> 's \<Rightarrow> serviceDetailData \<times> 's" where
  "Services_Page_Restart net e stack service st s =
     (let srv = api_of net e st; (d, s1) = with_meta srv (service_detail stack service ''tasks'') s;
          (r, s2) = pm_RestartService srv stack service s1;
          d1 = (case r of
                  Inl err \<Rightarrow> vd_err (humanErr ''err.service_restart'' err) d
                | Inr _ \<Rightarrow> d\<lparr> vdMsgKey := ''services.restart_msg'', vdMsgA := vdFullName d \<rparr>)
      in load_tasks srv stack service d1 s2)"

text \<open>The words of a command line: white space separates outside double quotes, which are dropped.\<close>

fun split_args :: "string list \<Rightarrow> string \<Rightarrow> bool \<Rightarrow> string \<Rightarrow> string list" where
  "split_args args cur q [] = (if cur \<noteq> [] then args @ [cur] else args)"
| "split_args args cur q (c # cs) =
     (if c = CHR 0x22 then split_args args cur (\<not> q) cs
      else if (c = CHR '' '' \<or> c = CHR 0x09 \<or> c = CHR 0x0A) \<and> \<not> q
      then (if cur \<noteq> [] then split_args (args @ [cur]) [] q cs else split_args args cur q cs)
      else split_args args (cur @ [c]) q cs)"

definition splitArgs :: "string \<Rightarrow> string list" where
  "splitArgs s = split_args [] [] False s"

definition exec_row :: "string \<Rightarrow> string \<Rightarrow> string \<Rightarrow> bool \<Rightarrow> serviceLogRow list" where
  "exec_row stream key line isErr =
     (if line = [] then [] else [\<lparr> lgStream = stream, lgStreamKey = key, lgLine = line, lgIsErr = isErr \<rparr>])"

definition Services_Page_Exec ::
  "'s net \<Rightarrow> console_env \<Rightarrow> string \<Rightarrow> string \<Rightarrow> ui_request \<Rightarrow> Console \<Rightarrow> 's \<Rightarrow> serviceDetailData \<times> 's" where
  "Services_Page_Exec net e stack service rq st s =
     (let srv = api_of net e st; argv = splitArgs (PostForm ''argv'' rq);
          (d0, s1) = with_meta srv (service_detail stack service ''tasks'') s;
          d = d0\<lparr> vdExecArgv := join_with '' '' argv \<rparr>
      in if argv = [] then load_tasks srv stack service (d\<lparr> vdErrKey := ''services.exec_required'' \<rparr>) s1
         else (case pm_ExecService srv stack service argv s1 of
                 (Inl err, s2) \<Rightarrow> load_tasks srv stack service (vd_err (humanErr ''err.service_exec'' err) d) s2
               | (Inr res, s2) \<Rightarrow>
                  (let logs = exec_row ''stdout'' ''services.exec_stream_stdout'' (exStdout res) False
                         @ exec_row ''stderr'' ''services.exec_stream_stderr'' (exStderr res) True
                   in (d\<lparr> vdExecRan := True, vdExecExit := exExitCode res, vdMsgKey := ''services.exec_exit'',
                          vdMsgA := itoa (exExitCode res), vdTab := ''logs'', vdLogsKnown := True, vdLogs := logs,
                          vdExecEmpty := (exStdout res = [] \<and> exStderr res = []), vdLogText := logText logs \<rparr>, s2))))"

section \<open>Facts\<close>

text \<open>Splitting words gives them back when they have no white space and no quote.\<close>

definition plain_word :: "string \<Rightarrow> bool" where
  "plain_word w \<longleftrightarrow> w \<noteq> [] \<and> list_all (\<lambda>c. c \<notin> {CHR 0x22, CHR '' '', CHR 0x09, CHR 0x0A}) w"

lemma split_args_word:
  "list_all (\<lambda>c. c \<notin> {CHR 0x22, CHR '' '', CHR 0x09, CHR 0x0A}) w \<Longrightarrow>
    split_args args cur False (w @ s) = split_args args (cur @ w) False s"
  by (induction w arbitrary: cur) auto

lemma split_args_join:
  "list_all plain_word ws \<Longrightarrow> split_args args [] False (join_with '' '' ws) = args @ ws"
proof (induction ws arbitrary: args)
  case (Cons x xs)
  show ?case
  proof (cases xs)
    case Nil
    then show ?thesis using Cons.prems split_args_word [of x args "[]" "[]"] by (simp add: plain_word_def)
  next
    case (Cons y ys)
    then show ?thesis
      using Cons.prems Cons.IH split_args_word [of x args "[]" "CHR '' '' # join_with '' '' xs"]
      by (simp add: plain_word_def)
  qed
qed simp

lemma splitArgs_join: "list_all plain_word ws \<Longrightarrow> splitArgs (join_with '' '' ws) = ws"
  by (simp add: splitArgs_def split_args_join)

end
