(* ===== verification/Console_Stacks.thy ===== *)
theory Console_Stacks
  imports Console_Services
begin

text \<open>
  The console's pages of stacks (\<^verbatim>\<open>controllers/stacks.go\<close>): the index with its filter, one stack, a
  revision, and the actions redeploy, roll back and delete; and the form that deploys a manifest
  (\<^verbatim>\<open>controllers/deploy.go\<close>).  Replica sums wrap and compare as the signed words of the code.
\<close>

section \<open>The index\<close>

record stackRow =
  srInfo :: StackInfo
  srServices :: int
  srRunning :: "64 word"
  srDesired :: "64 word"

definition stackRow_State :: "stackRow \<Rightarrow> string" where
  "stackRow_State r =
     (if srServices r = 0 then ''none''
      else if sint (srDesired r) > 0 \<and> sint (srRunning r) \<ge> sint (srDesired r) then ''running''
      else ''degraded'')"

record stackData =
  skStacks :: "stackRow list"
  skCount :: int
  skTotal :: int
  skRepoCount :: int
  skTotalServices :: int
  skTotalRunning :: "64 word"
  skTotalDesired :: "64 word"
  skLastUpdated :: int
  skQuery :: string
  skFiltered :: bool
  skKnown :: bool
  skServicesKnown :: bool
  skErrKey :: string
  skErrRaw :: string
  skMsgKey :: string
  skMsgArg0 :: string

definition stack_data :: "string \<Rightarrow> stackData" where
  "stack_data q =
     \<lparr> skStacks = [], skCount = 0, skTotal = 0, skRepoCount = 0, skTotalServices = 0, skTotalRunning = 0,
       skTotalDesired = 0, skLastUpdated = 0, skQuery = q, skFiltered = (q \<noteq> []), skKnown = False,
       skServicesKnown = False, skErrKey = [], skErrRaw = [], skMsgKey = [], skMsgArg0 = [] \<rparr>"

definition stack_row :: "StackInfo \<Rightarrow> stackRow" where
  "stack_row i = \<lparr> srInfo = i, srServices = 0, srRunning = 0, srDesired = 0 \<rparr>"

text \<open>\<^verbatim>\<open>byName\<close> keeps the last row of a name.\<close>

fun count_service :: "ServiceSummary \<Rightarrow> stackRow list \<Rightarrow> stackRow list" where
  "count_service s [] = []"
| "count_service s (r # rs) =
     (if siName (srInfo r) = suStack s \<and> suStack s \<notin> set (map (siName \<circ> srInfo) rs)
      then r\<lparr> srServices := srServices r + 1, srRunning := srRunning r + suReplicas s,
              srDesired := srDesired r + suDesired s \<rparr> # rs
      else r # count_service s rs)"

definition count_services :: "ServiceSummary list \<Rightarrow> stackData \<Rightarrow> stackData" where
  "count_services svcs d =
     d\<lparr> skServicesKnown := True, skTotalServices := int (length svcs),
        skTotalRunning := sum_list (map suReplicas svcs), skTotalDesired := sum_list (map suDesired svcs),
        skStacks := fold count_service svcs (skStacks d) \<rparr>"

definition row_matches :: "string \<Rightarrow> stackRow \<Rightarrow> bool" where
  "row_matches needle r \<longleftrightarrow>
     contains_str (map to_lower (siName (srInfo r))) needle \<or>
     contains_str (map to_lower (siRepoURL (srInfo r))) needle \<or>
     has_prefix (itoa (siCurrentRevision (srInfo r))) needle"

definition filter_stacks :: "stackData \<Rightarrow> stackData" where
  "filter_stacks d =
     (let rows = skStacks d; shown = (if skFiltered d then filter (row_matches (map to_lower (skQuery d))) rows else rows)
      in d\<lparr> skTotal := int (length rows), skStacks := shown, skCount := int (length shown) \<rparr>)"

definition stacksData :: "'s net \<Rightarrow> console_env \<Rightarrow> string \<Rightarrow> Console \<Rightarrow> 's \<Rightarrow> stackData \<times> 's" where
  "stacksData net e q0 st s =
     (let d = stack_data (trim_space q0); srv = api_of net e st in
      if \<not> api_configured e st then (d\<lparr> skErrKey := ''err.api_not_configured'' \<rparr>, s)
      else (case pm_ListStacks srv s of
              (Inl err, s1) \<Rightarrow> (d\<lparr> skErrKey := ''err.stacks'', skErrRaw := pm_text err \<rparr>, s1)
            | (Inr stacks, s1) \<Rightarrow>
               (let d1 = d\<lparr> skKnown := True, skStacks := map stack_row stacks,
                      skRepoCount := int (length (filter (\<lambda>i. siRepoURL i \<noteq> []) stacks)),
                      skLastUpdated := foldl max 0 (map siUpdatedAt stacks) \<rparr>;
                    (r, s2) = pm_ListServices srv [] s1
                in (filter_stacks (case r of Inl _ \<Rightarrow> d1 | Inr svcs \<Rightarrow> count_services svcs d1), s2))))"

section \<open>One stack\<close>

record backupInfo =
  biStatus :: string
  biTone :: string
  biStartedAt :: int
  biFinishedAt :: int
  biRevision :: int
  biErrorMessage :: string

definition backupTone :: "string \<Rightarrow> string" where
  "backupTone status =
     (let s = map to_lower (trim_space status) in
      if s \<in> {''succeeded'', ''success'', ''completed'', ''done'', ''ok''} then ''good''
      else if s \<in> {''failed'', ''error''} then ''bad''
      else if s \<in> {''running'', ''started'', ''pending'', ''queued'', ''in_progress''} then ''warn''
      else ''plain'')"

definition backup_info :: "BackupSummary \<Rightarrow> backupInfo" where
  "backup_info b =
     \<lparr> biStatus = bmStatus b, biTone = backupTone (bmStatus b), biStartedAt = bmStartedAt b,
       biFinishedAt = bmFinishedAt b, biRevision = bmRevision b, biErrorMessage = bmErrorMessage b \<rparr>"

record revRow =
  rrRevision :: int
  rrCreatedAt :: int
  rrCurrent :: bool

record stackDetail =
  skdStack :: StackInfo
  skdRevisions :: "revRow list"
  skdLastBackup :: "backupInfo option"

record stackDetailData =
  dtName :: string
  dtDetail :: "stackDetail option"
  dtServices :: "serviceRow list"
  dtServicesKnown :: bool
  dtErrKey :: string
  dtErrRaw :: string
  dtMsgKey :: string
  dtMsgArg0 :: string
  dtMsgArg1 :: string
  dtMsgArg2 :: string

definition stack_detail_data :: "string \<Rightarrow> stackDetailData" where
  "stack_detail_data name =
     \<lparr> dtName = name, dtDetail = None, dtServices = [], dtServicesKnown = False, dtErrKey = [], dtErrRaw = [],
       dtMsgKey = [], dtMsgArg0 = [], dtMsgArg1 = [], dtMsgArg2 = [] \<rparr>"

definition dt_err :: "string \<Rightarrow> string \<Rightarrow> stackDetailData \<Rightarrow> stackDetailData" where
  "dt_err k raw d = d\<lparr> dtErrKey := k, dtErrRaw := raw \<rparr>"

definition stack_detail :: "string \<Rightarrow> StackDetail \<Rightarrow> stackDetail" where
  "stack_detail name det =
     (let i = sdtStack det in
      \<lparr> skdStack = (if siName i = [] then i\<lparr> siName := name \<rparr> else i),
        skdRevisions = map (\<lambda>(r, created). \<lparr> rrRevision = r, rrCreatedAt = created,
          rrCurrent = (r = siCurrentRevision i) \<rparr>) (sdtRevisions det),
        skdLastBackup = map_option backup_info (sdtLastBackup det) \<rparr>)"

definition loadStack :: "'s net \<Rightarrow> console_env \<Rightarrow> string \<Rightarrow> Console \<Rightarrow> 's \<Rightarrow> stackDetailData \<times> 's" where
  "loadStack net e name st s =
     (let d = stack_detail_data name; srv = api_of net e st in
      if \<not> api_configured e st then (dt_err ''err.api_not_configured'' [] d, s)
      else (case pm_GetStack srv name s of
              (Inl err, s1) \<Rightarrow> (dt_err ''err.stack'' (pm_text err) d, s1)
            | (Inr det, s1) \<Rightarrow>
               (let d1 = d\<lparr> dtDetail := Some (stack_detail name det) \<rparr>;
                    (r, s2) = pm_ListServices srv name s1
                in (case r of
                      Inl _ \<Rightarrow> (d1, s2)
                    | Inr svcs \<Rightarrow> (d1\<lparr> dtServicesKnown := True, dtServices := map service_row svcs \<rparr>, s2)))))"

section \<open>One revision\<close>

record revisionData =
  rdStack :: string
  rdRevision :: int
  rdCreated :: int
  rdSource :: string
  rdRendered :: string
  rdErrKey :: string
  rdErrRaw :: string
  rdSteps :: "string list"

definition revision_data :: "string \<Rightarrow> revisionData" where
  "revision_data name = \<lparr> rdStack = name, rdRevision = 0, rdCreated = 0, rdSource = [], rdRendered = [],
     rdErrKey = [], rdErrRaw = [], rdSteps = [] \<rparr>"

definition canonicalPipelineKeys :: "string list" where
  "canonicalPipelineKeys =
     [''deploy.step_parse'', ''deploy.step_interp'', ''deploy.step_translate'', ''deploy.step_record'', ''deploy.step_apply'']"

text \<open>\<^verbatim>\<open>ceSteps\<close> decodes the list \<^verbatim>\<open>steps\<close> of a stored payload.\<close>

definition revisionSteps :: "console_env \<Rightarrow> string \<Rightarrow> string list" where
  "revisionSteps e payload =
     (case ceSteps e payload of
        Some (x # xs) \<Rightarrow> x # xs
      | _ \<Rightarrow> map (ceTranslate e) canonicalPipelineKeys)"

section \<open>Handlers\<close>

datatype stacks_view = Index stackData | One_Stack stackDetailData | One_Revision revisionData

definition Stacks_Page_List ::
  "'s net \<Rightarrow> console_env \<Rightarrow> ui_request \<Rightarrow> Console \<Rightarrow> 's \<Rightarrow> stacks_view ui_reply \<times> 's" where
  "Stacks_Page_List net e rq st s =
     (case stacksData net e (UrlQuery ''q'' rq) st s of (d, s') \<Rightarrow> (fragment (Index d), s'))"

definition Stacks_Page_Show ::
  "'s net \<Rightarrow> console_env \<Rightarrow> string \<Rightarrow> Console \<Rightarrow> 's \<Rightarrow> stacks_view ui_reply \<times> 's" where
  "Stacks_Page_Show net e name st s = (case loadStack net e name st s of (d, s') \<Rightarrow> (fragment (One_Stack d), s'))"

definition Stacks_Page_Remove ::
  "'s net \<Rightarrow> console_env \<Rightarrow> string \<Rightarrow> ui_request \<Rightarrow> Console \<Rightarrow> 's \<Rightarrow> stacks_view ui_reply \<times> 's" where
  "Stacks_Page_Remove net e name rq st s =
     (let (failed, s1) =
            (if \<not> api_configured e st then (Some (''err.api_not_configured'', []), s)
             else (case pm_DeleteStack (api_of net e st) name s of
                     (Inl err, s1) \<Rightarrow> (Some (''err.stack_remove'', pm_text err), s1)
                   | (Inr _, s1) \<Rightarrow> (None, s1)))
      in case failed of
           Some (k, raw) \<Rightarrow>
             (case loadStack net e name st s1 of (d, s2) \<Rightarrow> (fragment (One_Stack (dt_err k raw d)), s2))
         | None \<Rightarrow>
             (case stacksData net e (UrlQuery ''q'' rq) st s1 of
                (d, s2) \<Rightarrow> (fragment (Index (d\<lparr> skMsgKey := ''stacks.msg_removed'', skMsgArg0 := name \<rparr>)), s2)))"

definition Stacks_Page_Sync ::
  "'s net \<Rightarrow> console_env \<Rightarrow> string \<Rightarrow> Console \<Rightarrow> 's \<Rightarrow> stacks_view ui_reply \<times> 's" where
  "Stacks_Page_Sync net e name st s =
     (let (d, s1) = loadStack net e name st s;
          (d', s2) =
            (if \<not> api_configured e st then (d\<lparr> dtErrKey := ''err.api_not_configured'' \<rparr>, s1)
             else (case pm_SyncStack (api_of net e st) name s1 of
                     (Inl err, s2) \<Rightarrow> (dt_err ''err.stack_sync'' (pm_text err) d, s2)
                   | (Inr (stk, r, changed), s2) \<Rightarrow>
                      ((if changed then d\<lparr> dtMsgKey := ''stack.msg_synced'', dtMsgArg0 := name, dtMsgArg1 := itoa r \<rparr>
                        else d\<lparr> dtMsgKey := ''stack.msg_synced_same'', dtMsgArg0 := name \<rparr>), s2)))
      in (fragment (One_Stack d'), s2))"

definition Stacks_Page_Rollback ::
  "'s net \<Rightarrow> console_env \<Rightarrow> string \<Rightarrow> ui_request \<Rightarrow> Console \<Rightarrow> 's \<Rightarrow> stacks_view ui_reply \<times> 's" where
  "Stacks_Page_Rollback net e name rq st s =
     (let (d, s1) = loadStack net e name st s;
          (d', s2) =
            (case parse_int64 (trim_space (PostForm ''revision'' rq)) of
               None \<Rightarrow> (d\<lparr> dtErrKey := ''stack.err_bad_revision'' \<rparr>, s1)
             | Some r \<Rightarrow>
                if r \<le> 0 then (d\<lparr> dtErrKey := ''stack.err_bad_revision'' \<rparr>, s1)
                else if \<not> api_configured e st then (d\<lparr> dtErrKey := ''err.api_not_configured'' \<rparr>, s1)
                else (case pm_Rollback (api_of net e st) name r s1 of
                        (Inl err, s2) \<Rightarrow> (dt_err ''err.stack_rollback'' (pm_text err) d, s2)
                      | (Inr (stk, current, to), s2) \<Rightarrow>
                          (d\<lparr> dtMsgKey := ''stack.msg_rolled_back'', dtMsgArg0 := name, dtMsgArg1 := itoa to,
                              dtMsgArg2 := itoa current \<rparr>, s2)))
      in (fragment (One_Stack d'), s2))"

definition Stacks_Page_ShowRevision ::
  "'s net \<Rightarrow> console_env \<Rightarrow> string \<Rightarrow> string \<Rightarrow> Console \<Rightarrow> 's \<Rightarrow> stacks_view ui_reply \<times> 's" where
  "Stacks_Page_ShowRevision net e name revParam st s =
     (let d = revision_data name; answer = (\<lambda>d s. (fragment (One_Revision d), s)) in
      if \<not> api_configured e st then answer (d\<lparr> rdErrKey := ''err.api_not_configured'' \<rparr>) s
      else (case parse_int64 (trim_space revParam) of
              None \<Rightarrow> answer (d\<lparr> rdErrKey := ''revision.err_number'' \<rparr>) s
            | Some r \<Rightarrow>
               if r \<le> 0 then answer (d\<lparr> rdErrKey := ''revision.err_number'' \<rparr>) s
               else (case pm_GetRevision (api_of net e st) name r s of
                       (Inl err, s1) \<Rightarrow>
                         answer (d\<lparr> rdRevision := r, rdErrKey := ''err.revision'', rdErrRaw := pm_text err \<rparr>) s1
                     | (Inr rv, s1) \<Rightarrow>
                         answer (d\<lparr> rdStack := rvStackName rv, rdRevision := rvRevision rv, rdCreated := rvCreatedAt rv,
                           rdSource := rvSourceYAML rv, rdRendered := rvRenderedYAML rv,
                           rdSteps := revisionSteps e (rvPayloadJSON rv) \<rparr>) s1)))"

definition Stacks_Page_ShowBackups :: "stacks_view ui_reply" where
  "Stacks_Page_ShowBackups =
     \<lparr> uiStatus = 302, uiHeaders = [(''Location'', WebBase @ ''/backups'')], uiCookie = No_Cookie, uiPage = None \<rparr>"

section \<open>The deploy form\<close>

record deployTarget =
  dpName :: string
  dpRevision :: int
  dpRepoURL :: string
  dpUpdatedAt :: int

record deployData =
  ddForm :: Payload
  ddRequest :: string
  ddTarget :: "deployTarget option"
  ddTargetNamed :: bool
  ddTargetKnown :: bool
  ddStacks :: "deployTarget list"
  ddStacksKnown :: bool
  ddStacksCount :: int
  ddAPIReady :: bool
  ddResult :: "(string \<times> int \<times> bool) option"
  ddErrKey :: string
  ddErrRaw :: string

definition deploy_data :: "Payload \<Rightarrow> deployData" where
  "deploy_data f =
     \<lparr> ddForm = f, ddRequest = [], ddTarget = None, ddTargetNamed = False, ddTargetKnown = False, ddStacks = [],
       ddStacksKnown = False, ddStacksCount = 0, ddAPIReady = False, ddResult = None, ddErrKey = [], ddErrRaw = [] \<rparr>"

text \<open>\<^verbatim>\<open>cePreview\<close> prints an object of text with indentation; the file is not among the fields.\<close>

definition requestBody :: "console_env \<Rightarrow> Payload \<Rightarrow> string" where
  "requestBody e f =
     cePreview e (filter (\<lambda>(k, v). v \<noteq> []) [(''app_name'', plAppName f), (''repo_url'', plRepoURL f),
       (''version'', plVersion f)] @ [(''manifest'', plManifest f)])"

definition deploy_row :: "StackInfo \<Rightarrow> deployTarget" where
  "deploy_row i = \<lparr> dpName = siName i, dpRevision = siCurrentRevision i, dpRepoURL = siRepoURL i,
     dpUpdatedAt = siUpdatedAt i \<rparr>"

definition last_target :: "string \<Rightarrow> deployTarget list \<Rightarrow> deployTarget option" where
  "last_target name rows = find (\<lambda>r. dpName r = name) (List.rev rows)"

definition load_deploy ::
  "'s net \<Rightarrow> console_env \<Rightarrow> pm_client \<Rightarrow> deployData \<Rightarrow> 's \<Rightarrow> deployData \<times> 's" where
  "load_deploy net e cl d0 s =
     (let named = trim_space (plAppName (ddForm d0)) \<noteq> [];
          d = d0\<lparr> ddRequest := requestBody e (ddForm d0), ddTargetNamed := named, ddAPIReady := Configured cl \<rparr>
      in if \<not> Configured cl then (d, s)
         else (case pm_ListStacks (net (pcBase cl) (pcTok cl)) s of
                 (Inl err, s1) \<Rightarrow>
                   ((if ddErrKey d = [] then d\<lparr> ddErrKey := ''deploy.err_stacks'', ddErrRaw := pm_text err \<rparr> else d), s1)
               | (Inr stacks, s1) \<Rightarrow>
                  (let rows = map deploy_row stacks
                   in (d\<lparr> ddStacksKnown := True, ddStacksCount := int (length stacks), ddStacks := rows,
                          ddTarget := (if named then last_target (plAppName (ddForm d)) rows else None),
                          ddTargetKnown := named \<rparr>, s1))))"

definition shared_client :: "ui_request \<Rightarrow> pm_client" where
  "shared_client rq = \<lparr> pcBase = uqBase rq, pcTok = uqTok rq \<rparr>"

definition Deploy_Page_Form ::
  "'s net \<Rightarrow> console_env \<Rightarrow> ui_request \<Rightarrow> 's \<Rightarrow> deployData \<times> 's" where
  "Deploy_Page_Form net e rq s =
     load_deploy net e (shared_client rq)
       (deploy_data \<lparr> plAppName = UrlQuery ''app'' rq, plRepoURL = UrlQuery ''repo'' rq, plFile = UrlQuery ''file'' rq,
         plVersion = UrlQuery ''version'' rq, plManifest = [] \<rparr>) s"

definition deploy_form :: "ui_request \<Rightarrow> Payload" where
  "deploy_form rq =
     \<lparr> plAppName = PostForm ''app_name'' rq, plRepoURL = PostForm ''repo_url'' rq, plFile = PostForm ''file'' rq,
       plVersion = PostForm ''version'' rq, plManifest = PostForm ''manifest'' rq \<rparr>"

definition Deploy_Page_Submit ::
  "'s net \<Rightarrow> console_env \<Rightarrow> ui_request \<Rightarrow> Console \<Rightarrow> 's \<Rightarrow> deployData \<times> 's" where
  "Deploy_Page_Submit net e rq st s =
     (let f = deploy_form rq;
          d = deploy_data f\<lparr> ddAPIReady := api_configured e st \<rparr>;
          (d1, s1) =
            (if \<not> api_configured e st then (d\<lparr> ddErrKey := ''err.api_not_configured'' \<rparr>, s)
             else if trim_space (plManifest f) = [] then (d\<lparr> ddErrKey := ''deploy.err_manifest'' \<rparr>, s)
             else (case pm_Deploy (api_of net e st) f s of
                     (Inl err, s1) \<Rightarrow> (d\<lparr> ddErrKey := ''deploy.err_deploy'', ddErrRaw := pm_text err \<rparr>, s1)
                   | (Inr res, s1) \<Rightarrow> (d\<lparr> ddResult := Some res \<rparr>, s1)))
      in load_deploy net e (client_of e st) d1 s1)"

end
