(* ===== verification/Console_Operations.thy ===== *)
theory Console_Operations
  imports Console_Stacks
begin

text \<open>
  The console's pages of deploy webhooks (\<^verbatim>\<open>controllers/webhooks.go\<close>), backups
  (\<^verbatim>\<open>controllers/backups.go\<close>), and the usage of configs and secrets (\<^verbatim>\<open>controllers/usage.go\<close>).  The webhook
  pages take the shared client as the request finds it; with no address the daemon at the empty base
  stands for the failed call.
\<close>

section \<open>Escapes in paths\<close>

fun path_unescape :: "string \<Rightarrow> string option" where
  "path_unescape [] = Some []"
| "path_unescape (c # cs) =
     (if c = CHR ''%''
      then (case cs of
              a # b # r \<Rightarrow>
                (case (hex_val a, hex_val b) of
                   (Some x, Some y) \<Rightarrow> map_option ((#) (char_of (16 * x + y))) (path_unescape r)
                 | _ \<Rightarrow> None)
            | _ \<Rightarrow> None)
      else map_option ((#) c) (path_unescape cs))"

definition upper_hex :: "nat \<Rightarrow> char" where
  "upper_hex n = ''0123456789ABCDEF'' ! n"

definition path_escape :: "string \<Rightarrow> string" where
  "path_escape s =
     concat (map (\<lambda>c.
       (if is_alnum c \<or> c \<in> set ''-_.~$&+=:@'' then [c]
        else [CHR ''%'', upper_hex (of_char c div 16), upper_hex (of_char c mod 16)])) s)"

definition param_unescape :: "string \<Rightarrow> string" where
  "param_unescape s = (case path_unescape s of Some u \<Rightarrow> u | None \<Rightarrow> s)"

section \<open>Webhooks\<close>

record webhookRow =
  hrSource :: string
  hrDescription :: string
  hrCreatedAt :: int
  hrLastUsedAt :: int
  hrEndpoint :: string

record webhooksData =
  hdSources :: "webhookRow list"
  hdKnown :: bool
  hdConfigured :: bool
  hdCount :: int
  hdBase :: string
  hdSecret :: string
  hdSecretSource :: string
  hdSecretEndpt :: string
  hdDomainKnown :: bool
  hdForm :: "string \<times> string"
  hdErrKey :: string
  hdErrRaw :: string
  hdMsgKey :: string
  hdMsgArg :: string

definition webhooks_data :: "console_env \<Rightarrow> bool \<Rightarrow> webhooksData" where
  "webhooks_data e configured =
     \<lparr> hdSources = [], hdKnown = False, hdConfigured = configured, hdCount = 0, hdBase = [], hdSecret = [],
       hdSecretSource = [], hdSecretEndpt = [], hdDomainKnown = (ceDomain e \<noteq> []), hdForm = ([], []),
       hdErrKey = [], hdErrRaw = [], hdMsgKey = [], hdMsgArg = [] \<rparr>"

definition hd_err :: "string \<Rightarrow> string \<Rightarrow> webhooksData \<Rightarrow> webhooksData" where
  "hd_err k raw d = d\<lparr> hdErrKey := k, hdErrRaw := raw \<rparr>"

definition endpointBase :: "console_env \<Rightarrow> string" where
  "endpointBase e =
     (let d = trim_space (ceDomain e) in
      if d = [] then []
      else if contains_str d ''://'' then trim_suffix d ''/''
      else ''https://'' @ trim_suffix d ''/'')"

definition endpointFor :: "string \<Rightarrow> string \<Rightarrow> string" where
  "endpointFor base source = (if base = [] then [] else base @ ''/webhook/'' @ path_escape source)"

definition webhook_row :: "string \<Rightarrow> Source \<Rightarrow> webhookRow" where
  "webhook_row base s =
     \<lparr> hrSource = soSource s, hrDescription = soDescription s, hrCreatedAt = soCreatedAt s,
       hrLastUsedAt = soLastUsedAt s, hrEndpoint = endpointFor base (soSource s) \<rparr>"

definition load_webhooks :: "'s server \<Rightarrow> console_env \<Rightarrow> webhooksData \<Rightarrow> 's \<Rightarrow> webhooksData \<times> 's" where
  "load_webhooks srv e d0 s =
     (let base = endpointBase e; d = d0\<lparr> hdBase := base \<rparr> in
      (case pm_ListWebhooks srv s of
         (Inl err, s1) \<Rightarrow> ((if hdErrKey d = [] then hd_err ''webhooks.err_list'' (pm_text err) d else d), s1)
       | (Inr srcs, s1) \<Rightarrow>
           (d\<lparr> hdKnown := True, hdCount := int (length srcs), hdSources := map (webhook_row base) srcs \<rparr>, s1)))"

definition client_server :: "'s net \<Rightarrow> ui_request \<Rightarrow> 's server" where
  "client_server net rq = net (uqBase rq) (uqTok rq)"

definition Webhooks_Page_Show :: "'s net \<Rightarrow> console_env \<Rightarrow> ui_request \<Rightarrow> 's \<Rightarrow> webhooksData \<times> 's" where
  "Webhooks_Page_Show net e rq s =
     load_webhooks (client_server net rq) e (webhooks_data e (Configured (shared_client rq))) s"

definition Webhooks_Page_Add :: "'s net \<Rightarrow> console_env \<Rightarrow> ui_request \<Rightarrow> 's \<Rightarrow> webhooksData \<times> 's" where
  "Webhooks_Page_Add net e rq s =
     (let srv = client_server net rq; source = PostForm ''source'' rq; description = PostForm ''description'' rq;
          d = webhooks_data e (Configured (shared_client rq))\<lparr> hdForm := (source, description) \<rparr>;
          (d1, s1) =
            (if \<not> hdConfigured d then (hd_err ''err.api_not_configured'' [] d, s)
             else if trim_space source = [] then (hd_err ''webhooks.err_source'' [] d, s)
             else (case pm_CreateWebhook srv source description s of
                     (Inl err, s1) \<Rightarrow> (hd_err ''webhooks.err_create'' (pm_text err) d, s1)
                   | (Inr (name, secret), s1) \<Rightarrow>
                       (d\<lparr> hdSecret := secret, hdSecretSource := name, hdSecretEndpt := endpointFor (endpointBase e) name,
                           hdMsgKey := ''webhooks.msg_created'', hdMsgArg := name \<rparr>, s1)))
      in load_webhooks srv e d1 s1)"

definition Webhooks_Page_Remove :: "'s net \<Rightarrow> console_env \<Rightarrow> string \<Rightarrow> ui_request \<Rightarrow> 's \<Rightarrow> webhooksData \<times> 's" where
  "Webhooks_Page_Remove net e sourceParam rq s =
     (let srv = client_server net rq; source = param_unescape sourceParam;
          d = webhooks_data e (Configured (shared_client rq));
          (d1, s1) =
            (if \<not> hdConfigured d then (hd_err ''err.api_not_configured'' [] d, s)
             else if source = [] then (hd_err ''webhooks.err_remove'' ''empty source in request path'' d, s)
             else (case pm_DeleteWebhook srv source s of
                     (Inl err, s1) \<Rightarrow> (hd_err ''webhooks.err_remove'' (pm_text err) d, s1)
                   | (Inr _, s1) \<Rightarrow> (d\<lparr> hdMsgKey := ''webhooks.msg_removed'', hdMsgArg := source \<rparr>, s1)))
      in load_webhooks srv e d1 s1)"

definition webhookDeliveryLimit :: int where "webhookDeliveryLimit = 50"

record deliveryRow =
  lrDelivery :: WebhookDelivery
  lrStateKey :: string
  lrPill :: string

definition deliveryStatusKey :: "string \<Rightarrow> string \<times> string" where
  "deliveryStatusKey status =
     (let s = map to_lower (trim_space status) in
      if s \<in> {''accepted'', ''ok'', ''success'', ''succeeded'', ''delivered''}
      then (''webhookdeliveries.status_accepted'', ''good'')
      else if s \<in> {''unauthorized'', ''rejected'', ''bad_signature'', ''invalid_signature''}
      then (''webhookdeliveries.status_unauthorized'', ''warn'')
      else if s \<in> {''error'', ''failed'', ''failure''} then (''webhookdeliveries.status_error'', ''bad'')
      else ([], ''plain''))"

definition delivery_row :: "WebhookDelivery \<Rightarrow> deliveryRow" where
  "delivery_row d =
     (let (key, pill) = deliveryStatusKey (wdStatus d) in \<lparr> lrDelivery = d, lrStateKey = key, lrPill = pill \<rparr>)"

record deliveriesData =
  ldSource :: string
  ldConfigured :: bool
  ldDeliveries :: "deliveryRow list"
  ldDeliveriesKnown :: bool
  ldErrKey :: string
  ldErrRaw :: string

definition Webhooks_Page_Deliveries ::
  "'s net \<Rightarrow> console_env \<Rightarrow> string \<Rightarrow> Console \<Rightarrow> 's \<Rightarrow> deliveriesData \<times> 's" where
  "Webhooks_Page_Deliveries net e source st s =
     (let d = \<lparr> ldSource = source, ldConfigured = api_configured e st, ldDeliveries = [], ldDeliveriesKnown = False,
                ldErrKey = [], ldErrRaw = [] \<rparr>
      in if \<not> api_configured e st then (d\<lparr> ldErrKey := ''err.api_not_configured'' \<rparr>, s)
         else (case pm_ListWebhookDeliveries (api_of net e st) source webhookDeliveryLimit s of
                 (Inl err, s1) \<Rightarrow> (d\<lparr> ldErrKey := ''err.webhook_deliveries'', ldErrRaw := pm_text err \<rparr>, s1)
               | (Inr ds, s1) \<Rightarrow> (d\<lparr> ldDeliveries := map delivery_row ds, ldDeliveriesKnown := True \<rparr>, s1)))"

section \<open>The state of a backup\<close>

definition backupsListLimit :: int where "backupsListLimit = 50"
definition coverageStackCap :: nat where "coverageStackCap = 40"
definition backupStaleDays :: int where "backupStaleDays = 7"

definition backupState :: "Run \<Rightarrow> string \<times> string \<times> bool" where
  "backupState b =
     (let s = map to_lower (trim_space (runStatus b)) in
      if runFinishedAt b = 0 \<and> s \<in> {[], ''running'', ''pending'', ''started'', ''in_progress''}
      then (''st.running'', ''info'', True)
      else if s \<in> {''succeeded'', ''success'', ''ok'', ''done'', ''completed''}
      then (if runArchivePaths b \<noteq> [] then (''st.verified'', ''good'', False) else (''st.incomplete'', ''warn'', False))
      else if s \<in> {''failed'', ''error''} then (''st.failed'', ''bad'', False)
      else if s \<in> {''partial'', ''incomplete''} then (''st.incomplete'', ''warn'', False)
      else ([], ''plain'', False))"

definition rowsCoverCluster :: "Run list \<Rightarrow> int \<Rightarrow> bool" where
  "rowsCoverCluster rows verifiedAt =
     (case find (\<lambda>r. runStartedAt r = verifiedAt) rows of
        None \<Rightarrow> False
      | Some r \<Rightarrow> fst (backupState r) = ''st.verified'' \<and> runStackName r = [])"

record backupRunRow =
  brwRun :: Run
  brwStateKey :: string
  brwPill :: string
  brwCluster :: bool
  brwDurationSeconds :: int
  brwRunning :: bool
  brwArchives :: int
  brwArchivePaths :: string

definition backupRunRowFrom :: "Run \<Rightarrow> backupRunRow" where
  "backupRunRowFrom b =
     (let (key, pill, running) = backupState b in
      \<lparr> brwRun = b, brwStateKey = key, brwPill = pill, brwCluster = (runStackName b = []),
        brwDurationSeconds = (if running then 0
          else if runFinishedAt b > runStartedAt b \<and> runStartedAt b > 0 then runFinishedAt b - runStartedAt b else 0),
        brwRunning = running, brwArchives = int (length (runArchivePaths b)),
        brwArchivePaths = join_with [CHR 0x0A] (runArchivePaths b) \<rparr>)"

definition daysAgo :: "int \<Rightarrow> int \<Rightarrow> int" where
  "daysAgo now ts = (if ts \<le> 0 then 0 else if now < ts then 0 else (now - ts) div 86400)"

text \<open>The first of the runs that started last, if it started at zero or later.\<close>

definition newest_run_step :: "Run option \<times> int \<Rightarrow> Run \<Rightarrow> Run option \<times> int" where
  "newest_run_step acc r = (if runStartedAt r > snd acc then (Some r, runStartedAt r) else acc)"

definition newest :: "Run list \<Rightarrow> Run option" where
  "newest rows = fst (foldl newest_run_step (None, - 1) rows)"

section \<open>Coverage\<close>

record backupCoverageRow =
  cvStack :: string
  cvCurrent :: int
  cvLastRevision :: int
  cvHasLast :: bool
  cvStateKey :: string
  cvPill :: string
  cvVerified :: bool
  cvLastAt :: int
  cvHasLastAt :: bool
  cvAgeDays :: int
  cvStale :: bool
  cvUnreadable :: bool

definition coverage_row :: "StackInfo \<Rightarrow> backupCoverageRow" where
  "coverage_row i =
     \<lparr> cvStack = siName i, cvCurrent = siCurrentRevision i, cvLastRevision = 0, cvHasLast = False, cvStateKey = [],
       cvPill = [], cvVerified = False, cvLastAt = 0, cvHasLastAt = False, cvAgeDays = 0, cvStale = False,
       cvUnreadable = False \<rparr>"

definition is_verified :: "Run \<Rightarrow> bool" where
  "is_verified r \<longleftrightarrow> fst (backupState r) = ''st.verified''"

text \<open>What is known of a stack whose runs were read.\<close>

definition judge_coverage :: "int \<Rightarrow> StackInfo \<Rightarrow> Run list \<Rightarrow> backupCoverageRow" where
  "judge_coverage now i rows =
     (let row = coverage_row i;
          row1 = (case newest rows of
                    None \<Rightarrow> row
                  | Some l \<Rightarrow> row\<lparr> cvLastAt := runStartedAt l, cvHasLastAt := (runStartedAt l > 0),
                      cvAgeDays := daysAgo now (runStartedAt l), cvStale := (daysAgo now (runStartedAt l) > backupStaleDays) \<rparr>);
          best = newest (filter is_verified rows);
          row2 = (case best of None \<Rightarrow> row1 | Some v \<Rightarrow> row1\<lparr> cvHasLast := True, cvLastRevision := runRevision v \<rparr>)
      in case best of
           Some v \<Rightarrow>
             if rowsCoverCluster rows (runStartedAt v) \<or> runRevision v = siCurrentRevision i
             then row2\<lparr> cvStateKey := ''backups.coverage_verified'', cvPill := ''good'', cvVerified := True \<rparr>
             else row2\<lparr> cvStateKey := ''backups.coverage_behind'', cvPill := ''warn'' \<rparr>
         | None \<Rightarrow>
             if list_ex (\<lambda>r. fst (backupState r) = ''st.failed'') rows
             then row2\<lparr> cvStateKey := ''backups.coverage_failed'', cvPill := ''bad'' \<rparr>
             else if \<not> list_ex is_verified rows
             then (let row3 = row2\<lparr> cvStateKey := ''backups.coverage_none'', cvPill := ''bad'' \<rparr>
                   in if rows = [] then row3\<lparr> cvHasLastAt := False, cvStale := False \<rparr> else row3)
             else row2)"

record backupsData =
  bdRuns :: "backupRunRow list"
  bdRunsKnown :: bool
  bdRunCount :: int
  bdCoverage :: "backupCoverageRow list"
  bdCoverageKnown :: bool
  bdCoveragePartial :: bool
  bdChecked :: int
  bdStackCount :: int
  bdUnchecked :: int
  bdLastVerifiedDays :: int
  bdHasLastVerified :: bool
  bdAtRisk :: int
  bdStale :: int
  bdErrKey :: string
  bdErrRaw :: string
  bdMsgKey :: string

definition backups_data :: backupsData where
  "backups_data =
     \<lparr> bdRuns = [], bdRunsKnown = False, bdRunCount = 0, bdCoverage = [], bdCoverageKnown = False,
       bdCoveragePartial = False, bdChecked = 0, bdStackCount = 0, bdUnchecked = 0, bdLastVerifiedDays = 0,
       bdHasLastVerified = False, bdAtRisk = 0, bdStale = 0, bdErrKey = [], bdErrRaw = [], bdMsgKey = [] \<rparr>"

definition bd_err :: "string \<times> string \<Rightarrow> backupsData \<Rightarrow> backupsData" where
  "bd_err kr d = d\<lparr> bdErrKey := fst kr, bdErrRaw := snd kr \<rparr>"

definition cover_stack :: "'s server \<Rightarrow> int \<Rightarrow> StackInfo \<Rightarrow> backupsData \<Rightarrow> 's \<Rightarrow> backupsData \<times> 's" where
  "cover_stack srv now i d s =
     (case pm_ListStackBackups srv (siName i) s of
        (Inl err, s1) \<Rightarrow>
          (d\<lparr> bdCoveragePartial := True, bdCoverage := bdCoverage d @ [coverage_row i\<lparr> cvUnreadable := True,
              cvStateKey := ''backups.coverage_unknown'', cvPill := ''warn'' \<rparr>] \<rparr>, s1)
      | (Inr rows, s1) \<Rightarrow>
         (let row = judge_coverage now i rows
          in (d\<lparr> bdAtRisk := bdAtRisk d + (if cvVerified row then 0 else 1),
                 bdStale := bdStale d + (if cvStale row then 1 else 0), bdCoverage := bdCoverage d @ [row] \<rparr>, s1)))"

fun cover_stacks :: "'s server \<Rightarrow> int \<Rightarrow> StackInfo list \<Rightarrow> backupsData \<Rightarrow> 's \<Rightarrow> backupsData \<times> 's" where
  "cover_stacks srv now [] d s = (d, s)"
| "cover_stacks srv now (i # is) d s = (case cover_stack srv now i d s of (d', s') \<Rightarrow> cover_stacks srv now is d' s')"

definition page_coverage :: "'s server \<Rightarrow> int \<Rightarrow> backupsData \<Rightarrow> 's \<Rightarrow> backupsData \<times> 's" where
  "page_coverage srv now d s =
     (case pm_ListStacks srv s of
        (Inl err, s1) \<Rightarrow> ((if bdErrKey d = [] then bd_err (humanErr ''err.backups_coverage'' err) d else d), s1)
      | (Inr stacks, s1) \<Rightarrow>
         (let over = length stacks > coverageStackCap; seen = take coverageStackCap stacks
          in cover_stacks srv now seen
               (d\<lparr> bdCoverageKnown := True, bdStackCount := int (length stacks),
                   bdCoveragePartial := (over \<or> bdCoveragePartial d),
                   bdUnchecked := (if over then int (length stacks - coverageStackCap) else 0),
                   bdChecked := int (length seen) \<rparr>) s1))"

text \<open>The age of the last verified run: an age of zero counts as none yet.\<close>

definition verified_step :: "int \<Rightarrow> backupsData \<Rightarrow> backupRunRow \<Rightarrow> backupsData" where
  "verified_step now d r =
     (if brwStateKey r = ''st.verified''
      then (let age = daysAgo now (runStartedAt (brwRun r)) in
            d\<lparr> bdHasLastVerified := True,
               bdLastVerifiedDays := (if age < bdLastVerifiedDays d \<or> bdLastVerifiedDays d = 0 then age
                 else bdLastVerifiedDays d) \<rparr>)
      else d)"

definition load_backups :: "'s server \<Rightarrow> int \<Rightarrow> backupsData \<Rightarrow> 's \<Rightarrow> backupsData \<times> 's" where
  "load_backups srv now d s =
     (let (r, s1) = pm_ListBackups srv backupsListLimit s;
          d1 = (case r of
                  Inl err \<Rightarrow> (if bdErrKey d = [] then bd_err (humanErr ''err.backups'' err) d else d)
                | Inr rows \<Rightarrow>
                   (let runs = map backupRunRowFrom rows
                    in foldl (verified_step now)
                         (d\<lparr> bdRunsKnown := True, bdRuns := runs, bdRunCount := int (length runs) \<rparr>) runs))
      in page_coverage srv now d1 s1)"

definition Backups_Page_List ::
  "'s net \<Rightarrow> console_env \<Rightarrow> ui_request \<Rightarrow> Console \<Rightarrow> 's \<Rightarrow> backupsData \<times> 's" where
  "Backups_Page_List net e rq st s =
     (if \<not> api_configured e st then (backups_data\<lparr> bdErrKey := errKeyNotConfigured \<rparr>, s)
      else load_backups (api_of net e st) (uqNow rq) backups_data s)"

definition Backups_Page_Create ::
  "'s net \<Rightarrow> console_env \<Rightarrow> ui_request \<Rightarrow> Console \<Rightarrow> 's \<Rightarrow> backupsData \<times> 's" where
  "Backups_Page_Create net e rq st s =
     (if \<not> api_configured e st then (backups_data\<lparr> bdErrKey := errKeyNotConfigured \<rparr>, s)
      else let srv = api_of net e st; (r, s1) = pm_CreateBackup srv s;
               d = (case r of Inl err \<Rightarrow> bd_err (humanErr ''err.backup_create'' err) backups_data
                    | Inr _ \<Rightarrow> backups_data\<lparr> bdMsgKey := ''backups.msg_triggered'' \<rparr>)
           in load_backups srv (uqNow rq) d s1)"

section \<open>The files of a backup\<close>

definition backupRestoreRoot :: string where "backupRestoreRoot = ''/var/stack/data''"

record backupBrowseData =
  bbID :: int
  bbRun :: "Run option"
  bbFiles :: "FileEntry list"
  bbKnown :: bool
  bbCount :: int
  bbStateKey :: string
  bbPill :: string
  bbRestorable :: bool
  bbDestRoot :: string
  bbErrKey :: string
  bbErrRaw :: string
  bbMsgKey :: string
  bbMsgCount :: int
  bbMsgPath :: string

definition browse_data :: backupBrowseData where
  "browse_data =
     \<lparr> bbID = 0, bbRun = None, bbFiles = [], bbKnown = False, bbCount = 0, bbStateKey = [], bbPill = [],
       bbRestorable = False, bbDestRoot = [], bbErrKey = [], bbErrRaw = [], bbMsgKey = [], bbMsgCount = 0, bbMsgPath = [] \<rparr>"

definition browseParams ::
  "'s net \<Rightarrow> console_env \<Rightarrow> string \<Rightarrow> Console \<Rightarrow> 's \<Rightarrow> (backupBrowseData \<times> bool) \<times> 's" where
  "browseParams net e idParam st s =
     (if \<not> api_configured e st then ((browse_data\<lparr> bbErrKey := ''err.api_not_configured'' \<rparr>, False), s)
      else (case parse_int64 (trim_space idParam) of
              None \<Rightarrow> ((browse_data\<lparr> bbErrKey := ''backupbrowse.err_id'' \<rparr>, False), s)
            | Some i \<Rightarrow>
               if i \<le> 0 then ((browse_data\<lparr> bbErrKey := ''backupbrowse.err_id'' \<rparr>, False), s)
               else (case pm_GetClusterSettings (api_of net e st) s of
                       (r, s1) \<Rightarrow>
                         (let vr = (case r of Inl _ \<Rightarrow> []
                                    | Inr cs \<Rightarrow> (case map_of cs ''volume_root'' of None \<Rightarrow> [] | Some v \<Rightarrow> trim_space v))
                          in ((browse_data\<lparr> bbID := i, bbDestRoot := (if vr \<noteq> [] then vr else backupRestoreRoot) \<rparr>,
                               True), s1)))))"

definition loadBrowse :: "'s server \<Rightarrow> backupBrowseData \<Rightarrow> 's \<Rightarrow> backupBrowseData \<times> 's" where
  "loadBrowse srv d s =
     (case pm_BrowseBackup srv (bbID d) s of
        (Inl err, s1) \<Rightarrow>
          ((if bbErrKey d = [] then d\<lparr> bbErrKey := ''err.backup_browse'', bbErrRaw := pm_text err \<rparr> else d), s1)
      | (Inr (run, files), s1) \<Rightarrow>
         (let d1 = d\<lparr> bbRun := run, bbFiles := files, bbKnown := True, bbCount := int (length files) \<rparr>
          in (case run of
                None \<Rightarrow> (d1, s1)
              | Some b \<Rightarrow>
                 (let (key, pill, _) = backupState b
                  in (d1\<lparr> bbStateKey := key, bbPill := pill,
                         bbRestorable := (runFinishedAt b > 0 \<and> (key = ''st.verified'' \<or> key = ''st.incomplete'')) \<rparr>, s1)))))"

definition Backups_Page_Browse ::
  "'s net \<Rightarrow> console_env \<Rightarrow> string \<Rightarrow> Console \<Rightarrow> 's \<Rightarrow> backupBrowseData \<times> 's" where
  "Backups_Page_Browse net e idParam st s =
     (case browseParams net e idParam st s of
        ((d, ok), s1) \<Rightarrow> if \<not> ok then (d, s1) else loadBrowse (api_of net e st) d s1)"

definition Backups_Page_Restore ::
  "'s net \<Rightarrow> console_env \<Rightarrow> string \<Rightarrow> Console \<Rightarrow> 's \<Rightarrow> backupBrowseData \<times> 's" where
  "Backups_Page_Restore net e idParam st s =
     (case browseParams net e idParam st s of
        ((d, ok), s1) \<Rightarrow>
          if \<not> ok then (d, s1)
          else (case pm_RestoreBackup (api_of net e st) (bbID d) (bbDestRoot d) s1 of
                  (Inl err, s2) \<Rightarrow>
                    loadBrowse (api_of net e st) (d\<lparr> bbErrKey := ''err.backup_restore'', bbErrRaw := pm_text err \<rparr>) s2
                | (Inr n, s2) \<Rightarrow>
                    loadBrowse (api_of net e st)
                      (d\<lparr> bbMsgKey := ''backupbrowse.restored'', bbMsgCount := n, bbMsgPath := backupRestoreRoot \<rparr>) s2))"

section \<open>Usage\<close>

record usageRow =
  urwName :: string
  urwStacks :: "string list"
  urwCount :: int
  urwUnused :: bool

record usageGroup =
  ugpRows :: "usageRow list"
  ugpTotal :: int
  ugpUnused :: int

record usageData =
  udConfigs :: usageGroup
  udSecrets :: usageGroup
  udKnown :: bool
  udUnused :: int
  udErrKey :: string
  udErrRaw :: string

definition empty_group :: usageGroup where
  "empty_group = \<lparr> ugpRows = [], ugpTotal = 0, ugpUnused = 0 \<rparr>"

definition countUnused :: "usageRow list \<Rightarrow> int" where
  "countUnused rows = int (length (filter urwUnused rows))"

definition usage_row :: "string \<times> string list \<Rightarrow> usageRow" where
  "usage_row p = \<lparr> urwName = fst p, urwStacks = sort (snd p), urwCount = int (length (snd p)), urwUnused = (snd p = []) \<rparr>"

definition usageGroupRows :: "(string \<times> string list) list \<Rightarrow> usageGroup" where
  "usageGroupRows m =
     (let rows = sort_key urwName (map usage_row m)
      in \<lparr> ugpRows = rows, ugpTotal = int (length rows), ugpUnused = countUnused rows \<rparr>)"

definition Usage_Page_Show :: "'s net \<Rightarrow> console_env \<Rightarrow> Console \<Rightarrow> 's \<Rightarrow> usageData \<times> 's" where
  "Usage_Page_Show net e st s =
     (let d = \<lparr> udConfigs = empty_group, udSecrets = empty_group, udKnown = False, udUnused = 0, udErrKey = [],
                udErrRaw = [] \<rparr>
      in if \<not> api_configured e st then (d\<lparr> udErrKey := ''err.api_not_configured'' \<rparr>, s)
         else (case pm_GetUsage (api_of net e st) s of
                 (Inl err, s1) \<Rightarrow> (d\<lparr> udErrKey := ''err.usage'', udErrRaw := pm_text err \<rparr>, s1)
               | (Inr u, s1) \<Rightarrow>
                  (let cs = usageGroupRows (ugConfigs u); ss = usageGroupRows (ugSecrets u)
                   in (d\<lparr> udKnown := True, udConfigs := cs, udSecrets := ss, udUnused := ugpUnused cs + ugpUnused ss \<rparr>, s1))))"

end
