(* ===== verification/Console_Certificates.thy ===== *)
theory Console_Certificates
  imports Console_Operations
begin

text \<open>
  The console's pages of certificates (\<^verbatim>\<open>controllers/tls.go\<close>) and its overview of the cluster
  (\<^verbatim>\<open>controllers/overview.go\<close>).  \<^verbatim>\<open>ceTime\<close> reads a timestamp as seconds.
\<close>

section \<open>A certificate\<close>

record tlsCertRow =
  twCert :: PmCert
  twExpiresKnown :: bool
  twDaysLeft :: int
  twAbsDays :: int
  twExpiring :: bool
  twExpired :: bool
  twSANCount :: int
  twSANList :: string
  twCoversHost :: bool

definition expiryWarnDays :: int where "expiryWarnDays = 30"

text \<open>Whole days, cut toward zero as the conversion of a float does.\<close>

definition trunc_days :: "int \<Rightarrow> int" where
  "trunc_days x = (if x \<ge> 0 then x div 86400 else - ((- x) div 86400))"

definition expiry :: "console_env \<Rightarrow> int \<Rightarrow> string \<Rightarrow> int \<times> bool \<times> bool \<times> bool" where
  "expiry e now t =
     (if trim_space t = [] then (0, False, False, False)
      else (case ceTime e t of
              None \<Rightarrow> (0, False, False, False)
            | Some at \<Rightarrow> (let d = trunc_days (at - now) in (d, d \<le> expiryWarnDays, d < 0, True))))"

fun sansCover :: "string list \<Rightarrow> string \<Rightarrow> bool" where
  "sansCover [] host = False"
| "sansCover (s0 # ss) host0 =
     (if host0 = [] then False
      else let host = map to_lower host0; s = map to_lower (trim_space s0) in
        if s = host then True
        else if has_prefix s ''*.'' \<and> has_suffix host (tl s) \<and>
                length (filter (\<lambda>c. c = CHR ''.'') host) = length (filter (\<lambda>c. c = CHR ''.'') (tl s))
        then True
        else sansCover ss host0)"

definition tls_cert_row :: "console_env \<Rightarrow> int \<Rightarrow> bool \<Rightarrow> PmCert \<Rightarrow> tlsCertRow" where
  "tls_cert_row e now covers c =
     (let (days, expiring, expired, known) = expiry e now (pcNotAfter c) in
      \<lparr> twCert = c, twExpiresKnown = known, twDaysLeft = days, twAbsDays = \<bar>days\<bar>, twExpiring = expiring,
        twExpired = expired, twSANCount = int (length (pcSANs c)), twSANList = join_with '', '' (pcSANs c),
        twCoversHost = covers \<rparr>)"

definition siteCertRow :: "console_env \<Rightarrow> int \<Rightarrow> PmCert \<Rightarrow> tlsCertRow option" where
  "siteCertRow e now c = (if pcDomain c = [] then None else Some (tls_cert_row e now False c))"

definition tlsRows :: "console_env \<Rightarrow> int \<Rightarrow> PmCert list \<Rightarrow> tlsCertRow list" where
  "tlsRows e now = map (\<lambda>c. tls_cert_row e now (sansCover (pcSANs c) (pcDomain c)) c)"

definition isNotFound :: "pm_err \<Rightarrow> bool" where
  "isNotFound err = (case err of Pm_Error st _ \<Rightarrow> st = 404 | Pm_Decode \<Rightarrow> False)"

section \<open>The page\<close>

record tlsData =
  tdSite :: "tlsCertRow option"
  tdSiteKnown :: bool
  tdHosts :: "tlsCertRow list"
  tdHostsKnown :: bool
  tdCount :: int
  tdExpiring :: int
  tdExpired :: int
  tdUncovered :: int
  tdSiteExpired :: bool
  tdSiteExpiring :: bool
  tdErrKey :: string
  tdErrRaw :: string
  tdMsgKey :: string
  tdMsgA :: string

definition tls_data :: tlsData where
  "tls_data =
     \<lparr> tdSite = None, tdSiteKnown = False, tdHosts = [], tdHostsKnown = False, tdCount = 0, tdExpiring = 0,
       tdExpired = 0, tdUncovered = 0, tdSiteExpired = False, tdSiteExpiring = False, tdErrKey = [], tdErrRaw = [],
       tdMsgKey = [], tdMsgA = [] \<rparr>"

definition StatsKnown :: "tlsData \<Rightarrow> bool" where
  "StatsKnown d \<longleftrightarrow> tdSiteKnown d \<and> tdHostsKnown d"

definition summarise :: "tlsData \<Rightarrow> tlsData" where
  "summarise d =
     (let rows = (case tdSite d of None \<Rightarrow> [] | Some r \<Rightarrow> [r]) @ tdHosts d;
          d1 = d\<lparr> tdCount := int (length rows), tdExpired := int (length (filter twExpired rows)),
                  tdExpiring := int (length (filter (\<lambda>r. \<not> twExpired r \<and> twExpiring r) rows)),
                  tdUncovered := int (length (filter (\<lambda>r. twSANCount r = 0 \<or> \<not> twCoversHost r) (tdHosts d))) \<rparr>
      in case tdSite d of
           None \<Rightarrow> d1
         | Some r \<Rightarrow> d1\<lparr> tdSiteExpired := twExpired r, tdSiteExpiring := (twExpired r \<or> twExpiring r) \<rparr>)"

definition td_err :: "string \<times> string \<Rightarrow> tlsData \<Rightarrow> tlsData" where
  "td_err kr d = (if tdErrKey d = [] then d\<lparr> tdErrKey := fst kr, tdErrRaw := snd kr \<rparr> else d)"

definition tls_fetch :: "'s server \<Rightarrow> console_env \<Rightarrow> int \<Rightarrow> tlsData \<Rightarrow> 's \<Rightarrow> tlsData \<times> 's" where
  "tls_fetch srv e now d s =
     (let (r1, s1) = pm_GetSiteCert srv s;
          d1 = (case r1 of
                  Inr sc \<Rightarrow> d\<lparr> tdSiteKnown := True, tdSite := siteCertRow e now sc \<rparr>
                | Inl err \<Rightarrow>
                    if isNotFound err then d\<lparr> tdSiteKnown := True, tdSite := None \<rparr>
                    else td_err (humanErr ''err.tls_site'' err) d);
          (r2, s2) = pm_ListHostCerts srv s1;
          d2 = (case r2 of
                  Inr hosts \<Rightarrow> d1\<lparr> tdHostsKnown := True, tdHosts := tlsRows e now hosts \<rparr>
                | Inl err \<Rightarrow>
                    if isNotFound err then d1\<lparr> tdHostsKnown := True \<rparr>
                    else td_err (humanErr ''err.tls_hosts'' err) d1)
      in (if StatsKnown d2 then summarise d2 else d2, s2))"

section \<open>Handlers\<close>

record tlsFormData =
  tfAction :: string
  tfHost :: string
  tfCert :: string
  tfKey :: string
  tfErrKey :: string
  tfErrRaw :: string

datatype tls_view = TLS_List tlsData | Site_Form tlsFormData | Host_Form tlsFormData

definition tls_form :: "string \<Rightarrow> string \<Rightarrow> string \<Rightarrow> string \<Rightarrow> tlsFormData" where
  "tls_form action host cert key =
     \<lparr> tfAction = WebBase @ action, tfHost = host, tfCert = cert, tfKey = key, tfErrKey = [], tfErrRaw = [] \<rparr>"

definition tf_err :: "string \<times> string \<Rightarrow> tlsFormData \<Rightarrow> tlsFormData" where
  "tf_err kr d = d\<lparr> tfErrKey := fst kr, tfErrRaw := snd kr \<rparr>"

definition form_error :: "tls_view \<Rightarrow> tls_view ui_reply" where
  "form_error v = \<lparr> uiStatus = 422, uiHeaders = [(''HX-Retarget'', ''#modal-body'')], uiCookie = No_Cookie, uiPage = Some v \<rparr>"

definition tls_answer :: "tlsData \<times> 's \<Rightarrow> tls_view ui_reply \<times> 's" where
  "tls_answer ds = (fragment (TLS_List (fst ds)), snd ds)"

definition TLS_Page_Show ::
  "'s net \<Rightarrow> console_env \<Rightarrow> ui_request \<Rightarrow> Console \<Rightarrow> 's \<Rightarrow> tls_view ui_reply \<times> 's" where
  "TLS_Page_Show net e rq st s =
     (if \<not> api_configured e st then tls_answer (tls_data\<lparr> tdErrKey := errKeyNotConfigured \<rparr>, s)
      else tls_answer (tls_fetch (api_of net e st) e (uqNow rq) tls_data s))"

definition TLS_Page_SiteNew :: "console_env \<Rightarrow> Console \<Rightarrow> tls_view ui_reply" where
  "TLS_Page_SiteNew e st =
     (let d = tls_form ''/tls/site'' [] [] [] in
      fragment (Site_Form (if \<not> api_configured e st then tf_err (errKeyNotConfigured, []) d else d)))"

definition TLS_Page_HostNew :: "console_env \<Rightarrow> Console \<Rightarrow> tls_view ui_reply" where
  "TLS_Page_HostNew e st =
     (let d = tls_form ''/tls'' [] [] [] in
      fragment (Host_Form (if \<not> api_configured e st then tf_err (errKeyNotConfigured, []) d else d)))"

definition TLS_Page_SetSite ::
  "'s net \<Rightarrow> console_env \<Rightarrow> ui_request \<Rightarrow> Console \<Rightarrow> 's \<Rightarrow> tls_view ui_reply \<times> 's" where
  "TLS_Page_SetSite net e rq st s =
     (let cert = PostForm ''cert'' rq; key = PostForm ''key'' rq; d = tls_form ''/tls/site'' [] cert key;
          refuse = (\<lambda>kr s. (form_error (Site_Form (tf_err kr d)), s))
      in if \<not> api_configured e st then refuse (errKeyNotConfigured, []) s
         else if trim_space cert = [] \<or> trim_space key = [] then refuse (''tls.err_required'', []) s
         else (case pm_UpdateSiteCert (api_of net e st) cert key s of
                 (Inl err, s1) \<Rightarrow> refuse (humanErr ''err.tls_site'' err) s1
               | (Inr sc, s1) \<Rightarrow>
                   tls_answer (tls_fetch (api_of net e st) e (uqNow rq)
                     (tls_data\<lparr> tdMsgKey := ''tls.msg_site_updated'', tdMsgA := pcDomain sc \<rparr>) s1)))"

definition TLS_Page_Add ::
  "'s net \<Rightarrow> console_env \<Rightarrow> ui_request \<Rightarrow> Console \<Rightarrow> 's \<Rightarrow> tls_view ui_reply \<times> 's" where
  "TLS_Page_Add net e rq st s =
     (let host = trim_space (PostForm ''host'' rq); cert = PostForm ''cert'' rq; key = PostForm ''key'' rq;
          d = tls_form ''/tls'' host cert key;
          refuse = (\<lambda>kr s. (form_error (Host_Form (tf_err kr d)), s))
      in if \<not> api_configured e st then refuse (errKeyNotConfigured, []) s
         else if host = [] then refuse (''tls.err_host_required'', []) s
         else if trim_space cert = [] \<or> trim_space key = [] then refuse (''tls.err_required'', []) s
         else (case pm_AddHostCert (api_of net e st) host cert key s of
                 (Inl err, s1) \<Rightarrow> refuse (humanErr ''err.tls_hosts'' err) s1
               | (Inr _, s1) \<Rightarrow>
                   tls_answer (tls_fetch (api_of net e st) e (uqNow rq)
                     (tls_data\<lparr> tdMsgKey := ''tls.msg_host_stored'', tdMsgA := host \<rparr>) s1)))"

definition TLS_Page_Remove ::
  "'s net \<Rightarrow> console_env \<Rightarrow> string \<Rightarrow> ui_request \<Rightarrow> Console \<Rightarrow> 's \<Rightarrow> tls_view ui_reply \<times> 's" where
  "TLS_Page_Remove net e hostParam rq st s =
     (let host = param_unescape hostParam; srv = api_of net e st;
          (d, s1) =
            (if \<not> api_configured e st then (tls_data\<lparr> tdErrKey := errKeyNotConfigured \<rparr>, s)
             else if host = [] then (tls_data\<lparr> tdErrKey := ''tls.err_host_required'' \<rparr>, s)
             else (case pm_RemoveHostCert srv host s of
                     (Inl err, s1) \<Rightarrow> (td_err (humanErr ''err.tls_remove'' err) tls_data, s1)
                   | (Inr _, s1) \<Rightarrow> (tls_data\<lparr> tdMsgKey := ''tls.msg_host_removed'', tdMsgA := host \<rparr>, s1)))
      in tls_answer (tls_fetch srv e (uqNow rq) d s1))"

section \<open>Overview\<close>

record overviewData =
  ovMe :: "(int \<times> string) option"
  ovInfo :: "ClusterInfo option"
  ovNodes :: "Node list"
  ovInfoKnown :: bool
  ovNodesKnown :: bool
  ovErrKey :: string
  ovErrRaw :: string

definition Overview_Page_Fragment :: "'s net \<Rightarrow> console_env \<Rightarrow> Console \<Rightarrow> 's \<Rightarrow> overviewData \<times> 's" where
  "Overview_Page_Fragment net e st s =
     (let d = \<lparr> ovMe = None, ovInfo = None, ovNodes = [], ovInfoKnown = False, ovNodesKnown = False, ovErrKey = [],
                ovErrRaw = [] \<rparr>;
          srv = api_of net e st
      in if \<not> api_configured e st then (d\<lparr> ovErrKey := ''err.api_not_configured'' \<rparr>, s)
         else let (rm, s1) = pm_Me srv s; (ri, s2) = pm_ClusterInfo srv s1; (rn, s3) = pm_Nodes srv s2;
                  d1 = (case rm of Inl _ \<Rightarrow> d | Inr me \<Rightarrow> d\<lparr> ovMe := Some me \<rparr>);
                  d2 = (case ri of Inl _ \<Rightarrow> d1 | Inr info \<Rightarrow> d1\<lparr> ovInfoKnown := True, ovInfo := Some info \<rparr>);
                  d3 = (case rn of Inl _ \<Rightarrow> d2 | Inr nodes \<Rightarrow> d2\<lparr> ovNodesKnown := True, ovNodes := nodes \<rparr>)
              in ((case (rm, ri, rn) of
                     (Inl err, _, _) \<Rightarrow> d3\<lparr> ovErrKey := ''err.api_unreachable'', ovErrRaw := pm_text err \<rparr>
                   | (_, Inl err, _) \<Rightarrow> d3\<lparr> ovErrKey := ''err.cluster_info'', ovErrRaw := pm_text err \<rparr>
                   | (_, _, Inl err) \<Rightarrow> d3\<lparr> ovErrKey := ''err.nodes'', ovErrRaw := pm_text err \<rparr>
                   | _ \<Rightarrow> d3), s3))"

end
