(* ===== verification/Console_Pages.thy ===== *)
theory Console_Pages
  imports Console_Certificates
begin

text \<open>
  The pages of the console together: what a request can be answered with, the handlers of the pages that
  show and act on the daemon (overview, stacks, services, deploy, webhooks, backups, usage, certificates, the
  sign on bridge of \<^verbatim>\<open>controllers/sso_bridge.go\<close>), and which of them send the daemon GET requests only.
\<close>

section \<open>The sign on bridge\<close>

text \<open>The head of the script the page inlines; the daemon's setting is asked for with the shared client.\<close>

definition SSOBridge_Page :: "'s net \<Rightarrow> console_env \<Rightarrow> ui_request \<Rightarrow> 's \<Rightarrow> string \<times> 's" where
  "SSOBridge_Page net e rq s = sso_script (client_server net rq) (ceDomain e) s"

section \<open>Replies\<close>

datatype console_page =
    Auth_Page authPage
  | Users_View users_page
  | Settings_View settings_page
  | Stack_View stack_page
  | Keys_View apiKeysData
  | Overview_View overviewData
  | Stacks_View stacks_view
  | Services_View servicesData
  | Service_View serviceDetailData
  | Deploy_View deployData
  | Webhooks_View webhooksData
  | Deliveries_View deliveriesData
  | Backups_View backupsData
  | Browse_View backupBrowseData
  | Usage_View usageData
  | Certs_View tls_view
  | Bridge_View string

datatype outcome = Reply "console_page ui_reply" | Elsewhere string | No_Route

definition view :: "('a \<Rightarrow> console_page) \<Rightarrow> 'a ui_reply \<Rightarrow> outcome" where
  "view f r = Reply \<lparr> uiStatus = uiStatus r, uiHeaders = uiHeaders r, uiCookie = uiCookie r,
     uiPage = map_option f (uiPage r) \<rparr>"

definition param :: "string \<Rightarrow> (string \<times> string) list \<Rightarrow> string" where
  "param k ps = (case map_of ps k of Some v \<Rightarrow> v | None \<Rightarrow> [])"

definition shown :: "('a \<Rightarrow> console_page) \<Rightarrow> 'a \<times> 's \<Rightarrow> outcome \<times> 's" where
  "shown f ds = (view f (fragment (fst ds)), snd ds)"

definition answered :: "('a \<Rightarrow> console_page) \<Rightarrow> 'a ui_reply \<times> 's \<Rightarrow> outcome \<times> 's" where
  "answered f rs = (view f (fst rs), snd rs)"

section \<open>Handlers\<close>

datatype page_handler =
    Overview_Fragment | Stacks_List | Stacks_Show | Stacks_ShowRevision | Stacks_ShowBackups
  | Services_List | Services_Tasks | Services_Logs | Backups_List | Backups_Browse | Deploy_Page
  | TLS_Page | TLS_SiteNew | TLS_HostNew | Webhooks_Page | Webhooks_Deliveries | Usage_Page
  | SSO_Page | Stacks_Sync | Stacks_Rollback | Stacks_Remove | Services_Restart | Services_Exec
  | Backups_Create | Backups_Restore | Deploy_Submit | TLS_Add | TLS_SetSite | TLS_Remove
  | Webhooks_Add | Webhooks_Remove

definition run_page ::
  "'s net \<Rightarrow> console_env \<Rightarrow> page_handler \<Rightarrow> (string \<times> string) list \<Rightarrow> ui_request \<Rightarrow> Console \<Rightarrow> 's \<Rightarrow> outcome \<times> 's" where
  "run_page net e h ps rq st s =
     (let name = param ''name'' ps; stack = param ''stack'' ps; service = param ''service'' ps in
      case h of
        Overview_Fragment \<Rightarrow> shown Overview_View (Overview_Page_Fragment net e st s)
      | Stacks_List \<Rightarrow> answered Stacks_View (Stacks_Page_List net e rq st s)
      | Stacks_Show \<Rightarrow> answered Stacks_View (Stacks_Page_Show net e name st s)
      | Stacks_ShowRevision \<Rightarrow> answered Stacks_View (Stacks_Page_ShowRevision net e name (param ''rev'' ps) st s)
      | Stacks_ShowBackups \<Rightarrow> answered Stacks_View (Stacks_Page_ShowBackups, s)
      | Services_List \<Rightarrow> shown Services_View (Services_Page_List net e st s)
      | Services_Tasks \<Rightarrow> shown Service_View (Services_Page_Tasks net e stack service st s)
      | Services_Logs \<Rightarrow> shown Service_View (Services_Page_Logs net e stack service st s)
      | Backups_List \<Rightarrow> shown Backups_View (Backups_Page_List net e rq st s)
      | Backups_Browse \<Rightarrow> shown Browse_View (Backups_Page_Browse net e (param ''id'' ps) st s)
      | Deploy_Page \<Rightarrow> shown Deploy_View (Deploy_Page_Form net e rq s)
      | TLS_Page \<Rightarrow> answered Certs_View (TLS_Page_Show net e rq st s)
      | TLS_SiteNew \<Rightarrow> answered Certs_View (TLS_Page_SiteNew e st, s)
      | TLS_HostNew \<Rightarrow> answered Certs_View (TLS_Page_HostNew e st, s)
      | Webhooks_Page \<Rightarrow> shown Webhooks_View (Webhooks_Page_Show net e rq s)
      | Webhooks_Deliveries \<Rightarrow> shown Deliveries_View (Webhooks_Page_Deliveries net e (param ''source'' ps) st s)
      | Usage_Page \<Rightarrow> shown Usage_View (Usage_Page_Show net e st s)
      | SSO_Page \<Rightarrow> shown Bridge_View (SSOBridge_Page net e rq s)
      | Stacks_Sync \<Rightarrow> answered Stacks_View (Stacks_Page_Sync net e name st s)
      | Stacks_Rollback \<Rightarrow> answered Stacks_View (Stacks_Page_Rollback net e name rq st s)
      | Stacks_Remove \<Rightarrow> answered Stacks_View (Stacks_Page_Remove net e name rq st s)
      | Services_Restart \<Rightarrow> shown Service_View (Services_Page_Restart net e stack service st s)
      | Services_Exec \<Rightarrow> shown Service_View (Services_Page_Exec net e stack service rq st s)
      | Backups_Create \<Rightarrow> shown Backups_View (Backups_Page_Create net e rq st s)
      | Backups_Restore \<Rightarrow> shown Browse_View (Backups_Page_Restore net e (param ''id'' ps) st s)
      | Deploy_Submit \<Rightarrow> shown Deploy_View (Deploy_Page_Submit net e rq st s)
      | TLS_Add \<Rightarrow> answered Certs_View (TLS_Page_Add net e rq st s)
      | TLS_SetSite \<Rightarrow> answered Certs_View (TLS_Page_SetSite net e rq st s)
      | TLS_Remove \<Rightarrow> answered Certs_View (TLS_Page_Remove net e (param ''host'' ps) rq st s)
      | Webhooks_Add \<Rightarrow> shown Webhooks_View (Webhooks_Page_Add net e rq s)
      | Webhooks_Remove \<Rightarrow> shown Webhooks_View (Webhooks_Page_Remove net e (param ''source'' ps) rq s))"

definition page_writes :: "page_handler \<Rightarrow> bool" where
  "page_writes h \<longleftrightarrow> h \<in> {Stacks_Sync, Stacks_Rollback, Stacks_Remove, Services_Restart, Services_Exec,
     Backups_Create, Backups_Restore, Deploy_Submit, TLS_Add, TLS_SetSite, TLS_Remove, Webhooks_Add, Webhooks_Remove}"

section \<open>Pages that only read\<close>

text \<open>A reading page moves the daemon's state by GET requests alone: every property that these keep is
  kept by the page.\<close>

definition keeps_reading :: "('s \<Rightarrow> bool) \<Rightarrow> 's server \<Rightarrow> bool" where
  "keeps_reading P srv \<longleftrightarrow> (\<forall>rq s. rqMethod rq = ''GET'' \<longrightarrow> P s \<longrightarrow> P (snd (srv rq s)))"

definition net_keeps :: "('s \<Rightarrow> bool) \<Rightarrow> 's net \<Rightarrow> bool" where
  "net_keeps P net \<longleftrightarrow> (\<forall>b t. keeps_reading P (net b t))"

lemma reading_clients: "net_keeps P net \<Longrightarrow> keeps_reading P (net b t)" "net_keeps P net \<Longrightarrow> keeps_reading P (api_of net e st)"
  by (simp_all add: net_keeps_def api_of_def Let_def)

lemma pm_do_reads: "keeps_reading P srv \<Longrightarrow> P s \<Longrightarrow> P (snd (pm_do srv ''GET'' p q i g s))"
  by (auto simp: pm_do_def keeps_reading_def split: prod.splits) (metis request.select_convs(1) snd_conv)

lemma pm_page_reads:
  assumes "keeps_reading P srv"
  shows "P s \<Longrightarrow> P (snd (pm_Me srv s))" "P s \<Longrightarrow> P (snd (pm_ClusterInfo srv s))" "P s \<Longrightarrow> P (snd (pm_Nodes srv s))"
    "P s \<Longrightarrow> P (snd (pm_ListStacks srv s))" "P s \<Longrightarrow> P (snd (pm_GetStack srv n s))" "P s \<Longrightarrow> P (snd (pm_GetRevision srv n r s))"
    "P s \<Longrightarrow> P (snd (pm_ListBackups srv i s))" "P s \<Longrightarrow> P (snd (pm_ListStackBackups srv n s))" "P s \<Longrightarrow> P (snd (pm_BrowseBackup srv i s))"
    "P s \<Longrightarrow> P (snd (pm_ListHostCerts srv s))" "P s \<Longrightarrow> P (snd (pm_GetSiteCert srv s))" "P s \<Longrightarrow> P (snd (pm_ListWebhooks srv s))"
    "P s \<Longrightarrow> P (snd (pm_ListWebhookDeliveries srv n i s))" "P s \<Longrightarrow> P (snd (pm_GetUsage srv s))" "P s \<Longrightarrow> P (snd (pm_ListServices srv n s))"
    "P s \<Longrightarrow> P (snd (pm_ServiceTasks srv n m s))" "P s \<Longrightarrow> P (snd (pm_ServiceLogs srv n m i s))" "P s \<Longrightarrow> P (snd (pm_GetClusterSettings srv s))"
  by (simp_all add: pm_do_reads [OF assms] pm_Me_def pm_ClusterInfo_def pm_Nodes_def pm_ListStacks_def pm_GetStack_def pm_GetRevision_def
      pm_ListBackups_def pm_ListStackBackups_def pm_BrowseBackup_def pm_ListHostCerts_def pm_GetSiteCert_def
      pm_ListWebhooks_def pm_ListWebhookDeliveries_def pm_GetUsage_def pm_ListServices_def pm_ServiceTasks_def
      pm_ServiceLogs_def pm_GetClusterSettings_def)

lemma load_reads:
  assumes "keeps_reading P srv"
  shows "P s \<Longrightarrow> P (snd (service_meta srv n m s))" "P s \<Longrightarrow> P (snd (with_meta srv vd s))" "P s \<Longrightarrow> P (snd (load_tasks srv n m vd s))"
    "P s \<Longrightarrow> P (snd (load_webhooks srv e wd s))" "P s \<Longrightarrow> P (snd (cover_stack srv now i bd s))" "P s \<Longrightarrow> P (snd (cover_stacks srv now is bd s))"
    "P s \<Longrightarrow> P (snd (page_coverage srv now bd s))" "P s \<Longrightarrow> P (snd (load_backups srv now bd s))" "P s \<Longrightarrow> P (snd (loadBrowse srv bb s))"
    "P s \<Longrightarrow> P (snd (tls_fetch srv e now td s))"
proof -
  note r = pm_page_reads [OF assms]
  show m: "P s \<Longrightarrow> P (snd (service_meta srv n m s))"
    by (simp add: service_meta_def case_prod_unfold r split: sum.split option.split)
  show "P s \<Longrightarrow> P (snd (with_meta srv vd s))"
    by (simp add: with_meta_def case_prod_unfold Let_def service_meta_def r split: sum.split option.split)
  show "P s \<Longrightarrow> P (snd (load_tasks srv n m vd s))"
    by (simp add: load_tasks_def case_prod_unfold Let_def r split: sum.split)
  show "P s \<Longrightarrow> P (snd (load_webhooks srv e wd s))"
    by (simp add: load_webhooks_def case_prod_unfold Let_def r split: sum.split)
  show c: "P s \<Longrightarrow> P (snd (cover_stack srv now i bd s))" for i bd s
    by (simp add: cover_stack_def case_prod_unfold Let_def r split: sum.split)
  show cs: "P s \<Longrightarrow> P (snd (cover_stacks srv now is bd s))" for "is" bd s
    by (induction "is" arbitrary: bd s) (simp_all add: case_prod_unfold c)
  show p: "P s \<Longrightarrow> P (snd (page_coverage srv now bd s))" for bd s
    by (simp add: page_coverage_def case_prod_unfold Let_def r cs split: sum.split)
  show "P s \<Longrightarrow> P (snd (load_backups srv now bd s))"
    by (simp add: load_backups_def case_prod_unfold Let_def r p)
  show "P s \<Longrightarrow> P (snd (loadBrowse srv bb s))"
    by (simp add: loadBrowse_def case_prod_unfold Let_def r split: sum.split option.split)
  show "P s \<Longrightarrow> P (snd (tls_fetch srv e now td s))"
    by (simp add: tls_fetch_def case_prod_unfold Let_def r)
qed

lemma page_reads:
  assumes "net_keeps P net"
  shows "P s \<Longrightarrow> P (snd (stacksData net e q st s))" "P s \<Longrightarrow> P (snd (loadStack net e n st s))" "P s \<Longrightarrow> P (snd (load_deploy net e cl dd s))"
    "P s \<Longrightarrow> P (snd (Overview_Page_Fragment net e st s))" "P s \<Longrightarrow> P (snd (browseParams net e p st s))"
    "P s \<Longrightarrow> P (snd (Stacks_Page_ShowRevision net e n p st s))" "P s \<Longrightarrow> P (snd (SSOBridge_Page net e rq s))"
    "P s \<Longrightarrow> P (snd (Services_Page_List net e st s))"
    "P s \<Longrightarrow> P (snd (Services_Page_Tasks net e n m st s))" "P s \<Longrightarrow> P (snd (Services_Page_Logs net e n m st s))"
    "P s \<Longrightarrow> P (snd (Usage_Page_Show net e st s))" "P s \<Longrightarrow> P (snd (Webhooks_Page_Deliveries net e n st s))"
    "P s \<Longrightarrow> P (snd (Backups_Page_Browse net e p st s))"
proof -
  note r = pm_page_reads [OF reading_clients(2) [OF assms]] pm_page_reads [OF reading_clients(1) [OF assms]]
  note l = load_reads [OF reading_clients(2) [OF assms]]
  show "P s \<Longrightarrow> P (snd (stacksData net e q st s))"
    by (simp add: stacksData_def case_prod_unfold Let_def r split: sum.split)
  show "P s \<Longrightarrow> P (snd (loadStack net e n st s))"
    by (simp add: loadStack_def case_prod_unfold Let_def r split: sum.split)
  show "P s \<Longrightarrow> P (snd (load_deploy net e cl dd s))"
    by (simp add: load_deploy_def case_prod_unfold Let_def r split: sum.split)
  show "P s \<Longrightarrow> P (snd (Overview_Page_Fragment net e st s))"
    by (simp add: Overview_Page_Fragment_def case_prod_unfold Let_def r)
  show b: "P s \<Longrightarrow> P (snd (browseParams net e p st s))"
    by (simp add: browseParams_def case_prod_unfold Let_def r split: sum.split option.split)
  show "P s \<Longrightarrow> P (snd (Stacks_Page_ShowRevision net e n p st s))"
    by (simp add: Stacks_Page_ShowRevision_def case_prod_unfold Let_def r split: sum.split option.split)
  show "P s \<Longrightarrow> P (snd (SSOBridge_Page net e rq s))"
    by (simp add: SSOBridge_Page_def sso_script_def sso_email_def client_server_def case_prod_unfold r split: sum.split option.split)
  show "P s \<Longrightarrow> P (snd (Services_Page_List net e st s))"
    by (simp add: Services_Page_List_def case_prod_unfold Let_def r split: sum.split)
  show "P s \<Longrightarrow> P (snd (Services_Page_Tasks net e n m st s))"
    by (simp add: Services_Page_Tasks_def case_prod_unfold Let_def l)
  show "P s \<Longrightarrow> P (snd (Services_Page_Logs net e n m st s))"
    by (simp add: Services_Page_Logs_def case_prod_unfold Let_def l r)
  show "P s \<Longrightarrow> P (snd (Usage_Page_Show net e st s))"
    by (simp add: Usage_Page_Show_def case_prod_unfold Let_def r split: sum.split)
  show "P s \<Longrightarrow> P (snd (Webhooks_Page_Deliveries net e n st s))"
    by (simp add: Webhooks_Page_Deliveries_def case_prod_unfold Let_def r split: sum.split)
  show "P s \<Longrightarrow> P (snd (Backups_Page_Browse net e p st s))"
    by (simp add: Backups_Page_Browse_def case_prod_unfold l b)
qed

lemma run_page_reads:
  assumes "\<not> page_writes h" "net_keeps P net"
  shows "P s \<Longrightarrow> P (snd (run_page net e h ps rq st s))"
  using assms(1) page_reads [OF assms(2)] load_reads [OF reading_clients(2) [OF assms(2)]]
    load_reads [OF reading_clients(1) [OF assms(2)]]
  by (cases h)
     (simp_all add: page_writes_def run_page_def shown_def answered_def Stacks_Page_List_def Stacks_Page_Show_def
        Backups_Page_List_def Deploy_Page_Form_def TLS_Page_Show_def tls_answer_def Webhooks_Page_Show_def
        client_server_def case_prod_unfold Let_def)

end
