(* ===== verification/Console_Routes.thy ===== *)
theory Console_Routes
  imports Console_Pages
begin

text \<open>
  The console's router (\<^verbatim>\<open>internal/ui/ui.go\<close>, \<^verbatim>\<open>Mount\<close>): the table of its routes with the role each asks
  for, the gates in front of them, and the dispatch to the handlers.  Handlers of pages that are not
  modelled are routes whose effect is left open.
\<close>

section \<open>The table\<close>

datatype handler =
    H_Root | H_LoginPage | H_Login | H_SetupPage | H_Setup | H_Logout | H_StackConfigs_Page
  | H_StackConfigs_ConfigNew | H_StackConfigs_ConfigEdit | H_StackConfigs_SecretNew
  | H_StackConfigs_SecretEdit | H_Settings_Page | H_Settings_ConfigNew | H_Settings_ConfigEdit
  | H_Settings_SecretNew | H_Settings_SecretEdit | H_Settings_RenderedGet | H_StackConfigs_AddConfig
  | H_StackConfigs_EditConfig | H_StackConfigs_RollbackConfig | H_StackConfigs_RemoveConfig
  | H_StackConfigs_AddSecret | H_StackConfigs_EditSecret | H_StackConfigs_RemoveSecret
  | H_StackConfigs_RevealSecret | H_Settings_AddConfig | H_Settings_EditConfig
  | H_Settings_RollbackConfig | H_Settings_RemoveConfig | H_Settings_AddSecret
  | H_Settings_EditSecret | H_Settings_RemoveSecret | H_Settings_RevealSecret | H_APIKeys_Page
  | H_APIKeys_Add | H_APIKeys_Remove | H_Settings_Save | H_Settings_Apply
  | H_Settings_ClusterSettingsPage | H_Settings_ClusterSettingsSave | H_Users_List | H_Users_New
  | H_Users_Edit | H_Users_Create | H_Users_EditSave | H_Users_Remove | H_Page page_handler
  | Not_Modelled string

record route =
  rtMethod :: string
  rtPath :: "string list"
  rtRole :: "string option"
  rtHandler :: handler

definition Mount :: "route list" where
  "Mount = [
     \<lparr> rtMethod = ''GET'', rtPath = [''''], rtRole = None, rtHandler = H_Root \<rparr>,
     \<lparr> rtMethod = ''GET'', rtPath = [''web'', ''static'', ''*filepath''], rtRole = None, rtHandler = Not_Modelled ''static'' \<rparr>,
     \<lparr> rtMethod = ''GET'', rtPath = [''web'', ''lang'', '':code''], rtRole = None, rtHandler = Not_Modelled ''lang'' \<rparr>,
     \<lparr> rtMethod = ''GET'', rtPath = [''web'', ''login''], rtRole = None, rtHandler = H_LoginPage \<rparr>,
     \<lparr> rtMethod = ''POST'', rtPath = [''web'', ''login''], rtRole = None, rtHandler = H_Login \<rparr>,
     \<lparr> rtMethod = ''GET'', rtPath = [''web'', ''setup''], rtRole = None, rtHandler = H_SetupPage \<rparr>,
     \<lparr> rtMethod = ''POST'', rtPath = [''web'', ''setup''], rtRole = None, rtHandler = H_Setup \<rparr>,
     \<lparr> rtMethod = ''POST'', rtPath = [''web'', ''logout''], rtRole = None, rtHandler = H_Logout \<rparr>,
     \<lparr> rtMethod = ''GET'', rtPath = [''sso-bridge''], rtRole = None, rtHandler = H_Page SSO_Page \<rparr>,
     \<lparr> rtMethod = ''GET'', rtPath = [''web'', ''''], rtRole = Some RoleViewer, rtHandler = Not_Modelled ''Overview.App'' \<rparr>,
     \<lparr> rtMethod = ''GET'', rtPath = [''web'', ''overview''], rtRole = Some RoleViewer, rtHandler = H_Page Overview_Fragment \<rparr>,
     \<lparr> rtMethod = ''GET'', rtPath = [''web'', ''stacks''], rtRole = Some RoleViewer, rtHandler = H_Page Stacks_List \<rparr>,
     \<lparr> rtMethod = ''GET'', rtPath = [''web'', ''stacks'', '':name''], rtRole = Some RoleViewer, rtHandler = H_Page Stacks_Show \<rparr>,
     \<lparr> rtMethod = ''GET'', rtPath = [''web'', ''stacks'', '':name'', ''revisions'', '':rev''], rtRole = Some RoleViewer, rtHandler = H_Page Stacks_ShowRevision \<rparr>,
     \<lparr> rtMethod = ''GET'', rtPath = [''web'', ''stacks'', '':name'', ''backups''], rtRole = Some RoleViewer, rtHandler = H_Page Stacks_ShowBackups \<rparr>,
     \<lparr> rtMethod = ''GET'', rtPath = [''web'', ''services''], rtRole = Some RoleViewer, rtHandler = H_Page Services_List \<rparr>,
     \<lparr> rtMethod = ''GET'', rtPath = [''web'', ''services'', '':stack'', '':service'', ''tasks''], rtRole = Some RoleViewer, rtHandler = H_Page Services_Tasks \<rparr>,
     \<lparr> rtMethod = ''GET'', rtPath = [''web'', ''services'', '':stack'', '':service'', ''logs''], rtRole = Some RoleViewer, rtHandler = H_Page Services_Logs \<rparr>,
     \<lparr> rtMethod = ''GET'', rtPath = [''web'', ''stacks'', '':name'', ''config''], rtRole = Some RoleViewer, rtHandler = H_StackConfigs_Page \<rparr>,
     \<lparr> rtMethod = ''GET'', rtPath = [''web'', ''stacks'', '':name'', ''configs'', ''new''], rtRole = Some RoleViewer, rtHandler = H_StackConfigs_ConfigNew \<rparr>,
     \<lparr> rtMethod = ''GET'', rtPath = [''web'', ''stacks'', '':name'', ''configs'', ''edit'', '':config_name''], rtRole = Some RoleViewer, rtHandler = H_StackConfigs_ConfigEdit \<rparr>,
     \<lparr> rtMethod = ''GET'', rtPath = [''web'', ''stacks'', '':name'', ''secrets'', ''new''], rtRole = Some RoleViewer, rtHandler = H_StackConfigs_SecretNew \<rparr>,
     \<lparr> rtMethod = ''GET'', rtPath = [''web'', ''stacks'', '':name'', ''secrets'', ''edit'', '':secret_name''], rtRole = Some RoleViewer, rtHandler = H_StackConfigs_SecretEdit \<rparr>,
     \<lparr> rtMethod = ''GET'', rtPath = [''web'', ''backups''], rtRole = Some RoleViewer, rtHandler = H_Page Backups_List \<rparr>,
     \<lparr> rtMethod = ''GET'', rtPath = [''web'', ''backups'', '':id'', ''files''], rtRole = Some RoleViewer, rtHandler = H_Page Backups_Browse \<rparr>,
     \<lparr> rtMethod = ''GET'', rtPath = [''web'', ''deploy''], rtRole = Some RoleViewer, rtHandler = H_Page Deploy_Page \<rparr>,
     \<lparr> rtMethod = ''GET'', rtPath = [''web'', ''settings''], rtRole = Some RoleViewer, rtHandler = H_Settings_Page \<rparr>,
     \<lparr> rtMethod = ''GET'', rtPath = [''web'', ''settings'', ''configs'', ''new''], rtRole = Some RoleViewer, rtHandler = H_Settings_ConfigNew \<rparr>,
     \<lparr> rtMethod = ''GET'', rtPath = [''web'', ''settings'', ''configs'', ''edit'', '':name''], rtRole = Some RoleViewer, rtHandler = H_Settings_ConfigEdit \<rparr>,
     \<lparr> rtMethod = ''GET'', rtPath = [''web'', ''settings'', ''secrets'', ''new''], rtRole = Some RoleViewer, rtHandler = H_Settings_SecretNew \<rparr>,
     \<lparr> rtMethod = ''GET'', rtPath = [''web'', ''settings'', ''secrets'', ''edit'', '':name''], rtRole = Some RoleViewer, rtHandler = H_Settings_SecretEdit \<rparr>,
     \<lparr> rtMethod = ''GET'', rtPath = [''web'', ''settings'', ''rendered'', '':name''], rtRole = Some RoleViewer, rtHandler = H_Settings_RenderedGet \<rparr>,
     \<lparr> rtMethod = ''GET'', rtPath = [''web'', ''tls''], rtRole = Some RoleViewer, rtHandler = H_Page TLS_Page \<rparr>,
     \<lparr> rtMethod = ''GET'', rtPath = [''web'', ''tls'', ''site'', ''new''], rtRole = Some RoleViewer, rtHandler = H_Page TLS_SiteNew \<rparr>,
     \<lparr> rtMethod = ''GET'', rtPath = [''web'', ''tls'', ''hosts'', ''new''], rtRole = Some RoleViewer, rtHandler = H_Page TLS_HostNew \<rparr>,
     \<lparr> rtMethod = ''GET'', rtPath = [''web'', ''webhooks''], rtRole = Some RoleViewer, rtHandler = H_Page Webhooks_Page \<rparr>,
     \<lparr> rtMethod = ''GET'', rtPath = [''web'', ''webhooks'', '':source'', ''deliveries''], rtRole = Some RoleViewer, rtHandler = H_Page Webhooks_Deliveries \<rparr>,
     \<lparr> rtMethod = ''GET'', rtPath = [''web'', ''usage''], rtRole = Some RoleViewer, rtHandler = H_Page Usage_Page \<rparr>,
     \<lparr> rtMethod = ''POST'', rtPath = [''web'', ''stacks'', '':name'', ''sync''], rtRole = Some RoleOperator, rtHandler = H_Page Stacks_Sync \<rparr>,
     \<lparr> rtMethod = ''POST'', rtPath = [''web'', ''stacks'', '':name'', ''rollback''], rtRole = Some RoleOperator, rtHandler = H_Page Stacks_Rollback \<rparr>,
     \<lparr> rtMethod = ''POST'', rtPath = [''web'', ''stacks'', '':name'', ''remove''], rtRole = Some RoleOperator, rtHandler = H_Page Stacks_Remove \<rparr>,
     \<lparr> rtMethod = ''POST'', rtPath = [''web'', ''services'', '':stack'', '':service'', ''restart''], rtRole = Some RoleOperator, rtHandler = H_Page Services_Restart \<rparr>,
     \<lparr> rtMethod = ''POST'', rtPath = [''web'', ''services'', '':stack'', '':service'', ''exec''], rtRole = Some RoleOperator, rtHandler = H_Page Services_Exec \<rparr>,
     \<lparr> rtMethod = ''POST'', rtPath = [''web'', ''stacks'', '':name'', ''configs'', ''add''], rtRole = Some RoleOperator, rtHandler = H_StackConfigs_AddConfig \<rparr>,
     \<lparr> rtMethod = ''POST'', rtPath = [''web'', ''stacks'', '':name'', ''configs'', ''edit''], rtRole = Some RoleOperator, rtHandler = H_StackConfigs_EditConfig \<rparr>,
     \<lparr> rtMethod = ''POST'', rtPath = [''web'', ''stacks'', '':name'', ''configs'', ''rollback'', '':config_name'', '':version_id''], rtRole = Some RoleOperator, rtHandler = H_StackConfigs_RollbackConfig \<rparr>,
     \<lparr> rtMethod = ''POST'', rtPath = [''web'', ''stacks'', '':name'', ''configs'', ''remove'', '':config_name''], rtRole = Some RoleOperator, rtHandler = H_StackConfigs_RemoveConfig \<rparr>,
     \<lparr> rtMethod = ''POST'', rtPath = [''web'', ''stacks'', '':name'', ''secrets'', ''add''], rtRole = Some RoleOperator, rtHandler = H_StackConfigs_AddSecret \<rparr>,
     \<lparr> rtMethod = ''POST'', rtPath = [''web'', ''stacks'', '':name'', ''secrets'', ''edit''], rtRole = Some RoleOperator, rtHandler = H_StackConfigs_EditSecret \<rparr>,
     \<lparr> rtMethod = ''POST'', rtPath = [''web'', ''stacks'', '':name'', ''secrets'', ''remove'', '':secret_name''], rtRole = Some RoleOperator, rtHandler = H_StackConfigs_RemoveSecret \<rparr>,
     \<lparr> rtMethod = ''GET'', rtPath = [''web'', ''stacks'', '':name'', ''secrets'', ''reveal'', '':secret_name''], rtRole = Some RoleOperator, rtHandler = H_StackConfigs_RevealSecret \<rparr>,
     \<lparr> rtMethod = ''POST'', rtPath = [''web'', ''backups''], rtRole = Some RoleOperator, rtHandler = H_Page Backups_Create \<rparr>,
     \<lparr> rtMethod = ''POST'', rtPath = [''web'', ''backups'', '':id'', ''restore''], rtRole = Some RoleOperator, rtHandler = H_Page Backups_Restore \<rparr>,
     \<lparr> rtMethod = ''POST'', rtPath = [''web'', ''deploy''], rtRole = Some RoleOperator, rtHandler = H_Page Deploy_Submit \<rparr>,
     \<lparr> rtMethod = ''POST'', rtPath = [''web'', ''settings'', ''configs'', ''add''], rtRole = Some RoleOperator, rtHandler = H_Settings_AddConfig \<rparr>,
     \<lparr> rtMethod = ''POST'', rtPath = [''web'', ''settings'', ''configs'', ''edit''], rtRole = Some RoleOperator, rtHandler = H_Settings_EditConfig \<rparr>,
     \<lparr> rtMethod = ''POST'', rtPath = [''web'', ''settings'', ''configs'', ''rollback'', '':name'', '':version_id''], rtRole = Some RoleOperator, rtHandler = H_Settings_RollbackConfig \<rparr>,
     \<lparr> rtMethod = ''POST'', rtPath = [''web'', ''settings'', ''configs'', ''remove'', '':name''], rtRole = Some RoleOperator, rtHandler = H_Settings_RemoveConfig \<rparr>,
     \<lparr> rtMethod = ''POST'', rtPath = [''web'', ''settings'', ''secrets'', ''add''], rtRole = Some RoleOperator, rtHandler = H_Settings_AddSecret \<rparr>,
     \<lparr> rtMethod = ''POST'', rtPath = [''web'', ''settings'', ''secrets'', ''edit''], rtRole = Some RoleOperator, rtHandler = H_Settings_EditSecret \<rparr>,
     \<lparr> rtMethod = ''POST'', rtPath = [''web'', ''settings'', ''secrets'', ''remove'', '':name''], rtRole = Some RoleOperator, rtHandler = H_Settings_RemoveSecret \<rparr>,
     \<lparr> rtMethod = ''GET'', rtPath = [''web'', ''settings'', ''secrets'', ''reveal'', '':name''], rtRole = Some RoleOperator, rtHandler = H_Settings_RevealSecret \<rparr>,
     \<lparr> rtMethod = ''POST'', rtPath = [''web'', ''tls''], rtRole = Some RoleOperator, rtHandler = H_Page TLS_Add \<rparr>,
     \<lparr> rtMethod = ''POST'', rtPath = [''web'', ''tls'', ''site''], rtRole = Some RoleOperator, rtHandler = H_Page TLS_SetSite \<rparr>,
     \<lparr> rtMethod = ''POST'', rtPath = [''web'', ''tls'', ''remove'', '':host''], rtRole = Some RoleOperator, rtHandler = H_Page TLS_Remove \<rparr>,
     \<lparr> rtMethod = ''POST'', rtPath = [''web'', ''webhooks''], rtRole = Some RoleOperator, rtHandler = H_Page Webhooks_Add \<rparr>,
     \<lparr> rtMethod = ''POST'', rtPath = [''web'', ''webhooks'', ''remove'', '':source''], rtRole = Some RoleOperator, rtHandler = H_Page Webhooks_Remove \<rparr>,
     \<lparr> rtMethod = ''GET'', rtPath = [''web'', ''apikeys''], rtRole = Some RoleAdmin, rtHandler = H_APIKeys_Page \<rparr>,
     \<lparr> rtMethod = ''POST'', rtPath = [''web'', ''apikeys''], rtRole = Some RoleAdmin, rtHandler = H_APIKeys_Add \<rparr>,
     \<lparr> rtMethod = ''POST'', rtPath = [''web'', ''apikeys'', ''remove'', '':id''], rtRole = Some RoleAdmin, rtHandler = H_APIKeys_Remove \<rparr>,
     \<lparr> rtMethod = ''POST'', rtPath = [''web'', ''settings''], rtRole = Some RoleAdmin, rtHandler = H_Settings_Save \<rparr>,
     \<lparr> rtMethod = ''POST'', rtPath = [''web'', ''settings'', ''apply''], rtRole = Some RoleAdmin, rtHandler = H_Settings_Apply \<rparr>,
     \<lparr> rtMethod = ''GET'', rtPath = [''web'', ''settings'', ''cluster''], rtRole = Some RoleAdmin, rtHandler = H_Settings_ClusterSettingsPage \<rparr>,
     \<lparr> rtMethod = ''POST'', rtPath = [''web'', ''settings'', ''cluster''], rtRole = Some RoleAdmin, rtHandler = H_Settings_ClusterSettingsSave \<rparr>,
     \<lparr> rtMethod = ''GET'', rtPath = [''web'', ''users''], rtRole = Some RoleAdmin, rtHandler = H_Users_List \<rparr>,
     \<lparr> rtMethod = ''GET'', rtPath = [''web'', ''users'', ''new''], rtRole = Some RoleAdmin, rtHandler = H_Users_New \<rparr>,
     \<lparr> rtMethod = ''GET'', rtPath = [''web'', ''users'', ''edit'', '':id''], rtRole = Some RoleAdmin, rtHandler = H_Users_Edit \<rparr>,
     \<lparr> rtMethod = ''POST'', rtPath = [''web'', ''users'', ''add''], rtRole = Some RoleAdmin, rtHandler = H_Users_Create \<rparr>,
     \<lparr> rtMethod = ''POST'', rtPath = [''web'', ''users'', ''edit''], rtRole = Some RoleAdmin, rtHandler = H_Users_EditSave \<rparr>,
     \<lparr> rtMethod = ''POST'', rtPath = [''web'', ''users'', ''remove'', '':id''], rtRole = Some RoleAdmin, rtHandler = H_Users_Remove \<rparr>]"

text \<open>A parameter matches one segment that is not empty, a catch-all the rest.\<close>

fun match_path :: "string list \<Rightarrow> string list \<Rightarrow> (string \<times> string) list option" where
  "match_path [] [] = Some []"
| "match_path (p # ps) (x # xs) =
     (if has_prefix p '':'' then (if x = [] then None else map_option ((#) (tl p, x)) (match_path ps xs))
      else if has_prefix p ''*'' then Some [(tl p, join_with ''/'' (x # xs))]
      else if p = x then match_path ps xs else None)"
| "match_path _ _ = None"

fun find_route :: "route list \<Rightarrow> string \<Rightarrow> string list \<Rightarrow> (route \<times> (string \<times> string) list) option" where
  "find_route [] m path = None"
| "find_route (r # rs) m path =
     (if rtMethod r = m
      then (case match_path (rtPath r) path of Some ps \<Rightarrow> Some (r, ps) | None \<Rightarrow> find_route rs m path)
      else find_route rs m path)"

section \<open>The gates\<close>

definition gate :: "console_env \<Rightarrow> string option \<Rightarrow> ui_request \<Rightarrow> Console \<Rightarrow> 'p ui_reply + ConsoleUser option" where
  "gate e role rq st =
     (case role of
        None \<Rightarrow> Inr None
      | Some r \<Rightarrow>
         (case Require e rq st of
            Inl reply \<Rightarrow> Inl reply
          | Inr u \<Rightarrow> (case RequireRole r rq u of Some reply \<Rightarrow> Inl reply | None \<Rightarrow> Inr (Some u))))"

section \<open>Dispatch\<close>

text \<open>\<^verbatim>\<open>me\<close> is the user of the session; the public handlers do not look at it.\<close>

definition run_handler ::
  "'s net \<Rightarrow> console_env \<Rightarrow> handler \<Rightarrow> (string \<times> string) list \<Rightarrow> ConsoleUser \<Rightarrow> ui_request \<Rightarrow> Console \<times> 's \<Rightarrow>
     outcome \<times> Console \<times> 's" where
  "run_handler net e h ps me rq w =
     (let st = fst w; s = snd w; stack = param ''name'' ps;
          auth = (\<lambda>r. (view Auth_Page r, st, s));
          users = (\<lambda>(r, st'). (view Users_View r, st', s));
          page = (\<lambda>(r, s'). (view Settings_View r, st, s'));
          spage = (\<lambda>(r, s'). (view Stack_View r, st, s'));
          keys = (\<lambda>(r, s'). (view Keys_View r, st, s'))
      in case h of
        H_Root \<Rightarrow> auth (redirect (rq\<lparr> uqHX := False \<rparr>) (WebBase @ ''/''))
      | H_LoginPage \<Rightarrow> auth (LoginPage e rq)
      | H_Login \<Rightarrow> auth (Login e rq st)
      | H_SetupPage \<Rightarrow> auth (SetupPage e rq st)
      | H_Setup \<Rightarrow> (let (r, st') = Setup e rq st in (view Auth_Page r, st', s))
      | H_Logout \<Rightarrow> auth (Logout e rq)
      | H_StackConfigs_Page \<Rightarrow> spage (Stack_Show net e stack st s)
      | H_StackConfigs_ConfigNew \<Rightarrow> spage (Stack_ConfigNew e stack st, s)
      | H_StackConfigs_ConfigEdit \<Rightarrow> spage (Stack_ConfigEdit net e stack (param ''config_name'' ps) st s)
      | H_StackConfigs_SecretNew \<Rightarrow> spage (Stack_SecretNew e stack st, s)
      | H_StackConfigs_SecretEdit \<Rightarrow> spage (Stack_SecretEdit e stack (param ''secret_name'' ps) st, s)
      | H_Settings_Page \<Rightarrow> page (Settings_Show net e me st s)
      | H_Settings_ConfigNew \<Rightarrow> page (Settings_ConfigNew e st, s)
      | H_Settings_ConfigEdit \<Rightarrow> page (Settings_ConfigEdit net e (param ''name'' ps) st s)
      | H_Settings_SecretNew \<Rightarrow> page (Settings_SecretNew e st, s)
      | H_Settings_SecretEdit \<Rightarrow> page (Settings_SecretEdit e (param ''name'' ps) st, s)
      | H_Settings_RenderedGet \<Rightarrow> page (Settings_RenderedGet net e (param ''name'' ps) st s)
      | H_StackConfigs_AddConfig \<Rightarrow> spage (Stack_AddConfig net e stack rq st s)
      | H_StackConfigs_EditConfig \<Rightarrow> spage (Stack_EditConfig net e stack rq st s)
      | H_StackConfigs_RollbackConfig \<Rightarrow>
          spage (Stack_RollbackConfig net e stack (param ''config_name'' ps) (param ''version_id'' ps) st s)
      | H_StackConfigs_RemoveConfig \<Rightarrow> spage (Stack_RemoveConfig net e stack (param ''config_name'' ps) st s)
      | H_StackConfigs_AddSecret \<Rightarrow> spage (Stack_AddSecret net e stack rq st s)
      | H_StackConfigs_EditSecret \<Rightarrow> spage (Stack_EditSecret net e stack rq st s)
      | H_StackConfigs_RemoveSecret \<Rightarrow> spage (Stack_RemoveSecret net e stack (param ''secret_name'' ps) st s)
      | H_StackConfigs_RevealSecret \<Rightarrow> spage (Stack_RevealSecret net e (param ''secret_name'' ps) st s)
      | H_Settings_AddConfig \<Rightarrow> page (Settings_AddConfig net e me rq st s)
      | H_Settings_EditConfig \<Rightarrow> page (Settings_EditConfig net e me rq st s)
      | H_Settings_RollbackConfig \<Rightarrow>
          page (Settings_RollbackConfig net e me (param ''name'' ps) (param ''version_id'' ps) st s)
      | H_Settings_RemoveConfig \<Rightarrow> page (Settings_RemoveConfig net e me (param ''name'' ps) st s)
      | H_Settings_AddSecret \<Rightarrow> page (Settings_AddSecret net e me rq st s)
      | H_Settings_EditSecret \<Rightarrow> page (Settings_EditSecret net e me rq st s)
      | H_Settings_RemoveSecret \<Rightarrow> page (Settings_RemoveSecret net e me (param ''name'' ps) st s)
      | H_Settings_RevealSecret \<Rightarrow> page (Settings_RevealSecret net e (param ''name'' ps) st s)
      | H_APIKeys_Page \<Rightarrow> keys (Keys_Page net e st s)
      | H_APIKeys_Add \<Rightarrow> keys (Keys_Add net e rq st s)
      | H_APIKeys_Remove \<Rightarrow> keys (Keys_Remove net e (param ''id'' ps) st s)
      | H_Settings_Save \<Rightarrow>
          (let (r, st', s') = Settings_Save net e me rq st s in (view Settings_View r, st', s'))
      | H_Settings_Apply \<Rightarrow> page (Settings_Apply net e me st s)
      | H_Settings_ClusterSettingsPage \<Rightarrow> page (ClusterSettingsPage net e st s)
      | H_Settings_ClusterSettingsSave \<Rightarrow> page (ClusterSettingsSave net e rq st s)
      | H_Users_List \<Rightarrow> users (Users_List e me st, st)
      | H_Users_New \<Rightarrow> users (Users_New, st)
      | H_Users_Edit \<Rightarrow> users (Users_Edit e me (param ''id'' ps) st, st)
      | H_Users_Create \<Rightarrow> users (Users_Create e me rq st)
      | H_Users_EditSave \<Rightarrow> users (Users_EditSave e me rq st)
      | H_Users_Remove \<Rightarrow> users (Users_Remove e me (param ''id'' ps) st)
      | H_Page p \<Rightarrow> (let (out, s') = run_page net e p ps rq st s in (out, st, s'))
      | Not_Modelled name \<Rightarrow> (Elsewhere name, st, s))"

definition serve ::
  "'s net \<Rightarrow> console_env \<Rightarrow> ui_request \<Rightarrow> Console \<times> 's \<Rightarrow> outcome \<times> Console \<times> 's" where
  "serve net e rq w =
     (case find_route Mount (uqMethod rq) (uqPath rq) of
        None \<Rightarrow> (No_Route, w)
      | Some (r, ps) \<Rightarrow>
         (case gate e (rtRole r) rq (fst w) of
            Inl reply \<Rightarrow> (Reply reply, w)
          | Inr u \<Rightarrow>
              run_handler net e (rtHandler r) ps (case u of Some me \<Rightarrow> me | None \<Rightarrow> synthetic_admin) rq w))"

end
