(* ===== verification/Console_Sessions_Properties.thy ===== *)
theory Console_Sessions_Properties
  imports Console_Session
begin

text \<open>
  What a session cookie proves: base64 and cookies round trip, an accepted cookie carries the console's
  signature, and what happens to the sessions of an account that is changed.
\<close>

section \<open>Base64\<close>

lemma b64_alphabet:
  "map b64_val ''ABCDEFGHIJKLMNOPQRSTUVWXYZabcdefghijklmnopqrstuvwxyz0123456789-_'' = map Some [0..<64]"
  by code_simp

lemma b64_val_char: "b64_val (b64_char n) = Some (n mod 64)"
proof -
  let ?s = "''ABCDEFGHIJKLMNOPQRSTUVWXYZabcdefghijklmnopqrstuvwxyz0123456789-_''"
  have n: "n mod 64 < 64" by simp
  have "b64_val (?s ! (n mod 64)) = map b64_val ?s ! (n mod 64)" using n by (subst nth_map) simp_all
  also have "\<dots> = Some (n mod 64)" unfolding b64_alphabet using n by (subst nth_map) (simp_all del: upt_rec_numeral)
  finally show ?thesis by (simp add: b64_char_def)
qed

lemma b64_char_text: "b64_char n \<noteq> CHR 0x0A \<and> b64_char n \<noteq> CHR 0x0D \<and> b64_char n \<noteq> CHR ''.''"
proof -
  have "b64_val (CHR 0x0A) = None" "b64_val (CHR 0x0D) = None" "b64_val (CHR ''.'') = None" by code_simp+
  then show ?thesis using b64_val_char [of n] by auto
qed

lemma b64_vals_char: "b64_vals (b64_char n # s) = map_option ((#) (n mod 64)) (b64_vals s)"
  using b64_char_text [of n] by (simp add: b64_val_char)

lemma byte_bound: "(of_char a :: nat) < 256"
proof -
  have "(of_char a :: nat) = of_char a mod 256" by simp
  then show ?thesis by (metis mod_less_divisor zero_less_numeral)
qed

lemma digits64:
  fixes n :: nat
  shows "n div 64 * 64 + n mod 64 = n" "n div 4096 * 64 + n div 64 mod 64 = n div 64"
    "n div 262144 * 64 + n div 4096 mod 64 = n div 4096"
  using div_mult_mod_eq [of n 64] div_mult_mod_eq [of "n div 64" 64] div_mult_mod_eq [of "n div 4096" 64]
  by (simp_all add: div_mult2_eq [symmetric])

lemma byte_parts:
  fixes n :: nat
  assumes "n < 16777216"
  shows "n div 262144 mod 64 * 262144 + n div 4096 mod 64 * 4096 + n div 64 mod 64 * 64 + n mod 64 = n"
proof -
  have "n div 262144 < 64" using assms by (simp add: div_less_iff_less_mult)
  then have "n div 262144 mod 64 = n div 262144" by simp
  then show ?thesis using digits64 [of n] by linarith
qed

lemma char_of_byte: "char_of (of_char a + 256 * k :: nat) = a"
proof -
  have "char_of (of_char a + 256 * k :: nat) = char_of ((of_char a + 256 * k) mod 256 :: nat)"
    by (rule char_of_mod_256 [symmetric])
  also have "(of_char a + 256 * k) mod 256 = (of_char a :: nat)" by simp
  finally show ?thesis by simp
qed

lemma group_bytes:
  fixes a b c :: char
  defines "n \<equiv> of_char a * 65536 + of_char b * 256 + of_char c :: nat"
  shows "n < 16777216" "char_of (n div 65536) = a" "char_of (n div 256) = b" "char_of n = c"
proof -
  show "n < 16777216" using byte_bound [of a] byte_bound [of b] byte_bound [of c] unfolding n_def by linarith
  have "n div 65536 = of_char a" using byte_bound [of b] byte_bound [of c] unfolding n_def
    by (intro div_nat_eqI; simp; linarith)
  moreover have "n div 256 = of_char b + 256 * of_char a" using byte_bound [of c] unfolding n_def
    by (intro div_nat_eqI; simp; linarith)
  ultimately have d: "n div 65536 = of_char a + 256 * 0" "n div 256 = of_char b + 256 * of_char a"
    "n = of_char c + 256 * (of_char b + 256 * of_char a)" by (simp_all add: n_def)
  show "char_of (n div 65536) = a" unfolding d(1) by (rule char_of_byte)
  show "char_of (n div 256) = b" unfolding d(2) by (rule char_of_byte)
  show "char_of n = c" by (subst d(3)) (rule char_of_byte)
qed

lemma b64url_roundtrip: "b64url_decode (b64url_encode s) = Some s"
proof (induction s rule: b64url_encode.induct)
  case 1
  show ?case by (simp add: b64url_decode_def)
next
  case (2 a)
  define n where "n = (of_char a * 65536 :: nat)"
  have e: "b64url_encode [a] = [b64_char (n div 262144), b64_char (n div 4096)]"
    by (simp only: b64url_encode.simps Let_def n_def)
  have "n < 16777216" "n div 64 mod 64 = 0" "n mod 64 = 0" using byte_bound [of a] by (simp_all add: n_def)
  then have "n div 262144 mod 64 * 262144 + n div 4096 mod 64 * 4096 = n" using byte_parts [of n] by linarith
  moreover have "char_of (n div 65536) = a" using group_bytes(2) [of a "CHR 0x00" "CHR 0x00"] by (simp add: n_def)
  ultimately show ?case
    by (simp only: e b64url_decode_def b64_vals_char b64_vals.simps(1) option.map Option.bind.simps b64_join.simps)
next
  case (3 a b)
  define n where "n = (of_char a * 65536 + of_char b * 256 :: nat)"
  have e: "b64url_encode [a, b] = [b64_char (n div 262144), b64_char (n div 4096), b64_char (n div 64)]"
    by (simp only: b64url_encode.simps Let_def n_def)
  have "n < 16777216" using byte_bound [of a] byte_bound [of b] unfolding n_def by linarith
  moreover have "n mod 64 = 0" unfolding n_def by presburger
  ultimately have "n div 262144 mod 64 * 262144 + n div 4096 mod 64 * 4096 + n div 64 mod 64 * 64 = n"
    using byte_parts [of n] by linarith
  moreover have "char_of (n div 65536) = a" "char_of (n div 256) = b"
    using group_bytes(2,3) [of a b "CHR 0x00"] by (simp_all add: n_def)
  ultimately show ?case
    by (simp only: e b64url_decode_def b64_vals_char b64_vals.simps(1) option.map Option.bind.simps b64_join.simps Let_def)
next
  case (4 a b c r)
  define n where "n = (of_char a * 65536 + of_char b * 256 + of_char c :: nat)"
  have e: "b64url_encode (a # b # c # r) =
      b64_char (n div 262144) # b64_char (n div 4096) # b64_char (n div 64) # b64_char n # b64url_encode r"
    by (simp only: b64url_encode.simps Let_def n_def)
  obtain vs where vs: "b64_vals (b64url_encode r) = Some vs" "b64_join vs = Some r"
    using 4 by (auto simp: b64url_decode_def bind_eq_Some_conv)
  have "n div 262144 mod 64 * 262144 + n div 4096 mod 64 * 4096 + n div 64 mod 64 * 64 + n mod 64 = n"
    using byte_parts group_bytes(1) [of a b c] by (simp add: n_def)
  moreover have "char_of (n div 65536) = a" "char_of (n div 256) = b" "char_of n = c"
    using group_bytes(2,3,4) [of a b c] by (simp_all add: n_def)
  ultimately show ?case
    by (simp only: e b64url_decode_def b64_vals_char vs option.map Option.bind.simps b64_join.simps Let_def)
qed

lemma b64url_no_dot: "CHR ''.'' \<notin> set (b64url_encode s)"
  using b64_char_text by (induction s rule: b64url_encode.induct) (auto simp: Let_def dest: sym)

section \<open>Cookies\<close>

text \<open>The JSON library reads back the sessions it wrote.\<close>

definition json_ok :: "console_env \<Rightarrow> bool" where
  "json_ok e \<longleftrightarrow> (\<forall>s. ceUnmarshal e (ceMarshal e s) = Some s)"

lemma Verify_sign:
  assumes "ceUnmarshal e (ceMarshal e s) = Some s"
  shows "Verify e now (sign e s) = (if now > seExp s then None else Some s)"
proof -
  let ?b = "b64url_encode (ceMarshal e s)" and ?m = "b64url_encode (ceHmac e (ceSecret e) (b64url_encode (ceMarshal e s)))"
  have "split_at (CHR ''.'') (?b @ CHR ''.'' # ?m) = [?b, ?m]"
    by (simp only: split_at_append [OF b64url_no_dot] split_at_no [OF b64url_no_dot])
  then show ?thesis using assms by (simp add: Verify_def sign_def Let_def b64url_roundtrip)
qed

lemma Verify_SomeD:
  assumes "Verify e now v = Some s"
  shows "\<exists>body sig raw. v = body @ ''.'' @ sig \<and> b64url_decode sig = Some (ceHmac e (ceSecret e) body) \<and>
    b64url_decode body = Some raw \<and> ceUnmarshal e raw = Some s \<and> now \<le> seExp s"
proof -
  obtain body sig where sp: "split_at (CHR ''.'') v = [body, sig]"
    using assms by (auto simp: Verify_def split: if_splits list.splits)
  have "v = body @ ''.'' @ sig" using join_split [of "CHR ''.''" v] by (simp add: sp)
  moreover have "b64url_decode sig = Some (ceHmac e (ceSecret e) body) \<and>
      (\<exists>raw. b64url_decode body = Some raw \<and> ceUnmarshal e raw = Some s) \<and> now \<le> seExp s"
    using assms by (auto simp: Verify_def sp split: if_splits option.splits)
  ultimately show ?thesis by blast
qed

text \<open>Who a request comes from, when sign in is enabled.\<close>

definition session_user :: "console_env \<Rightarrow> ui_request \<Rightarrow> Console \<Rightarrow> ConsoleUser option" where
  "session_user e rq st =
     Option.bind (uqCookie rq) (\<lambda>ck. Option.bind (Verify e (uqNow rq) ck)
       (\<lambda>s. row_find cuUsername (seUsername s) (coUsers st)))"

lemma Require_iff:
  assumes "\<not> ceLoginDisabled e"
  shows "Require e rq st = Inr u \<longleftrightarrow> session_user e rq st = Some u \<and> (cuPasswordSet u \<or> \<not> NudgeSetup st)"
  using assms by (auto simp: Require_def session_user_def GetByUsername_def split: option.splits)

lemma session_userD:
  "session_user e rq st = Some u \<Longrightarrow> u \<in> set (coUsers st) \<and>
     (\<exists>ck s. uqCookie rq = Some ck \<and> Verify e (uqNow rq) ck = Some s \<and> seUsername s = cuUsername u)"
  by (auto simp: session_user_def bind_eq_Some_conv dest: row_find_SomeD)

text \<open>Property C30.  Session cookies.  A cookie the console issued is accepted as exactly its session until
  its expiry and never after; and whatever cookie is accepted consists of a body and the console's
  own signature of that body, and holds a session that has not expired.\<close>

theorem session_cookies:
  assumes "json_ok e"
  shows "Verify e now (sign e s) = (if now > seExp s then None else Some s) \<and>
    (Verify e now v = Some s' \<longrightarrow>
       (\<exists>body sig. v = body @ ''.'' @ sig \<and> b64url_decode sig = Some (ceHmac e (ceSecret e) body)) \<and> now \<le> seExp s')"
  using Verify_sign [of e s now] Verify_SomeD [of e now v s'] assms by (auto simp: json_ok_def)

text \<open>A console with readable parameters.\<close>

definition demo_console :: console_env where
  "demo_console = \<lparr> ceSecret = ''k'', ceHmac = (@), ceMarshal = (\<lambda>s. itoa (seExp s) @ ''/'' @ seUsername s),
     ceUnmarshal = (\<lambda>raw. case parse_int64 (takeWhile (\<lambda>c. c \<noteq> CHR ''/'') raw) of None \<Rightarrow> None
        | Some i \<Rightarrow> Some \<lparr> seUsername = tl (dropWhile (\<lambda>c. c \<noteq> CHR ''/'') raw), seExp = i \<rparr>),
     ceHash = (\<lambda>p. if length p > 72 then None else Some (''h'' @ p)), ceCompare = (\<lambda>h p. h = ''h'' @ p),
     ceLoginDisabled = False, ceVersion = ''v1'', ceUnique = ''UNIQUE constraint failed'', ceEnvAPI = ''http://d'',
     ceEnvToken = ''t'', ceDomain = ''example.com'', ceSteps = (\<lambda>_. None), cePreview = (\<lambda>_. []), ceTranslate = id,
     ceTime = parse_int64 \<rparr>"

text \<open>Its reader undoes its writer on all sessions when the expiry is encoded without loss.\<close>

definition plain_console :: console_env where
  "plain_console = demo_console\<lparr>
     ceMarshal := (\<lambda>s. (if seExp s < 0 then ''-'' else ''+'') @ replicate (nat \<bar>seExp s\<bar>) (CHR ''1'') @ ''/'' @ seUsername s),
     ceUnmarshal := (\<lambda>raw. let n = int (length (takeWhile (\<lambda>c. c = CHR ''1'') (tl raw))) in
        Some \<lparr> seUsername = tl (dropWhile (\<lambda>c. c = CHR ''1'') (tl raw)), seExp = (if hd raw = CHR ''-'' then - n else n) \<rparr>) \<rparr>"

lemma plain_json_ok: "json_ok plain_console"
proof -
  have t: "takeWhile (\<lambda>c. c = CHR ''1'') (replicate n (CHR ''1'') @ CHR ''/'' # x) = replicate n (CHR ''1'')"
    "dropWhile (\<lambda>c. c = CHR ''1'') (replicate n (CHR ''1'') @ CHR ''/'' # x) = CHR ''/'' # x" for n x
    by (induction n) simp_all
  show ?thesis by (simp add: json_ok_def plain_console_def t Let_def)
qed

theorem session_cookies_witness:
  "Verify plain_console 5 (sign plain_console \<lparr> seUsername = ''ann'', seExp = 9 \<rparr>) = Some \<lparr> seUsername = ''ann'', seExp = 9 \<rparr> \<and>
   Verify plain_console 10 (sign plain_console \<lparr> seUsername = ''ann'', seExp = 9 \<rparr>) = None"
  using session_cookies [OF plain_json_ok, of 5 "\<lparr> seUsername = ''ann'', seExp = 9 \<rparr>" "[]"]
    session_cookies [OF plain_json_ok, of 10 "\<lparr> seUsername = ''ann'', seExp = 9 \<rparr>" "[]"] by simp

text \<open>A session outlives a change of the password, and passes to whoever gets the name: the gate looks at
  the name alone.\<close>

lemma session_outlives_password:
  assumes "\<not> ceLoginDisabled e" "Require e rq st = Inr u" "hash \<noteq> []"
  shows "\<exists>u'. Require e rq (UpdateUser (cuID u) (cuRole u) hash st) = Inr u' \<and> cuUsername u' = cuUsername u"
proof -
  from assms(2) obtain s where s: "session_user e rq st = Some u" "row_find cuUsername (seUsername s) (coUsers st) = Some u"
    "Option.bind (uqCookie rq) (Verify e (uqNow rq)) = Some s"
    unfolding Require_iff [OF assms(1)] by (auto simp: session_user_def bind_eq_Some_conv)
  let ?u = "u\<lparr> cuRole := default_role (cuRole u), cuPasswordHash := hash, cuPasswordSet := True \<rparr>"
  have "session_user e rq (UpdateUser (cuID u) (cuRole u) hash st) = Some ?u"
  proof -
    have "row_find cuUsername n (row_update cuID i f rows) =
        map_option (\<lambda>r. if cuID r = i then f r else r) (row_find cuUsername n rows)"
      if "\<And>r. cuUsername (f r) = cuUsername r" for n i f and rows :: "ConsoleUser list"
      using that by (induction rows) (auto simp: row_find_def row_update_def)
    then show ?thesis using s assms(3) by (auto simp: session_user_def UpdateUser_def bind_eq_Some_conv)
  qed
  then show ?thesis by (intro exI [of _ ?u]) (simp add: Require_iff [OF assms(1)])
qed

end
