(* ===== verification/Console_Access_Properties.thy ===== *)
theory Console_Access_Properties
  imports Console_Routes Console_Sessions_Properties Api_Properties
begin

text \<open>
  What the roles of the console confine, that its accounts keep an administrator, and how it can lose
  its last one.
\<close>

section \<open>What a handler may touch\<close>

definition touches_accounts :: "handler \<Rightarrow> bool" where
  "touches_accounts h \<longleftrightarrow> h \<in> {H_Users_Create, H_Users_EditSave, H_Users_Remove}"

definition touches_console :: "handler \<Rightarrow> bool" where
  "touches_console h \<longleftrightarrow> touches_accounts h \<or> h = H_Settings_Save"

definition reads_daemon :: "handler \<Rightarrow> bool" where
  "reads_daemon h \<longleftrightarrow> h \<in> {H_StackConfigs_Page, H_StackConfigs_ConfigEdit, H_Settings_Page, H_Settings_ConfigEdit,
     H_Settings_RenderedGet, H_APIKeys_Page, H_Settings_ClusterSettingsPage, H_StackConfigs_RevealSecret,
     H_Settings_RevealSecret, H_Settings_Save} \<or> (\<exists>p. h = H_Page p \<and> p \<noteq> SSO_Page)"

definition touches_daemon :: "handler \<Rightarrow> bool" where
  "touches_daemon h \<longleftrightarrow> h \<in> {H_StackConfigs_AddConfig, H_StackConfigs_EditConfig, H_StackConfigs_RollbackConfig,
     H_StackConfigs_RemoveConfig, H_StackConfigs_AddSecret, H_StackConfigs_EditSecret, H_StackConfigs_RemoveSecret,
     H_Settings_AddConfig, H_Settings_EditConfig, H_Settings_RollbackConfig, H_Settings_RemoveConfig,
     H_Settings_AddSecret, H_Settings_EditSecret, H_Settings_RemoveSecret, H_APIKeys_Add, H_APIKeys_Remove,
     H_Settings_Apply, H_Settings_ClusterSettingsSave} \<or> (\<exists>p. h = H_Page p \<and> page_writes p)"

text \<open>The table asks for the roles these effects need.\<close>

definition role_needed :: "route \<Rightarrow> bool" where
  "role_needed r \<longleftrightarrow>
     (touches_console (rtHandler r) \<longrightarrow> rtRole r = Some RoleAdmin) \<and>
     (touches_daemon (rtHandler r) \<longrightarrow> rtRole r = Some RoleOperator \<or> rtRole r = Some RoleAdmin) \<and>
     (reads_daemon (rtHandler r) \<longrightarrow> rtRole r \<noteq> None)"

lemma table_roles: "list_all role_needed Mount"
  unfolding Mount_def
  by (simp add: role_needed_def touches_console_def touches_accounts_def touches_daemon_def reads_daemon_def
      page_writes_def)

lemma find_route_in: "find_route rs m p = Some (r, ps) \<Longrightarrow> r \<in> set rs \<and> rtMethod r = m \<and> match_path (rtPath r) p = Some ps"
  by (induction rs) (auto split: if_splits option.splits)

lemma route_role_needed: "find_route Mount m p = Some (r, ps) \<Longrightarrow> role_needed r"
  using table_roles find_route_in [of Mount m p r ps] by (auto simp: list_all_iff)

section \<open>Reading calls\<close>

lemma pm_reads:
  assumes "keeps_reading P srv"
  shows "P s \<Longrightarrow> P (snd (pm_ListConfigs srv sc sk s))" "P s \<Longrightarrow> P (snd (pm_ListSecrets srv sc sk s))"
    "P s \<Longrightarrow> P (snd (pm_GetConfig srv n s))" "P s \<Longrightarrow> P (snd (pm_ConfigVersions srv n s))"
    "P s \<Longrightarrow> P (snd (pm_RevealSecret srv n s))" "P s \<Longrightarrow> P (snd (pm_ListRenderedConfigs srv s))"
    "P s \<Longrightarrow> P (snd (pm_GetClusterSettings srv s))" "P s \<Longrightarrow> P (snd (pm_ListAPIKeys srv s))"
  by (simp_all add: pm_do_reads [OF assms] pm_ListConfigs_def pm_ListSecrets_def pm_GetConfig_def pm_ConfigVersions_def
      pm_RevealSecret_def pm_ListRenderedConfigs_def pm_GetClusterSettings_def pm_ListAPIKeys_def)

lemma read_pages:
  assumes "net_keeps P net"
  shows "P s \<Longrightarrow> P (snd (fill_settings net e me d st s))" "P s \<Longrightarrow> P (snd (fetch (api_of net e st) d' s))"
    "P s \<Longrightarrow> P (snd (loadConfigEdit (api_of net e st) n s))" "P s \<Longrightarrow> P (snd (loadKeys (api_of net e st) dk s))"
proof -
  note r = pm_reads [OF reading_clients(2) [OF assms]]
  show "P s \<Longrightarrow> P (snd (fill_settings net e me d st s))"
    by (simp add: fill_settings_def loadCluster_def Let_def case_prod_unfold r)
  show "P s \<Longrightarrow> P (snd (fetch (api_of net e st) d' s))"
    by (simp add: fetch_def Let_def case_prod_unfold r)
  show "P s \<Longrightarrow> P (snd (loadConfigEdit (api_of net e st) n s))"
    by (simp add: loadConfigEdit_def Let_def case_prod_unfold r split: sum.split)
  show "P s \<Longrightarrow> P (snd (loadKeys (api_of net e st) dk s))"
    by (simp add: loadKeys_def case_prod_unfold r split: sum.split)
qed

lemma read_handlers:
  assumes "net_keeps P net"
  shows "P s \<Longrightarrow> P (snd (render_settings net e me d st s))" "P s \<Longrightarrow> P (snd (stack_render net e d' st s))"
    "P s \<Longrightarrow> P (snd (Settings_ConfigEdit net e n st s))" "P s \<Longrightarrow> P (snd (Stack_ConfigEdit net e k n st s))"
    "P s \<Longrightarrow> P (snd (Settings_RenderedGet net e n st s))" "P s \<Longrightarrow> P (snd (Keys_Page net e st s))"
    "P s \<Longrightarrow> P (snd (ClusterSettingsPage net e st s))" "P s \<Longrightarrow> P (snd (Settings_RevealSecret net e n st s))"
    "P s \<Longrightarrow> P (snd (Stack_RevealSecret net e n st s))" "P s \<Longrightarrow> P (snd (snd (Settings_Save net e me rq st s)))"
proof -
  note r = pm_reads [OF reading_clients(2) [OF assms]] and p = read_pages [OF assms]
  show rs: "P s \<Longrightarrow> P (snd (render_settings net e me d st s))" for d st s
    by (simp add: render_settings_def case_prod_unfold p)
  show "P s \<Longrightarrow> P (snd (stack_render net e d' st s))" by (simp add: stack_render_def case_prod_unfold p)
  show "P s \<Longrightarrow> P (snd (Settings_ConfigEdit net e n st s))"
    by (simp add: Settings_ConfigEdit_def Let_def case_prod_unfold p split: sum.split)
  show "P s \<Longrightarrow> P (snd (Stack_ConfigEdit net e k n st s))"
    by (simp add: Stack_ConfigEdit_def Let_def case_prod_unfold p split: sum.split)
  show "P s \<Longrightarrow> P (snd (Settings_RenderedGet net e n st s))"
    by (simp add: Settings_RenderedGet_def Let_def case_prod_unfold r split: sum.split option.split)
  show "P s \<Longrightarrow> P (snd (Keys_Page net e st s))" by (simp add: Keys_Page_def case_prod_unfold p)
  show "P s \<Longrightarrow> P (snd (ClusterSettingsPage net e st s))"
    by (simp add: ClusterSettingsPage_def case_prod_unfold r split: sum.split)
  show "P s \<Longrightarrow> P (snd (Settings_RevealSecret net e n st s))"
    by (simp add: Settings_RevealSecret_def Let_def case_prod_unfold r split: sum.split)
  show "P s \<Longrightarrow> P (snd (Stack_RevealSecret net e n st s))"
    by (simp add: Stack_RevealSecret_def case_prod_unfold r split: sum.split)
  show "P s \<Longrightarrow> P (snd (snd (Settings_Save net e me rq st s)))"
    by (simp add: Settings_Save_def Let_def case_prod_unfold rs)
qed

section \<open>What a request may change\<close>

lemma run_console:
  assumes "\<not> touches_console h" "h \<noteq> H_Setup"
  shows "fst (snd (run_handler net e h ps me rq w)) = fst w"
  using assms
  by (cases h) (simp_all add: run_handler_def Let_def touches_console_def touches_accounts_def case_prod_unfold)

lemma save_accounts: "coUsers (fst (snd (Settings_Save net e me rq st s))) = coUsers st"
  by (simp add: Settings_Save_def save_connection_def console_SetSetting_def Let_def case_prod_unfold)

lemma run_accounts:
  assumes "\<not> touches_accounts h" "h \<noteq> H_Setup"
  shows "coUsers (fst (snd (run_handler net e h ps me rq w))) = coUsers (fst w)"
proof (cases "h = H_Settings_Save")
  case True
  then show ?thesis by (simp add: run_handler_def Let_def case_prod_unfold save_accounts)
next
  case False
  then show ?thesis using assms by (simp add: touches_console_def run_console)
qed

lemma run_daemon:
  assumes "\<not> touches_daemon h" "net_keeps P net" "P (snd w)"
  shows "P (snd (snd (run_handler net e h ps me rq w)))"
  using assms(1,3) read_handlers [OF assms(2)] run_page_reads [OF _ assms(2)]
  by (cases h) (simp_all add: run_handler_def Let_def touches_daemon_def case_prod_unfold Settings_Show_def Stack_Show_def)

text \<open>How a request gets to a handler.\<close>

lemma serve_cases:
  obtains "snd (serve net e rq w) = w"
  | r ps where "find_route Mount (uqMethod rq) (uqPath rq) = Some (r, ps)" "rtRole r = None"
      "serve net e rq w = run_handler net e (rtHandler r) ps synthetic_admin rq w"
  | r ps role me where "find_route Mount (uqMethod rq) (uqPath rq) = Some (r, ps)" "rtRole r = Some role"
      "serve net e rq w = run_handler net e (rtHandler r) ps me rq w"
      "(Require e rq (fst w) :: console_page ui_reply + ConsoleUser) = Inr me" "roleRank role \<le> roleRank (cuRole me)"
proof (cases "find_route Mount (uqMethod rq) (uqPath rq)")
  case None
  then show thesis using that(1) by (simp add: serve_def)
next
  case (Some rp)
  obtain r ps where rp: "rp = (r, ps)" by (cases rp)
  note route = Some [unfolded rp]
  show thesis
  proof (cases "gate e (rtRole r) rq (fst w) :: console_page ui_reply + ConsoleUser option")
    case (Inl reply)
    then show thesis using that(1) route by (simp add: serve_def)
  next
    case (Inr u)
    have run: "serve net e rq w = run_handler net e (rtHandler r) ps (case u of Some me \<Rightarrow> me | None \<Rightarrow> synthetic_admin) rq w"
      using route Inr by (simp add: serve_def)
    show thesis
    proof (cases "rtRole r")
      case None
      then show thesis using that(2) [OF route None] run Inr by (simp add: gate_def)
    next
      case (Some role)
      then obtain me where "u = Some me" "(Require e rq (fst w) :: console_page ui_reply + ConsoleUser) = Inr me"
        "roleRank role \<le> roleRank (cuRole me)"
        using Inr by (auto simp: gate_def RequireRole_def split: sum.splits option.splits if_splits)
      then show thesis using that(3) [OF route Some] run by simp
    qed
  qed
qed

lemma role_names [simp]:
  "RoleAdmin \<noteq> []" "default_role RoleAdmin = RoleAdmin" "RoleAdmin \<noteq> RoleOperator" "RoleOperator \<noteq> RoleAdmin"
  by (simp_all add: RoleAdmin_def RoleOperator_def default_role_def)

lemma rank_admin: "roleRank RoleAdmin \<le> roleRank r \<longleftrightarrow> r = RoleAdmin"
  by (auto simp: roleRank_def RoleAdmin_def RoleOperator_def RoleViewer_def)

lemma rank_operator: "roleRank RoleOperator \<le> roleRank r \<longleftrightarrow> r = RoleAdmin \<or> r = RoleOperator"
  by (auto simp: roleRank_def RoleAdmin_def RoleOperator_def RoleViewer_def)

text \<open>Only the first setup is public among the handlers with an effect.\<close>

lemma public_effects:
  assumes "find_route Mount m p = Some (r, ps)" "rtRole r = None"
  shows "\<not> touches_console (rtHandler r)" "\<not> touches_daemon (rtHandler r)"
  using route_role_needed [OF assms(1)] assms(2) by (auto simp: role_needed_def)

lemma setup_route: "find_route Mount m p = Some (r, ps) \<Longrightarrow> rtHandler r = H_Setup \<Longrightarrow> rtRole r = None"
proof -
  have "list_all (\<lambda>r. rtHandler r = H_Setup \<longrightarrow> rtRole r = None) Mount" unfolding Mount_def by simp
  then show "find_route Mount m p = Some (r, ps) \<Longrightarrow> rtHandler r = H_Setup \<Longrightarrow> rtRole r = None"
    using find_route_in [of Mount m p r ps] by (auto simp: list_all_iff)
qed

lemma Setup_closed:
  "\<not> setup_open st \<Longrightarrow> snd (Setup e rq st) = st" "ceLoginDisabled e \<Longrightarrow> snd (Setup e rq st) = st"
  by (simp_all add: Setup_def)

text \<open>The states the daemon gets to by answering GET requests.\<close>

inductive gets :: "'s net \<Rightarrow> 's \<Rightarrow> 's \<Rightarrow> bool" for net where
  none: "gets net s s"
| get: "gets net s s1 \<Longrightarrow> rqMethod rq = ''GET'' \<Longrightarrow> gets net s (snd (net base token rq s1))"

lemma gets_kept: "net_keeps (gets net s) net"
  by (auto simp: net_keeps_def keeps_reading_def intro: gets.intros)

lemma gets_same: "gets net s s' \<Longrightarrow> (\<And>b t rq s. rqMethod rq = ''GET'' \<Longrightarrow> snd (net b t rq s) = s) \<Longrightarrow> s' = s"
  by (induction rule: gets.induct) auto

text \<open>Property C7.  Roles confine what a request can change.  With sign in enabled, a request changes the
  console's accounts or connection settings only if its session is that of an administrator, or if it
  is the first setup and that is still open.  The daemon gets any other request than GET only if the
  session is that of an administrator or an operator: for a viewer, and without a session, what the
  request does to it is what some sequence of GET requests does, such as noting when the token was
  last used, or the discovery and pruning of backups that listing them sets off.\<close>

theorem roles_confine_requests:
  assumes "\<not> ceLoginDisabled e" "serve net e rq (st, s) = (out, st', s')"
  shows "(st' \<noteq> st \<longrightarrow> setup_open st \<or> (\<exists>u. session_user e rq st = Some u \<and> cuRole u = RoleAdmin)) \<and>
    (\<not> gets net s s' \<longrightarrow>
       (\<exists>u. session_user e rq st = Some u \<and> (cuRole u = RoleAdmin \<or> cuRole u = RoleOperator)))"
proof (cases rule: serve_cases [of net e rq "(st, s)"])
  case 1
  then show ?thesis using assms(2) gets.none [of net s] by simp
next
  case (2 r ps)
  note ef = public_effects [OF 2(1,2)]
  have "gets net s s'"
    using run_daemon [OF ef(2) gets_kept [of net s], of "(st, s)" e ps synthetic_admin rq] 2(3) assms(2) gets.none [of net s] by (metis snd_conv)
  moreover have "st' \<noteq> st \<longrightarrow> setup_open st"
  proof (cases "rtHandler r = H_Setup")
    case True
    then show ?thesis using 2(3) assms(2) Setup_closed(1) [of st e rq]
      by (auto simp: run_handler_def Let_def split: prod.splits)
  next
    case False
    then show ?thesis using run_console [OF ef(1) False] 2(3) assms(2) by (metis fst_conv snd_conv)
  qed
  ultimately show ?thesis by simp
next
  case (3 r ps role me)
  have u: "session_user e rq st = Some me" using 3(4) by (simp add: Require_iff [OF assms(1)])
  have need: "role_needed r" by (rule route_role_needed [OF 3(1)])
  have ns: "rtHandler r \<noteq> H_Setup" using setup_route [OF 3(1)] 3(2) by auto
  have "st' = st" if "cuRole me \<noteq> RoleAdmin"
  proof -
    have "\<not> touches_console (rtHandler r)" using need 3(2,5) that by (auto simp: role_needed_def rank_admin)
    then show ?thesis using run_console [OF _ ns] 3(3) assms(2) by (metis fst_conv snd_conv)
  qed
  moreover have "gets net s s'" if "cuRole me \<noteq> RoleAdmin" "cuRole me \<noteq> RoleOperator"
  proof -
    have "\<not> touches_daemon (rtHandler r)"
      using need 3(2,5) that by (auto simp: role_needed_def rank_admin rank_operator)
    then show ?thesis
      using run_daemon [OF _ gets_kept [of net s], of "rtHandler r" "(st, s)" e ps me rq] 3(3) assms(2) gets.none [of net s] by (metis snd_conv)
  qed
  ultimately show ?thesis using u by blast
qed

lemma first_route_keeps: "list_all (\<lambda>r. \<forall>x. r = Some x \<longrightarrow> snd x = db) rs \<Longrightarrow> snd (first_route rs (reply, db)) = db"
  by (induction rs "(reply, db)" rule: first_route.induct) auto

lemma route_reads:
  assumes "rqMethod rq = ''GET''"
  shows "settings_routes rq db = Some x \<Longrightarrow> snd x = db"
    "keys_routes a dr dm me rq db = Some x \<Longrightarrow> snd x = db"
    "secrets_routes v dm rq db = Some x \<Longrightarrow> snd x = db"
    "configs_routes dm rq db = Some x \<Longrightarrow> snd x = db"
proof -
  show "settings_routes rq db = Some x \<Longrightarrow> snd x = db"
    using assms by (auto simp: settings_routes_def Let_def split: list.splits if_splits)
  show "keys_routes a dr dm me rq db = Some x \<Longrightarrow> snd x = db"
    using assms by (auto simp: keys_routes_def Let_def split: list.splits if_splits)
  show "secrets_routes v dm rq db = Some x \<Longrightarrow> snd x = db"
    using assms by (auto simp: secrets_routes_def Let_def split: list.splits if_splits)
  show "configs_routes dm rq db = Some x \<Longrightarrow> snd x = db"
    using assms by (auto simp: configs_routes_def Let_def split: list.splits if_splits)
qed

lemma api_reads: "rqMethod rq = ''GET'' \<Longrightarrow> snd (api_server ae rq db) = db"
  unfolding api_server_def by (rule first_route_keeps) (auto dest: route_reads)

lemma api_keeps: "net_keeps (\<lambda>s. s = db) (\<lambda>_ _. api_server ae)"
  by (simp add: net_keeps_def keeps_reading_def api_reads)

text \<open>With the daemon's middleware in front of these routes, GET requests change nothing but the times
  at which tokens were last used.\<close>

definition unseen :: "Store \<Rightarrow> Store" where
  "unseen db = db\<lparr> dbUsers := map (\<lambda>u. u\<lparr> usLastUsedAt := 0 \<rparr>) (dbUsers db) \<rparr>"

lemma unseen_touch: "unseen (TouchUser now i db) = unseen db"
  by (simp add: unseen_def TouchUser_def row_update_def)

lemma bearer_gets: "gets (\<lambda>_ token. bearer_api ae token) db db' \<Longrightarrow> unseen db' = unseen db"
  by (induction rule: gets.induct)
    (simp_all add: bearer_api_def behind_bearer_cases api_reads unseen_touch split: auth_result.split)

text \<open>A request without a session changes nothing of a console with accounts.\<close>

definition admin_row :: "int \<Rightarrow> string \<Rightarrow> ConsoleUser" where
  "admin_row i n = \<lparr> cuID = i, cuUsername = n, cuPasswordHash = ''h'', cuPasswordSet = True, cuRole = RoleAdmin,
     cuCreatedAt = 0 \<rparr>"

definition two_admins :: Console where
  "two_admins = \<lparr> coUsers = [admin_row 1 ''ann'', admin_row 2 ''bob''], coUserSeq = 2, coSettings = [] \<rparr>"

definition anonymous_removal :: ui_request where
  "anonymous_removal = \<lparr> uqMethod = ''POST'', uqPath = [''web'', ''stacks'', ''app'', ''configs'', ''remove'', ''c''],
     uqHX = False, uqQuery = [], uqForm = [], uqCookie = None, uqNow = 0, uqBase = [], uqTok = [] \<rparr>"

lemma two_admins_closed: "\<not> setup_open two_admins"
  by (simp add: setup_open_def needSetup_def console_CountUsers_def FirstUser_def console_ListUsers_def
      two_admins_def admin_row_def)

theorem roles_confine_requests_witness:
  "snd (serve (\<lambda>_ _. api_server demo_env) plain_console anonymous_removal (two_admins, empty_store)) =
     (two_admins, empty_store)"
proof -
  let ?net = "\<lambda>_ _. api_server demo_env"
  have e: "\<not> ceLoginDisabled plain_console" by (simp add: plain_console_def demo_console_def)
  have u: "session_user plain_console anonymous_removal two_admins = None"
    by (simp add: session_user_def anonymous_removal_def)
  obtain out st' s' where w: "serve ?net plain_console anonymous_removal (two_admins, empty_store) = (out, st', s')"
    by (metis surj_pair)
  have "st' = two_admins" "gets ?net empty_store s'"
    using roles_confine_requests [OF e w] two_admins_closed u by auto
  moreover from this(2) have "s' = empty_store" by (rule gets_same) (simp add: api_reads)
  ultimately show ?thesis by (simp add: w)
qed

section \<open>Administrators\<close>

definition has_admin :: "Console \<Rightarrow> bool" where
  "has_admin st \<longleftrightarrow> list_ex (\<lambda>u. cuRole u = RoleAdmin) (coUsers st)"

fun serve_all :: "'s net \<Rightarrow> console_env \<Rightarrow> ui_request list \<Rightarrow> Console \<times> 's \<Rightarrow> Console \<times> 's" where
  "serve_all net e [] w = w"
| "serve_all net e (rq # rqs) w = serve_all net e rqs (snd (serve net e rq w))"

lemma EditSave_keeps_me:
  assumes inv: "console_inv st" and me: "me \<in> set (coUsers st)" "cuRole me = RoleAdmin"
  shows "has_admin (snd (Users_EditSave e me rq st))"
proof -
  have old: "has_admin st" using me by (auto simp: has_admin_def list_ex_iff)
  show ?thesis
  proof (cases "snd (Users_EditSave e me rq st) = st")
    case True
    then show ?thesis using old by simp
  next
    case False
    then obtain i u role h where i: "row_find cuID i (coUsers st) = Some u"
      and upd: "snd (Users_EditSave e me rq st) = UpdateUser i role h st"
      and self: "cuUsername me = cuUsername u \<longrightarrow> role = RoleAdmin"
      by (simp add: Users_EditSave_store split: option.splits if_splits)
    let ?f = "\<lambda>u. if h \<noteq> [] then u\<lparr> cuRole := default_role role, cuPasswordHash := h, cuPasswordSet := True \<rparr>
      else u\<lparr> cuRole := default_role role \<rparr>"
    let ?me = "if cuID me = i then ?f me else me"
    have "cuRole ?me = RoleAdmin"
    proof (cases "cuID me = i")
      case True
      then have "me = u" using row_find_unique [of cuID "coUsers st" i me] inv me(1) i by (simp add: console_inv_def)
      then show ?thesis using self True by simp
    qed (use me(2) in simp)
    moreover have "?me \<in> set (coUsers (UpdateUser i role h st))"
      using me(1) by (auto simp: UpdateUser_def set_row_update)
    ultimately show ?thesis unfolding upd has_admin_def list_ex_iff by blast
  qed
qed

lemma Remove_keeps_me:
  assumes inv: "console_inv st" and me: "me \<in> set (coUsers st)" "cuRole me = RoleAdmin"
  shows "has_admin (snd (Users_Remove e me p st))"
proof -
  have old: "has_admin st" using me by (auto simp: has_admin_def list_ex_iff)
  have "me \<in> set (row_delete cuID i (coUsers st))"
    if "row_find cuID i (coUsers st) = Some u" "cuRole u \<noteq> RoleAdmin" for i u
    using that me inv row_find_unique [of cuID "coUsers st" i me] by (auto simp: console_inv_def)
  then show ?thesis using old me(2) by (auto simp: Users_Remove_store has_admin_def list_ex_iff split: option.splits)
qed

lemma Create_keeps:
  assumes "has_admin st"
  shows "has_admin (snd (Users_Create e me rq st))" "has_admin (snd (Setup e rq st))"
proof -
  have c: "has_admin (snd (console_CreateUser now n h p r st))" for now n h p r
    using assms by (auto simp: console_CreateUser_def has_admin_def Let_def)
  show "has_admin (snd (Users_Create e me rq st))"
    using c assms by (auto simp: Users_Create_def Let_def split: prod.splits sum.splits) (metis snd_conv)+
  show "has_admin (snd (Setup e rq st))"
    using c assms by (auto simp: Setup_def Let_def split: prod.splits sum.splits option.splits) (metis snd_conv)+
qed

lemma run_admin:
  assumes "console_inv st" "has_admin st" "touches_accounts h \<longrightarrow> me \<in> set (coUsers st) \<and> cuRole me = RoleAdmin"
  shows "has_admin (fst (snd (run_handler net e h ps me rq (st, s))))"
proof (cases "touches_accounts h \<or> h = H_Setup")
  case True
  then show ?thesis
    using Create_keeps [OF assms(2)] EditSave_keeps_me [OF assms(1)] Remove_keeps_me [OF assms(1)] assms(3)
    by (auto simp: touches_accounts_def run_handler_def Let_def case_prod_unfold)
next
  case False
  then show ?thesis using assms(2) run_accounts [of h net e ps me rq "(st, s)"] by (simp add: has_admin_def)
qed

lemma Setup_inv: "console_inv st \<Longrightarrow> console_inv (snd (Setup e rq st))"
  using console_CreateUser_inv [of st]
  by (auto simp: Setup_def Let_def split: prod.splits sum.splits option.splits) (metis snd_conv)+

lemma run_inv:
  assumes "console_inv (fst w)"
  shows "console_inv (fst (snd (run_handler net e h ps me rq w)))"
proof (cases "touches_console h \<or> h = H_Setup")
  case True
  have "console_inv (fst (snd (Settings_Save net e me rq (fst w) (snd w))))"
    using assms by (simp add: Settings_Save_def save_connection_def Let_def case_prod_unfold inv_intros)
  then show ?thesis
    using True assms
    by (auto simp: touches_console_def touches_accounts_def run_handler_def Let_def case_prod_unfold inv_intros Setup_inv)
next
  case False
  then show ?thesis using assms run_console [of h net e ps me rq w] by simp
qed

lemma serve_keeps:
  assumes "\<not> ceLoginDisabled e" "console_inv st" "has_admin st"
  shows "has_admin (fst (snd (serve net e rq (st, s))))" "console_inv (fst (snd (serve net e rq (st, s))))"
proof -
  show "has_admin (fst (snd (serve net e rq (st, s))))"
  proof (cases rule: serve_cases [of net e rq "(st, s)"])
    case 1
    then show ?thesis using assms(3) by simp
  next
    case (2 r ps)
    then show ?thesis
      using run_admin [OF assms(2,3), of "rtHandler r" synthetic_admin net e ps rq s] public_effects(1) [OF 2(1,2)]
      by (simp add: touches_console_def)
  next
    case (3 r ps role me)
    have "session_user e rq st = Some me" using 3(4) by (simp add: Require_iff [OF assms(1)])
    moreover have "touches_accounts (rtHandler r) \<longrightarrow> cuRole me = RoleAdmin"
      using route_role_needed [OF 3(1)] 3(2,5) by (auto simp: role_needed_def touches_console_def rank_admin)
    ultimately show ?thesis
      using run_admin [OF assms(2,3), of "rtHandler r" me] session_userD [of e rq st me] 3(3) by simp
  qed
  show "console_inv (fst (snd (serve net e rq (st, s))))"
    using run_inv [of "(st, s)"] assms(2) by (cases rule: serve_cases [of net e rq "(st, s)"]) simp_all
qed

text \<open>Property C8.  The console keeps an administrator.  With sign in enabled, whatever sequence of requests
  is served one after the other, from whatever clients, a console that has an administrator still has one,
  and names and ids of its accounts stay unique.\<close>

theorem console_keeps_an_admin:
  assumes "\<not> ceLoginDisabled e" "console_inv st" "has_admin st"
  shows "has_admin (fst (serve_all net e rqs (st, s))) \<and> console_inv (fst (serve_all net e rqs (st, s)))"
  using assms
proof (induction rqs arbitrary: st s)
  case (Cons rq rqs)
  obtain st' s' where w: "snd (serve net e rq (st, s)) = (st', s')" by (metis surj_pair)
  then show ?case using Cons serve_keeps [OF Cons.prems, of net rq s] by simp
qed simp

theorem console_keeps_an_admin_witness:
  "\<forall>rqs. has_admin (fst (serve_all (\<lambda>_ _. api_server demo_env) plain_console rqs (two_admins, empty_store)))"
proof -
  have e: "\<not> ceLoginDisabled plain_console" by (simp add: plain_console_def demo_console_def)
  have i: "console_inv two_admins" "has_admin two_admins"
    by (simp_all add: console_inv_def unique_key_def two_admins_def admin_row_def has_admin_def)
  show ?thesis using console_keeps_an_admin [OF e i] by (intro allI) (rule conjunct1)
qed

end
