(* ===== verification/Console_Lockout_Properties.thy ===== *)
theory Console_Lockout_Properties
  imports Console_Access_Properties
begin

text \<open>
  How a console can be left without anyone who may manage it: two administrators at once, a first
  password that bcrypt does not take, an upgrade that stops half way.
\<close>

section \<open>Overlapping requests\<close>

text \<open>A request whose gates looked at the store \<^verbatim>\<open>seen\<close>, and whose handler runs later.\<close>

definition serve_late ::
  "'s net \<Rightarrow> console_env \<Rightarrow> ui_request \<Rightarrow> Console \<Rightarrow> Console \<times> 's \<Rightarrow> outcome \<times> Console \<times> 's" where
  "serve_late net e rq seen w =
     (case find_route Mount (uqMethod rq) (uqPath rq) of
        None \<Rightarrow> (No_Route, w)
      | Some (r, ps) \<Rightarrow>
         (case gate e (rtRole r) rq seen of
            Inl reply \<Rightarrow> (Reply reply, w)
          | Inr u \<Rightarrow>
              run_handler net e (rtHandler r) ps (case u of Some me \<Rightarrow> me | None \<Rightarrow> synthetic_admin) rq w))"

lemma serve_late_now: "serve_late net e rq (fst w) w = serve net e rq w"
  by (simp add: serve_late_def serve_def)

lemma setup_open_users: "coUsers a = coUsers b \<Longrightarrow> setup_open a = setup_open b"
  by (simp add: setup_open_def needSetup_def console_CountUsers_def FirstUser_def console_ListUsers_def)

text \<open>When no request comes with the session of an administrator, and the first setup is closed, the
  accounts are frozen: once no administrator is left, or as long as no cookie verifies.\<close>

lemma step_frozen:
  assumes "\<not> ceLoginDisabled e" "\<not> setup_open st"
    and "\<And>me. session_user e rq st = Some me \<Longrightarrow> cuRole me \<noteq> RoleAdmin"
  shows "coUsers (fst (snd (serve net e rq (st, s)))) = coUsers st"
proof -
  obtain st' s' where w: "snd (serve net e rq (st, s)) = (st', s')" by (metis surj_pair)
  have "coUsers st' = coUsers st"
  proof (cases rule: serve_cases [of net e rq "(st, s)"])
    case 1
    then show ?thesis using w by simp
  next
    case (2 r ps)
    show ?thesis
    proof (cases "rtHandler r = H_Setup")
      case True
      then show ?thesis using 2(3) w Setup_closed(1) [OF assms(2), of e rq]
        by (auto simp: run_handler_def Let_def case_prod_unfold)
    next
      case False
      then show ?thesis
        using run_accounts [OF _ False, of net e ps synthetic_admin rq "(st, s)"] public_effects(1) [OF 2(1,2)] 2(3) w
        by (simp add: touches_console_def)
    qed
  next
    case (3 r ps role me)
    have "session_user e rq st = Some me" using 3(4) by (simp add: Require_iff [OF assms(1)])
    then have "cuRole me \<noteq> RoleAdmin" by (rule assms(3))
    then have "\<not> touches_accounts (rtHandler r)"
      using route_role_needed [OF 3(1)] 3(2,5) by (auto simp: role_needed_def touches_console_def rank_admin)
    moreover have "rtHandler r \<noteq> H_Setup" using setup_route [OF 3(1)] 3(2) by auto
    ultimately show ?thesis using run_accounts [of "rtHandler r" net e ps me rq "(st, s)"] 3(3) w by simp
  qed
  then show ?thesis by (simp add: w)
qed

lemma run_frozen:
  assumes "\<not> ceLoginDisabled e" "\<not> setup_open st"
    and "\<And>rq st' me. rq \<in> set rqs \<Longrightarrow> coUsers st' = coUsers st \<Longrightarrow> session_user e rq st' = Some me \<Longrightarrow> cuRole me \<noteq> RoleAdmin"
  shows "coUsers (fst (serve_all net e rqs (st, s))) = coUsers st"
  using assms(2,3)
proof (induction rqs arbitrary: st s)
  case (Cons rq rqs)
  obtain st' s' where w: "snd (serve net e rq (st, s)) = (st', s')" by (metis surj_pair)
  have "coUsers (fst (snd (serve net e rq (st, s)))) = coUsers st"
    by (rule step_frozen [OF assms(1) Cons.prems(1)]) (use Cons.prems(2) [of rq st] in auto)
  then have same: "coUsers st' = coUsers st" by (simp add: w)
  then have "\<not> setup_open st'" using Cons.prems(1) setup_open_users by blast
  moreover have "cuRole me \<noteq> RoleAdmin" if "q \<in> set rqs" "coUsers st1 = coUsers st'" "session_user e q st1 = Some me" for q st1 me
    using Cons.prems(2) [of q st1 me] that same by simp
  ultimately have "coUsers (fst (serve_all net e rqs (st', s'))) = coUsers st'" by (rule Cons.IH)
  then show ?case using w same by simp
qed simp

lemma accounts_frozen:
  assumes "\<not> ceLoginDisabled e" "\<not> has_admin st" "\<not> setup_open st"
  shows "coUsers (fst (serve_all net e rqs (st, s))) = coUsers st"
  using assms(2) by (intro run_frozen [OF assms(1,3)]) (auto dest: session_userD simp: has_admin_def list_ex_iff)

text \<open>A request of the user \<^verbatim>\<open>me\<close>, signed in, to give the account \<^verbatim>\<open>who\<close> the role \<^verbatim>\<open>r\<close> and to leave
  its password.\<close>

definition demotes :: "console_env \<Rightarrow> Console \<Rightarrow> ui_request \<Rightarrow> ConsoleUser \<Rightarrow> ConsoleUser \<Rightarrow> string \<Rightarrow> bool" where
  "demotes e st rq me who r \<longleftrightarrow>
     uqMethod rq = ''POST'' \<and> uqPath rq = [''web'', ''users'', ''edit''] \<and> session_user e rq st = Some me \<and>
     parse_int64 (PostForm ''id'' rq) = Some (cuID who) \<and> PostForm ''role'' rq = r \<and>
     r \<in> {RoleOperator, RoleViewer} \<and> PostForm ''password'' rq = []"

lemma edit_route:
  "find_route Mount ''POST'' [''web'', ''users'', ''edit''] =
     Some (\<lparr> rtMethod = ''POST'', rtPath = [''web'', ''users'', ''edit''], rtRole = Some RoleAdmin,
             rtHandler = H_Users_EditSave \<rparr>, [])"
  by code_simp

definition set_role :: "int \<Rightarrow> string \<Rightarrow> ConsoleUser \<Rightarrow> ConsoleUser" where
  "set_role k r u = (if cuID u = k then u\<lparr> cuRole := r \<rparr> else u)"

lemma set_role_simps [simp]:
  "cuID (set_role k r u) = cuID u" "cuPasswordSet (set_role k r u) = cuPasswordSet u"
  "cuUsername (set_role k r u) = cuUsername u"
  "cuRole (set_role k r u) = (if cuID u = k then r else cuRole u)"
  by (simp_all add: set_role_def)

lemma UpdateUser_role: "r \<noteq> [] \<Longrightarrow> coUsers (UpdateUser k r [] st) = map (set_role k r) (coUsers st)"
  by (simp add: UpdateUser_def row_update_def default_role_def set_role_def)

text \<open>The gate looks at \<^verbatim>\<open>seen\<close>, the handler at the store it finds.\<close>

lemma demotes_served:
  assumes "\<not> ceLoginDisabled e" "\<not> setup_open seen" "demotes e seen rq me who r" "cuRole me = RoleAdmin"
    and "row_find cuID (cuID who) (coUsers st) = Some v" "cuUsername me \<noteq> cuUsername v"
  shows "snd (serve_late net e rq seen (st, s)) = (UpdateUser (cuID who) r [] st, s)"
proof -
  have "\<not> NudgeSetup seen"
    using assms(2) by (auto simp: NudgeSetup_def setup_open_def needSetup_def split: sum.splits if_splits)
  then have "(Require e rq seen :: console_page ui_reply + ConsoleUser) = Inr me"
    using assms(3) by (simp add: Require_iff [OF assms(1)] demotes_def)
  then have "serve_late net e rq seen (st, s) = run_handler net e H_Users_EditSave [] me rq (st, s)"
    using assms(3,4) by (simp add: serve_late_def gate_def RequireRole_def edit_route demotes_def)
  moreover have "validRole r" using assms(3) by (auto simp: demotes_def validRole_def roleOptions_def)
  then have "snd (Users_EditSave e me rq st) = UpdateUser (cuID who) r [] st"
    using assms(3,5,6) by (auto simp: Users_EditSave_store demotes_def)
  ultimately show ?thesis by (simp add: run_handler_def Let_def case_prod_unfold)
qed

lemma insort_map: "(\<And>y. f (g y) = f y) \<Longrightarrow> insort_key f (g x) (map g xs) = map g (insort_key f x xs)"
  by (induction xs) auto

lemma sort_key_map: "(\<And>y. f (g y) = f y) \<Longrightarrow> sort_key f (map g xs) = map g (sort_key f xs)"
  by (induction xs) (auto simp: insort_map)

lemma setup_open_roles:
  assumes "coUsers st' = map g (coUsers st)" "\<And>u. cuID (g u) = cuID u" "\<And>u. cuPasswordSet (g u) = cuPasswordSet u"
  shows "setup_open st' = setup_open st"
  using assms by (auto simp: setup_open_def needSetup_def console_CountUsers_def FirstUser_def console_ListUsers_def
      sort_key_map split: list.split)

text \<open>Property C31.  The guard on administrators fails for overlapping requests.  In a console with exactly
  two administrators and a closed setup, each sends a request that takes the role from the other; both
  requests pass the gate before either handler runs, as concurrent requests can: then no administrator is
  left, the first setup is closed, and no sequence of requests whatever changes an account again.\<close>

theorem admins_demote_each_other:
  assumes "\<not> ceLoginDisabled e" "console_inv st" "\<not> setup_open st"
    and "{u \<in> set (coUsers st). cuRole u = RoleAdmin} = {a, b}" "a \<noteq> b"
    and "demotes e st rqA a b ra" "demotes e st rqB b a rb"
  shows "let w1 = snd (serve_late net e rqA st (st, s)); w2 = snd (serve_late net e rqB st w1)
    in CountAdmins st = 2 \<and> CountAdmins (fst w2) = 0 \<and> \<not> setup_open (fst w2) \<and>
      coUsers (fst (serve_all net e rqs w2)) = coUsers (fst w2)"
proof -
  have ab: "a \<in> set (coUsers st)" "b \<in> set (coUsers st)" "cuRole a = RoleAdmin" "cuRole b = RoleAdmin"
    using assms(4) by blast+
  have inj: "inj_on cuID (set (coUsers st))" "inj_on cuUsername (set (coUsers st))" "distinct (coUsers st)"
    using assms(2) by (simp_all add: console_inv_def unique_key_def distinct_map)
  have ne: "cuID a \<noteq> cuID b" "cuUsername a \<noteq> cuUsername b"
    using inj_onD [OF inj(1), of a b] inj_onD [OF inj(2), of a b] ab assms(5) by auto
  have r: "ra \<noteq> []" "rb \<noteq> []" "ra \<noteq> RoleAdmin" "rb \<noteq> RoleAdmin"
    using assms(6,7) by (auto simp: demotes_def RoleOperator_def RoleViewer_def RoleAdmin_def)
  let ?st1 = "UpdateUser (cuID b) ra [] st" let ?st2 = "UpdateUser (cuID a) rb [] ?st1"
  have "row_find cuID (cuID b) (coUsers st) = Some b" "row_find cuID (cuID a) (coUsers st) = Some a"
    using ab assms(2) by (simp_all add: row_find_unique console_inv_def)
  moreover have "unique_key cuID (coUsers ?st1)"
    using assms(2) by (simp add: console_inv_def unique_key_def UpdateUser_role r comp_def)
  then have "row_find cuID (cuID a) (coUsers ?st1) = Some (set_role (cuID b) ra a)"
    using ab(1) by (simp add: row_find_unique UpdateUser_role r)
  ultimately have w1: "snd (serve_late net e rqA st (st, s)) = (?st1, s)"
    and w2: "snd (serve_late net e rqB st (?st1, s)) = (?st2, s)"
    using ne demotes_served [OF assms(1,3,6) ab(3), of st b] demotes_served [OF assms(1,3,7) ab(4), of ?st1 "set_role (cuID b) ra a"]
    by simp_all
  have users: "coUsers ?st2 = map (\<lambda>u. set_role (cuID a) rb (set_role (cuID b) ra u)) (coUsers st)"
    by (simp add: UpdateUser_role r)
  have gone: "\<not> has_admin ?st2"
  proof -
    have "cuRole (set_role (cuID a) rb (set_role (cuID b) ra u)) \<noteq> RoleAdmin" if "u \<in> set (coUsers st)" for u
      using that r assms(4) by auto
    then show ?thesis by (auto simp: has_admin_def list_ex_iff users)
  qed
  then have none: "CountAdmins ?st2 = 0" by (auto simp: CountAdmins_def has_admin_def list_ex_iff filter_empty_conv)
  have "card (set (filter (\<lambda>u. cuRole u = RoleAdmin) (coUsers st))) = 2" using assms(4,5) by simp
  then have two: "CountAdmins st = 2"
    using distinct_card [OF distinct_filter [OF inj(3)], of "\<lambda>u. cuRole u = RoleAdmin"] by (simp add: CountAdmins_def)
  have closed: "\<not> setup_open ?st2"
    using assms(3) setup_open_roles [OF users] by simp
  show ?thesis
    unfolding Let_def w1 w2 fst_conv
    using two none closed accounts_frozen [OF assms(1) gone closed, of net rqs s] by blast
qed

definition demote :: "console_env \<Rightarrow> string \<Rightarrow> string \<Rightarrow> ui_request" where
  "demote e me target_id = \<lparr> uqMethod = ''POST'', uqPath = [''web'', ''users'', ''edit''], uqHX = True,
     uqQuery = [], uqForm = [(''id'', target_id), (''role'', RoleViewer)], uqCookie = Some (sign e \<lparr> seUsername = me, seExp = 1 \<rparr>),
     uqNow = 0, uqBase = [], uqTok = [] \<rparr>"

theorem admins_demote_each_other_witness:
  "\<exists>w. CountAdmins (fst w) = 0 \<and> \<not> setup_open (fst w) \<and>
     coUsers (fst (serve_all (\<lambda>_ _. api_server demo_env) plain_console [anonymous_removal] w)) = coUsers (fst w)"
proof -
  let ?a = "admin_row 1 ''ann''" and ?b = "admin_row 2 ''bob''"
  have e: "\<not> ceLoginDisabled plain_console" by (simp add: plain_console_def demo_console_def)
  have i: "console_inv two_admins" "{u \<in> set (coUsers two_admins). cuRole u = RoleAdmin} = {?a, ?b}" "?a \<noteq> ?b"
    by (auto simp: console_inv_def unique_key_def two_admins_def admin_row_def)
  have v: "Verify plain_console 0 (sign plain_console \<lparr> seUsername = n, seExp = 1 \<rparr>) = Some \<lparr> seUsername = n, seExp = 1 \<rparr>" for n
    using Verify_sign [of plain_console "\<lparr> seUsername = n, seExp = 1 \<rparr>" 0] plain_json_ok by (simp add: json_ok_def)
  have ids: "parse_int64 ''2'' = Some 2" "parse_int64 ''1'' = Some 1" by code_simp+
  have d: "demotes plain_console two_admins (demote plain_console ''ann'' ''2'') ?a ?b RoleViewer"
    "demotes plain_console two_admins (demote plain_console ''bob'' ''1'') ?b ?a RoleViewer"
    by (simp_all add: demotes_def demote_def session_user_def v PostForm_def ids admin_row_def two_admins_def row_find_def RoleViewer_def RoleOperator_def)
  show ?thesis
    using admins_demote_each_other [OF e i(1) two_admins_closed i(2,3) d, of "\<lambda>_ _. api_server demo_env" empty_store "[anonymous_removal]"]
    unfolding Let_def by blast
qed

section \<open>A first password that is too long\<close>






section \<open>An upgrade that stops half way\<close>

text \<open>The upgrade adds the column and promotes the first user in two statements: stopped in between, it
  leaves a table of operators, and later starts take the column for the whole upgrade.\<close>

lemma upgrade_stopped:
  assumes "t = ensureRoleColumn True (False, us)"
  shows "list_all (\<lambda>u. cuRole u = RoleOperator) (snd t)" "ensureRoleColumn b t = t"
  using assms by (simp_all add: ensureRoleColumn_def add_role_column_def list_all_iff)

end
