(* ===== verification/Console_Settings_Properties.thy ===== *)
theory Console_Settings_Properties
  imports Console_Access_Properties
begin

text \<open>
  The console's forms end to end: through its client to the daemon's handlers and store, and back into
  the page.
\<close>

section \<open>The settings of the cluster\<close>

lemma all_some_pairs: "all_some (map ((\<lambda>(k, v). map_option (Pair k) (as_str v)) \<circ> map_prod id JStr) kvs) = Some kvs"
  by (induction kvs) (auto simp: as_str_def)

lemma settings_json_read: "in_struct ''settings'' as_settings (settings_json kvs) = Some kvs"
  by (simp add: in_struct_def as_struct_def settings_json_def jfield_def as_settings_def all_some_pairs)

lemma settings_json_body: "decode_body [''settings''] (\<lambda>j. as_settings (jfield ''settings'' j)) (Some (Inr (settings_json kvs))) = Inr kvs"
  by (simp add: decode_body_def as_struct_def settings_json_def jfield_def as_settings_def all_some_pairs)

lemma settings_requests:
  "api_server ae \<lparr> rqMethod = ''GET'', rqPath = [''cluster'', ''settings''], rqQuery = q, rqBody = b \<rparr> db =
     (http_settings_get db, db)"
  "api_server ae \<lparr> rqMethod = ''PUT'', rqPath = [''cluster'', ''settings''], rqQuery = q, rqBody = b \<rparr> db =
     http_settings_put b db"
  by (simp_all add: routes)

text \<open>The client's calls are the daemon's operations.\<close>

lemma pm_settings_get: "pm_GetClusterSettings (api_server ae) db = (Inr (Settings_Get db), db)"
  by (simp add: pm_GetClusterSettings_def pm_do_def settings_requests http_settings_get_def settings_json_read)

lemma pm_settings_update:
  assumes "Settings_Update values db = (Inr updated, db')"
  shows "pm_UpdateClusterSettings (api_server ae) values db = (Inr updated, db')"
  using assms
  by (simp add: pm_UpdateClusterSettings_def pm_do_def settings_requests http_settings_put_def settings_json_body
      settings_json_read)

text \<open>The form.\<close>

lemma console_keys: "distinct console_clusterSettingKeys" "set console_clusterSettingKeys \<subseteq> set clusterSettingKeys"
  by code_simp+

lemma form_settings_keys:
  "distinct (map fst (form_settings rq))" "fst ` set (form_settings rq) \<subseteq> set clusterSettingKeys" "form_settings rq \<noteq> []"
proof -
  have "distinct (map fst (map (\<lambda>k. (k, form_setting rq k)) console_clusterSettingKeys))"
    using console_keys(1) by (simp add: o_def)
  then show "distinct (map fst (form_settings rq))" unfolding form_settings_def by (rule distinct_map_filter)
  show "fst ` set (form_settings rq) \<subseteq> set clusterSettingKeys" using console_keys(2) by (auto simp: form_settings_def)
  have "(''volume_root'', form_setting rq ''volume_root'') \<in> set (form_settings rq)"
    by (simp add: form_settings_def console_clusterSettingKeys_def)
  then show "form_settings rq \<noteq> []" by auto
qed

text \<open>What a form sends for a key: nothing for an empty client secret.\<close>

definition kept_secret :: "ui_request \<Rightarrow> string \<Rightarrow> bool" where
  "kept_secret rq k \<longleftrightarrow> k = ''sso_client_secret'' \<and> form_setting rq k = []"

lemma map_of_form:
  "map_of (form_settings rq) k =
     (if k \<in> set console_clusterSettingKeys \<and> \<not> kept_secret rq k then Some (form_setting rq k) else None)"
proof -
  have "map_of (filter (\<lambda>(k, v). \<not> (k = ''sso_client_secret'' \<and> v = [])) (map (\<lambda>k. (k, form_setting rq k)) ks)) k =
     (if k \<in> set ks \<and> \<not> kept_secret rq k then Some (form_setting rq k) else None)" for ks
    by (induction ks) (auto simp: kept_secret_def)
  then show ?thesis by (simp add: form_settings_def)
qed

text \<open>Property C32.  The form of the cluster's settings, from the browser to the daemon's store and back.  The
  daemon accepts every form: each setting of the form takes the value entered (\<^verbatim>\<open>true\<close> or \<^verbatim>\<open>false\<close> for the
  switches, empty for a field left out), except that an empty client secret keeps the stored one; every other
  setting, the retention of backups among them, is as before.  The page that answers shows the
  settings stored, never the client secret, and whether there is one.\<close>

theorem cluster_form_saves:
  assumes "api_configured e st" "ClusterSettingsSave (\<lambda>_ _. api_server ae) e rq st db = (reply, db')"
  shows "(\<forall>k d. GetSettingDefault k d db' =
      (if k \<in> set console_clusterSettingKeys \<and> \<not> kept_secret rq k then form_setting rq k else GetSettingDefault k d db)) \<and>
    (\<exists>p. uiPage reply = Some (Cluster_Settings p) \<and> csErrKey p = [] \<and>
      (\<forall>k v. map_of (csSettings p) k = Some v \<longrightarrow> v = GetSettingDefault k [] db' \<and> k \<noteq> ''sso_client_secret'') \<and>
      csHasClientSecret p = (GetSettingDefault ''sso_client_secret'' [] db' \<noteq> []))"
proof -
  let ?vs = "form_settings rq"
  note k = form_settings_keys [of rq]
  have "find (\<lambda>(k, _). k \<notin> set clusterSettingKeys) ?vs = None" using k(2) by (auto simp: find_None_iff)
  then have "Settings_Update ?vs db = (Inr (Settings_Get (fold (\<lambda>(k, v). SetSetting k v) ?vs db)), fold (\<lambda>(k, v). SetSetting k v) ?vs db)"
    using k(3) by (simp add: Settings_Update_def Let_def)
  note u = pm_settings_update [OF this, of ae]
  have db': "db' = fold (\<lambda>(k, v). SetSetting k v) ?vs db"
    and reply: "reply = cluster_page [] [] ''settings.msg_cluster_saved'' (Settings_Get db')"
    using assms by (auto simp: ClusterSettingsSave_def api_of_def u Let_def)
  have get: "GetSettingDefault k d db' =
      (if k \<in> set console_clusterSettingKeys \<and> \<not> kept_secret rq k then form_setting rq k else GetSettingDefault k d db)" for k d
    by (simp add: db' fold_SetSetting [OF k(1)] map_of_form)
  have sets: "map_of (Settings_Get db') k = (if k \<in> set clusterSettingKeys then Some (GetSettingDefault k [] db') else None)" for k
    by (simp add: Settings_Get_def map_of_map_restrict restrict_map_def)
  have sec: "''sso_client_secret'' \<in> set clusterSettingKeys" by code_simp
  have shown: "map_of (filter (\<lambda>(k, _). k \<noteq> ''sso_client_secret'') kvs) k = (if k = ''sso_client_secret'' then None else map_of kvs k)"
    for kvs :: Settings and k by (induction kvs) auto
  have page: "\<exists>p. uiPage reply = Some (Cluster_Settings p) \<and> csErrKey p = [] \<and>
      csSettings p = filter (\<lambda>(k, _). k \<noteq> ''sso_client_secret'') (Settings_Get db') \<and>
      csHasClientSecret p = (GetSettingDefault ''sso_client_secret'' [] db' \<noteq> [])"
    using sec by (simp add: reply cluster_page_def maskClusterSettings_def fragment_def sets)
  then show ?thesis using get by (auto simp: shown sets split: if_splits)
qed

text \<open>A save that leaves the secret's field empty, on a daemon that has one.\<close>

theorem cluster_form_saves_witness:
  "let db = SetSetting ''backup_retention_days'' ''30'' (SetSetting ''sso_client_secret'' ''s3cret'' empty_store);
       rq = anonymous_removal\<lparr> uqForm := [(''sso_enabled'', ''on''), (''domain'', ''example.com'')] \<rparr>;
       db' = snd (ClusterSettingsSave (\<lambda>_ _. api_server demo_env) plain_console rq two_admins db)
   in GetSettingDefault ''sso_client_secret'' [] db' = ''s3cret'' \<and> GetSettingDefault ''domain'' [] db' = ''example.com'' \<and>
      GetSettingDefault ''sso_enabled'' [] db' = ''true'' \<and> GetSettingDefault ''backup_retention_days'' [] db' = ''30''"
proof -
  let ?rq = "anonymous_removal\<lparr> uqForm := [(''sso_enabled'', ''on''), (''domain'', ''example.com'')] \<rparr>"
  let ?db = "SetSetting ''backup_retention_days'' ''30'' (SetSetting ''sso_client_secret'' ''s3cret'' empty_store)"
  have c: "api_configured plain_console two_admins"
    by (simp add: api_configured_def loadParams_def Let_def GetSettings_def two_admins_def plain_console_def demo_console_def)
  obtain reply db' where s: "ClusterSettingsSave (\<lambda>_ _. api_server demo_env) plain_console ?rq two_admins ?db = (reply, db')"
    by (metis surj_pair)
  have form: "kept_secret ?rq ''sso_client_secret''" "form_setting ?rq ''domain'' = ''example.com''"
    "form_setting ?rq ''sso_enabled'' = ''true''" "\<not> kept_secret ?rq ''domain''" "\<not> kept_secret ?rq ''sso_enabled''"
    by (simp_all add: kept_secret_def form_setting_def PostForm_def clusterBoolSettings_def)
  have keys: "''domain'' \<in> set console_clusterSettingKeys" "''sso_enabled'' \<in> set console_clusterSettingKeys"
    "''backup_retention_days'' \<notin> set console_clusterSettingKeys" by code_simp+
  have db: "GetSettingDefault ''sso_client_secret'' [] ?db = ''s3cret''" "GetSettingDefault ''backup_retention_days'' [] ?db = ''30''"
    by (simp_all add: GetSettingDefault_SetSetting)
  show ?thesis using cluster_form_saves [OF c s] form keys db by (simp add: s Let_def)
qed

section \<open>The pages of a stack\<close>

lemma stack_render_keeps: "snd (stack_render (\<lambda>_ _. api_server ae) e d st db) = db"
  by (rule read_handlers(2) [OF api_keeps]) simp

lemma pm_delete_config:
  assumes "name \<noteq> []"
  shows "snd (pm_DeleteConfig (api_server ae) name db) = snd (DeleteConfig name db)"
  by (simp add: pm_DeleteConfig_def pm_unit_def pm_do_def config_requests [OF assms] http_configs_remove_def
      split: prod.splits sum.splits)

lemma pm_delete_secret:
  assumes "name \<noteq> []"
  shows "snd (pm_DeleteSecret (api_server ae) name db) = snd (DeleteSecret name db)"
  by (auto simp: pm_DeleteSecret_def pm_unit_def pm_do_def secret_requests [OF assms] http_secrets_remove_def assms
      Secrets_Delete_def split: prod.splits sum.splits) (metis snd_conv snd_map_prod id_apply)+

lemma pm_update_config:
  assumes "name \<noteq> []"
  shows "snd (pm_UpdateConfig (api_server ae) name content db) =
    snd (UpdateConfig (dmHash (aeDaemon ae)) (dmNow (aeDaemon ae)) name content (dmVersion (aeDaemon ae)) db)"
proof -
  have "decode_body [''content''] (\<lambda>j. as_str (jfield ''content'' j)) (Some (Inr (JObj [(''content'', JStr content)]))) = Inr content"
    by (simp add: decode_body_def as_struct_def jfield_def as_str_def)
  then show ?thesis
    by (simp add: pm_UpdateConfig_def pm_do_def config_requests [OF assms] http_configs_update_def
        split: prod.splits sum.splits)
qed

lemma pm_reveal_secret:
  assumes "name \<noteq> []" "Secrets_Reveal (aeVault ae) name db = Inr v"
  shows "pm_RevealSecret (api_server ae) name db = (Inr (name, v), db)"
  by (simp add: pm_RevealSecret_def pm_do_def secret_requests [OF assms(1)] http_secrets_value_def assms
      pm_secret_value_def in_struct_def as_struct_def jfield_def as_str_def)

text \<open>Property C33.  The pages of a stack are not confined to the stack.  From the page of any stack, existing or
  not, an operator removes or edits every config and removes and reads every secret of the daemon, whatever
  its scope and stack: the daemon's store ends as its own operation on that name leaves it, and the
  page shows the secret's plain value.\<close>

theorem stack_pages_reach_everything:
  assumes "api_configured e st" "name \<noteq> []"
  shows "let net = \<lambda>_ _. api_server ae; dm = aeDaemon ae in
    snd (Stack_RemoveConfig net e stack name st db) = snd (DeleteConfig name db) \<and>
    snd (Stack_RemoveSecret net e stack name st db) = snd (DeleteSecret name db) \<and>
    (PostForm ''name'' rq = name \<longrightarrow> snd (Stack_EditConfig net e stack rq st db) =
       snd (UpdateConfig (dmHash dm) (dmNow dm) name (PostForm ''content'' rq) (dmVersion dm) db)) \<and>
    (Secrets_Reveal (aeVault ae) name db = Inr v \<longrightarrow>
       Stack_RevealSecret net e name st db = (fragment (Stack_Reveal ((reveal_data name)\<lparr> rvValue := v \<rparr>)), db))"
  using assms pm_delete_config [OF assms(2), of ae db, symmetric] pm_delete_secret [OF assms(2), of ae db, symmetric]
    pm_update_config [OF assms(2), of ae "PostForm ''content'' rq" db, symmetric] pm_reveal_secret [OF assms(2)]
  by (simp add: Let_def Stack_RemoveConfig_def Stack_RemoveSecret_def Stack_EditConfig_def Stack_RevealSecret_def
      api_of_def case_prod_unfold stack_render_keeps split: sum.splits)

text \<open>The routing config of the edge, removed from the page of a stack that does not exist.\<close>

theorem stack_pages_reach_everything_witness:
  "\<forall>db. snd (Stack_RemoveConfig (\<lambda>_ _. api_server demo_env) plain_console ''no-such-stack'' ''traefik-dynamic.yml'' two_admins db) =
     snd (DeleteConfig ''traefik-dynamic.yml'' db)"
proof -
  have c: "api_configured plain_console two_admins"
    by (simp add: api_configured_def loadParams_def Let_def GetSettings_def two_admins_def plain_console_def demo_console_def)
  have n: "''traefik-dynamic.yml'' \<noteq> []" by simp
  show ?thesis using stack_pages_reach_everything [OF c n, of demo_env] by (simp add: Let_def)
qed

section \<open>Clearing the token\<close>

text \<open>A token cleared on the settings page gives way to that of the environment, and the page goes on saying
  that a token is set.\<close>

lemma cleared_token:
  assumes "PostForm ''clear_token'' rq = ''1''" "st' = save_connection rq st"
  shows "fst (snd (loadParams e st')) = ceEnvToken e" "is_ok (console_GetSetting KeyToken st')"
  using assms
  by (simp_all add: save_connection_def Let_def loadParams_def GetSettings_def console_SetSetting_def update_conv'
      console_GetSetting_def case_prod_unfold)

end
