(* ===== verification/Api_Stacks_Properties.thy ===== *)
theory Api_Stacks_Properties
  imports Api_Stacks Api_Services_Properties
begin

text \<open>
  The remote engine against the daemon refines the local one: it moves the world as the engine does, and
  answers what the engine answers, as far as the answers carry it.
\<close>

section \<open>Round trips of the JSON\<close>

lemmas dto_simps = do_request_def in_struct_def as_struct_def jfield_def as_str_def as_int_def as_bool_def json_of_def

lemma payload_roundtrip: "decode_lenient payload_dto (Some (Inr (payload_json p))) = Inr p"
  by (simp add: decode_lenient_def payload_dto_def payload_json_def dto_simps)

lemma stack_roundtrip: "stack_dto (stackJSON st) = Some st"
  by (simp add: stack_dto_def stackJSON_def dto_simps)

lemma stacks_roundtrip: "as_list stack_dto (JArr (map stackJSON l)) = Some l"
  using as_list_map [of stack_dto stackJSON id l] by (simp add: stack_roundtrip)

lemma metas_roundtrip: "as_list revision_meta_dto (JArr (map revision_meta_json l)) = Some l"
proof -
  have "revision_meta_dto (revision_meta_json m) = Some (id m)" for m
    by (simp add: revision_meta_dto_def revision_meta_json_def dto_simps)
  then show ?thesis using as_list_map [of revision_meta_dto revision_meta_json id l] by simp
qed

lemma show_roundtrip: "stack_detail_dto (show_json (st, revs, b)) = Some (st, revs)"
  by (simp add: stack_detail_dto_def show_json_def as_struct_def jfield_def stack_roundtrip metas_roundtrip)

lemma deploy_roundtrips:
  "deploy_dto (deploy_json (n, i)) = Some \<lparr> drStack = n, drRevision = i, drNewRevision = 0, drRolledBackTo = 0, drChanged = False \<rparr>"
  "deploy_dto (sync_json (n, i, c)) = Some \<lparr> drStack = n, drRevision = i, drNewRevision = 0, drRolledBackTo = 0, drChanged = c \<rparr>"
  "deploy_dto (rollback_json (n, i, k)) = Some \<lparr> drStack = n, drRevision = 0, drNewRevision = i, drRolledBackTo = k, drChanged = False \<rparr>"
  by (simp_all add: deploy_dto_def deploy_json_def sync_json_def rollback_json_def dto_simps)

lemma revision_number_roundtrip:
  "decode_lenient (in_struct ''revision'' as_int) (Some (Inr (JObj [(''revision'', JInt r)]))) = Inr r"
  by (simp add: decode_lenient_def dto_simps)

lemma missing_texts:
  "mapError 404 (error_text ''stack not found'') = Sentinel ErrStackNotFound"
  "mapError 404 (error_text ''revision not found'') = Sentinel ErrRevisionNotFound"
  by code_simp+

section \<open>The daemon's answers\<close>

lemma daemon_stacks:
  "daemon_server ae se txt d \<lparr> rqMethod = m, rqPath = ''stacks'' # p, rqQuery = q, rqBody = b \<rparr> w =
     stacks_server se \<lparr> rqMethod = m, rqPath = ''stacks'' # p, rqQuery = q, rqBody = b \<rparr> w"
  by (simp add: daemon_server_def)

text \<open>What the client makes of an error of the engine.\<close>

definition engine_error :: "'sw stacks_env \<Rightarrow> store_err \<Rightarrow> deploy_err \<Rightarrow> remote_err" where
  "engine_error se sentinel e =
     (if err_is e sentinel then Sentinel sentinel else mapError 400 (error_text (seText se e)))"

lemma remote_deploy_reply:
  "remote_Deploy (daemon_server ae se txt d) p w =
     map_prod (map_sum (\<lambda>e. mapError 400 (error_text (seText se e))) (\<lambda>r. remote_result (rsStackName r) (rsRevision r) False)) id
       (Deploy (seEngine se) (seNow se) p w)"
  by (cases "Deploy (seEngine se) (seNow se) p w"; cases "fst (Deploy (seEngine se) (seNow se) p w)")
     (auto simp: remote_Deploy_def do_request_def daemon_stacks stacks_server_def Let_def http_deploy_def payload_roundtrip
        json_of_def deploy_roundtrips)

lemma remote_rollback_reply:
  assumes "name \<noteq> []" "r \<noteq> 0"
  shows "remote_Rollback (daemon_server ae se txt d) name r w =
     map_prod (map_sum (engine_error se ErrRevisionNotFound) (\<lambda>res. remote_result (rsStackName res) (rsRevision res) False)) id
       (Rollback (seEngine se) (seNow se) name r w)"
  using assms
  by (cases "Rollback (seEngine se) (seNow se) name r w"; cases "fst (Rollback (seEngine se) (seNow se) name r w)")
     (auto simp: remote_Rollback_def do_request_def daemon_stacks stacks_server_def Let_def http_rollback_def
        revision_number_roundtrip json_of_def deploy_roundtrips engine_error_def missing_texts remote_result_def)

lemma remote_sync_reply:
  assumes "name \<noteq> []"
  shows "remote_Sync (daemon_server ae se txt d) name w =
     map_prod (map_sum (engine_error se ErrStackNotFound) (\<lambda>res. remote_result (rsStackName res) (rsRevision res) (rsChanged res))) id
       (Sync (seEngine se) (seNow se) name w)"
  using assms
  by (cases "Sync (seEngine se) (seNow se) name w"; cases "fst (Sync (seEngine se) (seNow se) name w)")
     (auto simp: remote_Sync_def do_request_def daemon_stacks stacks_server_def Let_def http_sync_def
        json_of_def deploy_roundtrips engine_error_def missing_texts)

lemma remote_undeploy_reply:
  assumes "name \<noteq> []"
  shows "remote_Undeploy (daemon_server ae se txt d) name w =
     map_prod (map_sum (engine_error se ErrStackNotFound) id) id (Undeploy (seEngine se) name w)"
  using assms
  by (cases "Undeploy (seEngine se) name w"; cases "fst (Undeploy (seEngine se) name w)")
     (auto simp: remote_Undeploy_def do_unit_def do_request_def daemon_stacks stacks_server_def Let_def http_remove_def
        json_of_def engine_error_def missing_texts)

lemma remote_list_reply:
  "remote_stacks_List (daemon_server ae se txt d) w = (Inr (Local_List (wStore w)), w)"
  by (simp add: remote_stacks_List_def do_request_def daemon_stacks stacks_server_def Let_def http_list_def json_of_def
      in_struct_def as_struct_def jfield_def stacks_roundtrip)

lemma Local_Get_error: "Local_Get n db = Inl e \<Longrightarrow> e = ErrStackNotFound"
  by (auto simp: Local_Get_def GetStack_def split: option.splits)

lemma remote_get_reply:
  assumes "name \<noteq> []"
  shows "remote_stacks_Get (daemon_server ae se txt d) name w = (map_sum Sentinel id (Local_Get name (wStore w)), w)"
proof (cases "Local_Get name (wStore w)")
  case (Inl e)
  then have "e = ErrStackNotFound" by (rule Local_Get_error)
  then show ?thesis using assms Inl
    by (simp add: remote_stacks_Get_def do_request_def daemon_stacks stacks_server_def Let_def http_show_def json_of_def
        missing_texts)
next
  case (Inr st)
  then show ?thesis using assms
    by (simp add: remote_stacks_Get_def do_request_def daemon_stacks stacks_server_def Let_def http_show_def json_of_def
        show_roundtrip)
qed

text \<open>Property C36.  The remote engine refines the local one.  Against the daemon, whatever its state, the remote
  calls to deploy, roll back, sync and undeploy change store and swarm exactly as the engine's own calls do
  and succeed exactly when those do, with the same stack and revision; a missing stack or revision is
  reported by the same sentinel, any other failure by its text.  Listing and looking up stacks answer
  as the local adapter does.  What is lost on the way is the rendered document, and after a deploy or
  a rollback whether anything changed.\<close>

theorem remote_engine_refines_local:
  assumes "name \<noteq> []" "r \<noteq> 0"
  shows "let srv = daemon_server ae se txt d; eg = seEngine se; now = seNow se;
      result = (\<lambda>res. remote_result (rsStackName res) (rsRevision res) False) in
    remote_Deploy srv p w = map_prod (map_sum (\<lambda>e. mapError 400 (error_text (seText se e))) result) id (Deploy eg now p w) \<and>
    remote_Rollback srv name r w =
      map_prod (map_sum (engine_error se ErrRevisionNotFound) result) id (Rollback eg now name r w) \<and>
    remote_Sync srv name w =
      map_prod (map_sum (engine_error se ErrStackNotFound)
        (\<lambda>res. remote_result (rsStackName res) (rsRevision res) (rsChanged res))) id (Sync eg now name w) \<and>
    remote_Undeploy srv name w = map_prod (map_sum (engine_error se ErrStackNotFound) id) id (Undeploy eg name w) \<and>
    remote_stacks_List srv w = (Inr (Local_List (wStore w)), w) \<and>
    remote_stacks_Get srv name w = (map_sum Sentinel id (Local_Get name (wStore w)), w)"
  unfolding Let_def
  by (intro conjI remote_deploy_reply remote_rollback_reply [OF assms] remote_sync_reply [OF assms(1)]
      remote_undeploy_reply [OF assms(1)] remote_list_reply remote_get_reply [OF assms(1)])

text \<open>An unknown stack, through the daemon, whatever its engine.\<close>

theorem remote_engine_refines_local_witness:
  "\<forall>ae se t (d :: 'sw sdk) (sw :: 'sw).
     fst (remote_stacks_Get (daemon_server ae se t d) ''shop'' \<lparr> wStore = empty_store, wSwarm = sw \<rparr>) =
       Inl (Sentinel ErrStackNotFound)"
proof (intro allI)
  fix ae se t and d :: "'sw sdk" and sw :: 'sw
  have n: "''shop'' \<noteq> []" "(1 :: int) \<noteq> 0" by simp_all
  have "Local_Get ''shop'' empty_store = Inl ErrStackNotFound"
    by (simp add: Local_Get_def GetStack_def row_find_def empty_store_def)
  then show "fst (remote_stacks_Get (daemon_server ae se t d) ''shop'' \<lparr> wStore = empty_store, wSwarm = sw \<rparr>) =
      Inl (Sentinel ErrStackNotFound)"
    using remote_engine_refines_local [OF n, of ae se t d undefined "\<lparr> wStore = empty_store, wSwarm = sw \<rparr>"]
    by (simp add: Let_def)
qed

text \<open>Its revisions are those of the page of a stack: at most twenty, without their documents, whatever
  the limit asked for.\<close>

lemma remote_revisions_reply:
  assumes "name \<noteq> []" "is_ok (Local_Get name (wStore w))"
  shows "remote_stacks_Revisions (daemon_server ae se txt d) name limit w =
     (Inr (map (\<lambda>rv. rv\<lparr> rvStackName := name, rvSourceYAML := [], rvRenderedYAML := [], rvPayloadJSON := [] \<rparr>)
        (Local_Revisions name 20 (wStore w))), w)"
  using assms
  by (auto simp: remote_stacks_Revisions_def do_request_def daemon_stacks stacks_server_def Let_def http_show_def json_of_def
      show_roundtrip is_ok_iff)

end
