(* ===== verification/Console_Pages_Properties.thy ===== *)
theory Console_Pages_Properties
  imports Console_Access_Properties Api_Stacks_Properties Api_Certs
begin

text \<open>
  The console's pages against the daemon: the form that deploys, the page of usage, the index of stacks, the
  coverage of backups; and the escapes of the links to the webhook receiver.
\<close>

section \<open>Deploying from the form\<close>

lemma as_str_missing: "as_str (jfield k (JObj [])) = Some []"
  by (simp add: jfield_def as_str_def)

lemma form_payload_roundtrip: "decode_lenient payload_dto (Some (Inr (pm_payload_json p))) = Inr p"
  by (simp add: decode_lenient_def payload_dto_def pm_payload_json_def as_struct_def jfield_omits as_str_missing)

lemma pm_deploy_json: "pm_deploy_result (deploy_json (n, i)) = Some (n, i, False)"
  by (simp add: pm_deploy_result_def deploy_json_def dto_simps)

lemma console_deploy_reply:
  "pm_Deploy (daemon_server ae se txt d) p w =
     map_prod (map_sum (\<lambda>e. Pm_Error 400 (error_text (seText se e))) (\<lambda>r. (rsStackName r, rsRevision r, False))) id
       (Deploy (seEngine se) (seNow se) p w)"
  by (cases "Deploy (seEngine se) (seNow se) p w"; cases "fst (Deploy (seEngine se) (seNow se) p w)")
     (auto simp: pm_Deploy_def pm_do_def daemon_stacks stacks_server_def Let_def http_deploy_def form_payload_roundtrip
        json_of_def pm_deploy_json)

lemma console_stacks_reply:
  "pm_ListStacks (daemon_server ae se txt d) w = (Inr (Local_List (wStore w)), w)"
  by (simp add: pm_ListStacks_def pm_do_def daemon_stacks stacks_server_def Let_def http_list_def json_of_def
      in_struct_def as_struct_def jfield_def stacks_roundtrip)

lemma Configured_api: "Configured (client_of e st) \<Longrightarrow> api_configured e st"
  by (auto simp: Configured_def client_of_def api_configured_def loadParams_def Let_def trim_slashes_def)

text \<open>Property C38.  The deploy form is the engine's deploy.  Submitted to a configured console with a manifest,
  it changes the daemon's store and swarm exactly as the engine's deploy of the form's fields does; the page
  then reports the stack and revision on success and its own error on failure, and lists the stacks
  as they are afterwards.  Whether the deploy changed anything is lost: the page always says it did not.\<close>

theorem deploy_form_effect:
  assumes "Configured (client_of e st)" "trim_space (PostForm ''manifest'' rq) \<noteq> []"
    "Deploy (seEngine se) (seNow se) (deploy_form rq) w = (res, w')"
    "Deploy_Page_Submit (\<lambda>_ _. daemon_server ae se txt d) e rq st w = (page, w'')"
  shows "w'' = w' \<and> ddStacksKnown page \<and> ddStacks page = map deploy_row (Local_List (wStore w')) \<and>
    (case res of
       Inl err \<Rightarrow> ddResult page = None \<and> ddErrKey page = ''deploy.err_deploy'' \<and>
         ddErrRaw page = pm_text (Pm_Error 400 (error_text (seText se err)))
     | Inr r \<Rightarrow> ddResult page = Some (rsStackName r, rsRevision r, False) \<and> ddErrKey page = [])"
  using assms(2,3,4) Configured_api [OF assms(1)] assms(1)
  by (cases res)
     (auto simp: Deploy_Page_Submit_def Let_def deploy_form_def api_of_def console_deploy_reply load_deploy_def
        console_stacks_reply deploy_data_def)

definition deploy_post :: ui_request where
  "deploy_post = \<lparr> uqMethod = ''POST'', uqPath = [''web'', ''deploy''], uqHX = True, uqQuery = [],
     uqForm = [(''app_name'', ''shop''), (''manifest'', ''app: shop'')], uqCookie = None, uqNow = 0, uqBase = [], uqTok = [] \<rparr>"

theorem deploy_form_effect_witness:
  "\<forall>ae (se :: 'sw stacks_env) t d w. snd (Deploy_Page_Submit (\<lambda>_ _. daemon_server ae se t d) demo_console deploy_post two_admins w) =
     snd (Deploy (seEngine se) (seNow se) (deploy_form deploy_post) w)"
proof (intro allI)
  fix ae and se :: "'sw stacks_env" and t d w
  have c: "Configured (client_of demo_console two_admins)"
    by (simp add: Configured_def client_of_def loadParams_def GetSettings_def two_admins_def demo_console_def Let_def
        trim_slashes_def)
  have "PostForm ''manifest'' deploy_post = ''app: shop''" by (simp add: PostForm_def deploy_post_def)
  then have m: "trim_space (PostForm ''manifest'' deploy_post) \<noteq> []" by (simp only:) code_simp
  obtain res w' where D: "Deploy (seEngine se) (seNow se) (deploy_form deploy_post) w = (res, w')" by (metis surj_pair)
  obtain page w'' where P: "Deploy_Page_Submit (\<lambda>_ _. daemon_server ae se t d) demo_console deploy_post two_admins w = (page, w'')"
    by (metis surj_pair)
  show "snd (Deploy_Page_Submit (\<lambda>_ _. daemon_server ae se t d) demo_console deploy_post two_admins w) =
     snd (Deploy (seEngine se) (seNow se) (deploy_form deploy_post) w)"
    using deploy_form_effect [OF c m D P] D P by simp
qed

section \<open>Usage\<close>

lemma as_names_json: "as_names (names_json m) = Some m"
proof -
  have "all_some (map ((\<lambda>(k, v). map_option (Pair k) (as_list as_str v)) \<circ> (\<lambda>(n, l). (n, JArr (map JStr l)))) m) = Some m"
    by (rule all_some_rows) (auto simp: as_str_list)
  then show ?thesis by (simp add: as_names_def names_json_def)
qed

lemma usage_roundtrip: "usage_dto (usage_json u) = Some u"
  by (simp add: usage_dto_def usage_json_def as_struct_def jfield_def as_names_json)

text \<open>A report in which every name has one entry, with users.\<close>

definition proper_report :: "(string \<times> string list) list \<Rightarrow> bool" where
  "proper_report m \<longleftrightarrow> distinct (map fst m) \<and> list_all (\<lambda>p. snd p \<noteq> []) m"

lemma proper_add: "proper_report m \<Longrightarrow> proper_report (add_user st n m)"
proof -
  assume m: "proper_report m"
  have "snd p \<noteq> []" if "p \<in> set (AList.update n (List.insert st us) m)" for p us
  proof -
    have "map_of (AList.update n (List.insert st us) m) (fst p) = Some (snd p)"
      using that m by (intro map_of_is_SomeI) (auto simp: proper_report_def distinct_update)
    then have "p = (n, List.insert st us) \<or> p \<in> set m"
      by (cases p) (auto simp: update_conv' split: if_splits dest: map_of_SomeD)
    moreover have "List.insert st us \<noteq> []" by (auto simp: List.insert_def)
    ultimately show ?thesis using m by (auto simp: proper_report_def list_all_iff)
  qed
  then show ?thesis using m by (auto simp: proper_report_def add_user_def Let_def distinct_update list_all_iff)
qed

lemma proper_count: "proper_report (fst acc) \<and> proper_report (snd acc) \<Longrightarrow>
    proper_report (fst (fold (count_stack um db) ss acc)) \<and> proper_report (snd (fold (count_stack um db) ss acc))"
proof (induction ss arbitrary: acc)
  case (Cons s ss)
  have "proper_report (fold (add_user n) ns m)" if "proper_report m" for n ns m
    using that by (induction ns arbitrary: m) (simp_all add: proper_add)
  then show ?case using Cons by (simp add: count_stack_references)
qed simp

lemma proper_flatten: "proper_report m \<Longrightarrow> proper_report (flatten m)"
proof -
  have "sort l = [] \<longleftrightarrow> l = []" for l :: "string list" by (metis length_0_conv length_sort)
  moreover have "map fst (flatten m) = map fst m" by (simp add: flatten_def comp_def)
  ultimately show "proper_report m \<Longrightarrow> proper_report (flatten m)"
    by (simp add: proper_report_def flatten_def list_all_iff)
qed

lemma proper_usage: "proper_report (ugConfigs (Usage_Get um db))" "proper_report (ugSecrets (Usage_Get um db))"
  using proper_count [of "([], [])" um db "ListStacks db"]
  by (auto simp: Usage_Get_def proper_flatten proper_report_def [of "[]"] split: prod.splits)

lemma usage_rows:
  assumes "proper_report m"
  shows "ugpUnused (usageGroupRows m) = 0"
    and "(\<exists>r \<in> set (ugpRows (usageGroupRows m)). urwName r = n \<and> stk \<in> set (urwStacks r)) \<longleftrightarrow> stk \<in> set (users_in m n)"
    and "sorted (map urwName (ugpRows (usageGroupRows m)))"
proof -
  show "ugpUnused (usageGroupRows m) = 0"
    using assms by (auto simp: usageGroupRows_def Let_def countUnused_def usage_row_def proper_report_def list_all_iff
        filter_empty_conv)
  have "(\<exists>p \<in> set m. fst p = n \<and> stk \<in> set (snd p)) \<longleftrightarrow> stk \<in> set (users_in m n)"
    using assms by (auto simp: users_in_def proper_report_def split: option.splits dest: map_of_SomeD map_of_is_SomeI)
      (force simp: map_of_eq_None_iff)
  then show "(\<exists>r \<in> set (ugpRows (usageGroupRows m)). urwName r = n \<and> stk \<in> set (urwStacks r)) \<longleftrightarrow> stk \<in> set (users_in m n)"
    by (simp add: usageGroupRows_def Let_def usage_row_def)
  show "sorted (map urwName (ugpRows (usageGroupRows m)))" by (simp add: usageGroupRows_def Let_def)
qed

text \<open>Property C40.  The page of usage, from the store to the browser.  A configured console shows a stack
  under a config or a secret exactly when the rendered document of its current revision names it, sorted by
  name, and changes nothing; and it never shows anything as unused: a config or secret that
  no stack names is not on the page at all.\<close>

theorem usage_page_exact:
  assumes "api_configured e st" "Usage_Page_Show (\<lambda>_ _. usage_server um) e st db = (page, db')"
  shows "db' = db \<and> udKnown page \<and> udUnused page = 0 \<and>
    sorted (map urwName (ugpRows (udConfigs page))) \<and> sorted (map urwName (ugpRows (udSecrets page))) \<and>
    ((\<exists>r \<in> set (ugpRows (udConfigs page)). urwName r = name \<and> stk \<in> set (urwStacks r)) \<longleftrightarrow>
       (\<exists>s \<in> set (dbStacks db). stName s = stk \<and> name \<in> set (fst (references um db s)))) \<and>
    ((\<exists>r \<in> set (ugpRows (udSecrets page)). urwName r = name \<and> stk \<in> set (urwStacks r)) \<longleftrightarrow>
       (\<exists>s \<in> set (dbStacks db). stName s = stk \<and> name \<in> set (snd (references um db s))))"
proof -
  let ?u = "Usage_Get um db"
  have "pm_GetUsage (usage_server um) db = (Inr ?u, db)"
    by (simp add: pm_GetUsage_def pm_do_def usage_server_def usage_roundtrip)
  then have "db' = db" "udKnown page" "udConfigs page = usageGroupRows (ugConfigs ?u)"
    "udSecrets page = usageGroupRows (ugSecrets ?u)"
    "udUnused page = ugpUnused (usageGroupRows (ugConfigs ?u)) + ugpUnused (usageGroupRows (ugSecrets ?u))"
    using assms by (auto simp: Usage_Page_Show_def Let_def api_of_def)
  then show ?thesis
    using usage_rows [OF proper_usage(1)] usage_rows [OF proper_usage(2)] usage_report [of _ um db name] by simp
qed

theorem usage_page_exact_witness:
  "udUnused (fst (Usage_Page_Show (\<lambda>_ _. usage_server (\<lambda>_. None)) demo_console two_admins empty_store)) = 0"
proof -
  have c: "api_configured demo_console two_admins"
    by (simp add: api_configured_def loadParams_def GetSettings_def two_admins_def demo_console_def Let_def)
  obtain page db' where P: "Usage_Page_Show (\<lambda>_ _. usage_server (\<lambda>_. None)) demo_console two_admins empty_store = (page, db')"
    by (metis surj_pair)
  show ?thesis using usage_page_exact [OF c P] P by simp
qed

section \<open>The index of stacks\<close>

text \<open>Every row counts the services of its stack, in order.\<close>

lemma count_service_map:
  "distinct (map (siName \<circ> srInfo) rows) \<Longrightarrow> count_service s rows =
     map (\<lambda>r. if siName (srInfo r) = suStack s
       then r\<lparr> srServices := srServices r + 1, srRunning := srRunning r + suReplicas s,
               srDesired := srDesired r + suDesired s \<rparr> else r) rows"
proof (induction rows)
  case (Cons a rows)
  then show ?case by (cases "siName (srInfo a) = suStack s") (auto simp: image_iff intro!: map_idI [symmetric])
qed simp

lemma count_service_names: "map (siName \<circ> srInfo) (count_service s rows) = map (siName \<circ> srInfo) rows"
  by (induction rows) auto

lemma count_services_exact:
  assumes "distinct (map (siName \<circ> srInfo) rows)"
  shows "fold count_service svcs rows =
    map (\<lambda>r. let own = filter (\<lambda>s. suStack s = siName (srInfo r)) svcs in
      r\<lparr> srServices := srServices r + int (length own), srRunning := srRunning r + sum_list (map suReplicas own),
         srDesired := srDesired r + sum_list (map suDesired own) \<rparr>) rows"
  using assms
proof (induction svcs arbitrary: rows)
  case (Cons s svcs)
  have "distinct (map (siName \<circ> srInfo) (count_service s rows))"
    using Cons.prems by (simp only: count_service_names)
  from Cons.IH [OF this] show ?case
    by (simp add: count_service_map [OF Cons.prems] Let_def algebra_simps)
qed simp

section \<open>Backups\<close>

lemma newest_acc: "fst (foldl newest_run_step acc rows) = Some r \<Longrightarrow> fst acc = Some r \<or> r \<in> set rows"
proof (induction rows arbitrary: acc)
  case (Cons a rows)
  have "fst (newest_run_step acc a) = fst acc \<or> fst (newest_run_step acc a) = Some a" by (simp add: newest_run_step_def)
  then show ?case using Cons.IH [of "newest_run_step acc a"] Cons.prems by auto
qed simp

lemma newest_in: "newest rows = Some r \<Longrightarrow> r \<in> set rows"
  using newest_acc [of "(None, - 1)" rows r] by (simp add: newest_def)

lemma verified_has_archives: "is_verified r \<Longrightarrow> runArchivePaths r \<noteq> []"
  by (auto simp: is_verified_def backupState_def Let_def split: if_splits)

text \<open>A stack counts as covered only with a run that succeeded and wrote archives, for its current revision
  or, when it started with a run of the whole cluster, for any.\<close>

lemma coverage_sound:
  assumes "cvVerified (judge_coverage now i rows)"
  shows "\<exists>r \<in> set rows. is_verified r \<and> runArchivePaths r \<noteq> [] \<and>
    (runRevision r = siCurrentRevision i \<or>
     (\<exists>c \<in> set rows. is_verified c \<and> runStackName c = [] \<and> runStartedAt c = runStartedAt r))"
proof -
  obtain v where v: "newest (filter is_verified rows) = Some v"
    "rowsCoverCluster rows (runStartedAt v) \<or> runRevision v = siCurrentRevision i"
    using assms
    by (auto simp: judge_coverage_def Let_def coverage_row_def split: option.splits if_splits)
  have in_rows: "v \<in> set rows" "is_verified v" using newest_in [OF v(1)] by auto
  have "\<exists>c \<in> set rows. is_verified c \<and> runStackName c = [] \<and> runStartedAt c = runStartedAt v"
    if "rowsCoverCluster rows (runStartedAt v)"
    using that
    by (auto simp: rowsCoverCluster_def is_verified_def find_Some_iff split: option.splits)
  then show ?thesis using v(2) in_rows verified_has_archives by blast
qed

text \<open>The age of the last verified run is wrong after a run of today: the next older one takes its place.\<close>

lemma last_verified_forgets_today:
  assumes "brwStateKey a = ''st.verified''" "daysAgo now (runStartedAt (brwRun a)) = 0"
    "brwStateKey b = ''st.verified''" "bdLastVerifiedDays d \<ge> 0"
  shows "bdLastVerifiedDays (foldl (verified_step now) d [a, b]) = daysAgo now (runStartedAt (brwRun b))"
proof -
  have "daysAgo now t \<ge> 0" for t by (simp add: daysAgo_def pos_imp_zdiv_nonneg_iff)
  then have "\<not> daysAgo now t < 0" for t by (simp add: not_less)
  then show ?thesis using assms by (auto simp: verified_step_def Let_def)
qed

section \<open>Links to the receiver\<close>

lemma hex_val_upper: "n < 16 \<Longrightarrow> hex_val (upper_hex n) = Some n"
proof -
  have "\<forall>n \<in> set [0..<16]. hex_val (upper_hex n) = Some n" by code_simp
  then show "n < 16 \<Longrightarrow> hex_val (upper_hex n) = Some n" by simp
qed

text \<open>The escape of a source in its link is undone by the reader of paths.\<close>

lemma path_escape_roundtrip: "path_unescape (path_escape s) = Some s"
proof (induction s)
  case (Cons c s)
  have h: "of_char c div 16 < (16 :: nat)" "of_char c mod 16 < (16 :: nat)"
    using nat_of_char_less_256 [of c] by (simp_all add: less_mult_imp_div_less)
  have c: "char_of (16 * (of_char c div 16) + of_char c mod 16 :: nat) = c" by simp
  show ?case
  proof (cases "is_alnum c \<or> c \<in> set ''-_.~$&+=:@''")
    case True
    then have "c \<noteq> CHR ''%''" by (auto simp: is_alnum_def is_alpha_def is_lower_def is_upper_def is_digit_def)
    then show ?thesis using True Cons by (simp add: path_escape_def)
  next
    case False
    then show ?thesis using Cons hex_val_upper [OF h(1)] hex_val_upper [OF h(2)] c
      by (simp add: path_escape_def)
  qed
qed (simp add: path_escape_def)

text \<open>A name the router has decoded once is decoded again: a source or host with an escape in its name cannot
  be removed, and another one is.\<close>

lemma removal_decodes_twice: "param_unescape ''a%41'' = ''aA''" "param_unescape ''aA'' = ''aA''"
  by code_simp+

end
