(* ===== verification/Store_Migrations.thy ===== *)
theory Store_Migrations
  imports Tables Go_Strings
begin

text \<open>
  Migrations of the store (\<^verbatim>\<open>store/migrations.go\<close>): the embedded scripts are applied in the order of their
  names, each in a transaction with the row that records it.  The directory, the contents of its files
  and what a transaction makes of the data are parameters; a transaction that fails, in the script or
  in its commit, leaves the data of before.
\<close>

section \<open>The runner\<close>

record 'db migrations =
  mgEntries :: "(string \<times> bool) list"
  mgRead :: "string \<Rightarrow> string option"
  mgExec :: "string \<Rightarrow> 'db \<Rightarrow> 'db option"

record 'db migrated =
  mdVersions :: "(string \<times> int) list"
  mdData :: 'db

datatype migration_err = Read_Migration string | Apply_Migration string | Record_Version string

definition loadAppliedVersions :: "'db migrated \<Rightarrow> string set" where
  "loadAppliedVersions d = fst ` set (mdVersions d)"

definition listMigrations :: "'db migrations \<Rightarrow> string list" where
  "listMigrations m = sort (map fst (filter (\<lambda>(n, dir). \<not> (dir \<or> \<not> has_suffix n ''.sql'')) (mgEntries m)))"

definition applyMigration ::
  "'db migrations \<Rightarrow> int \<Rightarrow> string \<Rightarrow> string \<Rightarrow> string \<Rightarrow> 'db migrated \<Rightarrow> (migration_err + unit) \<times> 'db migrated" where
  "applyMigration m now name version body d =
     (case mgExec m body (mdData d) of
        None \<Rightarrow> (Inl (Apply_Migration name), d)
      | Some data \<Rightarrow>
          if version \<in> fst ` set (mdVersions d) then (Inl (Record_Version name), d)
          else (Inr (), \<lparr> mdVersions = mdVersions d @ [(version, now)], mdData = data \<rparr>))"

definition version_of :: "string \<Rightarrow> string" where
  "version_of name = trim_suffix name ''.sql''"

fun run_files ::
  "'db migrations \<Rightarrow> int \<Rightarrow> string set \<Rightarrow> string list \<Rightarrow> 'db migrated \<Rightarrow> (migration_err + unit) \<times> 'db migrated" where
  "run_files m now applied [] d = (Inr (), d)"
| "run_files m now applied (n # ns) d =
     (if version_of n \<in> applied then run_files m now applied ns d
      else (case mgRead m n of
              None \<Rightarrow> (Inl (Read_Migration n), d)
            | Some body \<Rightarrow>
               (case applyMigration m now n (version_of n) body d of
                  (Inl e, d') \<Rightarrow> (Inl e, d')
                | (Inr _, d') \<Rightarrow> run_files m now applied ns d')))"

definition runMigrations :: "'db migrations \<Rightarrow> int \<Rightarrow> 'db migrated \<Rightarrow> (migration_err + unit) \<times> 'db migrated" where
  "runMigrations m now d = run_files m now (loadAppliedVersions d) (listMigrations m) d"

section \<open>Facts\<close>

text \<open>A directory has no two entries of one name, and neither have the versions.\<close>

definition proper_dir :: "'db migrations \<Rightarrow> bool" where
  "proper_dir m \<longleftrightarrow> distinct (map fst (mgEntries m))"

lemma versions_inject:
  "has_suffix a ''.sql'' \<Longrightarrow> has_suffix b ''.sql'' \<Longrightarrow> version_of a = version_of b \<Longrightarrow> a = b"
  by (auto simp: version_of_def trim_suffix_def has_suffix_def suffix_def)

lemma versions_distinct:
  assumes "proper_dir m"
  shows "distinct (map version_of (listMigrations m))"
proof -
  have "distinct (listMigrations m)"
    using assms by (simp add: listMigrations_def proper_dir_def distinct_map_filter)
  moreover have "has_suffix n ''.sql''" if "n \<in> set (listMigrations m)" for n
    using that by (auto simp: listMigrations_def)
  ultimately show ?thesis by (auto simp: distinct_map inj_on_def intro: versions_inject)
qed

text \<open>The recorded versions grow at the end, by a beginning of what is due.\<close>

definition due :: "string set \<Rightarrow> string list \<Rightarrow> string list" where
  "due applied ns = filter (\<lambda>v. v \<notin> applied) (map version_of ns)"

lemma due_simps [simp]:
  "due applied [] = []"
  "due applied (n # ns) = (if version_of n \<in> applied then due applied ns else version_of n # due applied ns)"
  by (simp_all add: due_def)

lemma applyMigration_cases:
  "applyMigration m now n v body d = (r, d') \<Longrightarrow>
     (\<exists>e. r = Inl e) \<and> d' = d \<or> r = Inr () \<and> map fst (mdVersions d') = map fst (mdVersions d) @ [v]"
  by (auto simp: applyMigration_def split: option.splits if_splits)

lemma run_files_grows:
  "run_files m now applied ns d = (r, d') \<Longrightarrow>
     \<exists>k. map fst (mdVersions d') = map fst (mdVersions d) @ take k (due applied ns) \<and>
       (r = Inr () \<longrightarrow> map fst (mdVersions d') = map fst (mdVersions d) @ due applied ns)"
proof (induction ns arbitrary: d)
  case (Cons n ns)
  show ?case
  proof (cases "version_of n \<in> applied")
    case True
    then show ?thesis using Cons by simp
  next
    case False
    show ?thesis
    proof (cases "mgRead m n")
      case None
      then show ?thesis using Cons.prems False by (auto intro: exI [of _ 0])
    next
      case (Some body)
      obtain r1 d1 where a: "applyMigration m now n (version_of n) body d = (r1, d1)" by fastforce
      show ?thesis
      proof (cases r1)
        case (Inl e)
        then have "d1 = d" using applyMigration_cases [OF a] by auto
        then show ?thesis using Cons.prems False Some a Inl by (auto intro: exI [of _ 0])
      next
        case (Inr u)
        then have "map fst (mdVersions d1) = map fst (mdVersions d) @ [version_of n]"
          using applyMigration_cases [OF a] by auto
        moreover have run: "run_files m now applied ns d1 = (r, d')" using Cons.prems False Some a Inr by simp
        obtain k where "map fst (mdVersions d') = map fst (mdVersions d1) @ take k (due applied ns)"
          "r = Inr () \<longrightarrow> map fst (mdVersions d') = map fst (mdVersions d1) @ due applied ns"
          using Cons.IH [OF run] by blast
        ultimately show ?thesis using False by (intro exI [of _ "Suc k"]) simp
      qed
    qed
  qed
qed simp

lemma run_files_done:
  "due applied ns = [] \<Longrightarrow> run_files m now applied ns d = (Inr (), d)"
  by (induction ns) (auto split: if_splits)

text \<open>Run again after a success, the migrations change nothing.\<close>

lemma migrations_idempotent:
  assumes "runMigrations m now d = (Inr (), d')"
  shows "runMigrations m later d' = (Inr (), d')"
proof -
  obtain k where "map fst (mdVersions d') =
      map fst (mdVersions d) @ due (loadAppliedVersions d) (listMigrations m)"
    using run_files_grows [OF assms [unfolded runMigrations_def]] by auto
  then have "set (map version_of (listMigrations m)) \<subseteq> loadAppliedVersions d'"
    by (auto simp: loadAppliedVersions_def due_def simp flip: set_map)
  then have "due (loadAppliedVersions d') (listMigrations m) = []" by (auto simp: due_def filter_empty_conv)
  then show ?thesis by (simp add: runMigrations_def run_files_done)
qed

text \<open>A failed run loses nothing: with the same scripts up to the failure, the next run continues from there, and ends as
  a run from the start would.\<close>

lemma run_files_resume:
  assumes "run_files m now applied ns d = (Inl e, d')" "distinct (map version_of ns)"
    "fst ` set (mdVersions d) \<inter> set (due applied ns) = {}"
    "\<And>n. version_of n \<in> fst ` set (mdVersions d') \<Longrightarrow> mgRead m' n = mgRead m n"
    "\<And>n b. version_of n \<in> fst ` set (mdVersions d') \<Longrightarrow> mgRead m n = Some b \<Longrightarrow> mgExec m' b = mgExec m b"
  shows "run_files m' now (applied \<union> fst ` set (mdVersions d')) ns d' = run_files m' now applied ns d"
  using assms(1-4)
proof (induction ns arbitrary: d)
  case (Cons n ns)
  show ?case
  proof (cases "version_of n \<in> applied")
    case True
    then show ?thesis using Cons by simp
  next
    case False
    have new: "version_of n \<notin> fst ` set (mdVersions d)" using Cons.prems(3) False by auto
    show ?thesis
    proof (cases "\<exists>body d1. mgRead m n = Some body \<and> applyMigration m now n (version_of n) body d = (Inr (), d1)")
      case True
      then obtain body d1 where b: "mgRead m n = Some body"
        and a: "applyMigration m now n (version_of n) body d = (Inr (), d1)" by blast
      have rest: "run_files m now applied ns d1 = (Inl e, d')" using Cons.prems(1) False b a by simp
      have v1: "map fst (mdVersions d1) = map fst (mdVersions d) @ [version_of n]"
        using applyMigration_cases [OF a] by auto
      have fresh: "fst ` set (mdVersions d1) \<inter> set (due applied ns) = {}"
      proof -
        have "fst ` set (mdVersions d1) = insert (version_of n) (fst ` set (mdVersions d))"
          using arg_cong [OF v1, of set] by simp
        moreover have "version_of n \<notin> set (due applied ns)" using Cons.prems(2) by (auto simp: due_def)
        moreover have "fst ` set (mdVersions d) \<inter> set (due applied ns) = {}" using Cons.prems(3) False by auto
        ultimately show ?thesis by auto
      qed
      obtain k where "map fst (mdVersions d') = map fst (mdVersions d1) @ take k (due applied ns)"
        using run_files_grows [OF rest] by auto
      then have vin: "version_of n \<in> fst ` set (mdVersions d')"
        using v1 by (metis (no_types, lifting) Un_iff in_set_conv_decomp list.set_map set_append)
      have "mgRead m' n = Some body" using Cons.prems(4) vin b by simp
      moreover have "applyMigration m' now n (version_of n) body d = (Inr (), d1)"
        using a assms(5) [OF vin b] by (simp add: applyMigration_def)
      ultimately have "run_files m' now applied (n # ns) d = run_files m' now applied ns d1" using False by simp
      moreover have "run_files m' now (applied \<union> fst ` set (mdVersions d')) (n # ns) d' =
          run_files m' now (applied \<union> fst ` set (mdVersions d')) ns d'" using vin by simp
      ultimately show ?thesis using Cons.IH [OF rest _ fresh Cons.prems(4)] Cons.prems(2) by simp
    next
      case stop: False
      have d': "d' = d"
      proof (cases "mgRead m n")
        case None
        then show ?thesis using Cons.prems(1) False by simp
      next
        case (Some body)
        obtain r1 d1 where a: "applyMigration m now n (version_of n) body d = (r1, d1)" by fastforce
        then obtain e1 where "r1 = Inl e1" "d1 = d" using applyMigration_cases [OF a] stop Some by auto
        then show ?thesis using Cons.prems(1) False Some a by simp
      qed
      have "run_files m' now (applied \<union> V) xs d2 = run_files m' now applied xs d2"
        if "V \<inter> set (due applied xs) = {}" for V xs d2
        using that
      proof (induction xs arbitrary: d2)
        case (Cons x xs)
        then show ?case by (cases "version_of x \<in> applied") (auto split: option.split sum.split prod.split)
      qed simp
      from this [of "fst ` set (mdVersions d)" "n # ns" d] show ?thesis using Cons.prems(3) d' by simp
    qed
  qed
qed simp

lemma migrations_resume_now:
  assumes "proper_dir m" "runMigrations m now d = (Inl e, d')"
    "mgEntries m' = mgEntries m"
    "\<And>n. version_of n \<in> loadAppliedVersions d' \<Longrightarrow> mgRead m' n = mgRead m n"
    "\<And>n b. version_of n \<in> loadAppliedVersions d' \<Longrightarrow> mgRead m n = Some b \<Longrightarrow> mgExec m' b = mgExec m b"
  shows "runMigrations m' now d' = runMigrations m' now d"
proof -
  let ?ns = "listMigrations m" and ?a = "loadAppliedVersions d"
  have run: "run_files m now ?a ?ns d = (Inl e, d')" using assms(2) by (simp add: runMigrations_def)
  obtain k where "map fst (mdVersions d') = map fst (mdVersions d) @ take k (due ?a ?ns)"
    using run_files_grows [OF run] by auto
  then have "set (map fst (mdVersions d)) \<subseteq> set (map fst (mdVersions d'))" by simp
  then have "?a \<union> fst ` set (mdVersions d') = loadAppliedVersions d'" by (auto simp: loadAppliedVersions_def)
  moreover have "fst ` set (mdVersions d) \<inter> set (due ?a ?ns) = {}" by (auto simp: loadAppliedVersions_def due_def)
  moreover have "listMigrations m' = ?ns" by (simp add: listMigrations_def assms(3))
  ultimately show ?thesis
    using run_files_resume [OF run versions_distinct [OF assms(1)], of m'] assms(4,5)
    by (simp add: runMigrations_def loadAppliedVersions_def)
qed

text \<open>A run up to the times it records.\<close>

definition outcome_of :: "(migration_err + unit) \<times> 'db migrated \<Rightarrow> (migration_err + unit) \<times> string list \<times> 'db" where
  "outcome_of x = (fst x, map fst (mdVersions (snd x)), mdData (snd x))"

lemma run_files_time:
  "map fst (mdVersions d) = map fst (mdVersions d2) \<Longrightarrow> mdData d = mdData d2 \<Longrightarrow>
     outcome_of (run_files m now applied ns d) = outcome_of (run_files m later applied ns d2)"
proof (induction ns arbitrary: d d2)
  case (Cons n ns)
  have v: "fst ` set (mdVersions d) = fst ` set (mdVersions d2)" using Cons.prems(1) by (metis set_map)
  show ?case
    using Cons by (auto simp: applyMigration_def outcome_of_def v split: option.split)
qed (simp add: outcome_of_def)

section \<open>Properties\<close>

text \<open>Property C19.  A run of the migrations that fails loses nothing and leaves nothing half done: it has
  recorded, in the order of their names, a beginning of the scripts that were not recorded yet.  When
  a later run has a directory with the same names, whose recorded scripts are as they were (the others
  may have been repaired, or fail or succeed for another reason this time), it ends as it would have
  ended on the database before the failed run: with the same answer, the same versions in the same
  order and the same data, so that nothing is applied twice and nothing is skipped.  And a run after a
  success changes nothing.\<close>

theorem migrations_resume:
  assumes "proper_dir m" "runMigrations m now d = (r, d')"
    and "mgEntries m' = mgEntries m"
    and "\<And>n. version_of n \<in> loadAppliedVersions d' \<Longrightarrow> mgRead m' n = mgRead m n"
    and "\<And>n b. version_of n \<in> loadAppliedVersions d' \<Longrightarrow> mgRead m n = Some b \<Longrightarrow> mgExec m' b = mgExec m b"
  shows "(\<exists>k. map fst (mdVersions d') = map fst (mdVersions d) @
      take k (filter (\<lambda>v. v \<notin> loadAppliedVersions d) (map version_of (listMigrations m)))) \<and>
    (\<not> is_ok r \<longrightarrow> outcome_of (runMigrations m' later d') = outcome_of (runMigrations m' any d)) \<and>
    (is_ok r \<longrightarrow> runMigrations m later d' = (Inr (), d'))"
proof (intro conjI impI)
  show "\<exists>k. map fst (mdVersions d') = map fst (mdVersions d) @
      take k (filter (\<lambda>v. v \<notin> loadAppliedVersions d) (map version_of (listMigrations m)))"
    using run_files_grows [OF assms(2) [unfolded runMigrations_def]] by (auto simp: due_def)
next
  assume "\<not> is_ok r"
  then obtain e where "r = Inl e" by (cases r) (auto simp: is_ok_iff)
  with assms(2) have failed: "runMigrations m now d = (Inl e, d')" by simp
  have "runMigrations m' now d' = runMigrations m' now d"
    by (rule migrations_resume_now [OF assms(1) failed assms(3,4,5)])
  moreover have "outcome_of (runMigrations m' t x) = outcome_of (runMigrations m' now x)" for t x
    unfolding runMigrations_def by (rule run_files_time) simp_all
  ultimately show "outcome_of (runMigrations m' later d') = outcome_of (runMigrations m' any d)" by metis
next
  assume "is_ok r"
  then show "runMigrations m later d' = (Inr (), d')"
    using migrations_idempotent assms(2) by (auto simp: is_ok_iff)
qed

definition demo_scripts :: "string \<Rightarrow> string list migrations" where
  "demo_scripts second = \<lparr> mgEntries = [(''b.sql'', False), (''a.sql'', False), (''old'', True)],
     mgRead = (\<lambda>n. if n = ''a.sql'' then Some ''users'' else if n = ''b.sql'' then Some second else None),
     mgExec = (\<lambda>body db. if body = ''broken'' then None else Some (db @ [body])) \<rparr>"

theorem migrations_resume_witness:
  "outcome_of (runMigrations (demo_scripts ''stacks'') 9
     (snd (runMigrations (demo_scripts ''broken'') 5 \<lparr> mdVersions = [], mdData = [] \<rparr>))) =
   (Inr (), [''a'', ''b''], [''users'', ''stacks''])"
proof -
  have first: "runMigrations (demo_scripts ''broken'') 5 \<lparr> mdVersions = [], mdData = [] \<rparr> =
      (Inl (Apply_Migration ''b.sql''), \<lparr> mdVersions = [(''a'', 5)], mdData = [''users''] \<rparr>)" by code_simp
  have whole: "outcome_of (runMigrations (demo_scripts ''stacks'') 9 \<lparr> mdVersions = [], mdData = [] \<rparr>) =
      (Inr (), [''a'', ''b''], [''users'', ''stacks''])" by code_simp
  have b: "version_of ''b.sql'' = ''b''" by code_simp
  have same: "mgRead (demo_scripts ''stacks'') n = mgRead (demo_scripts ''broken'') n"
    if "version_of n \<in> loadAppliedVersions \<lparr> mdVersions = [(''a'', 5)], mdData = [''users''] \<rparr>" for n
    using that b by (auto simp: demo_scripts_def loadAppliedVersions_def)
  have p: "proper_dir (demo_scripts ''broken'')" by (simp add: proper_dir_def demo_scripts_def)
  have e: "mgEntries (demo_scripts ''stacks'') = mgEntries (demo_scripts ''broken'')"
    "\<And>b. mgExec (demo_scripts ''stacks'') b = mgExec (demo_scripts ''broken'') b" by (simp_all add: demo_scripts_def)
  show ?thesis
    using migrations_resume [OF p first e(1) same e(2), of 9 9] whole by (simp add: first is_ok_iff)
qed

end
