(* ===== verification/Backups_Trigger.thy ===== *)
theory Backups_Trigger
  imports Backups
begin

text \<open>
  The backup itself (\<^verbatim>\<open>backups/trigger.go\<close>): the write-ahead log is flushed, the agent's container is looked
  up by the label of its service, and \<^verbatim>\<open>backup\<close> is run in it.  A docker command takes its arguments and
  answers what it printed on its two outputs and its error; the counters are left out.
\<close>

section \<open>Words\<close>

text \<open>\<^verbatim>\<open>strings.Fields\<close>.\<close>

function words_from :: "string \<Rightarrow> string \<Rightarrow> string list" where
  "words_from cur s =
     (case strip_first space_encodings s of
        Some t \<Rightarrow> (if cur = [] then words_from [] t else cur # words_from [] t)
      | None \<Rightarrow>
         (case s of
            [] \<Rightarrow> (if cur = [] then [] else [cur])
          | c # cs \<Rightarrow> words_from (cur @ [c]) cs))"
  by pat_completeness auto
termination
  by (relation "measure (\<lambda>(_, s). length s)") (auto dest: strip_first_shorter)

declare words_from.simps [simp del]

definition words_of :: "string \<Rightarrow> string list" where
  "words_of s = words_from [] s"

section \<open>Docker\<close>

record 'sw agent_host =
  ahRun :: "string list \<Rightarrow> 'sw \<Rightarrow> (string \<times> string \<times> string option) \<times> 'sw"
  ahCheckpoint :: "('sw \<Rightarrow> string option \<times> 'sw) option"

definition backup_ServiceName :: string where
  "backup_ServiceName = ''backup_volume-backup''"

definition find_argv :: "string list" where
  "find_argv = [''ps'', ''--filter'', ''label=com.docker.swarm.service.name='' @ backup_ServiceName, ''--filter'',
     ''status=running'', ''--format'', ''{{.ID}}'']"

definition findLocalContainer :: "'sw agent_host \<Rightarrow> 'sw \<Rightarrow> (string + string) \<times> 'sw" where
  "findLocalContainer h s =
     (case ahRun h find_argv s of
        ((out, err, Some e), s1) \<Rightarrow> (Inl (''docker ps: '' @ e @ '' ('' @ trim_space err @ '')''), s1)
      | ((out, err, None), s1) \<Rightarrow>
         (let i = trim_space out in
          (if i = [] then Inl ''no offen backup container running on this host (is the backup stack deployed?)''
           else Inr (takeWhile (\<lambda>c. c \<noteq> CHR 0x0A) i), s1)))"

record backup_result =
  brArchivePaths :: "string list"
  brStdout :: string
  brStderr :: string

definition docker_backup :: "'sw agent_host \<Rightarrow> 'sw \<Rightarrow> (backup_result option \<times> string option) \<times> 'sw" where
  "docker_backup h s =
     (case findLocalContainer h s of
        (Inl e, s1) \<Rightarrow> ((None, Some e), s1)
      | (Inr cid, s1) \<Rightarrow>
         (case ahRun h [''exec'', cid, ''backup''] s1 of
            ((out, err, Some e), s2) \<Rightarrow>
              ((Some \<lparr> brArchivePaths = [], brStdout = out, brStderr = err \<rparr>,
                Some (''docker exec '' @ cid @ '' backup: '' @ e @ '' ('' @ trim_space err @ '')'')), s2)
          | ((out, err, None), s2) \<Rightarrow>
              ((Some \<lparr> brArchivePaths = parseArchivePaths (words_of out), brStdout = out, brStderr = err \<rparr>, None), s2)))"

definition LocalTrigger :: "'sw agent_host \<Rightarrow> 'sw \<Rightarrow> (string list \<times> string option) \<times> 'sw" where
  "LocalTrigger h s =
     (case (case ahCheckpoint h of None \<Rightarrow> (None, s) | Some flush \<Rightarrow> flush s) of
        (Some e, s1) \<Rightarrow> (([], Some (''wal checkpoint before backup: '' @ e)), s1)
      | (None, s1) \<Rightarrow>
         (case docker_backup h s1 of
            ((r, err), s2) \<Rightarrow> (((case r of None \<Rightarrow> [] | Some b \<Rightarrow> brArchivePaths b), err), s2)))"

section \<open>Facts\<close>

lemma failed_checkpoint_runs_nothing:
  assumes "ahCheckpoint h = Some flush" "flush s = (Some e, s1)"
  shows "LocalTrigger h s = (([], Some (''wal checkpoint before backup: '' @ e)), s1)"
  using assms by (simp add: LocalTrigger_def)

lemma failed_backup_has_no_paths: "LocalTrigger h s = ((paths, Some e), s') \<Longrightarrow> paths = []"
  by (auto simp: LocalTrigger_def docker_backup_def findLocalContainer_def Let_def split: option.splits prod.splits sum.splits if_splits)

text \<open>Whatever the agent prints, the recorded paths are archives under its own root.\<close>

lemma trigger_paths:
  assumes "LocalTrigger h s = ((paths, err), s')" "p \<in> set paths"
  shows "prefix ''/archive/'' p \<and> suffix ''.tar.gz'' p"
  using assms
  by (auto simp: LocalTrigger_def docker_backup_def findLocalContainer_def Let_def parseArchivePaths_def
      has_prefix_def has_suffix_def split: option.splits prod.splits sum.splits if_splits)

end
