(* ===== verification/Edge_Config.thy ===== *)
theory Edge_Config
  imports Edge_Proxy
begin

text \<open>
  The configuration of the edge (\<^verbatim>\<open>edgeproxy/config.go\<close>): every setting comes from an environment variable, or
  is a default when the variable is empty or does not parse.  \<^verbatim>\<open>Getenv\<close> gives the empty text for an unset
  variable; the parsers of floats and durations, with durations in nanoseconds, are arguments.
\<close>

record 'f edge_settings =
  esListenAddr :: string
  esUpstream :: string
  esAPIRate :: 'f
  esAPIBurst :: int
  esWebhookRate :: 'f
  esWebhookBurst :: int
  esMaxConcurrent :: int
  esRequestTimeout :: int
  esMaxBodyBytes :: int
  esTrustedCIDRs :: "string list"
  esAllowedCIDRs :: "string list"
  esBannedCIDRs :: "string list"
  esBanThreshold :: int
  esBanDuration :: int
  esLogLevel :: string

record 'f edge_os =
  eoGetenv :: "string \<Rightarrow> string"
  eoFloat :: "string \<Rightarrow> 'f option"
  eoDuration :: "string \<Rightarrow> int option"
  eoRates :: "'f \<times> 'f"

definition envOr :: "(string \<Rightarrow> string) \<Rightarrow> string \<Rightarrow> string \<Rightarrow> string" where
  "envOr getenv key def = (let v = getenv key in if v \<noteq> [] then v else def)"

definition env_parsed :: "(string \<Rightarrow> string) \<Rightarrow> (string \<Rightarrow> 'a option) \<Rightarrow> string \<Rightarrow> 'a \<Rightarrow> 'a" where
  "env_parsed getenv parse key def =
     (let v = getenv key in
      if v \<noteq> [] then (case parse v of Some x \<Rightarrow> x | None \<Rightarrow> def) else def)"

definition envInt :: "(string \<Rightarrow> string) \<Rightarrow> string \<Rightarrow> int \<Rightarrow> int" where
  "envInt getenv key def = env_parsed getenv parse_int64 key def"

definition splitList :: "string \<Rightarrow> string list" where
  "splitList v = filter (\<lambda>p. p \<noteq> []) (map trim_space (split_at (CHR '','') v))"

definition second :: int where "second = 10 ^ 9"

text \<open>The default rates are 200 and 40 a second.\<close>

definition FromEnv :: "'f edge_os \<Rightarrow> 'f edge_settings" where
  "FromEnv os =
     (let env = eoGetenv os in
      \<lparr> esListenAddr = envOr env ''LISTEN_ADDR'' '':8042'',
        esUpstream = envOr env ''UPSTREAM'' ''http://host.docker.internal:9090'',
        esAPIRate = env_parsed env (eoFloat os) ''API_RATE'' (fst (eoRates os)),
        esAPIBurst = envInt env ''API_BURST'' 400,
        esWebhookRate = env_parsed env (eoFloat os) ''WEBHOOK_RATE'' (snd (eoRates os)),
        esWebhookBurst = envInt env ''WEBHOOK_BURST'' 60,
        esMaxConcurrent = envInt env ''MAX_CONCURRENT'' 128,
        esRequestTimeout = env_parsed env (eoDuration os) ''REQUEST_TIMEOUT'' (30 * second),
        esMaxBodyBytes = envInt env ''MAX_BODY_BYTES'' (2 ^ 20),
        esTrustedCIDRs = splitList (envOr env ''TRUSTED_PROXY_CIDRS'' ''10.0.0.0/8,172.16.0.0/12,192.168.0.0/16,127.0.0.1/8''),
        esAllowedCIDRs = splitList (envOr env ''ALLOWED_CIDRS'' ''''),
        esBannedCIDRs = splitList (envOr env ''BANNED_CIDRS'' ''''),
        esBanThreshold = envInt env ''BAN_THRESHOLD'' 20,
        esBanDuration = env_parsed env (eoDuration os) ''BAN_DURATION'' (600 * second),
        esLogLevel = envOr env ''LOG_LEVEL'' ''info'' \<rparr>)"

text \<open>The part that the protection stack of \<^verbatim>\<open>Edge_Proxy\<close> reads.\<close>

definition edge_config_of :: "'f edge_settings \<Rightarrow> edge_config" where
  "edge_config_of c =
     \<lparr> ecTrusted = esTrustedCIDRs c, ecAllowed = esAllowedCIDRs c, ecBanned = esBannedCIDRs c,
       ecMaxConcurrent = esMaxConcurrent c, ecBanThreshold = esBanThreshold c, ecBanDuration = esBanDuration c \<rparr>"

section \<open>Facts\<close>

lemma splitList_tokens: "p \<in> set (splitList v) \<Longrightarrow> p \<noteq> []"
  by (simp add: splitList_def)

lemma splitList_empty: "splitList [] = []"
  by code_simp

lemma default_trusted:
  "splitList ''10.0.0.0/8,172.16.0.0/12,192.168.0.0/16,127.0.0.1/8'' =
     [''10.0.0.0/8'', ''172.16.0.0/12'', ''192.168.0.0/16'', ''127.0.0.1/8'']"
  by code_simp

text \<open>Without variables the edge trusts the private networks, allows and bans nobody by address, and bans for ten minutes
  after twenty failures.\<close>

lemma default_config:
  assumes "\<And>k. eoGetenv os k = []"
  shows "edge_config_of (FromEnv os) =
    \<lparr> ecTrusted = [''10.0.0.0/8'', ''172.16.0.0/12'', ''192.168.0.0/16'', ''127.0.0.1/8''], ecAllowed = [],
      ecBanned = [], ecMaxConcurrent = 128, ecBanThreshold = 20, ecBanDuration = 600 * 10 ^ 9 \<rparr>"
  using splitList_empty default_trusted
  by (simp add: edge_config_of_def FromEnv_def Let_def envOr_def envInt_def env_parsed_def assms second_def)

text \<open>A value that does not parse is the default, silently.\<close>

lemma malformed_is_default: "parse v = None \<Longrightarrow> getenv key = v \<Longrightarrow> env_parsed getenv parse key d = d"
  by (simp add: env_parsed_def Let_def)

end
