(* ===== verification/Console_Text.thy ===== *)
theory Console_Text
  imports Go_Strings
begin

text \<open>
  How the console writes: languages and translations (\<^verbatim>\<open>ui/views/i18n/i18n.go\<close>), counted phrases and numbers
  (\<^verbatim>\<open>plural.go\<close>), and the helpers of its templates (\<^verbatim>\<open>ui/views/render.go\<close>).  The dictionaries are arguments:
  for each language a list of keys with their texts, and of keys with their plural forms.  Text is its
  bytes in UTF-8.
\<close>

section \<open>Languages\<close>

type_synonym Lang = string

definition EN :: Lang where "EN = ''en''"
definition AR :: Lang where "AR = ''ar''"
definition Default_Lang :: Lang where "Default_Lang = EN"

definition Parse_Lang :: "string \<Rightarrow> Lang" where
  "Parse_Lang tag0 =
     (let tag = map to_lower (trim_space tag0) in
      if tag = [] then Default_Lang else if has_prefix tag ''ar'' then AR else EN)"

definition New_Localizer :: "Lang \<Rightarrow> Lang" where
  "New_Localizer l = (if l = EN \<or> l = AR then l else Default_Lang)"

definition Dir :: "Lang \<Rightarrow> string" where
  "Dir l = (if l = AR then ''rtl'' else ''ltr'')"

definition IsRTL :: "Lang \<Rightarrow> bool" where
  "IsRTL l \<longleftrightarrow> l = AR"

section \<open>Translations\<close>

type_synonym dictionary = "Lang \<Rightarrow> (string \<times> string) list"

definition marker_open :: string where "marker_open = [CHR 0xE2, CHR 0x9F, CHR 0xA6]"
definition marker_close :: string where "marker_close = [CHR 0xE2, CHR 0x9F, CHR 0xA7]"

definition Tr :: "dictionary \<Rightarrow> Lang \<Rightarrow> string \<Rightarrow> string" where
  "Tr dicts l key =
     (case map_of (dicts l) key of
        Some v \<Rightarrow> v
      | None \<Rightarrow> (case map_of (dicts Default_Lang) key of Some v \<Rightarrow> v | None \<Rightarrow> marker_open @ key @ marker_close))"

definition TN :: "dictionary \<Rightarrow> Lang \<Rightarrow> string \<Rightarrow> string" where
  "TN dicts l key = (let v = Tr dicts l key in if has_prefix v marker_open then [] else v)"

definition placeholder_of :: "nat \<Rightarrow> string" where
  "placeholder_of i = ''{'' @ itoa (int i) @ ''}''"

fun fill_from :: "nat \<Rightarrow> string list \<Rightarrow> string \<Rightarrow> string" where
  "fill_from i [] s = s"
| "fill_from i (a # as) s = fill_from (Suc i) as (replace_all (placeholder_of i) a s)"

definition TF :: "dictionary \<Rightarrow> Lang \<Rightarrow> string \<Rightarrow> string list \<Rightarrow> string" where
  "TF dicts l key args = fill_from 0 args (Tr dicts l key)"

definition Has_Key :: "dictionary \<Rightarrow> Lang \<Rightarrow> string \<Rightarrow> bool" where
  "Has_Key dicts l key \<longleftrightarrow> map_of (dicts l) key \<noteq> None"

section \<open>Numbers\<close>

fun group_rest :: "string \<Rightarrow> string" where
  "group_rest [] = []"
| "group_rest (c # cs) = (if length (c # cs) mod 3 = 0 then CHR '','' # c # group_rest cs else c # group_rest cs)"

definition group :: "int \<Rightarrow> string" where
  "group v =
     (let s = itoa v; neg = has_prefix s ''-''; ds = (if neg then tl s else s);
          b = (case ds of [] \<Rightarrow> [] | c # cs \<Rightarrow> c # group_rest cs)
      in if neg then CHR ''-'' # b else b)"

text \<open>A float is the text that \<^verbatim>\<open>strconv.FormatFloat\<close> gives for it.\<close>

definition groupFloat :: "string \<Rightarrow> string" where
  "groupFloat s =
     (let (intPart, frac) = (case cut_at (CHR ''.'') s of None \<Rightarrow> (s, None) | Some (a, b) \<Rightarrow> (a, Some b))
      in case parse_int64 intPart of
           None \<Rightarrow> s
         | Some n \<Rightarrow> group n @ (case frac of None \<Rightarrow> [] | Some f \<Rightarrow> ''.'' @ f))"

text \<open>Sizes.  The quotient by a power of two is exact below \<^verbatim>\<open>2^53\<close>; one decimal is rounded to even on ties.\<close>

function unit_of :: "int \<Rightarrow> int \<Rightarrow> nat \<Rightarrow> int \<times> nat" where
  "unit_of m d e = (if m \<ge> 1024 then unit_of (m div 1024) (d * 1024) (Suc e) else (d, e))"
  by pat_completeness auto
termination
  by (relation "measure (\<lambda>(m, d, e). nat m)") auto

declare unit_of.simps [simp del]

definition tenths :: "int \<Rightarrow> int \<Rightarrow> int" where
  "tenths n d =
     (let q = 10 * n div d; r = 10 * n mod d
      in if 2 * r > d \<or> 2 * r = d \<and> odd q then q + 1 else q)"

definition one_decimal :: "int \<Rightarrow> int \<Rightarrow> string" where
  "one_decimal n d = (let t = tenths n d in itoa (t div 10) @ ''.'' @ itoa (t mod 10))"

definition em_dash :: string where "em_dash = [CHR 0xE2, CHR 0x80, CHR 0x94]"

definition size_text :: "int \<Rightarrow> string" where
  "size_text n =
     (if n < 1024 then itoa n @ '' B''
      else (let (d, e) = unit_of (n div 1024) 1024 0 in one_decimal n d @ '' '' @ [''KMGTPE'' ! e] @ ''iB''))"

definition Bytes_Text :: "int \<Rightarrow> string" where
  "Bytes_Text n = (if n \<le> 0 then em_dash else size_text n)"

section \<open>Counted phrases\<close>

datatype Case = Nominative | Oblique

record PluralForms =
  pfZero :: string
  pfOne :: string
  pfTwoNom :: string
  pfTwoObl :: string
  pfFew :: string
  pfMany :: string
  pfOther :: string

datatype plural_category = Zero | One | Two | Few | Many | Other

text \<open>Go's remainder has the sign of the count: a negative one is in no range.\<close>

definition category :: "Lang \<Rightarrow> int \<Rightarrow> plural_category" where
  "category l n =
     (if l = EN then (if n = 1 then One else Other)
      else if n = 0 then Zero else if n = 1 then One else if n = 2 then Two
      else let m = (if n \<ge> 0 then n mod 100 else - ((- n) mod 100)) in
        if 3 \<le> m \<and> m \<le> 10 then Few else if 11 \<le> m \<and> m \<le> 99 then Many else Other)"

definition or_else :: "string \<Rightarrow> string \<Rightarrow> string" where
  "or_else a b = (if a \<noteq> [] then a else b)"

definition pick :: "PluralForms \<Rightarrow> plural_category \<Rightarrow> Case \<Rightarrow> string" where
  "pick f cat c =
     (case cat of
        Zero \<Rightarrow> or_else (pfZero f) (pfOther f)
      | One \<Rightarrow> or_else (pfOne f) (pfOther f)
      | Two \<Rightarrow>
          if c = Oblique \<and> pfTwoObl f \<noteq> [] then pfTwoObl f
          else or_else (pfTwoNom f) (or_else (pfTwoObl f) (pfOther f))
      | Few \<Rightarrow> or_else (pfFew f) (pfOther f)
      | Many \<Rightarrow> or_else (pfMany f) (pfOther f)
      | Other \<Rightarrow> pfOther f)"

definition formatPlural :: "int \<Rightarrow> PluralForms \<Rightarrow> Case \<Rightarrow> Lang \<Rightarrow> string" where
  "formatPlural count f c l =
     (let tpl = pick f (category l count) c in
      if \<not> contains_str tpl ''{n}'' then tpl else replace_all ''{n}'' (group count) tpl)"

definition Plural_Text ::
  "dictionary \<Rightarrow> (Lang \<Rightarrow> (string \<times> PluralForms) list) \<Rightarrow> Lang \<Rightarrow> int \<Rightarrow> string \<Rightarrow> Case \<Rightarrow> string" where
  "Plural_Text dicts plurals l count key c =
     (case map_of (plurals l) key of
        Some f \<Rightarrow> formatPlural count f c l
      | None \<Rightarrow>
         (case map_of (plurals Default_Lang) key of
            Some f \<Rightarrow> formatPlural count f c Default_Lang
          | None \<Rightarrow> Tr dicts l key))"

section \<open>Helpers of the templates\<close>

text \<open>The query \<^verbatim>\<open>lang\<close>, the cookie and the header \<^verbatim>\<open>Accept-Language\<close>, empty when absent.\<close>

definition request_Lang :: "string \<Rightarrow> string option \<Rightarrow> string \<Rightarrow> Lang" where
  "request_Lang query cookie accept =
     (if query \<noteq> [] then Parse_Lang query
      else (case cookie of
              Some ck \<Rightarrow> if ck \<noteq> [] then Parse_Lang ck else Parse_Lang accept
            | None \<Rightarrow> Parse_Lang accept))"

definition Theme :: "string option \<Rightarrow> string" where
  "Theme cookie =
     (case cookie of
        Some ck \<Rightarrow> if ck = ''light'' \<or> ck = ''dark'' then ck else ''dark''
      | None \<Rightarrow> ''dark'')"

definition crumbs :: "string list" where
  "crumbs = [''overview'', ''stacks'', ''services'', ''deploy'', ''webhooks'', ''tls'', ''backups'', ''users'',
     ''apikeys'', ''settings'']"

definition CrumbKey :: "string \<Rightarrow> string" where
  "CrumbKey path =
     (let seg = takeWhile (\<lambda>c. c \<noteq> CHR ''/'' \<and> c \<noteq> CHR ''?'') (trim_prefix path ''/web/'')
      in if seg \<in> set crumbs then ''nav.'' @ seg else ''nav.overview'')"

definition iconNameOK :: "string \<Rightarrow> bool" where
  "iconNameOK name \<longleftrightarrow> list_all (\<lambda>c. is_lower c \<or> is_digit c \<or> c = CHR ''-'') name"

definition quotation :: char where "quotation = CHR 0x22"

definition icon :: "string \<Rightarrow> string" where
  "icon name =
     (if \<not> iconNameOK name then []
      else concat [''<svg class='', [quotation], ''ic'', [quotation], '' aria-hidden='', [quotation], ''true'', [quotation],
        '' focusable='', [quotation], ''false'', [quotation], ''><use href='', [quotation], ''#i-'', name, [quotation],
        ''></use></svg>''])"

definition shortImage :: "string \<Rightarrow> string" where
  "shortImage v = takeWhile (\<lambda>c. c \<noteq> CHR ''@'') v"

definition isolate :: "string \<Rightarrow> string" where
  "isolate s = [CHR 0xE2, CHR 0x81, CHR 0xA8] @ s @ [CHR 0xE2, CHR 0x81, CHR 0xA9]"

definition toBytes :: "int \<Rightarrow> string" where
  "toBytes n = isolate (size_text n)"

definition statusPill :: "string \<Rightarrow> string" where
  "statusPill s =
     (if s \<in> {''running'', ''active'', ''callable'', ''ready'', ''success'', ''completed'', ''leader''} then ''good''
      else if s \<in> {''pending'', ''starting'', ''syncing'', ''worker'', ''released'', ''created''} then ''warn''
      else if s \<in> {''error'', ''failed'', ''crash-loop'', ''down'', ''unreachable'', ''drain''} then ''bad''
      else ''warn'')"

section \<open>Facts\<close>

text \<open>Grouping adds commas and nothing else, and never next to a sign.\<close>

lemma digits_no_comma: "c \<in> set (nat_str n) \<Longrightarrow> c \<noteq> CHR '','' \<and> c \<noteq> CHR ''-''"
  using nat_str_digits [of n] by (auto simp: list_all_iff is_digit_def)

lemma group_rest_commas: "CHR '','' \<notin> set s \<Longrightarrow> filter (\<lambda>c. c \<noteq> CHR '','') (group_rest s) = s"
  by (induction s) auto

lemma group_commas: "filter (\<lambda>c. c \<noteq> CHR '','') (group v) = itoa v"
proof -
  have n: "CHR '','' \<notin> set (nat_str k)" "\<not> has_prefix (nat_str k) ''-''" for k
  proof -
    have "\<forall>c \<in> set (nat_str k). c \<noteq> CHR '','' \<and> c \<noteq> CHR ''-''" using digits_no_comma by blast
    then show "CHR '','' \<notin> set (nat_str k)" "\<not> has_prefix (nat_str k) ''-''"
      by (cases "nat_str k"; auto simp: has_prefix_def)+
  qed
  have "filter (\<lambda>c. c \<noteq> CHR '','') (case nat_str k of [] \<Rightarrow> [] | c # cs \<Rightarrow> c # group_rest cs) = nat_str k" for k
    using n(1) [of k] by (cases "nat_str k") (auto simp: group_rest_commas)
  moreover have "\<not> prefix ''-'' (nat_str k)" for k using n(2) [of k] by (simp add: has_prefix_def)
  ultimately show ?thesis by (auto simp: group_def itoa_def Let_def has_prefix_def)
qed

text \<open>The sign of a small negative number is lost.\<close>

lemma small_negative: "groupFloat ''-0.5'' = ''0.5''"
  by code_simp

text \<open>A missing translation is marked, unless the default language has one.\<close>

lemma Tr_missing:
  assumes "\<not> Has_Key d l k" "\<not> Has_Key d Default_Lang k"
  shows "Tr d l k = marker_open @ k @ marker_close" "TN d l k = []"
  using assms by (auto simp: Tr_def TN_def Has_Key_def Let_def has_prefix_def)

text \<open>An argument that looks like a later placeholder is filled in as well.\<close>

lemma arguments_are_refilled: "fill_from 0 [''{1}'', ''x''] ''{0}/{1}'' = ''x/x''"
  by code_simp

text \<open>Icons are safe to inline: their names have no character that HTML gives a meaning.\<close>

lemma icon_names: "iconNameOK n \<Longrightarrow> c \<in> set n \<Longrightarrow> c \<notin> {CHR ''<'', CHR ''>'', CHR ''&'', CHR 0x22, CHR 0x27}"
  by (auto simp: iconNameOK_def list_all_iff is_lower_def is_digit_def)

text \<open>The page of usage is filed under the overview.\<close>

lemma usage_crumb: "CrumbKey ''/web/usage'' = ''nav.overview''" "CrumbKey ''/web/stacks/shop'' = ''nav.stacks''"
  by code_simp+

text \<open>Every size below an exbibyte times 1024 has a unit.\<close>

lemma unit_index:
  assumes "m < 1024 ^ Suc k"
  shows "snd (unit_of m d e) \<le> e + k"
  using assms
proof (induction k arbitrary: m d e)
  case 0
  then show ?case by (simp add: unit_of.simps)
next
  case (Suc k)
  show ?case
  proof (cases "m \<ge> 1024")
    case True
    have "m div 1024 < 1024 ^ Suc k" using Suc.prems by (simp add: div_less_iff_less_mult)
    then show ?thesis using Suc.IH [of "m div 1024" "d * 1024" "Suc e"] True by (subst unit_of.simps) simp
  next
    case False
    then show ?thesis by (simp add: unit_of.simps)
  qed
qed

lemma size_unit: "n < 2 ^ 63 \<Longrightarrow> snd (unit_of (n div 1024) 1024 0) < length ''KMGTPE''"
proof -
  assume "n < 2 ^ 63"
  then have "n div 1024 < 1024 ^ Suc 5" by simp
  from unit_index [OF this, of 1024 0] show ?thesis by simp
qed

text \<open>Just below a unit a size is rounded up to a thousand and twenty-four of the smaller one.\<close>

lemma rounded_up: "size_text (1024 * 1024 - 1) = ''1024.0 KiB''"
  by code_simp

end
