(* ===== verification/Spec2Isabelle.thy ===== *)
theory Spec2Isabelle
  imports Store_Users Stacks_Http Backups Edge_Proxy Stacks_Properties Webhook_Receiver
    Cluster_Provisioning Cluster_Stacks Cluster_Credentials_Properties Cluster_Sync Cluster_Lifecycle
    Api_Certs Api_Services_Properties
    Console_Lockout_Properties Console_Settings_Properties Console_Pages_Properties
    Store_Migrations Backups_Trigger Edge_Config Console_Text
begin

text \<open>
  A verification development for pmcluster, the control plane of poor-man-stack (the Go module
  \<^verbatim>\<open>src/pmcluster\<close>).  File names below are relative to \<^verbatim>\<open>src/pmcluster/internal\<close>.

  \<^bold>\<open>The program.\<close>  An operator describes an application in a YAML manifest.  The daemon parses it,
  substitutes placeholders, validates it, translates it to a Compose document with Traefik labels,
  records a numbered revision in a SQLite store and hands the document to Docker Swarm.  Deploys
  arrive over a REST API guarded by bearer tokens, or from deploy webhooks guarded by an HMAC.
  An edge proxy stands in front of the daemon, backups are archives on disk with rows in the
  store, and the cluster's own stacks, secrets and configs are kept in the swarm.

  \<^bold>\<open>Conventions.\<close>  A Go struct is a record whose fields keep their Go names under a short prefix, an
  error is the left of a sum, a slice a list, a map an association list in the order one run
  ranges over it; a mutation returns the new state.  A function of the program keeps its name
  unless HOL or another package has it.  Code outside the repository (SQLite itself, the YAML
  and JSON libraries, AES-GCM, argon2id, SHA-256, HMAC, Docker, the token bucket of
  \<^verbatim>\<open>x/time/rate\<close>, the clock, the random source) is an argument of the definitions that call it; where a
  theorem needs it to behave as documented the hypothesis is named (\<^verbatim>\<open>gcm_ok\<close>, for instance) and a
  witness gives a concrete instance.

  \<^bold>\<open>The theories.\<close>
  \<^item> Prelude: results as sums, the theorem collections.  Go_Strings: the functions of Go's
    strings, strconv and path packages that the sources call.
  \<^item> Refs (\<^verbatim>\<open>refs\<close>), Dsl (\<^verbatim>\<open>pkg/dsl\<close>), Interpolate and Validate, Translate (\<^verbatim>\<open>manifest/ir.go\<close>,
    \<^verbatim>\<open>translate.go\<close>), Compose (\<^verbatim>\<open>compose.go\<close>, \<^verbatim>\<open>compose_writer.go\<close>): the manifest pipeline.  Its lemmas
    show that a validated manifest translates unless a config reference cannot be resolved, that
    the Compose document is closed under its own references, that secrets are mounted where the
    environment says, that every hostname gets a router, and how volumes are relocated.
  \<^item> Tables (lists of rows as SQL tables, and the locale \<^verbatim>\<open>named_rows\<close>), Store_Schema (the records
    of \<^verbatim>\<open>store\<close> and the database as one record), Store_Configs, Store_Stacks, Store_Users,
    Store_Misc: every statement of the store with the unique keys and cascades of its schema;
    Store_Migrations: the runner of the schema's scripts, and that a run after a failure ends as an
    undisturbed one.
    The locale is interpreted on configs, secrets, registries, webhook sources; the invariants are
    preserved by every operation.
  \<^item> Auth (\<^verbatim>\<open>auth\<close>, locale \<^verbatim>\<open>token_lookup\<close>, interpreted in Store_Users on the user table) and Cipher
    (\<^verbatim>\<open>credentials\<close>): tokens, hashes, the bearer middleware, encryption at rest, the key file.
    Store_Users follows a token through any run of operations on the users (\<^verbatim>\<open>users_run\<close>).
  \<^item> Workflow (\<^verbatim>\<open>workflow\<close>), Stacks_Deploy (\<^verbatim>\<open>stacks/deploy.go\<close>), Stacks_Properties, Stacks_Http: the
    deploy engine as workflows over the store and the swarm, what each operation does on success
    and on every failure, and the REST handlers.  Go ranges over a map in a new order every time: a
    deploy and a sync have orders of their own (\<^verbatim>\<open>egMapOrder\<close>, \<^verbatim>\<open>egSyncOrder\<close>).
  \<^item> Webhook_Receiver (\<^verbatim>\<open>webhooks\<close>).  Backups and Backups_Trigger (\<^verbatim>\<open>backups\<close>): a restore is the log of the
    calls it makes to the system, the failing one included; what a path names when there are links is
    \<^verbatim>\<open>walk_links\<close>.  Edge_Config, Edge_Net and Edge_Proxy (\<^verbatim>\<open>edgeproxy\<close> and the client address and rate limit
    of \<^verbatim>\<open>server\<close>): the edge is an inductive step relation in which the steps of concurrent requests
    interleave, with a step for each critical section: a failure is counted, then the address is
    banned, then its counter deleted.  \<^verbatim>\<open>recordFailure\<close> and \<^verbatim>\<open>edge_arrive\<close> are the compositions of these
    steps for a request that is alone.

  \<^item> The cluster (\<^verbatim>\<open>cluster\<close>).  Swarm_Client is the adapter of \<^verbatim>\<open>docker/client.go\<close> over a record of
    the SDK's calls.  Cluster_Secrets and Cluster_Provisioning: networks, versioned secrets and
    configs, with the contract of the SDK's object calls.  Cluster_Stacks: the deployer's docker
    commands, retries and the health wait.  Cluster_Credentials and its properties: bootstrap and
    rotation.  Cluster_State: install settings and preflight.  Cluster_Templates, Cluster_Sync: the
    templates, their rendering and their sync into the store.
  \<^item> Cluster_Lifecycle (\<^verbatim>\<open>up.go\<close>) and Cluster_Update (\<^verbatim>\<open>update.go\<close>, \<^verbatim>\<open>down.go\<close>): the three workflows over
    store and swarm.  Cluster_Reconcile shows that a reconcile is never repeated, Cluster_Bringup
    what a failed bring-up leaves behind.  Cluster_Certs (\<^verbatim>\<open>tlscerts\<close>, \<^verbatim>\<open>sitecert.go\<close>, \<^verbatim>\<open>hostcerts.go\<close>)
    and Cluster_Certs_Properties: certificates.

  \<^item> The REST API.  Api_Wire: JSON values, error answers and the core of the remote client
    (\<^verbatim>\<open>remote/remote.go\<close>).  Api_Configs (\<^verbatim>\<open>configs\<close>), Api_Secrets (\<^verbatim>\<open>secrets\<close>), Api_Keys (\<^verbatim>\<open>apikeys\<close>,
    \<^verbatim>\<open>settings\<close>, \<^verbatim>\<open>usage\<close>), Api_Certs (\<^verbatim>\<open>certs\<close>), Api_Services (\<^verbatim>\<open>services\<close>, \<^verbatim>\<open>api\<close>): for each context its
    local adapter, its handlers and its remote adapter.  Api_Refinement, Api_Properties and
    Api_Services_Properties show that a remote adapter against the handlers refines the local one,
    for which names it does not, and what the endpoints protect; \<^verbatim>\<open>api_server\<close> is the routes for a user who has
    passed, \<^verbatim>\<open>bearer_api\<close> adds the middleware with its write of the last use.  The locale \<^verbatim>\<open>named_port\<close> states what
    get and remove promise; the local and the remote adapters of configs and secrets interpret it.

  \<^item> The rest of the API.  Api_Stacks (\<^verbatim>\<open>stacks/http.go\<close>, \<^verbatim>\<open>remote/stacks.go\<close>): the engine over HTTP and the
    daemon with its store, stacks and services behind one router; its properties show that the remote
    engine moves the world as the local one.  Api_Operations: backups, webhook sources and usage over
    HTTP with their remote adapters.

  \<^item> The operator console (\<^verbatim>\<open>ui\<close>), a second server with a store of its own.  Console_Store (\<^verbatim>\<open>ui/store\<close>),
    Console_Session (\<^verbatim>\<open>middleware/session.go\<close>, \<^verbatim>\<open>controllers/auth.go\<close>, the start in \<^verbatim>\<open>ui.go\<close>), Console_Users
    (\<^verbatim>\<open>users.go\<close>), Console_Api and Console_Calls (\<^verbatim>\<open>pmapi\<close>, the console's client of the daemon).  Pages, one
    theory for one or more files of \<^verbatim>\<open>controllers\<close>: Console_Settings, Console_Stack_Configs, Console_Services,
    Console_Stacks (stacks and the deploy form), Console_Operations (webhooks, backups, usage),
    Console_Certificates (certificates, overview); Console_Text: languages, plural forms, numbers and the
    helpers of the templates.  Console_Pages joins their handlers and shows which of them send the daemon
    GET requests only; Console_Routes has the route table with its roles and gates.  A handler takes the
    console's store and the daemon's state and gives a reply and both; \<^verbatim>\<open>serve\<close> is a whole request.
    The client is shared by all requests and its address is set by most: a request says where it points
    when the request arrives.  Console_Sessions_Properties: cookies.
    Console_Access_Properties: what each role can change (a daemon answering GET may still write, so the
    states a viewer can bring about are those that GET requests reach, \<^verbatim>\<open>gets\<close>), and that an administrator
    remains when requests do not overlap.  Console_Lockout_Properties: overlapping requests and long passwords.
    Console_Settings_Properties: forms from the browser to the daemon's store.
    Console_Pages_Properties: the deploy form down to the swarm, the usage page, the counts of the index,
    what counts as covered by a backup.

  \<^bold>\<open>Bounds.\<close>  Loops that always end are structural or have a measure; the search for a free
  revision is bounded by ten thousand candidates as in the code.  Row ids, revisions and times are
  unbounded integers: SQLite's and Go's are 64 bit, far from exhausted by counting.

  \<^bold>\<open>Not modelled.\<close>  Terminal output and telemetry; flag parsing (\<^verbatim>\<open>cli\<close>); templates, dictionaries, static
  files and the shell of the console; failures of a client's transport; I/O failures of
  SQLite; cancellation of contexts where nothing depends on it; and the components the manifest lists
  as such with the reason.
\<close>

end
